(* ===== verification/Vault_Error.thy ===== *)
theory Vault_Error
  imports Prelude
begin

text \<open>
  \<open>types/error.rs\<close>: the error enum, its \<open>Display\<close> text, its conversions and its
  classification methods; and the outcome of a call: a value, an error, or a panic.
  The errors of third-party crates are opaque: a \<open>reqwest::Error\<close> is the two answers
  the code asks of it and its text, a parse error is its text.
\<close>

record reqwest_error =
  re_timeout :: bool
  re_connect :: bool
  re_text :: string

datatype vault_error =
    Http reqwest_error
  | Api (api_status: nat) (api_errors: "string list")
  | Sealed (sealed_url: string)
  | PermissionDenied (denied_errors: "string list")
  | NotFound (missing_path: string)
  | RateLimited (retry_after: "nat option")
  | ConsistencyRetry
  | EmptyResponse
  | AuthRequired
  | Config string
  | Deserialize string
  | Url string
  | LockPoisoned
  | CircuitOpen
  | FieldNotFound (field_mount: string) (field_path: string) (field_name: string)

datatype 'a outcome =
    Ok 'a
  | Err vault_error
  | Panic string

primrec map_ok :: "('a \<Rightarrow> 'b) \<Rightarrow> 'a outcome \<Rightarrow> 'b outcome" where
  "map_ok f (Ok a) = Ok (f a)"
| "map_ok f (Err e) = Err e"
| "map_ok f (Panic m) = Panic m"

primrec then_ok :: "'a outcome \<Rightarrow> ('a \<Rightarrow> 'b outcome) \<Rightarrow> 'b outcome" where
  "then_ok (Ok a) f = f a"
| "then_ok (Err e) f = Err e"
| "then_ok (Panic m) f = Panic m"

definition ok_or :: "'a option \<Rightarrow> vault_error \<Rightarrow> 'a outcome" where
  "ok_or x e = (case x of Some a \<Rightarrow> Ok a | None \<Rightarrow> Err e)"

lemma ok_or_simps [simp]: "ok_or (Some a) e = Ok a" "ok_or None e = Err e"
  by (simp_all add: ok_or_def)

primrec is_ok :: "'a outcome \<Rightarrow> bool" where
  "is_ok (Ok a) = True"
| "is_ok (Err e) = False"
| "is_ok (Panic m) = False"

lemma then_ok_eq_Ok [simp]: "then_ok x f = Ok b \<longleftrightarrow> (\<exists>a. x = Ok a \<and> f a = Ok b)"
  by (cases x) auto

lemma map_ok_eq_Ok [simp]: "map_ok f x = Ok b \<longleftrightarrow> (\<exists>a. x = Ok a \<and> f a = b)"
  by (cases x) auto

section \<open>Display\<close>

fun join :: "string \<Rightarrow> string list \<Rightarrow> string" where
  "join sep [] = []"
| "join sep [x] = x"
| "join sep (x # y # zs) = x @ sep @ join sep (y # zs)"

fun error_text :: "vault_error \<Rightarrow> string" where
  "error_text (Http e) = ''HTTP request failed: '' @ re_text e"
| "error_text (Api st es) = ''Vault API error (HTTP '' @ show_nat st @ ''): '' @ join ''; '' es"
| "error_text (Sealed u) = ''Vault is sealed ('' @ u @ '')''"
| "error_text (PermissionDenied es) = ''Permission denied: '' @ join ''; '' es"
| "error_text (NotFound p) = ''Resource not found at '' @ p"
| "error_text (RateLimited ra) = ''Rate limited (HTTP 429)'' @
     (case ra of Some s \<Rightarrow> ''; retry after '' @ show_nat s @ ''s'' | None \<Rightarrow> [])"
| "error_text ConsistencyRetry = ''Eventual consistency retry needed (HTTP 412)''"
| "error_text EmptyResponse = ''Empty response from Vault where data was expected''"
| "error_text AuthRequired = ''Authentication required or token expired''"
| "error_text (Config m) = ''Invalid client configuration: '' @ m"
| "error_text (Deserialize m) = ''Failed to deserialize response: '' @ m"
| "error_text (Url m) = ''URL construction error: '' @ m"
| "error_text LockPoisoned = ''Internal lock poisoned''"
| "error_text CircuitOpen = ''Circuit breaker is open '' @ [CHR 0xE2, CHR 0x80, CHR 0x94]
     @ '' Vault appears unreachable''"
| "error_text (FieldNotFound m p f) =
     ''Field '' @ [CHR 39] @ f @ [CHR 39] @ '' not found at '' @ [CHR 39] @ m @ ''/'' @ p @ [CHR 39]"

section \<open>Conversions\<close>

text \<open>The \<open>From\<close> impls: \<open>serde_json::Error\<close>, \<open>FromUtf8Error\<close>, \<open>ParseIntError\<close>, \<open>ParseFloatError\<close>.\<close>

definition from_serde_json :: "string \<Rightarrow> vault_error" where
  "from_serde_json err = Deserialize err"

definition from_utf8_error :: "string \<Rightarrow> vault_error" where
  "from_utf8_error err = Config (''invalid UTF-8: '' @ err)"

definition from_parse_int :: "string \<Rightarrow> vault_error" where
  "from_parse_int err = Config (''integer parse error: '' @ err)"

definition from_parse_float :: "string \<Rightarrow> vault_error" where
  "from_parse_float err = Config (''float parse error: '' @ err)"

section \<open>Classification\<close>

fun is_retryable :: "vault_error \<Rightarrow> bool" where
  "is_retryable (Http e) = (re_timeout e \<or> re_connect e)"
| "is_retryable (Sealed _) = True"
| "is_retryable (RateLimited _) = True"
| "is_retryable ConsistencyRetry = True"
| "is_retryable (Api st _) = (st = 500 \<or> st = 502 \<or> st = 503 \<or> st = 504)"
| "is_retryable _ = False"

fun is_auth_error :: "vault_error \<Rightarrow> bool" where
  "is_auth_error (PermissionDenied _) = True"
| "is_auth_error AuthRequired = True"
| "is_auth_error _ = False"

fun status_code :: "vault_error \<Rightarrow> nat option" where
  "status_code (Api st _) = Some st"
| "status_code AuthRequired = Some 401"
| "status_code (PermissionDenied _) = Some 403"
| "status_code (NotFound _) = Some 404"
| "status_code (RateLimited _) = Some 429"
| "status_code ConsistencyRetry = Some 412"
| "status_code (Sealed _) = Some 503"
| "status_code _ = None"

lemma auth_error_not_retryable: "is_auth_error e \<Longrightarrow> \<not> is_retryable e"
  by (cases e) auto

lemma auth_error_status: "is_auth_error e \<Longrightarrow> status_code e = Some 401 \<or> status_code e = Some 403"
  by (cases e) auto

end
