(* ===== verification/Std_Time.thy ===== *)
theory Std_Time
  imports Complex_Main Vault_Error
begin

text \<open>
  \<open>std::time\<close> and the binary64 arithmetic behind \<open>Duration::mul_f64\<close>. A duration or an
  instant is a number of nanoseconds. A nonnegative binary64 value is a pair \<open>(m, e)\<close> for
  \<open>m * 2^e\<close>; every operation rounds its exact result to 53 significant bits, ties to even
  (the values here stay far from overflow and underflow). \<open>near k x y\<close> bounds the relative error
  by \<open>k\<close> units of \<open>2^-53\<close>.
\<close>

definition nanos_per_sec :: nat where
  "nanos_per_sec = 1000000000"

definition secs :: "nat \<Rightarrow> nat" where
  "secs n = n * 1000000000"

definition millis :: "nat \<Rightarrow> nat" where
  "millis n = n * 1000000"

definition duration_max :: nat where
  "duration_max = (2 ^ 64 - 1) * 1000000000 + 999999999"

text \<open>The largest instant: a signed 64-bit count of seconds, as on Linux.\<close>

definition instant_max :: nat where
  "instant_max = (2 ^ 63 - 1) * 1000000000 + 999999999"

definition duration_checked_mul :: "nat \<Rightarrow> nat \<Rightarrow> nat option" where
  "duration_checked_mul d k = (if d * k \<le> duration_max then Some (d * k) else None)"

definition duration_add :: "nat \<Rightarrow> nat \<Rightarrow> nat outcome" where
  "duration_add a b =
     (if a + b \<le> duration_max then Ok (a + b) else Panic ''overflow when adding durations'')"

definition instant_checked_add :: "nat \<Rightarrow> nat \<Rightarrow> nat option" where
  "instant_checked_add t d = (if t + d \<le> instant_max then Some (t + d) else None)"

definition instant_add :: "nat \<Rightarrow> nat \<Rightarrow> nat outcome" where
  "instant_add t d =
     (if t + d \<le> instant_max then Ok (t + d) else Panic ''overflow when adding duration to instant'')"

text \<open>\<open>u32::saturating_pow\<close> of two.\<close>

definition saturating_pow2 :: "nat \<Rightarrow> nat" where
  "saturating_pow2 n = min (2 ^ n) (2 ^ 32 - 1)"

section \<open>binary64\<close>

type_synonym f64 = "nat \<times> int"

definition f64_val :: "f64 \<Rightarrow> real" where
  "f64_val x = real (fst x) * 2 powi snd x"

text \<open>Round \<open>n / d\<close> to the nearest integer, ties to even.\<close>

definition rne :: "nat \<Rightarrow> nat \<Rightarrow> nat" where
  "rne n d =
     (let q = n div d; r = n mod d
      in if 2 * r < d then q else if d < 2 * r then q + 1 else if even q then q else q + 1)"

fun bitlen :: "nat \<Rightarrow> nat" where
  "bitlen n = (if n = 0 then 0 else Suc (bitlen (n div 2)))"

declare bitlen.simps [simp del]

text \<open>Round \<open>n / d\<close> to 53 significant bits.\<close>

definition scale_num :: "nat \<Rightarrow> int \<Rightarrow> nat" where
  "scale_num n e = (if 0 \<le> e then n else n * 2 ^ nat (- e))"

definition scale_den :: "nat \<Rightarrow> int \<Rightarrow> nat" where
  "scale_den d e = (if 0 \<le> e then d * 2 ^ nat e else d)"

definition f64_exp :: "nat \<Rightarrow> nat \<Rightarrow> int" where
  "f64_exp n d =
     (let e = int (bitlen n) - int (bitlen d) - 53
      in if scale_den d e * 2 ^ 53 \<le> scale_num n e then e + 1 else e)"

definition f64_round :: "nat \<Rightarrow> nat \<Rightarrow> f64" where
  "f64_round n d =
     (if n = 0 then (0, 0)
      else let e = f64_exp n d in (rne (scale_num n e) (scale_den d e), e))"

definition f64_ratio :: "nat \<Rightarrow> nat \<Rightarrow> int \<Rightarrow> f64" where
  "f64_ratio a b e = f64_round (scale_num a (- e)) (scale_den b (- e))"

definition f64_of_nat :: "nat \<Rightarrow> f64" where
  "f64_of_nat n = f64_round n 1"

definition f64_mul :: "f64 \<Rightarrow> f64 \<Rightarrow> f64" where
  "f64_mul x y = f64_ratio (fst x * fst y) 1 (snd x + snd y)"

definition f64_div :: "f64 \<Rightarrow> f64 \<Rightarrow> f64" where
  "f64_div x y = f64_ratio (fst x) (fst y) (snd x - snd y)"

definition f64_add :: "f64 \<Rightarrow> f64 \<Rightarrow> f64" where
  "f64_add x y =
     (let e = min (snd x) (snd y)
      in f64_ratio (fst x * 2 ^ nat (snd x - e) + fst y * 2 ^ nat (snd y - e)) 1 e)"

section \<open>Duration::mul_f64\<close>

definition as_secs_f64 :: "nat \<Rightarrow> f64" where
  "as_secs_f64 d =
     f64_add (f64_of_nat (d div nanos_per_sec))
       (f64_div (f64_of_nat (d mod nanos_per_sec)) (f64_of_nat nanos_per_sec))"

text \<open>\<open>Duration::from_secs_f64\<close>: the nearest nanosecond, ties to even; too large a value panics.\<close>

definition f64_to_nanos :: "f64 \<Rightarrow> nat" where
  "f64_to_nanos x = rne (scale_num (fst x * nanos_per_sec) (- snd x)) (scale_den 1 (- snd x))"

definition mul_f64 :: "nat \<Rightarrow> f64 \<Rightarrow> nat outcome" where
  "mul_f64 d q =
     (let ns = f64_to_nanos (f64_mul q (as_secs_f64 d))
      in if ns \<le> duration_max then Ok ns else Panic ''cannot convert float seconds to Duration'')"

text \<open>The two literals of the source.\<close>

definition f64_0_2 :: f64 where
  "f64_0_2 = f64_round 2 10"

definition f64_0_66 :: f64 where
  "f64_0_66 = f64_round 66 100"

section \<open>Rounding errors\<close>

lemma bitlen_0 [simp]: "bitlen 0 = 0"
  by (simp add: bitlen.simps)

lemma bitlen_bounds: "n < 2 ^ bitlen n \<and> (0 < n \<longrightarrow> 2 ^ (bitlen n - 1) \<le> n)"
proof (induction n rule: bitlen.induct)
  case (1 n)
  show ?case
  proof (cases "n = 0")
    case True
    then show ?thesis by simp
  next
    case False
    have b: "bitlen n = Suc (bitlen (n div 2))" using False by (simp add: bitlen.simps [of n])
    have IH: "n div 2 < 2 ^ bitlen (n div 2)" "0 < n div 2 \<longrightarrow> 2 ^ (bitlen (n div 2) - 1) \<le> n div 2"
      using 1 [OF False] by auto
    have up: "n < 2 * 2 ^ bitlen (n div 2)" using IH(1) by linarith
    have "2 ^ bitlen (n div 2) \<le> n"
    proof (cases "n div 2 = 0")
      case True
      then show ?thesis using False by (simp add: bitlen.simps [of "n div 2"])
    next
      case nz: False
      then obtain k where k: "bitlen (n div 2) = Suc k" by (simp add: bitlen.simps [of "n div 2"])
      then have "2 ^ k \<le> n div 2" using IH(2) nz by simp
      then have "2 * 2 ^ k \<le> n" by linarith
      then show ?thesis by (simp add: k)
    qed
    with up b show ?thesis by simp
  qed
qed

lemma rne_error:
  assumes "0 < d"
  shows "\<bar>real (rne n d) - real n / real d\<bar> \<le> 1 / 2"
proof -
  let ?q = "n div d" and ?r = "n mod d"
  have n: "real n = real ?q * real d + real ?r"
    by (metis div_mult_mod_eq of_nat_add of_nat_mult)
  have nd: "real n / real d = real ?q + real ?r / real d"
    using assms by (simp add: n add_divide_distrib)
  have r: "0 \<le> real ?r / real d" "real ?r / real d \<le> 1"
    using assms by (simp_all add: less_imp_le)
  have lo: "real ?r / real d \<le> 1 / 2" if "2 * ?r \<le> d"
    using that assms by (simp add: field_simps)
  have hi: "1 / 2 \<le> real ?r / real d" if "d \<le> 2 * ?r"
    using that assms by (simp add: field_simps)
  show ?thesis
    using r lo hi by (auto simp: rne_def Let_def nd abs_le_iff) (linarith+)?
qed

lemma scale_ratio:
  assumes "0 < d"
  shows "real (scale_num n e) / real (scale_den d e) = (real n / real d) * 2 powi (- e)"
  using assms by (auto simp: scale_num_def scale_den_def power_int_def field_simps)

lemma scale_den_pos [simp]: "0 < d \<Longrightarrow> 0 < scale_den d e"
  by (simp add: scale_den_def)

lemma bitlen_powi:
  assumes "0 < n"
  shows "2 powi (int (bitlen n) - 1) \<le> real n" and "real n < 2 powi int (bitlen n)"
proof -
  obtain k where k: "bitlen n = Suc k" using assms by (simp add: bitlen.simps [of n])
  have "2 ^ k \<le> n" "n < 2 ^ Suc k" using bitlen_bounds [of n] assms k by simp_all
  then have r: "2 ^ k \<le> real n" "real n < 2 ^ Suc k"
    by (metis of_nat_le_iff of_nat_numeral of_nat_power, metis of_nat_less_iff of_nat_numeral of_nat_power)
  then show "2 powi (int (bitlen n) - 1) \<le> real n" by (simp add: k)
  have "(2::real) powi int (Suc k) = 2 ^ Suc k" by (rule power_int_of_nat)
  with r show "real n < 2 powi int (bitlen n)" by (simp add: k)
qed

lemma powi_move: "c \<le> a * 2 powi (- e) \<Longrightarrow> c * 2 powi e \<le> (a :: real)"
  by (simp add: power_int_minus pos_le_divide_eq flip: divide_inverse)

lemma powi_add: "(2::real) powi (i + j) = 2 powi i * 2 powi j"
  by (simp add: power_int_add)

lemma powi_divide: "i = k + j \<Longrightarrow> (2::real) powi k = 2 powi i / 2 powi j"
  by (simp add: powi_add)

lemma ratio_bits:
  assumes "0 < n" and "0 < d"
  shows "2 powi (int (bitlen n) - int (bitlen d) - 1) \<le> real n / real d"
    and "real n / real d < 2 powi (int (bitlen n) - int (bitlen d) + 1)"
proof -
  note n = bitlen_powi [OF assms(1)] and d = bitlen_powi [OF assms(2)]
  have "2 powi (int (bitlen n) - int (bitlen d) - 1)
      = (2 powi (int (bitlen n) - 1) :: real) / 2 powi int (bitlen d)"
    by (rule powi_divide) simp
  also have "\<dots> \<le> real n / real d"
    using n(1) d(2) assms by (intro frac_le) auto
  finally show "2 powi (int (bitlen n) - int (bitlen d) - 1) \<le> real n / real d" .
  have "real n / real d < (2 powi int (bitlen n) :: real) / 2 powi (int (bitlen d) - 1)"
    using n(2) d(1) assms by (intro frac_less) auto
  also have "\<dots> = 2 powi (int (bitlen n) - int (bitlen d) + 1)"
    by (rule powi_divide [symmetric]) simp
  finally show "real n / real d < 2 powi (int (bitlen n) - int (bitlen d) + 1)" .
qed

lemma f64_exp_lower:
  assumes "0 < n" and "0 < d"
  shows "2 ^ 52 * 2 powi f64_exp n d \<le> real n / real d"
proof -
  let ?e = "int (bitlen n) - int (bitlen d) - 53"
  have sd: "0 < real (scale_den d ?e)" using assms by simp
  show ?thesis
  proof (cases "scale_den d ?e * 2 ^ 53 \<le> scale_num n ?e")
    case True
    then have "real (scale_den d ?e) * 2 ^ 53 \<le> real (scale_num n ?e)"
      by (metis of_nat_le_iff of_nat_mult of_nat_numeral of_nat_power)
    then have "2 ^ 53 \<le> real (scale_num n ?e) / real (scale_den d ?e)"
      using sd by (simp add: field_simps)
    then have "2 ^ 53 \<le> (real n / real d) * 2 powi (- ?e)"
      using scale_ratio [OF assms(2)] by simp
    then have "2 ^ 53 * 2 powi ?e \<le> real n / real d" by (rule powi_move)
    moreover have "(2::real) ^ 52 * 2 powi (?e + 1) = 2 ^ 53 * 2 powi ?e"
      using power_int_add [of "2::real" ?e 1] by simp
    moreover have "f64_exp n d = ?e + 1" using True by (simp add: f64_exp_def Let_def)
    ultimately show ?thesis by simp
  next
    case False
    have "(2::real) ^ 52 * 2 powi ?e = 2 powi (52 + ?e)" by (simp only: powi_add) simp
    also have "52 + ?e = int (bitlen n) - int (bitlen d) - 1" by simp
    finally show ?thesis
      using False ratio_bits(1) [OF assms] by (simp add: f64_exp_def Let_def)
  qed
qed

text \<open>The relative error of one rounding is at most half a unit in the 53rd bit.\<close>

definition near :: "nat \<Rightarrow> real \<Rightarrow> real \<Rightarrow> bool" where
  "near k x y \<longleftrightarrow> 0 \<le> y \<and> \<bar>x - y\<bar> \<le> real k / 2 ^ 53 * y"

lemma near_f64_round:
  assumes "0 < d"
  shows "near 1 (f64_val (f64_round n d)) (real n / real d)"
proof (cases "n = 0")
  case False
  let ?e = "f64_exp n d"
  let ?p = "2 powi ?e :: real"
  have p: "0 < ?p" by simp
  have "\<bar>real (rne (scale_num n ?e) (scale_den d ?e)) - (real n / real d) * 2 powi (- ?e)\<bar> \<le> 1 / 2"
    using rne_error [of "scale_den d ?e" "scale_num n ?e"] assms by (simp add: scale_ratio)
  then have "\<bar>real (rne (scale_num n ?e) (scale_den d ?e)) - (real n / real d) * 2 powi (- ?e)\<bar> * ?p \<le> 1 / 2 * ?p"
    using p by (intro mult_right_mono) auto
  also have "\<bar>real (rne (scale_num n ?e) (scale_den d ?e)) - (real n / real d) * 2 powi (- ?e)\<bar> * ?p
      = \<bar>(real (rne (scale_num n ?e) (scale_den d ?e)) - (real n / real d) * 2 powi (- ?e)) * ?p\<bar>"
    using p by (simp add: abs_mult)
  also have "(real (rne (scale_num n ?e) (scale_den d ?e)) - (real n / real d) * 2 powi (- ?e)) * ?p
      = f64_val (f64_round n d) - real n / real d"
    using False p by (simp add: f64_val_def f64_round_def Let_def power_int_minus left_diff_distrib)
  finally have err: "\<bar>f64_val (f64_round n d) - real n / real d\<bar> \<le> 1 / 2 * ?p" .
  have "1 / 2 * ?p \<le> 1 / 2 ^ 53 * (real n / real d)"
    using f64_exp_lower [of n d] False assms by simp
  with err show ?thesis by (simp add: near_def)
qed (simp add: f64_round_def f64_val_def near_def)

lemma f64_ratio_val: "0 < b \<Longrightarrow> near 1 (f64_val (f64_ratio a b e)) (real a / real b * 2 powi e)"
  using near_f64_round [of "scale_den b (- e)" "scale_num a (- e)"]
  by (simp add: f64_ratio_def scale_ratio)

lemma near_of_nat: "near 1 (f64_val (f64_of_nat n)) (real n)"
  using near_f64_round [of 1 n] by (simp add: f64_of_nat_def)

lemma near_f64_mul: "near 1 (f64_val (f64_mul x y)) (f64_val x * f64_val y)"
  using f64_ratio_val [of 1 "fst x * fst y" "snd x + snd y"]
  by (simp add: f64_mul_def f64_val_def power_int_add mult_ac)

lemma near_f64_div: "0 < fst y \<Longrightarrow> near 1 (f64_val (f64_div x y)) (f64_val x / f64_val y)"
  using f64_ratio_val [of "fst y" "fst x" "snd x - snd y"]
  by (simp add: f64_div_def f64_val_def power_int_diff mult_ac)

lemma near_f64_add: "near 1 (f64_val (f64_add x y)) (f64_val x + f64_val y)"
proof -
  define e where "e = min (snd x) (snd y)"
  have pow: "(2::real) ^ nat (k - e) * 2 powi e = 2 powi k" if "e \<le> k" for k
  proof -
    have "(2::real) ^ nat (k - e) = 2 powi (k - e)" using that by (simp add: power_int_def)
    then show ?thesis by (simp flip: power_int_add)
  qed
  have "near 1 (f64_val (f64_add x y))
      (real (fst x * 2 ^ nat (snd x - e) + fst y * 2 ^ nat (snd y - e)) * 2 powi e)"
    using f64_ratio_val [of 1 "fst x * 2 ^ nat (snd x - e) + fst y * 2 ^ nat (snd y - e)" e]
    by (simp add: f64_add_def e_def [symmetric])
  also have "real (fst x * 2 ^ nat (snd x - e) + fst y * 2 ^ nat (snd y - e)) * 2 powi e
      = real (fst x) * (2 ^ nat (snd x - e) * 2 powi e) + real (fst y) * (2 ^ nat (snd y - e) * 2 powi e)"
    by (simp add: algebra_simps)
  also have "\<dots> = f64_val x + f64_val y"
    using pow [of "snd x"] pow [of "snd y"] by (simp add: f64_val_def e_def)
  finally show ?thesis .
qed

lemma near_mono: "near a x y \<Longrightarrow> a \<le> b \<Longrightarrow> near b x y"
  unfolding near_def by (smt (verit) divide_right_mono mult_right_mono of_nat_mono zero_le_power)

lemma near_self: "0 \<le> x \<Longrightarrow> near a x x"
  by (simp add: near_def)

lemma f64_val_nonneg [simp]: "0 \<le> f64_val x"
  by (simp add: f64_val_def)

lemma near_trans:
  assumes "near a x y" and "near b y z" and "a \<le> 64" and "b \<le> 64"
  shows "near (a + b + 1) x z"
proof -
  define u :: real where "u = 1 / 2 ^ 53"
  have z: "0 \<le> z" and xy: "\<bar>x - y\<bar> \<le> real a * u * y" and yz: "\<bar>y - z\<bar> \<le> real b * u * z"
    using assms(1,2) by (auto simp: near_def u_def)
  have "y \<le> z + real b * u * z" using yz by linarith
  then have "real a * u * y \<le> real a * u * (z + real b * u * z)"
    by (intro mult_left_mono) (auto simp: u_def)
  also have "\<dots> = real a * u * z + (real a * real b * u) * (u * z)" by (simp add: algebra_simps)
  also have "\<dots> \<le> real a * u * z + 1 * (u * z)"
  proof -
    have "real a * real b \<le> 64 * 64" using assms(3,4) by (intro mult_mono) auto
    then have "real a * real b * u \<le> 1" by (simp add: u_def)
    then show ?thesis using z by (intro add_left_mono mult_right_mono) (auto simp: u_def)
  qed
  finally have "\<bar>x - z\<bar> \<le> real a * u * z + u * z + real b * u * z" using xy yz by linarith
  also have "\<dots> = real (a + b + 1) / 2 ^ 53 * z" by (simp add: u_def algebra_simps)
  finally show ?thesis using z by (simp add: near_def)
qed

lemma near_add: "near a x y \<Longrightarrow> near a x' y' \<Longrightarrow> near a (x + x') (y + y')"
  unfolding near_def distrib_left by linarith

lemma near_scale: "near a x y \<Longrightarrow> 0 \<le> c \<Longrightarrow> near a (c * x) (c * y)"
proof -
  assume h: "near a x y" and c: "0 \<le> c"
  have "\<bar>c * x - c * y\<bar> = c * \<bar>x - y\<bar>" using c by (simp add: abs_mult flip: right_diff_distrib)
  also have "\<dots> \<le> c * (real a / 2 ^ 53 * y)" using h c by (intro mult_left_mono) (auto simp: near_def)
  finally show ?thesis using h c by (simp add: near_def mult_ac)
qed

lemma near_mult:
  assumes "near a x y" and "near b x' y'" and "0 \<le> x'" and "a \<le> 64" and "b \<le> 64"
  shows "near (a + b + 1) (x * x') (y * y')"
proof (rule near_trans)
  show "near a (x * x') (y * x')" using near_scale [OF assms(1,3)] by (simp add: mult.commute)
  show "near b (y * x') (y * y')" using near_scale [OF assms(2)] assms(1) by (simp add: near_def)
qed (use assms in auto)

lemma f64_val_nanos: "f64_val (f64_of_nat nanos_per_sec) = 10 ^ 9"
proof -
  have "f64_of_nat nanos_per_sec = (8388608000000000, -23)"
    by (simp add: f64_of_nat_def f64_round_def f64_exp_def scale_num_def scale_den_def rne_def
        nanos_per_sec_def bitlen.simps Let_def)
  then show ?thesis by (simp add: f64_val_def power_int_def power_one_over)
qed

lemma near_as_secs: "near 5 (f64_val (as_secs_f64 d)) (real d / 10 ^ 9)"
proof -
  let ?s = "d div nanos_per_sec" and ?n = "d mod nanos_per_sec"
  have pos: "0 < fst (f64_of_nat nanos_per_sec)"
    using f64_val_nanos by (auto simp: f64_val_def intro!: gr0I)
  have "near 1 (f64_val (f64_of_nat ?n) / 10 ^ 9) (real ?n / 10 ^ 9)"
    using near_scale [OF near_of_nat, of "1 / 10 ^ 9" ?n] by simp
  then have n: "near 3 (f64_val (f64_div (f64_of_nat ?n) (f64_of_nat nanos_per_sec))) (real ?n / 10 ^ 9)"
    using near_trans [of 1 "f64_val (f64_div (f64_of_nat ?n) (f64_of_nat nanos_per_sec))"
        "f64_val (f64_of_nat ?n) / 10 ^ 9" 1]
      near_f64_div [OF pos, of "f64_of_nat ?n"] f64_val_nanos
    by (simp add: numeral_3_eq_3)
  have s: "near 3 (f64_val (f64_of_nat ?s)) (real ?s)"
    using near_of_nat by (rule near_mono) simp
  have "real d = real (?s * nanos_per_sec + ?n)" by (simp only: div_mult_mod_eq)
  also have "\<dots> = real ?s * 10 ^ 9 + real ?n"
    by (simp only: of_nat_add of_nat_mult) (simp add: nanos_per_sec_def)
  finally have "real d = real ?s * 10 ^ 9 + real ?n" .
  then have d: "real d / 10 ^ 9 = real ?s + real ?n / 10 ^ 9" by (simp add: add_divide_distrib)
  show ?thesis
    using near_trans [OF near_f64_add near_add [OF s n]] unfolding as_secs_f64_def d by simp
qed

lemma f64_to_nanos_error: "\<bar>real (f64_to_nanos x) - f64_val x * 10 ^ 9\<bar> \<le> 1 / 2"
proof -
  have "real (scale_num (fst x * nanos_per_sec) (- snd x)) / real (scale_den 1 (- snd x))
      = f64_val x * 10 ^ 9"
    by (simp add: scale_ratio f64_val_def nanos_per_sec_def)
  then show ?thesis
    using rne_error [of "scale_den 1 (- snd x)" "scale_num (fst x * nanos_per_sec) (- snd x)"]
    by (simp add: f64_to_nanos_def)
qed

text \<open>
  \<open>mul_f64\<close> by a literal \<open>r\<close>: the result is \<open>r\<close> times the duration, up to nine rounding units
  and half a nanosecond.
\<close>

lemma mul_f64_error:
  assumes "near 1 (f64_val q) r"
  shows "\<bar>real (f64_to_nanos (f64_mul q (as_secs_f64 d))) - r * real d\<bar> \<le> 9 / 2 ^ 53 * (r * real d) + 1 / 2"
proof -
  have "near 7 (f64_val q * f64_val (as_secs_f64 d)) (r * (real d / 10 ^ 9))"
    using near_mult [OF assms near_as_secs, of d] by simp
  then have "near 9 (f64_val (f64_mul q (as_secs_f64 d))) (r * (real d / 10 ^ 9))"
    using near_trans [OF near_f64_mul, of 7 q "as_secs_f64 d"] by simp
  then have "near 9 (10 ^ 9 * f64_val (f64_mul q (as_secs_f64 d))) (10 ^ 9 * (r * (real d / 10 ^ 9)))"
    by (rule near_scale) simp
  then have "\<bar>f64_val (f64_mul q (as_secs_f64 d)) * 10 ^ 9 - r * real d\<bar> \<le> 9 / 2 ^ 53 * (r * real d)"
    by (simp add: near_def mult_ac)
  then show ?thesis using f64_to_nanos_error [of "f64_mul q (as_secs_f64 d)"] by linarith
qed

lemma near_0_2: "near 1 (f64_val f64_0_2) (1 / 5)"
  using near_f64_round [of 10 2] by (simp add: f64_0_2_def)

lemma near_0_66: "near 1 (f64_val f64_0_66) (33 / 50)"
  using near_f64_round [of 100 66] by (simp add: f64_0_66_def)

lemma mul_f64_Ok:
  assumes "near 1 (f64_val q) r" and "0 \<le> r" and "r \<le> 33 / 50" and "d \<le> duration_max"
  obtains n where "mul_f64 d q = Ok n" and "\<bar>real n - r * real d\<bar> \<le> r * real d / 1000000000000 + 1 / 2"
    and "n \<le> d"
proof -
  define n where "n = f64_to_nanos (f64_mul q (as_secs_f64 d))"
  have e: "\<bar>real n - r * real d\<bar> \<le> 9 / 2 ^ 53 * (r * real d) + 1 / 2"
    using mul_f64_error [OF assms(1), of d] by (simp add: n_def)
  have rd: "0 \<le> r * real d" "r * real d \<le> 33 / 50 * real d"
    using assms(2) mult_right_mono [OF assms(3), of "real d"] by auto
  have e': "\<bar>real n - r * real d\<bar> \<le> r * real d / 1000000000000 + 1 / 2"
    using e rd(1) by (simp add: field_simps)
  have "0 \<le> real d" by simp
  then have "real n \<le> real d + 1 / 2" using e' rd by linarith
  then have nd: "n \<le> d" by linarith
  then have "mul_f64 d q = Ok n" using assms(4) by (simp add: mul_f64_def n_def Let_def)
  then show thesis using e' nd by (rule that)
qed

lemmas mul_0_2 = mul_f64_Ok [OF near_0_2]
  and mul_0_66 = mul_f64_Ok [OF near_0_66]

end
