(* ===== verification/Circuit_Breaker.thy ===== *)
theory Circuit_Breaker
  imports Vault_Error
begin

text \<open>
  \<open>circuit_breaker.rs\<close>: the three-state breaker under its mutex. Instants and durations are
  nanoseconds. One critical section reads one instant, the argument \<open>now\<close>; \<open>since.elapsed()\<close>
  saturates at zero, as subtraction on \<open>nat\<close> does. The failure counter is a \<open>u32\<close>. A mutex is
  poisoned by a panic under its lock: \<open>check\<close> then reports it and the recorders do nothing.
\<close>

type_synonym u32 = "32 word"

record cb_config =
  failure_threshold :: u32
  reset_timeout :: nat

definition cb_config_default :: cb_config where
  "cb_config_default = \<lparr>failure_threshold = 5, reset_timeout = 30 * 1000000000\<rparr>"

datatype cb_state =
    Closed (consecutive_failures: u32)
  | Open (since: nat)
  | HalfOpen (since: nat)

record circuit_breaker =
  cb_config :: cb_config
  cb_state :: cb_state
  cb_poisoned :: bool

definition cb_new :: "cb_config \<Rightarrow> circuit_breaker" where
  "cb_new cfg = \<lparr>cb_config = cfg, cb_state = Closed 0, cb_poisoned = False\<rparr>"

definition check :: "nat \<Rightarrow> circuit_breaker \<Rightarrow> unit outcome \<times> circuit_breaker" where
  "check now b =
     (if cb_poisoned b then (Err LockPoisoned, b)
      else case cb_state b of
        Closed _ \<Rightarrow> (Ok (), b)
      | Open s \<Rightarrow>
          if reset_timeout (cb_config b) \<le> now - s
          then (Ok (), b\<lparr>cb_state := HalfOpen now\<rparr>)
          else (Err CircuitOpen, b)
      | HalfOpen s \<Rightarrow>
          if reset_timeout (cb_config b) \<le> now - s
          then (Ok (), b\<lparr>cb_state := HalfOpen now\<rparr>)
          else (Err CircuitOpen, b))"

definition record_success :: "circuit_breaker \<Rightarrow> circuit_breaker" where
  "record_success b = (if cb_poisoned b then b else b\<lparr>cb_state := Closed 0\<rparr>)"

definition record_failure :: "nat \<Rightarrow> circuit_breaker \<Rightarrow> circuit_breaker" where
  "record_failure now b =
     (if cb_poisoned b then b
      else case cb_state b of
        Closed n \<Rightarrow>
          (let new_count = n + 1
           in if failure_threshold (cb_config b) \<le> new_count
              then b\<lparr>cb_state := Open now\<rparr>
              else b\<lparr>cb_state := Closed new_count\<rparr>)
      | HalfOpen _ \<Rightarrow> b\<lparr>cb_state := Open now\<rparr>
      | Open _ \<Rightarrow> b)"

section \<open>The interface the request path relies on\<close>

text \<open>
  What \<open>execute_raw\<close> may assume of a breaker: it admits or rejects without side effects other
  than its own state, an invariant survives every operation, a closed breaker admits, a success
  closes it, and a rejection changes nothing.
\<close>

locale breaker =
  fixes chk :: "nat \<Rightarrow> 'b \<Rightarrow> unit outcome \<times> 'b"
    and succ :: "'b \<Rightarrow> 'b"
    and fail :: "nat \<Rightarrow> 'b \<Rightarrow> 'b"
    and inv :: "'b \<Rightarrow> bool"
    and closed :: "'b \<Rightarrow> bool"
  assumes chk_inv: "inv b \<Longrightarrow> inv (snd (chk t b))"
    and succ_inv: "inv b \<Longrightarrow> inv (succ b)"
    and fail_inv: "inv b \<Longrightarrow> inv (fail t b)"
    and chk_closed: "inv b \<Longrightarrow> closed b \<Longrightarrow> chk t b = (Ok (), b)"
    and succ_closed: "inv b \<Longrightarrow> closed (succ b)"
    and chk_reject: "inv b \<Longrightarrow> chk t b = (Err e, b') \<Longrightarrow> b' = b \<and> e = CircuitOpen"
    and chk_no_panic: "inv b \<Longrightarrow> fst (chk t b) \<noteq> Panic m"
begin

lemma chk_cases:
  assumes "inv b"
  obtains b' where "chk t b = (Ok (), b')" "inv b'"
    | "chk t b = (Err CircuitOpen, b)"
proof (cases "chk t b")
  case (Pair r b')
  show ?thesis
  proof (cases r)
    case (Ok u)
    with Pair that(1) chk_inv [OF assms, of t] show ?thesis by simp
  next
    case (Err e)
    with Pair that(2) chk_reject [OF assms, of t] show ?thesis by auto
  next
    case (Panic m)
    with Pair chk_no_panic [OF assms, of t] show ?thesis by auto
  qed
qed

lemma succ_then_chk: "inv b \<Longrightarrow> chk t (succ b) = (Ok (), succ b)"
  by (simp add: chk_closed succ_closed succ_inv)

end

section \<open>Invariant: the counter stays below the threshold\<close>

definition cb_inv :: "circuit_breaker \<Rightarrow> bool" where
  "cb_inv b \<longleftrightarrow> \<not> cb_poisoned b \<and>
     (\<forall>n. cb_state b = Closed n \<longrightarrow> unat n < max 1 (unat (failure_threshold (cb_config b))))"

definition is_closed :: "circuit_breaker \<Rightarrow> bool" where
  "is_closed b \<longleftrightarrow> (case cb_state b of Closed _ \<Rightarrow> True | _ \<Rightarrow> False)"

lemma threshold_bound: "max 1 (unat (t :: u32)) < 2 ^ 32"
  using unsigned_less [of t] by simp

lemma unat_counter_Suc:
  assumes "unat n < max 1 (unat (t :: u32))"
  shows "unat (n + 1 :: u32) = unat n + 1"
proof -
  have "unat n + 1 < 2 ^ LENGTH(32)"
    using assms threshold_bound [of t] by simp
  then show ?thesis by (simp add: unat_word_ariths)
qed

lemma cb_inv_new [simp]: "cb_inv (cb_new cfg)"
  by (simp add: cb_inv_def cb_new_def)

lemma cb_inv_check: "cb_inv b \<Longrightarrow> cb_inv (snd (check t b))"
  by (auto simp: check_def cb_inv_def split: cb_state.splits)

lemma cb_inv_success: "cb_inv b \<Longrightarrow> cb_inv (record_success b)"
  by (auto simp: record_success_def cb_inv_def)

lemma cb_inv_failure: "cb_inv b \<Longrightarrow> cb_inv (record_failure t b)"
  by (auto simp: record_failure_def cb_inv_def Let_def unat_counter_Suc word_le_nat_alt
      split: cb_state.splits)

interpretation cb: breaker check record_success record_failure cb_inv is_closed
proof unfold_locales
  show "cb_inv b \<Longrightarrow> check t b = (Err e, b') \<Longrightarrow> b' = b \<and> e = CircuitOpen" for b t e b'
    by (auto simp: check_def cb_inv_def split: cb_state.splits if_splits)
  show "cb_inv b \<Longrightarrow> cb_inv (record_failure t b)" for b t
    by (rule cb_inv_failure)
qed (auto simp: cb_inv_check cb_inv_success check_def record_success_def
    is_closed_def cb_inv_def split: cb_state.splits)

section \<open>Histories\<close>

text \<open>What happens to a breaker over time, oldest first.\<close>

datatype cb_event = EvCheck nat | EvSuccess | EvFailure nat

fun cb_step :: "cb_event \<Rightarrow> circuit_breaker \<Rightarrow> circuit_breaker" where
  "cb_step (EvCheck t) b = snd (check t b)"
| "cb_step EvSuccess b = record_success b"
| "cb_step (EvFailure t) b = record_failure t b"

definition cb_run :: "circuit_breaker \<Rightarrow> cb_event list \<Rightarrow> circuit_breaker" where
  "cb_run b evs = fold cb_step evs b"

lemma cb_run_simps [simp]:
  "cb_run b [] = b" "cb_run b (ev # evs) = cb_run (cb_step ev b) evs"
  "cb_run b (evs @ evs') = cb_run (cb_run b evs) evs'"
  by (simp_all add: cb_run_def)

lemma cb_inv_step: "cb_inv b \<Longrightarrow> cb_inv (cb_step ev b)"
  by (cases ev) (simp_all add: cb_inv_check cb_inv_success cb_inv_failure)

lemma cb_inv_run: "cb_inv b \<Longrightarrow> cb_inv (cb_run b evs)"
  by (induction evs arbitrary: b) (simp_all add: cb_inv_step)

lemma cb_config_step [simp]: "cb_config (cb_step ev b) = cb_config b"
  by (cases ev) (auto simp: check_def record_success_def record_failure_def Let_def split: cb_state.splits)

lemma cb_config_ops [simp]:
  "cb_config (snd (check t b)) = cb_config b" "cb_config (record_success b) = cb_config b"
  "cb_config (record_failure t b) = cb_config b"
  using cb_config_step [of "EvCheck t" b] cb_config_step [of EvSuccess b]
    cb_config_step [of "EvFailure t" b] by simp_all

lemma cb_config_run [simp]: "cb_config (cb_run b evs) = cb_config b"
  by (induction evs arbitrary: b) simp_all

lemma cb_config_new [simp]: "cb_config (cb_new cfg) = cfg"
  by (simp add: cb_new_def)

subsection \<open>Abstract specification: consecutive failures since the last success\<close>

fun trailing :: "nat \<Rightarrow> cb_event list \<Rightarrow> nat" where
  "trailing n [] = n"
| "trailing n (EvSuccess # evs) = trailing 0 evs"
| "trailing n (EvFailure _ # evs) = trailing (Suc n) evs"
| "trailing n (EvCheck _ # evs) = trailing n evs"

text \<open>\<open>counts b k\<close>: the breaker is in a state that \<open>k\<close> consecutive failures leave it in.\<close>

definition counts :: "circuit_breaker \<Rightarrow> nat \<Rightarrow> bool" where
  "counts b k \<longleftrightarrow>
     (case cb_state b of
        Closed n \<Rightarrow> unat n = k \<and> k < max 1 (unat (failure_threshold (cb_config b)))
      | _ \<Rightarrow> max 1 (unat (failure_threshold (cb_config b))) \<le> k)"

lemma counts_check: "counts b k \<Longrightarrow> counts (snd (check t b)) k"
  by (auto simp: check_def counts_def split: cb_state.splits)

lemma counts_success: "cb_inv b \<Longrightarrow> counts (record_success b) 0"
  by (auto simp: record_success_def counts_def cb_inv_def)

lemma counts_failure:
  assumes "cb_inv b" and "counts b k"
  shows "counts (record_failure t b) (Suc k)"
proof (cases "cb_state b")
  case (Closed n)
  then have k: "unat n = k" "k < max 1 (unat (failure_threshold (cb_config b)))"
    using assms by (auto simp: counts_def)
  then have "unat (n + 1) = Suc k" by (simp add: unat_counter_Suc)
  then show ?thesis
    using assms(1) Closed k
    by (auto simp: record_failure_def counts_def cb_inv_def Let_def word_le_nat_alt)
qed (use assms in \<open>auto simp: record_failure_def counts_def cb_inv_def\<close>)

lemma counts_run: "cb_inv b \<Longrightarrow> counts b k \<Longrightarrow> counts (cb_run b evs) (trailing k evs)"
proof (induction evs arbitrary: b k)
  case (Cons ev evs)
  then show ?case
    by (cases ev) (auto simp: counts_check counts_success counts_failure
        intro!: Cons.IH dest: cb_inv_check cb_inv_success cb_inv_failure)
qed simp

lemma counts_closed: "counts b k \<Longrightarrow>
   cb_state b = Closed n \<longleftrightarrow> k < max 1 (unat (failure_threshold (cb_config b))) \<and> n = of_nat k"
  by (cases "cb_state b") (auto simp: counts_def)

subsection \<open>Probes\<close>

text \<open>The instants at which a history admits a request.\<close>

fun admitted :: "circuit_breaker \<Rightarrow> cb_event list \<Rightarrow> nat list" where
  "admitted b [] = []"
| "admitted b (EvCheck t # evs) =
     (if is_ok (fst (check t b)) then [t] else []) @ admitted (snd (check t b)) evs"
| "admitted b (EvSuccess # evs) = admitted (record_success b) evs"
| "admitted b (EvFailure t # evs) = admitted (record_failure t b) evs"

primrec ev_time :: "cb_event \<Rightarrow> nat option" where
  "ev_time (EvCheck t) = Some t"
| "ev_time EvSuccess = None"
| "ev_time (EvFailure t) = Some t"

definition ordered_from :: "nat \<Rightarrow> cb_event list \<Rightarrow> bool" where
  "ordered_from t evs \<longleftrightarrow> sorted (t # List.map_filter ev_time evs)"

definition tripped_at :: "circuit_breaker \<Rightarrow> nat \<Rightarrow> bool" where
  "tripped_at b t \<longleftrightarrow> (cb_state b = Open t \<or> cb_state b = HalfOpen t)"

lemma ordered_from_Cons [simp]:
  "ordered_from t (EvSuccess # evs) \<longleftrightarrow> ordered_from t evs"
  "ordered_from t (EvCheck u # evs) \<longleftrightarrow> t \<le> u \<and> ordered_from u evs"
  "ordered_from t (EvFailure u # evs) \<longleftrightarrow> t \<le> u \<and> ordered_from u evs"
  by (auto simp: ordered_from_def List.map_filter_simps)

lemma ordered_from_mono: "ordered_from u evs \<Longrightarrow> t \<le> u \<Longrightarrow> ordered_from t evs"
  by (auto simp: ordered_from_def)

lemma tripped_check:
  assumes "cb_inv b" and "tripped_at b s" and "s \<le> t"
  shows "if s + reset_timeout (cb_config b) \<le> t
         then fst (check t b) = Ok () \<and> tripped_at (snd (check t b)) t
         else fst (check t b) = Err CircuitOpen \<and> snd (check t b) = b"
proof -
  have "reset_timeout (cb_config b) \<le> t - s \<longleftrightarrow> s + reset_timeout (cb_config b) \<le> t"
    using assms(3) by auto
  then show ?thesis
    using assms by (auto simp: check_def tripped_at_def cb_inv_def)
qed

lemma tripped_failure:
  assumes "cb_inv b" and "tripped_at b s" and "s \<le> t"
  obtains u where "tripped_at (record_failure t b) u" "s \<le> u" "u \<le> t"
  using assms by (auto simp: record_failure_def tripped_at_def cb_inv_def)

lemma probes_spaced_from:
  assumes "cb_inv b" and "tripped_at b s" and "ordered_from s evs" and "EvSuccess \<notin> set evs"
  shows "sorted_wrt (\<lambda>t u. t + reset_timeout (cb_config b) \<le> u) (s # admitted b evs)"
  using assms
proof (induction evs arbitrary: b s)
  case (Cons ev evs)
  show ?case
  proof (cases ev)
    case (EvCheck t)
    with Cons.prems have o: "s \<le> t" "ordered_from t evs" and ns: "EvSuccess \<notin> set evs" by auto
    let ?b = "snd (check t b)"
    show ?thesis
    proof (cases "s + reset_timeout (cb_config b) \<le> t")
      case True
      then have ok: "fst (check t b) = Ok ()" and tr: "tripped_at ?b t"
        using tripped_check [OF Cons.prems(1,2) o(1)] by auto
      show ?thesis
        using Cons.IH [OF cb_inv_check [OF Cons.prems(1)] tr o(2) ns] True
        by (auto simp: EvCheck ok)
    next
      case False
      then have "\<not> is_ok (fst (check t b))" and "?b = b"
        using tripped_check [OF Cons.prems(1,2) o(1)] by auto
      then show ?thesis
        using Cons.IH [OF Cons.prems(1,2) ordered_from_mono [OF o(2,1)] ns] by (simp add: EvCheck)
    qed
  next
    case EvSuccess
    with Cons.prems show ?thesis by simp
  next
    case (EvFailure t)
    with Cons.prems have o: "s \<le> t" "ordered_from t evs" and ns: "EvSuccess \<notin> set evs" by auto
    obtain u where u: "tripped_at (record_failure t b) u" "s \<le> u" "u \<le> t"
      using tripped_failure [OF Cons.prems(1,2) o(1)] .
    then have "sorted_wrt (\<lambda>x y. x + reset_timeout (cb_config b) \<le> y) (u # admitted (record_failure t b) evs)"
      using Cons.IH [OF cb_inv_failure [OF Cons.prems(1)] u(1) ordered_from_mono [OF o(2) u(3)] ns]
      by simp
    then show ?thesis using u(2) by (auto simp: EvFailure)
  qed
qed simp

section \<open>What failures use up\<close>

text \<open>
  \<open>credit b t\<close> bounds, in units of time, how many requests a breaker still admits when all of them
  fail: a closed one the failures that are left until it trips, a tripped one a probe per reset
  timeout since its trip, one at most at once. Time and failures never raise it, and an admitted
  request that fails costs one reset timeout.
\<close>

definition credit :: "circuit_breaker \<Rightarrow> nat \<Rightarrow> int" where
  "credit b t =
     (let r = int (reset_timeout (cb_config b)) in
      case cb_state b of
        Closed n \<Rightarrow> int (max 1 (unat (failure_threshold (cb_config b))) - unat n) * r - int t
      | Open u \<Rightarrow> min (- int u) (r - int t)
      | HalfOpen u \<Rightarrow> min (- int u) (r - int t))"

text \<open>A trip does not lie in the future.\<close>

definition dated :: "circuit_breaker \<Rightarrow> nat \<Rightarrow> bool" where
  "dated b t \<longleftrightarrow> (case cb_state b of Closed n \<Rightarrow> True | Open u \<Rightarrow> u \<le> t | HalfOpen u \<Rightarrow> u \<le> t)"

lemma dated_mono: "dated b t \<Longrightarrow> t \<le> t' \<Longrightarrow> dated b t'"
  by (auto simp: dated_def split: cb_state.splits)

lemma dated_check: "dated b t \<Longrightarrow> dated (snd (check t b)) t"
  by (auto simp: dated_def check_def split: cb_state.splits)

lemma dated_failure: "dated b t \<Longrightarrow> dated (record_failure t b) t"
  by (auto simp: dated_def record_failure_def Let_def split: cb_state.splits)

lemma credit_time: "t \<le> t' \<Longrightarrow> credit b t' \<le> credit b t"
  by (auto simp: credit_def Let_def split: cb_state.split)

lemma credit_check: "dated b t \<Longrightarrow> credit (snd (check t b)) t \<le> credit b t"
  by (auto simp: credit_def check_def dated_def Let_def split: cb_state.splits)

lemma credit_failure:
  assumes "cb_inv b" and "dated b t"
  shows "credit (record_failure t b) t \<le> credit b t"
proof (cases "cb_state b")
  case (Closed n)
  define K where "K = max 1 (unat (failure_threshold (cb_config b)))"
  define r where "r = int (reset_timeout (cb_config b))"
  have n: "unat n < K" "unat (n + 1) = unat n + 1"
    using assms(1) Closed by (auto simp: cb_inv_def K_def unat_counter_Suc)
  have "0 \<le> int (K - unat n - 1) * r" "0 \<le> r" by (simp_all add: r_def)
  moreover have "int (K - unat n) * r = int (K - unat n - 1) * r + r"
    using n(1) by (simp add: algebra_simps of_nat_diff)
  ultimately show ?thesis
    using Closed assms(1) n unfolding K_def r_def
    by (auto simp: credit_def record_failure_def cb_inv_def Let_def)
qed (use assms in \<open>auto simp: credit_def record_failure_def dated_def Let_def\<close>)

lemma credit_spent:
  assumes "cb_inv b" and "dated b t" and "check t b = (Ok (), b')" and "t \<le> t'"
  shows "credit (record_failure t' b') t' + int (reset_timeout (cb_config b)) \<le> credit b t"
proof (cases "cb_state b")
  case (Closed n)
  define K where "K = max 1 (unat (failure_threshold (cb_config b)))"
  define r where "r = int (reset_timeout (cb_config b))"
  have b': "b' = b" using assms(3) Closed by (auto simp: check_def split: if_splits)
  have n: "unat n < K" "unat (n + 1) = unat n + 1"
    using assms(1) Closed by (auto simp: cb_inv_def K_def unat_counter_Suc)
  have "0 \<le> int (K - unat n - 1) * r" "0 \<le> r" by (simp_all add: r_def)
  moreover have "int (K - unat n) * r = int (K - unat n - 1) * r + r"
    using n(1) by (simp add: algebra_simps of_nat_diff)
  ultimately show ?thesis
    using Closed assms(1,4) n b' unfolding K_def r_def
    by (auto simp: credit_def record_failure_def cb_inv_def Let_def)
qed (use assms in \<open>auto simp: credit_def check_def record_failure_def cb_inv_def dated_def Let_def split: if_splits\<close>)

lemma credit_bounds:
  assumes "dated b t"
  shows "- int t \<le> credit b t"
    and "credit b t \<le> int (max 1 (unat (failure_threshold (cb_config b))) * reset_timeout (cb_config b)) - int t"
proof -
  define K where "K = max 1 (unat (failure_threshold (cb_config b)))"
  define r where "r = int (reset_timeout (cb_config b))"
  have "1 * r \<le> int K * r" by (rule mult_right_mono) (simp_all add: K_def r_def)
  moreover have "int (K - m) * r \<le> int K * r" "0 \<le> int (K - m) * r" for m
    by (intro mult_right_mono) (simp_all add: r_def)
  ultimately show "- int t \<le> credit b t"
    and "credit b t \<le> int (max 1 (unat (failure_threshold (cb_config b))) * reset_timeout (cb_config b)) - int t"
    using assms unfolding K_def r_def
    by (auto simp: credit_def dated_def Let_def split: cb_state.splits)
qed

section \<open>Properties\<close>

text \<open>
  C6: The breaker implements its specification, for every configuration and every history of
  checks, successes and failures: it is closed exactly when fewer failures than the threshold
  (at least one) followed the last success, and its \<open>u32\<close> counter is then exactly that number,
  so the counter never wraps and no sequence of operations can hide a failure.
\<close>

theorem breaker_closed_iff:
  "cb_state (cb_run (cb_new cfg) evs) = Closed n \<longleftrightarrow>
     trailing 0 evs < max 1 (unat (failure_threshold cfg)) \<and> n = of_nat (trailing 0 evs)"
proof -
  have "counts (cb_new cfg) 0" by (simp add: counts_def cb_new_def)
  then have "counts (cb_run (cb_new cfg) evs) (trailing 0 evs)" by (simp add: counts_run)
  then show ?thesis by (simp add: counts_closed)
qed

text \<open>
  C19: While the circuit is not closed, requests get through only one at a time: from a trip at
  \<open>s\<close>, over any later history in time order without a success, the admitted instants are at
  least one reset timeout after the trip and after each other, whatever fails in between.
\<close>

theorem breaker_probes_spaced:
  assumes "cb_inv b" and "tripped_at b s" and "ordered_from s evs" and "EvSuccess \<notin> set evs"
  shows "sorted_wrt (\<lambda>t u. t + reset_timeout (cb_config b) \<le> u) (s # admitted b evs)"
  using assms by (rule probes_spaced_from)

definition tripped_example :: circuit_breaker where
  "tripped_example = cb_run (cb_new \<lparr>failure_threshold = 2, reset_timeout = 10\<rparr>) [EvFailure 3, EvFailure 5]"

lemma tripped_example_eq:
  "tripped_example = \<lparr>cb_config = \<lparr>failure_threshold = 2, reset_timeout = 10\<rparr>, cb_state = Open 5, cb_poisoned = False\<rparr>"
  by (simp add: tripped_example_def cb_new_def record_failure_def Let_def word_le_nat_alt)

theorem breaker_probes_spaced_witness:
  "admitted tripped_example [EvCheck 7, EvCheck 15, EvFailure 16, EvCheck 20, EvCheck 26] = [15, 26]
   \<and> sorted_wrt (\<lambda>t u. t + 10 \<le> u)
       (5 # admitted tripped_example [EvCheck 7, EvCheck 15, EvFailure 16, EvCheck 20, EvCheck 26])"
proof
  show "admitted tripped_example [EvCheck 7, EvCheck 15, EvFailure 16, EvCheck 20, EvCheck 26] = [15, 26]"
    by (simp add: tripped_example_eq check_def record_failure_def)
  have "cb_inv tripped_example" "tripped_at tripped_example 5" "reset_timeout (cb_config tripped_example) = 10"
    by (simp_all add: tripped_example_eq cb_inv_def tripped_at_def)
  moreover have "ordered_from 5 [EvCheck 7, EvCheck 15, EvFailure 16, EvCheck 20, EvCheck 26]"
    by (simp add: ordered_from_def List.map_filter_simps)
  ultimately show "sorted_wrt (\<lambda>t u. t + 10 \<le> u)
       (5 # admitted tripped_example [EvCheck 7, EvCheck 15, EvFailure 16, EvCheck 20, EvCheck 26])"
    using breaker_probes_spaced [of tripped_example 5 "[EvCheck 7, EvCheck 15, EvFailure 16, EvCheck 20, EvCheck 26]"]
    by simp
qed

text \<open>
  Recovery: once the reset timeout has passed since the trip, the next check is admitted as a
  probe; until another timeout has passed, other checks are still rejected; the probe's success
  closes the circuit with a zero counter, so that every check is admitted, and its failure opens it again from that instant.
\<close>

lemma breaker_recovery:
  assumes "cb_inv b" and "tripped_at b s" and "s + reset_timeout (cb_config b) \<le> t"
  shows "\<exists>b'. check t b = (Ok (), b') \<and> cb_state b' = HalfOpen t
    \<and> (\<forall>u. t \<le> u \<and> u < t + reset_timeout (cb_config b) \<longrightarrow> check u b' = (Err CircuitOpen, b'))
    \<and> cb_state (record_success b') = Closed 0
    \<and> check v (record_success b') = (Ok (), record_success b')
    \<and> cb_state (record_failure u b') = Open u"
proof -
  have "reset_timeout (cb_config b) \<le> t - s" using assms(3) by linarith
  then have c: "check t b = (Ok (), b\<lparr>cb_state := HalfOpen t\<rparr>)"
    using assms by (auto simp: check_def cb_inv_def tripped_at_def)
  have "check u (b\<lparr>cb_state := HalfOpen t\<rparr>) = (Err CircuitOpen, b\<lparr>cb_state := HalfOpen t\<rparr>)"
    if "t \<le> u" "u < t + reset_timeout (cb_config b)" for u
    using that assms(1) by (auto simp: check_def cb_inv_def)
  moreover have "cb_inv (b\<lparr>cb_state := HalfOpen t\<rparr>)"
    using cb.chk_inv [OF assms(1), of t] c by simp
  ultimately show ?thesis
    using assms(1) c cb.succ_then_chk [of "b\<lparr>cb_state := HalfOpen t\<rparr>" v]
    by (auto simp: record_success_def record_failure_def cb_inv_def)
qed

end
