(* ===== verification/Json.thy ===== *)
theory Json
  imports Vault_Error
begin

text \<open>
  JSON values as \<open>serde_json::Value\<close> has them, with an object as the key-ordered
  association list of its \<open>BTreeMap\<close>, and the building blocks of serde's derived
  deserialisers. A value whose result is not the expected type is \<open>None\<close>, the
  deserialisation error. Numbers that are not integers keep their text.
  The positional (array) form of a struct, which serde also reads, is not modelled.
\<close>

datatype json =
    JNull
  | JBool bool
  | JNum int
  | JFloat string
  | JStr string
  | JArr "json list"
  | JObj "(string \<times> json) list"

section \<open>Objects\<close>

text \<open>\<open>BTreeMap::insert\<close> on the sorted association list.\<close>

fun obj_insert :: "string \<Rightarrow> json \<Rightarrow> (string \<times> json) list \<Rightarrow> (string \<times> json) list" where
  "obj_insert k v [] = [(k, v)]"
| "obj_insert k v ((k', v') # r) =
     (if k = k' then (k, v) # r
      else if k < k' then (k, v) # (k', v') # r
      else (k', v') # obj_insert k v r)"

definition obj :: "(string \<times> json) list \<Rightarrow> json" where
  "obj kvs = JObj (fold (\<lambda>(k, v) o'. obj_insert k v o') kvs [])"

primrec as_obj :: "json \<Rightarrow> (string \<times> json) list option" where
  "as_obj (JObj kvs) = Some kvs"
| "as_obj JNull = None"
| "as_obj (JBool _) = None"
| "as_obj (JNum _) = None"
| "as_obj (JFloat _) = None"
| "as_obj (JStr _) = None"
| "as_obj (JArr _) = None"

text \<open>\<open>Value::get\<close> with a string key, and \<open>value[key] = v\<close> on an object (a \<open>Null\<close> becomes one).\<close>

definition json_get :: "json \<Rightarrow> string \<Rightarrow> json option" where
  "json_get v k = (case as_obj v of Some kvs \<Rightarrow> map_of kvs k | None \<Rightarrow> None)"

definition json_set :: "json \<Rightarrow> string \<Rightarrow> json \<Rightarrow> json outcome" where
  "json_set v k x =
     (case v of JObj kvs \<Rightarrow> Ok (JObj (obj_insert k x kvs))
      | JNull \<Rightarrow> Ok (JObj [(k, x)])
      | _ \<Rightarrow> Panic ''cannot access key in JSON value'')"

lemma map_of_obj_insert [simp]: "map_of (obj_insert k v kvs) = (map_of kvs)(k \<mapsto> v)"
  by (induction kvs) (auto simp: fun_eq_iff)

lemma keys_obj_insert: "fst ` set (obj_insert k v kvs) = insert k (fst ` set kvs)"
  by (metis dom_map_of_conv_image_fst dom_fun_upd map_of_obj_insert option.distinct(1))

lemma sorted_obj_insert:
  "sorted_wrt (<) (map fst kvs) \<Longrightarrow> sorted_wrt (<) (map fst (obj_insert k v kvs))"
proof (induction kvs)
  case (Cons kv r)
  obtain k' v' where kv: "kv = (k', v')" by (cases kv)
  show ?case
  proof (cases "k < k'")
    case True
    with Cons.prems kv show ?thesis by (auto dest: less_trans)
  next
    case False
    with Cons.IH Cons.prems kv show ?thesis by (auto simp: keys_obj_insert)
  qed
qed simp

lemma map_of_fold_insert:
  "map_of (fold (\<lambda>(k, v) o'. obj_insert k v o') kvs o') = map_of o' ++ map_of (rev kvs)"
  by (induction kvs arbitrary: o') (auto simp: fun_eq_iff map_add_def split: option.splits)

lemma json_get_obj [simp]: "json_get (obj kvs) k = map_of (rev kvs) k"
  by (simp add: json_get_def obj_def map_of_fold_insert)

lemma json_get_JObj [simp]: "json_get (JObj kvs) k = map_of kvs k"
  by (simp add: json_get_def)

lemma json_get_set: "json_set v k x = Ok w \<Longrightarrow> json_get w j = (if j = k then Some x else json_get v j)"
  by (auto simp: json_set_def json_get_def split: json.splits)

section \<open>Deserialisers\<close>

text \<open>Scalars, sequences, string-keyed maps, options.\<close>

fun de_string :: "json \<Rightarrow> string option" where
  "de_string (JStr s) = Some s"
| "de_string _ = None"

fun de_bool :: "json \<Rightarrow> bool option" where
  "de_bool (JBool b) = Some b"
| "de_bool _ = None"

fun de_uint :: "nat \<Rightarrow> json \<Rightarrow> nat option" where
  "de_uint w (JNum i) = (if 0 \<le> i \<and> i < 2 ^ w then Some (nat i) else None)"
| "de_uint w _ = None"

fun de_int :: "nat \<Rightarrow> json \<Rightarrow> int option" where
  "de_int w (JNum i) = (if - (2 ^ (w - 1)) \<le> i \<and> i < 2 ^ (w - 1) then Some i else None)"
| "de_int w _ = None"

text \<open>An \<open>f64\<close> is kept as the JSON number it is read from and written to.\<close>

fun de_number :: "json \<Rightarrow> json option" where
  "de_number (JNum i) = Some (JNum i)"
| "de_number (JFloat s) = Some (JFloat s)"
| "de_number _ = None"

definition de_value :: "json \<Rightarrow> json option" where
  "de_value v = Some v"

primrec sequence_opt :: "'a option list \<Rightarrow> 'a list option" where
  "sequence_opt [] = Some []"
| "sequence_opt (x # xs) =
     (case x of None \<Rightarrow> None | Some a \<Rightarrow> map_option (Cons a) (sequence_opt xs))"

fun de_vec :: "(json \<Rightarrow> 'a option) \<Rightarrow> json \<Rightarrow> 'a list option" where
  "de_vec d (JArr vs) = sequence_opt (map d vs)"
| "de_vec d _ = None"

fun de_map :: "(json \<Rightarrow> 'a option) \<Rightarrow> json \<Rightarrow> (string \<times> 'a) list option" where
  "de_map d (JObj kvs) = sequence_opt (map (\<lambda>(k, v). map_option (Pair k) (d v)) kvs)"
| "de_map d _ = None"

fun de_option :: "(json \<Rightarrow> 'a option) \<Rightarrow> json \<Rightarrow> 'a option option" where
  "de_option d JNull = Some None"
| "de_option d v = map_option Some (d v)"

text \<open>
  Struct fields: a required field must be there; an \<open>Option\<close> field may be missing or null;
  a \<open>#[serde(default)]\<close> field may be missing (but not null).
\<close>

definition fld :: "(json \<Rightarrow> 'a option) \<Rightarrow> string \<Rightarrow> json \<Rightarrow> 'a option" where
  "fld d k v = (case json_get v k of Some x \<Rightarrow> d x | None \<Rightarrow> None)"

definition fld_opt :: "(json \<Rightarrow> 'a option) \<Rightarrow> string \<Rightarrow> json \<Rightarrow> 'a option option" where
  "fld_opt d k v = (case json_get v k of Some x \<Rightarrow> de_option d x | None \<Rightarrow> Some None)"

definition fld_default :: "'a \<Rightarrow> (json \<Rightarrow> 'a option) \<Rightarrow> string \<Rightarrow> json \<Rightarrow> 'a option" where
  "fld_default a d k v = (case json_get v k of Some x \<Rightarrow> d x | None \<Rightarrow> Some a)"

text \<open>\<open>deserialize_with = "null_to_default"\<close> with \<open>default\<close>: missing and null both give the default.\<close>

definition fld_null_default :: "'a \<Rightarrow> (json \<Rightarrow> 'a option) \<Rightarrow> string \<Rightarrow> json \<Rightarrow> 'a option" where
  "fld_null_default a d k v =
     (case json_get v k of
        Some x \<Rightarrow> map_option (\<lambda>y. case y of Some b \<Rightarrow> b | None \<Rightarrow> a) (de_option d x)
      | None \<Rightarrow> Some a)"

text \<open>A struct is read from an object only.\<close>

definition in_obj :: "(json \<Rightarrow> 'a option) \<Rightarrow> json \<Rightarrow> 'a option" where
  "in_obj d v = (case as_obj v of Some _ \<Rightarrow> d v | None \<Rightarrow> None)"

lemma in_obj_JObj [simp]: "in_obj d (JObj kvs) = d (JObj kvs)"
  by (simp add: in_obj_def)

lemma in_obj_obj [simp]: "in_obj d (obj kvs) = d (obj kvs)"
  by (simp add: obj_def)

lemma de_uint_JNum [simp]: "n < 2 ^ w \<Longrightarrow> de_uint w (JNum (int n)) = Some n"
proof -
  assume "n < 2 ^ w"
  then have "int n < 2 ^ w" by (metis of_nat_less_iff of_nat_numeral of_nat_power)
  then show ?thesis by simp
qed

lemma de_uint_bound: "de_uint w v = Some n \<Longrightarrow> n < 2 ^ w"
  by (cases v) (auto split: if_splits simp: nat_less_iff)

lemma sequence_opt_map_Some [simp]: "sequence_opt (map (\<lambda>x. Some (f x)) xs) = Some (map f xs)"
  by (induction xs) simp_all

lemma sequence_opt_SomeD: "sequence_opt xs = Some ys \<Longrightarrow> xs = map Some ys"
  by (induction xs arbitrary: ys) (auto split: option.splits)

lemma de_vec_strings [simp]: "de_vec de_string (JArr (map JStr ss)) = Some ss"
proof -
  have "map de_string (map JStr ss) = map (\<lambda>x. Some (id x)) ss" by simp
  then show ?thesis by (simp del: map_map)
qed

section \<open>Serialisation\<close>

text \<open>
  A value of a \<open>Serialize\<close> type is what \<open>serde_json::to_value\<close> makes of it: a JSON value,
  or the text of the error. \<open>to_body\<close> is the client's wrapper.
\<close>

type_synonym serial = "string + json"

definition to_body :: "serial \<Rightarrow> json outcome" where
  "to_body v = (case v of Inr j \<Rightarrow> Ok j | Inl e \<Rightarrow> Err (Config (''serialize: '' @ e)))"

lemma to_body_simps [simp]:
  "to_body (Inr j) = Ok j" "to_body (Inl e) = Err (Config (''serialize: '' @ e))"
  by (simp_all add: to_body_def)

text \<open>\<open>skip_serializing_if = "Option::is_none"\<close>.\<close>

definition opt_field :: "string \<Rightarrow> ('a \<Rightarrow> json) \<Rightarrow> 'a option \<Rightarrow> (string \<times> json) list" where
  "opt_field k f x = (case x of None \<Rightarrow> [] | Some a \<Rightarrow> [(k, f a)])"

text \<open>\<open>skip_serializing_if = "Vec::is_empty"\<close>, and the same for strings and maps.\<close>

definition nonempty_field :: "string \<Rightarrow> ('a list \<Rightarrow> json) \<Rightarrow> 'a list \<Rightarrow> (string \<times> json) list" where
  "nonempty_field k f xs = (if xs = [] then [] else [(k, f xs)])"

text \<open>Options, sequences and string-keyed maps.\<close>

definition ser_option :: "('a \<Rightarrow> json) \<Rightarrow> 'a option \<Rightarrow> json" where
  "ser_option f x = (case x of Some a \<Rightarrow> f a | None \<Rightarrow> JNull)"

definition ser_vec :: "('a \<Rightarrow> json) \<Rightarrow> 'a list \<Rightarrow> json" where
  "ser_vec f xs = JArr (map f xs)"

definition ser_map :: "('a \<Rightarrow> json) \<Rightarrow> (string \<times> 'a) list \<Rightarrow> json" where
  "ser_map f kvs = obj (map (\<lambda>(k, v). (k, f v)) kvs)"

definition jnat :: "nat \<Rightarrow> json" where
  "jnat n = JNum (int n)"

definition jstrs :: "string list \<Rightarrow> json" where
  "jstrs ss = JArr (map JStr ss)"

end
