(* ===== verification/Redaction.thy ===== *)
theory Redaction
  imports Json
begin

text \<open>
  \<open>types/redaction.rs\<close>: the process-wide redaction level behind an \<open>AtomicU8\<close> and the
  function every \<open>Debug\<close> impl of a type holding a secret goes through. The level is the
  explicit argument \<open>lvl\<close>, the stored byte. \<open>dbg\<close> is the tree a \<open>Debug\<close> impl builds
  with \<open>debug_struct\<close>, before the standard library lays it out as text.
\<close>

datatype redaction_level = RFull | RPartial | RNone

primrec level_u8 :: "redaction_level \<Rightarrow> nat" where
  "level_u8 RFull = 0"
| "level_u8 RPartial = 1"
| "level_u8 RNone = 2"

text \<open>\<open>set_redaction_level\<close> stores the byte, \<open>redaction_level\<close> reads it back.\<close>

definition set_redaction_level :: "redaction_level \<Rightarrow> nat" where
  "set_redaction_level l = level_u8 l"

definition redaction_level :: "nat \<Rightarrow> redaction_level" where
  "redaction_level u = (if u = 1 then RPartial else if u = 2 then RNone else RFull)"

lemma redaction_level_set [simp]: "redaction_level (set_redaction_level l) = l"
  by (cases l) (simp_all add: redaction_level_def set_redaction_level_def)

text \<open>Levels are ordered by how much they disclose.\<close>

instantiation redaction_level :: linorder
begin

definition less_eq_redaction_level :: "redaction_level \<Rightarrow> redaction_level \<Rightarrow> bool" where
  "less_eq_redaction_level a b \<longleftrightarrow> level_u8 a \<le> level_u8 b"

definition less_redaction_level :: "redaction_level \<Rightarrow> redaction_level \<Rightarrow> bool" where
  "less_redaction_level a b \<longleftrightarrow> level_u8 a < level_u8 b"

instance
proof
  fix x y :: redaction_level
  show "x \<le> y \<Longrightarrow> y \<le> x \<Longrightarrow> x = y"
    by (cases x; cases y) (auto simp: less_eq_redaction_level_def)
qed (auto simp: less_eq_redaction_level_def less_redaction_level_def)

end

definition redacted :: string where
  "redacted = ''[REDACTED]''"

definition redact :: "nat \<Rightarrow> string \<Rightarrow> string" where
  "redact lvl value =
     (case redaction_level lvl of
        RFull \<Rightarrow> redacted
      | RPartial \<Rightarrow>
          (let chars = utf8_chars value; prefix = take 4 chars; rest = drop 4 chars
           in if length prefix < 4 \<or> rest = [] then redacted
              else concat prefix @ ''...'')
      | RNone \<Rightarrow> value)"

lemma redact_full: "redaction_level lvl = RFull \<Longrightarrow> redact lvl v = redacted"
  by (simp add: redact_def)

lemma redact_none: "redaction_level lvl = RNone \<Longrightarrow> redact lvl v = v"
  by (simp add: redact_def)

text \<open>At the partial level two secrets with the same first four characters cannot be told apart
  when both are longer than that.\<close>

lemma redact_partial_cases:
  assumes "redaction_level lvl = RPartial"
  shows "redact lvl v =
     (if length (utf8_chars v) \<le> 4 then redacted else concat (take 4 (utf8_chars v)) @ ''...'')"
  using assms by (auto simp: redact_def Let_def)

section \<open>Secrets and Debug trees\<close>

datatype secret = Secret (expose_secret: string)

datatype dbg =
    DStr string
  | DNum nat
  | DBool bool
  | DOpt "dbg option"
  | DList "dbg list"
  | DMap "(string \<times> dbg) list"
  | DJson json
  | DStruct string "(string \<times> dbg) list"

definition dbg_opt :: "('a \<Rightarrow> dbg) \<Rightarrow> 'a option \<Rightarrow> dbg" where
  "dbg_opt f x = DOpt (map_option f x)"

definition dbg_strs :: "string list \<Rightarrow> dbg" where
  "dbg_strs ss = DList (map DStr ss)"

definition dbg_list :: "('a \<Rightarrow> dbg) \<Rightarrow> 'a list \<Rightarrow> dbg" where
  "dbg_list f xs = DList (map f xs)"

definition dbg_map :: "('a \<Rightarrow> dbg) \<Rightarrow> (string \<times> 'a) list \<Rightarrow> dbg" where
  "dbg_map f kvs = DMap (map (\<lambda>(k, v). (k, f v)) kvs)"

definition dbg_secret :: "nat \<Rightarrow> secret \<Rightarrow> dbg" where
  "dbg_secret lvl s = DStr (redact lvl (expose_secret s))"

lemma dbg_secret_full: "redaction_level lvl = RFull \<Longrightarrow> dbg_secret lvl s = DStr redacted"
  by (simp add: dbg_secret_def redact_full)

text \<open>\<open>types/serde_secret.rs\<close>: serialisation is the one place where a secret is exposed.\<close>

definition ser_secret :: "secret \<Rightarrow> json" where
  "ser_secret s = JStr (expose_secret s)"

definition ser_secret_option :: "secret option \<Rightarrow> json" where
  "ser_secret_option s = (case s of Some v \<Rightarrow> JStr (expose_secret v) | None \<Rightarrow> JNull)"

definition de_secret :: "json \<Rightarrow> secret option" where
  "de_secret v = map_option Secret (de_string v)"

lemma de_ser_secret [simp]: "de_secret (ser_secret s) = Some s"
  by (simp add: de_secret_def ser_secret_def)

lemma de_ser_secret_option [simp]: "de_option de_secret (ser_secret_option s) = Some s"
  by (cases s) (simp_all add: ser_secret_option_def de_secret_def)

section \<open>Properties\<close>

text \<open>
  What a redacted text discloses, at the level the process last set: \<open>Full\<close> gives a constant;
  \<open>Partial\<close> gives that constant for a text of at most four characters, and otherwise its first
  four characters and an ellipsis, so that a text is never shown whole; \<open>None\<close> gives the text.
\<close>

lemma redact_discloses:
  "redact (set_redaction_level l) v =
     (if l = RNone then v
      else if l = RPartial \<and> 4 < length (utf8_chars v)
      then concat (take 4 (utf8_chars v)) @ ''...''
      else redacted)"
  by (cases l) (simp_all add: redact_full redact_none redact_partial_cases redaction_level_def
      set_redaction_level_def)

end
