(* ===== verification/Response.thy ===== *)
theory Response
  imports Redaction
begin

text \<open>
  \<open>types/response.rs\<close>: the response envelope, the auth block and the wrap block, their derived
  deserialisers and their redacting \<open>Debug\<close> impls; and \<open>ListResponse\<close> of \<open>types/kv.rs\<close>.
\<close>

record auth_info =
  client_token :: secret
  accessor :: string
  policies :: "string list"
  token_policies :: "string list"
  metadata :: "(string \<times> string) list option"
  auth_lease_duration :: nat
  auth_renewable :: bool
  entity_id :: string
  token_type :: string
  orphan :: bool
  mfa_requirement :: "json option"
  num_uses :: "nat option"

definition de_auth_info :: "json \<Rightarrow> auth_info option" where
  "de_auth_info = in_obj (\<lambda>v.
     Option.bind (fld de_secret ''client_token'' v) (\<lambda>ct.
     Option.bind (fld de_string ''accessor'' v) (\<lambda>ac.
     Option.bind (fld_default [] (de_vec de_string) ''policies'' v) (\<lambda>ps.
     Option.bind (fld_default [] (de_vec de_string) ''token_policies'' v) (\<lambda>tps.
     Option.bind (fld_opt (de_map de_string) ''metadata'' v) (\<lambda>md.
     Option.bind (fld (de_uint 64) ''lease_duration'' v) (\<lambda>ld.
     Option.bind (fld de_bool ''renewable'' v) (\<lambda>rn.
     Option.bind (fld de_string ''entity_id'' v) (\<lambda>ei.
     Option.bind (fld de_string ''token_type'' v) (\<lambda>tt.
     Option.bind (fld_default False de_bool ''orphan'' v) (\<lambda>orp.
     Option.bind (fld_opt de_value ''mfa_requirement'' v) (\<lambda>mfa.
     Option.bind (fld_opt (de_uint 64) ''num_uses'' v) (\<lambda>nu.
       Some \<lparr>client_token = ct, accessor = ac, policies = ps, token_policies = tps,
             metadata = md, auth_lease_duration = ld, auth_renewable = rn, entity_id = ei,
             token_type = tt, orphan = orp, mfa_requirement = mfa, num_uses = nu\<rparr>)))))))))))))"

definition dbg_auth_info :: "nat \<Rightarrow> auth_info \<Rightarrow> dbg" where
  "dbg_auth_info lvl a = DStruct ''AuthInfo''
     [(''client_token'', dbg_secret lvl (client_token a)),
      (''accessor'', DStr (accessor a)),
      (''policies'', dbg_strs (policies a)),
      (''token_policies'', dbg_strs (token_policies a)),
      (''metadata'', dbg_opt (\<lambda>m. DMap (map (\<lambda>(k, v). (k, DStr v)) m)) (metadata a)),
      (''lease_duration'', DNum (auth_lease_duration a)),
      (''renewable'', DBool (auth_renewable a)),
      (''entity_id'', DStr (entity_id a)),
      (''token_type'', DStr (token_type a)),
      (''orphan'', DBool (orphan a)),
      (''mfa_requirement'', dbg_opt DJson (mfa_requirement a)),
      (''num_uses'', dbg_opt DNum (num_uses a))]"

record wrap_info =
  wrap_token :: secret
  wrap_accessor :: string
  wrap_ttl_secs :: nat
  creation_time :: string
  creation_path :: string
  wrapped_accessor :: "string option"

definition de_wrap_info :: "json \<Rightarrow> wrap_info option" where
  "de_wrap_info = in_obj (\<lambda>v.
     Option.bind (fld de_secret ''token'' v) (\<lambda>tk.
     Option.bind (fld de_string ''accessor'' v) (\<lambda>ac.
     Option.bind (fld (de_uint 64) ''ttl'' v) (\<lambda>ttl.
     Option.bind (fld de_string ''creation_time'' v) (\<lambda>ct.
     Option.bind (fld de_string ''creation_path'' v) (\<lambda>cp.
     Option.bind (fld_opt de_string ''wrapped_accessor'' v) (\<lambda>wa.
       Some \<lparr>wrap_token = tk, wrap_accessor = ac, wrap_ttl_secs = ttl, creation_time = ct,
             creation_path = cp, wrapped_accessor = wa\<rparr>)))))))"

definition dbg_wrap_info :: "nat \<Rightarrow> wrap_info \<Rightarrow> dbg" where
  "dbg_wrap_info lvl w = DStruct ''WrapInfo''
     [(''token'', dbg_secret lvl (wrap_token w)),
      (''accessor'', DStr (wrap_accessor w)),
      (''ttl'', DNum (wrap_ttl_secs w)),
      (''creation_time'', DStr (creation_time w)),
      (''creation_path'', DStr (creation_path w)),
      (''wrapped_accessor'', dbg_opt DStr (wrapped_accessor w))]"

record 'a vault_response =
  request_id :: "string option"
  lease_id :: "string option"
  lease_duration :: "nat option"
  renewable :: "bool option"
  data :: "'a option"
  auth :: "auth_info option"
  warnings :: "string list option"
  wrap_info_of :: "wrap_info option"

definition de_vault_response :: "(json \<Rightarrow> 'a option) \<Rightarrow> json \<Rightarrow> 'a vault_response option" where
  "de_vault_response d = in_obj (\<lambda>v.
     Option.bind (fld_opt de_string ''request_id'' v) (\<lambda>ri.
     Option.bind (fld_opt de_string ''lease_id'' v) (\<lambda>li.
     Option.bind (fld_opt (de_uint 64) ''lease_duration'' v) (\<lambda>ld.
     Option.bind (fld_opt de_bool ''renewable'' v) (\<lambda>rn.
     Option.bind (fld_opt d ''data'' v) (\<lambda>dt.
     Option.bind (fld_opt de_auth_info ''auth'' v) (\<lambda>au.
     Option.bind (fld_opt (de_vec de_string) ''warnings'' v) (\<lambda>ws.
     Option.bind (fld_opt de_wrap_info ''wrap_info'' v) (\<lambda>wi.
       Some \<lparr>request_id = ri, lease_id = li, lease_duration = ld, renewable = rn,
             data = dt, auth = au, warnings = ws, wrap_info_of = wi\<rparr>)))))))))"

text \<open>\<open>show_data\<close> is the \<open>Debug\<close> text of the caller's payload type, which is redacted whole.\<close>

definition dbg_vault_response :: "('a \<Rightarrow> string) \<Rightarrow> nat \<Rightarrow> 'a vault_response \<Rightarrow> dbg" where
  "dbg_vault_response show_data lvl r = DStruct ''VaultResponse''
     [(''request_id'', dbg_opt DStr (request_id r)),
      (''lease_id'', dbg_opt DStr (lease_id r)),
      (''lease_duration'', dbg_opt DNum (lease_duration r)),
      (''renewable'', dbg_opt DBool (renewable r)),
      (''data'', dbg_opt (\<lambda>d. DStr (redact lvl (show_data d))) (data r)),
      (''auth'', dbg_opt (dbg_auth_info lvl) (auth r)),
      (''warnings'', dbg_opt dbg_strs (warnings r)),
      (''wrap_info'', dbg_opt (dbg_wrap_info lvl) (wrap_info_of r))]"

definition de_list_response :: "json \<Rightarrow> string list option" where
  "de_list_response = in_obj (fld_default [] (de_vec de_string) ''keys'')"

section \<open>What the decoders accept\<close>

lemma de_auth_info_bounds:
  "de_auth_info v = Some a \<Longrightarrow> auth_lease_duration a < 2 ^ 64"
  by (auto simp: de_auth_info_def in_obj_def fld_def bind_eq_Some_conv
      dest: de_uint_bound split: option.splits)

text \<open>The envelope ignores fields it does not know and takes missing or null ones as absent.\<close>

lemma de_vault_response_empty:
  "de_vault_response d (JObj []) =
     Some \<lparr>request_id = None, lease_id = None, lease_duration = None, renewable = None,
           data = None, auth = None, warnings = None, wrap_info_of = None\<rparr>"
  by (simp add: de_vault_response_def fld_opt_def)

text \<open>Two envelopes that differ in their secrets only.\<close>

definition same_but_secrets :: "'a vault_response \<Rightarrow> 'a vault_response \<Rightarrow> bool" where
  "same_but_secrets r r' \<longleftrightarrow>
     (\<exists>d a t w.
        r' = r\<lparr>data := d, auth := a, wrap_info_of := w\<rparr>
        \<and> (d = None) = (data r = None)
        \<and> a = map_option (client_token_update (\<lambda>_. t)) (auth r)
        \<and> (\<exists>u. w = map_option (wrap_token_update (\<lambda>_. u)) (wrap_info_of r)))"

lemma dbg_auth_info_full:
  "redaction_level lvl = RFull \<Longrightarrow>
   dbg_auth_info lvl (client_token_update (\<lambda>_. t) a) = dbg_auth_info lvl a"
  by (simp add: dbg_auth_info_def dbg_secret_full)

lemma dbg_wrap_info_full:
  "redaction_level lvl = RFull \<Longrightarrow>
   dbg_wrap_info lvl (wrap_token_update (\<lambda>_. t) w) = dbg_wrap_info lvl w"
  by (simp add: dbg_wrap_info_def dbg_secret_full)

lemma dbg_opt_map [simp]: "dbg_opt f (map_option g x) = dbg_opt (f \<circ> g) x"
  by (simp add: dbg_opt_def option.map_comp)

lemma dbg_opt_const: "(x = None) = (y = None) \<Longrightarrow> dbg_opt (\<lambda>_. k) x = dbg_opt (\<lambda>_. k) y"
  by (cases x; cases y) (auto simp: dbg_opt_def)

lemma dbg_vault_response_full:
  assumes "redaction_level lvl = RFull" and "same_but_secrets r r'"
  shows "dbg_vault_response sh lvl r' = dbg_vault_response sh lvl r"
  using assms
  by (auto simp: same_but_secrets_def dbg_vault_response_def redact_full comp_def
      dbg_auth_info_full dbg_wrap_info_full intro: dbg_opt_const)

text \<open>The auth block of a login answer, for concrete instances.\<close>

definition auth_example :: "string \<Rightarrow> auth_info" where
  "auth_example t =
     \<lparr>client_token = Secret t, accessor = ''acc'', policies = [''default''], token_policies = [],
      metadata = None, auth_lease_duration = 3600, auth_renewable = True, entity_id = ''e'',
      token_type = ''service'', orphan = False, mfa_requirement = None, num_uses = None\<rparr>"

end
