(* ===== verification/Vault_Path.thy ===== *)
theory Vault_Path
  imports Json
begin

text \<open>
  Paths: \<open>encode_path\<close> of \<open>client/async_client.rs\<close>, which every handler applies to what its
  caller passes in, and the validated newtypes \<open>MountPath\<close> and \<open>SecretPath\<close> of
  \<open>types/secret.rs\<close>. The specification side is a percent-decoder and a splitter at slashes.
\<close>

section \<open>encode_path\<close>

definition hex_upper :: "nat \<Rightarrow> char" where
  "hex_upper n = (if n < 10 then char_of (48 + n) else char_of (55 + n))"

definition needs_escape :: "char \<Rightarrow> bool" where
  "needs_escape c \<longleftrightarrow>
     c = CHR ''?'' \<or> c = CHR ''#'' \<or> c = CHR ''%'' \<or> c = CHR '' '' \<or> c = CHR ''['' \<or> c = CHR '']''
     \<or> (of_char c :: nat) \<le> 0x1F \<or> (of_char c :: nat) = 0x7F \<or> 0x80 \<le> (of_char c :: nat)"

definition encode_byte :: "char \<Rightarrow> string" where
  "encode_byte c =
     (if needs_escape c
      then [CHR ''%'', hex_upper (of_char c div 16), hex_upper (of_char c mod 16)]
      else [c])"

fun encode_path :: "string \<Rightarrow> string" where
  "encode_path [] = []"
| "encode_path (c # cs) = encode_byte c @ encode_path cs"

subsection \<open>The specification: percent-decoding\<close>

definition hex_value :: "char \<Rightarrow> nat option" where
  "hex_value c =
     (let n = of_char c :: nat
      in if 48 \<le> n \<and> n \<le> 57 then Some (n - 48)
         else if 65 \<le> n \<and> n \<le> 70 then Some (n - 55)
         else if 97 \<le> n \<and> n \<le> 102 then Some (n - 87)
         else None)"

fun percent_decode :: "string \<Rightarrow> string option" where
  "percent_decode [] = Some []"
| "percent_decode (c # cs) =
     (if c = CHR ''%'' then
        (case cs of
           h # l # r \<Rightarrow>
             (case (hex_value h, hex_value l) of
                (Some a, Some b) \<Rightarrow> map_option (Cons (char_of (16 * a + b))) (percent_decode r)
              | _ \<Rightarrow> None)
         | _ \<Rightarrow> None)
      else map_option (Cons c) (percent_decode cs))"

text \<open>Every percent sign starts an escape of two upper-case hex digits, and nothing else needs one.\<close>

definition upper_hex :: "char \<Rightarrow> bool" where
  "upper_hex c \<longleftrightarrow> (let n = of_char c :: nat in 48 \<le> n \<and> n \<le> 57 \<or> 65 \<le> n \<and> n \<le> 70)"

fun well_escaped :: "string \<Rightarrow> bool" where
  "well_escaped [] = True"
| "well_escaped (c # cs) =
     (if c = CHR ''%'' then
        (case cs of h # l # r \<Rightarrow> upper_hex h \<and> upper_hex l \<and> well_escaped r | _ \<Rightarrow> False)
      else \<not> needs_escape c \<and> well_escaped cs)"

fun split_at :: "char \<Rightarrow> string \<Rightarrow> string list" where
  "split_at d [] = [[]]"
| "split_at d (c # cs) =
     (if c = d then [] # split_at d cs
      else (case split_at d cs of s # ss \<Rightarrow> (c # s) # ss | [] \<Rightarrow> [[c]]))"

lemma of_char_hex_upper: "n < 16 \<Longrightarrow> of_char (hex_upper n) = (if n < 10 then 48 + n else 55 + n)"
  by (auto simp: hex_upper_def)

lemma hex_value_upper [simp]: "n < 16 \<Longrightarrow> hex_value (hex_upper n) = Some n"
  by (auto simp: hex_value_def Let_def of_char_hex_upper)

lemma upper_hex_upper [simp]: "n < 16 \<Longrightarrow> upper_hex (hex_upper n)"
  by (auto simp: upper_hex_def Let_def of_char_hex_upper)

lemma of_char_div16 [simp]: "(of_char c :: nat) div 16 < 16"
  using nat_of_char_less_256 [of c] by (simp add: less_mult_imp_div_less del: nat_of_char_less_256)

lemma needs_escape_percent [simp]: "needs_escape (CHR ''%'')"
  by (simp add: needs_escape_def)

lemma not_needs_escape_slash [simp]: "\<not> needs_escape (CHR ''/'')"
  by (simp add: needs_escape_def)

lemma not_needs_escape_ne [simp]: "\<not> needs_escape c \<Longrightarrow> c \<noteq> CHR ''%''"
  by auto

lemma percent_decode_byte:
  "percent_decode (encode_byte c @ r) = map_option (Cons c) (percent_decode r)"
proof (cases "needs_escape c")
  case True
  then show ?thesis by (simp add: encode_byte_def)
qed (auto simp: encode_byte_def)

lemma percent_decode_encode [simp]: "percent_decode (encode_path s) = Some s"
  by (induction s) (simp_all add: percent_decode_byte)

lemma encode_path_inject [simp]: "encode_path s = encode_path t \<longleftrightarrow> s = t"
  by (metis option.inject percent_decode_encode)

lemma well_escaped_byte [simp]: "well_escaped (encode_byte c @ r) \<longleftrightarrow> well_escaped r"
  by (auto simp: encode_byte_def)

lemma well_escaped_encode [simp]: "well_escaped (encode_path s)"
  by (induction s) simp_all

lemma encode_path_append [simp]: "encode_path (s @ t) = encode_path s @ encode_path t"
  by (induction s) simp_all

lemma encode_path_id: "list_all (\<lambda>c. \<not> needs_escape c) s \<Longrightarrow> encode_path s = s"
  by (induction s) (auto simp: encode_byte_def)

lemma length_encode_path: "length s \<le> length (encode_path s) \<and> length (encode_path s) \<le> 3 * length s"
  by (induction s) (auto simp: encode_byte_def)

lemma upper_hex_clean: "upper_hex c \<Longrightarrow> \<not> needs_escape c"
  by (auto simp: upper_hex_def needs_escape_def Let_def)

lemma well_escaped_chars: "well_escaped s \<Longrightarrow> c \<in> set s \<Longrightarrow> needs_escape c \<Longrightarrow> c = CHR ''%''"
  by (induction s rule: well_escaped.induct)
    (auto split: if_splits list.splits dest: upper_hex_clean)

lemma encode_path_no_query [simp]:
  "CHR ''?'' \<notin> set (encode_path s)" "CHR ''#'' \<notin> set (encode_path s)"
  using well_escaped_chars [OF well_escaped_encode, of "CHR ''?''" s]
    well_escaped_chars [OF well_escaped_encode, of "CHR ''#''" s]
  by (auto simp: needs_escape_def)

lemma split_at_ne [simp]: "split_at d s \<noteq> []"
  by (induction s) (auto split: list.splits)

lemma upper_hex_not_slash: "upper_hex c \<Longrightarrow> c \<noteq> CHR ''/''"
  by (auto simp: upper_hex_def)

lemma encode_byte_no_slash:
  assumes "c \<noteq> CHR ''/''" and "x \<in> set (encode_byte c)"
  shows "x \<noteq> CHR ''/''"
proof (cases "needs_escape c")
  case True
  then have "x = CHR ''%'' \<or> upper_hex x" using assms by (auto simp: encode_byte_def)
  then show ?thesis by (auto dest: upper_hex_not_slash)
qed (use assms in \<open>auto simp: encode_byte_def\<close>)

lemma split_at_prefix:
  "(\<And>x. x \<in> set p \<Longrightarrow> x \<noteq> d) \<Longrightarrow>
   split_at d (p @ s) = (case split_at d s of h # t \<Rightarrow> (p @ h) # t | [] \<Rightarrow> [p])"
  by (induction p) (auto split: list.splits)

lemma split_encode_path: "split_at (CHR ''/'') (encode_path s) = map encode_path (split_at (CHR ''/'') s)"
proof (induction s)
  case (Cons c cs)
  show ?case
  proof (cases "c = CHR ''/''")
    case True
    then show ?thesis using Cons by (simp add: encode_byte_def)
  next
    case False
    then have "split_at (CHR ''/'') (encode_byte c @ encode_path cs)
        = (case split_at (CHR ''/'') (encode_path cs) of h # t \<Rightarrow> (encode_byte c @ h) # t | [] \<Rightarrow> [encode_byte c])"
      by (intro split_at_prefix) (auto dest: encode_byte_no_slash)
    then show ?thesis using False Cons by (auto split: list.splits)
  qed
qed simp

section \<open>Validated paths\<close>

text \<open>
  \<open>char::is_control\<close> (Unicode category Cc) on the UTF-8 encoding of one character: below
  \<open>0x20\<close>, \<open>0x7F\<close>, and \<open>U+0080\<close> to \<open>U+009F\<close>, which are \<open>C2 80\<close> to \<open>C2 9F\<close>.
\<close>

fun is_control :: "string \<Rightarrow> bool" where
  "is_control [b] = ((of_char b :: nat) < 0x20 \<or> (of_char b :: nat) = 0x7F)"
| "is_control [a, b] = ((of_char a :: nat) = 0xC2 \<and> 0x80 \<le> (of_char b :: nat) \<and> (of_char b :: nat) \<le> 0x9F)"
| "is_control _ = False"

definition invalid_vault_path :: "string \<Rightarrow> bool" where
  "invalid_vault_path s \<longleftrightarrow>
     s = [] \<or> contains s ''..'' \<or> starts_with s ''/'' \<or> ends_with s ''/''
     \<or> contains s [CHR 0x00] \<or> contains s ''%2e'' \<or> contains s ''%2E''
     \<or> contains s ''%2f'' \<or> contains s ''%2F'' \<or> list_ex is_control (utf8_chars s)"

text \<open>\<open>dbg\<close> is \<open>str\<close>'s \<open>Debug\<close> formatting, which only shapes the error text.\<close>

definition validate_vault_path :: "(string \<Rightarrow> string) \<Rightarrow> string \<Rightarrow> string \<Rightarrow> unit outcome" where
  "validate_vault_path dbg s kind =
     (if invalid_vault_path s then Err (Config (''invalid '' @ kind @ '': '' @ dbg s)) else Ok ())"

datatype mount_path = MountPath (mount_str: string)
datatype secret_path = SecretPath (secret_str: string)

definition mount_path_new :: "(string \<Rightarrow> string) \<Rightarrow> string \<Rightarrow> mount_path outcome" where
  "mount_path_new dbg s = then_ok (validate_vault_path dbg s ''mount path'') (\<lambda>_. Ok (MountPath s))"

definition secret_path_new :: "(string \<Rightarrow> string) \<Rightarrow> string \<Rightarrow> secret_path outcome" where
  "secret_path_new dbg s = then_ok (validate_vault_path dbg s ''secret path'') (\<lambda>_. Ok (SecretPath s))"

text \<open>\<open>Deserialize\<close>: a JSON string that passes the same check.\<close>

definition de_mount_path :: "(string \<Rightarrow> string) \<Rightarrow> json \<Rightarrow> mount_path option" where
  "de_mount_path dbg v =
     (case de_string v of None \<Rightarrow> None
      | Some s \<Rightarrow> (case mount_path_new dbg s of Ok p \<Rightarrow> Some p | _ \<Rightarrow> None))"

definition de_secret_path :: "(string \<Rightarrow> string) \<Rightarrow> json \<Rightarrow> secret_path option" where
  "de_secret_path dbg v =
     (case de_string v of None \<Rightarrow> None
      | Some s \<Rightarrow> (case secret_path_new dbg s of Ok p \<Rightarrow> Some p | _ \<Rightarrow> None))"

text \<open>The conversions: \<open>TryFrom\<close> validates too; \<open>as_str\<close>, \<open>Display\<close>, \<open>AsRef\<close>, \<open>Borrow\<close> and \<open>String::from\<close> give the text.\<close>

definition mount_path_try_from :: "(string \<Rightarrow> string) \<Rightarrow> string \<Rightarrow> mount_path outcome" where
  "mount_path_try_from dbg s = mount_path_new dbg s"

definition secret_path_try_from :: "(string \<Rightarrow> string) \<Rightarrow> string \<Rightarrow> secret_path outcome" where
  "secret_path_try_from dbg s = secret_path_new dbg s"

definition mount_path_as_str :: "mount_path \<Rightarrow> string" where
  "mount_path_as_str p = mount_str p"

definition secret_path_as_str :: "secret_path \<Rightarrow> string" where
  "secret_path_as_str p = secret_str p"

text \<open>The derived \<open>Serialize\<close> of a newtype is that of its content.\<close>

definition ser_mount_path :: "mount_path \<Rightarrow> json" where
  "ser_mount_path p = JStr (mount_str p)"

definition ser_secret_path :: "secret_path \<Rightarrow> json" where
  "ser_secret_path p = JStr (secret_str p)"

lemma validate_Ok_iff [simp]: "validate_vault_path dbg s k = Ok u \<longleftrightarrow> \<not> invalid_vault_path s"
  by (simp add: validate_vault_path_def)

lemma mount_path_new_Ok [simp]: "mount_path_new dbg s = Ok p \<longleftrightarrow> \<not> invalid_vault_path s \<and> p = MountPath s"
  by (auto simp: mount_path_new_def)

lemma secret_path_new_Ok [simp]: "secret_path_new dbg s = Ok p \<longleftrightarrow> \<not> invalid_vault_path s \<and> p = SecretPath s"
  by (auto simp: secret_path_new_def)

subsection \<open>A validated path hides no traversal behind escapes\<close>

lemma hex_value_dot: "hex_value h = Some a \<Longrightarrow> hex_value l = Some b \<Longrightarrow> char_of (16 * a + b) = CHR ''.''
   \<Longrightarrow> h = CHR ''2'' \<and> (l = CHR ''e'' \<or> l = CHR ''E'')"
proof -
  assume h: "hex_value h = Some a" and l: "hex_value l = Some b"
    and d: "char_of (16 * a + b) = CHR ''.''"
  have ab: "a < 16" "b < 16" using h l by (auto simp: hex_value_def Let_def split: if_splits)
  have "of_char (char_of (16 * a + b) :: char) = (46::nat)" using d by simp
  then have "(16 * a + b) mod 256 = 46" by simp
  then have "16 * a + b = 46" using ab by simp
  then have "a = 2" "b = 14" using ab by presburger+
  then have "(of_char h :: nat) = 50" "(of_char l :: nat) = 101 \<or> (of_char l :: nat) = 69"
    using h l by (auto simp: hex_value_def Let_def split: if_splits)
  then have "of_char h = (of_char (CHR ''2'') :: nat)"
    "of_char l = (of_char (CHR ''e'') :: nat) \<or> of_char l = (of_char (CHR ''E'') :: nat)"
    by simp_all
  then show ?thesis by (metis char_of_char)
qed

lemma decode_head_dot:
  assumes "percent_decode s = Some (CHR ''.'' # t)"
    and "\<not> contains s ''%2e''" and "\<not> contains s ''%2E''"
  shows "\<exists>r. s = CHR ''.'' # r \<and> percent_decode r = Some t"
proof (cases s)
  case (Cons c cs)
  show ?thesis
  proof (cases "c = CHR ''%''")
    case True
    then obtain h l r a b where *: "cs = h # l # r" "hex_value h = Some a" "hex_value l = Some b"
        "char_of (16 * a + b) = CHR ''.''"
      using assms(1) Cons by (auto split: list.splits option.splits)
    then have "s = ''%2e'' @ r \<or> s = ''%2E'' @ r"
      using hex_value_dot True Cons by fastforce
    then have "contains s ''%2e'' \<or> contains s ''%2E''"
      by (auto simp: starts_with_def)
    with assms(2,3) show ?thesis by blast
  next
    case False
    with assms(1) Cons show ?thesis by auto
  qed
qed (use assms in simp)

lemma decode_no_dotdot:
  "percent_decode s = Some t \<Longrightarrow> \<not> contains s ''..'' \<Longrightarrow> \<not> contains s ''%2e'' \<Longrightarrow> \<not> contains s ''%2E''
   \<Longrightarrow> \<not> contains t ''..''"
proof (induction s arbitrary: t rule: percent_decode.induct)
  case (2 c cs)
  have tail: "\<not> starts_with t ''..''"
  proof
    assume "starts_with t ''..''"
    then obtain u where t: "t = CHR ''.'' # CHR ''.'' # u" by (auto simp: starts_with_iff)
    obtain r where r: "c # cs = CHR ''.'' # r" "percent_decode r = Some (CHR ''.'' # u)"
      using decode_head_dot [of "c # cs"] 2(3,5,6) t by blast
    have "\<not> contains r ''%2e''" "\<not> contains r ''%2E''" using 2(5,6) r(1) by auto
    then obtain r' where "r = CHR ''.'' # r'" using decode_head_dot r(2) by blast
    then have "c # cs = ''..'' @ r'" using r(1) by simp
    then show False using 2(4) contains_append [of "[]" "''..''" r'] by simp
  qed
  show ?case
  proof (cases "c = CHR ''%''")
    case True
    then obtain h l r a b t' where *: "cs = h # l # r" "hex_value h = Some a" "hex_value l = Some b"
        "percent_decode r = Some t'" "t = char_of (16 * a + b) # t'"
      using 2(3) by (auto split: list.splits option.splits)
    have "\<not> contains t' ''..''"
      using 2(1) [OF True] 2(4-6) * by auto
    with tail * show ?thesis by auto
  next
    case False
    then obtain t' where *: "percent_decode cs = Some t'" "t = c # t'" using 2(3) by auto
    have "\<not> contains t' ''..''" using 2(2) [OF False *(1)] 2(4-6) by auto
    with tail * show ?thesis by auto
  qed
qed simp

subsection \<open>Segments that a URL parser removes\<close>

text \<open>
  The double-dot path segments of the URL standard: a parser that meets one drops the segment
  before it. Its percent sign may start an escape of a dot, in either case.
\<close>

definition double_dot :: "string \<Rightarrow> bool" where
  "double_dot seg \<longleftrightarrow>
     seg \<in> {''..'', ''.%2e'', ''.%2E'', ''%2e.'', ''%2E.'', ''%2e%2e'', ''%2e%2E'', ''%2E%2e'', ''%2E%2E''}"

lemma char_of_46: "char_of (46 :: nat) = CHR ''.''"
  by code_simp

lemma double_dot_decodes: "double_dot seg \<Longrightarrow> percent_decode seg = Some ''..''"
  by (auto simp: double_dot_def hex_value_def Let_def char_of_46)

lemma double_dot_encode [simp]: "double_dot (encode_path s) \<longleftrightarrow> s = ''..''"
proof
  assume "double_dot (encode_path s)"
  then show "s = ''..''" using double_dot_decodes [of "encode_path s"] by simp
qed (simp add: encode_byte_def needs_escape_def double_dot_def)

lemma split_at_infix: "seg \<in> set (split_at d s) \<Longrightarrow> \<exists>p r. s = p @ seg @ r"
proof (induction s arbitrary: seg)
  case (Cons c cs)
  obtain h t where ht: "split_at d cs = h # t" by (cases "split_at d cs") simp_all
  have h: "\<exists>r. cs = h @ r"
    using ht
  proof (induction cs arbitrary: h t)
    case (Cons x xs)
    obtain h' t' where "split_at d xs = h' # t'" by (cases "split_at d xs") simp_all
    then show ?case using Cons by (auto split: if_splits)
  qed simp
  show ?case
  proof (cases "c \<noteq> d \<and> seg = c # h")
    case True
    moreover obtain r where "cs = h @ r" using h by blast
    ultimately show ?thesis by (intro exI [of _ "[]"] exI [of _ r]) simp
  next
    case False
    then have "seg = [] \<or> seg \<in> set (split_at d cs)"
      using Cons.prems ht by (auto split: if_splits)
    then show ?thesis using Cons.IH by (metis append_Cons append_Nil)
  qed
qed simp

text \<open>
  In an \<open>http\<close> or \<open>https\<close> URL the standard reads a backslash in the path as a slash, so the
  segments that the parser sees are those of the text with its backslashes turned.
\<close>

definition slashed :: "char \<Rightarrow> char" where
  "slashed c = (if c = CHR 0x5C then CHR ''/'' else c)"

definition url_segments :: "string \<Rightarrow> string list" where
  "url_segments s = split_at CHR ''/'' (map slashed s)"

lemma slashed_cases: "slashed c = CHR ''/'' \<longleftrightarrow> c = CHR ''/'' \<or> c = CHR 0x5C"
  by (auto simp: slashed_def)

lemma slashed_dot [simp]: "slashed c = CHR ''.'' \<longleftrightarrow> c = CHR ''.''" "CHR ''.'' = slashed c \<longleftrightarrow> c = CHR ''.''"
  "slashed (CHR ''.'') = CHR ''.''"
  by (auto simp: slashed_def)

lemma upper_hex_not_backslash: "upper_hex c \<Longrightarrow> c \<noteq> CHR 0x5C"
  by (auto simp: upper_hex_def)

lemma slashed_byte: "map slashed (encode_byte c) = encode_byte (slashed c)"
proof (cases "needs_escape c")
  case True
  then have "c \<noteq> CHR 0x5C" by (auto simp: needs_escape_def)
  then show ?thesis
    using upper_hex_not_backslash [OF upper_hex_upper] True
    by (simp add: encode_byte_def slashed_def)
next
  case False
  then show ?thesis by (auto simp: encode_byte_def slashed_def)
qed

lemma slashed_encode: "map slashed (encode_path s) = encode_path (map slashed s)"
  by (induction s) (simp_all add: slashed_byte)

lemma url_segments_encode: "url_segments (encode_path s) = map encode_path (url_segments s)"
  by (simp add: url_segments_def slashed_encode split_encode_path)

lemma set_split_at: "(\<Union>seg \<in> set (split_at d s). set seg) = set s - {d}"
proof (induction s)
  case (Cons c cs)
  obtain h t where ht: "split_at d cs = h # t" by (cases "split_at d cs") simp_all
  show ?case
  proof (cases "c = d")
    case False
    then have "(\<Union>seg \<in> set (split_at d (c # cs)). set seg) = insert c (\<Union>seg \<in> set (split_at d cs). set seg)"
      using ht by simp
    then show ?thesis using Cons.IH False by auto
  qed (use Cons.IH in simp)
qed simp

text \<open>Only a backslash makes the parser's segments differ from the caller's.\<close>

lemma url_segments_raw: "url_segments s = split_at CHR ''/'' s \<longleftrightarrow> CHR 0x5C \<notin> set s"
proof
  assume "url_segments s = split_at CHR ''/'' s"
  then have "set (map slashed s) - {CHR ''/''} = set s - {CHR ''/''}"
    unfolding url_segments_def by (metis set_split_at)
  then show "CHR 0x5C \<notin> set s" by (auto simp: slashed_def)
next
  assume "CHR 0x5C \<notin> set s"
  then have "map slashed s = s" by (intro map_idI) (auto simp: slashed_def)
  then show "url_segments s = split_at CHR ''/'' s" by (simp add: url_segments_def)
qed

lemma valid_no_double_dot:
  assumes "\<not> invalid_vault_path s" and "seg \<in> set (url_segments (encode_path s))"
  shows "\<not> double_dot seg"
proof -
  obtain raw where raw: "raw \<in> set (split_at CHR ''/'' (map slashed s))" "seg = encode_path raw"
    using assms(2) unfolding url_segments_encode unfolding url_segments_def by auto
  obtain p r where s: "map slashed s = p @ raw @ r" using split_at_infix [OF raw(1)] by blast
  have "raw \<noteq> ''..''"
  proof
    assume "raw = ''..''"
    then have "map slashed s = p @ CHR ''.'' # CHR ''.'' # r" using s by simp
    then obtain x y where "s = x @ ''..'' @ y" by (auto simp: map_eq_append_conv map_eq_Cons_conv)
    then show False
      using assms(1) contains_append [of x "''..''" y] by (simp add: invalid_vault_path_def)
  qed
  then show ?thesis using raw(2) by simp
qed

section \<open>Properties\<close>

text \<open>
  C20: \<open>encode_path\<close> loses nothing: percent-decoding the encoded path gives back the raw bytes, so
  two different paths never reach the same URL path by encoding.
\<close>

theorem encode_path_roundtrip:
  "percent_decode (encode_path s) = Some s \<and> (encode_path s = encode_path t \<longleftrightarrow> s = t)"
  using encode_path_inject by (auto simp: percent_decode_encode)

definition url_safe :: "char \<Rightarrow> bool" where
  "url_safe c \<longleftrightarrow> (0x20::nat) < of_char c \<and> of_char c < (0x7F::nat) \<and> c \<notin> set ''?#[]''"

lemma url_safe_encode: "list_all url_safe (encode_path s)"
  unfolding list_all_iff
proof
  fix c assume c: "c \<in> set (encode_path s)"
  show "url_safe c"
  proof (cases "needs_escape c")
    case True
    with c have "c = CHR ''%''" using well_escaped_chars well_escaped_encode by blast
    then show ?thesis by (simp add: url_safe_def)
  next
    case False
    moreover have "(of_char c :: nat) \<noteq> 32"
    proof
      assume "(of_char c :: nat) = 32"
      then have "of_char c = (of_char (CHR '' '') :: nat)" by simp
      then have "c = CHR '' ''" by (metis char_of_char)
      with False show False by (simp add: needs_escape_def)
    qed
    ultimately show ?thesis by (auto simp: needs_escape_def url_safe_def)
  qed
qed

text \<open>
  C15: What \<open>encode_path\<close> keeps of a path: its output is printable ASCII without blanks, \<open>?\<close>, \<open>#\<close> or
  brackets, so it cannot start a query or a fragment, and every percent sign starts an escape of
  two upper-case hex digits. The segments a URL parser finds in it are the encoded segments it
  finds in the raw path - which are the ones between slashes exactly when the path has no
  backslash, a character that is passed on and read as one more slash. A segment that a parser
  resolves to the parent comes only from a raw segment \<open>..\<close>.
\<close>

theorem encode_path_safe:
  "well_escaped (encode_path s)
   \<and> list_all url_safe (encode_path s)
   \<and> url_segments (encode_path s) = map encode_path (url_segments s)
   \<and> (url_segments s = split_at CHR ''/'' s \<longleftrightarrow> CHR 0x5C \<notin> set s)
   \<and> (double_dot (encode_path s) \<longleftrightarrow> s = ''..'')"
  using url_safe_encode [of s] url_segments_encode [of s] url_segments_raw [of s] by simp

text \<open>
  C21: What a \<open>MountPath\<close> or \<open>SecretPath\<close> accepts: exactly the texts that pass the path check, kept
  as they are, whether built or deserialised, so that they survive serialisation; and an accepted path has no parent traversal,
  not even one that appears only after percent-decoding, and none of its segments, once encoded for
  a request, is one that a URL parser resolves to the parent.
\<close>

theorem validated_paths:
  "(mount_path_new d s = Ok p \<longleftrightarrow> \<not> invalid_vault_path s \<and> p = MountPath s)
   \<and> (secret_path_new d s = Ok q \<longleftrightarrow> \<not> invalid_vault_path s \<and> q = SecretPath s)
   \<and> (de_mount_path d (JStr s) = (if invalid_vault_path s then None else Some (MountPath s)))
   \<and> (de_secret_path d (JStr s) = (if invalid_vault_path s then None else Some (SecretPath s)))
   \<and> (mount_path_new d s = Ok p \<longrightarrow> mount_path_as_str p = s \<and> de_mount_path d (ser_mount_path p) = Some p)
   \<and> (secret_path_new d s = Ok q \<longrightarrow> secret_path_as_str q = s \<and> de_secret_path d (ser_secret_path q) = Some q)
   \<and> \<not> (\<not> invalid_vault_path s
        \<and> (\<exists>t. percent_decode s = Some t \<and> contains t ''..''))
   \<and> (\<not> invalid_vault_path s \<longrightarrow>
        (\<forall>seg \<in> set (url_segments (encode_path s)). \<not> double_dot seg))"
proof -
  have "\<not> contains t ''..''" if "percent_decode s = Some t" "\<not> invalid_vault_path s" for t
    using that decode_no_dotdot [of s t] by (simp add: invalid_vault_path_def)
  then show ?thesis
    by (auto simp: de_mount_path_def de_secret_path_def mount_path_new_def secret_path_new_def
        validate_vault_path_def valid_no_double_dot mount_path_as_str_def secret_path_as_str_def
        ser_mount_path_def ser_secret_path_def)
qed

theorem validated_paths_witness:
  "mount_path_new (\<lambda>s. s) ''a/.x'' = Ok (MountPath ''a/.x'')
   \<and> de_secret_path (\<lambda>s. s) (JStr ''../x'') = None
   \<and> list_all (\<lambda>seg. \<not> double_dot seg) (url_segments (encode_path ''a/.x''))"
proof -
  have "\<not> invalid_vault_path ''a/.x''" and "invalid_vault_path ''../x''"
    by code_simp+
  then show ?thesis
    using validated_paths [of "\<lambda>s. s" "''a/.x''"] validated_paths [of "\<lambda>s. s" "''../x''"]
    by (simp add: list_all_iff)
qed

end
