(* ===== verification/Client_State.thy ===== *)
theory Client_State
  imports Std_Time Circuit_Breaker Response Vault_Path
begin

text \<open>
  The state of a \<open>VaultClient\<close> (\<open>client/async_client.rs\<close>) and its environment.
  \<open>client\<close> holds what never changes after \<open>build\<close>; \<open>cstate\<close> holds what calls change (the
  token behind its lock, the breaker, the clock) and the trace of what a call did to the
  outside: requests with their answers, sleeps, callback invocations.
  \<open>env\<close> is the code that is not under src/: reqwest's \<open>send\<close> and \<open>try_clone\<close>, \<open>rand\<close>, the URL
  parser, the JSON reader and the passing of time, as functions on an opaque world \<open>'w\<close>.
  An action \<open>('w, 'a) io\<close> maps a state to an outcome and the next state.
\<close>

datatype http_method = GET | POST | PUT | DELETE | PATCH | LIST

datatype body = JsonBody json | RawBody string

record http_request =
  rq_method :: http_method
  rq_url :: string
  rq_headers :: "(string \<times> string) list"
  rq_body :: "body option"

text \<open>
  A response: its status, its \<open>Retry-After\<close> header as visible text, and its body, whose reading
  may itself fail.
\<close>

record http_response =
  rs_status :: nat
  rs_retry_after :: "string option"
  rs_body :: "reqwest_error + string"

type_synonym send_result = "reqwest_error + http_response"

datatype event =
    ESend http_request send_result
  | ESleep nat
  | ETokenChanged auth_info

text \<open>\<open>TokenState\<close>; the lease duration is in nanoseconds like every duration.\<close>

record token_state =
  ts_value :: secret
  ts_expires_at :: "nat option"
  ts_renewable :: bool
  ts_lease_duration :: nat

record client_config =
  timeout :: nat
  max_retries :: nat
  initial_retry_delay :: nat
  cfg_wrap_ttl :: "string option"
  forward_to_leader :: bool
  retry_on_sealed :: bool

definition client_config_default :: client_config where
  "client_config_default =
     \<lparr>timeout = secs 60, max_retries = 2, initial_retry_delay = millis 500, cfg_wrap_ttl = None,
      forward_to_leader = False, retry_on_sealed = True\<rparr>"

record 'w cstate =
  token :: "token_state option"
  token_poisoned :: bool
  breaker :: "circuit_breaker option"
  now :: nat
  world :: 'w
  trace :: "event list"

type_synonym ('w, 'a) io = "'w cstate \<Rightarrow> 'a outcome \<times> 'w cstate"

text \<open>
  \<open>e_send\<close> answers a request and says how long it took; \<open>e_clone\<close> is \<open>RequestBuilder::try_clone\<close>;
  \<open>e_draw\<close> gives a random \<open>u64\<close>; \<open>e_idle\<close> is time that passes between two statements;
  \<open>e_url\<close> parses and normalises a URL; \<open>e_json\<close> reads a JSON text. Errors are their text.
\<close>

record 'w env =
  e_send :: "http_request \<Rightarrow> 'w \<Rightarrow> send_result \<times> nat \<times> 'w"
  e_clone :: "http_request \<Rightarrow> http_request option"
  e_draw :: "'w \<Rightarrow> nat \<times> 'w"
  e_idle :: "'w \<Rightarrow> nat \<times> 'w"
  e_url :: "string \<Rightarrow> string + string"
  e_json :: "string \<Rightarrow> string + json"

text \<open>
  The immutable part. \<open>auth_method\<close> is the trait object \<open>Arc<dyn AuthMethodDyn>\<close>: the login it
  performs on a view of this client with the given namespace and wrap-TTL overrides. \<open>has_callback\<close> says whether \<open>on_token_changed\<close> is set.
\<close>

record 'w client =
  cl_env :: "'w env"
  base_url :: string
  namespace :: "string option"
  config :: client_config
  auth_method :: "(string option \<Rightarrow> string option \<Rightarrow> ('w, auth_info) io) option"
  has_callback :: bool
  namespace_override :: "string option"
  wrap_ttl_override :: "string option"

text \<open>The \<open>Debug\<close> of a client: its address only, with the token and the rest left out.\<close>

definition dbg_vault_client :: "'w client \<Rightarrow> dbg" where
  "dbg_vault_client c = DStruct ''VaultClient'' [(''base_url'', DStr (base_url c))]"

section \<open>Actions\<close>

definition bind_io :: "('w, 'a) io \<Rightarrow> ('a \<Rightarrow> ('w, 'b) io) \<Rightarrow> ('w, 'b) io" where
  "bind_io m f = (\<lambda>s.
     case m s of
       (Ok a, s') \<Rightarrow> f a s'
     | (Err e, s') \<Rightarrow> (Err e, s')
     | (Panic p, s') \<Rightarrow> (Panic p, s'))"

definition lift_io :: "'a outcome \<Rightarrow> ('w, 'a) io" where
  "lift_io r = (\<lambda>s. (r, s))"

abbreviation ret_io :: "'a \<Rightarrow> ('w, 'a) io" where
  "ret_io a \<equiv> lift_io (Ok a)"

definition map_io :: "('a \<Rightarrow> 'b outcome) \<Rightarrow> ('w, 'a) io \<Rightarrow> ('w, 'b) io" where
  "map_io f m = bind_io m (\<lambda>a. lift_io (f a))"

lemma bind_io_lift [simp]:
  "bind_io (lift_io (Ok a)) f = f a"
  "bind_io (lift_io (Err e)) f = lift_io (Err e)"
  "bind_io (lift_io (Panic p)) f = lift_io (Panic p)"
  by (simp_all add: bind_io_def lift_io_def)

lemma bind_io_ret [simp]: "bind_io m (\<lambda>a. lift_io (Ok a)) = m"
  by (auto simp: bind_io_def lift_io_def fun_eq_iff split: prod.splits outcome.splits)

lemma bind_io_assoc: "bind_io (bind_io m f) g = bind_io m (\<lambda>a. bind_io (f a) g)"
  by (auto simp: bind_io_def fun_eq_iff split: prod.splits outcome.splits)

lemma lift_io_apply [simp]: "lift_io r s = (r, s)"
  by (simp add: lift_io_def)

lemma bind_io_eq:
  "m s = (Ok a, s') \<Longrightarrow> bind_io m f s = f a s'"
  "m s = (Err e, s') \<Longrightarrow> bind_io m f s = (Err e, s')"
  "m s = (Panic p, s') \<Longrightarrow> bind_io m f s = (Panic p, s')"
  by (simp_all add: bind_io_def)

lemma bind_io_cases:
  "bind_io m f s =
     (case m s of (r, s') \<Rightarrow>
        (case r of Ok a \<Rightarrow> f a s' | Err e \<Rightarrow> (Err e, s') | Panic p \<Rightarrow> (Panic p, s')))"
  by (auto simp: bind_io_def split: prod.splits outcome.splits)

lemma map_io_lift [simp]: "map_io f (lift_io r) = lift_io (then_ok r f)"
  by (cases r) (simp_all add: map_io_def, simp add: lift_io_def)

lemma map_io_apply:
  "map_io f m s = (case m s of (r, s') \<Rightarrow> (then_ok r f, s'))"
  by (auto simp: map_io_def bind_io_def split: prod.splits outcome.splits)

section \<open>Effects on the environment\<close>

text \<open>\<open>Instant::now()\<close>: some time may have passed since the last statement.\<close>

definition clock :: "'w client \<Rightarrow> 'w cstate \<Rightarrow> nat \<times> 'w cstate" where
  "clock c s =
     (case e_idle (cl_env c) (world s) of (d, w) \<Rightarrow>
        (now s + d, s\<lparr>now := now s + d, world := w\<rparr>))"

text \<open>\<open>tokio::time::sleep(d)\<close>: at least \<open>d\<close> passes.\<close>

definition sleep :: "'w client \<Rightarrow> nat \<Rightarrow> 'w cstate \<Rightarrow> 'w cstate" where
  "sleep c d s =
     (case e_idle (cl_env c) (world s) of (extra, w) \<Rightarrow>
        s\<lparr>now := now s + d + extra, world := w, trace := trace s @ [ESleep d]\<rparr>)"

text \<open>A random number below \<open>n\<close>: every value of the range can be drawn.\<close>

definition draw_below :: "'w client \<Rightarrow> nat \<Rightarrow> 'w cstate \<Rightarrow> nat \<times> 'w cstate" where
  "draw_below c n s =
     (case e_draw (cl_env c) (world s) of (r, w) \<Rightarrow> (r mod n, s\<lparr>world := w\<rparr>))"

definition send :: "'w client \<Rightarrow> http_request \<Rightarrow> 'w cstate \<Rightarrow> send_result \<times> 'w cstate" where
  "send c rq s =
     (case e_send (cl_env c) rq (world s) of (res, dt, w) \<Rightarrow>
        (res, s\<lparr>now := now s + dt, world := w, trace := trace s @ [ESend rq res]\<rparr>))"

text \<open>What a trace contains.\<close>

fun answers :: "event list \<Rightarrow> send_result list" where
  "answers [] = []"
| "answers (ESend rq res # es) = res # answers es"
| "answers (ESleep d # es) = answers es"
| "answers (ETokenChanged a # es) = answers es"

fun requests :: "event list \<Rightarrow> http_request list" where
  "requests [] = []"
| "requests (ESend rq res # es) = rq # requests es"
| "requests (ESleep d # es) = requests es"
| "requests (ETokenChanged a # es) = requests es"

fun sleeps :: "event list \<Rightarrow> nat list" where
  "sleeps [] = []"
| "sleeps (ESend rq res # es) = sleeps es"
| "sleeps (ESleep d # es) = d # sleeps es"
| "sleeps (ETokenChanged a # es) = sleeps es"

fun token_changes :: "event list \<Rightarrow> auth_info list" where
  "token_changes [] = []"
| "token_changes (ESend rq res # es) = token_changes es"
| "token_changes (ESleep d # es) = token_changes es"
| "token_changes (ETokenChanged a # es) = a # token_changes es"

lemma trace_append [simp]:
  "answers (es @ fs) = answers es @ answers fs"
  "requests (es @ fs) = requests es @ requests fs"
  "sleeps (es @ fs) = sleeps es @ sleeps fs"
  "token_changes (es @ fs) = token_changes es @ token_changes fs"
  by (induction es rule: answers.induct) auto

lemma length_answers: "length (answers es) = length (requests es)"
  by (induction es rule: answers.induct) auto

section \<open>Token state\<close>

text \<open>\<open>set_token\<close>: a caller-supplied token has no known expiry and is not renewable.\<close>

definition set_token :: "secret \<Rightarrow> ('w, unit) io" where
  "set_token t = (\<lambda>s.
     if token_poisoned s then (Err LockPoisoned, s)
     else (Ok (), s\<lparr>token := Some \<lparr>ts_value = t, ts_expires_at = None, ts_renewable = False,
                                  ts_lease_duration = 0\<rparr>\<rparr>))"

definition update_token_from_auth :: "'w client \<Rightarrow> auth_info \<Rightarrow> ('w, unit) io" where
  "update_token_from_auth c a = (\<lambda>s.
     if token_poisoned s then (Err LockPoisoned, s)
     else
       (let (t, s1) = (if 0 < auth_lease_duration a then clock c s else (now s, s));
            ts = \<lparr>ts_value = client_token a,
                  ts_expires_at = (if 0 < auth_lease_duration a
                                   then instant_checked_add t (secs (auth_lease_duration a)) else None),
                  ts_renewable = auth_renewable a,
                  ts_lease_duration = secs (auth_lease_duration a)\<rparr>;
            s2 = s1\<lparr>token := Some ts\<rparr>
        in (Ok (), if has_callback c then s2\<lparr>trace := trace s2 @ [ETokenChanged a]\<rparr> else s2)))"

text \<open>
  \<open>token_needs_renewal\<close> at the instant \<open>t\<close>: within the last fifth of the lease. A token without
  expiry (a root token) never does. Adding the threshold to the instant can overflow.
\<close>

definition token_needs_renewal :: "nat \<Rightarrow> token_state \<Rightarrow> bool outcome" where
  "token_needs_renewal t ts =
     (case ts_expires_at ts of
        Some expires \<Rightarrow>
          then_ok (mul_f64 (ts_lease_duration ts) f64_0_2) (\<lambda>threshold.
          then_ok (instant_add t threshold) (\<lambda>u. Ok (expires \<le> u)))
      | None \<Rightarrow> Ok False)"

section \<open>Views of a client\<close>

definition with_namespace :: "'w client \<Rightarrow> string \<Rightarrow> 'w client" where
  "with_namespace c ns = c\<lparr>namespace_override := Some ns\<rparr>"

definition with_wrap_ttl :: "'w client \<Rightarrow> string \<Rightarrow> 'w client" where
  "with_wrap_ttl c ttl = c\<lparr>wrap_ttl_override := Some ttl\<rparr>"

text \<open>\<open>Option::or\<close>.\<close>

definition opt_or :: "'a option \<Rightarrow> 'a option \<Rightarrow> 'a option" where
  "opt_or x y = (case x of Some a \<Rightarrow> Some a | None \<Rightarrow> y)"

lemma opt_or_simps [simp]: "opt_or (Some a) y = Some a" "opt_or None y = y"
  by (simp_all add: opt_or_def)

section \<open>Relations every action keeps\<close>

text \<open>
  A preorder on states that an action respects from any state. Client code is built with
  \<open>bind_io\<close>, so it is enough to check the primitive actions.
\<close>

definition keeps :: "('w cstate \<Rightarrow> 'w cstate \<Rightarrow> bool) \<Rightarrow> ('w, 'a) io \<Rightarrow> bool" where
  "keeps R m \<longleftrightarrow> (\<forall>s. R s (snd (m s)))"

locale state_preorder =
  fixes R :: "'w cstate \<Rightarrow> 'w cstate \<Rightarrow> bool"
  assumes R_refl: "R s s"
    and R_trans: "R s s' \<Longrightarrow> R s' s'' \<Longrightarrow> R s s''"
begin

lemma keeps_lift: "keeps R (lift_io r)"
  by (simp add: keeps_def R_refl)

lemma keeps_bind:
  assumes m: "keeps R m" and f: "\<And>a. keeps R (f a)"
  shows "keeps R (bind_io m f)"
  unfolding keeps_def
proof
  fix s
  obtain r s' where ms: "m s = (r, s')" by fastforce
  have "R s s'" using m ms by (metis keeps_def snd_conv)
  then show "R s (snd (bind_io m f s))"
    using f by (cases r) (auto simp: bind_io_def ms keeps_def intro: R_trans)
qed

lemma keeps_map: "keeps R m \<Longrightarrow> keeps R (map_io f m)"
  unfolding map_io_def by (rule keeps_bind) (simp_all add: keeps_lift)

lemma keepsD: "keeps R m \<Longrightarrow> m s = (r, s') \<Longrightarrow> R s s'"
  by (metis keeps_def snd_conv)

end

text \<open>
  The relation all of the client keeps: time does not run backwards, the trace only grows, the
  lock is not poisoned or healed, and the breaker keeps its configuration and its invariant.
\<close>

definition breaker_rel :: "circuit_breaker option \<Rightarrow> circuit_breaker option \<Rightarrow> bool" where
  "breaker_rel b b' \<longleftrightarrow>
     (case (b, b') of
        (None, None) \<Rightarrow> True
      | (Some x, Some y) \<Rightarrow> cb_config y = cb_config x \<and> (cb_inv x \<longrightarrow> cb_inv y)
      | _ \<Rightarrow> False)"

definition evolves :: "'w cstate \<Rightarrow> 'w cstate \<Rightarrow> bool" where
  "evolves s s' \<longleftrightarrow>
     now s \<le> now s' \<and> (\<exists>es. trace s' = trace s @ es) \<and> token_poisoned s' = token_poisoned s
     \<and> breaker_rel (breaker s) (breaker s')"

lemma breaker_rel_refl [simp]: "breaker_rel b b"
  by (cases b) (simp_all add: breaker_rel_def)

lemma breaker_rel_trans: "breaker_rel a b \<Longrightarrow> breaker_rel b d \<Longrightarrow> breaker_rel a d"
  by (auto simp: breaker_rel_def split: option.splits)

interpretation ev: state_preorder evolves
proof unfold_locales
  fix s s' s'' :: "'w cstate"
  show "evolves s s" by (simp add: evolves_def)
  assume "evolves s s'" and "evolves s' s''"
  then show "evolves s s''"
    by (fastforce simp: evolves_def intro: breaker_rel_trans)
qed

lemma evolves_clock: "clock c s = (t, s') \<Longrightarrow> evolves s s' \<and> t = now s' \<and> now s \<le> t \<and> trace s' = trace s"
  by (auto simp: clock_def evolves_def split: prod.splits)

lemma clock_frame: "clock c s = (t, s') \<Longrightarrow>
   token s' = token s \<and> token_poisoned s' = token_poisoned s \<and> breaker s' = breaker s \<and> trace s' = trace s"
  by (auto simp: clock_def split: prod.splits)

lemma evolves_sleep [simp]: "evolves s (sleep c d s)"
  by (auto simp: sleep_def evolves_def split: prod.splits)

lemma sleep_frame [simp]:
  "token (sleep c d s) = token s" "token_poisoned (sleep c d s) = token_poisoned s"
  "breaker (sleep c d s) = breaker s" "trace (sleep c d s) = trace s @ [ESleep d]"
  by (auto simp: sleep_def split: prod.splits)

lemma draw_below_frame: "draw_below c n s = (r, s') \<Longrightarrow>
   s' = s\<lparr>world := world s'\<rparr> \<and> (0 < n \<longrightarrow> r < n)"
  by (auto simp: draw_below_def split: prod.splits)

lemma evolves_draw: "draw_below c n s = (r, s') \<Longrightarrow> evolves s s'"
  by (auto simp: draw_below_def evolves_def split: prod.splits)

lemma send_frame: "send c rq s = (res, s') \<Longrightarrow>
   token s' = token s \<and> token_poisoned s' = token_poisoned s \<and> breaker s' = breaker s
   \<and> trace s' = trace s @ [ESend rq res]"
  by (auto simp: send_def split: prod.splits)

lemma evolves_send: "send c rq s = (res, s') \<Longrightarrow> evolves s s'"
  by (auto simp: send_def evolves_def split: prod.splits)

lemma evolves_set_token: "keeps evolves (set_token t)"
  by (auto simp: keeps_def set_token_def evolves_def)

lemma evolves_update_token: "keeps evolves (update_token_from_auth c a)"
  by (auto simp: keeps_def update_token_from_auth_def clock_def evolves_def Let_def split: prod.splits)

lemma update_token_cases:
  assumes "\<not> token_poisoned s"
  obtains s' ts where "update_token_from_auth c a s = (Ok (), s')" and "token s' = Some ts"
    and "ts_value ts = client_token a" and "ts_renewable ts = auth_renewable a"
    and "ts_lease_duration ts = secs (auth_lease_duration a)"
    and "ts_expires_at ts = (if 0 < auth_lease_duration a
           then instant_checked_add (now s') (secs (auth_lease_duration a)) else None)"
    and "trace s' = trace s @ (if has_callback c then [ETokenChanged a] else [])"
    and "breaker s' = breaker s" and "token_poisoned s' = token_poisoned s"
proof -
  obtain t s1 where cl: "(if 0 < auth_lease_duration a then clock c s else (now s, s)) = (t, s1)"
    by fastforce
  have s1: "now s1 = t" "trace s1 = trace s" "breaker s1 = breaker s" "token_poisoned s1 = token_poisoned s"
    using cl by (auto dest: evolves_clock clock_frame split: if_splits)
  show thesis
    by (rule that [of "snd (update_token_from_auth c a s)"])
      (use assms cl s1 in \<open>auto simp: update_token_from_auth_def Let_def\<close>)
qed

end
