(* ===== verification/Example_Env.thy ===== *)
theory Example_Env
  imports Client_State
begin

text \<open>
  A concrete environment for evaluating the model: the world is the list of answers still to
  come, every answer takes a nanosecond, nothing else takes time, every URL parses to itself,
  requests clone to themselves and the JSON reader is a table. Past the end of the list the
  connection fails. The witnesses run the client's definitions in it.
\<close>

type_synonym script = "send_result list"

definition connect_error :: reqwest_error where
  "connect_error = \<lparr>re_timeout = False, re_connect = True, re_text = ''connection refused''\<rparr>"

definition script_env :: "(string \<times> json) list \<Rightarrow> script env" where
  "script_env table =
     \<lparr>e_send = (\<lambda>rq w. case w of [] \<Rightarrow> (Inl connect_error, 1, []) | a # w' \<Rightarrow> (a, 1, w')),
      e_clone = Some, e_draw = (\<lambda>w. (0, w)), e_idle = (\<lambda>w. (0, w)), e_url = Inr,
      e_json = (\<lambda>t. case map_of table t of Some v \<Rightarrow> Inr v | None \<Rightarrow> Inl ''expected value'')\<rparr>"

definition script_client :: "(string \<times> json) list \<Rightarrow> script client" where
  "script_client table =
     \<lparr>cl_env = script_env table, base_url = ''http://vault:8200/'', namespace = Some ''team'',
      config = client_config_default, auth_method = None, has_callback = True,
      namespace_override = None, wrap_ttl_override = None\<rparr>"

definition script_state :: "script \<Rightarrow> token_state option \<Rightarrow> script cstate" where
  "script_state ws tok =
     \<lparr>token = tok, token_poisoned = False, breaker = Some (cb_new cb_config_default), now = 1000,
      world = ws, trace = []\<rparr>"

definition answer :: "nat \<Rightarrow> string \<Rightarrow> send_result" where
  "answer st body = Inr \<lparr>rs_status = st, rs_retry_after = None, rs_body = Inr body\<rparr>"

lemma script_client_simps [simp]:
  "cl_env (script_client tb) = script_env tb" "base_url (script_client tb) = ''http://vault:8200/''"
  "namespace (script_client tb) = Some ''team''" "config (script_client tb) = client_config_default"
  "auth_method (script_client tb) = None" "has_callback (script_client tb) = True"
  "namespace_override (script_client tb) = None" "wrap_ttl_override (script_client tb) = None"
  by (simp_all add: script_client_def)

lemma script_env_simps [simp]:
  "e_send (script_env tb) rq w = (case w of [] \<Rightarrow> (Inl connect_error, 1, []) | a # w' \<Rightarrow> (a, 1, w'))"
  "e_clone (script_env tb) rq = Some rq" "e_draw (script_env tb) w = (0, w)"
  "e_idle (script_env tb) w = (0, w)" "e_url (script_env tb) u = Inr u"
  "e_json (script_env tb) t = (case map_of tb t of Some v \<Rightarrow> Inr v | None \<Rightarrow> Inl ''expected value'')"
  by (auto simp: script_env_def split: list.split)

lemma script_state_simps [simp]:
  "token (script_state ws tok) = tok" "token_poisoned (script_state ws tok) = False"
  "breaker (script_state ws tok) = Some (cb_new cb_config_default)" "now (script_state ws tok) = 1000"
  "world (script_state ws tok) = ws" "trace (script_state ws tok) = []"
  by (simp_all add: script_state_def)

lemma script_clock [simp]: "clock (script_client tb) s = (now s, s\<lparr>world := world s\<rparr>)"
  by (simp add: clock_def)

end
