(* ===== verification/Transport.thy ===== *)
theory Transport
  imports Example_Env
begin

text \<open>
  The request path of \<open>client/async_client.rs\<close> below the token lifecycle: reading Vault's error
  list, backoff, the retry loop \<open>send_with_retry\<close>, the headers, and \<open>execute_raw\<close>, which puts
  the circuit breaker around it. \<open>retry_trace\<close> is the contract of the retry loop over the events
  of one call; \<open>send_with_retry_trace\<close> is the refinement.
\<close>

section \<open>Errors of a response\<close>

primrec as_str :: "json \<Rightarrow> string option" where
  "as_str (JStr s) = Some s"
| "as_str JNull = None"
| "as_str (JBool _) = None"
| "as_str (JNum _) = None"
| "as_str (JFloat _) = None"
| "as_str (JArr _) = None"
| "as_str (JObj _) = None"

definition extract_errors :: "'w client \<Rightarrow> http_response \<Rightarrow> string list" where
  "extract_errors c resp =
     (let body = (case rs_body resp of Inr t \<Rightarrow> t | Inl _ \<Rightarrow> []);
          raw = (if body = [] then [] else [body])
      in case e_json (cl_env c) body of
           Inl _ \<Rightarrow> raw
         | Inr v \<Rightarrow>
             (case json_get v ''errors'' of
                Some (JArr arr) \<Rightarrow> List.map_filter as_str arr
              | _ \<Rightarrow> raw))"

section \<open>Backoff\<close>

definition max_backoff :: nat where
  "max_backoff = secs 30"

definition capped_backoff :: "client_config \<Rightarrow> nat \<Rightarrow> nat" where
  "capped_backoff cfg attempt =
     (let base = (case duration_checked_mul (initial_retry_delay cfg) (saturating_pow2 (attempt - 1)) of
                    Some d \<Rightarrow> d | None \<Rightarrow> max_backoff)
      in min base max_backoff)"

text \<open>
  Full jitter: a whole number of milliseconds drawn below the cap. \<open>as_millis\<close> of at most 30 s
  fits a \<open>u64\<close>, so \<open>try_from\<close> never falls back.
\<close>

definition backoff_sleep :: "'w client \<Rightarrow> nat \<Rightarrow> 'w cstate \<Rightarrow> 'w cstate" where
  "backoff_sleep c attempt s =
     (let capped_ms = max (capped_backoff (config c) attempt div 1000000) 1
      in case draw_below c capped_ms s of (ms, s') \<Rightarrow> sleep c (millis ms) s')"

section \<open>The retry loop\<close>

text \<open>One answer ends the loop or starts the next attempt, with or without a backoff sleep.\<close>

datatype decision =
    Return "http_response outcome"
  | Continue (skip_backoff: bool)

definition attempt_result ::
  "'w client \<Rightarrow> string \<Rightarrow> nat \<Rightarrow> send_result \<Rightarrow> 'w cstate \<Rightarrow> decision \<times> 'w cstate" where
  "attempt_result c url attempt res s =
     (let mx = max_retries (config c) in
      case res of
        Inr resp \<Rightarrow>
          (let status = rs_status resp in
           if 200 \<le> status \<and> status \<le> 299 \<or> status = 404 then (Return (Ok resp), s)
           else if status = 401 then (Return (Err AuthRequired), s)
           else if status = 403 then (Return (Err (PermissionDenied (extract_errors c resp))), s)
           else if status = 429 then
             (let retry_after = Option.bind (rs_retry_after resp) (parse_uint 64) in
              if mx \<le> attempt then (Return (Err (RateLimited retry_after)), s)
              else (case retry_after of
                      Some n \<Rightarrow> (Continue True, sleep c (min (secs n) max_backoff) s)
                    | None \<Rightarrow> (Continue False, s)))
           else if status = 412 then
             (if mx \<le> attempt then (Return (Err ConsistencyRetry), s) else (Continue False, s))
           else if status = 503 then
             (if mx \<le> attempt \<or> \<not> retry_on_sealed (config c) then (Return (Err (Sealed url)), s)
              else (Continue False, s))
           else
             (let err = Api status (extract_errors c resp) in
              if is_retryable err \<and> attempt < mx then (Continue False, s)
              else (Return (Err err), s)))
      | Inl e \<Rightarrow>
          if (re_timeout e \<or> re_connect e) \<and> attempt < mx then (Continue False, s)
          else (Return (Err (Http e)), s))"

function (sequential) retry_loop ::
  "'w client \<Rightarrow> http_request \<Rightarrow> string \<Rightarrow> nat \<Rightarrow> bool \<Rightarrow> ('w, http_response) io" where
  "retry_loop c builder url attempt skip s =
     (if max_retries (config c) < attempt
      then (Panic ''internal error: entered unreachable code: retry loop always returns from within'', s)
      else
        let s1 = (if 0 < attempt \<and> \<not> skip then backoff_sleep c attempt s else s)
        in case e_clone (cl_env c) builder of
             None \<Rightarrow> (Err (Config ''request body not cloneable (stream body?)''), s1)
           | Some req \<Rightarrow>
               (case send c req s1 of (res, s2) \<Rightarrow>
                  (case attempt_result c url attempt res s2 of
                     (Return r, s3) \<Rightarrow> (r, s3)
                   | (Continue skip', s3) \<Rightarrow> retry_loop c builder url (Suc attempt) skip' s3)))"
  by pat_completeness auto
termination
  by (relation "measure (\<lambda>(c, builder, url, attempt, skip, s). Suc (max_retries (config c)) - attempt)") auto

declare retry_loop.simps [simp del]

definition send_with_retry :: "'w client \<Rightarrow> http_request \<Rightarrow> string \<Rightarrow> ('w, http_response) io" where
  "send_with_retry c builder url = retry_loop c builder url 0 False"

section \<open>Contract of the loop\<close>

text \<open>What an answer means when nothing is retried, and whether it calls for a retry.\<close>

definition answer_outcome :: "'w client \<Rightarrow> string \<Rightarrow> send_result \<Rightarrow> http_response outcome" where
  "answer_outcome c url res =
     (case res of
        Inl e \<Rightarrow> Err (Http e)
      | Inr resp \<Rightarrow>
          (let status = rs_status resp in
           if status \<in> {200..299} \<union> {404} then Ok resp
           else if status = 401 then Err AuthRequired
           else if status = 403 then Err (PermissionDenied (extract_errors c resp))
           else if status = 429 then Err (RateLimited (Option.bind (rs_retry_after resp) (parse_uint 64)))
           else if status = 412 then Err ConsistencyRetry
           else if status = 503 then Err (Sealed url)
           else Err (Api status (extract_errors c resp))))"

definition wants_retry :: "'w client \<Rightarrow> string \<Rightarrow> send_result \<Rightarrow> bool" where
  "wants_retry c url res =
     (case answer_outcome c url res of
        Err (Sealed u) \<Rightarrow> retry_on_sealed (config c)
      | Err e \<Rightarrow> is_retryable e
      | _ \<Rightarrow> False)"

text \<open>The pause before attempt \<open>k\<close> after the answer \<open>res\<close>.\<close>

definition pause_ok :: "'w client \<Rightarrow> string \<Rightarrow> nat \<Rightarrow> send_result \<Rightarrow> nat \<Rightarrow> bool" where
  "pause_ok c url k res d =
     (case answer_outcome c url res of
        Err (RateLimited (Some n)) \<Rightarrow> d = min (secs n) max_backoff
      | _ \<Rightarrow> d = 0 \<or> d < min (initial_retry_delay (config c) * 2 ^ (k - 1)) max_backoff)"

text \<open>The events of one call: sends of one request with exactly one pause between two of them.\<close>

fun retry_trace ::
  "'w client \<Rightarrow> http_request \<Rightarrow> string \<Rightarrow> nat \<Rightarrow> event list \<Rightarrow> http_response outcome \<Rightarrow> bool" where
  "retry_trace c rq url k [ESend q a] r =
     (q = rq \<and> r = answer_outcome c url a
      \<and> (wants_retry c url a \<longrightarrow> k = max_retries (config c)))"
| "retry_trace c rq url k (ESend q a # ESleep d # es) r =
     (q = rq \<and> wants_retry c url a \<and> k < max_retries (config c) \<and> pause_ok c url (Suc k) a d
      \<and> retry_trace c rq url (Suc k) es r)"
| "retry_trace c rq url k _ r = False"

lemma capped_backoff_bound:
  "capped_backoff cfg k \<le> min (initial_retry_delay cfg * 2 ^ (k - 1)) max_backoff"
proof -
  define x y where xy: "x = initial_retry_delay cfg * saturating_pow2 (k - 1)"
    "y = initial_retry_delay cfg * 2 ^ (k - 1)"
  have "x \<le> y" by (simp add: xy saturating_pow2_def)
  moreover have "max_backoff \<le> duration_max"
    by (simp add: max_backoff_def duration_max_def secs_def)
  moreover have "capped_backoff cfg k = min (if x \<le> duration_max then x else max_backoff) max_backoff"
    by (simp add: capped_backoff_def duration_checked_mul_def xy)
  ultimately have "capped_backoff cfg k \<le> min y max_backoff" by auto
  then show ?thesis by (simp add: xy)
qed

text \<open>What sleeping and sending leave alone: the token, its lock and the breaker.\<close>

definition quiescent :: "'w cstate \<Rightarrow> 'w cstate \<Rightarrow> bool" where
  "quiescent s s' \<longleftrightarrow>
     token s' = token s \<and> token_poisoned s' = token_poisoned s \<and> breaker s' = breaker s
     \<and> now s \<le> now s' \<and> (\<exists>es. trace s' = trace s @ es)"

interpretation pas: state_preorder quiescent
  by unfold_locales (auto simp: quiescent_def)

lemma quiescent_evolves: "quiescent s s' \<Longrightarrow> evolves s s'"
  by (auto simp: quiescent_def evolves_def)

lemma quiescent_primitives:
  "quiescent s (sleep c d s)"
  "draw_below c n s = (r, s') \<Longrightarrow> quiescent s s'"
  "send c rq s = (res, s') \<Longrightarrow> quiescent s s'"
  by (auto simp: quiescent_def sleep_def draw_below_def send_def split: prod.splits)

lemma backoff_sleep_cases:
  obtains d where "trace (backoff_sleep c k s) = trace s @ [ESleep d]"
    and "d = 0 \<or> d < min (initial_retry_delay (config c) * 2 ^ (k - 1)) max_backoff"
    and "quiescent s (backoff_sleep c k s)"
proof -
  define m where "m = max (capped_backoff (config c) k div 1000000) 1"
  obtain r s1 where dr: "draw_below c m s = (r, s1)" by fastforce
  have bs: "backoff_sleep c k s = sleep c (millis r) s1"
    using dr by (simp add: backoff_sleep_def m_def)
  have r: "r < m" and s1: "s1 = s\<lparr>world := world s1\<rparr>"
    using draw_below_frame [OF dr] by (auto simp: m_def)
  have "millis r = 0 \<or> millis r < capped_backoff (config c) k"
    using r by (auto simp: millis_def m_def max_def less_eq_div_iff_mult_less_eq split: if_splits)
  with capped_backoff_bound [of "config c" k]
  have b: "millis r = 0 \<or> millis r < min (initial_retry_delay (config c) * 2 ^ (k - 1)) max_backoff"
    by linarith
  have tr: "trace s1 = trace s" by (subst s1, simp)
  have ev: "quiescent s (backoff_sleep c k s)"
    unfolding bs by (rule pas.R_trans [OF quiescent_primitives(2) [OF dr] quiescent_primitives(1)])
  show thesis
    by (rule that [of "millis r"]) (use b ev tr in \<open>simp_all add: bs\<close>)
qed

lemma quiescent_backoff: "quiescent s (backoff_sleep c k s)"
  by (rule backoff_sleep_cases)

text \<open>The sleep an attempt starts with: one backoff pause unless it is the first or skips it.\<close>

definition first_pause :: "'w client \<Rightarrow> nat \<Rightarrow> bool \<Rightarrow> event list \<Rightarrow> bool" where
  "first_pause c k skip pre \<longleftrightarrow>
     (if 0 < k \<and> \<not> skip
      then \<exists>d. pre = [ESleep d]
             \<and> (d = 0 \<or> d < min (initial_retry_delay (config c) * 2 ^ (k - 1)) max_backoff)
      else pre = [])"

lemma first_pause_cases:
  obtains pre where "trace (if 0 < k \<and> \<not> skip then backoff_sleep c k s else s) = trace s @ pre"
    and "first_pause c k skip pre"
    and "quiescent s (if 0 < k \<and> \<not> skip then backoff_sleep c k s else s)"
proof (cases "0 < k \<and> \<not> skip")
  case True
  obtain d where "trace (backoff_sleep c k s) = trace s @ [ESleep d]"
    and "d = 0 \<or> d < min (initial_retry_delay (config c) * 2 ^ (k - 1)) max_backoff"
    by (rule backoff_sleep_cases)
  then show thesis using True quiescent_backoff [of s c k]
    by (intro that [of "[ESleep d]"]) (auto simp: first_pause_def)
qed (auto simp: first_pause_def pas.R_refl intro: that)

text \<open>The decision on one answer, against the contract.\<close>

lemma attempt_result_cases:
  assumes k: "k \<le> max_retries (config c)" and a: "attempt_result c url k res s = (d, s')"
  obtains "d = Return (answer_outcome c url res)" and "s' = s"
      and "wants_retry c url res \<longrightarrow> k = max_retries (config c)"
    | "d = Continue False" and "s' = s" and "wants_retry c url res" and "k < max_retries (config c)"
      and "\<And>n. answer_outcome c url res \<noteq> Err (RateLimited (Some n))"
    | n where "d = Continue True" and "wants_retry c url res" and "k < max_retries (config c)"
      and "answer_outcome c url res = Err (RateLimited (Some n))"
      and "s' = sleep c (min (secs n) max_backoff) s"
proof (cases res)
  case (Inl e)
  with a k show thesis
    by (auto simp: attempt_result_def answer_outcome_def wants_retry_def split: if_splits intro: that)
next
  case (Inr resp)
  show thesis
  proof (cases "rs_status resp = 429")
    case True
    with Inr a k show thesis
      by (cases "Option.bind (rs_retry_after resp) (parse_uint 64)")
        (auto simp: attempt_result_def answer_outcome_def wants_retry_def Let_def
          split: if_splits intro: that)
  next
    case False
    with Inr a k show thesis
      by (auto simp: attempt_result_def answer_outcome_def wants_retry_def Let_def
          split: if_splits intro: that)
  qed
qed

text \<open>Both ways of continuing put exactly one allowed pause before the next attempt.\<close>

lemma attempt_continues:
  assumes "k \<le> max_retries (config c)" and "attempt_result c url k res s = (Continue skip', s')"
  obtains mid where "trace s' = trace s @ mid" and "quiescent s s'" and "wants_retry c url res"
    and "k < max_retries (config c)"
    and "\<forall>pre. first_pause c (Suc k) skip' pre \<longrightarrow>
           (\<exists>d. mid @ pre = [ESleep d] \<and> pause_ok c url (Suc k) res d)"
proof (rule attempt_result_cases [OF assms])
  assume c: "Continue skip' = Continue False" "s' = s" "wants_retry c url res" "k < max_retries (config c)"
    and nr: "\<And>n. answer_outcome c url res \<noteq> Err (RateLimited (Some n))"
  show thesis
    by (rule that [of "[]"]) (use c nr in \<open>auto simp: pas.R_refl first_pause_def pause_ok_def
          split: outcome.splits vault_error.splits option.splits\<close>)
next
  fix n
  assume c: "Continue skip' = Continue True" "wants_retry c url res" "k < max_retries (config c)"
    "answer_outcome c url res = Err (RateLimited (Some n))" "s' = sleep c (min (secs n) max_backoff) s"
  show thesis
    by (rule that [of "[ESleep (min (secs n) max_backoff)]"])
      (use c in \<open>auto simp: quiescent_primitives first_pause_def pause_ok_def\<close>)
qed simp

lemma retry_loop_trace:
  assumes "retry_loop c b url k skip s = (r, s')" and "k \<le> max_retries (config c)"
    and "e_clone (cl_env c) b = Some rq"
  shows "\<exists>pre es. trace s' = trace s @ pre @ es \<and> retry_trace c rq url k es r
           \<and> first_pause c k skip pre \<and> quiescent s s'"
  using assms
proof (induction c b url k skip s arbitrary: r s' rule: retry_loop.induct)
  case (1 c b url k skip s)
  define s1 where "s1 = (if 0 < k \<and> \<not> skip then backoff_sleep c k s else s)"
  obtain res s2 where snd: "send c rq s1 = (res, s2)" by fastforce
  obtain d s3 where at: "attempt_result c url k res s2 = (d, s3)" by fastforce
  have step: "(case d of Return r' \<Rightarrow> (r', s3) | Continue skip' \<Rightarrow> retry_loop c b url (Suc k) skip' s3) = (r, s')"
    using "1.prems" snd at by (subst (asm) retry_loop.simps) (simp add: s1_def [symmetric])
  obtain pre where pre: "trace s1 = trace s @ pre" "first_pause c k skip pre" "quiescent s s1"
    unfolding s1_def by (rule first_pause_cases)
  have q2: "quiescent s s2" and tr2: "trace s2 = trace s @ pre @ [ESend rq res]"
    using pas.R_trans [OF pre(3) quiescent_primitives(3) [OF snd]] send_frame [OF snd] pre(1) by simp_all
  show ?case
  proof (cases d)
    case (Return r')
    with at "1.prems"(2) step have "r = answer_outcome c url res" "s' = s2"
      "wants_retry c url res \<longrightarrow> k = max_retries (config c)"
      by (auto elim: attempt_result_cases)
    then show ?thesis
      using tr2 pre(2) q2 by (intro exI [of _ pre] exI [of _ "[ESend rq res]"]) auto
  next
    case (Continue skip')
    obtain mid where mid: "trace s3 = trace s2 @ mid" "quiescent s2 s3" "wants_retry c url res"
      "k < max_retries (config c)"
      "\<forall>pre. first_pause c (Suc k) skip' pre \<longrightarrow> (\<exists>d. mid @ pre = [ESleep d] \<and> pause_ok c url (Suc k) res d)"
      by (rule attempt_continues [OF "1.prems"(2) at [unfolded Continue]])
    obtain pre' es where IH: "trace s' = trace s3 @ pre' @ es" "retry_trace c rq url (Suc k) es r"
      "first_pause c (Suc k) skip' pre'" "quiescent s3 s'"
      using "1.IH" [OF _ s1_def "1.prems"(3) snd [symmetric] at [symmetric] Continue, of r s']
        step Continue "1.prems" mid(4) by auto
    obtain dl where "mid @ pre' = [ESleep dl]" "pause_ok c url (Suc k) res dl" using mid(5) IH(3) by blast
    then show ?thesis
      using IH mid tr2 pre(2) pas.R_trans [OF pas.R_trans [OF q2 mid(2)] IH(4)]
      by (intro exI [of _ pre] exI [of _ "ESend rq res # ESleep dl # es"]) auto
  qed
qed

lemma send_with_retry_cases:
  assumes "e_clone (cl_env c) b = Some rq"
  obtains es r s' where "send_with_retry c b url s = (r, s')" and "trace s' = trace s @ es"
    and "retry_trace c rq url 0 es r" and "quiescent s s'"
proof -
  obtain r s' where rs: "retry_loop c b url 0 False s = (r, s')" by fastforce
  show thesis
    using retry_loop_trace [OF rs _ assms] rs
    by (auto simp: send_with_retry_def first_pause_def intro: that)
qed

lemma send_with_retry_uncloneable:
  "e_clone (cl_env c) b = None \<Longrightarrow>
   send_with_retry c b url s = (Err (Config ''request body not cloneable (stream body?)''), s)"
  by (simp add: send_with_retry_def retry_loop.simps [of c b url 0])

section \<open>What the contract gives\<close>

definition clone_faithful :: "'w env \<Rightarrow> bool" where
  "clone_faithful env \<longleftrightarrow> (\<forall>rq rq'. e_clone env rq = Some rq' \<longrightarrow> rq' = rq)"

lemma retry_trace_nonempty: "retry_trace c rq url k es r \<Longrightarrow> answers es \<noteq> []"
  by (induction c rq url k es r rule: retry_trace.induct) auto

lemma retry_trace_result:
  "retry_trace c rq url k es r \<Longrightarrow> r = answer_outcome c url (last (answers es))"
  by (induction c rq url k es r rule: retry_trace.induct) (auto dest: retry_trace_nonempty)

lemma retry_trace_retried:
  "retry_trace c rq url k es r \<Longrightarrow> \<forall>a \<in> set (butlast (answers es)). wants_retry c url a"
  by (induction c rq url k es r rule: retry_trace.induct) auto

lemma retry_trace_length:
  "retry_trace c rq url k es r \<Longrightarrow> k \<le> max_retries (config c) \<Longrightarrow>
     k + length (answers es) \<le> Suc (max_retries (config c))
     \<and> (wants_retry c url (last (answers es)) \<longrightarrow> k + length (answers es) = Suc (max_retries (config c)))"
  by (induction c rq url k es r rule: retry_trace.induct) (auto dest: retry_trace_nonempty)

lemma retry_trace_requests: "retry_trace c rq url k es r \<Longrightarrow> set (requests es) = {rq}"
  by (induction c rq url k es r rule: retry_trace.induct) auto

lemma pause_bound: "pause_ok c url k a d \<Longrightarrow> d \<le> max_backoff"
  by (auto simp: pause_ok_def max_backoff_def secs_def
      split: outcome.splits vault_error.splits option.splits)

lemma retry_trace_sleeps:
  "retry_trace c rq url k es r \<Longrightarrow>
     Suc (length (sleeps es)) = length (answers es) \<and> (\<forall>d \<in> set (sleeps es). d \<le> max_backoff)"
  by (induction c rq url k es r rule: retry_trace.induct) (auto dest: pause_bound)

lemma retry_trace_callbacks: "retry_trace c rq url k es r \<Longrightarrow> token_changes es = []"
  by (induction c rq url k es r rule: retry_trace.induct) auto

lemma answer_no_panic [simp]: "answer_outcome c url a \<noteq> Panic m"
  by (auto simp: answer_outcome_def Let_def split: sum.splits)

lemma retry_trace_no_panic: "retry_trace c rq url k es r \<Longrightarrow> r \<noteq> Panic m"
  by (metis answer_no_panic retry_trace_result)

lemma answer_status:
  "answer_outcome c url (Inr resp) = Err e \<Longrightarrow> status_code e = Some (rs_status resp)"
  by (auto simp: answer_outcome_def Let_def split: if_splits)

lemma answer_ok:
  "answer_outcome c url a = Ok resp \<longleftrightarrow> a = Inr resp \<and> rs_status resp \<in> {200..299} \<union> {404}"
  by (auto simp: answer_outcome_def Let_def split: sum.splits)

section \<open>Headers\<close>

definition header :: "string \<Rightarrow> string \<Rightarrow> http_request \<Rightarrow> http_request" where
  "header k v rq = rq\<lparr>rq_headers := rq_headers rq @ [(k, v)]\<rparr>"

definition inject_headers :: "'w client \<Rightarrow> http_request \<Rightarrow> ('w, http_request) io" where
  "inject_headers c req = (\<lambda>s.
     if token_poisoned s then (Err LockPoisoned, s)
     else
       (let r1 = (case token s of Some ts \<Rightarrow> header ''X-Vault-Token'' (expose_secret (ts_value ts)) req
                  | None \<Rightarrow> req);
            r2 = (case opt_or (namespace_override c) (namespace c) of
                    Some ns \<Rightarrow> header ''X-Vault-Namespace'' ns r1 | None \<Rightarrow> r1);
            r3 = (case opt_or (wrap_ttl_override c) (cfg_wrap_ttl (config c)) of
                    Some ttl \<Rightarrow> header ''X-Vault-Wrap-TTL'' ttl r2 | None \<Rightarrow> r2);
            r4 = (if forward_to_leader (config c) then header ''X-Vault-Forward'' ''active-node'' r3 else r3)
        in (Ok r4, s)))"

section \<open>execute\_raw\<close>

definition breaker_check :: "'w client \<Rightarrow> ('w, unit) io" where
  "breaker_check c = (\<lambda>s.
     case breaker s of
       None \<Rightarrow> (Ok (), s)
     | Some b \<Rightarrow>
         (case clock c s of (t, s1) \<Rightarrow>
            (case check t b of (r, b') \<Rightarrow> (r, s1\<lparr>breaker := Some b'\<rparr>))))"

definition breaker_success :: "'w cstate \<Rightarrow> 'w cstate" where
  "breaker_success s =
     (case breaker s of None \<Rightarrow> s | Some b \<Rightarrow> s\<lparr>breaker := Some (record_success b)\<rparr>)"

definition breaker_failure :: "'w client \<Rightarrow> 'w cstate \<Rightarrow> 'w cstate" where
  "breaker_failure c s =
     (case breaker s of
        None \<Rightarrow> s
      | Some b \<Rightarrow> (case clock c s of (t, s1) \<Rightarrow> s1\<lparr>breaker := Some (record_failure t b)\<rparr>))"

definition url_string :: "'w client \<Rightarrow> string \<Rightarrow> string" where
  "url_string c path = base_url c @ ''v1/'' @ trim_start_matches CHR ''/'' path"

text \<open>The retry loop, its result recorded in the breaker.\<close>

definition send_recorded :: "'w client \<Rightarrow> http_request \<Rightarrow> string \<Rightarrow> ('w, http_response) io" where
  "send_recorded c req url = (\<lambda>s.
     case send_with_retry c req url s of
       (Ok resp, s') \<Rightarrow> (Ok resp, breaker_success s')
     | (Err e, s') \<Rightarrow> (Err e, breaker_failure c s')
     | (Panic p, s') \<Rightarrow> (Panic p, s'))"

definition execute_raw ::
  "'w client \<Rightarrow> http_method \<Rightarrow> string \<Rightarrow> json option \<Rightarrow> ('w, http_response) io" where
  "execute_raw c m path body =
     bind_io (breaker_check c) (\<lambda>_.
       case e_url (cl_env c) (url_string c path) of
         Inl e \<Rightarrow> lift_io (Err (Url e))
       | Inr url \<Rightarrow>
           (let req0 = header ''X-Vault-Request'' ''true''
                         \<lparr>rq_method = m, rq_url = url, rq_headers = [], rq_body = None\<rparr>;
                req1 = (if m = PATCH then header ''Content-Type'' ''application/merge-patch+json'' req0
                        else req0)
            in bind_io (inject_headers c req1) (\<lambda>req2.
                 let req = (case body of Some b \<Rightarrow> req2\<lparr>rq_body := Some (JsonBody b)\<rparr> | None \<Rightarrow> req2)
                 in send_recorded c req url)))"

text \<open>The request that a call stands for, as one expression.\<close>

definition opt_header :: "string \<Rightarrow> string option \<Rightarrow> (string \<times> string) list" where
  "opt_header k v = (case v of Some x \<Rightarrow> [(k, x)] | None \<Rightarrow> [])"

definition vault_request ::
  "'w client \<Rightarrow> http_method \<Rightarrow> string \<Rightarrow> token_state option \<Rightarrow> json option \<Rightarrow> http_request" where
  "vault_request c m url tok body =
     \<lparr>rq_method = m, rq_url = url,
      rq_headers =
        opt_header ''X-Vault-Request'' (Some ''true'')
        @ opt_header ''Content-Type'' (if m = PATCH then Some ''application/merge-patch+json'' else None)
        @ opt_header ''X-Vault-Token'' (map_option (\<lambda>ts. expose_secret (ts_value ts)) tok)
        @ opt_header ''X-Vault-Namespace'' (opt_or (namespace_override c) (namespace c))
        @ opt_header ''X-Vault-Wrap-TTL'' (opt_or (wrap_ttl_override c) (cfg_wrap_ttl (config c)))
        @ opt_header ''X-Vault-Forward'' (if forward_to_leader (config c) then Some ''active-node'' else None),
      rq_body = map_option JsonBody body\<rparr>"

lemma opt_header_lookup [simp]:
  "map_of (opt_header k v @ r) j = (if j = k \<and> v \<noteq> None then v else map_of r j)"
  "map_of (opt_header k v) j = (if j = k then v else None)"
  by (auto simp: opt_header_def map_add_def split: option.split)

lemma vault_request_lookup:
  "map_of (rq_headers (vault_request c m url tok body)) ''X-Vault-Request'' = Some ''true''"
  "map_of (rq_headers (vault_request c m url tok body)) ''X-Vault-Token''
     = map_option (\<lambda>ts. expose_secret (ts_value ts)) tok"
  "map_of (rq_headers (vault_request c m url tok body)) ''X-Vault-Namespace''
     = opt_or (namespace_override c) (namespace c)"
  "map_of (rq_headers (vault_request c m url tok body)) ''X-Vault-Wrap-TTL''
     = opt_or (wrap_ttl_override c) (cfg_wrap_ttl (config c))"
  "map_of (rq_headers (vault_request c m url tok body)) ''X-Vault-Forward''
     = (if forward_to_leader (config c) then Some ''active-node'' else None)"
  "map_of (rq_headers (vault_request c m url tok body)) ''Content-Type''
     = (if m = PATCH then Some ''application/merge-patch+json'' else None)"
  by (simp_all add: vault_request_def del: map_of_append)

lemma opt_or_iff: "opt_or x y = (if x \<noteq> None then x else y)"
  by (cases x) simp_all

lemma vault_request_fields [simp]:
  "rq_method (vault_request c m url tok body) = m" "rq_url (vault_request c m url tok body) = url"
  "rq_body (vault_request c m url tok body) = map_option JsonBody body"
  by (simp_all add: vault_request_def del: map_of_append)

text \<open>
  How a call moves the breaker between its start at \<open>n\<close> and its end at \<open>n'\<close>: admitted at \<open>t\<close>, its
  result recorded at \<open>t'\<close>; or, when nothing was sent, checked and at most charged with a failure.
\<close>

definition breaker_moved ::
  "nat \<Rightarrow> circuit_breaker option \<Rightarrow> 'a outcome \<Rightarrow> nat \<Rightarrow> circuit_breaker option \<Rightarrow> bool" where
  "breaker_moved n b0 r n' b1 \<longleftrightarrow>
     (case b0 of
        None \<Rightarrow> b1 = None
      | Some b \<Rightarrow> \<exists>t t' b'. check t b = (Ok (), b') \<and> n \<le> t \<and> t \<le> t' \<and> t' \<le> n'
            \<and> b1 = Some (if is_ok r then record_success b' else record_failure t' b'))"

definition breaker_idle ::
  "nat \<Rightarrow> circuit_breaker option \<Rightarrow> nat \<Rightarrow> circuit_breaker option \<Rightarrow> bool" where
  "breaker_idle n b0 n' b1 \<longleftrightarrow>
     (case b0 of
        None \<Rightarrow> b1 = None
      | Some b \<Rightarrow> \<exists>t t'. n \<le> t \<and> t \<le> t' \<and> t' \<le> n'
            \<and> (b1 = Some (snd (check t b)) \<or> b1 = Some (record_failure t' (snd (check t b)))))"

lemma breaker_rel_ops:
  "breaker_rel b (map_option record_success b)" "breaker_rel b (map_option (record_failure t) b)"
  "breaker_rel (Some x) (Some (snd (check t x)))"
  by (cases b; simp add: breaker_rel_def cb_inv_success cb_inv_failure cb_inv_check)+

lemma breaker_movedI:
  assumes "case b0 of None \<Rightarrow> b1 = None
     | Some b \<Rightarrow> \<exists>b' t. n0 \<le> t \<and> t \<le> n \<and> check t b = (Ok (), b') \<and> b1 = Some b'"
    and "n \<le> t" and "t \<le> n'" and "b2 = map_option (if is_ok r then record_success else record_failure t) b1"
  shows "breaker_moved n0 b0 r n' b2"
proof (cases b0)
  case None
  with assms show ?thesis by (auto simp: breaker_moved_def)
next
  case (Some b)
  with assms obtain b' u where "check u b = (Ok (), b')" "b1 = Some b'" "n0 \<le> u" "u \<le> n" by auto
  then show ?thesis
    using assms(2-4) unfolding breaker_moved_def Some option.case
    by (intro exI [of _ u] exI [of _ t] exI [of _ b']) auto
qed

lemma breaker_idleI:
  assumes "case b0 of None \<Rightarrow> b1 = None
     | Some b \<Rightarrow> \<exists>b' t. n0 \<le> t \<and> t \<le> n \<and> check t b = (Ok (), b') \<and> b1 = Some b'"
    and "n \<le> n'" and "b2 = b1 \<or> (\<exists>t. n \<le> t \<and> t \<le> n' \<and> b2 = map_option (record_failure t) b1)"
  shows "breaker_idle n0 b0 n' b2"
proof (cases b0)
  case None
  with assms show ?thesis by (auto simp: breaker_idle_def)
next
  case (Some b)
  with assms(1) obtain b' u where *: "check u b = (Ok (), b')" "b1 = Some b'" "n0 \<le> u" "u \<le> n" by auto
  from assms(3) show ?thesis
  proof
    assume "b2 = b1"
    then show ?thesis using * assms(2) unfolding breaker_idle_def Some option.case
      by (intro exI [of _ u] exI [of _ u]) auto
  next
    assume "\<exists>t. n \<le> t \<and> t \<le> n' \<and> b2 = map_option (record_failure t) b1"
    then obtain t where "n \<le> t" "t \<le> n'" "b2 = map_option (record_failure t) b1" by blast
    then show ?thesis using * unfolding breaker_idle_def Some option.case
      by (intro exI [of _ u] exI [of _ t]) auto
  qed
qed

lemma breaker_check_cases:
  obtains s1 where "breaker_check c s = (Ok (), s1)" and "trace s1 = trace s" and "token s1 = token s"
      and "token_poisoned s1 = token_poisoned s" and "evolves s s1"
      and "case breaker s of None \<Rightarrow> breaker s1 = None
           | Some b \<Rightarrow> \<exists>b' t. now s \<le> t \<and> t \<le> now s1 \<and> check t b = (Ok (), b') \<and> breaker s1 = Some b'"
    | e b b' t s1 where "breaker s = Some b" and "now s \<le> t" and "t \<le> now s1" and "check t b = (Err e, b')"
      and "breaker s1 = Some b'"
      and "breaker_check c s = (Err e, s1)" and "trace s1 = trace s" and "token s1 = token s"
      and "token_poisoned s1 = token_poisoned s" and "evolves s s1"
proof (cases "breaker s")
  case None
  then show thesis by (intro that(1) [of s]) (simp_all add: breaker_check_def ev.R_refl)
next
  case (Some b)
  obtain t s1 where cl: "clock c s = (t, s1)" by fastforce
  obtain r b' where ch: "check t b = (r, b')" by fastforce
  have fr: "trace s1 = trace s" "token s1 = token s" "token_poisoned s1 = token_poisoned s"
    "now s \<le> now s1" "t = now s1" "now s \<le> t"
    using clock_frame [OF cl] evolves_clock [OF cl] by auto
  have bc: "breaker_check c s = (r, s1\<lparr>breaker := Some b'\<rparr>)"
    by (simp add: breaker_check_def Some cl ch)
  have ev: "evolves s (s1\<lparr>breaker := Some b'\<rparr>)"
    using fr Some ch breaker_rel_ops(3) [of b t] by (simp add: evolves_def)
  show thesis
  proof (cases r)
    case (Ok u)
    then show thesis using fr bc ch ev Some by (intro that(1) [of "s1\<lparr>breaker := Some b'\<rparr>"]) auto
  next
    case (Err e)
    then show thesis using fr bc ch ev Some
      by (intro that(2) [of b t "s1\<lparr>breaker := Some b'\<rparr>" e b']) auto
  next
    case (Panic p)
    then show thesis using ch by (auto simp: check_def split: if_splits cb_state.splits)
  qed
qed

lemma inject_headers_eq:
  assumes "\<not> token_poisoned s"
    and "req1 = (if m = PATCH then header ''Content-Type'' ''application/merge-patch+json''
           (header ''X-Vault-Request'' ''true'' \<lparr>rq_method = m, rq_url = url, rq_headers = [], rq_body = None\<rparr>)
         else header ''X-Vault-Request'' ''true'' \<lparr>rq_method = m, rq_url = url, rq_headers = [], rq_body = None\<rparr>)"
  obtains req2 where "inject_headers c req1 s = (Ok req2, s)"
    and "(case body of Some b \<Rightarrow> req2\<lparr>rq_body := Some (JsonBody b)\<rparr> | None \<Rightarrow> req2) = vault_request c m url (token s) body"
proof
  show "inject_headers c req1 s = (Ok (fst (case inject_headers c req1 s of (Ok r, _) \<Rightarrow> (r, ()) | _ \<Rightarrow> (req1, ()))), s)"
    by (simp add: inject_headers_def assms(1) Let_def)
  show "(case body of Some b \<Rightarrow> (fst (case inject_headers c req1 s of (Ok r, _) \<Rightarrow> (r, ()) | _ \<Rightarrow> (req1, ())))\<lparr>rq_body := Some (JsonBody b)\<rparr>
       | None \<Rightarrow> fst (case inject_headers c req1 s of (Ok r, _) \<Rightarrow> (r, ()) | _ \<Rightarrow> (req1, ())))
     = vault_request c m url (token s) body"
    by (simp add: inject_headers_def assms Let_def header_def vault_request_def opt_header_def
        split: option.split)
qed

lemma breaker_failure_cases:
  obtains t where "now s \<le> t" and "breaker (breaker_failure c s) = map_option (record_failure t) (breaker s)"
    and "trace (breaker_failure c s) = trace s" and "token (breaker_failure c s) = token s"
    and "token_poisoned (breaker_failure c s) = token_poisoned s" and "t \<le> now (breaker_failure c s)"
proof (cases "breaker s")
  case (Some b)
  obtain t s1 where cl: "clock c s = (t, s1)" by fastforce
  show thesis
    by (rule that [of t])
      (use Some cl clock_frame [OF cl] evolves_clock [OF cl] in \<open>auto simp: breaker_failure_def\<close>)
next
  case None
  then show thesis by (intro that [of "now s"]) (simp_all add: breaker_failure_def)
qed

lemma breaker_success_frame [simp]:
  "breaker (breaker_success s) = map_option record_success (breaker s)"
  "trace (breaker_success s) = trace s" "token (breaker_success s) = token s"
  "token_poisoned (breaker_success s) = token_poisoned s" "now (breaker_success s) = now s"
  by (simp_all add: breaker_success_def split: option.split)

lemma breaker_failure_frame:
  "trace (breaker_failure c s) = trace s \<and> token (breaker_failure c s) = token s
   \<and> token_poisoned (breaker_failure c s) = token_poisoned s"
  by (rule breaker_failure_cases [of s c]) simp

lemma evolves_breaker_failure: "evolves s (breaker_failure c s)"
  by (rule breaker_failure_cases [of s c]) (auto simp: evolves_def breaker_rel_ops)

lemma send_recorded_cases:
  assumes "e_clone (cl_env c) b = Some rq"
  obtains es r s' where "send_recorded c b url s = (r, s')" and "trace s' = trace s @ es"
    and "retry_trace c rq url 0 es r" and "token s' = token s" and "evolves s s'"
    and "\<exists>t. now s \<le> t \<and> t \<le> now s' \<and> breaker s' =
           map_option (if is_ok r then record_success else record_failure t) (breaker s)"
proof (rule send_with_retry_cases [OF assms, of url s])
  fix es r s1
  assume sr: "send_with_retry c b url s = (r, s1)" "trace s1 = trace s @ es"
    "retry_trace c rq url 0 es r" and q: "quiescent s s1"
  show thesis
  proof (cases r)
    case (Ok resp)
    then show thesis
      by (intro that [of r "breaker_success s1" es])
        (use sr q breaker_rel_ops(1) in \<open>auto simp: send_recorded_def quiescent_def evolves_def\<close>)
  next
    case (Err e)
    show thesis
    proof (rule breaker_failure_cases [of s1 c])
      fix t assume "now s1 \<le> t" "breaker (breaker_failure c s1) = map_option (record_failure t) (breaker s1)"
        "trace (breaker_failure c s1) = trace s1" "token (breaker_failure c s1) = token s1"
        "token_poisoned (breaker_failure c s1) = token_poisoned s1" "t \<le> now (breaker_failure c s1)"
      then show thesis
        by (intro that [of r "breaker_failure c s1" es])
          (use Err sr q breaker_rel_ops(2) in \<open>auto simp: send_recorded_def quiescent_def evolves_def
             intro!: exI [of _ t]\<close>)
    qed
  next
    case (Panic p)
    then show thesis using sr(3) retry_trace_no_panic by blast
  qed
qed

text \<open>
  A call of \<open>execute_raw\<close> either never reaches the network, or runs the retry loop on exactly
  \<open>vault_request\<close> and reports the result to the breaker.
\<close>

definition raw_unsent :: "'w client \<Rightarrow> string \<Rightarrow> 'w cstate \<Rightarrow> vault_error \<Rightarrow> bool" where
  "raw_unsent c path s e \<longleftrightarrow>
     (\<exists>b t. breaker s = Some b \<and> now s \<le> t \<and> fst (check t b) = Err e)
     \<or> (\<exists>u. e_url (cl_env c) (url_string c path) = Inl u \<and> e = Url u)
     \<or> (token_poisoned s \<and> e = LockPoisoned)
     \<or> e = Config ''request body not cloneable (stream body?)''"

lemma execute_raw_ready:
  assumes "breaker_check c s = (Ok (), s1)" and "token s1 = token s" and "\<not> token_poisoned s1"
    and "e_url (cl_env c) (url_string c path) = Inr url"
  shows "execute_raw c m path body s = send_recorded c (vault_request c m url (token s) body) url s1"
proof -
  let ?base = "header ''X-Vault-Request'' ''true'' \<lparr>rq_method = m, rq_url = url, rq_headers = [], rq_body = None\<rparr>"
  let ?req = "if m = PATCH then header ''Content-Type'' ''application/merge-patch+json'' ?base else ?base"
  obtain req2 where "inject_headers c ?req s1 = (Ok req2, s1)"
    and "(case body of Some b \<Rightarrow> req2\<lparr>rq_body := Some (JsonBody b)\<rparr> | None \<Rightarrow> req2)
      = vault_request c m url (token s) body"
    using inject_headers_eq [OF assms(3) refl, of c m url body] assms(2) by auto
  then show ?thesis using assms(1,4) by (simp add: execute_raw_def bind_io_cases Let_def)
qed

lemma send_recorded_uncloneable:
  "e_clone (cl_env c) rq = None \<Longrightarrow> send_recorded c rq url s =
     (Err (Config ''request body not cloneable (stream body?)''), breaker_failure c s)"
  by (simp add: send_recorded_def send_with_retry_uncloneable)

lemma breaker_refuses:
  assumes "breaker s = Some b" and "now s \<le> t" and "t \<le> now s1" and "check t b = (Err e, b')"
    and "breaker s1 = Some b'" and "breaker_check c s = (Err e, s1)"
  shows "execute_raw c m path body s = (Err e, s1)" and "raw_unsent c path s e"
    and "breaker_idle (now s) (breaker s) (now s1) (breaker s1)"
proof -
  show "execute_raw c m path body s = (Err e, s1)" using assms(6) by (simp add: execute_raw_def bind_io_cases)
  show "raw_unsent c path s e" using assms(1,2,4) by (auto simp: raw_unsent_def intro!: exI [of _ b] exI [of _ t])
  show "breaker_idle (now s) (breaker s) (now s1) (breaker s1)"
    unfolding breaker_idle_def assms(1) option.case by (intro exI [of _ t]) (use assms in simp)
qed

text \<open>A request that cannot be cloned is charged to the breaker like a failure.\<close>

lemma send_recorded_idle:
  assumes "case b0 of None \<Rightarrow> breaker s1 = None
     | Some b \<Rightarrow> \<exists>b' t. n0 \<le> t \<and> t \<le> now s1 \<and> check t b = (Ok (), b') \<and> breaker s1 = Some b'"
  shows "breaker_idle n0 b0 (now (breaker_failure c s1)) (breaker (breaker_failure c s1))"
  by (rule breaker_failure_cases [of s1 c]) (auto intro!: breaker_idleI [OF assms])

lemma execute_raw_cases:
  assumes "clone_faithful (cl_env c)"
  obtains
    (unsent) e s' where "execute_raw c m path body s = (Err e, s')" and "trace s' = trace s"
      and "token s' = token s" and "evolves s s'" and "raw_unsent c path s e"
      and "breaker_idle (now s) (breaker s) (now s') (breaker s')"
  | (sent) url es r s' where "execute_raw c m path body s = (r, s')"
      and "e_url (cl_env c) (url_string c path) = Inr url" and "\<not> token_poisoned s"
      and "trace s' = trace s @ es"
      and "retry_trace c (vault_request c m url (token s) body) url 0 es r"
      and "token s' = token s" and "breaker_moved (now s) (breaker s) r (now s') (breaker s')" and "evolves s s'"
proof (rule breaker_check_cases [of c s])
  fix e b b' t s1
  assume b: "breaker s = Some b" "now s \<le> t" "t \<le> now s1" "check t b = (Err e, b')"
    "breaker s1 = Some b'" "breaker_check c s = (Err e, s1)"
    and fr: "trace s1 = trace s" "token s1 = token s" "evolves s s1"
  show thesis
    by (rule unsent [OF breaker_refuses(1) [OF b] fr breaker_refuses(2,3) [OF b]])
next
  fix s1
  assume ok: "breaker_check c s = (Ok (), s1)"
    and fr: "trace s1 = trace s" "token s1 = token s" "token_poisoned s1 = token_poisoned s" "evolves s s1"
    and br: "case breaker s of None \<Rightarrow> breaker s1 = None
         | Some b \<Rightarrow> \<exists>b' t. now s \<le> t \<and> t \<le> now s1 \<and> check t b = (Ok (), b') \<and> breaker s1 = Some b'"
  note idle = breaker_idleI [OF br]
  note exec = execute_raw_def bind_io_cases ok
  show thesis
  proof (cases "token_poisoned s \<or> (\<exists>u. e_url (cl_env c) (url_string c path) = Inl u)")
    case True
    then show thesis
      by (cases "e_url (cl_env c) (url_string c path)")
        (use fr idle [of "now s1" "breaker s1"] in \<open>auto simp: exec inject_headers_def Let_def raw_unsent_def
           intro: unsent [of LockPoisoned s1] unsent [of "Url u" s1 for u]\<close>)
  next
    case False
    then obtain url where url: "e_url (cl_env c) (url_string c path) = Inr url" and np: "\<not> token_poisoned s1"
      using fr(3) by (cases "e_url (cl_env c) (url_string c path)") auto
    let ?rq = "vault_request c m url (token s) body"
    have ex: "execute_raw c m path body s = send_recorded c ?rq url s1"
      by (rule execute_raw_ready [OF ok fr(2) np url])
    show thesis
    proof (cases "e_clone (cl_env c) ?rq")
      case None
      then have "execute_raw c m path body s =
          (Err (Config ''request body not cloneable (stream body?)''), breaker_failure c s1)"
        by (simp add: ex send_recorded_uncloneable)
      then show thesis
        by (rule unsent) (use fr send_recorded_idle [OF br, of c] breaker_failure_frame [of c s1]
          ev.R_trans [OF fr(4) evolves_breaker_failure] in \<open>auto simp: raw_unsent_def\<close>)
    next
      case (Some rq')
      then have cl: "e_clone (cl_env c) ?rq = Some ?rq" using assms by (simp add: clone_faithful_def)
      show thesis
      proof (rule send_recorded_cases [OF cl, of url s1])
        fix es r s'
        assume R: "send_recorded c ?rq url s1 = (r, s')" "trace s' = trace s1 @ es"
          "retry_trace c ?rq url 0 es r" "token s' = token s1" "evolves s1 s'"
          and bm: "\<exists>t. now s1 \<le> t \<and> t \<le> now s' \<and> breaker s' =
             map_option (if is_ok r then record_success else record_failure t) (breaker s1)"
        have "breaker_moved (now s) (breaker s) r (now s') (breaker s')"
          using bm by (auto intro: breaker_movedI [OF br])
        then show thesis
          using R fr np ex ev.R_trans [OF fr(4)] by (intro sent [OF _ url, of r s' es]) simp_all
      qed
    qed
  qed
qed

section \<open>Properties\<close>

text \<open>
  C1: The retry loop refines its contract: the events of a call are sends of one and the same
  request with exactly one pause between two of them; every answer before the last calls for a
  retry, the last either does not or exhausts \<open>max_retries\<close>; each pause obeys the backoff rule
  (or the server's \<open>Retry-After\<close>, capped) for its attempt; and the result is the meaning of the
  last answer.
\<close>

theorem send_with_retry_contract:
  assumes "e_clone (cl_env c) b = Some rq"
  shows "\<exists>es. trace (snd (send_with_retry c b url s)) = trace s @ es
           \<and> retry_trace c rq url 0 es (fst (send_with_retry c b url s))"
  by (rule send_with_retry_cases [OF assms, of url s]) auto

definition example_request :: http_request where
  "example_request = \<lparr>rq_method = GET, rq_url = ''u'', rq_headers = [], rq_body = None\<rparr>"

theorem send_with_retry_contract_witness:
  "\<exists>es. trace (snd (send_with_retry (script_client []) example_request ''u''
          (script_state [answer 500 [], answer 429 [], answer 200 ''ok''] None))) = [] @ es
      \<and> retry_trace (script_client []) example_request ''u'' 0 es (fst (send_with_retry (script_client [])
          example_request ''u'' (script_state [answer 500 [], answer 429 [], answer 200 ''ok''] None)))"
  using send_with_retry_contract [of "script_client []" example_request example_request "''u''"
      "script_state [answer 500 [], answer 429 [], answer 200 ''ok''] None"] by simp

text \<open>
  C16: A call is bounded and total: it never reaches the loop's \<open>unreachable!\<close> or panics
  otherwise, sends between one and \<open>max_retries + 1\<close> requests, sleeps once less often than it
  sends and at most 30 s each time, reports the last answer, whose HTTP status is the error's
  \<open>status_code\<close>, and leaves the token and the breaker alone.
\<close>

theorem send_with_retry_bounded:
  assumes "e_clone (cl_env c) b = Some rq" and "send_with_retry c b url s = (r, s')"
  shows "\<exists>es. trace s' = trace s @ es \<and> answers es \<noteq> []
    \<and> length (answers es) \<le> Suc (max_retries (config c))
    \<and> Suc (length (sleeps es)) = length (answers es) \<and> list_all (\<lambda>d. d \<le> secs 30) (sleeps es)
    \<and> r = answer_outcome c url (last (answers es)) \<and> (\<nexists>m. r = Panic m)
    \<and> (case (r, last (answers es)) of
         (Err e, Inr resp) \<Rightarrow> status_code e = Some (rs_status resp)
       | (Err e, Inl f) \<Rightarrow> e = Http f
       | (Ok resp, a) \<Rightarrow> a = Inr resp \<and> (rs_status resp \<in> {200..299} \<or> rs_status resp = 404)
       | _ \<Rightarrow> False)
    \<and> token s' = token s \<and> breaker s' = breaker s"
proof -
  obtain es where es: "trace s' = trace s @ es" "retry_trace c rq url 0 es r" "quiescent s s'"
    using assms(2) by (auto intro: send_with_retry_cases [OF assms(1), of url s])
  note r = retry_trace_result [OF es(2)]
  have "case (r, last (answers es)) of
         (Err e, Inr resp) \<Rightarrow> status_code e = Some (rs_status resp)
       | (Err e, Inl f) \<Rightarrow> e = Http f
       | (Ok resp, a) \<Rightarrow> a = Inr resp \<and> (rs_status resp \<in> {200..299} \<or> rs_status resp = 404)
       | _ \<Rightarrow> False"
  proof (cases "last (answers es)")
    case (Inl f)
    then show ?thesis using r by (simp add: answer_outcome_def)
  next
    case (Inr resp)
    then show ?thesis
      using answer_status [of c url resp] answer_ok [of c url "Inr resp"] answer_no_panic r
      by (cases "answer_outcome c url (Inr resp)") auto
  qed
  then show ?thesis
    using es r retry_trace_nonempty [OF es(2)] retry_trace_length [OF es(2)] retry_trace_sleeps [OF es(2)]
      retry_trace_no_panic [OF es(2)]
    by (intro exI [of _ es]) (auto simp: quiescent_def max_backoff_def list_all_iff)
qed

theorem send_with_retry_bounded_witness:
  "\<exists>es. trace (snd (send_with_retry (script_client []) example_request ''u'' (script_state [answer 503 []] None))) = es
    \<and> answers es \<noteq> [] \<and> length (answers es) \<le> Suc (max_retries client_config_default)"
  using send_with_retry_bounded [of "script_client []" example_request example_request "''u''"
      "script_state [answer 503 []] None", OF _ surjective_pairing] by auto

text \<open>
  An open circuit keeps the network quiet: while the reset timeout has not passed,
  \<open>execute_raw\<close> fails with \<open>CircuitOpen\<close> after reading the clock once; nothing is sent, no time is
  slept, and neither the breaker nor the token changes.
\<close>

lemma execute_raw_open_circuit:
  assumes "breaker s = Some b" and "cb_state b = Open t0" and "\<not> cb_poisoned b"
    and "clock c s = (t, s1)" and "t < t0 + reset_timeout (cb_config b)" and "t0 \<le> t"
  shows "execute_raw c m path body s = (Err CircuitOpen, s1) \<and> trace s1 = trace s
    \<and> token s1 = token s \<and> breaker s1 = Some b"
proof -
  have "check t b = (Err CircuitOpen, b)"
    using assms(2,3,5,6) by (auto simp: check_def)
  then have "breaker_check c s = (Err CircuitOpen, s1\<lparr>breaker := Some b\<rparr>)"
    using assms(1,4) by (simp add: breaker_check_def)
  moreover have "s1\<lparr>breaker := Some b\<rparr> = s1"
    using clock_frame [OF assms(4)] assms(1) by simp
  ultimately show ?thesis
    using clock_frame [OF assms(4)] assms(1) by (simp add: execute_raw_def bind_io_cases)
qed

text \<open>
  C18: Every request of a call is the request of its arguments: the method, the body, the
  normalised URL of the base URL, \<open>v1/\<close> and the path without leading slashes, and the headers:
  the marker, the current token if there is one, the view's namespace before the client's, the
  view's wrap TTL before the configured one, the leader header exactly when configured, and the
  merge-patch content type exactly for \<open>PATCH\<close>. At most \<open>max_retries + 1\<close> are sent, and a poisoned
  token lock sends none.
\<close>

theorem execute_raw_requests_wellformed:
  assumes "clone_faithful (cl_env c)" and "execute_raw c m path body s = (r, s')"
    and "trace s' = trace s @ es" and "rq \<in> set (requests es)"
  shows "rq_method rq = m \<and> rq_body rq = map_option JsonBody body
    \<and> e_url (cl_env c) (base_url c @ ''v1/'' @ trim_start_matches CHR ''/'' path) = Inr (rq_url rq)
    \<and> map_of (rq_headers rq) ''X-Vault-Request'' = Some ''true''
    \<and> map_of (rq_headers rq) ''X-Vault-Token'' = map_option (\<lambda>ts. expose_secret (ts_value ts)) (token s)
    \<and> map_of (rq_headers rq) ''X-Vault-Namespace'' =
        (if namespace_override c \<noteq> None then namespace_override c else namespace c)
    \<and> map_of (rq_headers rq) ''X-Vault-Wrap-TTL'' =
        (if wrap_ttl_override c \<noteq> None then wrap_ttl_override c else cfg_wrap_ttl (config c))
    \<and> map_of (rq_headers rq) ''X-Vault-Forward'' =
        (if forward_to_leader (config c) then Some ''active-node'' else None)
    \<and> map_of (rq_headers rq) ''Content-Type'' =
        (if m = PATCH then Some ''application/merge-patch+json'' else None)
    \<and> length (requests es) \<le> Suc (max_retries (config c)) \<and> \<not> token_poisoned s"
proof (rule execute_raw_cases [OF assms(1), of m path body s], goal_cases)
  case (1 e s'')
  then show ?case using assms(2-4) by auto
next
  case (2 url es' r' s'')
  then have eq: "es' = es" using assms(2,3) by auto
  have rq: "rq = vault_request c m url (token s) body"
    using retry_trace_requests [OF 2(5)] assms(4) by (auto simp: eq)
  have "length (requests es) \<le> Suc (max_retries (config c))"
    using retry_trace_length [OF 2(5)] by (simp add: eq length_answers)
  then show ?case
    unfolding rq using 2(2,3)
    by (simp only: vault_request_lookup vault_request_fields opt_or_iff url_string_def) simp
qed

text \<open>
  C35: Every call that is sent and ends with an error counts as one failure, whatever the error: a bad
  request (400), a permission error (403) or an expired token (401) like a lost connection, although
  the server answered. In a closed circuit the counter goes up by one, and at the threshold the
  circuit opens; a probe that fails this way opens it again.
\<close>

theorem every_error_counts:
  assumes "clone_faithful (cl_env c)" and "execute_raw c m path body s = (Err e, s')"
    and "breaker s = Some b" and "cb_inv b" and "trace s' \<noteq> trace s"
  shows "\<exists>t. now s \<le> t \<and> t \<le> now s'
    \<and> breaker s' = Some (b\<lparr>cb_state :=
        (case cb_state b of
           Closed n \<Rightarrow> if unat (failure_threshold (cb_config b)) \<le> unat n + 1 then Open t else Closed (n + 1)
         | _ \<Rightarrow> Open t)\<rparr>)"
proof (rule execute_raw_cases [OF assms(1), of m path body s], goal_cases)
  case (1 e s'')
  then show ?case using assms(2,5) by simp
next
  case (2 url es r s'')
  then have "breaker_moved (now s) (Some b) (Err e :: http_response outcome) (now s') (breaker s')"
    using assms(2,3) by simp
  then obtain t t' b' where t: "check t b = (Ok (), b')" "breaker s' = Some (record_failure t' b')"
    "now s \<le> t'" "t' \<le> now s'"
    by (auto simp: breaker_moved_def intro: order_trans)
  have inc: "unat (n + 1) = unat n + 1" if "cb_state b = Closed n" for n
    using assms(4) that unat_counter_Suc [of n "failure_threshold (cb_config b)"] by (simp add: cb_inv_def)
  have "breaker s' = Some (b\<lparr>cb_state :=
        (case cb_state b of
           Closed n \<Rightarrow> if unat (failure_threshold (cb_config b)) \<le> unat n + 1 then Open t' else Closed (n + 1)
         | _ \<Rightarrow> Open t')\<rparr>)"
    using t(1,2) assms(4) inc
    by (cases "cb_state b") (auto simp: check_def record_failure_def cb_inv_def word_le_nat_alt split: if_splits)
  then show ?case using t(3,4) by blast
qed

text \<open>The definitions that evaluate a call in the scripted environment.\<close>

lemma script_clone_faithful [simp]: "clone_faithful (script_env tb)"
  by (simp add: clone_faithful_def)

lemma script_send [simp]:
  "world s = a # ws \<Longrightarrow> send (script_client tb) rq s =
     (a, s\<lparr>now := now s + 1, world := ws, trace := trace s @ [ESend rq a]\<rparr>)"
  by (simp add: send_def)

lemmas run_raw = execute_raw_def bind_io_cases breaker_check_def clock_def cb_new_def check_def
  inject_headers_def header_def url_string_def trim_start_matches_def send_recorded_def
  send_with_retry_def retry_loop.simps attempt_result_def answer_def breaker_failure_def
  breaker_success_def record_failure_def record_success_def Let_def client_config_default_def
  extract_errors_def cb_config_default_def

definition root_token :: token_state where
  "root_token = \<lparr>ts_value = Secret ''root'', ts_expires_at = None, ts_renewable = False, ts_lease_duration = 0\<rparr>"

theorem execute_raw_requests_wellformed_witness:
  "\<exists>rq s'. execute_raw (with_namespace (script_client []) ''dev'') PATCH ''/secret/data/a'' (Some JNull)
       (script_state [answer 204 []] (Some root_token)) = (Ok \<lparr>rs_status = 204, rs_retry_after = None, rs_body = Inr []\<rparr>, s')
     \<and> requests (trace s') = [rq]
     \<and> rq_url rq = ''http://vault:8200/v1/secret/data/a''
     \<and> map_of (rq_headers rq) ''X-Vault-Namespace'' = Some ''dev''
     \<and> map_of (rq_headers rq) ''X-Vault-Token'' = Some ''root''"
proof -
  let ?c = "with_namespace (script_client []) ''dev''"
  let ?s = "script_state [answer 204 []] (Some root_token)"
  have c: "cl_env ?c = script_env []" "base_url ?c = ''http://vault:8200/''" "namespace_override ?c = Some ''dev''"
    by (simp_all add: with_namespace_def)
  obtain r s' where ex: "execute_raw ?c PATCH ''/secret/data/a'' (Some JNull) ?s = (r, s')" by fastforce
  then have r: "r = Ok \<lparr>rs_status = 204, rs_retry_after = None, rs_body = Inr []\<rparr>" and len: "length (requests (trace s')) = 1"
    by (auto simp: run_raw with_namespace_def send_def)
  then obtain rq where rq: "requests (trace s') = [rq]" by (auto simp: length_Suc_conv)
  then show ?thesis
    using execute_raw_requests_wellformed [OF _ ex, of "trace s'" rq] r ex
    by (intro exI [of _ rq] exI [of _ s']) (simp add: c trim_start_matches_def root_token_def)
qed

theorem every_error_counts_witness:
  "\<exists>s' t. execute_raw (script_client []) GET ''secret/data/a'' None
       (script_state [answer 400 []] None) = (Err (Api 400 []), s')
     \<and> map_option cb_state (breaker s') = Some (Closed 1)
   \<and> (\<exists>s'. execute_raw (script_client []) GET ''secret/data/a'' None
       (script_state [answer 403 []] None
         \<lparr>breaker := Some (cb_new \<lparr>failure_threshold = 1, reset_timeout = 10\<rparr>)\<rparr>) = (Err (PermissionDenied []), s')
     \<and> map_option cb_state (breaker s') = Some (Open t))"
proof -
  let ?s1 = "script_state [answer 400 []] None"
  let ?s = "script_state [answer 403 []] None \<lparr>breaker := Some (cb_new \<lparr>failure_threshold = 1, reset_timeout = 10\<rparr>)\<rparr>"
  obtain r1 s1' where ex1: "execute_raw (script_client []) GET ''secret/data/a'' None ?s1 = (r1, s1')" by fastforce
  then have r1: "r1 = Err (Api 400 [])" "trace s1' \<noteq> []" by (auto simp: run_raw)
  then have 1: "map_option cb_state (breaker s1') = Some (Closed 1)"
    using every_error_counts [of "script_client []" GET "''secret/data/a''" None ?s1 "Api 400 []" s1'
        "cb_new cb_config_default"] ex1
    by (auto simp: cb_new_def cb_config_default_def cb_inv_def)
  obtain r s' where ex: "execute_raw (script_client []) GET ''secret/data/a'' None ?s = (r, s')" by fastforce
  then have r: "r = Err (PermissionDenied [])" "trace s' \<noteq> []" by (auto simp: run_raw)
  then have "\<exists>t. map_option cb_state (breaker s') = Some (Open t)"
    using every_error_counts [of "script_client []" GET "''secret/data/a''" None ?s "PermissionDenied []" s'
        "cb_new \<lparr>failure_threshold = 1, reset_timeout = 10\<rparr>"] ex
    by (auto simp: cb_new_def cb_inv_def)
  then show ?thesis using ex ex1 r r1 1 by blast
qed

end
