(* ===== verification/Token_Lifecycle.thy ===== *)
theory Token_Lifecycle
  imports Transport
begin

text \<open>
  The token lifecycle of \<open>client/async_client.rs\<close>: \<open>try_re_authenticate\<close>, \<open>renew_token_via_api\<close>,
  \<open>ensure_valid_token\<close>, \<open>execute\<close>, the \<open>exec_*\<close> helpers every handler is built on, and the
  generic \<open>read\<close>/\<open>write\<close>/\<open>delete\<close>/\<open>list\<close>. Here one task runs alone, so the renewal lock is
  free; theory \<open>Renewal_Lock\<close> treats concurrent callers.
\<close>

section \<open>Reading a body\<close>

definition decode_error :: vault_error where
  "decode_error = Http \<lparr>re_timeout = False, re_connect = False, re_text = ''error decoding response body''\<rparr>"

text \<open>\<open>resp.json::<T>().await?\<close>.\<close>

definition json_body :: "'w client \<Rightarrow> (json \<Rightarrow> 'a option) \<Rightarrow> http_response \<Rightarrow> 'a outcome" where
  "json_body c d resp =
     (case rs_body resp of
        Inl e \<Rightarrow> Err (Http e)
      | Inr t \<Rightarrow>
          (case e_json (cl_env c) t of
             Inl _ \<Rightarrow> Err decode_error
           | Inr v \<Rightarrow> ok_or (d v) decode_error))"

section \<open>Renewal and re-authentication\<close>

definition try_re_authenticate :: "'w client \<Rightarrow> ('w, unit) io" where
  "try_re_authenticate c =
     (case auth_method c of
        Some login \<Rightarrow>
          bind_io (login (namespace_override c) (wrap_ttl_override c)) (update_token_from_auth c)
      | None \<Rightarrow> lift_io (Err AuthRequired))"

definition renew_token_via_api :: "'w client \<Rightarrow> ('w, unit) io" where
  "renew_token_via_api c =
     bind_io (execute_raw c POST ''auth/token/renew-self'' None) (\<lambda>raw_resp.
     bind_io (lift_io (json_body c (de_vault_response de_value) raw_resp)) (\<lambda>resp.
       case auth resp of
         Some a \<Rightarrow> update_token_from_auth c a
       | None \<Rightarrow> ret_io ()))"

text \<open>\<open>token_needs_renewal\<close> at the current instant.\<close>

definition needs_renewal_now :: "'w client \<Rightarrow> token_state \<Rightarrow> ('w, bool) io" where
  "needs_renewal_now c ts = (\<lambda>s.
     case ts_expires_at ts of
       None \<Rightarrow> (Ok False, s)
     | Some _ \<Rightarrow> (case clock c s of (t, s') \<Rightarrow> (token_needs_renewal t ts, s')))"

datatype action = ActOk | ActReAuth | ActRenew

definition lifecycle_action :: "'w client \<Rightarrow> ('w, action) io" where
  "lifecycle_action c = (\<lambda>s.
     if token_poisoned s then (Err LockPoisoned, s)
     else
       (case token s of
          Some ts \<Rightarrow>
            bind_io (needs_renewal_now c ts) (\<lambda>needs. ret_io
              (if \<not> needs then ActOk
               else if ts_renewable ts then ActRenew
               else if auth_method c \<noteq> None then ActReAuth
               else ActOk)) s
        | None \<Rightarrow> (Ok (if auth_method c \<noteq> None then ActReAuth else ActOk), s)))"

definition still_needed :: "'w client \<Rightarrow> ('w, bool) io" where
  "still_needed c = (\<lambda>s.
     if token_poisoned s then (Err LockPoisoned, s)
     else (case token s of Some ts \<Rightarrow> needs_renewal_now c ts s | None \<Rightarrow> (Ok False, s)))"

definition ensure_valid_token :: "'w client \<Rightarrow> ('w, unit) io" where
  "ensure_valid_token c =
     bind_io (lifecycle_action c) (\<lambda>a.
       case a of
         ActOk \<Rightarrow> ret_io ()
       | ActReAuth \<Rightarrow> try_re_authenticate c
       | ActRenew \<Rightarrow>
           bind_io (still_needed c) (\<lambda>needed.
             if \<not> needed then ret_io ()
             else (\<lambda>s.
               case renew_token_via_api c s of
                 (Ok u, s') \<Rightarrow> (Ok (), s')
               | (Err renew_err, s') \<Rightarrow>
                   if auth_method c \<noteq> None then try_re_authenticate c s' else (Err renew_err, s')
               | (Panic p, s') \<Rightarrow> (Panic p, s'))))"

section \<open>execute and its wrappers\<close>

definition is_login :: "string \<Rightarrow> bool" where
  "is_login path \<longleftrightarrow> starts_with path ''auth/'' \<and> contains path ''/login''"

definition execute ::
  "'w client \<Rightarrow> http_method \<Rightarrow> string \<Rightarrow> json option \<Rightarrow> ('w, http_response) io" where
  "execute c m path body =
     bind_io (if is_login path then ret_io () else ensure_valid_token c)
       (\<lambda>_. execute_raw c m path body)"

definition not_found_check :: "string \<Rightarrow> http_response \<Rightarrow> http_response outcome" where
  "not_found_check path resp = (if rs_status resp = 404 then Err (NotFound path) else Ok resp)"

definition exec_with_auth ::
  "'w client \<Rightarrow> (json \<Rightarrow> 'a option) \<Rightarrow> http_method \<Rightarrow> string \<Rightarrow> json option \<Rightarrow> ('w, 'a vault_response) io" where
  "exec_with_auth c d m path body =
     map_io (\<lambda>resp. then_ok (not_found_check path resp) (json_body c (de_vault_response d)))
       (execute c m path body)"

definition exec_with_data ::
  "'w client \<Rightarrow> (json \<Rightarrow> 'a option) \<Rightarrow> http_method \<Rightarrow> string \<Rightarrow> json option \<Rightarrow> ('w, 'a) io" where
  "exec_with_data c d m path body =
     map_io (\<lambda>resp. then_ok (not_found_check path resp) (\<lambda>resp.
                    then_ok (json_body c (de_vault_response d) resp) (\<lambda>envelope.
                      ok_or (data envelope) EmptyResponse)))
       (execute c m path body)"

definition exec_empty ::
  "'w client \<Rightarrow> http_method \<Rightarrow> string \<Rightarrow> json option \<Rightarrow> ('w, unit) io" where
  "exec_empty c m path body =
     map_io (\<lambda>resp. then_ok (not_found_check path resp) (\<lambda>_. Ok ())) (execute c m path body)"

definition exec_direct ::
  "'w client \<Rightarrow> (json \<Rightarrow> 'a option) \<Rightarrow> http_method \<Rightarrow> string \<Rightarrow> json option \<Rightarrow> ('w, 'a) io" where
  "exec_direct c d m path body = map_io (json_body c d) (execute c m path body)"

definition exec_list :: "'w client \<Rightarrow> string \<Rightarrow> ('w, string list) io" where
  "exec_list c path =
     map_io (\<lambda>resp.
       if rs_status resp = 404 then Ok []
       else then_ok (json_body c (de_vault_response de_list_response) resp) (\<lambda>envelope.
              Ok (case data envelope of Some ks \<Rightarrow> ks | None \<Rightarrow> [])))
       (execute c LIST path None)"

definition exec_patch ::
  "'w client \<Rightarrow> (json \<Rightarrow> 'a option) \<Rightarrow> string \<Rightarrow> json \<Rightarrow> ('w, 'a) io" where
  "exec_patch c d path body =
     map_io (\<lambda>resp. then_ok (not_found_check path resp) (\<lambda>resp.
                    then_ok (json_body c (de_vault_response d) resp) (\<lambda>envelope.
                      ok_or (data envelope) EmptyResponse)))
       (execute c PATCH path (Some body))"

text \<open>The generic escape hatch.\<close>

definition read :: "'w client \<Rightarrow> (json \<Rightarrow> 'a option) \<Rightarrow> string \<Rightarrow> ('w, 'a) io" where
  "read c d path = exec_with_data c d GET path None"

definition read_raw :: "'w client \<Rightarrow> string \<Rightarrow> ('w, json vault_response) io" where
  "read_raw c path = exec_with_auth c de_value GET path None"

definition write_data ::
  "'w client \<Rightarrow> (json \<Rightarrow> 'a option) \<Rightarrow> string \<Rightarrow> serial \<Rightarrow> ('w, 'a vault_response) io" where
  "write_data c d path dat =
     bind_io (lift_io (to_body dat)) (\<lambda>body. exec_with_auth c d POST path (Some body))"

definition delete :: "'w client \<Rightarrow> string \<Rightarrow> ('w, unit) io" where
  "delete c path = exec_empty c DELETE path None"

definition list_keys :: "'w client \<Rightarrow> string \<Rightarrow> ('w, string list) io" where
  "list_keys c path = exec_list c path"

section \<open>Every action evolves the state\<close>

text \<open>
  A preorder that the primitive actions of the lifecycle respect is respected by every call: the
  clock, the storing of a token, single raw calls and the login of \<open>auth_method\<close>.
\<close>

context state_preorder
begin

lemma keeps_try_re_authenticate:
  assumes "\<And>a. keeps R (update_token_from_auth c a)"
    and "\<And>login ns w. auth_method c = Some login \<Longrightarrow> keeps R (login ns w)"
  shows "keeps R (try_re_authenticate c)"
  unfolding try_re_authenticate_def
  by (cases "auth_method c") (auto intro!: keeps_bind keeps_lift assms)

lemma keeps_renew_token_via_api:
  assumes "\<And>a. keeps R (update_token_from_auth c a)"
    and "keeps R (execute_raw c POST ''auth/token/renew-self'' None)"
  shows "keeps R (renew_token_via_api c)"
  unfolding renew_token_via_api_def
  by (intro keeps_bind keeps_lift assms) (auto simp: keeps_lift assms(1) split: option.split)

lemma keeps_needs_renewal_now:
  assumes "\<And>s t s'. clock c s = (t, s') \<Longrightarrow> R s s'"
  shows "keeps R (needs_renewal_now c ts)"
  by (auto simp: keeps_def needs_renewal_now_def R_refl dest: assms split: option.split prod.split)

lemma keeps_lifecycle_action:
  assumes "\<And>s t s'. clock c s = (t, s') \<Longrightarrow> R s s'"
  shows "keeps R (lifecycle_action c)"
  unfolding keeps_def
proof
  fix s
  have "keeps R (bind_io (needs_renewal_now c ts) (\<lambda>needs. ret_io (f needs)))"
    for ts and f :: "bool \<Rightarrow> action"
    by (intro keeps_bind keeps_needs_renewal_now keeps_lift) (rule assms)
  then show "R s (snd (lifecycle_action c s))"
    by (auto simp: lifecycle_action_def keeps_def R_refl split: option.split)
qed

lemma keeps_still_needed:
  assumes "\<And>s t s'. clock c s = (t, s') \<Longrightarrow> R s s'"
  shows "keeps R (still_needed c)"
  using keeps_needs_renewal_now [OF assms]
  by (fastforce simp: still_needed_def keeps_def R_refl split: option.split)

lemma keeps_ensure_valid_token:
  assumes clk: "\<And>s t s'. clock c s = (t, s') \<Longrightarrow> R s s'"
    and upd: "\<And>a. keeps R (update_token_from_auth c a)"
    and raw: "keeps R (execute_raw c POST ''auth/token/renew-self'' None)"
    and login: "\<And>login ns w. auth_method c = Some login \<Longrightarrow> keeps R (login ns w)"
  shows "keeps R (ensure_valid_token c)"
proof -
  have re: "keeps R (try_re_authenticate c)"
    by (rule keeps_try_re_authenticate) (auto intro: upd login)
  have "keeps R (\<lambda>s. case renew_token_via_api c s of
      (Ok u, s') \<Rightarrow> (Ok (), s')
    | (Err e, s') \<Rightarrow> if auth_method c \<noteq> None then try_re_authenticate c s' else (Err e, s')
    | (Panic p, s') \<Rightarrow> (Panic p, s'))"
    unfolding keeps_def
  proof
    fix s
    obtain r s' where r: "renew_token_via_api c s = (r, s')" by fastforce
    then have "R s s'" using keeps_renew_token_via_api [OF upd raw] by (metis keeps_def snd_conv)
    then show "R s (snd (case renew_token_via_api c s of
        (Ok u, s') \<Rightarrow> (Ok (), s')
      | (Err e, s') \<Rightarrow> if auth_method c \<noteq> None then try_re_authenticate c s' else (Err e, s')
      | (Panic p, s') \<Rightarrow> (Panic p, s')))"
      using re by (auto simp: r keeps_def split: outcome.split intro: R_trans)
  qed
  then show ?thesis
    unfolding ensure_valid_token_def
    by (intro keeps_bind keeps_lifecycle_action)
      (auto simp: keeps_lift re keeps_still_needed clk split: action.split intro!: keeps_bind)
qed

lemma keeps_execute:
  assumes "\<And>s t s'. clock c s = (t, s') \<Longrightarrow> R s s'"
    and "\<And>a. keeps R (update_token_from_auth c a)"
    and "keeps R (execute_raw c POST ''auth/token/renew-self'' None)"
    and "\<And>login ns w. auth_method c = Some login \<Longrightarrow> keeps R (login ns w)"
    and "keeps R (execute_raw c m path body)"
  shows "keeps R (execute c m path body)"
proof -
  have "keeps R (ensure_valid_token c)"
    by (rule keeps_ensure_valid_token) (auto intro: assms(1-4))
  then show ?thesis
    unfolding execute_def using assms(5) by (intro keeps_bind) (auto simp: keeps_lift)
qed

end

definition login_evolves :: "'w client \<Rightarrow> bool" where
  "login_evolves c \<longleftrightarrow> (\<forall>login ns w. auth_method c = Some login \<longrightarrow> keeps evolves (login ns w))"

lemma evolves_execute_raw: "clone_faithful (cl_env c) \<Longrightarrow> keeps evolves (execute_raw c m path body)"
  unfolding keeps_def by (metis execute_raw_cases snd_conv)

lemma evolves_try_re_authenticate: "login_evolves c \<Longrightarrow> keeps evolves (try_re_authenticate c)"
  by (rule ev.keeps_try_re_authenticate) (auto simp: login_evolves_def evolves_update_token)

lemma evolves_renew_token_via_api:
  "clone_faithful (cl_env c) \<Longrightarrow> keeps evolves (renew_token_via_api c)"
  by (intro ev.keeps_renew_token_via_api evolves_execute_raw evolves_update_token)

lemma evolves_needs_renewal_now: "keeps evolves (needs_renewal_now c ts)"
  by (rule ev.keeps_needs_renewal_now) (simp add: evolves_clock)

lemma evolves_ensure_valid_token:
  "clone_faithful (cl_env c) \<Longrightarrow> login_evolves c \<Longrightarrow> keeps evolves (ensure_valid_token c)"
  by (rule ev.keeps_ensure_valid_token)
    (auto simp: evolves_clock evolves_update_token evolves_execute_raw login_evolves_def)

lemma evolves_execute:
  "clone_faithful (cl_env c) \<Longrightarrow> login_evolves c \<Longrightarrow> keeps evolves (execute c m path body)"
  by (rule ev.keeps_execute)
    (auto simp: evolves_clock evolves_update_token evolves_execute_raw login_evolves_def)

section \<open>When a token is renewed\<close>

text \<open>
  The threshold is a fifth of the lease, computed in floating point: for a lease below \<open>2^32\<close>
  seconds it is exact up to a millisecond. So a leased token is due within the last fifth of its
  lease, up to that rounding, and not before; the check never panics while the clock is a lease
  away from its end.
\<close>

lemma threshold_exact:
  assumes "lease \<le> secs (2 ^ 32)"
  obtains n where "mul_f64 lease f64_0_2 = Ok n" and "5 * n \<le> lease + 5 * millis 1"
    and "lease \<le> 5 * n + 5 * millis 1" and "n \<le> lease"
proof -
  have "lease \<le> duration_max" using assms by (simp add: secs_def duration_max_def)
  then obtain n where n: "mul_f64 lease f64_0_2 = Ok n" "n \<le> lease"
    "\<bar>real n - 1 / 5 * real lease\<bar> \<le> 1 / 5 * real lease / 1000000000000 + 1 / 2"
    using mul_0_2 [of lease] by auto
  have "real lease \<le> 4294967296000000000" using assms by (simp add: secs_def)
  then have "5 * real n \<le> real lease + 5000000" "real lease \<le> 5 * real n + 5000000"
    using n(3) by linarith+
  then have "5 * n \<le> lease + 5000000" "lease \<le> 5 * n + 5000000" by linarith+
  then show thesis using n by (intro that) (simp_all add: millis_def)
qed

lemma token_needs_renewal_window:
  assumes "ts_expires_at ts = Some expires" and "ts_lease_duration ts \<le> secs (2 ^ 32)"
    and "t + ts_lease_duration ts \<le> instant_max"
  shows "\<exists>b. token_needs_renewal t ts = Ok b
    \<and> (5 * expires + 5 * millis 1 \<le> 5 * t + ts_lease_duration ts \<longrightarrow> b)
    \<and> (5 * t + ts_lease_duration ts + 5 * millis 1 < 5 * expires \<longrightarrow> \<not> b)"
proof -
  obtain n where n: "mul_f64 (ts_lease_duration ts) f64_0_2 = Ok n" "5 * n \<le> ts_lease_duration ts + 5 * millis 1"
    "ts_lease_duration ts \<le> 5 * n + 5 * millis 1" "n \<le> ts_lease_duration ts"
    by (rule threshold_exact [OF assms(2)])
  then have "token_needs_renewal t ts = Ok (expires \<le> t + n)"
    using assms by (simp add: token_needs_renewal_def instant_add_def)
  then show ?thesis using n by auto
qed

section \<open>The branches of ensure\_valid\_token\<close>

text \<open>The answer of the renewal check: at once without an expiry, else after reading the clock.\<close>

definition renewal_check :: "'w client \<Rightarrow> token_state \<Rightarrow> bool \<Rightarrow> 'w cstate \<Rightarrow> 'w cstate \<Rightarrow> bool" where
  "renewal_check c ts b s s' \<longleftrightarrow> needs_renewal_now c ts s = (Ok b, s')"

lemma clock_facts: "clock c s = (t, s') \<Longrightarrow>
   token s' = token s \<and> token_poisoned s' = token_poisoned s \<and> breaker s' = breaker s
   \<and> trace s' = trace s \<and> now s \<le> now s'"
  using clock_frame [of c s t s'] evolves_clock [of c s t s'] by simp

lemma renewal_check_frame:
  "renewal_check c ts b s s' \<Longrightarrow>
   token s' = token s \<and> token_poisoned s' = token_poisoned s \<and> breaker s' = breaker s
   \<and> trace s' = trace s \<and> now s \<le> now s' \<and> (b \<longrightarrow> ts_expires_at ts \<noteq> None)"
  by (auto simp: renewal_check_def needs_renewal_now_def dest!: clock_facts
      split: option.splits prod.splits)

lemma renewal_check_no_expiry [simp]:
  "ts_expires_at ts = None \<Longrightarrow> renewal_check c ts b s s' \<longleftrightarrow> \<not> b \<and> s' = s"
  by (auto simp: renewal_check_def needs_renewal_now_def)

lemma ensure_poisoned: "token_poisoned s \<Longrightarrow> ensure_valid_token c s = (Err LockPoisoned, s)"
  by (simp add: ensure_valid_token_def bind_io_cases lifecycle_action_def)

lemma ensure_no_token:
  "\<not> token_poisoned s \<Longrightarrow> token s = None \<Longrightarrow>
   ensure_valid_token c s = (if auth_method c = None then (Ok (), s) else try_re_authenticate c s)"
  by (simp add: ensure_valid_token_def bind_io_cases lifecycle_action_def)

lemma ensure_fresh:
  "\<not> token_poisoned s \<Longrightarrow> token s = Some ts \<Longrightarrow> renewal_check c ts False s s1 \<Longrightarrow>
   ensure_valid_token c s = (Ok (), s1)"
  by (simp add: ensure_valid_token_def bind_io_cases lifecycle_action_def renewal_check_def)

lemma ensure_not_renewable:
  "\<not> token_poisoned s \<Longrightarrow> token s = Some ts \<Longrightarrow> renewal_check c ts True s s1 \<Longrightarrow> \<not> ts_renewable ts \<Longrightarrow>
   ensure_valid_token c s = (if auth_method c = None then (Ok (), s1) else try_re_authenticate c s1)"
  by (simp add: ensure_valid_token_def bind_io_cases lifecycle_action_def renewal_check_def)

lemma ensure_renew:
  assumes "\<not> token_poisoned s" and "token s = Some ts" and "ts_renewable ts"
    and c1: "renewal_check c ts True s s1" and "renewal_check c ts b s1 s2"
  shows "ensure_valid_token c s =
    (if \<not> b then (Ok (), s2)
     else case renew_token_via_api c s2 of
        (Ok u, s') \<Rightarrow> (Ok (), s')
      | (Err e, s') \<Rightarrow> if auth_method c \<noteq> None then try_re_authenticate c s' else (Err e, s')
      | (Panic p, s') \<Rightarrow> (Panic p, s'))"
  using assms renewal_check_frame [OF c1]
  by (simp add: ensure_valid_token_def bind_io_cases lifecycle_action_def still_needed_def renewal_check_def)

text \<open>The token state a login or renewal answer stands for, at the instant \<open>t\<close> of its storing.\<close>

definition token_of_auth :: "nat \<Rightarrow> auth_info \<Rightarrow> token_state" where
  "token_of_auth t a =
     \<lparr>ts_value = client_token a,
      ts_expires_at = (if 0 < auth_lease_duration a
                       then instant_checked_add t (secs (auth_lease_duration a)) else None),
      ts_renewable = auth_renewable a, ts_lease_duration = secs (auth_lease_duration a)\<rparr>"

definition stored :: "'w client \<Rightarrow> auth_info \<Rightarrow> 'w cstate \<Rightarrow> 'w cstate \<Rightarrow> bool" where
  "stored c a s s' \<longleftrightarrow>
     token s' = Some (token_of_auth (now s') a) \<and> now s \<le> now s' \<and> breaker s' = breaker s
     \<and> token_poisoned s' = token_poisoned s
     \<and> trace s' = trace s @ (if has_callback c then [ETokenChanged a] else [])"

lemma update_token_stored:
  assumes "\<not> token_poisoned s"
  obtains s' where "update_token_from_auth c a s = (Ok (), s')" and "stored c a s s'"
proof (rule update_token_cases [OF assms, of c a])
  fix s' ts
  assume u: "update_token_from_auth c a s = (Ok (), s')" "token s' = Some ts"
    "ts_value ts = client_token a" "ts_renewable ts = auth_renewable a"
    "ts_lease_duration ts = secs (auth_lease_duration a)"
    "ts_expires_at ts = (if 0 < auth_lease_duration a
       then instant_checked_add (now s') (secs (auth_lease_duration a)) else None)"
    "trace s' = trace s @ (if has_callback c then [ETokenChanged a] else [])"
    "breaker s' = breaker s" "token_poisoned s' = token_poisoned s"
  have "now s \<le> now s'"
    using evolves_update_token [of c a] u(1) by (metis evolves_def keeps_def snd_conv)
  then show thesis
    using u by (intro that [of s']) (auto simp: stored_def token_of_auth_def)
qed

lemma renew_ok:
  assumes "execute_raw c POST ''auth/token/renew-self'' None s = (Ok resp, s1)"
    and "json_body c (de_vault_response de_value) resp = Ok env" and "\<not> token_poisoned s1"
  obtains s' where "renew_token_via_api c s = (Ok (), s')"
    and "case auth env of Some a \<Rightarrow> stored c a s1 s' | None \<Rightarrow> s' = s1"
proof (cases "auth env")
  case (Some a)
  obtain s' where "update_token_from_auth c a s1 = (Ok (), s')" "stored c a s1 s'"
    by (rule update_token_stored [OF assms(3)])
  then show thesis
    using assms Some by (intro that [of s']) (simp_all add: renew_token_via_api_def bind_io_cases)
qed (use assms in \<open>auto simp: renew_token_via_api_def bind_io_cases intro: that\<close>)

lemma reauth_ok:
  assumes "auth_method c = Some login"
    and "login (namespace_override c) (wrap_ttl_override c) s = (Ok a, s1)" and "\<not> token_poisoned s1"
  obtains s' where "try_re_authenticate c s = (Ok (), s')" and "stored c a s1 s'"
  using update_token_stored [OF assms(3), of c a] assms(1,2)
  by (auto simp: try_re_authenticate_def bind_io_cases)

lemma reauth_err:
  "auth_method c = Some login \<Longrightarrow>
   login (namespace_override c) (wrap_ttl_override c) s = (Err e, s1) \<Longrightarrow>
   try_re_authenticate c s = (Err e, s1)"
  by (simp add: try_re_authenticate_def bind_io_cases)

lemma execute_ensured:
  "\<not> is_login path \<Longrightarrow> ensure_valid_token c s = (Ok (), s1) \<Longrightarrow>
   execute c m path body s = execute_raw c m path body s1"
  by (simp add: execute_def bind_io_cases)

lemma execute_refused:
  "\<not> is_login path \<Longrightarrow> ensure_valid_token c s = (Err e, s1) \<Longrightarrow>
   execute c m path body s = (Err e, s1)"
  by (simp add: execute_def bind_io_cases)

lemma execute_login: "is_login path \<Longrightarrow> execute c m path body = execute_raw c m path body"
  by (simp add: execute_def)

text \<open>The requests of one \<open>execute_raw\<close> call, whatever its result.\<close>

definition only_requests :: "http_request \<Rightarrow> event list \<Rightarrow> bool" where
  "only_requests rq es \<longleftrightarrow> set (requests es) \<subseteq> {rq} \<and> token_changes es = []"

lemma execute_raw_requests:
  assumes "clone_faithful (cl_env c)" and "execute_raw c m path body s = (r, s')"
  obtains es url where "trace s' = trace s @ es" and "token s' = token s" and "evolves s s'"
    and "only_requests (vault_request c m url (token s) body) es"
    and "requests es \<noteq> [] \<longrightarrow> e_url (cl_env c) (url_string c path) = Inr url"
proof (rule execute_raw_cases [OF assms(1), of m path body s], goal_cases)
  case (1 e s'')
  then show thesis using assms(2) by (intro that [of "[]" undefined]) (auto simp: only_requests_def)
next
  case (2 url es r' s'')
  then show thesis using assms(2)
    by (intro that [of es url]) (auto simp: only_requests_def retry_trace_requests retry_trace_callbacks)
qed

lemma execute_fresh:
  assumes "clone_faithful (cl_env c)" and "\<not> token_poisoned s" and "token s = Some ts"
    and "needs_renewal_now c ts s = (Ok False, s1)" and "execute c m path body s = (r, s')"
  shows "token s' = Some ts \<and> (\<exists>es url. trace s' = trace s @ es
     \<and> set (requests es) \<subseteq> {vault_request c m url (Some ts) body} \<and> token_changes es = [])"
proof -
  have fr: "token s1 = Some ts" "trace s1 = trace s" "renewal_check c ts False s s1"
    using renewal_check_frame [of c ts False s s1] assms(3,4) by (simp_all add: renewal_check_def)
  have "\<exists>s0. execute c m path body s = execute_raw c m path body s0 \<and> token s0 = Some ts \<and> trace s0 = trace s"
    using execute_login execute_ensured ensure_fresh [OF assms(2,3) fr(3)] fr assms(3) by metis
  then obtain s0 where s0: "execute_raw c m path body s0 = (r, s')" "token s0 = Some ts" "trace s0 = trace s"
    using assms(5) by auto
  show ?thesis
    by (rule execute_raw_requests [OF assms(1) s0(1)])
      (use s0 in \<open>auto simp: only_requests_def\<close>)
qed

section \<open>Properties\<close>

definition leased_token :: token_state where
  "leased_token = \<lparr>ts_value = Secret ''old'', ts_expires_at = Some (secs 100),
     ts_renewable = True, ts_lease_duration = secs 100\<rparr>"

text \<open>
  A token that is not due costs nothing: the call sends only its own request, with that
  token, invokes no callback and leaves the token as it is.
\<close>

lemma execute_fresh_token:
  assumes "clone_faithful (cl_env c)" and "\<not> token_poisoned s" and "token s = Some ts"
    and "needs_renewal_now c ts s = (Ok False, s1)" and "execute c m path body s = (r, s')"
  shows "token s' = Some ts \<and> (\<exists>es url. trace s' = trace s @ es
     \<and> set (requests es) \<subseteq> {vault_request c m url (Some ts) body} \<and> token_changes es = [])"
  using assms by (rule execute_fresh)

text \<open>
  C2: Proactive renewal: a renewable token that is due is renewed by one \<open>renew-self\<close> call made
  with the old token; an auth block in its answer becomes the stored token, its expiry counted
  from the instant of storing, the callback runs once with it, and the caller's own request is
  then made from that state, that is with the new token.
\<close>

theorem execute_renews_first:
  assumes "\<not> is_login path" and "\<not> token_poisoned s" and "token s = Some ts" and "ts_renewable ts"
    and "needs_renewal_now c ts s = (Ok True, s1)" and "needs_renewal_now c ts s1 = (Ok True, s2)"
    and "execute_raw c POST ''auth/token/renew-self'' None s2 = (Ok resp, s3)"
    and "json_body c (de_vault_response de_value) resp = Ok env" and "auth env = Some a"
    and "\<not> token_poisoned s3"
  shows "\<exists>s4. execute c m path body s = execute_raw c m path body s4
    \<and> token s2 = Some ts \<and> trace s2 = trace s
    \<and> token s4 = Some \<lparr>ts_value = client_token a,
        ts_expires_at = (if 0 < auth_lease_duration a
           then instant_checked_add (now s4) (secs (auth_lease_duration a)) else None),
        ts_renewable = auth_renewable a, ts_lease_duration = secs (auth_lease_duration a)\<rparr>
    \<and> trace s4 = trace s3 @ (if has_callback c then [ETokenChanged a] else [])
    \<and> breaker s4 = breaker s3 \<and> now s3 \<le> now s4"
proof -
  have ch: "renewal_check c ts True s s1" "renewal_check c ts True s1 s2"
    using assms(5,6) by (simp_all add: renewal_check_def)
  obtain s4 where s4: "renew_token_via_api c s2 = (Ok (), s4)" "stored c a s3 s4"
    using assms(9) by (auto intro: renew_ok [OF assms(7,8,10)])
  have "ensure_valid_token c s = (Ok (), s4)"
    by (simp add: ensure_renew [OF assms(2-4) ch] s4)
  then have "execute c m path body s = execute_raw c m path body s4"
    by (rule execute_ensured [OF assms(1)])
  then show ?thesis
    using s4 renewal_check_frame [OF ch(1)] renewal_check_frame [OF ch(2)] assms(3)
    by (auto simp: stored_def token_of_auth_def)
qed

definition due_token :: token_state where
  "due_token = \<lparr>ts_value = Secret ''old'', ts_expires_at = Some 0, ts_renewable = True,
     ts_lease_duration = secs 100\<rparr>"

lemma due_token_due [simp]:
  "now s < secs 1 \<Longrightarrow> needs_renewal_now (script_client tb) due_token s = (Ok True, s)"
  using token_needs_renewal_window [of due_token 0 "now s"]
  by (auto simp: needs_renewal_now_def due_token_def secs_def millis_def instant_max_def)

definition renew_json :: json where
  "renew_json = JObj [(''auth'', JObj [(''client_token'', JStr ''new''), (''accessor'', JStr ''acc''),
     (''lease_duration'', JNum 60), (''renewable'', JBool True), (''entity_id'', JStr ''e''),
     (''token_type'', JStr ''service'')])]"

lemma renew_json_decodes:
  "de_vault_response de_value renew_json =
     Some \<lparr>request_id = None, lease_id = None, lease_duration = None, renewable = None, data = None,
       auth = Some \<lparr>client_token = Secret ''new'', accessor = ''acc'', policies = [], token_policies = [],
         metadata = None, auth_lease_duration = 60, auth_renewable = True, entity_id = ''e'',
         token_type = ''service'', orphan = False, mfa_requirement = None, num_uses = None\<rparr>,
       warnings = None, wrap_info_of = None\<rparr>"
  by (simp add: renew_json_def de_vault_response_def fld_opt_def de_auth_info_def fld_def fld_default_def
      de_secret_def)

theorem execute_renews_first_witness:
  "\<exists>s4. execute (script_client [(''renewed'', renew_json)]) GET ''secret/data/a'' None
       (script_state [answer 200 ''renewed'', answer 204 []] (Some due_token))
     = execute_raw (script_client [(''renewed'', renew_json)]) GET ''secret/data/a'' None s4
     \<and> map_option ts_value (token s4) = Some (Secret ''new'')"
proof -
  let ?c = "script_client [(''renewed'', renew_json)]"
  let ?s = "script_state [answer 200 ''renewed'', answer 204 []] (Some due_token)"
  have "\<exists>resp s3. execute_raw ?c POST ''auth/token/renew-self'' None ?s = (Ok resp, s3)
      \<and> rs_body resp = Inr ''renewed'' \<and> \<not> token_poisoned s3"
    by (simp add: run_raw)
  then obtain resp s3 where raw: "execute_raw ?c POST ''auth/token/renew-self'' None ?s = (Ok resp, s3)"
    "rs_body resp = Inr ''renewed''" "\<not> token_poisoned s3" by blast
  have js: "json_body ?c (de_vault_response de_value) resp = Ok (the (de_vault_response de_value renew_json))"
    using raw(2) renew_json_decodes by (simp add: json_body_def)
  have "now ?s < secs 1" by (simp add: secs_def)
  note due = due_token_due [OF this, of "[(''renewed'', renew_json)]"]
  show ?thesis
    using execute_renews_first [OF _ _ _ _ due due raw(1) js _ raw(3), of "''secret/data/a''" _ GET None] renew_json_decodes
    by (auto simp: is_login_def starts_with_def due_token_def)
qed

text \<open>
  C11: When renewal fails with any error and an auth method is configured, the client falls back to
  a login on the same view: its success stores the new token, runs the callback (once more, if the login
  itself already did) and lets the request proceed; its failure is the result of the call, the renewal's error being dropped, and
  the caller's request is never sent.
\<close>

theorem renewal_falls_back_to_login:
  assumes "\<not> is_login path" and "\<not> token_poisoned s" and "token s = Some ts" and "ts_renewable ts"
    and "needs_renewal_now c ts s = (Ok True, s1)" and "needs_renewal_now c ts s1 = (Ok True, s2)"
    and "renew_token_via_api c s2 = (Err e, s3)" and "auth_method c = Some login"
    and "login (namespace_override c) (wrap_ttl_override c) s3 = (r, s4)" and "\<not> token_poisoned s4"
  shows "case r of
      Ok a \<Rightarrow> \<exists>s5. execute c m path body s = execute_raw c m path body s5
             \<and> map_option ts_value (token s5) = Some (client_token a)
             \<and> trace s5 = trace s4 @ (if has_callback c then [ETokenChanged a] else [])
    | Err e' \<Rightarrow> execute c m path body s = (Err e', s4)
    | Panic p \<Rightarrow> execute c m path body s = (Panic p, s4)"
proof -
  have ch: "renewal_check c ts True s s1" "renewal_check c ts True s1 s2"
    using assms(5,6) by (simp_all add: renewal_check_def)
  have en: "ensure_valid_token c s = try_re_authenticate c s3"
    by (simp add: ensure_renew [OF assms(2-4) ch] assms(7,8))
  show ?thesis
  proof (cases r)
    case (Ok a)
    obtain s5 where "try_re_authenticate c s3 = (Ok (), s5)" "stored c a s4 s5"
      using assms(9) Ok by (auto intro: reauth_ok [OF assms(8) _ assms(10)])
    then show ?thesis
      using Ok execute_ensured [OF assms(1), of c s s5 m body] en
      by (auto simp: stored_def token_of_auth_def intro!: exI [of _ s5])
  next
    case (Err e')
    then show ?thesis
      using reauth_err [OF assms(8)] assms(9) execute_refused [OF assms(1)] en by simp
  next
    case (Panic p)
    then show ?thesis
      using assms(1,8,9) en by (simp add: try_re_authenticate_def bind_io_cases execute_def)
  qed
qed

definition failing_login_client :: "script client" where
  "failing_login_client = (script_client []) \<lparr>auth_method := Some (\<lambda>_ _ s. (Err AuthRequired, s))\<rparr>"

lemma failing_login_renewal:
  "now s < secs 1 \<Longrightarrow> needs_renewal_now failing_login_client due_token s = (Ok True, s)"
  using due_token_due [of s "[]"]
  by (simp add: needs_renewal_now_def failing_login_client_def clock_def split: option.splits)

theorem renewal_falls_back_to_login_witness:
  "\<exists>s3. execute failing_login_client GET ''secret/data/a'' None
     (script_state [answer 400 []] (Some due_token)) = (Err AuthRequired, s3)"
proof -
  let ?s = "script_state [answer 400 []] (Some due_token)"
  have "\<exists>e s3. renew_token_via_api failing_login_client ?s = (Err e, s3) \<and> \<not> token_poisoned s3"
    by (simp add: renew_token_via_api_def run_raw failing_login_client_def send_def)
  then obtain e s3 where r: "renew_token_via_api failing_login_client ?s = (Err e, s3)" "\<not> token_poisoned s3"
    by blast
  have "now ?s < secs 1" by (simp add: secs_def)
  note due = failing_login_renewal [OF this]
  show ?thesis
    using renewal_falls_back_to_login [OF _ _ _ _ due due r(1), of "''secret/data/a''"
        "\<lambda>_ _ s. (Err AuthRequired, s)" "Err AuthRequired" s3 GET None] r(2)
    by (auto simp: is_login_def starts_with_def due_token_def failing_login_client_def)
qed

text \<open>A token is not usable: none is stored, or it is due and cannot be renewed.\<close>

lemma ensure_unusable:
  assumes "\<not> token_poisoned s"
    and "token s = None \<and> s1 = s
         \<or> (\<exists>ts. token s = Some ts \<and> \<not> ts_renewable ts \<and> needs_renewal_now c ts s = (Ok True, s1))"
  shows "ensure_valid_token c s = (if auth_method c = None then (Ok (), s1) else try_re_authenticate c s1)"
    and "token s1 = token s"
proof -
  have "ensure_valid_token c s = (if auth_method c = None then (Ok (), s1) else try_re_authenticate c s1)
      \<and> token s1 = token s"
    using assms(2)
  proof
    assume "token s = None \<and> s1 = s"
    then show ?thesis using ensure_no_token [OF assms(1)] by simp
  next
    assume "\<exists>ts. token s = Some ts \<and> \<not> ts_renewable ts \<and> needs_renewal_now c ts s = (Ok True, s1)"
    then obtain ts where ts: "token s = Some ts" "\<not> ts_renewable ts" "renewal_check c ts True s s1"
      by (auto simp: renewal_check_def)
    then show ?thesis
      using ensure_not_renewable [OF assms(1) ts(1,3,2)] renewal_check_frame [OF ts(3)] by simp
  qed
  then show "ensure_valid_token c s = (if auth_method c = None then (Ok (), s1) else try_re_authenticate c s1)"
    and "token s1 = token s" by simp_all
qed

text \<open>
  Without a usable token - none stored, or one that is due and cannot be renewed - a client with
  an auth method logs in first and proceeds with the token of the answer; a failed login is the
  result and nothing else is sent. A client without an auth method sends the request as it is.
\<close>

lemma login_when_no_usable_token:
  assumes "\<not> is_login path" and "\<not> token_poisoned s"
    and "token s = None \<and> s1 = s
         \<or> (\<exists>ts. token s = Some ts \<and> \<not> ts_renewable ts \<and> needs_renewal_now c ts s = (Ok True, s1))"
  shows "case auth_method c of
      None \<Rightarrow> execute c m path body s = execute_raw c m path body s1 \<and> token s1 = token s
    | Some login \<Rightarrow>
        (case login (namespace_override c) (wrap_ttl_override c) s1 of
           (Ok a, s2) \<Rightarrow> token_poisoned s2 \<or>
             (\<exists>s3. execute c m path body s = execute_raw c m path body s3
                \<and> map_option ts_value (token s3) = Some (client_token a)
                \<and> trace s3 = trace s2 @ (if has_callback c then [ETokenChanged a] else []))
         | (Err e, s2) \<Rightarrow> execute c m path body s = (Err e, s2)
         | (Panic p, s2) \<Rightarrow> execute c m path body s = (Panic p, s2))"
proof -
  note en = ensure_unusable [OF assms(2,3)]
  show ?thesis
  proof (cases "auth_method c")
    case None
    then show ?thesis using en execute_ensured [OF assms(1), of c s s1 m body] by simp
  next
    case (Some login)
    obtain r s2 where l: "login (namespace_override c) (wrap_ttl_override c) s1 = (r, s2)" by fastforce
    show ?thesis
    proof (cases r)
      case (Ok a)
      show ?thesis
      proof (cases "token_poisoned s2")
        case False
        obtain s3 where "try_re_authenticate c s1 = (Ok (), s3)" "stored c a s2 s3"
          using l Ok by (auto intro: reauth_ok [OF Some _ False])
        then show ?thesis
          using Some l Ok en execute_ensured [OF assms(1), of c s s3 m body]
          by (auto simp: stored_def token_of_auth_def intro!: exI [of _ s3])
      qed (simp add: Some l Ok)
    next
      case (Err e)
      then show ?thesis
        using Some l en reauth_err [OF Some] execute_refused [OF assms(1), of c s e s2 m body] by simp
    next
      case (Panic p)
      then show ?thesis
        using Some l en assms(1) by (simp add: try_re_authenticate_def bind_io_cases execute_def)
    qed
  qed
qed

text \<open>
  C36: A renewal answer without an auth block counts as a success: this includes a 404 answer, which
  is not checked here. The call then proceeds with the token that was due, even when an auth
  method could have replaced it.
\<close>

theorem renewal_without_auth_is_success:
  assumes "\<not> is_login path" and "\<not> token_poisoned s" and "token s = Some ts" and "ts_renewable ts"
    and "needs_renewal_now c ts s = (Ok True, s1)" and "needs_renewal_now c ts s1 = (Ok True, s2)"
    and "execute_raw c POST ''auth/token/renew-self'' None s2 = (Ok resp, s3)"
    and "json_body c (de_vault_response de_value) resp = Ok env" and "auth env = None"
    and "\<not> token_poisoned s3" and "clone_faithful (cl_env c)"
  shows "execute c m path body s = execute_raw c m path body s3 \<and> token s3 = Some ts"
proof -
  have ch: "renewal_check c ts True s s1" "renewal_check c ts True s1 s2"
    using assms(5,6) by (simp_all add: renewal_check_def)
  obtain s4 where s4: "renew_token_via_api c s2 = (Ok (), s4)" "s4 = s3"
    using assms(9) by (auto intro: renew_ok [OF assms(7,8,10)])
  have "ensure_valid_token c s = (Ok (), s3)"
    using s4 by (simp add: ensure_renew [OF assms(2-4) ch])
  then have "execute c m path body s = execute_raw c m path body s3"
    by (rule execute_ensured [OF assms(1)])
  moreover have "token s3 = token s2"
    by (rule execute_raw_requests [OF assms(11,7)])
  ultimately show ?thesis
    using renewal_check_frame [OF ch(1)] renewal_check_frame [OF ch(2)] assms(3) by simp
qed

theorem renewal_without_auth_is_success_witness:
  "\<exists>s3. execute (script_client [(''gone'', JObj [])]) GET ''secret/data/a'' None
       (script_state [answer 404 ''gone'', answer 204 []] (Some due_token))
     = execute_raw (script_client [(''gone'', JObj [])]) GET ''secret/data/a'' None s3
     \<and> token s3 = Some due_token"
proof -
  let ?c = "script_client [(''gone'', JObj [])]"
  let ?s = "script_state [answer 404 ''gone'', answer 204 []] (Some due_token)"
  have "\<exists>resp s3. execute_raw ?c POST ''auth/token/renew-self'' None ?s = (Ok resp, s3)
      \<and> rs_body resp = Inr ''gone'' \<and> \<not> token_poisoned s3"
    by (simp add: run_raw)
  then obtain resp s3 where raw: "execute_raw ?c POST ''auth/token/renew-self'' None ?s = (Ok resp, s3)"
    "rs_body resp = Inr ''gone''" "\<not> token_poisoned s3" by blast
  have "now ?s < secs 1" by (simp add: secs_def)
  note due = due_token_due [OF this, of "[(''gone'', JObj [])]"]
  have js: "json_body ?c (de_vault_response de_value) resp = Ok (the (de_vault_response de_value (JObj [])))"
    using raw(2) by (simp add: json_body_def de_vault_response_empty)
  show ?thesis
    using renewal_without_auth_is_success [OF _ _ _ _ due due raw(1) js _ raw(3), of "''secret/data/a''" GET None]
    by (auto simp: is_login_def starts_with_def due_token_def de_vault_response_empty)
qed

text \<open>
  \<open>set_token\<close> takes effect at once and for good: every request of the next call carries that
  token, and, having no expiry, it is never renewed or replaced by a login on the client's own
  initiative.
\<close>

lemma set_token_used:
  assumes "clone_faithful (cl_env c)" and "set_token t s = (Ok (), s0)"
    and "execute c m path body s0 = (r, s')"
  shows "map_option ts_value (token s') = Some t \<and> (\<exists>es. trace s' = trace s @ es \<and> token_changes es = []
     \<and> list_all (\<lambda>rq. rq_method rq = m \<and> rq_body rq = map_option JsonBody body
          \<and> map_of (rq_headers rq) ''X-Vault-Token'' = Some (expose_secret t)) (requests es))"
proof -
  define ts where "ts = \<lparr>ts_value = t, ts_expires_at = None, ts_renewable = False, ts_lease_duration = 0\<rparr>"
  have s0: "\<not> token_poisoned s0" "token s0 = Some ts" "trace s0 = trace s"
    using assms(2) by (auto simp: set_token_def ts_def split: if_splits)
  have "needs_renewal_now c ts s0 = (Ok False, s0)"
    by (simp add: needs_renewal_now_def ts_def)
  from execute_fresh [OF assms(1) s0(1,2) this assms(3)]
  obtain es url where es: "token s' = Some ts" "trace s' = trace s @ es"
    "set (requests es) \<subseteq> {vault_request c m url (Some ts) body}" "token_changes es = []"
    by (auto simp: s0(3))
  have "list_all (\<lambda>rq. rq_method rq = m \<and> rq_body rq = map_option JsonBody body
      \<and> map_of (rq_headers rq) ''X-Vault-Token'' = Some (expose_secret t)) (requests es)"
    unfolding list_all_iff
  proof
    fix rq assume "rq \<in> set (requests es)"
    then have rq: "rq = vault_request c m url (Some ts) body" using es(3) by auto
    show "rq_method rq = m \<and> rq_body rq = map_option JsonBody body
        \<and> map_of (rq_headers rq) ''X-Vault-Token'' = Some (expose_secret t)"
      unfolding rq by (simp only: vault_request_lookup vault_request_fields) (simp add: ts_def)
  qed
  then show ?thesis using es(1,2,4) by (simp add: ts_def)
qed

text \<open>
  What a 404 means depends on the wrapper: the typed, envelope, empty and patch wrappers turn it
  into \<open>NotFound\<close> for the path; a list is the empty list; the direct wrapper reads the error body as
  if it were the payload.
\<close>

lemma not_found_per_wrapper:
  assumes "execute c m path body s = (Ok resp, s')" and "rs_status resp = 404"
  shows "exec_with_data c d m path body s = (Err (NotFound path), s')
    \<and> exec_with_auth c d m path body s = (Err (NotFound path), s')
    \<and> exec_empty c m path body s = (Err (NotFound path), s')
    \<and> (if m = PATCH \<and> body = Some b then exec_patch c d path b s = (Err (NotFound path), s') else True)
    \<and> (if m = LIST \<and> body = None then exec_list c path s = (Ok [], s') else True)
    \<and> exec_direct c d m path body s = (json_body c d resp, s')"
  using assms
  by (auto simp: exec_with_data_def exec_with_auth_def exec_empty_def exec_patch_def exec_list_def
      exec_direct_def map_io_apply not_found_check_def)

end
