(* ===== verification/Renewal.thy ===== *)
theory Renewal
  imports Token_Lifecycle
begin

text \<open>
  \<open>renewal.rs\<close>: the background tasks. \<open>renewal_sleep\<close> and \<open>lease_sleep\<close> are the intervals,
  \<open>daemon_body\<close> is what the token daemon does when it wakes (its loop is in theory \<open>Token_Daemon\<close>). A lease watcher (\<open>watch_lease\<close>,
  \<open>watch_lease_events\<close>, \<open>watch_lease_rotate\<close>) is a step relation over its program counter, its
  bounded event channel and its handle: each await is a program counter, the caller's calls are
  steps of their own, and a \<open>select!\<close> against the cancellation token is a choice that is enabled
  once the token is cancelled. What a renewal or a rotation returns is any value.
\<close>

section \<open>Intervals\<close>

definition min_renewal_sleep :: nat where
  "min_renewal_sleep = secs 1"

text \<open>\<open>r\<close> is the random \<open>u64\<close>.\<close>

definition renewal_sleep :: "token_state option \<Rightarrow> nat \<Rightarrow> nat outcome" where
  "renewal_sleep tok r =
     (case tok of
        Some ts \<Rightarrow>
          if ts_renewable ts \<and> 0 < ts_lease_duration ts
          then then_ok (mul_f64 (ts_lease_duration ts) f64_0_66) (\<lambda>base.
                 duration_add base (millis (r mod 5000)))
          else Ok (secs 60)
      | None \<Rightarrow> Ok (secs 60))"

definition lease_sleep :: "nat \<Rightarrow> nat \<Rightarrow> nat outcome" where
  "lease_sleep current_ttl r =
     then_ok (mul_f64 current_ttl f64_0_66) (\<lambda>base.
     then_ok (duration_add base (millis (r mod 5000))) (\<lambda>d.
       Ok (max d min_renewal_sleep)))"

lemma base_exact:
  assumes "d \<le> secs (2 ^ 32)"
  obtains n where "mul_f64 d f64_0_66 = Ok n" and "100 * n \<le> 66 * d + 100 * millis 3"
    and "66 * d \<le> 100 * n + 100 * millis 3" and "n \<le> d"
proof -
  have "d \<le> duration_max" using assms by (simp add: secs_def duration_max_def)
  then obtain n where n: "mul_f64 d f64_0_66 = Ok n" "n \<le> d"
    "\<bar>real n - 33 / 50 * real d\<bar> \<le> 33 / 50 * real d / 1000000000000 + 1 / 2"
    using mul_0_66 [of d] by auto
  have "real d \<le> 4294967296000000000" using assms by (simp add: secs_def)
  then have "100 * real n \<le> 66 * real d + 300000000" "66 * real d \<le> 100 * real n + 300000000"
    using n(3) by linarith+
  then have "100 * n \<le> 66 * d + 300000000" "66 * d \<le> 100 * n + 300000000" by linarith+
  then show thesis using n by (intro that) (simp_all add: millis_def)
qed

lemma duration_add_small: "a + b \<le> secs (2 ^ 33) \<Longrightarrow> duration_add a b = Ok (a + b)"
  by (simp add: duration_add_def secs_def duration_max_def)

lemma lease_sleep_bounds:
  assumes "ttl \<le> secs (2 ^ 32)"
  obtains d where "lease_sleep ttl r = Ok d" and "secs 1 \<le> d"
    and "secs 15 \<le> ttl \<Longrightarrow> d < ttl"
    and "100 * d \<le> 66 * ttl + 100 * millis 5002 \<or> d = secs 1"
    and "66 * ttl + 100 * millis (r mod 5000) \<le> 100 * d + 100 * millis 3"
proof (rule base_exact [OF assms])
  fix n assume n: "mul_f64 ttl f64_0_66 = Ok n" "100 * n \<le> 66 * ttl + 100 * millis 3"
    "66 * ttl \<le> 100 * n + 100 * millis 3" "n \<le> ttl"
  have r: "r mod 5000 \<le> 4999" using mod_less_divisor [of 5000 r] by linarith
  then have "n + millis (r mod 5000) \<le> secs (2 ^ 33)"
    using n(4) assms by (simp add: millis_def secs_def)
  then have eq: "lease_sleep ttl r = Ok (max (n + millis (r mod 5000)) (secs 1))"
    by (simp add: lease_sleep_def n(1) duration_add_small min_renewal_sleep_def)
  show thesis
  proof (rule that [OF eq])
    show "secs 15 \<le> ttl \<Longrightarrow> max (n + millis (r mod 5000)) (secs 1) < ttl"
      using n r by (simp add: secs_def millis_def)
  qed (use n r in \<open>auto simp: secs_def millis_def max_def\<close>)
qed

section \<open>The token daemon\<close>

text \<open>One pass of the loop of \<open>start_token_renewal\<close> after its sleep, when nothing cancels it.\<close>

definition renew_token_now :: "'w client \<Rightarrow> ('w, unit) io" where
  "renew_token_now c = renew_token_via_api c"

definition daemon_body :: "'w client \<Rightarrow> ('w, unit) io" where
  "daemon_body c = (\<lambda>s.
     case renew_token_now c s of
        (Ok u, s') \<Rightarrow> (Ok (), s')
      | (Err e, s') \<Rightarrow>
          (case try_re_authenticate c s' of
             (Ok u, s'') \<Rightarrow> (Ok (), s'')
           | (Err e2, s'') \<Rightarrow> (Ok (), s'')
           | (Panic p, s'') \<Rightarrow> (Panic p, s''))
      | (Panic p, s') \<Rightarrow> (Panic p, s'))"

section \<open>Lease watchers\<close>

datatype lease_event =
    Renewed string nat
  | ErrorEv string string
  | Expired string
  | Rotated string

datatype watch_kind = LogOnly | Events | Rotate

datatype watch_pc =
    WSleep
  | WRenew
  | WSend lease_event watch_pc
  | WBackoff nat
  | WRotate nat
  | WAdopt string nat
  | WDone

text \<open>
  The handle: alive, in the hands of \<open>shutdown\<close> (which owns the receiver and no longer reads from
  it), or dropped (which closes the channel).
\<close>

datatype handle = Live | ShuttingDown | Dropped

record watcher =
  w_lease :: string
  w_ttl :: nat
  w_pc :: watch_pc
  w_queue :: "lease_event list"
  w_received :: "lease_event list"
  w_cancelled :: bool
  w_handle :: handle

definition channel_capacity :: nat where
  "channel_capacity = 16"

definition rotation_attempts :: nat where
  "rotation_attempts = 3"

definition rotation_backoff :: "nat \<Rightarrow> nat" where
  "rotation_backoff attempt = millis (500 * 2 ^ attempt)"

definition watch_start :: "string \<Rightarrow> nat \<Rightarrow> watcher" where
  "watch_start l ttl =
     \<lparr>w_lease = l, w_ttl = ttl, w_pc = WSleep, w_queue = [], w_received = [],
      w_cancelled = False, w_handle = Live\<rparr>"

text \<open>Where the task goes after a renewal that succeeded or failed.\<close>

fun after_renewed :: "watch_kind \<Rightarrow> string \<Rightarrow> nat \<Rightarrow> watch_pc" where
  "after_renewed LogOnly l ttl = WSleep"
| "after_renewed Events l ttl = WSend (Renewed l ttl) WSleep"
| "after_renewed Rotate l ttl = WSend (Renewed l ttl) WSleep"

fun after_error :: "watch_kind \<Rightarrow> string \<Rightarrow> string \<Rightarrow> watch_pc" where
  "after_error LogOnly l e = WDone"
| "after_error Events l e = WSend (ErrorEv l e) (WSend (Expired l) WDone)"
| "after_error Rotate l e = WSend (ErrorEv l e) (WRotate 0)"

definition after_rotation_error :: "string \<Rightarrow> nat \<Rightarrow> watch_pc" where
  "after_rotation_error l attempt =
     (if attempt + 1 < rotation_attempts then WBackoff (attempt + 1) else WSend (Expired l) WDone)"

inductive watch_step :: "watch_kind \<Rightarrow> watcher \<Rightarrow> watcher \<Rightarrow> bool" for k where
  slept: "w_pc w = WSleep \<Longrightarrow> watch_step k w (w\<lparr>w_pc := WRenew\<rparr>)"
| renewed: "w_pc w = WRenew \<Longrightarrow>
    watch_step k w (w\<lparr>w_ttl := secs d, w_pc := after_renewed k (w_lease w) (secs d)\<rparr>)"
| renew_failed: "w_pc w = WRenew \<Longrightarrow> watch_step k w (w\<lparr>w_pc := after_error k (w_lease w) e\<rparr>)"
| sent: "w_pc w = WSend ev pc \<Longrightarrow> w_handle w \<noteq> Dropped \<Longrightarrow> length (w_queue w) < channel_capacity \<Longrightarrow>
    watch_step k w (w\<lparr>w_queue := w_queue w @ [ev], w_pc := pc\<rparr>)"
| send_closed: "w_pc w = WSend ev pc \<Longrightarrow> w_handle w = Dropped \<Longrightarrow> watch_step k w (w\<lparr>w_pc := pc\<rparr>)"
| rotated: "w_pc w = WRotate n \<Longrightarrow>
    watch_step k w (w\<lparr>w_pc := WSend (Rotated l) (WAdopt l ttl)\<rparr>)"
| adopted: "w_pc w = WAdopt l ttl \<Longrightarrow> watch_step k w (w\<lparr>w_lease := l, w_ttl := ttl, w_pc := WSleep\<rparr>)"
| rotate_failed: "w_pc w = WRotate n \<Longrightarrow>
    watch_step k w (w\<lparr>w_pc := after_rotation_error (w_lease w) n\<rparr>)"
| backed_off: "w_pc w = WBackoff n \<Longrightarrow> watch_step k w (w\<lparr>w_pc := WRotate n\<rparr>)"
| cancelled: "w_cancelled w \<Longrightarrow> w_pc w \<in> {WSleep, WRenew} \<union> range WBackoff \<union> range WRotate \<Longrightarrow>
    watch_step k w (w\<lparr>w_pc := WDone\<rparr>)"
| recv: "w_handle w = Live \<Longrightarrow> w_queue w = ev # q \<Longrightarrow>
    watch_step k w (w\<lparr>w_queue := q, w_received := w_received w @ [ev]\<rparr>)"
| shutdown: "w_handle w = Live \<Longrightarrow> watch_step k w (w\<lparr>w_cancelled := True, w_handle := ShuttingDown\<rparr>)"
| dropped: "w_handle w = Live \<Longrightarrow>
    watch_step k w (w\<lparr>w_cancelled := True, w_handle := Dropped, w_queue := []\<rparr>)"

inductive_cases watch_stepE: "watch_step k w w'"

text \<open>
  The methods of the handle, as functions: \<open>recv\<close> returns at once with an event or, when the task has
  finished and the channel is empty, with \<open>None\<close>; otherwise it waits. They are the caller's steps.
\<close>

definition watcher_try_recv :: "watcher \<Rightarrow> lease_event option \<times> watcher" where
  "watcher_try_recv w =
     (case w_queue w of
        [] \<Rightarrow> (None, w)
      | ev # q \<Rightarrow> (Some ev, w\<lparr>w_queue := q, w_received := w_received w @ [ev]\<rparr>))"

definition watcher_recv :: "watcher \<Rightarrow> (lease_event option \<times> watcher) option" where
  "watcher_recv w = (if w_queue w = [] \<and> w_pc w \<noteq> WDone then None else Some (watcher_try_recv w))"

definition watcher_shutdown :: "watcher \<Rightarrow> watcher" where
  "watcher_shutdown w = w\<lparr>w_cancelled := True, w_handle := ShuttingDown\<rparr>"

definition watcher_is_running :: "watcher \<Rightarrow> bool" where
  "watcher_is_running w \<longleftrightarrow> w_handle w = Live \<and> w_pc w \<noteq> WDone"

definition watcher_drop :: "watcher \<Rightarrow> watcher" where
  "watcher_drop w = w\<lparr>w_cancelled := True, w_handle := Dropped, w_queue := []\<rparr>"

lemma watcher_steps:
  assumes "w_handle w = Live"
  shows "watcher_recv w = Some (Some ev, w') \<Longrightarrow> watch_step k w w'"
    and "watch_step k w (watcher_shutdown w)" and "watch_step k w (watcher_drop w)"
  using assms
  by (auto simp: watcher_recv_def watcher_try_recv_def watcher_shutdown_def watcher_drop_def
      intro: watch_step.recv watch_step.shutdown watch_step.dropped split: if_splits list.splits)

definition watch_reach :: "watch_kind \<Rightarrow> watcher \<Rightarrow> watcher \<Rightarrow> bool" where
  "watch_reach k = (watch_step k)\<^sup>*\<^sup>*"

lemma watch_reach_refl [simp]: "watch_reach k w w"
  by (simp add: watch_reach_def)

lemma watch_reach_step: "watch_reach k w w' \<Longrightarrow> watch_step k w' w'' \<Longrightarrow> watch_reach k w w''"
  unfolding watch_reach_def by (rule rtranclp.rtrancl_into_rtrancl)

lemma watch_reach_trans: "watch_reach k w w' \<Longrightarrow> watch_reach k w' w'' \<Longrightarrow> watch_reach k w w''"
  unfolding watch_reach_def by (rule rtranclp_trans)

subsection \<open>Specification: the language of events\<close>

datatype phase = Running string | Failed string | Over

fun next_phase :: "watch_kind \<Rightarrow> phase \<Rightarrow> lease_event \<Rightarrow> phase option" where
  "next_phase k (Running l) (Renewed l' ttl) = (if l' = l then Some (Running l) else None)"
| "next_phase k (Running l) (ErrorEv l' e) = (if l' = l then Some (Failed l) else None)"
| "next_phase k (Failed l) (Expired l') = (if l' = l then Some Over else None)"
| "next_phase k (Failed l) (Rotated l') = (if k = Rotate then Some (Running l') else None)"
| "next_phase k _ _ = None"

fun flow :: "watch_kind \<Rightarrow> phase \<Rightarrow> lease_event list \<Rightarrow> phase option" where
  "flow k ph [] = Some ph"
| "flow k ph (e # es) = Option.bind (next_phase k ph e) (\<lambda>ph'. flow k ph' es)"

lemma flow_append: "flow k ph (es @ fs) = Option.bind (flow k ph es) (\<lambda>ph'. flow k ph' fs)"
  by (induction k ph es rule: flow.induct) (auto split: bind_splits)

lemma flow_prefix: "flow k ph (es @ fs) = Some ph' \<Longrightarrow> \<exists>ph''. flow k ph es = Some ph''"
  by (auto simp: flow_append split: bind_splits)

text \<open>What the task may do next in each phase, for the lease it watches.\<close>

fun pc_fits :: "watch_kind \<Rightarrow> string \<Rightarrow> phase \<Rightarrow> watch_pc \<Rightarrow> bool" where
  "pc_fits k l (Running m) WSleep = (l = m)"
| "pc_fits k l (Running m) WRenew = (l = m)"
| "pc_fits k l (Running m) (WAdopt l' t) = (l' = m \<and> k = Rotate)"
| "pc_fits k l (Failed m) (WRotate n) = (l = m \<and> k = Rotate \<and> n < rotation_attempts)"
| "pc_fits k l (Failed m) (WBackoff n) = (l = m \<and> k = Rotate \<and> 0 < n \<and> n < rotation_attempts)"
| "pc_fits k l ph (WSend ev pc) =
     (case next_phase k ph ev of Some ph' \<Rightarrow> pc_fits k l ph' pc | None \<Rightarrow> False)"
| "pc_fits k l ph WDone = True"
| "pc_fits k l _ _ = False"

definition watch_inv :: "watch_kind \<Rightarrow> string \<Rightarrow> watcher \<Rightarrow> bool" where
  "watch_inv k l0 w \<longleftrightarrow>
     length (w_queue w) \<le> channel_capacity
     \<and> (w_cancelled w \<longleftrightarrow> w_handle w \<noteq> Live)
     \<and> (if w_handle w = Dropped
        then (\<exists>ph. flow k (Running l0) (w_received w) = Some ph) \<and> (\<exists>ph. pc_fits k (w_lease w) ph (w_pc w))
        else \<exists>ph. flow k (Running l0) (w_received w @ w_queue w) = Some ph \<and> pc_fits k (w_lease w) ph (w_pc w))"

lemma pc_fits_after:
  "pc_fits k l (Running l) (after_renewed k l ttl)"
  "pc_fits k l (Running l) (after_error k l e)"
  "k = Rotate \<Longrightarrow> n < rotation_attempts \<Longrightarrow> pc_fits k l (Failed l) (after_rotation_error l n)"
  by (cases k; simp add: rotation_attempts_def after_rotation_error_def)+

text \<open>A step that stays between two sends keeps the phase.\<close>

lemma pc_fits_internal:
  assumes "pc_fits k (w_lease w) ph (w_pc w)" and "watch_step k w w'" and "w_queue w' = w_queue w"
    and "w_received w' = w_received w" and "\<nexists>ev pc. w_pc w = WSend ev pc"
  shows "pc_fits k (w_lease w') ph (w_pc w')"
  using assms(2,1,3,4,5)
proof cases
  case (renewed d)
  then show ?thesis using assms(1) by (cases ph) (auto simp: pc_fits_after)
next
  case (renew_failed e)
  then show ?thesis using assms(1) by (cases ph) (auto simp: pc_fits_after)
next
  case (rotate_failed n)
  then show ?thesis using assms(1) by (cases ph) (auto simp: pc_fits_after)
next
  case slept
  then show ?thesis using assms(1) by (cases ph) auto
next
  case (rotated n l ttl)
  then show ?thesis using assms(1) by (cases ph) auto
next
  case (adopted l ttl)
  then show ?thesis using assms(1) by (cases ph) auto
next
  case (backed_off n)
  then show ?thesis using assms(1) by (cases ph) auto
qed (auto split: phase.splits)

text \<open>Every step either is such an internal one, or sends, or belongs to the caller.\<close>

lemma watch_step_shape:
  assumes "watch_step k w w'"
  obtains (internal) "w_queue w' = w_queue w" and "w_received w' = w_received w"
      and "w_cancelled w' = w_cancelled w" and "w_handle w' = w_handle w" and "\<nexists>ev pc. w_pc w = WSend ev pc"
    | (sent) ev pc where "w_pc w = WSend ev pc" and "w_handle w \<noteq> Dropped"
      and "length (w_queue w) < channel_capacity" and "w' = w\<lparr>w_queue := w_queue w @ [ev], w_pc := pc\<rparr>"
    | (send_closed) ev pc where "w_pc w = WSend ev pc" and "w_handle w = Dropped" and "w' = w\<lparr>w_pc := pc\<rparr>"
    | (recv) ev q where "w_handle w = Live" and "w_queue w = ev # q"
      and "w' = w\<lparr>w_queue := q, w_received := w_received w @ [ev]\<rparr>"
    | (closing) "w_handle w = Live" and "w_handle w' \<noteq> Live" and "w_cancelled w'"
      and "w_queue w' = (if w_handle w' = Dropped then [] else w_queue w)"
      and "w_received w' = w_received w" and "w_pc w' = w_pc w" and "w_lease w' = w_lease w"
  using assms
proof cases
  case shutdown
  then show ?thesis by (intro closing) simp_all
next
  case dropped
  then show ?thesis by (intro closing) simp_all
qed (auto intro: that(1-4))

lemma watch_inv_step:
  assumes inv: "watch_inv k l0 w" and st: "watch_step k w w'"
  shows "watch_inv k l0 w'"
  using st
proof (cases rule: watch_step_shape)
  case internal
  then have fits: "\<exists>ph. P ph \<and> pc_fits k (w_lease w') ph (w_pc w')"
    if "\<exists>ph. P ph \<and> pc_fits k (w_lease w) ph (w_pc w)" for P
    using that pc_fits_internal [OF _ st] by blast
  show ?thesis
    using inv internal fits [of "\<lambda>_. True"]
      fits [of "\<lambda>ph. flow k (Running l0) (w_received w @ w_queue w) = Some ph"]
    by (auto simp: watch_inv_def split: if_splits)
next
  case (sent ev pc)
  then obtain ph where ph: "flow k (Running l0) (w_received w @ w_queue w) = Some ph"
    "pc_fits k (w_lease w) ph (WSend ev pc)"
    using inv by (auto simp: watch_inv_def)
  then obtain ph' where "next_phase k ph ev = Some ph'" "pc_fits k (w_lease w) ph' pc"
    by (auto split: option.splits)
  then have "flow k (Running l0) ((w_received w @ w_queue w) @ [ev]) = Some ph'"
    using ph(1) by (simp only: flow_append) simp
  then show ?thesis
    using inv sent \<open>pc_fits k (w_lease w) ph' pc\<close> by (auto simp: watch_inv_def)
next
  case (send_closed ev pc)
  then show ?thesis using inv by (auto simp: watch_inv_def split: option.splits)
next
  case (recv ev q)
  then show ?thesis using inv by (auto simp: watch_inv_def)
next
  case closing
  then obtain ph where ph: "flow k (Running l0) (w_received w @ w_queue w) = Some ph"
    "pc_fits k (w_lease w) ph (w_pc w)" "length (w_queue w) \<le> channel_capacity"
    using inv by (auto simp: watch_inv_def)
  then show ?thesis using closing flow_prefix [OF ph(1)] by (auto simp: watch_inv_def)
qed

lemma watch_inv_start: "watch_inv k l (watch_start l ttl)"
  by (simp add: watch_inv_def watch_start_def)

lemma watch_inv_reach: "watch_reach k w w' \<Longrightarrow> watch_inv k l0 w \<Longrightarrow> watch_inv k l0 w'"
  unfolding watch_reach_def by (induction rule: rtranclp_induct) (auto intro: watch_inv_step)

subsection \<open>Stopping\<close>

text \<open>A cancelled task whose sends are not blocked can finish.\<close>

fun sends_ahead :: "watch_pc \<Rightarrow> nat" where
  "sends_ahead (WSend ev pc) = Suc (sends_ahead pc)"
| "sends_ahead _ = 0"

lemma cancel_now:
  assumes "w_cancelled w" and "w_pc w \<in> {WSleep, WRenew} \<union> range WBackoff \<union> range WRotate"
  shows "\<exists>w'. watch_reach k w w' \<and> w_pc w' = WDone"
  by (intro exI [of _ "w\<lparr>w_pc := WDone\<rparr>"] conjI
      watch_reach_step [OF watch_reach_refl watch_step.cancelled [OF assms]]) simp

lemma cancel_after_adopt:
  assumes pc: "w_pc w = WAdopt l t" and "w_cancelled w"
  shows "\<exists>w'. watch_reach k w w' \<and> w_pc w' = WDone"
proof -
  let ?w = "w\<lparr>w_lease := l, w_ttl := t, w_pc := WSleep\<rparr>"
  have "watch_step k w ?w" by (rule watch_step.adopted [OF pc])
  moreover have "watch_step k ?w (?w\<lparr>w_pc := WDone\<rparr>)"
    by (rule watch_step.cancelled) (use assms(2) in simp_all)
  ultimately have "watch_reach k w (?w\<lparr>w_pc := WDone\<rparr>)"
    by (blast intro: watch_reach_step watch_reach_refl)
  then show ?thesis by (intro exI conjI, assumption) simp
qed

lemma cancelled_can_finish:
  "w_cancelled w \<Longrightarrow> w_handle w \<noteq> Live \<Longrightarrow>
   w_handle w = Dropped \<or> length (w_queue w) + sends_ahead (w_pc w) \<le> channel_capacity \<Longrightarrow>
   \<exists>w'. watch_reach k w w' \<and> w_pc w' = WDone"
proof (induction "w_pc w" arbitrary: w rule: sends_ahead.induct)
  case (1 ev pc)
  let ?w = "if w_handle w = Dropped then w\<lparr>w_pc := pc\<rparr> else w\<lparr>w_queue := w_queue w @ [ev], w_pc := pc\<rparr>"
  have st: "watch_step k w ?w"
  proof (cases "w_handle w = Dropped")
    case True
    with 1(2) show ?thesis by (simp add: watch_step.send_closed [OF 1(2) [symmetric] True])
  next
    case False
    have "length (w_queue w) < channel_capacity" using 1(2,5) False by (auto simp flip: 1(2))
    with False show ?thesis by (simp add: watch_step.sent [OF 1(2) [symmetric]])
  qed
  have "\<exists>w'. watch_reach k ?w w' \<and> w_pc w' = WDone"
    by (rule 1(1)) (use 1(3-5) in \<open>auto simp flip: 1(2)\<close>)
  then show ?case
    using watch_reach_trans [OF watch_reach_step [OF watch_reach_refl st]] by blast
next
  case "2_6"
  then show ?case by (intro exI [of _ w]) simp
qed (erule cancel_after_adopt [OF sym], assumption | rule cancel_now, assumption, metis UnI1 UnI2 insertCI rangeI)+

subsection \<open>Getting stuck\<close>

text \<open>\<open>n\<close> renewals whose events nobody receives, then one more renewal and a shutdown.\<close>

lemma unread_events:
  "n \<le> channel_capacity \<Longrightarrow>
   \<exists>w. watch_reach Events (watch_start l ttl) w \<and> w_pc w = WSleep \<and> length (w_queue w) = n
     \<and> w_handle w = Live \<and> w_lease w = l"
proof (induction n)
  case 0
  then show ?case by (intro exI [of _ "watch_start l ttl"]) (simp add: watch_start_def)
next
  case (Suc n)
  then obtain w where w: "watch_reach Events (watch_start l ttl) w" "w_pc w = WSleep" "length (w_queue w) = n"
    "w_handle w = Live" "w_lease w = l" by auto
  let ?w1 = "w\<lparr>w_pc := WRenew\<rparr>"
  let ?w2 = "?w1\<lparr>w_ttl := secs 60, w_pc := after_renewed Events (w_lease ?w1) (secs 60)\<rparr>"
  let ?w3 = "?w2\<lparr>w_queue := w_queue ?w2 @ [Renewed l (secs 60)], w_pc := WSleep\<rparr>"
  have "watch_step Events w ?w1" using w(2) by (rule watch_step.slept)
  moreover have "watch_step Events ?w1 ?w2" by (rule watch_step.renewed) simp
  moreover have "watch_step Events ?w2 ?w3"
    by (rule watch_step.sent) (use w Suc.prems in simp_all)
  ultimately have "watch_reach Events (watch_start l ttl) ?w3"
    using w(1) watch_reach_step by blast
  then show ?case by (intro exI [of _ ?w3] conjI) (use w in simp_all)
qed

lemma blocked_send_stuck:
  assumes "w_pc w = WSend ev pc" and "w_handle w = ShuttingDown" and "length (w_queue w) = channel_capacity"
  shows "\<not> watch_step k w w'"
proof
  assume "watch_step k w w'"
  then show False using assms by cases auto
qed

section \<open>Properties\<close>

text \<open>
  C14: The interval before a lease renewal, for leases up to \<open>2^32\<close> seconds: it is computed without
  panic, is at least a second, and ends before the lease does whenever the lease is 15 seconds or
  longer.
\<close>

theorem lease_sleep_before_expiry:
  assumes "ttl \<le> secs (2 ^ 32)"
  shows "\<exists>d. lease_sleep ttl r = Ok d \<and> secs 1 \<le> d \<and> (secs 15 \<le> ttl \<longrightarrow> d < ttl)"
  by (rule lease_sleep_bounds [OF assms, of r]) auto

theorem lease_sleep_before_expiry_witness:
  "\<exists>d. lease_sleep (secs 3600) 4999 = Ok d \<and> d < secs 3600"
  using lease_sleep_before_expiry [of "secs 3600" 4999] by (auto simp: secs_def)

text \<open>
  C37: Below that bound it may not: for a lease of at most fourteen seconds there is a jitter
  with which the watcher sleeps at least until the lease has expired, so the renewal that it then
  sends comes too late.
\<close>

theorem lease_sleep_past_expiry:
  assumes "ttl \<le> secs 14"
  shows "\<exists>r d. r < 5000 \<and> lease_sleep ttl r = Ok d \<and> ttl \<le> d"
proof -
  have "ttl \<le> secs (2 ^ 32)" using assms by (simp add: secs_def)
  then obtain d where d: "lease_sleep ttl 4999 = Ok d"
    "66 * ttl + 100 * millis (4999 mod 5000) \<le> 100 * d + 100 * millis 3"
    by (rule lease_sleep_bounds [of ttl 4999]) auto
  then have "ttl \<le> d" using assms by (simp add: millis_def secs_def)
  with d(1) show ?thesis by (intro exI [of _ 4999] exI [of _ d]) auto
qed

theorem lease_sleep_past_expiry_witness:
  "\<exists>r d. r < 5000 \<and> lease_sleep (secs 10) r = Ok d \<and> secs 10 \<le> d"
  by (rule lease_sleep_past_expiry) (simp add: secs_def)

text \<open>
  C9: What the caller of a lease watcher sees, in every interleaving of the task with the caller:
  the events received so far form a run of renewals of the current lease, in which every error is
  followed by nothing, by a rotation to the next lease (rotating watchers only) or by the one
  final expiry, after which nothing comes; the channel never holds more than its capacity; and a
  rotating watcher makes at most three attempts per failed renewal.
\<close>

theorem lease_watcher_events:
  assumes "watch_reach k (watch_start l ttl) w"
  shows "(\<exists>ph. flow k (Running l) (w_received w) = Some ph) \<and> length (w_queue w) \<le> 16
    \<and> (\<forall>n. w_pc w = WRotate n \<longrightarrow> n < 3) \<and> (\<forall>n. w_pc w = WBackoff n \<longrightarrow> n \<in> {1, 2})"
proof -
  have inv: "watch_inv k l w" by (rule watch_inv_reach [OF assms watch_inv_start])
  then have "\<exists>ph. flow k (Running l) (w_received w) = Some ph"
    using flow_prefix by (fastforce simp: watch_inv_def split: if_splits)
  moreover obtain ph where ph: "pc_fits k (w_lease w) ph (w_pc w)"
    using inv by (auto simp: watch_inv_def split: if_splits)
  have "w_pc w = WRotate n \<Longrightarrow> n < 3" for n
    using ph by (cases ph) (auto simp: rotation_attempts_def)
  moreover have "w_pc w = WBackoff n \<Longrightarrow> n \<in> {1, 2}" for n
    using ph by (cases ph) (auto simp: rotation_attempts_def)
  ultimately show ?thesis using inv by (auto simp: watch_inv_def channel_capacity_def)
qed

theorem lease_watcher_events_witness:
  "\<exists>w ph. watch_reach Rotate (watch_start ''l'' 0) w \<and> w_pc w = WRenew
     \<and> flow Rotate (Running ''l'') (w_received w) = Some ph"
proof -
  have r: "watch_reach Rotate (watch_start ''l'' 0) (watch_start ''l'' 0\<lparr>w_pc := WRenew\<rparr>)"
    by (rule watch_reach_step [OF watch_reach_refl watch_step.slept]) (simp add: watch_start_def)
  then show ?thesis using lease_watcher_events [OF r] by (auto intro!: exI [of _ "watch_start ''l'' 0\<lparr>w_pc := WRenew\<rparr>"])
qed

text \<open>
  C25: Stopping a watcher: once its handle is dropped, or is shutting down with room in the channel
  for what it still has to send, the cancelled task can run to its end.
\<close>

theorem cancelled_watcher_finishes:
  assumes "watch_reach k (watch_start l ttl) w"
    and "w_handle w = Dropped \<or> (w_handle w = ShuttingDown \<and> length (w_queue w) + sends_ahead (w_pc w) \<le> 16)"
  shows "\<exists>w'. watch_reach k w w' \<and> w_pc w' = WDone"
proof (rule cancelled_can_finish)
  have "watch_inv k l w" by (rule watch_inv_reach [OF assms(1) watch_inv_start])
  then show "w_cancelled w" using assms(2) by (auto simp: watch_inv_def)
qed (use assms(2) in \<open>auto simp: channel_capacity_def\<close>)

theorem cancelled_watcher_finishes_witness:
  "\<exists>w'. watch_reach Events (watch_start ''l'' 0\<lparr>w_cancelled := True, w_handle := Dropped, w_queue := []\<rparr>) w'
     \<and> w_pc w' = WDone"
proof (rule cancelled_watcher_finishes [of _ "''l''" 0])
  show "watch_reach Events (watch_start ''l'' 0)
      (watch_start ''l'' 0\<lparr>w_cancelled := True, w_handle := Dropped, w_queue := []\<rparr>)"
    by (rule watch_reach_step [OF watch_reach_refl watch_step.dropped]) (simp add: watch_start_def)
qed simp

text \<open>
  C26: Shutting a watcher down can hang: if the channel is full of events that were never received
  and the task waits to send one more when \<open>shutdown\<close> is called, no step is possible any more -
  the send is not raced against the cancellation and the receiver is held by \<open>shutdown\<close>, which
  waits for the task. Such a state is reachable for every lease.
\<close>

theorem shutdown_deadlock:
  "\<exists>w. watch_reach Events (watch_start l ttl) w \<and> w_handle w = ShuttingDown \<and> w_cancelled w
     \<and> w_pc w \<noteq> WDone \<and> (\<nexists>w'. watch_step Events w w')"
proof -
  obtain w where w: "watch_reach Events (watch_start l ttl) w" "w_pc w = WSleep" "length (w_queue w) = channel_capacity"
    "w_handle w = Live" "w_lease w = l"
    using unread_events [of channel_capacity l ttl] by auto
  let ?w1 = "w\<lparr>w_pc := WRenew\<rparr>"
  let ?w2 = "?w1\<lparr>w_ttl := secs 60, w_pc := after_renewed Events (w_lease ?w1) (secs 60)\<rparr>"
  let ?w3 = "?w2\<lparr>w_cancelled := True, w_handle := ShuttingDown\<rparr>"
  have "watch_step Events w ?w1" using w(2) by (rule watch_step.slept)
  moreover have "watch_step Events ?w1 ?w2" by (rule watch_step.renewed) simp
  moreover have "watch_step Events ?w2 ?w3" by (rule watch_step.shutdown) (simp add: w)
  ultimately have r: "watch_reach Events (watch_start l ttl) ?w3"
    using w(1) watch_reach_step by blast
  have "\<not> watch_step Events ?w3 w'" for w'
    by (rule blocked_send_stuck) (simp_all add: w)
  then show ?thesis using r by (intro exI [of _ ?w3]) simp
qed

text \<open>
  The interval of the token daemon: for a renewable token with a lease of 15 seconds or longer (up
  to \<open>2^32\<close> seconds) it ends before the lease; for no token, a token that is not renewable, or one
  without a lease it is a minute.
\<close>

lemma daemon_interval:
  assumes "tok = Some ts" and "ts_renewable ts" and "secs 15 \<le> ts_lease_duration ts"
    and "ts_lease_duration ts \<le> secs (2 ^ 32)"
  shows "(\<exists>d. renewal_sleep tok r = Ok d \<and> d < ts_lease_duration ts)
    \<and> renewal_sleep (Some (ts\<lparr>ts_renewable := False\<rparr>)) r = Ok (secs 60)
    \<and> renewal_sleep (Some (ts\<lparr>ts_lease_duration := 0\<rparr>)) r = Ok (secs 60)
    \<and> renewal_sleep None r = Ok (secs 60)"
proof -
  obtain n where n: "mul_f64 (ts_lease_duration ts) f64_0_66 = Ok n"
    "100 * n \<le> 66 * ts_lease_duration ts + 100 * millis 3" "n \<le> ts_lease_duration ts"
    by (rule base_exact [OF assms(4)])
  have r: "r mod 5000 \<le> 4999" using mod_less_divisor [of 5000 r] by linarith
  then have "n + millis (r mod 5000) \<le> secs (2 ^ 33)"
    using n(3) assms(4) by (simp add: millis_def secs_def)
  moreover have "n + millis (r mod 5000) < ts_lease_duration ts"
    using n(2) r assms(3) by (simp add: millis_def secs_def)
  moreover have "0 < ts_lease_duration ts" using assms(3) by (simp add: secs_def)
  ultimately show ?thesis
    using assms(1,2) n(1) by (simp add: renewal_sleep_def duration_add_small)
qed

text \<open>
  C38: When it wakes, the daemon does not ask whether the token is due, renewable or there at all:
  whatever token is stored, it calls \<open>renew-self\<close>, and when that call fails, a client with an auth
  method logs in and replaces the token it has, however fresh. A token that is not renewable gets
  this every minute.
\<close>

theorem daemon_replaces_any_token:
  assumes "execute_raw c POST ''auth/token/renew-self'' None s = (Err e, s1)"
    and "auth_method c = Some login"
    and "login (namespace_override c) (wrap_ttl_override c) s1 = (Ok a, s2)" and "\<not> token_poisoned s2"
  shows "\<exists>s3. daemon_body c s = (Ok (), s3)
    \<and> map_option ts_value (token s3) = Some (client_token a)
    \<and> trace s3 = trace s2 @ (if has_callback c then [ETokenChanged a] else [])
    \<and> ((\<forall>ts. token s = Some ts \<longrightarrow> \<not> ts_renewable ts) \<longrightarrow> renewal_sleep (token s) r = Ok (secs 60))"
proof -
  have "renew_token_now c s = (Err e, s1)"
    using assms(1) by (simp add: renew_token_now_def renew_token_via_api_def bind_io_cases)
  moreover obtain s3 where "try_re_authenticate c s1 = (Ok (), s3)" "stored c a s2 s3"
    by (rule reauth_ok [OF assms(2-4)])
  ultimately show ?thesis
    by (auto simp: daemon_body_def stored_def token_of_auth_def renewal_sleep_def split: option.split)
qed

definition login_client :: "script client" where
  "login_client = (script_client [])
     \<lparr>auth_method := Some (\<lambda>_ _ s. (Ok (auth_example ''fresh''), s))\<rparr>"

theorem daemon_replaces_any_token_witness:
  "\<exists>s3. daemon_body login_client (script_state [answer 400 []] (Some leased_token)) = (Ok (), s3)
     \<and> map_option ts_value (token s3) = Some (Secret ''fresh'')"
proof -
  let ?s = "script_state [answer 400 []] (Some leased_token)"
  have "\<exists>e s1. execute_raw login_client POST ''auth/token/renew-self'' None ?s = (Err e, s1) \<and> \<not> token_poisoned s1"
    by (simp add: run_raw login_client_def send_def)
  then obtain e s1 where r: "execute_raw login_client POST ''auth/token/renew-self'' None ?s = (Err e, s1)"
    "\<not> token_poisoned s1" by blast
  show ?thesis
    using daemon_replaces_any_token [OF r(1) _ _ r(2), of "\<lambda>_ _ s. (Ok (auth_example ''fresh''), s)"
        "auth_example ''fresh''" 0]
    by (auto simp: login_client_def auth_example_def)
qed

end
