(* ===== verification/Outage.thy ===== *)
theory Outage
  imports Token_Lifecycle
begin

text \<open>
  How much traffic the client can cause while Vault does not answer usefully. \<open>metered M\<close> is a
  preorder on states: as long as every answer is a failure, each request has to be paid from the
  breaker's \<open>credit\<close>, at \<open>M\<close> requests (one call with all its retries) for a reset timeout. Raw calls
  obey it, so everything built from them does: the lifecycle, the operations, the token daemon.
\<close>

section \<open>Failing answers\<close>

text \<open>What ends a call with an error when nothing is retried: no answer, or no 2xx and no 404.\<close>

definition fails :: "send_result \<Rightarrow> bool" where
  "fails res =
     (case res of Inl _ \<Rightarrow> True | Inr resp \<Rightarrow> \<not> (200 \<le> rs_status resp \<and> rs_status resp \<le> 299) \<and> rs_status resp \<noteq> 404)"

lemma fails_outcome: "fails a \<longleftrightarrow> \<not> is_ok (answer_outcome c url a)"
  by (auto simp: fails_def answer_outcome_def Let_def split: sum.split)

section \<open>The meter\<close>

text \<open>\<open>k\<close> counts the requests that did not ask the breaker.\<close>

definition metered_breaker ::
  "nat \<Rightarrow> nat \<Rightarrow> nat \<Rightarrow> circuit_breaker option \<Rightarrow> event list \<Rightarrow> nat \<Rightarrow> circuit_breaker option \<Rightarrow> bool" where
  "metered_breaker M k t b0 es t' b1 \<longleftrightarrow>
     (case (b0, b1) of
        (None, None) \<Rightarrow> True
      | (Some b, Some b') \<Rightarrow>
          cb_config b' = cb_config b
          \<and> (cb_inv b \<and> dated b t \<longrightarrow> cb_inv b' \<and> dated b' t'
              \<and> (list_all fails (answers es) \<longrightarrow>
                  int (reset_timeout (cb_config b) * length (requests es)) + int M * credit b' t'
                    \<le> int M * credit b t + int (reset_timeout (cb_config b) * k)))
      | _ \<Rightarrow> False)"

definition metered_plus :: "nat \<Rightarrow> nat \<Rightarrow> 'w cstate \<Rightarrow> 'w cstate \<Rightarrow> bool" where
  "metered_plus M k s s' \<longleftrightarrow>
     now s \<le> now s'
     \<and> (\<exists>es. trace s' = trace s @ es \<and> metered_breaker M k (now s) (breaker s) es (now s') (breaker s'))"

abbreviation metered :: "nat \<Rightarrow> 'w cstate \<Rightarrow> 'w cstate \<Rightarrow> bool" where
  "metered M \<equiv> metered_plus M 0"

lemmas metered_def = metered_plus_def [where k = 0]

lemma metered_breaker_trans:
  assumes "metered_breaker M k t b0 es t' b1" and "metered_breaker M l t' b1 fs t'' b2"
  shows "metered_breaker M (k + l) t b0 (es @ fs) t'' b2"
proof (cases b0)
  case None
  with assms show ?thesis by (auto simp: metered_breaker_def split: option.splits)
next
  case (Some b)
  then obtain b' b'' where "b1 = Some b'" "b2 = Some b''"
    using assms by (auto simp: metered_breaker_def split: option.splits)
  then show ?thesis
    using assms Some by (auto simp: metered_breaker_def algebra_simps)
qed

lemma metered_breaker_quiet:
  assumes "t \<le> t'" and "requests es = []"
  shows "metered_breaker M 0 t b es t' b"
  using assms credit_time [of t t'] dated_mono [of _ t t']
  by (auto simp: metered_breaker_def intro!: mult_left_mono split: option.split)

lemma metered_plus_trans:
  "metered_plus M k s s' \<Longrightarrow> metered_plus M l s' s'' \<Longrightarrow> metered_plus M (k + l) s s''"
  unfolding metered_plus_def using metered_breaker_trans by fastforce

interpretation met: state_preorder "metered M"
proof unfold_locales
  fix s s' s'' :: "'a cstate"
  show "metered M s s"
    by (auto simp: metered_def intro!: exI [of _ "[]"] metered_breaker_quiet)
  assume "metered M s s'" and "metered M s' s''"
  then show "metered M s s''" using metered_plus_trans [of M 0 s s' 0 s''] by simp
qed

text \<open>An action that neither sends nor touches the breaker.\<close>

lemma metered_quiet:
  assumes "now s \<le> now s'" and "breaker s' = breaker s" and "trace s' = trace s @ es" and "requests es = []"
  shows "metered M s s'"
  using assms by (auto simp: metered_def intro!: exI [of _ es] metered_breaker_quiet)

text \<open>A request sent past the breaker.\<close>

lemma metered_free:
  assumes "now s \<le> now s'" and "breaker s' = breaker s" and "trace s' = trace s @ es" and "length (requests es) \<le> k"
  shows "metered_plus M k s s'"
proof -
  have "int (r * length (requests es)) \<le> int (r * k)" for r using assms(4) by (simp add: mult_left_mono)
  moreover have "int M * credit b (now s') \<le> int M * credit b (now s)" for b
    using credit_time [OF assms(1)] by (intro mult_left_mono) auto
  ultimately have "int (r * length (requests es)) + int M * credit b (now s')
      \<le> int M * credit b (now s) + int (r * k)" for r b
    by (metis add.commute add_mono)
  then show ?thesis
    using assms dated_mono [of _ "now s" "now s'"]
    by (auto simp: metered_plus_def metered_breaker_def intro!: exI [of _ es] split: option.split)
qed

lemma metered_clock: "clock c s = (t, s') \<Longrightarrow> metered M s s'"
  using clock_facts [of c s t s'] by (intro metered_quiet [of _ _ "[]"]) auto

lemma metered_sleep: "metered M s (sleep c d s)"
  by (rule metered_quiet [of _ _ "[ESleep d]"]) (auto simp: sleep_def split: prod.split)

lemma metered_draw: "draw_below c n s = (r, s') \<Longrightarrow> metered M s s'"
  by (rule metered_quiet [of _ _ "[]"]) (auto simp: draw_below_def split: prod.splits)

lemma metered_update_token: "keeps (metered M) (update_token_from_auth c a)"
  unfolding keeps_def
proof
  fix s
  have "\<exists>es. trace (snd (update_token_from_auth c a s)) = trace s @ es \<and> requests es = []"
    by (auto simp: update_token_from_auth_def clock_def Let_def split: prod.splits)
  moreover have "now s \<le> now (snd (update_token_from_auth c a s))"
    "breaker (snd (update_token_from_auth c a s)) = breaker s"
    by (auto simp: update_token_from_auth_def clock_def Let_def split: prod.splits)
  ultimately show "metered M s (snd (update_token_from_auth c a s))"
    by (auto intro: metered_quiet)
qed

section \<open>Raw calls\<close>

lemma metered_idle:
  assumes "breaker_idle t b0 t' b1"
  shows "metered_breaker M 0 t b0 [] t' b1"
proof (cases b0)
  case None
  with assms show ?thesis by (simp add: breaker_idle_def metered_breaker_def)
next
  case (Some b)
  then obtain u v where uv: "t \<le> u" "u \<le> v" "v \<le> t'"
    "b1 = Some (snd (check u b)) \<or> b1 = Some (record_failure v (snd (check u b)))"
    using assms by (auto simp: breaker_idle_def)
  let ?b = "snd (check u b)"
  have "credit b' t' \<le> credit b t \<and> dated b' t' \<and> cb_inv b'"
    if inv: "cb_inv b" "dated b t" and b': "b' = ?b \<or> b' = record_failure v ?b" for b'
  proof -
    have d: "dated b u" "dated ?b u" "dated ?b v" and i: "cb_inv ?b"
      using inv uv(1,2) cb_inv_check dated_check dated_mono by blast+
    have "credit ?b v \<le> credit b t"
      using credit_time [OF uv(2), of ?b] credit_check [OF d(1)] credit_time [OF uv(1), of b] by linarith
    moreover have "credit (record_failure v ?b) v \<le> credit ?b v" by (rule credit_failure [OF i d(3)])
    ultimately show ?thesis
      using b' i d(3) dated_mono [OF _ uv(3)] dated_failure [OF d(3)] cb_inv_failure [OF i]
        credit_time [OF uv(3), of b'] by fastforce
  qed
  then show ?thesis
    using uv(4) Some by (auto simp: metered_breaker_def intro!: mult_left_mono)
qed

lemma metered_sent:
  assumes bm: "breaker_moved t b0 r t' b1" and len: "length (requests es) \<le> M"
    and out: "list_all fails (answers es) \<Longrightarrow> \<not> is_ok r"
  shows "metered_breaker M 0 t b0 es t' b1"
proof (cases b0)
  case None
  with bm show ?thesis by (simp add: breaker_moved_def metered_breaker_def)
next
  case (Some b)
  obtain u v b' where m: "check u b = (Ok (), b')" "t \<le> u" "u \<le> v" "v \<le> t'"
    "b1 = Some (if is_ok r then record_success b' else record_failure v b')"
    using bm Some by (auto simp: breaker_moved_def)
  let ?r = "reset_timeout (cb_config b)"
  have cfg: "cb_config b' = cb_config b" using cb_config_ops(1) [of u b] m(1) by simp
  have "metered_breaker M 0 t (Some b) es t' (Some (record_failure v b'))" if "\<not> is_ok r"
  proof -
    have "cb_inv (record_failure v b') \<and> dated (record_failure v b') t'
      \<and> int (?r * length (requests es)) + int M * credit (record_failure v b') t' \<le> int M * credit b t"
      if inv: "cb_inv b" "dated b t"
    proof -
      have d: "dated b u" by (rule dated_mono [OF inv(2) m(2)])
      have b': "cb_inv b'" "dated b' u"
        using cb_inv_check [OF inv(1), of u] dated_check [OF d] m(1) by simp_all
      have "credit (record_failure v b') t' + int ?r \<le> credit b t"
        using credit_spent [OF inv(1) d m(1,3)] credit_time [OF m(4), of "record_failure v b'"]
          credit_time [OF m(2), of b] by linarith
      then have "int M * (credit (record_failure v b') t' + int ?r) \<le> int M * credit b t"
        by (rule mult_left_mono) simp
      moreover have "int (?r * length (requests es)) \<le> int M * int ?r"
        using len by (simp add: mult.commute mult_right_mono flip: of_nat_mult)
      moreover have "dated (record_failure v b') t'"
        using dated_mono [OF dated_failure [OF dated_mono [OF b'(2) m(3)]] m(4)] .
      ultimately show ?thesis using cb_inv_failure [OF b'(1)] by (simp add: algebra_simps)
    qed
    then show ?thesis by (auto simp: metered_breaker_def cfg)
  qed
  moreover have "metered_breaker M 0 t (Some b) es t' (Some (record_success b'))" if "is_ok r"
  proof -
    have "dated (record_success b') t'" if "cb_inv b'"
      using that by (simp add: dated_def record_success_def cb_inv_def)
    moreover have "cb_inv b \<Longrightarrow> cb_inv b'" using cb_inv_check [of b u] m(1) by simp
    moreover have "\<not> list_all fails (answers es)" using that out by blast
    ultimately show ?thesis
      by (simp add: metered_breaker_def cfg cb_inv_success del: list_all_iff)
  qed
  ultimately show ?thesis using m(5) Some by (cases "is_ok r") simp_all
qed

lemma metered_execute_raw:
  assumes "clone_faithful (cl_env c)"
  shows "keeps (metered (Suc (max_retries (config c)))) (execute_raw c m path body)"
  unfolding keeps_def
proof
  fix s
  show "metered (Suc (max_retries (config c))) s (snd (execute_raw c m path body s))"
  proof (rule execute_raw_cases [OF assms, of m path body s], goal_cases)
    case (1 e s')
    then show ?case
      using metered_idle [OF 1(6)] by (auto simp: metered_def evolves_def intro!: exI [of _ "[]"])
  next
    case (2 url es r s')
    have "length (requests es) \<le> Suc (max_retries (config c))"
      using retry_trace_length [OF 2(5)] by (simp flip: length_answers)
    moreover have "\<not> is_ok r" if "list_all fails (answers es)"
    proof -
      have "fails (last (answers es))"
        using that retry_trace_nonempty [OF 2(5)] by (simp add: list_all_iff)
      then show ?thesis using retry_trace_result [OF 2(5)] fails_outcome by metis
    qed
    ultimately show ?case
      using 2 metered_sent [OF 2(7)] by (auto simp: metered_def evolves_def)
  qed
qed

section \<open>Everything above\<close>

definition login_metered :: "'w client \<Rightarrow> bool" where
  "login_metered c \<longleftrightarrow>
     (\<forall>login ns w. auth_method c = Some login \<longrightarrow> keeps (metered (Suc (max_retries (config c)))) (login ns w))"

lemma metered_renew_token_via_api:
  "clone_faithful (cl_env c) \<Longrightarrow> keeps (metered (Suc (max_retries (config c)))) (renew_token_via_api c)"
  by (intro met.keeps_renew_token_via_api metered_execute_raw metered_update_token)

lemma metered_try_re_authenticate:
  "login_metered c \<Longrightarrow> keeps (metered (Suc (max_retries (config c)))) (try_re_authenticate c)"
  by (rule met.keeps_try_re_authenticate) (auto simp: login_metered_def metered_update_token)

lemma metered_execute:
  "clone_faithful (cl_env c) \<Longrightarrow> login_metered c \<Longrightarrow>
   keeps (metered (Suc (max_retries (config c)))) (execute c m path body)"
  by (rule met.keeps_execute)
    (auto simp: metered_clock metered_update_token metered_execute_raw login_metered_def)

text \<open>What the meter says of the traffic, from any breaker state.\<close>

lemma metered_traffic:
  assumes "metered_plus M k s s'" and "breaker s = Some b" and "cb_inv b" and "dated b (now s)"
    and "trace s' = trace s @ es" and "list_all fails (answers es)"
  shows "reset_timeout (cb_config b) * length (requests es)
     \<le> M * (max 1 (unat (failure_threshold (cb_config b))) * reset_timeout (cb_config b) + (now s' - now s))
       + reset_timeout (cb_config b) * k"
proof -
  let ?B = "max 1 (unat (failure_threshold (cb_config b))) * reset_timeout (cb_config b)"
  have mb: "metered_breaker M k (now s) (Some b) es (now s') (breaker s')" and le: "now s \<le> now s'"
    using assms(1,2,5) by (auto simp: metered_plus_def)
  then obtain b' where b': "breaker s' = Some b'"
    by (auto simp: metered_breaker_def split: option.splits)
  have 1: "int (reset_timeout (cb_config b) * length (requests es)) + int M * credit b' (now s')
      \<le> int M * credit b (now s) + int (reset_timeout (cb_config b) * k)" and d: "dated b' (now s')"
    using mb assms(3,4,6) unfolding b' by (auto simp: metered_breaker_def)
  have "int M * credit b (now s) \<le> int M * (int ?B - int (now s))"
    by (rule mult_left_mono [OF credit_bounds(2) [OF assms(4)]]) simp
  moreover have "int M * (- int (now s')) \<le> int M * credit b' (now s')"
    by (rule mult_left_mono [OF credit_bounds(1) [OF d]]) simp
  ultimately have "int (reset_timeout (cb_config b) * length (requests es))
      \<le> int M * (int ?B + (int (now s') - int (now s))) + int (reset_timeout (cb_config b) * k)"
    using 1 by (simp add: algebra_simps)
  also have "\<dots> = int (M * (?B + (now s' - now s)) + reset_timeout (cb_config b) * k)"
    using le by (simp add: of_nat_diff)
  finally show ?thesis by (simp only: of_nat_le_iff)
qed

end
