(* ===== verification/Token_Daemon.thy ===== *)
theory Token_Daemon
  imports Renewal Outage
begin

text \<open>
  The loop of \<open>start_token_renewal\<close>: \<open>daemon_wait\<close> is the first half of a pass (read the token, sleep),
  \<open>daemon_body\<close> the second, and \<open>daemon_run n\<close> is the task for as long as its first \<open>n\<close> passes take,
  unless it ends before. \<open>daemon_step\<close> adds the cancellation: each await of the task is a program
  counter, and a race against the cancellation token may end either way once it is cancelled. Then
  what the loop is for: with a server that renews, the token never expires; and what it does not
  do: a pass that leaves the token as it was is not repeated before the token has expired.
\<close>

section \<open>The loop\<close>

text \<open>\<open>None\<close>: the task ends, by its \<open>break\<close> on a poisoned lock or by a panic.\<close>

definition daemon_wait :: "'w client \<Rightarrow> 'w cstate \<Rightarrow> 'w cstate option" where
  "daemon_wait c s =
     (if token_poisoned s then None
      else
        (let (r, s') =
           (case token s of
              Some ts \<Rightarrow>
                if ts_renewable ts \<and> 0 < ts_lease_duration ts then draw_below c (2 ^ 64) s else (0, s)
            | None \<Rightarrow> (0, s))
         in case renewal_sleep (token s) r of
              Ok d \<Rightarrow> Some (sleep c d s')
            | Err e \<Rightarrow> None
            | Panic p \<Rightarrow> None))"

definition daemon_pass :: "'w client \<Rightarrow> 'w cstate \<Rightarrow> bool \<times> 'w cstate" where
  "daemon_pass c s =
     (case daemon_wait c s of
        None \<Rightarrow> (False, s)
      | Some s1 \<Rightarrow>
          (case daemon_body c s1 of
             (Ok u, s2) \<Rightarrow> (True, s2)
           | (Err e, s2) \<Rightarrow> (True, s2)
           | (Panic p, s2) \<Rightarrow> (False, s2)))"

fun daemon_run :: "nat \<Rightarrow> 'w client \<Rightarrow> 'w cstate \<Rightarrow> bool \<times> 'w cstate" where
  "daemon_run 0 c s = (True, s)"
| "daemon_run (Suc n) c s =
     (case daemon_pass c s of (running, s') \<Rightarrow> if running then daemon_run n c s' else (False, s'))"

lemma daemon_run_Suc:
  "daemon_run n c s = (True, s') \<Longrightarrow> daemon_run (Suc n) c s = daemon_pass c s'"
proof (induction n arbitrary: s)
  case 0
  then show ?case by (auto split: prod.split)
next
  case (Suc n)
  obtain s1 where s1: "daemon_pass c s = (True, s1)" "daemon_run n c s1 = (True, s')"
    using Suc.prems by (auto split: prod.splits if_splits)
  then have "daemon_run (Suc (Suc n)) c s = daemon_run (Suc n) c s1"
    by (subst daemon_run.simps(2)) simp
  then show ?case using Suc.IH [OF s1(2)] by simp
qed

section \<open>Cancellation\<close>

text \<open>The possible results of \<open>race_cancel\<close>, when the future would end with \<open>r\<close>.\<close>

definition race_cancel :: "bool \<Rightarrow> 'a \<Rightarrow> 'a option set" where
  "race_cancel is_cancelled r = insert (Some r) (if is_cancelled then {None} else {})"

datatype daemon_pc = DTop | DSleep | DRenew | DLogin | DDone

record renewal_daemon =
  rd_pc :: daemon_pc
  rd_cancelled :: bool

text \<open>A panic ends the task; a login that was cancelled or failed goes on to the next pass.\<close>

fun after_renewal :: "unit outcome option \<Rightarrow> daemon_pc" where
  "after_renewal (Some (Ok u)) = DTop"
| "after_renewal (Some (Err e)) = DLogin"
| "after_renewal (Some (Panic p)) = DDone"
| "after_renewal None = DDone"

fun after_login :: "unit outcome option \<Rightarrow> daemon_pc" where
  "after_login (Some (Ok u)) = DTop"
| "after_login (Some (Err e)) = DTop"
| "after_login (Some (Panic p)) = DDone"
| "after_login None = DTop"

inductive daemon_step :: "renewal_daemon \<Rightarrow> renewal_daemon \<Rightarrow> bool" where
  read_token: "rd_pc d = DTop \<Longrightarrow> daemon_step d (d\<lparr>rd_pc := DSleep\<rparr>)"
| lock_poisoned: "rd_pc d = DTop \<Longrightarrow> daemon_step d (d\<lparr>rd_pc := DDone\<rparr>)"
| woke: "rd_pc d = DSleep \<Longrightarrow> daemon_step d (d\<lparr>rd_pc := DRenew\<rparr>)"
| stopped: "rd_pc d = DSleep \<Longrightarrow> rd_cancelled d \<Longrightarrow> daemon_step d (d\<lparr>rd_pc := DDone\<rparr>)"
| renewal: "rd_pc d = DRenew \<Longrightarrow> x \<in> race_cancel (rd_cancelled d) r \<Longrightarrow>
    daemon_step d (d\<lparr>rd_pc := after_renewal x\<rparr>)"
| relogin: "rd_pc d = DLogin \<Longrightarrow> x \<in> race_cancel (rd_cancelled d) r \<Longrightarrow>
    daemon_step d (d\<lparr>rd_pc := after_login x\<rparr>)"
| cancel: "daemon_step d (d\<lparr>rd_cancelled := True\<rparr>)"

text \<open>The handle: \<open>shutdown\<close> and dropping it cancel; the former then waits for the task to be done.\<close>

definition daemon_cancel :: "renewal_daemon \<Rightarrow> renewal_daemon" where
  "daemon_cancel d = d\<lparr>rd_cancelled := True\<rparr>"

definition daemon_is_running :: "renewal_daemon \<Rightarrow> bool" where
  "daemon_is_running d \<longleftrightarrow> rd_pc d \<noteq> DDone"

text \<open>Unlike a lease watcher, a cancelled daemon can always finish, so \<open>shutdown\<close> cannot hang.\<close>

lemma cancelled_daemon_finishes:
  assumes "rd_cancelled d"
  shows "\<exists>d'. daemon_step\<^sup>*\<^sup>* d d' \<and> \<not> daemon_is_running d'"
proof -
  have top: "\<exists>d'. daemon_step\<^sup>*\<^sup>* d d' \<and> \<not> daemon_is_running d'" if "rd_pc d = DTop" for d
    using lock_poisoned [OF that] by (intro exI conjI r_into_rtranclp) (auto simp: daemon_is_running_def)
  show ?thesis
  proof (cases "rd_pc d")
    case DTop
    then show ?thesis by (rule top)
  next
    case DSleep
    then show ?thesis using stopped [OF DSleep assms]
      by (intro exI conjI r_into_rtranclp) (auto simp: daemon_is_running_def)
  next
    case DRenew
    then have "daemon_step d (d\<lparr>rd_pc := after_renewal None\<rparr>)"
      using assms by (intro renewal) (auto simp: race_cancel_def)
    then show ?thesis by (intro exI conjI r_into_rtranclp) (auto simp: daemon_is_running_def)
  next
    case DLogin
    then have st: "daemon_step d (d\<lparr>rd_pc := after_login None\<rparr>)"
      using assms by (intro relogin) (auto simp: race_cancel_def)
    obtain d' where "daemon_step\<^sup>*\<^sup>* (d\<lparr>rd_pc := after_login None\<rparr>) d'" "\<not> daemon_is_running d'"
      using top [of "d\<lparr>rd_pc := after_login None\<rparr>"] by auto
    then show ?thesis using converse_rtranclp_into_rtranclp [of daemon_step, OF st] by blast
  next
    case DDone
    then show ?thesis by (intro exI [of _ d]) (simp add: daemon_is_running_def)
  qed
qed

section \<open>Waiting\<close>

lemma daemon_wait_renewable:
  assumes "\<not> token_poisoned s" and "token s = Some ts" and "ts_renewable ts"
    and "0 < ts_lease_duration ts" and "ts_lease_duration ts \<le> secs (2 ^ 32)"
  obtains d s1 where "daemon_wait c s = Some (sleep c d s1)" and "s1 = s\<lparr>world := world s1\<rparr>"
    and "100 * d \<le> 66 * ts_lease_duration ts + 100 * millis 5002"
    and "66 * ts_lease_duration ts \<le> 100 * d + 100 * millis 3"
    and "s1 = snd (draw_below c (2 ^ 64) s)"
proof -
  obtain r s1 where dr: "draw_below c (2 ^ 64) s = (r, s1)" by fastforce
  obtain n where n: "mul_f64 (ts_lease_duration ts) f64_0_66 = Ok n"
    "100 * n \<le> 66 * ts_lease_duration ts + 100 * millis 3"
    "66 * ts_lease_duration ts \<le> 100 * n + 100 * millis 3" "n \<le> ts_lease_duration ts"
    by (rule base_exact [OF assms(5)])
  have r: "r mod 5000 \<le> 4999" using mod_less_divisor [of 5000 r] by linarith
  then have "n + millis (r mod 5000) \<le> secs (2 ^ 33)"
    using n(4) assms(5) by (simp add: millis_def secs_def)
  then have "renewal_sleep (token s) r = Ok (n + millis (r mod 5000))"
    using assms by (simp add: renewal_sleep_def n(1) duration_add_small)
  then have "daemon_wait c s = Some (sleep c (n + millis (r mod 5000)) s1)"
    using assms dr by (simp add: daemon_wait_def)
  moreover have "s1 = s\<lparr>world := world s1\<rparr>" using draw_below_frame [OF dr] by simp
  ultimately show thesis
    by (rule that) (use n r dr in \<open>simp_all add: millis_def\<close>)
qed

lemma sleep_time:
  assumes "\<forall>w. fst (e_idle (cl_env c) w) \<le> eps"
  shows "now s + d \<le> now (sleep c d s) \<and> now (sleep c d s) \<le> now s + d + eps"
  using assms by (auto simp: sleep_def split: prod.splits) (metis fst_conv)

lemma sleep_at_least: "now s + d \<le> now (sleep c d s)"
  by (auto simp: sleep_def split: prod.split)

lemma wake_in_time:
  fixes d e l m n x :: nat
  assumes "x \<le> n + d + e" and "100 * d \<le> 66 * l + 100 * m" and "100 * (m + 2 * e) < 34 * l"
  shows "x + e < n + l"
proof -
  have "50 * (x + e) \<le> 50 * n + 50 * d + 100 * e" using assms(1) by simp
  moreover have "50 * d \<le> 33 * l + 50 * m" using assms(2) by simp
  moreover have "50 * m + 100 * e < 17 * l" using assms(3) by simp
  ultimately have "50 * (x + e) < 50 * n + 50 * l" by simp
  then show ?thesis by simp
qed

section \<open>A server that renews\<close>

text \<open>
  \<open>grants eps a\<close>: the auth block \<open>a\<close> is a renewable lease that is longer than the 15 seconds or so
  that the jitter of the daemon needs, plus some time \<open>eps\<close> for the delays of the scheduler.
\<close>

definition grants :: "nat \<Rightarrow> auth_info \<Rightarrow> bool" where
  "grants eps a \<longleftrightarrow> auth_renewable a \<and> auth_lease_duration a \<le> 2 ^ 32
     \<and> 100 * (millis 5002 + 2 * eps) < 34 * secs (auth_lease_duration a)"

definition renewing_server :: "'w client \<Rightarrow> nat \<Rightarrow> bool" where
  "renewing_server c eps \<longleftrightarrow>
     (\<forall>w. fst (e_idle (cl_env c) w) \<le> eps) \<and> (\<forall>rq. e_clone (cl_env c) rq = Some rq)
     \<and> (\<exists>url. e_url (cl_env c) (url_string c ''auth/token/renew-self'') = Inr url
         \<and> (\<forall>rq w. rq_method rq = POST \<and> rq_url rq = url \<longrightarrow>
              (\<exists>resp v a. fst (e_send (cl_env c) rq w) = Inr resp \<and> rs_status resp \<in> {200..299}
                 \<and> json_body c (de_vault_response de_value) resp = Ok v \<and> auth v = Some a \<and> grants eps a)))"

definition breaker_shut :: "circuit_breaker option \<Rightarrow> bool" where
  "breaker_shut b \<longleftrightarrow> (case b of None \<Rightarrow> True | Some b \<Rightarrow> cb_inv b \<and> is_closed b)"

text \<open>The state between two passes: the token was stored just now, and the circuit is closed.\<close>

definition renewed_now :: "nat \<Rightarrow> auth_info \<Rightarrow> 'w cstate \<Rightarrow> bool" where
  "renewed_now eps a s \<longleftrightarrow>
     \<not> token_poisoned s \<and> breaker_shut (breaker s) \<and> grants eps a \<and> token s = Some (token_of_auth (now s) a)"

lemma breaker_shut_check:
  assumes "breaker_shut (breaker s)"
  obtains s1 where "breaker_check c s = (Ok (), s1)" and "breaker s1 = breaker s" and "token s1 = token s"
    and "token_poisoned s1 = token_poisoned s"
proof (cases "breaker s")
  case None
  then show thesis by (intro that [of s]) (simp_all add: breaker_check_def)
next
  case (Some b)
  obtain t s1 where cl: "clock c s = (t, s1)" by fastforce
  have "check t b = (Ok (), b)" using assms Some by (auto simp: breaker_shut_def intro: cb.chk_closed)
  then show thesis
    using Some cl clock_frame [OF cl]
    by (intro that [of "s1\<lparr>breaker := Some b\<rparr>"]) (simp_all add: breaker_check_def)
qed

text \<open>The auth block of the last answer the client has received.\<close>

definition last_granted :: "'w client \<Rightarrow> 'w cstate \<Rightarrow> auth_info \<Rightarrow> bool" where
  "last_granted c s a \<longleftrightarrow>
     (\<exists>ans resp v. answers (trace s) = ans @ [Inr resp]
       \<and> json_body c (de_vault_response de_value) resp = Ok v \<and> auth v = Some a)"

lemma renewing_server_answers:
  assumes srv: "renewing_server c eps" and sh: "breaker_shut (breaker s)" and np: "\<not> token_poisoned s"
  obtains resp v a s1 where "execute_raw c POST ''auth/token/renew-self'' None s = (Ok resp, s1)"
    and "json_body c (de_vault_response de_value) resp = Ok v" and "auth v = Some a" and "grants eps a"
    and "\<not> token_poisoned s1" and "breaker_shut (breaker s1)" and "\<exists>ans. answers (trace s1) = ans @ [Inr resp]"
proof -
  obtain s0 where s0: "breaker_check c s = (Ok (), s0)" "breaker s0 = breaker s" "token s0 = token s"
    "token_poisoned s0 = token_poisoned s"
    by (rule breaker_shut_check [OF sh])
  obtain url where url: "e_url (cl_env c) (url_string c ''auth/token/renew-self'') = Inr url"
    and ans: "\<And>rq w. rq_method rq = POST \<Longrightarrow> rq_url rq = url \<Longrightarrow>
      \<exists>resp v a. fst (e_send (cl_env c) rq w) = Inr resp \<and> rs_status resp \<in> {200..299}
         \<and> json_body c (de_vault_response de_value) resp = Ok v \<and> auth v = Some a \<and> grants eps a"
    using srv unfolding renewing_server_def by blast
  let ?rq = "vault_request c POST url (token s) None"
  obtain resp v a where r: "fst (e_send (cl_env c) ?rq (world s0)) = Inr resp" "rs_status resp \<in> {200..299}"
    "json_body c (de_vault_response de_value) resp = Ok v" "auth v = Some a" "grants eps a"
    using ans [of ?rq "world s0"] by auto
  then obtain dt w where "e_send (cl_env c) ?rq (world s0) = (Inr resp, dt, w)"
    by (metis prod.collapse)
  then obtain s1 where s1: "send c ?rq s0 = (Inr resp, s1)" by (simp add: send_def)
  have cl: "e_clone (cl_env c) ?rq = Some ?rq" using srv by (simp add: renewing_server_def)
  have "send_with_retry c ?rq url s0 = (Ok resp, s1)"
    using s1 cl r(2) by (simp add: send_with_retry_def retry_loop.simps attempt_result_def Let_def)
  then have "execute_raw c POST ''auth/token/renew-self'' None s = (Ok resp, breaker_success s1)"
    using execute_raw_ready [OF s0(1,3) _ url, of POST None] np s0(4) by (simp add: send_recorded_def)
  moreover have "breaker_shut (breaker (breaker_success s1))"
    using sh send_frame [OF s1] s0(2)
    by (auto simp: breaker_shut_def cb_inv_success cb.succ_closed split: option.splits)
  ultimately show thesis
    using r send_frame [OF s1] s0(4) np by (intro that [of resp "breaker_success s1" v a]) (simp_all add: exI)
qed

lemma daemon_pass_renews:
  assumes srv: "renewing_server c eps" and st: "renewed_now eps a s"
  obtains s1 s2 a' where "daemon_wait c s = Some s1" and "token s1 = token s"
    and "now s1 + eps < now s + secs (auth_lease_duration a)"
    and "daemon_pass c s = (True, s2)" and "renewed_now eps a' s2" and "last_granted c s2 a'"
proof -
  let ?L = "secs (auth_lease_duration a)"
  have st': "\<not> token_poisoned s" "breaker_shut (breaker s)" "grants eps a" "token s = Some (token_of_auth (now s) a)"
    using st by (simp_all add: renewed_now_def)
  have L: "100 * (millis 5002 + 2 * eps) < 34 * ?L" "?L \<le> secs (2 ^ 32)" "auth_renewable a"
    using st'(3) by (simp_all add: grants_def secs_def)
  obtain d s0 where d: "daemon_wait c s = Some (sleep c d s0)" "s0 = s\<lparr>world := world s0\<rparr>"
    "100 * d \<le> 66 * ?L + 100 * millis 5002"
  proof (rule daemon_wait_renewable [OF st'(1,4)])
    show "ts_renewable (token_of_auth (now s) a)" "0 < ts_lease_duration (token_of_auth (now s) a)"
      "ts_lease_duration (token_of_auth (now s) a) \<le> secs (2 ^ 32)"
      using L by (simp_all add: token_of_auth_def)
  qed (auto simp: token_of_auth_def intro: that)
  let ?s1 = "sleep c d s0"
  have fr: "now s0 = now s" "token s0 = token s" "breaker s0 = breaker s" "token_poisoned s0 = token_poisoned s"
    by (subst d(2), simp)+
  have "now ?s1 \<le> now s + d + eps"
    using sleep_time [of c eps s0 d] srv fr(1) by (simp add: renewing_server_def)
  then have t: "now ?s1 + eps < now s + ?L" using d(3) L(1) by (rule wake_in_time)
  obtain resp v a' s2 where r: "execute_raw c POST ''auth/token/renew-self'' None ?s1 = (Ok resp, s2)"
    "json_body c (de_vault_response de_value) resp = Ok v" "auth v = Some a'" "grants eps a'"
    "\<not> token_poisoned s2" "breaker_shut (breaker s2)" "\<exists>ans. answers (trace s2) = ans @ [Inr resp]"
    by (rule renewing_server_answers [OF srv, of ?s1]) (use st' fr in simp_all)
  obtain s3 where s3: "renew_token_via_api c ?s1 = (Ok (), s3)" "stored c a' s2 s3"
    using r(3) by (auto intro: renew_ok [OF r(1,2,5)])
  have "daemon_pass c s = (True, s3)"
    using d(1) s3(1) by (simp add: daemon_pass_def daemon_body_def renew_token_now_def)
  moreover have "renewed_now eps a' s3"
    using s3(2) r by (simp add: renewed_now_def stored_def)
  moreover have "last_granted c s3 a'"
    using s3(2) r(2,3,7) by (auto simp: last_granted_def stored_def)
  ultimately show thesis using d(1) fr(2) t by (intro that [of ?s1 s3 a']) simp_all
qed

lemma daemon_run_renews:
  assumes "renewing_server c eps" and "renewed_now eps a s"
  shows "\<exists>a' s'. daemon_run n c s = (True, s') \<and> renewed_now eps a' s'
    \<and> (if n = 0 then a' = a \<and> s' = s else last_granted c s' a')"
proof (induction n)
  case 0
  then show ?case using assms(2) by auto
next
  case (Suc n)
  then obtain a' s' where r: "daemon_run n c s = (True, s')" "renewed_now eps a' s'" by blast
  obtain s2 a2 where "daemon_pass c s' = (True, s2)" "renewed_now eps a2 s2" "last_granted c s2 a2"
    by (rule daemon_pass_renews [OF assms(1) r(2)])
  then show ?case using daemon_run_Suc [OF r(1)] by auto
qed

section \<open>A pass that does not renew\<close>

context state_preorder
begin

lemma keeps_daemon_body:
  assumes "keeps R (renew_token_via_api c)" and "keeps R (try_re_authenticate c)"
  shows "keeps R (daemon_body c)"
  unfolding keeps_def
proof
  fix s
  obtain q s1 where q: "renew_token_via_api c s = (q, s1)" by fastforce
  obtain q' s2 where q': "try_re_authenticate c s1 = (q', s2)" by fastforce
  show "R s (snd (daemon_body c s))"
    using keepsD [OF assms(1) q] keepsD [OF assms(2) q'] q q'
    by (auto simp: daemon_body_def renew_token_now_def split: outcome.split intro: R_trans)
qed

end

lemma evolves_daemon_body:
  "clone_faithful (cl_env c) \<Longrightarrow> login_evolves c \<Longrightarrow> keeps evolves (daemon_body c)"
  by (intro ev.keeps_daemon_body evolves_renew_token_via_api evolves_try_re_authenticate)

text \<open>The daemon pays for its requests like a caller.\<close>

lemma metered_daemon_body:
  "clone_faithful (cl_env c) \<Longrightarrow> login_metered c \<Longrightarrow>
   keeps (metered (Suc (max_retries (config c)))) (daemon_body c)"
  by (intro met.keeps_daemon_body metered_renew_token_via_api metered_try_re_authenticate)

section \<open>Properties\<close>

text \<open>
  C10: The token daemon does its work: with a server that always answers \<open>renew-self\<close> by a renewable
  lease long enough for the jitter, the daemon never stops, however many passes it makes; every
  time it wakes, the token stored last is still valid, with more than \<open>eps\<close> to spare for the
  request; and after each pass the token is that of the last answer the client has received - its
  text, its lease and whether it is renewable - with the expiry counted from that instant.
\<close>

theorem daemon_keeps_alive:
  assumes "renewing_server c eps" and "renewed_now eps a s"
  shows "\<exists>s' a' s1. daemon_run n c s = (True, s')
    \<and> (if n = 0 then a' = a \<and> s' = s else last_granted c s' a')
    \<and> token s' = Some \<lparr>ts_value = client_token a',
        ts_expires_at = instant_checked_add (now s') (secs (auth_lease_duration a')),
        ts_renewable = auth_renewable a', ts_lease_duration = secs (auth_lease_duration a')\<rparr>
    \<and> daemon_wait c s' = Some s1 \<and> token s1 = token s'
    \<and> now s1 + eps < now s' + secs (auth_lease_duration a')"
proof -
  obtain a' s' where r: "daemon_run n c s = (True, s')" "renewed_now eps a' s'"
    "if n = 0 then a' = a \<and> s' = s else last_granted c s' a'"
    using daemon_run_renews [OF assms] by blast
  then have "token s' = Some (token_of_auth (now s') a')" "0 < auth_lease_duration a'"
    by (auto simp: renewed_now_def grants_def secs_def intro: gr0I)
  moreover obtain s1 where "daemon_wait c s' = Some s1" "token s1 = token s'"
    "now s1 + eps < now s' + secs (auth_lease_duration a')"
    by (rule daemon_pass_renews [OF assms(1) r(2)])
  ultimately show ?thesis using r(1,3)
    by (intro exI [of _ s'] exI [of _ a'] exI [of _ s1]) (simp add: token_of_auth_def)
qed

definition renewing_client :: "unit client" where
  "renewing_client =
     \<lparr>cl_env =
        \<lparr>e_send = (\<lambda>rq w. (answer 200 ''renewed'', 3, w)), e_clone = Some, e_draw = (\<lambda>w. (4999, w)),
         e_idle = (\<lambda>w. (secs 1, w)), e_url = Inr,
         e_json = (\<lambda>t. if t = ''renewed'' then Inr renew_json else Inl ''expected value'')\<rparr>,
      base_url = ''http://vault:8200/'', namespace = None, config = client_config_default,
      auth_method = None, has_callback = False, namespace_override = None, wrap_ttl_override = None\<rparr>"

theorem daemon_keeps_alive_witness:
  "\<exists>s' a' s1. daemon_run 1000000 renewing_client
       \<lparr>token = Some (token_of_auth 5 (auth_example ''t'')), token_poisoned = False,
        breaker = Some (cb_new cb_config_default), now = 5, world = (), trace = []\<rparr> = (True, s')
    \<and> last_granted renewing_client s' a' \<and> map_option ts_value (token s') = Some (client_token a')
    \<and> daemon_wait renewing_client s' = Some s1
    \<and> token s1 = token s' \<and> now s1 + secs 1 < now s' + secs (auth_lease_duration a')"
proof -
  have srv: "renewing_server renewing_client (secs 1)"
    using renew_json_decodes
    by (auto simp: renewing_server_def renewing_client_def answer_def json_body_def ok_or_def grants_def
        millis_def secs_def)
  have st: "renewed_now (secs 1) (auth_example ''t'')
      \<lparr>token = Some (token_of_auth 5 (auth_example ''t'')), token_poisoned = False,
       breaker = Some (cb_new cb_config_default), now = 5, world = (), trace = []\<rparr>"
    by (simp add: renewed_now_def breaker_shut_def is_closed_def cb_new_def cb_inv_def grants_def auth_example_def
        millis_def secs_def cb_config_default_def)
  show ?thesis using daemon_keeps_alive [OF srv st, of 1000000] by fastforce
qed

text \<open>
  C13: A renewal that fails is not tried again in time: after a pass that leaves a renewable token as
  it was - the renewal failed and no login replaced the token - the daemon computes its next
  interval from the whole lease again, so that when it wakes the token has expired, for every
  lease of a second or longer and every jitter, although a third of the lease was left.
\<close>

theorem failed_renewal_loses_token:
  assumes "clone_faithful (cl_env c)" and "login_evolves c"
    and "token s = Some ts" and "ts_renewable ts" and "secs 1 \<le> ts_lease_duration ts"
    and "ts_lease_duration ts \<le> secs (2 ^ 32)"
    and "ts_expires_at ts = Some expires" and "expires \<le> now s + ts_lease_duration ts"
    and "daemon_pass c s = (True, s')" and "token s' = Some ts" and "daemon_wait c s' = Some s1"
  shows "expires \<le> now s1"
proof -
  let ?L = "ts_lease_duration ts"
  have pos: "0 < ?L" using assms(5) by (simp add: secs_def)
  have np: "\<not> token_poisoned s" "\<not> token_poisoned s'"
    using assms(9,11) by (auto simp: daemon_pass_def daemon_wait_def)
  obtain d s0 where d: "daemon_wait c s = Some (sleep c d s0)" "s0 = s\<lparr>world := world s0\<rparr>"
    "66 * ?L \<le> 100 * d + 100 * millis 3"
    by (rule daemon_wait_renewable [OF np(1) assms(3,4) pos assms(6)])
  obtain d' s0' where d': "daemon_wait c s' = Some (sleep c d' s0')" "s0' = s'\<lparr>world := world s0'\<rparr>"
    "66 * ?L \<le> 100 * d' + 100 * millis 3"
    by (rule daemon_wait_renewable [OF np(2) assms(10,4) pos assms(6)])
  have "evolves (sleep c d s0) s'"
    using evolves_daemon_body [OF assms(1,2)] assms(9) d(1)
    by (auto simp: daemon_pass_def keeps_def split: prod.splits outcome.splits) (metis snd_conv)+
  then have "now (sleep c d s0) \<le> now s'" by (simp add: evolves_def)
  moreover have "now s0 = now s" by (subst d(2), simp)
  moreover have "now s0' = now s'" by (subst d'(2), simp)
  ultimately have "now s + d + d' \<le> now s1"
    using sleep_at_least [of s0 d c] sleep_at_least [of s0' d' c] assms(11) d'(1) by simp
  moreover have "?L \<le> d + d'" using d(3) d'(3) assms(5) by (simp add: millis_def secs_def)
  ultimately show ?thesis using assms(8) by linarith
qed

theorem failed_renewal_loses_token_witness:
  "\<exists>s' s1. daemon_pass (script_client []) (script_state [answer 400 []] (Some leased_token)) = (True, s')
     \<and> token s' = Some leased_token \<and> daemon_wait (script_client []) s' = Some s1 \<and> secs 100 \<le> now s1"
proof -
  let ?s = "script_state [answer 400 []] (Some leased_token)"
  have l: "ts_renewable leased_token" "0 < ts_lease_duration leased_token" "ts_lease_duration leased_token \<le> secs (2 ^ 32)"
    by (simp_all add: leased_token_def secs_def)
  obtain d s0 where d: "daemon_wait (script_client []) ?s = Some (sleep (script_client []) d s0)"
    "s0 = snd (draw_below (script_client []) (2 ^ 64) ?s)"
    by (rule daemon_wait_renewable [of ?s leased_token "script_client []"]) (use l in simp_all)
  have s0: "s0 = ?s" by (simp add: d(2) draw_below_def)
  have "\<exists>e s'. execute_raw (script_client []) POST ''auth/token/renew-self'' None (sleep (script_client []) d ?s)
      = (Err e, s') \<and> token s' = Some leased_token \<and> \<not> token_poisoned s'"
    by (simp add: run_raw sleep_def)
  then obtain e s' where r: "execute_raw (script_client []) POST ''auth/token/renew-self'' None
      (sleep (script_client []) d ?s) = (Err e, s')" "token s' = Some leased_token" "\<not> token_poisoned s'" by blast
  have p: "daemon_pass (script_client []) ?s = (True, s')"
    using d(1) s0 r(1) by (simp add: daemon_pass_def daemon_body_def renew_token_now_def
        renew_token_via_api_def bind_io_cases try_re_authenticate_def)
  obtain d' s0' where w: "daemon_wait (script_client []) s' = Some (sleep (script_client []) d' s0')"
    by (rule daemon_wait_renewable [OF r(3,2) l])
  show ?thesis
    using failed_renewal_loses_token [OF _ _ _ l(1) _ l(3) _ _ p r(2) w, of "secs 100"] p r(2) w
    by (simp add: login_evolves_def leased_token_def secs_def)
qed

end
