(* ===== verification/Renewal_Lock.thy ===== *)
theory Renewal_Lock
  imports Token_Lifecycle
begin

text \<open>
  \<open>ensure_valid_token\<close> under concurrency: any number of callers share the token and the
  \<open>renewal_lock\<close>. \<open>lock_step\<close> interleaves them at their awaits; a network call may return
  anything, a caller's future may be dropped at an await (its guard then releases the lock), the
  token may be replaced from outside, and time passes. The log records the renewals and what was
  stored; \<open>log_ok\<close> is the specification: renewals never overlap, and each starts with the token
  stored last, at an instant at which that very token is due.
\<close>

section \<open>The decision, as a function of the token and the instant\<close>

definition choose_action :: "bool \<Rightarrow> nat \<Rightarrow> token_state option \<Rightarrow> action outcome" where
  "choose_action has_auth t tok =
     (case tok of
        Some ts \<Rightarrow>
          then_ok (token_needs_renewal t ts) (\<lambda>needs. Ok
            (if \<not> needs then ActOk
             else if ts_renewable ts then ActRenew
             else if has_auth then ActReAuth
             else ActOk))
      | None \<Rightarrow> Ok (if has_auth then ActReAuth else ActOk))"

definition needed_at :: "nat \<Rightarrow> token_state option \<Rightarrow> bool outcome" where
  "needed_at t tok = (case tok of Some ts \<Rightarrow> token_needs_renewal t ts | None \<Rightarrow> Ok False)"

text \<open>It is what the sequential model decides at the instant it reads.\<close>

lemma lifecycle_action_choose:
  assumes "\<not> token_poisoned s"
  obtains t s1 where "lifecycle_action c s = (choose_action (auth_method c \<noteq> None) t (token s), s1)"
    and "now s \<le> t" and "t = now s1 \<or> s1 = s"
proof (cases "token s")
  case None
  then show thesis using assms by (intro that [of "now s" s]) (simp_all add: lifecycle_action_def choose_action_def)
next
  case (Some ts)
  show thesis
  proof (cases "ts_expires_at ts")
    case None
    then show thesis using assms Some
      by (intro that [of "now s" s]) (simp_all add: lifecycle_action_def choose_action_def
          needs_renewal_now_def bind_io_cases token_needs_renewal_def)
  next
    case (Some e)
    obtain t s1 where "clock c s = (t, s1)" by fastforce
    then show thesis using assms \<open>token s = Some ts\<close> Some evolves_clock [of c s t s1]
      by (intro that [of t s1]) (auto simp: lifecycle_action_def choose_action_def
          needs_renewal_now_def bind_io_cases split: outcome.splits)
  qed
qed

section \<open>Interleavings\<close>

datatype lock_pc =
    CStart
  | CWaiting
  | CHolding
  | CRenewing
  | CLoginHeld
  | CLogin
  | CReady
  | CFailed

datatype lock_event =
    RenewStart nat nat
  | RenewEnd nat
  | Stored "token_state option"

record lock_state =
  lk_now :: nat
  lk_token :: "token_state option"
  lk_holder :: "nat option"
  lk_pcs :: "nat \<Rightarrow> lock_pc"
  lk_log :: "lock_event list"

definition goto :: "nat \<Rightarrow> lock_pc \<Rightarrow> lock_state \<Rightarrow> lock_state" where
  "goto i pc s = s\<lparr>lk_pcs := (lk_pcs s)(i := pc)\<rparr>"

definition release :: "nat \<Rightarrow> lock_pc \<Rightarrow> lock_state \<Rightarrow> lock_state" where
  "release i pc s = (goto i pc s)\<lparr>lk_holder := None\<rparr>"

definition noted :: "lock_event \<Rightarrow> lock_state \<Rightarrow> lock_state" where
  "noted ev s = s\<lparr>lk_log := lk_log s @ [ev]\<rparr>"

definition store :: "token_state option \<Rightarrow> lock_state \<Rightarrow> lock_state" where
  "store tok s = noted (Stored tok) (s\<lparr>lk_token := tok\<rparr>)"

inductive lock_step :: "bool \<Rightarrow> lock_state \<Rightarrow> lock_state \<Rightarrow> bool" for has_auth where
  tick: "lock_step has_auth s (s\<lparr>lk_now := lk_now s + d\<rparr>)"
| replaced: "lock_step has_auth s (store tok s)"
| decided: "lk_pcs s i = CStart \<Longrightarrow> choose_action has_auth (lk_now s) (lk_token s) = Ok a \<Longrightarrow>
    lock_step has_auth s
      (goto i (case a of ActOk \<Rightarrow> CReady | ActReAuth \<Rightarrow> CLogin | ActRenew \<Rightarrow> CWaiting) s)"
| decide_panicked: "lk_pcs s i = CStart \<Longrightarrow> choose_action has_auth (lk_now s) (lk_token s) = Panic m \<Longrightarrow>
    lock_step has_auth s (goto i CFailed s)"
| acquired: "lk_pcs s i = CWaiting \<Longrightarrow> lk_holder s = None \<Longrightarrow>
    lock_step has_auth s ((goto i CHolding s)\<lparr>lk_holder := Some i\<rparr>)"
| not_needed: "lk_pcs s i = CHolding \<Longrightarrow> needed_at (lk_now s) (lk_token s) = Ok False \<Longrightarrow>
    lock_step has_auth s (release i CReady s)"
| recheck_panicked: "lk_pcs s i = CHolding \<Longrightarrow> needed_at (lk_now s) (lk_token s) = Panic m \<Longrightarrow>
    lock_step has_auth s (release i CFailed s)"
| renew_sent: "lk_pcs s i = CHolding \<Longrightarrow> needed_at (lk_now s) (lk_token s) = Ok True \<Longrightarrow>
    lock_step has_auth s (noted (RenewStart i (lk_now s)) (goto i CRenewing s))"
| renew_ok: "lk_pcs s i = CRenewing \<Longrightarrow>
    lock_step has_auth s (release i CReady (store (Some (token_of_auth (lk_now s) a)) (noted (RenewEnd i) s)))"
| renew_no_auth: "lk_pcs s i = CRenewing \<Longrightarrow> lock_step has_auth s (release i CReady (noted (RenewEnd i) s))"
| renew_failed: "lk_pcs s i = CRenewing \<Longrightarrow>
    lock_step has_auth s
      (if has_auth then goto i CLoginHeld (noted (RenewEnd i) s) else release i CFailed (noted (RenewEnd i) s))"
| fallback_ok: "lk_pcs s i = CLoginHeld \<Longrightarrow>
    lock_step has_auth s (release i CReady (store (Some (token_of_auth (lk_now s) a)) s))"
| fallback_failed: "lk_pcs s i = CLoginHeld \<Longrightarrow> lock_step has_auth s (release i CFailed s)"
| login_ok: "lk_pcs s i = CLogin \<Longrightarrow>
    lock_step has_auth s (goto i CReady (store (Some (token_of_auth (lk_now s) a)) s))"
| login_failed: "lk_pcs s i = CLogin \<Longrightarrow> lock_step has_auth s (goto i CFailed s)"
| dropped_waiting: "lk_pcs s i \<in> {CWaiting, CLogin} \<Longrightarrow> lock_step has_auth s (goto i CFailed s)"
| dropped_renewing: "lk_pcs s i = CRenewing \<Longrightarrow> lock_step has_auth s (release i CFailed (noted (RenewEnd i) s))"
| dropped_login: "lk_pcs s i = CLoginHeld \<Longrightarrow> lock_step has_auth s (release i CFailed s)"

definition lock_start :: "nat \<Rightarrow> token_state option \<Rightarrow> lock_state" where
  "lock_start t tok =
     \<lparr>lk_now = t, lk_token = tok, lk_holder = None, lk_pcs = (\<lambda>_. CStart), lk_log = []\<rparr>"

definition lock_reach :: "bool \<Rightarrow> lock_state \<Rightarrow> lock_state \<Rightarrow> bool" where
  "lock_reach has_auth = (lock_step has_auth)\<^sup>*\<^sup>*"

section \<open>Specification of the log\<close>

fun log_ok :: "token_state option \<Rightarrow> nat option \<Rightarrow> lock_event list \<Rightarrow> bool" where
  "log_ok tok p [] = True"
| "log_ok tok p (Stored tok' # es) = log_ok tok' p es"
| "log_ok tok p (RenewStart i t # es) = (p = None \<and> needed_at t tok = Ok True \<and> log_ok tok (Some i) es)"
| "log_ok tok p (RenewEnd i # es) = (p = Some i \<and> log_ok tok None es)"

fun log_end :: "token_state option \<Rightarrow> nat option \<Rightarrow> lock_event list \<Rightarrow> token_state option \<times> nat option" where
  "log_end tok p [] = (tok, p)"
| "log_end tok p (Stored tok' # es) = log_end tok' p es"
| "log_end tok p (RenewStart i t # es) = log_end tok (Some i) es"
| "log_end tok p (RenewEnd i # es) = log_end tok None es"

lemma log_ok_append:
  "log_ok tok p (es @ fs) \<longleftrightarrow> log_ok tok p es \<and> (case log_end tok p es of (tok', p') \<Rightarrow> log_ok tok' p' fs)"
  by (induction tok p es rule: log_ok.induct) auto

lemma log_end_append:
  "log_end tok p (es @ fs) = (case log_end tok p es of (tok', p') \<Rightarrow> log_end tok' p' fs)"
  by (induction tok p es rule: log_end.induct) auto

text \<open>The token that a log leaves stored.\<close>

definition last_stored :: "token_state option \<Rightarrow> lock_event list \<Rightarrow> token_state option" where
  "last_stored tok es = fst (log_end tok None es)"

lemma log_end_ended:
  "log_ok tok (Some i) es \<Longrightarrow> snd (log_end tok (Some i) es) = None \<Longrightarrow> RenewEnd i \<in> set es"
proof (induction es arbitrary: tok)
  case (Cons e es)
  then show ?case by (cases e) auto
qed simp

lemma log_end_fst: "fst (log_end tok p es) = fst (log_end tok q es)"
  by (induction tok p es arbitrary: q rule: log_end.induct) auto

lemma last_stored_Stored:
  assumes "\<And>x. Stored x \<notin> set fs"
  shows "last_stored tok (es @ Stored tok' # fs) = tok'"
proof -
  have "fst (log_end tok' p fs) = tok'" for p
    using assms by (induction fs arbitrary: p) (auto split: lock_event.split, metis lock_event.exhaust log_end.simps(3,4))
  then show ?thesis
    by (cases "log_end tok None es") (simp add: last_stored_def log_end_append)
qed

text \<open>A stored token becomes due no earlier than a fifth before the end of its lease.\<close>

lemma due_late:
  assumes "token_needs_renewal v (token_of_auth u a) = Ok True" and "auth_lease_duration a \<le> 2 ^ 32"
  shows "5 * u + 4 * secs (auth_lease_duration a) \<le> 5 * v + 5 * millis 1"
proof -
  let ?L = "secs (auth_lease_duration a)"
  have "?L \<le> secs (2 ^ 32)" using assms(2) by (simp add: secs_def)
  then obtain n where n: "mul_f64 ?L f64_0_2 = Ok n" "5 * n \<le> ?L + 5 * millis 1"
    by (rule threshold_exact)
  have "u + ?L \<le> v + n"
    using assms(1) n(1) by (auto simp: token_needs_renewal_def token_of_auth_def instant_checked_add_def
        instant_add_def split: if_splits)
  then show ?thesis using n(2) by linarith
qed

section \<open>Invariant\<close>

definition held :: "lock_pc set" where
  "held = {CHolding, CRenewing, CLoginHeld}"

definition in_progress :: "lock_state \<Rightarrow> nat option" where
  "in_progress s = (case lk_holder s of Some i \<Rightarrow> if lk_pcs s i = CRenewing then Some i else None | None \<Rightarrow> None)"

definition lock_inv :: "token_state option \<Rightarrow> lock_state \<Rightarrow> bool" where
  "lock_inv tok0 s \<longleftrightarrow>
     (\<forall>i. lk_pcs s i \<in> held \<longleftrightarrow> lk_holder s = Some i)
     \<and> log_ok tok0 None (lk_log s) \<and> log_end tok0 None (lk_log s) = (lk_token s, in_progress s)"

lemma lock_ops [simp]:
  "lk_now (goto i pc s) = lk_now s" "lk_token (goto i pc s) = lk_token s"
  "lk_holder (goto i pc s) = lk_holder s" "lk_pcs (goto i pc s) = (lk_pcs s)(i := pc)"
  "lk_log (goto i pc s) = lk_log s"
  "lk_now (noted ev s) = lk_now s" "lk_token (noted ev s) = lk_token s"
  "lk_holder (noted ev s) = lk_holder s" "lk_pcs (noted ev s) = lk_pcs s"
  "lk_log (noted ev s) = lk_log s @ [ev]"
  "lk_now (store tok s) = lk_now s" "lk_token (store tok s) = tok"
  "lk_holder (store tok s) = lk_holder s" "lk_pcs (store tok s) = lk_pcs s"
  "lk_log (store tok s) = lk_log s @ [Stored tok]"
  "lk_now (release i pc s) = lk_now s" "lk_token (release i pc s) = lk_token s"
  "lk_holder (release i pc s) = None" "lk_pcs (release i pc s) = (lk_pcs s)(i := pc)"
  "lk_log (release i pc s) = lk_log s"
  by (simp_all add: goto_def noted_def store_def release_def)

lemma in_progress_ops [simp]:
  "in_progress (store tok s) = in_progress s" "in_progress (noted ev s) = in_progress s"
  "in_progress (s\<lparr>lk_now := t\<rparr>) = in_progress s"
  by (simp_all add: in_progress_def split: option.split)

lemmas lock_defs = lock_inv_def in_progress_def log_ok_append log_end_append

lemma lock_inv_start: "lock_inv tok (lock_start t tok)"
  by (simp add: lock_start_def lock_defs held_def)

text \<open>The holder is the only caller inside, and moving it, in or out, keeps the others outside.\<close>

lemma lock_inv_holder:
  "lock_inv tok0 s \<Longrightarrow> lk_pcs s i \<in> held \<Longrightarrow> lk_holder s = Some i \<and> (\<forall>j. j \<noteq> i \<longrightarrow> lk_pcs s j \<notin> held)"
  by (auto simp: lock_inv_def)

lemma in_progress_other: "in_progress s = None \<Longrightarrow> lk_holder s' = lk_holder s \<Longrightarrow>
   (\<And>j. lk_holder s = Some j \<Longrightarrow> lk_pcs s' j \<noteq> CRenewing) \<Longrightarrow> in_progress s' = None"
  by (auto simp: in_progress_def split: option.splits)

lemma lock_inv_goto_out:
  assumes inv: "lock_inv tok0 s" and "lk_pcs s i \<notin> held" and "pc \<notin> held"
  shows "lock_inv tok0 (goto i pc s)"
proof -
  have "lk_holder s \<noteq> Some i" using assms by (auto simp: lock_inv_def)
  then have "in_progress (goto i pc s) = in_progress s"
    by (auto simp: in_progress_def split: option.split)
  then show ?thesis using assms by (simp add: lock_inv_def)
qed

lemma lock_inv_store: "lock_inv tok0 s \<Longrightarrow> lock_inv tok0 (store tok s)"
  by (simp add: lock_inv_def log_ok_append log_end_append)

lemma lock_inv_release:
  assumes inv: "lock_inv tok0 s" and i: "lk_pcs s i \<in> held" and "in_progress s = None" and "pc \<notin> held"
  shows "lock_inv tok0 (release i pc s)"
proof -
  have "in_progress (release i pc s) = None" by (simp add: in_progress_def)
  then show ?thesis
    using assms(3,4) inv lock_inv_holder [OF inv i] by (simp add: lock_inv_def)
qed

lemma lock_inv_end_renewal:
  assumes inv: "lock_inv tok0 s" and i: "lk_pcs s i = CRenewing"
  shows "lock_inv tok0 (goto i CLoginHeld (noted (RenewEnd i) s))"
proof -
  have h: "lk_holder s = Some i" using lock_inv_holder [OF inv, of i] i by (simp add: held_def)
  then have "in_progress s = Some i" "in_progress (goto i CLoginHeld (noted (RenewEnd i) s)) = None"
    using i by (simp_all add: in_progress_def)
  moreover have "\<forall>j. (j = i) = (lk_pcs s j \<in> held)"
    using inv h by (auto simp: lock_inv_def)
  moreover have "CLoginHeld \<in> held" by (simp add: held_def)
  ultimately show ?thesis
    using inv h by (auto simp: lock_inv_def log_ok_append log_end_append)
qed

lemma lock_inv_start_renewal:
  assumes inv: "lock_inv tok0 s" and i: "lk_pcs s i = CHolding"
    and "needed_at (lk_now s) (lk_token s) = Ok True"
  shows "lock_inv tok0 (noted (RenewStart i (lk_now s)) (goto i CRenewing s))"
proof -
  have h: "lk_holder s = Some i" using lock_inv_holder [OF inv, of i] i by (simp add: held_def)
  then have "in_progress s = None" "in_progress (noted (RenewStart i (lk_now s)) (goto i CRenewing s)) = Some i"
    using i by (simp_all add: in_progress_def)
  moreover have "\<forall>j. (j = i) = (lk_pcs s j \<in> held)"
    using inv h by (auto simp: lock_inv_def)
  moreover have "CRenewing \<in> held" by (simp add: held_def)
  ultimately show ?thesis
    using inv h assms(3) by (auto simp: lock_inv_def log_ok_append log_end_append)
qed

text \<open>Ending a renewal and releasing is ending it, then releasing from the next state.\<close>

lemma release_after_end:
  "release i pc (noted ev s) = release i pc (goto i CLoginHeld (noted ev s))"
  "release i pc (store tok (noted ev s)) = release i pc (store tok (goto i CLoginHeld (noted ev s)))"
  by (simp_all add: release_def goto_def noted_def store_def)

text \<open>A renewal that ends releases the lock, with or without a new token.\<close>

lemma lock_inv_ended:
  assumes "lock_inv tok0 s" and "lk_pcs s i = CRenewing" and "pc \<notin> held"
  shows "lock_inv tok0 (release i pc (noted (RenewEnd i) s))"
    and "lock_inv tok0 (release i pc (store tok (noted (RenewEnd i) s)))"
proof -
  let ?s = "goto i CLoginHeld (noted (RenewEnd i) s)"
  have inv': "lock_inv tok0 ?s" by (rule lock_inv_end_renewal [OF assms(1,2)])
  have h: "lk_pcs ?s i \<in> held" by (simp add: held_def)
  have ip: "in_progress ?s = None" "in_progress (store tok ?s) = None"
    using lock_inv_holder [OF inv' h] by simp_all (simp_all add: in_progress_def)
  show "lock_inv tok0 (release i pc (noted (RenewEnd i) s))"
    unfolding release_after_end by (rule lock_inv_release [OF inv' h ip(1) assms(3)])
  show "lock_inv tok0 (release i pc (store tok (noted (RenewEnd i) s)))"
    unfolding release_after_end
    by (rule lock_inv_release [OF lock_inv_store [OF inv']]) (use h ip(2) assms(3) in simp_all)
qed

lemma lock_inv_step:
  assumes inv: "lock_inv tok0 s" and st: "lock_step has_auth s s'"
  shows "lock_inv tok0 s'"
proof -
  have out: "lk_pcs s i \<in> held \<Longrightarrow> lk_pcs s i \<noteq> CRenewing \<Longrightarrow> in_progress s = None" for i
    using lock_inv_holder [OF inv, of i] by (simp add: in_progress_def)
  note ended = lock_inv_ended [OF inv]
  have stored: "lock_inv tok0 (release i pc (store tok s))"
    if "lk_pcs s i = CLoginHeld" "pc \<notin> held" for i pc tok
    by (rule lock_inv_release [OF lock_inv_store [OF inv]])
      (use that out [of i] in \<open>simp_all add: held_def\<close>)
  have freed: "lock_inv tok0 (release i pc s)"
    if "lk_pcs s i = CHolding \<or> lk_pcs s i = CLoginHeld" "pc \<notin> held" for i pc
    by (rule lock_inv_release [OF inv]) (use that out [of i] in \<open>auto simp: held_def\<close>)
  show ?thesis
    using st
  proof cases
    case (decided i a)
    then show ?thesis using inv by (cases a) (simp_all add: lock_inv_goto_out held_def)
  next
    case (acquired i)
    then have "\<forall>j. lk_pcs s j \<notin> held" using inv by (simp add: lock_inv_def)
    then show ?thesis
      using inv acquired by (auto simp: lock_inv_def in_progress_def held_def split: option.splits)
  next
    case (renew_sent i)
    then show ?thesis using inv by (simp add: lock_inv_start_renewal)
  next
    case (renew_failed i)
    then show ?thesis using inv by (simp add: lock_inv_end_renewal ended held_def)
  next
    case (tick d)
    then show ?thesis using inv by (simp add: lock_inv_def)
  next
    case (login_ok i a)
    then show ?thesis using inv by (simp add: lock_inv_goto_out lock_inv_store held_def)
  next
    case (dropped_waiting i)
    then show ?thesis using inv by (auto simp: held_def intro: lock_inv_goto_out)
  qed (use inv in \<open>simp_all add: ended stored freed lock_inv_store lock_inv_goto_out held_def\<close>)
qed

lemma lock_inv_reach: "lock_reach has_auth s s' \<Longrightarrow> lock_inv tok0 s \<Longrightarrow> lock_inv tok0 s'"
  unfolding lock_reach_def by (induction rule: rtranclp_induct) (auto intro: lock_inv_step)

lemma log_ok_start:
  assumes "log_ok tok0 None (es @ RenewStart i t # fs)"
  shows "snd (log_end tok0 None es) = None \<and> needed_at t (last_stored tok0 es) = Ok True"
  using assms by (auto simp: log_ok_append last_stored_def split: prod.splits)

lemma log_ok_between:
  assumes "log_ok tok0 None (es @ RenewStart i t # fs @ RenewStart j u # gs)"
  shows "RenewEnd i \<in> set fs"
proof -
  obtain tok where "log_end tok0 None es = (tok, None)"
    using log_ok_start [OF assms] by (cases "log_end tok0 None es") auto
  then have "log_ok tok (Some i) (fs @ RenewStart j u # gs)"
    using assms by (simp add: log_ok_append)
  then have "log_ok tok (Some i) fs" "snd (log_end tok (Some i) fs) = None"
    by (auto simp: log_ok_append split: prod.splits)
  then show ?thesis by (rule log_end_ended)
qed

text \<open>Callers without a token decide for a login one after the other, and none has to wait.\<close>

lemma logins_pile_up:
  "\<exists>s. lock_reach True (lock_start t None) s \<and> lk_token s = None \<and> (\<forall>j < n. lk_pcs s j = CLogin)
     \<and> (\<forall>j \<ge> n. lk_pcs s j = CStart)"
proof (induction n)
  case 0
  show ?case
    by (intro exI [of _ "lock_start t None"]) (simp add: lock_reach_def lock_start_def)
next
  case (Suc n)
  then obtain s where s: "lock_reach True (lock_start t None) s" "lk_token s = None"
    "\<forall>j < n. lk_pcs s j = CLogin" "\<forall>j \<ge> n. lk_pcs s j = CStart" by blast
  have "lock_step True s (goto n (case ActReAuth of ActOk \<Rightarrow> CReady | ActReAuth \<Rightarrow> CLogin | ActRenew \<Rightarrow> CWaiting) s)"
    by (rule lock_step.decided) (use s in \<open>simp_all add: choose_action_def\<close>)
  then have "lock_reach True (lock_start t None) (goto n CLogin s)"
    using s(1) unfolding lock_reach_def by (simp add: rtranclp.rtrancl_into_rtrancl)
  then show ?case
    using s by (intro exI [of _ "goto n CLogin s"]) (auto simp: less_Suc_eq)
qed

section \<open>Properties\<close>

text \<open>
  C7: The renewal lock prevents the thundering herd, for any number of callers and every
  interleaving of their awaits with each other, with \<open>set_token\<close> and with time: at most one caller
  is inside, a \<open>renew-self\<close> call starts only when the previous one has ended, and only when the
  token stored last is itself due at that instant - so after a renewal that brought a token which
  is not due, no caller that was waiting renews again, and four fifths of a granted lease (up to a
  millisecond of rounding) pass before the next renewal, however many callers there are.
\<close>

theorem renewals_serialized:
  assumes "lock_reach has_auth (lock_start t0 tok0) s"
  shows "(\<forall>i j. lk_pcs s i \<in> held \<longrightarrow> lk_pcs s j \<in> held \<longrightarrow> i = j)
    \<and> (\<forall>es i t fs. lk_log s = es @ RenewStart i t # fs \<longrightarrow>
          needed_at t (last_stored tok0 es) = Ok True)
    \<and> (\<forall>es i t fs j u gs. lk_log s = es @ RenewStart i t # fs @ RenewStart j u # gs \<longrightarrow>
          RenewEnd i \<in> set fs)
    \<and> (\<forall>es u a fs j v gs. lk_log s = es @ Stored (Some (token_of_auth u a)) # fs @ RenewStart j v # gs \<longrightarrow>
          (\<forall>x. Stored x \<notin> set fs) \<longrightarrow> auth_lease_duration a \<le> 2 ^ 32 \<longrightarrow>
          5 * u + 4 * secs (auth_lease_duration a) \<le> 5 * v + 5 * millis 1)"
proof -
  have inv: "lock_inv tok0 s" by (rule lock_inv_reach [OF assms lock_inv_start])
  have "i = j" if "lk_pcs s i \<in> held" "lk_pcs s j \<in> held" for i j
    using that inv by (auto simp: lock_inv_def)
  moreover have log: "log_ok tok0 None (lk_log s)" using inv by (simp add: lock_inv_def)
  moreover have "5 * u + 4 * secs (auth_lease_duration a) \<le> 5 * v + 5 * millis 1"
    if "lk_log s = es @ Stored (Some (token_of_auth u a)) # fs @ RenewStart j v # gs"
      "\<forall>x. Stored x \<notin> set fs" "auth_lease_duration a \<le> 2 ^ 32" for es u a fs j v gs
  proof -
    have "log_ok tok0 None ((es @ Stored (Some (token_of_auth u a)) # fs) @ RenewStart j v # gs)"
      using log that(1) by simp
    then have "needed_at v (Some (token_of_auth u a)) = Ok True"
      using log_ok_start last_stored_Stored that(2) by metis
    then show ?thesis using that(3) by (intro due_late) (simp_all add: needed_at_def)
  qed
  ultimately show ?thesis
    using log_ok_start log_ok_between by metis
qed

theorem renewals_serialized_witness:
  "\<exists>s. lock_reach True (lock_start 5 (Some due_token)) s \<and> lk_log s = [RenewStart 0 5]
     \<and> needed_at 5 (last_stored (Some due_token) []) = Ok True"
proof -
  let ?s0 = "lock_start 5 (Some due_token)"
  let ?s1 = "goto 0 CWaiting ?s0"
  let ?s2 = "(goto 0 CHolding ?s1)\<lparr>lk_holder := Some 0\<rparr>"
  let ?s3 = "noted (RenewStart 0 (lk_now ?s2)) (goto 0 CRenewing ?s2)"
  have due: "token_needs_renewal 5 due_token = Ok True"
    using token_needs_renewal_window [of due_token 0 5]
    by (auto simp: due_token_def secs_def millis_def instant_max_def)
  have "lock_step True ?s0 (goto 0 (case ActRenew of ActOk \<Rightarrow> CReady | ActReAuth \<Rightarrow> CLogin | ActRenew \<Rightarrow> CWaiting) ?s0)"
    by (rule lock_step.decided) (use due in \<open>simp_all add: lock_start_def choose_action_def due_token_def\<close>)
  then have "lock_step True ?s0 ?s1" by simp
  moreover have "lock_step True ?s1 ?s2"
    by (rule lock_step.acquired) (simp_all add: lock_start_def)
  moreover have "lock_step True ?s2 ?s3"
    by (rule lock_step.renew_sent) (use due in \<open>simp_all add: lock_start_def needed_at_def\<close>)
  ultimately have r: "lock_reach True ?s0 ?s3"
    unfolding lock_reach_def by (meson rtranclp.rtrancl_into_rtrancl rtranclp.rtrancl_refl)
  have l: "lk_log ?s3 = [] @ RenewStart 0 5 # []" by (simp add: lock_start_def)
  show ?thesis
    using r l renewals_serialized [OF r] by (metis append_Nil)
qed

text \<open>
  C23: What \<open>ensure_valid_token\<close> decides, at the instant it reads from the clock. Without a token it logs
  in if it can; a token without expiry is left alone. A token with a lease is left alone until
  the last fifth of its lease, up to a millisecond of floating-point rounding; from then on, it is
  renewed if it is renewable, else replaced by a login if there is an auth method, else left alone.
  The decision never fails or panics while the clock is a lease away from its end, and it is the one
  that the interleaving model takes.
\<close>

theorem renewal_decision:
  assumes "\<not> token_poisoned s" and "clock c s = (t, s1)"
    and "\<And>ts. token s = Some ts \<Longrightarrow> ts_lease_duration ts \<le> secs (2 ^ 32) \<and> t + ts_lease_duration ts \<le> instant_max"
  shows "\<exists>a. fst (lifecycle_action c s) = Ok a \<and> choose_action (auth_method c \<noteq> None) t (token s) = Ok a
    \<and> (case token s of
         None \<Rightarrow> a = (if auth_method c \<noteq> None then ActReAuth else ActOk)
       | Some ts \<Rightarrow>
           (case ts_expires_at ts of
              None \<Rightarrow> a = ActOk
            | Some expires \<Rightarrow>
                (5 * t + ts_lease_duration ts + 5 * millis 1 < 5 * expires \<longrightarrow> a = ActOk)
                \<and> (5 * expires + 5 * millis 1 \<le> 5 * t + ts_lease_duration ts \<longrightarrow>
                     a = (if ts_renewable ts then ActRenew
                          else if auth_method c \<noteq> None then ActReAuth else ActOk))))"
proof (cases "token s")
  case None
  then show ?thesis using assms(1) by (simp add: lifecycle_action_def choose_action_def)
next
  case (Some ts)
  show ?thesis
  proof (cases "ts_expires_at ts")
    case None
    then show ?thesis using assms(1) Some
      by (simp add: lifecycle_action_def choose_action_def needs_renewal_now_def token_needs_renewal_def bind_io_cases)
  next
    case (Some expires)
    obtain due where due: "token_needs_renewal t ts = Ok due"
      "5 * expires + 5 * millis 1 \<le> 5 * t + ts_lease_duration ts \<longrightarrow> due"
      "5 * t + ts_lease_duration ts + 5 * millis 1 < 5 * expires \<longrightarrow> \<not> due"
      using token_needs_renewal_window [OF Some] assms(3) [OF \<open>token s = Some ts\<close>] by blast
    have "fst (lifecycle_action c s) = choose_action (auth_method c \<noteq> None) t (token s)"
      using assms(1,2) \<open>token s = Some ts\<close> Some due(1)
      by (simp add: lifecycle_action_def choose_action_def needs_renewal_now_def bind_io_cases)
    then show ?thesis
      using \<open>token s = Some ts\<close> Some due by (auto simp: choose_action_def)
  qed
qed

theorem renewal_decision_witness:
  "fst (lifecycle_action (script_client []) (script_state [] (Some due_token))) = Ok ActRenew
   \<and> fst (lifecycle_action failing_login_client (script_state [] None)) = Ok ActReAuth"
  using renewal_decision [of "script_state [] (Some due_token)" "script_client []" 1000]
    renewal_decision [of "script_state [] None" failing_login_client 1000]
  by (auto simp: failing_login_client_def due_token_def secs_def millis_def instant_max_def clock_def)

text \<open>
  C24: What the lock does not protect. Storing a token does not take it, so a token that the program
  sets while a renewal is under way is lost: whatever token was set and whatever the renewal brings,
  there is an interleaving that ends with the renewed old token stored and the caller going on with
  it. And logins are not serialised: with an auth method and no token, any number of callers are
  logging in at the same time.
\<close>

theorem renewal_lock_gaps:
  assumes "ts_renewable ts" and "token_needs_renewal t ts = Ok True"
  shows "(\<exists>s. lock_reach has_auth (lock_start t (Some ts)) s
      \<and> lk_log s = [RenewStart i t, Stored (Some new), RenewEnd i, Stored (Some (token_of_auth t a))]
      \<and> lk_token s = Some (token_of_auth t a) \<and> lk_pcs s i = CReady)
    \<and> (\<exists>s. lock_reach True (lock_start t None) s \<and> (\<forall>j < n. lk_pcs s j = CLogin))"
proof
  let ?s0 = "lock_start t (Some ts)"
  let ?s1 = "goto i CWaiting ?s0"
  let ?s2 = "(goto i CHolding ?s1)\<lparr>lk_holder := Some i\<rparr>"
  let ?s3 = "noted (RenewStart i (lk_now ?s2)) (goto i CRenewing ?s2)"
  let ?s4 = "store (Some new) ?s3"
  let ?s5 = "release i CReady (store (Some (token_of_auth (lk_now ?s4) a)) (noted (RenewEnd i) ?s4))"
  have "lock_step has_auth ?s0 (goto i (case ActRenew of ActOk \<Rightarrow> CReady | ActReAuth \<Rightarrow> CLogin | ActRenew \<Rightarrow> CWaiting) ?s0)"
    by (rule lock_step.decided) (use assms in \<open>simp_all add: lock_start_def choose_action_def\<close>)
  then have "lock_step has_auth ?s0 ?s1" by simp
  moreover have "lock_step has_auth ?s1 ?s2"
    by (rule lock_step.acquired) (simp_all add: lock_start_def)
  moreover have "lock_step has_auth ?s2 ?s3"
    by (rule lock_step.renew_sent) (use assms in \<open>simp_all add: lock_start_def needed_at_def\<close>)
  moreover have "lock_step has_auth ?s3 ?s4" by (rule lock_step.replaced)
  moreover have "lock_step has_auth ?s4 ?s5" by (rule lock_step.renew_ok) simp
  ultimately have "lock_reach has_auth ?s0 ?s5"
    unfolding lock_reach_def by (meson rtranclp.rtrancl_into_rtrancl rtranclp.rtrancl_refl)
  then show "\<exists>s. lock_reach has_auth ?s0 s
      \<and> lk_log s = [RenewStart i t, Stored (Some new), RenewEnd i, Stored (Some (token_of_auth t a))]
      \<and> lk_token s = Some (token_of_auth t a) \<and> lk_pcs s i = CReady"
    by (intro exI [of _ ?s5] conjI) (simp_all add: lock_start_def)
  show "\<exists>s. lock_reach True (lock_start t None) s \<and> (\<forall>j < n. lk_pcs s j = CLogin)"
    using logins_pile_up [of t n] by blast
qed

theorem renewal_lock_gaps_witness:
  "(\<exists>s. lock_reach False (lock_start 5 (Some due_token)) s
      \<and> lk_log s = [RenewStart 0 5, Stored (Some root_token), RenewEnd 0, Stored (Some (token_of_auth 5 (auth_example ''old'')))]
      \<and> lk_token s = Some (token_of_auth 5 (auth_example ''old'')) \<and> lk_pcs s 0 = CReady)
    \<and> (\<exists>s. lock_reach True (lock_start 5 None) s \<and> (\<forall>j < 100. lk_pcs s j = CLogin))"
proof (rule renewal_lock_gaps)
  show "token_needs_renewal 5 due_token = Ok True"
    using token_needs_renewal_window [of due_token 0 5]
    by (auto simp: due_token_def secs_def millis_def instant_max_def)
qed (simp add: due_token_def)

end
