(* ===== verification/Api.thy ===== *)
theory Api
  imports Outage
begin

text \<open>
  What the API handlers (\<open>api/**\<close>) share: a handler is a client with a percent-encoded mount;
  a login stores the token of its answer. Then which requests a call can send at all: its own, the
  token renewal, and those of the login that \<open>auth_method\<close> performs.
\<close>

section \<open>Handlers\<close>

record 'w handler =
  h_client :: "'w client"
  h_mount :: string

named_theorems handler_defs

text \<open>The accessors of \<open>VaultClient\<close>; each handler type has the same two fields.\<close>

definition cubbyhole :: "'w client \<Rightarrow> string \<Rightarrow> 'w handler" where
  [handler_defs]: "cubbyhole c mount = \<lparr>h_client = c, h_mount = encode_path mount\<rparr>"

definition kv1 :: "'w client \<Rightarrow> string \<Rightarrow> 'w handler" where
  [handler_defs]: "kv1 c mount = \<lparr>h_client = c, h_mount = encode_path mount\<rparr>"

definition kv2 :: "'w client \<Rightarrow> string \<Rightarrow> 'w handler" where
  [handler_defs]: "kv2 c mount = \<lparr>h_client = c, h_mount = encode_path mount\<rparr>"

definition transit :: "'w client \<Rightarrow> string \<Rightarrow> 'w handler" where
  [handler_defs]: "transit c mount = \<lparr>h_client = c, h_mount = encode_path mount\<rparr>"

definition pki :: "'w client \<Rightarrow> string \<Rightarrow> 'w handler" where
  [handler_defs]: "pki c mount = \<lparr>h_client = c, h_mount = encode_path mount\<rparr>"

definition database :: "'w client \<Rightarrow> string \<Rightarrow> 'w handler" where
  [handler_defs]: "database c mount = \<lparr>h_client = c, h_mount = encode_path mount\<rparr>"

definition ssh :: "'w client \<Rightarrow> string \<Rightarrow> 'w handler" where
  [handler_defs]: "ssh c mount = \<lparr>h_client = c, h_mount = encode_path mount\<rparr>"

definition aws_secrets :: "'w client \<Rightarrow> string \<Rightarrow> 'w handler" where
  [handler_defs]: "aws_secrets c mount = \<lparr>h_client = c, h_mount = encode_path mount\<rparr>"

definition totp :: "'w client \<Rightarrow> string \<Rightarrow> 'w handler" where
  [handler_defs]: "totp c mount = \<lparr>h_client = c, h_mount = encode_path mount\<rparr>"

definition consul_secrets :: "'w client \<Rightarrow> string \<Rightarrow> 'w handler" where
  [handler_defs]: "consul_secrets c mount = \<lparr>h_client = c, h_mount = encode_path mount\<rparr>"

definition nomad_secrets :: "'w client \<Rightarrow> string \<Rightarrow> 'w handler" where
  [handler_defs]: "nomad_secrets c mount = \<lparr>h_client = c, h_mount = encode_path mount\<rparr>"

definition azure_secrets :: "'w client \<Rightarrow> string \<Rightarrow> 'w handler" where
  [handler_defs]: "azure_secrets c mount = \<lparr>h_client = c, h_mount = encode_path mount\<rparr>"

definition gcp_secrets :: "'w client \<Rightarrow> string \<Rightarrow> 'w handler" where
  [handler_defs]: "gcp_secrets c mount = \<lparr>h_client = c, h_mount = encode_path mount\<rparr>"

definition rabbitmq :: "'w client \<Rightarrow> string \<Rightarrow> 'w handler" where
  [handler_defs]: "rabbitmq c mount = \<lparr>h_client = c, h_mount = encode_path mount\<rparr>"

definition terraform_cloud :: "'w client \<Rightarrow> string \<Rightarrow> 'w handler" where
  [handler_defs]: "terraform_cloud c mount = \<lparr>h_client = c, h_mount = encode_path mount\<rparr>"

section \<open>Logins\<close>

text \<open>The tail of every login method: the auth block must be there, is stored, is returned.\<close>

definition login_result :: "'w client \<Rightarrow> ('w, 'a vault_response) io \<Rightarrow> ('w, auth_info) io" where
  "login_result c m =
     bind_io m (\<lambda>resp.
     bind_io (lift_io (ok_or (auth resp) EmptyResponse)) (\<lambda>a.
     bind_io (update_token_from_auth c a) (\<lambda>_. ret_io a)))"

section \<open>Which requests an action sends\<close>

text \<open>
  \<open>sent P\<close>: the trace grew, and every request it grew by satisfies \<open>P\<close>. \<open>asks c m path body rq\<close>:
  \<open>rq\<close> is the request of a call, made with whatever token was stored.
\<close>

definition sent :: "(http_request \<Rightarrow> bool) \<Rightarrow> 'w cstate \<Rightarrow> 'w cstate \<Rightarrow> bool" where
  "sent P s s' \<longleftrightarrow> (\<exists>es. trace s' = trace s @ es \<and> list_all P (requests es))"

interpretation sent: state_preorder "sent P"
proof unfold_locales
  fix s s' s'' :: "'a cstate"
  show "sent P s s" by (simp add: sent_def)
  assume "sent P s s'" and "sent P s' s''"
  then obtain es fs where "trace s' = trace s @ es" "list_all P (requests es)"
    "trace s'' = trace s' @ fs" "list_all P (requests fs)" by (auto simp: sent_def)
  then show "sent P s s''" by (auto simp: sent_def intro!: exI [of _ "es @ fs"])
qed

lemma sent_mono: "sent P s s' \<Longrightarrow> (\<And>rq. P rq \<Longrightarrow> Q rq) \<Longrightarrow> sent Q s s'"
  unfolding sent_def by (metis list_all_iff)

lemma keeps_sent_mono: "keeps (sent P) m \<Longrightarrow> (\<And>rq. P rq \<Longrightarrow> Q rq) \<Longrightarrow> keeps (sent Q) m"
  by (auto simp: keeps_def intro: sent_mono)

definition asks :: "'w client \<Rightarrow> http_method \<Rightarrow> string \<Rightarrow> json option \<Rightarrow> http_request \<Rightarrow> bool" where
  "asks c m path body rq \<longleftrightarrow>
     (case e_url (cl_env c) (url_string c path) of
        Inl _ \<Rightarrow> False
      | Inr url \<Rightarrow> rq_method rq = m \<and> rq_url rq = url \<and> rq_body rq = map_option JsonBody body)"

definition renews :: "'w client \<Rightarrow> http_request \<Rightarrow> bool" where
  "renews c = asks c POST ''auth/token/renew-self'' None"

text \<open>\<open>upkeep c L\<close>: the requests of the token lifecycle, \<open>L\<close> those of the login of \<open>auth_method\<close>.\<close>

definition upkeep :: "'w client \<Rightarrow> (http_request \<Rightarrow> bool) \<Rightarrow> http_request \<Rightarrow> bool" where
  "upkeep c L rq \<longleftrightarrow> renews c rq \<or> L rq"

definition login_sends :: "'w client \<Rightarrow> (http_request \<Rightarrow> bool) \<Rightarrow> bool" where
  "login_sends c L \<longleftrightarrow> (\<forall>login ns w. auth_method c = Some login \<longrightarrow> keeps (sent L) (login ns w))"

lemma execute_raw_asks:
  assumes "clone_faithful (cl_env c)"
  shows "keeps (sent (asks c m path body)) (execute_raw c m path body)"
  unfolding keeps_def
proof
  fix s
  obtain r s' where ex: "execute_raw c m path body s = (r, s')" by fastforce
  show "sent (asks c m path body) s (snd (execute_raw c m path body s))"
    by (rule execute_raw_requests [OF assms ex])
      (auto simp: ex sent_def only_requests_def asks_def list_all_iff
        intro!: exI split: sum.splits)
qed

lemma update_token_sends: "keeps (sent P) (update_token_from_auth c a)"
  by (auto simp: keeps_def sent_def update_token_from_auth_def clock_def Let_def split: prod.splits)

lemma clock_sends: "clock c s = (t, s') \<Longrightarrow> sent P s s'"
  by (auto simp: sent_def dest: clock_frame)

lemma execute_sends:
  assumes cf: "clone_faithful (cl_env c)" and lg: "login_sends c L"
  shows "keeps (sent (\<lambda>rq. asks c m path body rq \<or> upkeep c L rq)) (execute c m path body)"
    (is "keeps (sent ?P) _")
proof (rule sent.keeps_execute)
  show "keeps (sent ?P) (execute_raw c POST ''auth/token/renew-self'' None)"
    by (rule keeps_sent_mono [OF execute_raw_asks [OF cf]]) (simp add: upkeep_def renews_def)
  show "keeps (sent ?P) (execute_raw c m path body)"
    by (rule keeps_sent_mono [OF execute_raw_asks [OF cf]]) simp
  show "keeps (sent ?P) (login ns w)" if "auth_method c = Some login" for login ns w
    by (rule keeps_sent_mono [of L]) (use lg that in \<open>auto simp: login_sends_def upkeep_def\<close>)
qed (simp_all add: clock_sends update_token_sends)

text \<open>A login never enters the token lifecycle: it sends its own request only.\<close>

lemma execute_login_sends:
  "clone_faithful (cl_env c) \<Longrightarrow> is_login path \<Longrightarrow> keeps (sent (asks c m path body)) (execute c m path body)"
  by (simp add: execute_login execute_raw_asks)

section \<open>Confinement\<close>

text \<open>
  \<open>inside c L pre\<close>: a request to a path that starts with \<open>pre\<close>, or one of the lifecycle. An
  action that \<open>stays\<close> sends nothing else, evolves the state and obeys the meter of theory
  \<open>Outage\<close>; an operation is shown to stay within
  its mount by applying the rules \<open>confined\<close> to its definition.
\<close>

definition inside :: "'w client \<Rightarrow> (http_request \<Rightarrow> bool) \<Rightarrow> string \<Rightarrow> http_request \<Rightarrow> bool" where
  "inside c L pre rq \<longleftrightarrow>
     (\<exists>m path body. starts_with path pre \<and> asks c m path body rq) \<or> upkeep c L rq"

definition stays :: "'w client \<Rightarrow> (http_request \<Rightarrow> bool) \<Rightarrow> string \<Rightarrow> ('w, 'a) io \<Rightarrow> bool" where
  "stays c L pre m \<longleftrightarrow>
     keeps (sent (inside c L pre)) m \<and> keeps evolves m \<and> keeps (metered (Suc (max_retries (config c)))) m"

definition lawful :: "'w client \<Rightarrow> (http_request \<Rightarrow> bool) \<Rightarrow> bool" where
  "lawful c L \<longleftrightarrow>
     clone_faithful (cl_env c) \<and> login_sends c L \<and> login_evolves c \<and> login_metered c"

named_theorems confined

lemma stays_execute [confined]:
  assumes "lawful c L" and "starts_with path pre"
  shows "stays c L pre (execute c m path body)"
  unfolding stays_def
proof (intro conjI)
  show "keeps (sent (inside c L pre)) (execute c m path body)"
    by (rule keeps_sent_mono [OF execute_sends]) (use assms in \<open>auto simp: lawful_def inside_def\<close>)
  show "keeps evolves (execute c m path body)"
    using assms(1) by (simp add: lawful_def evolves_execute)
  show "keeps (metered (Suc (max_retries (config c)))) (execute c m path body)"
    using assms(1) by (simp add: lawful_def metered_execute)
qed

lemma stays_lift [confined]: "stays c L pre (lift_io r)"
  by (simp add: stays_def sent.keeps_lift ev.keeps_lift met.keeps_lift)

lemma stays_bind [confined]:
  "stays c L pre m \<Longrightarrow> (\<And>a. stays c L pre (f a)) \<Longrightarrow> stays c L pre (bind_io m f)"
  unfolding stays_def by (blast intro: sent.keeps_bind ev.keeps_bind met.keeps_bind)

lemma stays_map [confined]: "stays c L pre m \<Longrightarrow> stays c L pre (map_io f m)"
  unfolding stays_def by (blast intro: sent.keeps_map ev.keeps_map met.keeps_map)

lemma stays_update [confined]: "stays c L pre (update_token_from_auth c' a)"
  by (simp add: stays_def update_token_sends evolves_update_token metered_update_token)

lemma stays_wrappers [confined]:
  assumes "lawful c L" and "starts_with path pre"
  shows "stays c L pre (exec_with_auth c d m path body)"
    and "stays c L pre (exec_with_data c d m path body)"
    and "stays c L pre (exec_empty c m path body)"
    and "stays c L pre (exec_direct c d m path body)"
    and "stays c L pre (exec_list c path)"
    and "stays c L pre (exec_patch c d path b)"
  by (simp_all add: exec_with_auth_def exec_with_data_def exec_empty_def exec_direct_def exec_list_def
      exec_patch_def stays_map stays_execute assms)

lemma stays_login [confined]: "stays c L pre m \<Longrightarrow> stays c L pre (login_result c' m)"
  unfolding login_result_def by (intro confined)

section \<open>Payloads\<close>

text \<open>
  The payload of an envelope: what the decoder of \<open>data\<close> made of it, and the same envelope read
  with another decoder.
\<close>

lemma fld_opt_SomeD:
  assumes "fld_opt d k v = Some (Some r)"
  obtains x where "json_get v k = Some x" and "x \<noteq> JNull" and "d x = Some r"
proof (cases "json_get v k")
  case (Some x)
  then show thesis using assms by (cases x) (auto simp: fld_opt_def intro: that)
qed (use assms in \<open>simp add: fld_opt_def\<close>)

lemma fld_opt_SomeI: "json_get v k = Some x \<Longrightarrow> x \<noteq> JNull \<Longrightarrow> d x = Some r \<Longrightarrow> fld_opt d k v = Some (Some r)"
  by (cases x) (simp_all add: fld_opt_def)

lemma de_vault_response_data:
  assumes "de_vault_response d v = Some e"
  shows "fld_opt d ''data'' v = Some (data e)"
  using assms by (auto simp: de_vault_response_def in_obj_def bind_eq_Some_conv split: option.splits)

lemma de_vault_response_redecode:
  assumes "de_vault_response d v = Some e" and "fld_opt d' ''data'' v = Some y"
  obtains e' where "de_vault_response d' v = Some e'" and "data e' = y"
proof -
  have "\<exists>e'. de_vault_response d' v = Some e' \<and> data e' = y"
    using assms
    by (clarsimp simp: de_vault_response_def in_obj_def bind_eq_Some_conv split: option.splits)
  then show thesis using that by blast
qed

text \<open>What a call of \<open>exec_with_data\<close> returns, given the answer it got.\<close>

lemma exec_with_data_ok:
  assumes "execute c m path body s = (Ok resp, s')" and "rs_status resp \<noteq> 404"
    and "rs_body resp = Inr t" and "e_json (cl_env c) t = Inr v"
    and "de_vault_response d v = Some e" and "data e = Some x"
  shows "exec_with_data c d m path body s = (Ok x, s')"
  using assms by (simp add: exec_with_data_def map_io_apply not_found_check_def json_body_def ok_or_def)

lemma exec_with_data_payload:
  assumes "execute c m path body s = (Ok resp, s')" and "rs_status resp \<noteq> 404"
    and "rs_body resp = Inr t" and "e_json (cl_env c) t = Inr v"
    and "de_vault_response de_value v = Some e" and "data e = Some p" and "d p = Some x"
  shows "exec_with_data c d m path body s = (Ok x, s')"
proof -
  obtain y where y: "json_get v ''data'' = Some y" "y \<noteq> JNull" "de_value y = Some p"
    using de_vault_response_data [OF assms(5)] assms(6) by (auto elim: fld_opt_SomeD)
  then have "fld_opt d ''data'' v = Some (Some x)"
    using assms(7) by (auto simp: de_value_def intro: fld_opt_SomeI)
  then show ?thesis
    using de_vault_response_redecode [OF assms(5), of d "Some x"] exec_with_data_ok [OF assms(1-4)] by metis
qed

end
