(* ===== verification/Kv.thy ===== *)
theory Kv
  imports Api
begin

text \<open>
  The key-value engines: the types of \<open>types/kv.rs\<close>, and the handlers of \<open>api/kv1.rs\<close>,
  \<open>api/kv2.rs\<close> and \<open>api/cubbyhole.rs\<close>.
\<close>

section \<open>Types\<close>

record kv_metadata =
  KvMetadata_created_time :: string
  KvMetadata_custom_metadata :: "((string \<times> string) list) option"
  KvMetadata_deletion_time :: string
  KvMetadata_destroyed :: bool
  KvMetadata_version :: nat

definition de_kv_metadata :: "json \<Rightarrow> kv_metadata option" where
  "de_kv_metadata = in_obj (\<lambda>v.
     Option.bind (fld de_string ''created_time'' v) (\<lambda>x0.
     Option.bind (fld_opt (de_map de_string) ''custom_metadata'' v) (\<lambda>x1.
     Option.bind (fld_default [] de_string ''deletion_time'' v) (\<lambda>x2.
     Option.bind (fld_default False de_bool ''destroyed'' v) (\<lambda>x3.
     Option.bind (fld (de_uint 64) ''version'' v) (\<lambda>x4.
       Some \<lparr>KvMetadata_created_time = x0, KvMetadata_custom_metadata = x1, KvMetadata_deletion_time
             = x2, KvMetadata_destroyed = x3, KvMetadata_version = x4\<rparr>))))))"

record 'a kv_read_response =
  KvReadResponse_data :: "'a"
  KvReadResponse_metadata :: kv_metadata

definition de_kv_read_response :: "(json \<Rightarrow> 'a option) \<Rightarrow> json \<Rightarrow> ('a kv_read_response) option" where
  "de_kv_read_response d = in_obj (\<lambda>v.
     Option.bind (fld d ''data'' v) (\<lambda>x0.
     Option.bind (fld de_kv_metadata ''metadata'' v) (\<lambda>x1.
       Some \<lparr>KvReadResponse_data = x0, KvReadResponse_metadata = x1\<rparr>)))"

record kv_version_metadata =
  KvVersionMetadata_created_time :: string
  KvVersionMetadata_deletion_time :: string
  KvVersionMetadata_destroyed :: bool

definition de_kv_version_metadata :: "json \<Rightarrow> kv_version_metadata option" where
  "de_kv_version_metadata = in_obj (\<lambda>v.
     Option.bind (fld de_string ''created_time'' v) (\<lambda>x0.
     Option.bind (fld_default [] de_string ''deletion_time'' v) (\<lambda>x1.
     Option.bind (fld_default False de_bool ''destroyed'' v) (\<lambda>x2.
       Some \<lparr>KvVersionMetadata_created_time = x0, KvVersionMetadata_deletion_time = x1,
             KvVersionMetadata_destroyed = x2\<rparr>))))"

record kv_full_metadata =
  KvFullMetadata_cas_required :: bool
  KvFullMetadata_created_time :: string
  KvFullMetadata_current_version :: nat
  KvFullMetadata_custom_metadata :: "((string \<times> string) list) option"
  KvFullMetadata_delete_version_after :: string
  KvFullMetadata_max_versions :: nat
  KvFullMetadata_oldest_version :: nat
  KvFullMetadata_updated_time :: string
  KvFullMetadata_versions :: "(string \<times> kv_version_metadata) list"

definition de_kv_full_metadata :: "json \<Rightarrow> kv_full_metadata option" where
  "de_kv_full_metadata = in_obj (\<lambda>v.
     Option.bind (fld de_bool ''cas_required'' v) (\<lambda>x0.
     Option.bind (fld de_string ''created_time'' v) (\<lambda>x1.
     Option.bind (fld (de_uint 64) ''current_version'' v) (\<lambda>x2.
     Option.bind (fld_opt (de_map de_string) ''custom_metadata'' v) (\<lambda>x3.
     Option.bind (fld_default [] de_string ''delete_version_after'' v) (\<lambda>x4.
     Option.bind (fld (de_uint 64) ''max_versions'' v) (\<lambda>x5.
     Option.bind (fld (de_uint 64) ''oldest_version'' v) (\<lambda>x6.
     Option.bind (fld de_string ''updated_time'' v) (\<lambda>x7.
     Option.bind (fld_default [] (de_map de_kv_version_metadata) ''versions'' v) (\<lambda>x8.
       Some \<lparr>KvFullMetadata_cas_required = x0, KvFullMetadata_created_time = x1,
             KvFullMetadata_current_version = x2, KvFullMetadata_custom_metadata = x3,
             KvFullMetadata_delete_version_after = x4, KvFullMetadata_max_versions = x5,
             KvFullMetadata_oldest_version = x6, KvFullMetadata_updated_time = x7,
             KvFullMetadata_versions = x8\<rparr>))))))))))"

record kv_metadata_params =
  KvMetadataParams_max_versions :: "nat option"
  KvMetadataParams_cas_required :: "bool option"
  KvMetadataParams_delete_version_after :: "string option"
  KvMetadataParams_custom_metadata :: "((string \<times> string) list) option"

definition ser_kv_metadata_params :: "kv_metadata_params \<Rightarrow> json" where
  "ser_kv_metadata_params x = obj
     (opt_field ''max_versions'' jnat (KvMetadataParams_max_versions x)
      @ opt_field ''cas_required'' JBool (KvMetadataParams_cas_required x)
      @ opt_field ''delete_version_after'' JStr (KvMetadataParams_delete_version_after x)
      @ opt_field ''custom_metadata'' (ser_map JStr) (KvMetadataParams_custom_metadata x))"

record kv_config =
  KvConfig_cas_required :: "bool option"
  KvConfig_max_versions :: "nat option"
  KvConfig_delete_version_after :: "string option"

definition ser_kv_config :: "kv_config \<Rightarrow> json" where
  "ser_kv_config x = obj
     (opt_field ''cas_required'' JBool (KvConfig_cas_required x)
      @ opt_field ''max_versions'' jnat (KvConfig_max_versions x)
      @ opt_field ''delete_version_after'' JStr (KvConfig_delete_version_after x))"

definition de_kv_config :: "json \<Rightarrow> kv_config option" where
  "de_kv_config = in_obj (\<lambda>v.
     Option.bind (fld_opt de_bool ''cas_required'' v) (\<lambda>x0.
     Option.bind (fld_opt (de_uint 64) ''max_versions'' v) (\<lambda>x1.
     Option.bind (fld_opt de_string ''delete_version_after'' v) (\<lambda>x2.
       Some \<lparr>KvConfig_cas_required = x0, KvConfig_max_versions = x1, KvConfig_delete_version_after =
             x2\<rparr>))))"

definition dbg_kv_metadata :: "kv_metadata \<Rightarrow> dbg" where
  "dbg_kv_metadata x = DStruct ''KvMetadata''
     [(''created_time'', DStr (KvMetadata_created_time x)),
      (''custom_metadata'', dbg_opt (dbg_map DStr) (KvMetadata_custom_metadata x)),
      (''deletion_time'', DStr (KvMetadata_deletion_time x)),
      (''destroyed'', DBool (KvMetadata_destroyed x)),
      (''version'', DNum (KvMetadata_version x))]"

text \<open>The payload goes through \<open>redact\<close> as its own \<open>Debug\<close> text, here \<open>show_data\<close>.\<close>

definition dbg_kv_read_response :: "('a \<Rightarrow> string) \<Rightarrow> nat \<Rightarrow> 'a kv_read_response \<Rightarrow> dbg" where
  "dbg_kv_read_response show_data lvl x = DStruct ''KvReadResponse''
     [(''data'', DStr (redact lvl (show_data (KvReadResponse_data x)))),
      (''metadata'', dbg_kv_metadata (KvReadResponse_metadata x))]"

section \<open>KV version 1\<close>

definition kv1_read :: "'w handler \<Rightarrow> (json \<Rightarrow> 'a option) \<Rightarrow> string \<Rightarrow> ('w, 'a) io" where
  "kv1_read h d path =
     exec_with_data (h_client h) d GET (h_mount h @ ''/'' @ encode_path path) None"

definition kv1_write :: "'w handler \<Rightarrow> string \<Rightarrow> json \<Rightarrow> ('w, unit) io" where
  "kv1_write h path dat =
     exec_empty (h_client h) POST (h_mount h @ ''/'' @ encode_path path) (Some dat)"

definition kv1_delete :: "'w handler \<Rightarrow> string \<Rightarrow> ('w, unit) io" where
  "kv1_delete h path =
     exec_empty (h_client h) DELETE (h_mount h @ ''/'' @ encode_path path) None"

definition kv1_list :: "'w handler \<Rightarrow> string \<Rightarrow> ('w, string list) io" where
  "kv1_list h path =
     exec_list (h_client h) (h_mount h @ ''/'' @ encode_path path)"

text \<open>
  The inherent methods. \<open>print\<close> is the \<open>Display\<close> of \<open>serde_json::Value\<close>: a string field is
  returned as it is, any other value printed.
\<close>

definition kv1_write_serialize :: "'w handler \<Rightarrow> string \<Rightarrow> serial \<Rightarrow> ('w, unit) io" where
  "kv1_write_serialize h path dat = bind_io (lift_io (to_body dat)) (\<lambda>body. kv1_write h path body)"

definition kv1_read_data :: "'w handler \<Rightarrow> (json \<Rightarrow> 'a option) \<Rightarrow> string \<Rightarrow> ('w, 'a) io" where
  "kv1_read_data h d path = kv1_read h d path"

definition stringify :: "(json \<Rightarrow> string) \<Rightarrow> json \<Rightarrow> string" where
  "stringify print v = (case v of JStr s \<Rightarrow> s | other \<Rightarrow> print other)"

definition kv1_read_field :: "'w handler \<Rightarrow> (json \<Rightarrow> string) \<Rightarrow> string \<Rightarrow> string \<Rightarrow> ('w, string) io" where
  "kv1_read_field h print path fl =
     map_io (\<lambda>dat. ok_or (map_option (stringify print) (map_of dat fl)) (FieldNotFound (h_mount h) path fl))
       (kv1_read_data h (de_map de_value) path)"

definition kv1_read_string_data :: "'w handler \<Rightarrow> string \<Rightarrow> ('w, (string \<times> string) list) io" where
  "kv1_read_string_data h path = kv1_read h (de_map de_string) path"

section \<open>Cubbyhole\<close>

definition cubbyhole_read :: "'w handler \<Rightarrow> (json \<Rightarrow> 'a option) \<Rightarrow> string \<Rightarrow> ('w, 'a) io" where
  "cubbyhole_read h d path =
     exec_with_data (h_client h) d GET (h_mount h @ ''/'' @ encode_path path) None"

definition cubbyhole_write :: "'w handler \<Rightarrow> string \<Rightarrow> json \<Rightarrow> ('w, unit) io" where
  "cubbyhole_write h path dat =
     exec_empty (h_client h) POST (h_mount h @ ''/'' @ encode_path path) (Some dat)"

definition cubbyhole_delete :: "'w handler \<Rightarrow> string \<Rightarrow> ('w, unit) io" where
  "cubbyhole_delete h path =
     exec_empty (h_client h) DELETE (h_mount h @ ''/'' @ encode_path path) None"

definition cubbyhole_list :: "'w handler \<Rightarrow> string \<Rightarrow> ('w, string list) io" where
  "cubbyhole_list h path =
     exec_list (h_client h) (h_mount h @ ''/'' @ encode_path path)"

section \<open>KV version 2\<close>

definition kv2_read_config :: "'w handler \<Rightarrow> ('w, kv_config) io" where
  "kv2_read_config h =
     exec_with_data (h_client h) de_kv_config GET (h_mount h @ ''/config'') None"

definition kv2_write_config :: "'w handler \<Rightarrow> kv_config \<Rightarrow> ('w, unit) io" where
  "kv2_write_config h cfg =
     bind_io (lift_io (to_body (Inr (ser_kv_config cfg)))) (\<lambda>body.
       exec_empty (h_client h) POST (h_mount h @ ''/config'') (Some body))"

definition kv2_read :: "'w handler \<Rightarrow> (json \<Rightarrow> 'a option) \<Rightarrow> string \<Rightarrow> ('w, 'a kv_read_response) io" where
  "kv2_read h d path =
     exec_with_data (h_client h) (de_kv_read_response d) GET (h_mount h @ ''/data/'' @ encode_path
         path) None"

definition kv2_read_version :: "'w handler \<Rightarrow> (json \<Rightarrow> 'a option) \<Rightarrow> string \<Rightarrow> nat \<Rightarrow> ('w, 'a kv_read_response) io" where
  "kv2_read_version h d path version =
     exec_with_data (h_client h) (de_kv_read_response d) GET (h_mount h @ ''/data/'' @ encode_path
         path @ ''?version='' @ show_nat version) None"

definition kv2_write :: "'w handler \<Rightarrow> string \<Rightarrow> json \<Rightarrow> ('w, kv_metadata) io" where
  "kv2_write h path dat =
     (let body = obj [(''data'', dat)]
      in exec_with_data (h_client h) de_kv_metadata POST (h_mount h @ ''/data/'' @ encode_path path)
          (Some body))"

definition kv2_write_cas :: "'w handler \<Rightarrow> string \<Rightarrow> json \<Rightarrow> nat \<Rightarrow> ('w, kv_metadata) io" where
  "kv2_write_cas h path dat cas =
     (let body = obj [(''options'', obj [(''cas'', jnat cas)]), (''data'', dat)]
      in exec_with_data (h_client h) de_kv_metadata POST (h_mount h @ ''/data/'' @ encode_path path)
          (Some body))"

definition kv2_patch :: "'w handler \<Rightarrow> string \<Rightarrow> json \<Rightarrow> ('w, kv_metadata) io" where
  "kv2_patch h path dat =
     (let body = obj [(''data'', dat)]
      in exec_patch (h_client h) de_kv_metadata (h_mount h @ ''/data/'' @ encode_path path) body)"

definition kv2_list :: "'w handler \<Rightarrow> string \<Rightarrow> ('w, string list) io" where
  "kv2_list h path =
     exec_list (h_client h) (h_mount h @ ''/metadata/'' @ encode_path path)"

definition kv2_delete :: "'w handler \<Rightarrow> string \<Rightarrow> ('w, unit) io" where
  "kv2_delete h path =
     exec_empty (h_client h) DELETE (h_mount h @ ''/data/'' @ encode_path path) None"

definition kv2_read_metadata :: "'w handler \<Rightarrow> string \<Rightarrow> ('w, kv_full_metadata) io" where
  "kv2_read_metadata h path =
     exec_with_data (h_client h) de_kv_full_metadata GET (h_mount h @ ''/metadata/'' @ encode_path
         path) None"

definition kv2_write_metadata :: "'w handler \<Rightarrow> string \<Rightarrow> kv_metadata_params \<Rightarrow> ('w, unit) io" where
  "kv2_write_metadata h path meta =
     bind_io (lift_io (to_body (Inr (ser_kv_metadata_params meta)))) (\<lambda>body.
       exec_empty (h_client h) POST (h_mount h @ ''/metadata/'' @ encode_path path) (Some body))"

definition kv2_patch_metadata :: "'w handler \<Rightarrow> string \<Rightarrow> kv_metadata_params \<Rightarrow> ('w, unit) io" where
  "kv2_patch_metadata h path meta =
     bind_io (lift_io (to_body (Inr (ser_kv_metadata_params meta)))) (\<lambda>body.
       exec_empty (h_client h) PATCH (h_mount h @ ''/metadata/'' @ encode_path path) (Some body))"

definition kv2_delete_metadata :: "'w handler \<Rightarrow> string \<Rightarrow> ('w, unit) io" where
  "kv2_delete_metadata h path =
     exec_empty (h_client h) DELETE (h_mount h @ ''/metadata/'' @ encode_path path) None"

definition kv2_version_op :: "'w handler \<Rightarrow> string \<Rightarrow> string \<Rightarrow> nat list \<Rightarrow> ('w, unit) io" where
  "kv2_version_op h op path versions =
     (let body = obj [(''versions'', ser_vec jnat versions)]
      in exec_empty (h_client h) POST (h_mount h @ ''/'' @ op @ ''/'' @ encode_path path) (Some body))"

definition kv2_read_data :: "'w handler \<Rightarrow> (json \<Rightarrow> 'a option) \<Rightarrow> string \<Rightarrow> ('w, 'a) io" where
  "kv2_read_data h d path =
     map_io (\<lambda>r. Ok (KvReadResponse_data r)) (kv2_read h d path)"

definition kv2_delete_versions :: "'w handler \<Rightarrow> string \<Rightarrow> nat list \<Rightarrow> ('w, unit) io" where
  "kv2_delete_versions h path versions = kv2_version_op h ''delete'' path versions"

definition kv2_undelete_versions :: "'w handler \<Rightarrow> string \<Rightarrow> nat list \<Rightarrow> ('w, unit) io" where
  "kv2_undelete_versions h path versions = kv2_version_op h ''undelete'' path versions"

definition kv2_destroy_versions :: "'w handler \<Rightarrow> string \<Rightarrow> nat list \<Rightarrow> ('w, unit) io" where
  "kv2_destroy_versions h path versions = kv2_version_op h ''destroy'' path versions"

definition kv2_read_subkeys :: "'w handler \<Rightarrow> string \<Rightarrow> nat option \<Rightarrow> ('w, json) io" where
  "kv2_read_subkeys h path depth =
     (let url = (case depth of
                   Some d \<Rightarrow> h_mount h @ ''/subkeys/'' @ encode_path path @ ''?depth='' @ show_nat d
                 | None \<Rightarrow> h_mount h @ ''/subkeys/'' @ encode_path path)
      in exec_with_data (h_client h) de_value GET url None)"

text \<open>The inherent methods: any \<open>Serialize\<close> value, and single fields.\<close>

definition kv2_write_serialize :: "'w handler \<Rightarrow> string \<Rightarrow> serial \<Rightarrow> ('w, kv_metadata) io" where
  "kv2_write_serialize h path dat = bind_io (lift_io (to_body dat)) (\<lambda>body. kv2_write h path body)"

definition kv2_write_cas_serialize ::
  "'w handler \<Rightarrow> string \<Rightarrow> serial \<Rightarrow> nat \<Rightarrow> ('w, kv_metadata) io" where
  "kv2_write_cas_serialize h path dat cas =
     bind_io (lift_io (to_body dat)) (\<lambda>body. kv2_write_cas h path body cas)"

definition kv2_patch_serialize :: "'w handler \<Rightarrow> string \<Rightarrow> serial \<Rightarrow> ('w, kv_metadata) io" where
  "kv2_patch_serialize h path dat = bind_io (lift_io (to_body dat)) (\<lambda>body. kv2_patch h path body)"

definition kv2_write_field :: "'w handler \<Rightarrow> string \<Rightarrow> string \<Rightarrow> string \<Rightarrow> ('w, kv_metadata) io" where
  "kv2_write_field h path fl v = (let dat = obj [(fl, JStr v)] in kv2_write h path dat)"

definition kv2_read_field :: "'w handler \<Rightarrow> (json \<Rightarrow> string) \<Rightarrow> string \<Rightarrow> string \<Rightarrow> ('w, string) io" where
  "kv2_read_field h print path fl =
     map_io (\<lambda>dat. ok_or (map_option (stringify print) (map_of dat fl)) (FieldNotFound (h_mount h) path fl))
       (kv2_read_data h (de_map de_value) path)"

definition kv2_read_string_data :: "'w handler \<Rightarrow> string \<Rightarrow> ('w, (string \<times> string) list) io" where
  "kv2_read_string_data h path = kv2_read_data h (de_map de_string) path"

section \<open>Addressing\<close>

text \<open>The characters that would end the path part of a URL.\<close>

definition breaks :: "string \<Rightarrow> string" where
  "breaks path = filter (\<lambda>x. x = CHR ''?'' \<or> x = CHR ''#'') path"

lemma breaks_append [simp]: "breaks (a @ b) = breaks a @ breaks b"
  by (simp add: breaks_def)

lemma breaks_Cons: "breaks (x # a) = (if x = CHR ''?'' \<or> x = CHR ''#'' then x # breaks a else breaks a)"
  by (simp add: breaks_def)

lemma breaks_encode [simp]: "breaks (encode_path s) = []"
  using url_safe_encode [of s] by (auto simp: breaks_def url_safe_def list_all_iff filter_empty_conv)

lemma breaks_show_nat [simp]: "breaks (show_nat n) = []"
  using show_nat_digits [of n] by (auto simp: breaks_def is_digit_def list_all_iff filter_empty_conv)

section \<open>Properties\<close>

text \<open>
  No mount or path given to a versioned read can change which query the request carries: the
  path handed to the transport is under the mount's \<open>data\<close>, has the caller's path percent-encoded
  to one place, and its only question mark is that of the version number, which parses back.
\<close>

lemma kv2_version_query:
  "\<exists>pre. kv2_read_version (kv2 c mount) d path v
       = exec_with_data c (de_kv_read_response d) GET (pre @ ''?version='' @ show_nat v) None
     \<and> pre = encode_path mount @ ''/data/'' @ encode_path path
     \<and> breaks (pre @ ''?version='' @ show_nat v) = ''?''
     \<and> digits_value (show_nat v) = v"
  by (simp add: kv2_read_version_def kv2_def breaks_Cons)

lemma kv2_read_execute:
  assumes "execute c GET (encode_path mount @ ''/data/'' @ encode_path path) None s = (Ok resp, s')"
    and "rs_status resp \<noteq> 404" and "rs_body resp = Inr t" and "e_json (cl_env c) t = Inr v"
    and "de_vault_response de_value v = Some e" and "data e = Some p"
    and "json_get p ''data'' = Some dat" and "json_get p ''metadata'' = Some md" and "de_kv_metadata md = Some m"
    and "d dat = Some x"
  shows "kv2_read_data (kv2 c mount) d path s = (Ok x, s')"
proof -
  have "as_obj p \<noteq> None" using assms(7) by (auto simp: json_get_def split: option.splits)
  then have "de_kv_read_response d p = Some \<lparr>KvReadResponse_data = x, KvReadResponse_metadata = m\<rparr>"
    using assms(7-10) by (auto simp: de_kv_read_response_def in_obj_def fld_def)
  then have "kv2_read (kv2 c mount) d path s = (Ok \<lparr>KvReadResponse_data = x, KvReadResponse_metadata = m\<rparr>, s')"
    using exec_with_data_payload [OF assms(1-6), of "de_kv_read_response d"] by (simp add: kv2_read_def kv2_def)
  then show ?thesis by (simp add: kv2_read_data_def map_io_apply)
qed

text \<open>
  C27: A field written is the field read: the body that \<open>write_field\<close> posts has the value under its
  \<open>data\<close> such that, when the server's answer to the read of the same path carries that object as
  its payload, \<open>read_field\<close> returns exactly the value, whatever its characters.
\<close>

theorem kv2_field_roundtrip:
  assumes "execute c GET (encode_path mount @ ''/data/'' @ encode_path path) None s = (Ok resp, s')"
    and "rs_status resp \<noteq> 404" and "rs_body resp = Inr t" and "e_json (cl_env c) t = Inr v"
    and "de_vault_response de_value v = Some e" and "data e = Some p"
    and "json_get p ''metadata'' = Some md" and "de_kv_metadata md = Some m"
  shows "let body = obj [(''data'', obj [(fl, JStr x)])] in kv2_write_field (kv2 c mount) path fl x
      = exec_with_data c de_kv_metadata POST (encode_path mount @ ''/data/'' @ encode_path path) (Some body)
    \<and> (json_get p ''data'' = json_get body ''data''
       \<longrightarrow> kv2_read_field (kv2 c mount) print path fl s = (Ok x, s'))"
proof -
  have w: "kv2_write_field (kv2 c mount) path fl x
      = exec_with_data c de_kv_metadata POST (encode_path mount @ ''/data/'' @ encode_path path)
          (Some (obj [(''data'', obj [(fl, JStr x)])]))"
    by (simp add: kv2_write_field_def kv2_write_def kv2_def)
  have r: "kv2_read_field (kv2 c mount) print path fl s = (Ok x, s')"
    if "json_get p ''data'' = Some (obj [(fl, JStr x)])"
  proof -
    have "de_map de_value (obj [(fl, JStr x)]) = Some [(fl, JStr x)]"
      by (simp add: obj_def de_value_def)
    from kv2_read_execute [where d = "de_map de_value", OF assms(1-6) that assms(7,8) this] show ?thesis
      by (simp add: kv2_read_field_def map_io_apply ok_or_def stringify_def)
  qed
  show ?thesis by (simp add: Let_def w r)
qed

definition kv_answer :: json where
  "kv_answer = JObj [(''data'', JObj [(''data'', obj [(''pw'', JStr ''hunter2'')]),
     (''metadata'', JObj [(''created_time'', JStr []), (''version'', JNum 1)])])]"

theorem kv2_field_roundtrip_witness:
  "\<exists>s'. kv2_read_field (kv2 (script_client [(''kv'', kv_answer)]) ''secret'') (\<lambda>_. []) ''app'' ''pw''
     (script_state [answer 200 ''kv''] (Some root_token)) = (Ok ''hunter2'', s')"
proof -
  let ?c = "script_client [(''kv'', kv_answer)]"
  let ?p = "encode_path ''secret'' @ ''/data/'' @ encode_path ''app''"
  have "\<exists>resp s'. execute ?c GET p None (script_state [answer 200 ''kv''] (Some root_token)) = (Ok resp, s')
      \<and> rs_status resp = 200 \<and> rs_body resp = Inr ''kv''" for p
    by (simp add: execute_def ensure_valid_token_def lifecycle_action_def needs_renewal_now_def root_token_def run_raw)
  then obtain resp s' where ex: "execute ?c GET ?p None (script_state [answer 200 ''kv''] (Some root_token)) = (Ok resp, s')"
    "rs_status resp = 200" "rs_body resp = Inr ''kv''" by blast
  have js: "e_json (cl_env ?c) ''kv'' = Inr kv_answer" by simp
  obtain e p where e: "de_vault_response de_value kv_answer = Some e" "data e = Some p"
    "p = JObj [(''data'', obj [(''pw'', JStr ''hunter2'')]),
     (''metadata'', JObj [(''created_time'', JStr []), (''version'', JNum 1)])]"
    by (simp add: kv_answer_def de_vault_response_def fld_opt_def de_value_def)
  have md: "de_kv_metadata (JObj [(''created_time'', JStr []), (''version'', JNum 1)]) \<noteq> None"
    by (simp add: de_kv_metadata_def fld_def fld_opt_def fld_default_def)
  then obtain m where m: "de_kv_metadata (JObj [(''created_time'', JStr []), (''version'', JNum 1)]) = Some m" by blast
  have "rs_status resp \<noteq> 404" using ex(2) by simp
  from kv2_field_roundtrip [OF ex(1) this ex(3) js e(1,2), of _ m "''pw''" "''hunter2''" "\<lambda>_. []"] m e(3)
  show ?thesis by (auto simp: Let_def)
qed

end
