(* ===== verification/Transit.thy ===== *)
theory Transit
  imports Api
begin

text \<open>
  The transit engine: \<open>types/transit.rs\<close> and \<open>api/transit.rs\<close>. \<open>b64\<close> and \<open>unb64\<close> are the standard
  base64 engine of the base64 crate, arguments of the operations that use it.
\<close>

section \<open>Types\<close>

record transit_key_params =
  TransitKeyParams_key_type :: "string option"
  TransitKeyParams_derived :: "bool option"
  TransitKeyParams_convergent_encryption :: "bool option"
  TransitKeyParams_exportable :: "bool option"
  TransitKeyParams_allow_plaintext_backup :: "bool option"
  TransitKeyParams_auto_rotate_period :: "string option"
  TransitKeyParams_key_size :: "nat option"

definition ser_transit_key_params :: "transit_key_params \<Rightarrow> json" where
  "ser_transit_key_params x = obj
     (opt_field ''type'' JStr (TransitKeyParams_key_type x)
      @ opt_field ''derived'' JBool (TransitKeyParams_derived x)
      @ opt_field ''convergent_encryption'' JBool (TransitKeyParams_convergent_encryption x)
      @ opt_field ''exportable'' JBool (TransitKeyParams_exportable x)
      @ opt_field ''allow_plaintext_backup'' JBool (TransitKeyParams_allow_plaintext_backup x)
      @ opt_field ''auto_rotate_period'' JStr (TransitKeyParams_auto_rotate_period x)
      @ opt_field ''key_size'' jnat (TransitKeyParams_key_size x))"

record transit_key_info =
  TransitKeyInfo_key_type :: string
  TransitKeyInfo_deletion_allowed :: bool
  TransitKeyInfo_derived :: bool
  TransitKeyInfo_exportable :: bool
  TransitKeyInfo_allow_plaintext_backup :: bool
  TransitKeyInfo_keys :: "(string \<times> json) list"
  TransitKeyInfo_min_decryption_version :: nat
  TransitKeyInfo_min_encryption_version :: nat
  TransitKeyInfo_name :: string
  TransitKeyInfo_supports_encryption :: bool
  TransitKeyInfo_supports_decryption :: bool
  TransitKeyInfo_supports_derivation :: bool
  TransitKeyInfo_supports_signing :: bool
  TransitKeyInfo_auto_rotate_period :: nat
  TransitKeyInfo_latest_version :: nat

definition de_transit_key_info :: "json \<Rightarrow> transit_key_info option" where
  "de_transit_key_info = in_obj (\<lambda>v.
     Option.bind (fld de_string ''type'' v) (\<lambda>x0.
     Option.bind (fld de_bool ''deletion_allowed'' v) (\<lambda>x1.
     Option.bind (fld de_bool ''derived'' v) (\<lambda>x2.
     Option.bind (fld de_bool ''exportable'' v) (\<lambda>x3.
     Option.bind (fld de_bool ''allow_plaintext_backup'' v) (\<lambda>x4.
     Option.bind (fld_default [] (de_map de_value) ''keys'' v) (\<lambda>x5.
     Option.bind (fld (de_uint 64) ''min_decryption_version'' v) (\<lambda>x6.
     Option.bind (fld (de_uint 64) ''min_encryption_version'' v) (\<lambda>x7.
     Option.bind (fld de_string ''name'' v) (\<lambda>x8.
     Option.bind (fld de_bool ''supports_encryption'' v) (\<lambda>x9.
     Option.bind (fld de_bool ''supports_decryption'' v) (\<lambda>x10.
     Option.bind (fld de_bool ''supports_derivation'' v) (\<lambda>x11.
     Option.bind (fld de_bool ''supports_signing'' v) (\<lambda>x12.
     Option.bind (fld_default 0 (de_uint 64) ''auto_rotate_period'' v) (\<lambda>x13.
     Option.bind (fld (de_uint 64) ''latest_version'' v) (\<lambda>x14.
       Some \<lparr>TransitKeyInfo_key_type = x0, TransitKeyInfo_deletion_allowed = x1,
             TransitKeyInfo_derived = x2, TransitKeyInfo_exportable = x3,
             TransitKeyInfo_allow_plaintext_backup = x4, TransitKeyInfo_keys = x5,
             TransitKeyInfo_min_decryption_version = x6, TransitKeyInfo_min_encryption_version = x7,
             TransitKeyInfo_name = x8, TransitKeyInfo_supports_encryption = x9,
             TransitKeyInfo_supports_decryption = x10, TransitKeyInfo_supports_derivation = x11,
             TransitKeyInfo_supports_signing = x12, TransitKeyInfo_auto_rotate_period = x13,
             TransitKeyInfo_latest_version = x14\<rparr>))))))))))))))))"

record transit_key_config =
  TransitKeyConfig_min_decryption_version :: "nat option"
  TransitKeyConfig_min_encryption_version :: "nat option"
  TransitKeyConfig_deletion_allowed :: "bool option"
  TransitKeyConfig_exportable :: "bool option"
  TransitKeyConfig_allow_plaintext_backup :: "bool option"
  TransitKeyConfig_auto_rotate_period :: "string option"

definition ser_transit_key_config :: "transit_key_config \<Rightarrow> json" where
  "ser_transit_key_config x = obj
     (opt_field ''min_decryption_version'' jnat (TransitKeyConfig_min_decryption_version x)
      @ opt_field ''min_encryption_version'' jnat (TransitKeyConfig_min_encryption_version x)
      @ opt_field ''deletion_allowed'' JBool (TransitKeyConfig_deletion_allowed x)
      @ opt_field ''exportable'' JBool (TransitKeyConfig_exportable x)
      @ opt_field ''allow_plaintext_backup'' JBool (TransitKeyConfig_allow_plaintext_backup x)
      @ opt_field ''auto_rotate_period'' JStr (TransitKeyConfig_auto_rotate_period x))"

record transit_encrypt_response =
  TransitEncryptResponse_ciphertext :: string

definition de_transit_encrypt_response :: "json \<Rightarrow> transit_encrypt_response option" where
  "de_transit_encrypt_response = in_obj (\<lambda>v.
     Option.bind (fld de_string ''ciphertext'' v) (\<lambda>x0.
       Some \<lparr>TransitEncryptResponse_ciphertext = x0\<rparr>))"

record transit_decrypt_response =
  TransitDecryptResponse_plaintext :: secret

definition de_transit_decrypt_response :: "json \<Rightarrow> transit_decrypt_response option" where
  "de_transit_decrypt_response = in_obj (\<lambda>v.
     Option.bind (fld de_secret ''plaintext'' v) (\<lambda>x0.
       Some \<lparr>TransitDecryptResponse_plaintext = x0\<rparr>))"

definition dbg_transit_decrypt_response :: "nat \<Rightarrow> transit_decrypt_response \<Rightarrow> dbg" where
  "dbg_transit_decrypt_response lvl x = DStruct ''TransitDecryptResponse''
     [(''plaintext'', dbg_secret lvl (TransitDecryptResponse_plaintext x))]"

record transit_rewrap_response =
  TransitRewrapResponse_ciphertext :: string

definition de_transit_rewrap_response :: "json \<Rightarrow> transit_rewrap_response option" where
  "de_transit_rewrap_response = in_obj (\<lambda>v.
     Option.bind (fld de_string ''ciphertext'' v) (\<lambda>x0.
       Some \<lparr>TransitRewrapResponse_ciphertext = x0\<rparr>))"

record transit_batch_plaintext =
  TransitBatchPlaintext_plaintext :: secret
  TransitBatchPlaintext_context :: "string option"

definition ser_transit_batch_plaintext :: "transit_batch_plaintext \<Rightarrow> json" where
  "ser_transit_batch_plaintext x = obj
     ([(''plaintext'', ser_secret (TransitBatchPlaintext_plaintext x))]
      @ opt_field ''context'' JStr (TransitBatchPlaintext_context x))"

definition dbg_transit_batch_plaintext :: "nat \<Rightarrow> transit_batch_plaintext \<Rightarrow> dbg" where
  "dbg_transit_batch_plaintext lvl x = DStruct ''TransitBatchPlaintext''
     [(''plaintext'', DStr ''[REDACTED]''),
      (''context'', dbg_opt DStr (TransitBatchPlaintext_context x))]"

record transit_batch_ciphertext =
  TransitBatchCiphertext_ciphertext :: string
  TransitBatchCiphertext_error :: string

definition ser_transit_batch_ciphertext :: "transit_batch_ciphertext \<Rightarrow> json" where
  "ser_transit_batch_ciphertext x = obj
     ([(''ciphertext'', JStr (TransitBatchCiphertext_ciphertext x))]
      @ nonempty_field ''error'' JStr (TransitBatchCiphertext_error x))"

definition de_transit_batch_ciphertext :: "json \<Rightarrow> transit_batch_ciphertext option" where
  "de_transit_batch_ciphertext = in_obj (\<lambda>v.
     Option.bind (fld de_string ''ciphertext'' v) (\<lambda>x0.
     Option.bind (fld_default [] de_string ''error'' v) (\<lambda>x1.
       Some \<lparr>TransitBatchCiphertext_ciphertext = x0, TransitBatchCiphertext_error = x1\<rparr>)))"

record transit_sign_params =
  TransitSignParams_hash_algorithm :: "string option"
  TransitSignParams_signature_algorithm :: "string option"
  TransitSignParams_marshaling_algorithm :: "string option"
  TransitSignParams_prehashed :: "bool option"
  TransitSignParams_salt_length :: "string option"

definition ser_transit_sign_params :: "transit_sign_params \<Rightarrow> json" where
  "ser_transit_sign_params x = obj
     (opt_field ''hash_algorithm'' JStr (TransitSignParams_hash_algorithm x)
      @ opt_field ''signature_algorithm'' JStr (TransitSignParams_signature_algorithm x)
      @ opt_field ''marshaling_algorithm'' JStr (TransitSignParams_marshaling_algorithm x)
      @ opt_field ''prehashed'' JBool (TransitSignParams_prehashed x)
      @ opt_field ''salt_length'' JStr (TransitSignParams_salt_length x))"

record transit_sign_response =
  TransitSignResponse_signature :: string

definition de_transit_sign_response :: "json \<Rightarrow> transit_sign_response option" where
  "de_transit_sign_response = in_obj (\<lambda>v.
     Option.bind (fld de_string ''signature'' v) (\<lambda>x0.
       Some \<lparr>TransitSignResponse_signature = x0\<rparr>))"

record transit_verify_response =
  TransitVerifyResponse_valid :: bool

definition de_transit_verify_response :: "json \<Rightarrow> transit_verify_response option" where
  "de_transit_verify_response = in_obj (\<lambda>v.
     Option.bind (fld de_bool ''valid'' v) (\<lambda>x0.
       Some \<lparr>TransitVerifyResponse_valid = x0\<rparr>))"

record transit_hash_response =
  TransitHashResponse_sum :: string

definition de_transit_hash_response :: "json \<Rightarrow> transit_hash_response option" where
  "de_transit_hash_response = in_obj (\<lambda>v.
     Option.bind (fld de_string ''sum'' v) (\<lambda>x0.
       Some \<lparr>TransitHashResponse_sum = x0\<rparr>))"

record transit_hmac_response =
  TransitHmacResponse_hmac :: string

definition de_transit_hmac_response :: "json \<Rightarrow> transit_hmac_response option" where
  "de_transit_hmac_response = in_obj (\<lambda>v.
     Option.bind (fld de_string ''hmac'' v) (\<lambda>x0.
       Some \<lparr>TransitHmacResponse_hmac = x0\<rparr>))"

record transit_random_response =
  TransitRandomResponse_random_bytes :: string

definition de_transit_random_response :: "json \<Rightarrow> transit_random_response option" where
  "de_transit_random_response = in_obj (\<lambda>v.
     Option.bind (fld de_string ''random_bytes'' v) (\<lambda>x0.
       Some \<lparr>TransitRandomResponse_random_bytes = x0\<rparr>))"

record transit_data_key =
  TransitDataKey_ciphertext :: string
  TransitDataKey_plaintext :: "secret option"

definition de_transit_data_key :: "json \<Rightarrow> transit_data_key option" where
  "de_transit_data_key = in_obj (\<lambda>v.
     Option.bind (fld de_string ''ciphertext'' v) (\<lambda>x0.
     Option.bind (fld_opt de_secret ''plaintext'' v) (\<lambda>x1.
       Some \<lparr>TransitDataKey_ciphertext = x0, TransitDataKey_plaintext = x1\<rparr>)))"

definition dbg_transit_data_key :: "nat \<Rightarrow> transit_data_key \<Rightarrow> dbg" where
  "dbg_transit_data_key lvl x = DStruct ''TransitDataKey''
     [(''ciphertext'', DStr (TransitDataKey_ciphertext x)),
      (''plaintext'', dbg_opt (dbg_secret lvl) (TransitDataKey_plaintext x))]"

record transit_exported_key =
  TransitExportedKey_name :: string
  TransitExportedKey_keys :: "(string \<times> secret) list"
  TransitExportedKey_key_type :: string

definition de_transit_exported_key :: "json \<Rightarrow> transit_exported_key option" where
  "de_transit_exported_key = in_obj (\<lambda>v.
     Option.bind (fld de_string ''name'' v) (\<lambda>x0.
     Option.bind (fld (de_map de_secret) ''keys'' v) (\<lambda>x1.
     Option.bind (fld de_string ''type'' v) (\<lambda>x2.
       Some \<lparr>TransitExportedKey_name = x0, TransitExportedKey_keys = x1, TransitExportedKey_key_type
             = x2\<rparr>))))"

record transit_cache_config =
  TransitCacheConfig_size :: nat

definition de_transit_cache_config :: "json \<Rightarrow> transit_cache_config option" where
  "de_transit_cache_config = in_obj (\<lambda>v.
     Option.bind (fld (de_uint 64) ''size'' v) (\<lambda>x0.
       Some \<lparr>TransitCacheConfig_size = x0\<rparr>))"

record transit_batch_encrypt_response =
  TransitBatchEncryptResponse_batch_results :: "transit_batch_ciphertext list"

definition de_transit_batch_encrypt_response :: "json \<Rightarrow> transit_batch_encrypt_response option" where
  "de_transit_batch_encrypt_response = in_obj (\<lambda>v.
     Option.bind (fld_default [] (de_vec de_transit_batch_ciphertext) ''batch_results'' v) (\<lambda>x0.
       Some \<lparr>TransitBatchEncryptResponse_batch_results = x0\<rparr>))"

record transit_batch_decrypt_item =
  TransitBatchDecryptItem_plaintext :: "secret option"
  TransitBatchDecryptItem_error :: string

definition de_transit_batch_decrypt_item :: "json \<Rightarrow> transit_batch_decrypt_item option" where
  "de_transit_batch_decrypt_item = in_obj (\<lambda>v.
     Option.bind (fld_opt de_secret ''plaintext'' v) (\<lambda>x0.
     Option.bind (fld_default [] de_string ''error'' v) (\<lambda>x1.
       Some \<lparr>TransitBatchDecryptItem_plaintext = x0, TransitBatchDecryptItem_error = x1\<rparr>)))"

definition dbg_transit_batch_decrypt_item :: "nat \<Rightarrow> transit_batch_decrypt_item \<Rightarrow> dbg" where
  "dbg_transit_batch_decrypt_item lvl x = DStruct ''TransitBatchDecryptItem''
     [(''plaintext'', dbg_opt (dbg_secret lvl) (TransitBatchDecryptItem_plaintext x)),
      (''error'', DStr (TransitBatchDecryptItem_error x))]"

record transit_batch_decrypt_response =
  TransitBatchDecryptResponse_batch_results :: "transit_batch_decrypt_item list"

definition de_transit_batch_decrypt_response :: "json \<Rightarrow> transit_batch_decrypt_response option" where
  "de_transit_batch_decrypt_response = in_obj (\<lambda>v.
     Option.bind (fld_default [] (de_vec de_transit_batch_decrypt_item) ''batch_results'' v) (\<lambda>x0.
       Some \<lparr>TransitBatchDecryptResponse_batch_results = x0\<rparr>))"

record transit_backup_response =
  TransitBackupResponse_backup :: secret

definition de_transit_backup_response :: "json \<Rightarrow> transit_backup_response option" where
  "de_transit_backup_response = in_obj (\<lambda>v.
     Option.bind (fld de_secret ''backup'' v) (\<lambda>x0.
       Some \<lparr>TransitBackupResponse_backup = x0\<rparr>))"

definition dbg_transit_backup_response :: "nat \<Rightarrow> transit_backup_response \<Rightarrow> dbg" where
  "dbg_transit_backup_response lvl x = DStruct ''TransitBackupResponse''
     [(''backup'', dbg_secret lvl (TransitBackupResponse_backup x))]"

record transit_batch_sign_input =
  TransitBatchSignInput_input :: string
  TransitBatchSignInput_context :: "string option"

definition ser_transit_batch_sign_input :: "transit_batch_sign_input \<Rightarrow> json" where
  "ser_transit_batch_sign_input x = obj
     ([(''input'', JStr (TransitBatchSignInput_input x))]
      @ opt_field ''context'' JStr (TransitBatchSignInput_context x))"

record transit_batch_sign_result =
  TransitBatchSignResult_signature :: string
  TransitBatchSignResult_error :: string

definition de_transit_batch_sign_result :: "json \<Rightarrow> transit_batch_sign_result option" where
  "de_transit_batch_sign_result = in_obj (\<lambda>v.
     Option.bind (fld de_string ''signature'' v) (\<lambda>x0.
     Option.bind (fld_default [] de_string ''error'' v) (\<lambda>x1.
       Some \<lparr>TransitBatchSignResult_signature = x0, TransitBatchSignResult_error = x1\<rparr>)))"

record transit_batch_verify_input =
  TransitBatchVerifyInput_input :: string
  TransitBatchVerifyInput_signature :: string
  TransitBatchVerifyInput_context :: "string option"

definition ser_transit_batch_verify_input :: "transit_batch_verify_input \<Rightarrow> json" where
  "ser_transit_batch_verify_input x = obj
     ([(''input'', JStr (TransitBatchVerifyInput_input x))]
      @ [(''signature'', JStr (TransitBatchVerifyInput_signature x))]
      @ opt_field ''context'' JStr (TransitBatchVerifyInput_context x))"

record transit_batch_verify_result =
  TransitBatchVerifyResult_valid :: bool
  TransitBatchVerifyResult_error :: string

definition de_transit_batch_verify_result :: "json \<Rightarrow> transit_batch_verify_result option" where
  "de_transit_batch_verify_result = in_obj (\<lambda>v.
     Option.bind (fld de_bool ''valid'' v) (\<lambda>x0.
     Option.bind (fld_default [] de_string ''error'' v) (\<lambda>x1.
       Some \<lparr>TransitBatchVerifyResult_valid = x0, TransitBatchVerifyResult_error = x1\<rparr>)))"

record transit_batch_sign_response =
  TransitBatchSignResponse_batch_results :: "transit_batch_sign_result list"

definition de_transit_batch_sign_response :: "json \<Rightarrow> transit_batch_sign_response option" where
  "de_transit_batch_sign_response = in_obj (\<lambda>v.
     Option.bind (fld_default [] (de_vec de_transit_batch_sign_result) ''batch_results'' v) (\<lambda>x0.
       Some \<lparr>TransitBatchSignResponse_batch_results = x0\<rparr>))"

record transit_batch_verify_response =
  TransitBatchVerifyResponse_batch_results :: "transit_batch_verify_result list"

definition de_transit_batch_verify_response :: "json \<Rightarrow> transit_batch_verify_response option" where
  "de_transit_batch_verify_response = in_obj (\<lambda>v.
     Option.bind (fld_default [] (de_vec de_transit_batch_verify_result) ''batch_results'' v) (\<lambda>x0.
       Some \<lparr>TransitBatchVerifyResponse_batch_results = x0\<rparr>))"

text \<open>At level \<open>Full\<close> only the number of key versions is shown, otherwise each key redacted.\<close>

definition dbg_transit_exported_key :: "nat \<Rightarrow> transit_exported_key \<Rightarrow> dbg" where
  "dbg_transit_exported_key lvl x =
     (case redaction_level lvl of
        RFull \<Rightarrow>
          (let summary = ''[REDACTED; '' @ show_nat (length (TransitExportedKey_keys x)) @ '' versions]''
           in DStruct ''TransitExportedKey''
                [(''name'', DStr (TransitExportedKey_name x)),
                 (''keys'', DStr summary),
                 (''key_type'', DStr (TransitExportedKey_key_type x))])
      | _ \<Rightarrow>
          DStruct ''TransitExportedKey''
            [(''name'', DStr (TransitExportedKey_name x)),
             (''keys'', dbg_map (dbg_secret lvl) (TransitExportedKey_keys x)),
             (''key_type'', DStr (TransitExportedKey_key_type x))])"

section \<open>Operations\<close>

definition transit_create_key :: "'w handler \<Rightarrow> string \<Rightarrow> transit_key_params \<Rightarrow> ('w, unit) io" where
  "transit_create_key h name params =
     bind_io (lift_io (to_body (Inr (ser_transit_key_params params)))) (\<lambda>body.
       exec_empty (h_client h) POST (h_mount h @ ''/keys/'' @ encode_path name) (Some body))"

definition transit_read_key :: "'w handler \<Rightarrow> string \<Rightarrow> ('w, transit_key_info) io" where
  "transit_read_key h name =
     exec_with_data (h_client h) de_transit_key_info GET (h_mount h @ ''/keys/'' @ encode_path name)
         None"

definition transit_list_keys :: "'w handler \<Rightarrow> ('w, string list) io" where
  "transit_list_keys h =
     exec_list (h_client h) (h_mount h @ ''/keys'')"

definition transit_delete_key :: "'w handler \<Rightarrow> string \<Rightarrow> ('w, unit) io" where
  "transit_delete_key h name =
     exec_empty (h_client h) DELETE (h_mount h @ ''/keys/'' @ encode_path name) None"

definition transit_update_key_config :: "'w handler \<Rightarrow> string \<Rightarrow> transit_key_config \<Rightarrow> ('w, unit) io" where
  "transit_update_key_config h name cfg =
     bind_io (lift_io (to_body (Inr (ser_transit_key_config cfg)))) (\<lambda>body.
       exec_empty (h_client h) POST (h_mount h @ ''/keys/'' @ encode_path name @ ''/config'') (Some
           body))"

definition transit_rotate_key :: "'w handler \<Rightarrow> string \<Rightarrow> ('w, unit) io" where
  "transit_rotate_key h name =
     exec_empty (h_client h) POST (h_mount h @ ''/keys/'' @ encode_path name @ ''/rotate'') None"

definition transit_encrypt :: "'w handler \<Rightarrow> (string \<Rightarrow> string) \<Rightarrow> string \<Rightarrow> secret \<Rightarrow> ('w, string) io" where
  "transit_encrypt h b64 name plaintext =
     (let body = obj [(''plaintext'', JStr (b64 (expose_secret plaintext)))]
      in map_io (\<lambda>resp. Ok (TransitEncryptResponse_ciphertext resp)) (exec_with_data
          (h_client h) de_transit_encrypt_response POST (h_mount h @ ''/encrypt/'' @ encode_path name)
          (Some body)))"

definition transit_rewrap :: "'w handler \<Rightarrow> string \<Rightarrow> string \<Rightarrow> ('w, string) io" where
  "transit_rewrap h name ciphertext =
     (let body = obj [(''ciphertext'', JStr ciphertext)]
      in map_io (\<lambda>resp. Ok (TransitRewrapResponse_ciphertext resp)) (exec_with_data
          (h_client h) de_transit_rewrap_response POST (h_mount h @ ''/rewrap/'' @ encode_path name)
          (Some body)))"

definition transit_batch_encrypt :: "'w handler \<Rightarrow> string \<Rightarrow> transit_batch_plaintext list \<Rightarrow> ('w, transit_batch_ciphertext list) io" where
  "transit_batch_encrypt h name items =
     (let body = obj [(''batch_input'', ser_vec ser_transit_batch_plaintext items)]
      in map_io (\<lambda>resp. Ok (TransitBatchEncryptResponse_batch_results resp)) (exec_with_data
          (h_client h) de_transit_batch_encrypt_response POST (h_mount h @ ''/encrypt/'' @ encode_path
          name) (Some body)))"

definition transit_batch_decrypt :: "'w handler \<Rightarrow> string \<Rightarrow> transit_batch_ciphertext list \<Rightarrow> ('w, transit_batch_decrypt_item list) io" where
  "transit_batch_decrypt h name items =
     (let body = obj [(''batch_input'', ser_vec ser_transit_batch_ciphertext items)]
      in map_io (\<lambda>resp. Ok (TransitBatchDecryptResponse_batch_results resp)) (exec_with_data
          (h_client h) de_transit_batch_decrypt_response POST (h_mount h @ ''/decrypt/'' @ encode_path
          name) (Some body)))"

definition transit_verify :: "'w handler \<Rightarrow> (string \<Rightarrow> string) \<Rightarrow> string \<Rightarrow> string \<Rightarrow> string \<Rightarrow> ('w, bool) io" where
  "transit_verify h b64 name inp signature =
     (let body = obj [(''input'', JStr (b64 inp)), (''signature'', JStr signature)]
      in map_io (\<lambda>resp. Ok (TransitVerifyResponse_valid resp)) (exec_with_data (h_client h)
          de_transit_verify_response POST (h_mount h @ ''/verify/'' @ encode_path name) (Some body)))"

definition transit_hash :: "'w handler \<Rightarrow> (string \<Rightarrow> string) \<Rightarrow> string \<Rightarrow> string \<Rightarrow> ('w, string) io" where
  "transit_hash h b64 inp algorithm =
     (let body = obj [(''input'', JStr (b64 inp)), (''algorithm'', JStr algorithm)]
      in map_io (\<lambda>resp. Ok (TransitHashResponse_sum resp)) (exec_with_data (h_client h)
          de_transit_hash_response POST (h_mount h @ ''/hash'') (Some body)))"

definition transit_hmac :: "'w handler \<Rightarrow> (string \<Rightarrow> string) \<Rightarrow> string \<Rightarrow> string \<Rightarrow> string \<Rightarrow> ('w, string) io" where
  "transit_hmac h b64 name inp algorithm =
     (let body = obj [(''input'', JStr (b64 inp)), (''algorithm'', JStr algorithm)]
      in map_io (\<lambda>resp. Ok (TransitHmacResponse_hmac resp)) (exec_with_data (h_client h)
          de_transit_hmac_response POST (h_mount h @ ''/hmac/'' @ encode_path name) (Some body)))"

definition transit_random :: "'w handler \<Rightarrow> nat \<Rightarrow> string \<Rightarrow> ('w, string) io" where
  "transit_random h num_bytes fmt =
     (let body = obj [(''bytes'', jnat num_bytes), (''format'', JStr fmt)]
      in map_io (\<lambda>resp. Ok (TransitRandomResponse_random_bytes resp)) (exec_with_data
          (h_client h) de_transit_random_response POST (h_mount h @ ''/random'') (Some body)))"

definition transit_generate_data_key :: "'w handler \<Rightarrow> string \<Rightarrow> string \<Rightarrow> ('w, transit_data_key) io" where
  "transit_generate_data_key h name key_type =
     exec_with_data (h_client h) de_transit_data_key POST (h_mount h @ ''/datakey/'' @ encode_path
         key_type @ ''/'' @ encode_path name) None"

definition transit_trim_key :: "'w handler \<Rightarrow> string \<Rightarrow> nat \<Rightarrow> ('w, unit) io" where
  "transit_trim_key h name min_version =
     (let body = obj [(''min_available_version'', jnat min_version)]
      in exec_empty (h_client h) POST (h_mount h @ ''/keys/'' @ encode_path name @ ''/trim'') (Some
          body))"

definition transit_backup_key :: "'w handler \<Rightarrow> string \<Rightarrow> ('w, secret) io" where
  "transit_backup_key h name =
     map_io (\<lambda>resp. Ok (TransitBackupResponse_backup resp)) (exec_with_data (h_client h)
         de_transit_backup_response GET (h_mount h @ ''/backup/'' @ encode_path name) None)"

definition transit_restore_key :: "'w handler \<Rightarrow> string \<Rightarrow> secret \<Rightarrow> ('w, unit) io" where
  "transit_restore_key h name backup =
     (let body = obj [(''backup'', JStr (expose_secret backup))]
      in exec_empty (h_client h) POST (h_mount h @ ''/restore/'' @ encode_path name) (Some body))"

definition transit_batch_verify :: "'w handler \<Rightarrow> string \<Rightarrow> transit_batch_verify_input list \<Rightarrow> ('w, transit_batch_verify_result list) io" where
  "transit_batch_verify h name items =
     (let body = obj [(''batch_input'', ser_vec ser_transit_batch_verify_input items)]
      in map_io (\<lambda>resp. Ok (TransitBatchVerifyResponse_batch_results resp)) (exec_with_data
          (h_client h) de_transit_batch_verify_response POST (h_mount h @ ''/verify/'' @ encode_path
          name) (Some body)))"

definition transit_read_cache_config :: "'w handler \<Rightarrow> ('w, transit_cache_config) io" where
  "transit_read_cache_config h =
     exec_with_data (h_client h) de_transit_cache_config GET (h_mount h @ ''/cache-config'') None"

definition transit_write_cache_config :: "'w handler \<Rightarrow> nat \<Rightarrow> ('w, unit) io" where
  "transit_write_cache_config h sz =
     (let body = obj [(''size'', jnat sz)]
      in exec_empty (h_client h) POST (h_mount h @ ''/cache-config'') (Some body))"

definition transit_export_key ::
  "'w handler \<Rightarrow> string \<Rightarrow> string \<Rightarrow> nat option \<Rightarrow> ('w, transit_exported_key) io" where
  "transit_export_key h name key_type version =
     (let path = (case version of
                    Some v \<Rightarrow> h_mount h @ ''/export/'' @ encode_path key_type @ ''/'' @ encode_path name
                                @ ''/'' @ show_nat v
                  | None \<Rightarrow> h_mount h @ ''/export/'' @ encode_path key_type @ ''/'' @ encode_path name)
      in exec_with_data (h_client h) de_transit_exported_key GET path None)"

text \<open>
  \<open>String::from_utf8\<close>: the text of its error, \<open>None\<close> for valid UTF-8. \<open>i\<close> is the index reached.
\<close>

definition in_bytes :: "char \<Rightarrow> nat \<Rightarrow> nat \<Rightarrow> bool" where
  "in_bytes ch lo hi \<longleftrightarrow> lo \<le> of_char ch \<and> of_char ch \<le> hi"

definition utf8_invalid :: "nat \<Rightarrow> nat \<Rightarrow> string" where
  "utf8_invalid n i = ''invalid utf-8 sequence of '' @ show_nat n @ '' bytes from index '' @ show_nat i"

definition utf8_incomplete :: "nat \<Rightarrow> string" where
  "utf8_incomplete i = ''incomplete utf-8 byte sequence from index '' @ show_nat i"

text \<open>The second byte that may follow a first byte of a sequence of three or four.\<close>

definition second_ok :: "char \<Rightarrow> char \<Rightarrow> bool" where
  "second_ok a b \<longleftrightarrow>
     (if a = CHR 0xE0 then in_bytes b 0xA0 0xBF
      else if a = CHR 0xED then in_bytes b 0x80 0x9F
      else if a = CHR 0xF0 then in_bytes b 0x90 0xBF
      else if a = CHR 0xF4 then in_bytes b 0x80 0x8F
      else in_bytes b 0x80 0xBF)"

text \<open>The continuation bytes after the second: how many are still due, how many were seen.\<close>

fun utf8_rest :: "nat \<Rightarrow> nat \<Rightarrow> nat \<Rightarrow> string \<Rightarrow> string + string" where
  "utf8_rest i seen 0 bs = Inr bs"
| "utf8_rest i seen (Suc k) [] = Inl (utf8_incomplete i)"
| "utf8_rest i seen (Suc k) (b # bs) =
     (if is_continuation b then utf8_rest i (Suc seen) k bs else Inl (utf8_invalid seen i))"

lemma utf8_rest_length: "utf8_rest i n k bs = Inr r \<Longrightarrow> length r + k = length bs"
  by (induction i n k bs rule: utf8_rest.induct) (auto split: if_splits)

definition utf8_width :: "char \<Rightarrow> nat" where
  "utf8_width a =
     (if in_bytes a 0 0x7F then 1 else if in_bytes a 0xC2 0xDF then 2
      else if in_bytes a 0xE0 0xEF then 3 else if in_bytes a 0xF0 0xF4 then 4 else 0)"

function (sequential) utf8_error :: "nat \<Rightarrow> string \<Rightarrow> string option" where
  "utf8_error i [] = None"
| "utf8_error i (a # bs) =
     (if utf8_width a = 1 then utf8_error (i + 1) bs
      else if utf8_width a = 0 then Some (utf8_invalid 1 i)
      else (case bs of
              [] \<Rightarrow> Some (utf8_incomplete i)
            | b # r \<Rightarrow>
                if second_ok a b then
                  (case utf8_rest i 2 (utf8_width a - 2) r of
                     Inl e \<Rightarrow> Some e
                   | Inr r' \<Rightarrow> utf8_error (i + utf8_width a) r')
                else Some (utf8_invalid 1 i)))"
  by pat_completeness auto
termination
  by (relation "measure (length \<circ> snd)") (auto dest: utf8_rest_length)

definition transit_decrypt ::
  "'w handler \<Rightarrow> (string \<Rightarrow> string + string) \<Rightarrow> string \<Rightarrow> string \<Rightarrow> ('w, secret) io" where
  "transit_decrypt h unb64 name ciphertext =
     (let body = obj [(''ciphertext'', JStr ciphertext)]
      in map_io (\<lambda>resp.
           case unb64 (expose_secret (TransitDecryptResponse_plaintext resp)) of
             Inl e \<Rightarrow> Err (Config (''base64 decode: '' @ e))
           | Inr decoded \<Rightarrow>
               (case utf8_error 0 decoded of
                  Some e \<Rightarrow> Err (Config (''utf-8 decode: '' @ e))
                | None \<Rightarrow> Ok (Secret decoded)))
         (exec_with_data (h_client h) de_transit_decrypt_response POST
           (h_mount h @ ''/decrypt/'' @ encode_path name) (Some body)))"

definition transit_sign ::
  "'w handler \<Rightarrow> (string \<Rightarrow> string) \<Rightarrow> string \<Rightarrow> string \<Rightarrow> transit_sign_params \<Rightarrow> ('w, string) io" where
  "transit_sign h b64 name inp params =
     bind_io (lift_io (to_body (Inr (ser_transit_sign_params params)))) (\<lambda>body0.
     bind_io (lift_io (json_set body0 ''input'' (JStr (b64 inp)))) (\<lambda>body.
       map_io (\<lambda>resp. Ok (TransitSignResponse_signature resp))
         (exec_with_data (h_client h) de_transit_sign_response POST
           (h_mount h @ ''/sign/'' @ encode_path name) (Some body))))"

definition transit_batch_sign ::
  "'w handler \<Rightarrow> string \<Rightarrow> transit_batch_sign_input list \<Rightarrow> transit_sign_params
     \<Rightarrow> ('w, transit_batch_sign_result list) io" where
  "transit_batch_sign h name items params =
     bind_io (lift_io (to_body (Inr (ser_transit_sign_params params)))) (\<lambda>body0.
     bind_io (lift_io (json_set body0 ''batch_input'' (ser_vec ser_transit_batch_sign_input items))) (\<lambda>body.
       map_io (\<lambda>resp. Ok (TransitBatchSignResponse_batch_results resp))
         (exec_with_data (h_client h) de_transit_batch_sign_response POST
           (h_mount h @ ''/sign/'' @ encode_path name) (Some body))))"

section \<open>Properties\<close>

text \<open>
  C29: Encrypting and decrypting give back the plaintext: \<open>encrypt\<close> posts the base64 of the plaintext,
  and when the server's answer to \<open>decrypt\<close> carries that same text, \<open>decrypt\<close> returns the
  plaintext - for every plaintext that is a \<open>str\<close>, given only that the base64 engine decodes what
  it encoded.
\<close>

theorem transit_roundtrip:
  assumes "unb64 (b64 x) = Inr x" and "utf8_error 0 x = None"
    and "execute c POST (encode_path mount @ ''/decrypt/'' @ encode_path name)
           (Some (obj [(''ciphertext'', JStr ct)])) s = (Ok resp, s')"
    and "rs_status resp \<noteq> 404" and "rs_body resp = Inr t" and "e_json (cl_env c) t = Inr v"
    and "de_vault_response de_value v = Some e" and "data e = Some p"
  shows "let body = obj [(''plaintext'', JStr (b64 x))] in
      transit_encrypt (transit c mount) b64 name (Secret x)
        = map_io (\<lambda>r. Ok (TransitEncryptResponse_ciphertext r))
            (exec_with_data c de_transit_encrypt_response POST
              (encode_path mount @ ''/encrypt/'' @ encode_path name) (Some body))
    \<and> (json_get p ''plaintext'' = json_get body ''plaintext''
       \<longrightarrow> transit_decrypt (transit c mount) unb64 name ct s = (Ok (Secret x), s'))"
proof -
  have "transit_decrypt (transit c mount) unb64 name ct s = (Ok (Secret x), s')"
    if pl: "json_get p ''plaintext'' = Some (JStr (b64 x))"
  proof -
    have "as_obj p \<noteq> None" using pl by (auto simp: json_get_def split: option.splits)
    then have "de_transit_decrypt_response p = Some \<lparr>TransitDecryptResponse_plaintext = Secret (b64 x)\<rparr>"
      using pl by (auto simp: de_transit_decrypt_response_def in_obj_def fld_def de_secret_def)
    from exec_with_data_payload [where d = de_transit_decrypt_response, OF assms(3-8) this] show ?thesis
      by (simp add: transit_decrypt_def transit_def map_io_apply assms(1,2))
  qed
  then show ?thesis by (simp add: Let_def transit_encrypt_def transit_def)
qed

theorem transit_roundtrip_witness:
  "\<exists>s'. transit_decrypt (transit (script_client [(''tr'', JObj [(''data'', JObj [(''plaintext'', JStr ''olleh'')])])])
       ''transit'') (Inr \<circ> rev) ''key'' ''vault:v1:x''
     (script_state [answer 200 ''tr''] (Some root_token)) = (Ok (Secret ''hello''), s')"
proof -
  let ?c = "script_client [(''tr'', JObj [(''data'', JObj [(''plaintext'', JStr ''olleh'')])])]"
  let ?p = "encode_path ''transit'' @ ''/decrypt/'' @ encode_path ''key''"
  have "\<exists>resp s'. execute ?c POST p b (script_state [answer 200 ''tr''] (Some root_token)) = (Ok resp, s')
      \<and> rs_status resp = 200 \<and> rs_body resp = Inr ''tr''" for p b
    by (cases b) (simp_all add: execute_def ensure_valid_token_def lifecycle_action_def needs_renewal_now_def
        root_token_def run_raw)
  then obtain resp s' where ex: "execute ?c POST ?p (Some (obj [(''ciphertext'', JStr ''vault:v1:x'')]))
      (script_state [answer 200 ''tr''] (Some root_token)) = (Ok resp, s')"
    "rs_status resp = 200" "rs_body resp = Inr ''tr''" by blast
  have js: "e_json (cl_env ?c) ''tr'' = Inr (JObj [(''data'', JObj [(''plaintext'', JStr ''olleh'')])])" by simp
  obtain e where e: "de_vault_response de_value (JObj [(''data'', JObj [(''plaintext'', JStr ''olleh'')])]) = Some e"
    "data e = Some (JObj [(''plaintext'', JStr ''olleh'')])"
    by (simp add: de_vault_response_def fld_opt_def de_value_def)
  have u: "utf8_error 0 ''hello'' = None" by code_simp
  have "rs_status resp \<noteq> 404" using ex(2) by simp
  from transit_roundtrip [of "Inr \<circ> rev" rev "''hello''", OF _ u ex(1) this ex(3) js e]
  show ?thesis by (auto simp: Let_def)
qed

end
