(* ===== verification/Pki.thy ===== *)
theory Pki
  imports Api
begin

text \<open>
  The PKI engine: \<open>types/pki.rs\<close> and \<open>api/pki.rs\<close>.
\<close>

section \<open>Types\<close>

record pki_root_params =
  PkiRootParams_generate_type :: string
  PkiRootParams_common_name :: string
  PkiRootParams_alt_names :: "string option"
  PkiRootParams_ip_sans :: "string option"
  PkiRootParams_uri_sans :: "string option"
  PkiRootParams_ttl :: "string option"
  PkiRootParams_max_path_length :: "int option"
  PkiRootParams_key_type :: "string option"
  PkiRootParams_key_bits :: "nat option"
  PkiRootParams_issuer_name :: "string option"

definition ser_pki_root_params :: "pki_root_params \<Rightarrow> json" where
  "ser_pki_root_params x = obj
     ([(''common_name'', JStr (PkiRootParams_common_name x))]
      @ opt_field ''alt_names'' JStr (PkiRootParams_alt_names x)
      @ opt_field ''ip_sans'' JStr (PkiRootParams_ip_sans x)
      @ opt_field ''uri_sans'' JStr (PkiRootParams_uri_sans x)
      @ opt_field ''ttl'' JStr (PkiRootParams_ttl x)
      @ opt_field ''max_path_length'' JNum (PkiRootParams_max_path_length x)
      @ opt_field ''key_type'' JStr (PkiRootParams_key_type x)
      @ opt_field ''key_bits'' jnat (PkiRootParams_key_bits x)
      @ opt_field ''issuer_name'' JStr (PkiRootParams_issuer_name x))"

record pki_certificate =
  PkiCertificate_certificate :: string
  PkiCertificate_issuing_ca :: string
  PkiCertificate_ca_chain :: "string list"
  PkiCertificate_serial_number :: string
  PkiCertificate_expiration :: "nat option"
  PkiCertificate_private_key :: "secret option"
  PkiCertificate_private_key_type :: "string option"

definition de_pki_certificate :: "json \<Rightarrow> pki_certificate option" where
  "de_pki_certificate = in_obj (\<lambda>v.
     Option.bind (fld de_string ''certificate'' v) (\<lambda>x0.
     Option.bind (fld de_string ''issuing_ca'' v) (\<lambda>x1.
     Option.bind (fld_default [] (de_vec de_string) ''ca_chain'' v) (\<lambda>x2.
     Option.bind (fld de_string ''serial_number'' v) (\<lambda>x3.
     Option.bind (fld_opt (de_uint 64) ''expiration'' v) (\<lambda>x4.
     Option.bind (fld_opt de_secret ''private_key'' v) (\<lambda>x5.
     Option.bind (fld_opt de_string ''private_key_type'' v) (\<lambda>x6.
       Some \<lparr>PkiCertificate_certificate = x0, PkiCertificate_issuing_ca = x1, PkiCertificate_ca_chain
             = x2, PkiCertificate_serial_number = x3, PkiCertificate_expiration = x4,
             PkiCertificate_private_key = x5, PkiCertificate_private_key_type = x6\<rparr>))))))))"

definition dbg_pki_certificate :: "nat \<Rightarrow> pki_certificate \<Rightarrow> dbg" where
  "dbg_pki_certificate lvl x = DStruct ''PkiCertificate''
     [(''certificate'', DStr (PkiCertificate_certificate x)),
      (''issuing_ca'', DStr (PkiCertificate_issuing_ca x)),
      (''ca_chain'', dbg_strs (PkiCertificate_ca_chain x)),
      (''serial_number'', DStr (PkiCertificate_serial_number x)),
      (''expiration'', dbg_opt DNum (PkiCertificate_expiration x)),
      (''private_key'', dbg_opt (dbg_secret lvl) (PkiCertificate_private_key x)),
      (''private_key_type'', dbg_opt DStr (PkiCertificate_private_key_type x))]"

record pki_intermediate_params =
  PkiIntermediateParams_generate_type :: string
  PkiIntermediateParams_common_name :: string
  PkiIntermediateParams_key_type :: "string option"
  PkiIntermediateParams_key_bits :: "nat option"

definition ser_pki_intermediate_params :: "pki_intermediate_params \<Rightarrow> json" where
  "ser_pki_intermediate_params x = obj
     ([(''common_name'', JStr (PkiIntermediateParams_common_name x))]
      @ opt_field ''key_type'' JStr (PkiIntermediateParams_key_type x)
      @ opt_field ''key_bits'' jnat (PkiIntermediateParams_key_bits x))"

record pki_csr =
  PkiCsr_csr :: string
  PkiCsr_private_key :: "secret option"
  PkiCsr_private_key_type :: "string option"

definition de_pki_csr :: "json \<Rightarrow> pki_csr option" where
  "de_pki_csr = in_obj (\<lambda>v.
     Option.bind (fld de_string ''csr'' v) (\<lambda>x0.
     Option.bind (fld_opt de_secret ''private_key'' v) (\<lambda>x1.
     Option.bind (fld_opt de_string ''private_key_type'' v) (\<lambda>x2.
       Some \<lparr>PkiCsr_csr = x0, PkiCsr_private_key = x1, PkiCsr_private_key_type = x2\<rparr>))))"

definition dbg_pki_csr :: "nat \<Rightarrow> pki_csr \<Rightarrow> dbg" where
  "dbg_pki_csr lvl x = DStruct ''PkiCsr''
     [(''csr'', DStr (PkiCsr_csr x)),
      (''private_key'', dbg_opt (dbg_secret lvl) (PkiCsr_private_key x)),
      (''private_key_type'', dbg_opt DStr (PkiCsr_private_key_type x))]"

record pki_import_result =
  PkiImportResult_imported_issuers :: "(string list) option"
  PkiImportResult_imported_keys :: "(string list) option"
  PkiImportResult_mapping :: "json option"

definition de_pki_import_result :: "json \<Rightarrow> pki_import_result option" where
  "de_pki_import_result = in_obj (\<lambda>v.
     Option.bind (fld_opt (de_vec de_string) ''imported_issuers'' v) (\<lambda>x0.
     Option.bind (fld_opt (de_vec de_string) ''imported_keys'' v) (\<lambda>x1.
     Option.bind (fld_opt de_value ''mapping'' v) (\<lambda>x2.
       Some \<lparr>PkiImportResult_imported_issuers = x0, PkiImportResult_imported_keys = x1,
             PkiImportResult_mapping = x2\<rparr>))))"

record pki_issuer_info =
  PkiIssuerInfo_issuer_id :: string
  PkiIssuerInfo_issuer_name :: "string option"
  PkiIssuerInfo_certificate :: string
  PkiIssuerInfo_ca_chain :: "string list"
  PkiIssuerInfo_leaf_not_after_behavior :: string
  PkiIssuerInfo_usage :: string

definition de_pki_issuer_info :: "json \<Rightarrow> pki_issuer_info option" where
  "de_pki_issuer_info = in_obj (\<lambda>v.
     Option.bind (fld de_string ''issuer_id'' v) (\<lambda>x0.
     Option.bind (fld_opt de_string ''issuer_name'' v) (\<lambda>x1.
     Option.bind (fld de_string ''certificate'' v) (\<lambda>x2.
     Option.bind (fld_default [] (de_vec de_string) ''ca_chain'' v) (\<lambda>x3.
     Option.bind (fld_default [] de_string ''leaf_not_after_behavior'' v) (\<lambda>x4.
     Option.bind (fld_default [] de_string ''usage'' v) (\<lambda>x5.
       Some \<lparr>PkiIssuerInfo_issuer_id = x0, PkiIssuerInfo_issuer_name = x1, PkiIssuerInfo_certificate
             = x2, PkiIssuerInfo_ca_chain = x3, PkiIssuerInfo_leaf_not_after_behavior = x4,
             PkiIssuerInfo_usage = x5\<rparr>)))))))"

record pki_role_params =
  PkiRoleParams_ttl :: "string option"
  PkiRoleParams_max_ttl :: "string option"
  PkiRoleParams_allow_localhost :: "bool option"
  PkiRoleParams_allowed_domains :: "(string list) option"
  PkiRoleParams_allow_bare_domains :: "bool option"
  PkiRoleParams_allow_subdomains :: "bool option"
  PkiRoleParams_allow_any_name :: "bool option"
  PkiRoleParams_enforce_hostnames :: "bool option"
  PkiRoleParams_allow_ip_sans :: "bool option"
  PkiRoleParams_server_flag :: "bool option"
  PkiRoleParams_client_flag :: "bool option"
  PkiRoleParams_key_type :: "string option"
  PkiRoleParams_key_bits :: "nat option"
  PkiRoleParams_generate_lease :: "bool option"
  PkiRoleParams_no_store :: "bool option"

definition ser_pki_role_params :: "pki_role_params \<Rightarrow> json" where
  "ser_pki_role_params x = obj
     (opt_field ''ttl'' JStr (PkiRoleParams_ttl x)
      @ opt_field ''max_ttl'' JStr (PkiRoleParams_max_ttl x)
      @ opt_field ''allow_localhost'' JBool (PkiRoleParams_allow_localhost x)
      @ opt_field ''allowed_domains'' jstrs (PkiRoleParams_allowed_domains x)
      @ opt_field ''allow_bare_domains'' JBool (PkiRoleParams_allow_bare_domains x)
      @ opt_field ''allow_subdomains'' JBool (PkiRoleParams_allow_subdomains x)
      @ opt_field ''allow_any_name'' JBool (PkiRoleParams_allow_any_name x)
      @ opt_field ''enforce_hostnames'' JBool (PkiRoleParams_enforce_hostnames x)
      @ opt_field ''allow_ip_sans'' JBool (PkiRoleParams_allow_ip_sans x)
      @ opt_field ''server_flag'' JBool (PkiRoleParams_server_flag x)
      @ opt_field ''client_flag'' JBool (PkiRoleParams_client_flag x)
      @ opt_field ''key_type'' JStr (PkiRoleParams_key_type x)
      @ opt_field ''key_bits'' jnat (PkiRoleParams_key_bits x)
      @ opt_field ''generate_lease'' JBool (PkiRoleParams_generate_lease x)
      @ opt_field ''no_store'' JBool (PkiRoleParams_no_store x))"

record pki_role =
  PkiRole_ttl :: nat
  PkiRole_max_ttl :: nat
  PkiRole_allow_localhost :: bool
  PkiRole_allowed_domains :: "string list"
  PkiRole_allow_bare_domains :: bool
  PkiRole_allow_subdomains :: bool
  PkiRole_allow_any_name :: bool
  PkiRole_enforce_hostnames :: bool
  PkiRole_allow_ip_sans :: bool
  PkiRole_server_flag :: bool
  PkiRole_client_flag :: bool
  PkiRole_key_type :: string
  PkiRole_key_bits :: nat
  PkiRole_generate_lease :: bool
  PkiRole_no_store :: bool

definition de_pki_role :: "json \<Rightarrow> pki_role option" where
  "de_pki_role = in_obj (\<lambda>v.
     Option.bind (fld (de_uint 64) ''ttl'' v) (\<lambda>x0.
     Option.bind (fld (de_uint 64) ''max_ttl'' v) (\<lambda>x1.
     Option.bind (fld de_bool ''allow_localhost'' v) (\<lambda>x2.
     Option.bind (fld_default [] (de_vec de_string) ''allowed_domains'' v) (\<lambda>x3.
     Option.bind (fld de_bool ''allow_bare_domains'' v) (\<lambda>x4.
     Option.bind (fld de_bool ''allow_subdomains'' v) (\<lambda>x5.
     Option.bind (fld de_bool ''allow_any_name'' v) (\<lambda>x6.
     Option.bind (fld de_bool ''enforce_hostnames'' v) (\<lambda>x7.
     Option.bind (fld de_bool ''allow_ip_sans'' v) (\<lambda>x8.
     Option.bind (fld de_bool ''server_flag'' v) (\<lambda>x9.
     Option.bind (fld de_bool ''client_flag'' v) (\<lambda>x10.
     Option.bind (fld de_string ''key_type'' v) (\<lambda>x11.
     Option.bind (fld (de_uint 64) ''key_bits'' v) (\<lambda>x12.
     Option.bind (fld_default False de_bool ''generate_lease'' v) (\<lambda>x13.
     Option.bind (fld_default False de_bool ''no_store'' v) (\<lambda>x14.
       Some \<lparr>PkiRole_ttl = x0, PkiRole_max_ttl = x1, PkiRole_allow_localhost = x2,
             PkiRole_allowed_domains = x3, PkiRole_allow_bare_domains = x4, PkiRole_allow_subdomains
             = x5, PkiRole_allow_any_name = x6, PkiRole_enforce_hostnames = x7, PkiRole_allow_ip_sans
             = x8, PkiRole_server_flag = x9, PkiRole_client_flag = x10, PkiRole_key_type = x11,
             PkiRole_key_bits = x12, PkiRole_generate_lease = x13, PkiRole_no_store = x14\<rparr>))))))))))))))))"

record pki_issue_params =
  PkiIssueParams_common_name :: string
  PkiIssueParams_alt_names :: "string option"
  PkiIssueParams_ip_sans :: "string option"
  PkiIssueParams_ttl :: "string option"
  PkiIssueParams_format :: "string option"
  PkiIssueParams_private_key_format :: "string option"

definition ser_pki_issue_params :: "pki_issue_params \<Rightarrow> json" where
  "ser_pki_issue_params x = obj
     ([(''common_name'', JStr (PkiIssueParams_common_name x))]
      @ opt_field ''alt_names'' JStr (PkiIssueParams_alt_names x)
      @ opt_field ''ip_sans'' JStr (PkiIssueParams_ip_sans x)
      @ opt_field ''ttl'' JStr (PkiIssueParams_ttl x)
      @ opt_field ''format'' JStr (PkiIssueParams_format x)
      @ opt_field ''private_key_format'' JStr (PkiIssueParams_private_key_format x))"

record pki_issued_cert =
  PkiIssuedCert_certificate :: string
  PkiIssuedCert_issuing_ca :: string
  PkiIssuedCert_ca_chain :: "string list"
  PkiIssuedCert_private_key :: secret
  PkiIssuedCert_private_key_type :: string
  PkiIssuedCert_serial_number :: string
  PkiIssuedCert_expiration :: nat

definition de_pki_issued_cert :: "json \<Rightarrow> pki_issued_cert option" where
  "de_pki_issued_cert = in_obj (\<lambda>v.
     Option.bind (fld de_string ''certificate'' v) (\<lambda>x0.
     Option.bind (fld de_string ''issuing_ca'' v) (\<lambda>x1.
     Option.bind (fld_default [] (de_vec de_string) ''ca_chain'' v) (\<lambda>x2.
     Option.bind (fld de_secret ''private_key'' v) (\<lambda>x3.
     Option.bind (fld de_string ''private_key_type'' v) (\<lambda>x4.
     Option.bind (fld de_string ''serial_number'' v) (\<lambda>x5.
     Option.bind (fld (de_uint 64) ''expiration'' v) (\<lambda>x6.
       Some \<lparr>PkiIssuedCert_certificate = x0, PkiIssuedCert_issuing_ca = x1, PkiIssuedCert_ca_chain =
             x2, PkiIssuedCert_private_key = x3, PkiIssuedCert_private_key_type = x4,
             PkiIssuedCert_serial_number = x5, PkiIssuedCert_expiration = x6\<rparr>))))))))"

definition dbg_pki_issued_cert :: "nat \<Rightarrow> pki_issued_cert \<Rightarrow> dbg" where
  "dbg_pki_issued_cert lvl x = DStruct ''PkiIssuedCert''
     [(''certificate'', DStr (PkiIssuedCert_certificate x)),
      (''issuing_ca'', DStr (PkiIssuedCert_issuing_ca x)),
      (''ca_chain'', dbg_strs (PkiIssuedCert_ca_chain x)),
      (''private_key'', dbg_secret lvl (PkiIssuedCert_private_key x)),
      (''private_key_type'', DStr (PkiIssuedCert_private_key_type x)),
      (''serial_number'', DStr (PkiIssuedCert_serial_number x)),
      (''expiration'', DNum (PkiIssuedCert_expiration x))]"

record pki_sign_params =
  PkiSignParams_csr :: string
  PkiSignParams_common_name :: string
  PkiSignParams_alt_names :: "string option"
  PkiSignParams_ttl :: "string option"

definition ser_pki_sign_params :: "pki_sign_params \<Rightarrow> json" where
  "ser_pki_sign_params x = obj
     ([(''csr'', JStr (PkiSignParams_csr x))]
      @ [(''common_name'', JStr (PkiSignParams_common_name x))]
      @ opt_field ''alt_names'' JStr (PkiSignParams_alt_names x)
      @ opt_field ''ttl'' JStr (PkiSignParams_ttl x))"

record pki_signed_cert =
  PkiSignedCert_certificate :: string
  PkiSignedCert_issuing_ca :: string
  PkiSignedCert_ca_chain :: "string list"
  PkiSignedCert_serial_number :: string
  PkiSignedCert_expiration :: nat

definition de_pki_signed_cert :: "json \<Rightarrow> pki_signed_cert option" where
  "de_pki_signed_cert = in_obj (\<lambda>v.
     Option.bind (fld de_string ''certificate'' v) (\<lambda>x0.
     Option.bind (fld de_string ''issuing_ca'' v) (\<lambda>x1.
     Option.bind (fld_default [] (de_vec de_string) ''ca_chain'' v) (\<lambda>x2.
     Option.bind (fld de_string ''serial_number'' v) (\<lambda>x3.
     Option.bind (fld (de_uint 64) ''expiration'' v) (\<lambda>x4.
       Some \<lparr>PkiSignedCert_certificate = x0, PkiSignedCert_issuing_ca = x1, PkiSignedCert_ca_chain =
             x2, PkiSignedCert_serial_number = x3, PkiSignedCert_expiration = x4\<rparr>))))))"

record pki_revocation_info =
  PkiRevocationInfo_revocation_time :: nat
  PkiRevocationInfo_revocation_time_rfc3339 :: string

definition de_pki_revocation_info :: "json \<Rightarrow> pki_revocation_info option" where
  "de_pki_revocation_info = in_obj (\<lambda>v.
     Option.bind (fld (de_uint 64) ''revocation_time'' v) (\<lambda>x0.
     Option.bind (fld_default [] de_string ''revocation_time_rfc3339'' v) (\<lambda>x1.
       Some \<lparr>PkiRevocationInfo_revocation_time = x0, PkiRevocationInfo_revocation_time_rfc3339 = x1\<rparr>)))"

record pki_certificate_entry =
  PkiCertificateEntry_certificate :: string
  PkiCertificateEntry_revocation_time :: nat
  PkiCertificateEntry_revocation_time_rfc3339 :: string

definition de_pki_certificate_entry :: "json \<Rightarrow> pki_certificate_entry option" where
  "de_pki_certificate_entry = in_obj (\<lambda>v.
     Option.bind (fld de_string ''certificate'' v) (\<lambda>x0.
     Option.bind (fld_default 0 (de_uint 64) ''revocation_time'' v) (\<lambda>x1.
     Option.bind (fld_default [] de_string ''revocation_time_rfc3339'' v) (\<lambda>x2.
       Some \<lparr>PkiCertificateEntry_certificate = x0, PkiCertificateEntry_revocation_time = x1,
             PkiCertificateEntry_revocation_time_rfc3339 = x2\<rparr>))))"

record pki_urls_config =
  PkiUrlsConfig_issuing_certificates :: "string list"
  PkiUrlsConfig_crl_distribution_points :: "string list"
  PkiUrlsConfig_ocsp_servers :: "string list"

definition ser_pki_urls_config :: "pki_urls_config \<Rightarrow> json" where
  "ser_pki_urls_config x = obj
     (nonempty_field ''issuing_certificates'' jstrs (PkiUrlsConfig_issuing_certificates x)
      @ nonempty_field ''crl_distribution_points'' jstrs (PkiUrlsConfig_crl_distribution_points x)
      @ nonempty_field ''ocsp_servers'' jstrs (PkiUrlsConfig_ocsp_servers x))"

definition de_pki_urls_config :: "json \<Rightarrow> pki_urls_config option" where
  "de_pki_urls_config = in_obj (\<lambda>v.
     Option.bind (fld_default [] (de_vec de_string) ''issuing_certificates'' v) (\<lambda>x0.
     Option.bind (fld_default [] (de_vec de_string) ''crl_distribution_points'' v) (\<lambda>x1.
     Option.bind (fld_default [] (de_vec de_string) ''ocsp_servers'' v) (\<lambda>x2.
       Some \<lparr>PkiUrlsConfig_issuing_certificates = x0, PkiUrlsConfig_crl_distribution_points = x1,
             PkiUrlsConfig_ocsp_servers = x2\<rparr>))))"

record pki_tidy_params =
  PkiTidyParams_tidy_cert_store :: "bool option"
  PkiTidyParams_tidy_revoked_certs :: "bool option"
  PkiTidyParams_safety_buffer :: "string option"

definition ser_pki_tidy_params :: "pki_tidy_params \<Rightarrow> json" where
  "ser_pki_tidy_params x = obj
     (opt_field ''tidy_cert_store'' JBool (PkiTidyParams_tidy_cert_store x)
      @ opt_field ''tidy_revoked_certs'' JBool (PkiTidyParams_tidy_revoked_certs x)
      @ opt_field ''safety_buffer'' JStr (PkiTidyParams_safety_buffer x))"

record pki_tidy_status =
  PkiTidyStatus_state :: string
  PkiTidyStatus_error :: "string option"
  PkiTidyStatus_time_started :: "string option"
  PkiTidyStatus_time_finished :: "string option"
  PkiTidyStatus_cert_store_deleted_count :: "nat option"
  PkiTidyStatus_revoked_cert_deleted_count :: "nat option"

definition de_pki_tidy_status :: "json \<Rightarrow> pki_tidy_status option" where
  "de_pki_tidy_status = in_obj (\<lambda>v.
     Option.bind (fld_default [] de_string ''state'' v) (\<lambda>x0.
     Option.bind (fld_opt de_string ''error'' v) (\<lambda>x1.
     Option.bind (fld_opt de_string ''time_started'' v) (\<lambda>x2.
     Option.bind (fld_opt de_string ''time_finished'' v) (\<lambda>x3.
     Option.bind (fld_opt (de_uint 64) ''cert_store_deleted_count'' v) (\<lambda>x4.
     Option.bind (fld_opt (de_uint 64) ''revoked_cert_deleted_count'' v) (\<lambda>x5.
       Some \<lparr>PkiTidyStatus_state = x0, PkiTidyStatus_error = x1, PkiTidyStatus_time_started = x2,
             PkiTidyStatus_time_finished = x3, PkiTidyStatus_cert_store_deleted_count = x4,
             PkiTidyStatus_revoked_cert_deleted_count = x5\<rparr>)))))))"

record pki_issuer_update_params =
  PkiIssuerUpdateParams_issuer_name :: "string option"
  PkiIssuerUpdateParams_leaf_not_after_behavior :: "string option"
  PkiIssuerUpdateParams_usage :: "string option"
  PkiIssuerUpdateParams_manual_chain :: "(string list) option"

definition ser_pki_issuer_update_params :: "pki_issuer_update_params \<Rightarrow> json" where
  "ser_pki_issuer_update_params x = obj
     (opt_field ''issuer_name'' JStr (PkiIssuerUpdateParams_issuer_name x)
      @ opt_field ''leaf_not_after_behavior'' JStr (PkiIssuerUpdateParams_leaf_not_after_behavior x)
      @ opt_field ''usage'' JStr (PkiIssuerUpdateParams_usage x)
      @ opt_field ''manual_chain'' jstrs (PkiIssuerUpdateParams_manual_chain x))"

record pki_cross_sign_request =
  PkiCrossSignRequest_common_name :: string
  PkiCrossSignRequest_key_type :: "string option"
  PkiCrossSignRequest_key_bits :: "nat option"

definition ser_pki_cross_sign_request :: "pki_cross_sign_request \<Rightarrow> json" where
  "ser_pki_cross_sign_request x = obj
     ([(''common_name'', JStr (PkiCrossSignRequest_common_name x))]
      @ opt_field ''key_type'' JStr (PkiCrossSignRequest_key_type x)
      @ opt_field ''key_bits'' jnat (PkiCrossSignRequest_key_bits x))"

record pki_acme_config =
  PkiAcmeConfig_enabled :: bool
  PkiAcmeConfig_allowed_issuers :: "string list"
  PkiAcmeConfig_allowed_roles :: "string list"
  PkiAcmeConfig_default_directory_policy :: "string option"
  PkiAcmeConfig_dns_resolver :: "string option"
  PkiAcmeConfig_eab_policy :: "string option"

definition ser_pki_acme_config :: "pki_acme_config \<Rightarrow> json" where
  "ser_pki_acme_config x = obj
     ([(''enabled'', JBool (PkiAcmeConfig_enabled x))]
      @ nonempty_field ''allowed_issuers'' jstrs (PkiAcmeConfig_allowed_issuers x)
      @ nonempty_field ''allowed_roles'' jstrs (PkiAcmeConfig_allowed_roles x)
      @ [(''default_directory_policy'', ser_option JStr (PkiAcmeConfig_default_directory_policy x))]
      @ [(''dns_resolver'', ser_option JStr (PkiAcmeConfig_dns_resolver x))]
      @ [(''eab_policy'', ser_option JStr (PkiAcmeConfig_eab_policy x))])"

definition de_pki_acme_config :: "json \<Rightarrow> pki_acme_config option" where
  "de_pki_acme_config = in_obj (\<lambda>v.
     Option.bind (fld_default False de_bool ''enabled'' v) (\<lambda>x0.
     Option.bind (fld_default [] (de_vec de_string) ''allowed_issuers'' v) (\<lambda>x1.
     Option.bind (fld_default [] (de_vec de_string) ''allowed_roles'' v) (\<lambda>x2.
     Option.bind (fld_opt de_string ''default_directory_policy'' v) (\<lambda>x3.
     Option.bind (fld_opt de_string ''dns_resolver'' v) (\<lambda>x4.
     Option.bind (fld_opt de_string ''eab_policy'' v) (\<lambda>x5.
       Some \<lparr>PkiAcmeConfig_enabled = x0, PkiAcmeConfig_allowed_issuers = x1,
             PkiAcmeConfig_allowed_roles = x2, PkiAcmeConfig_default_directory_policy = x3,
             PkiAcmeConfig_dns_resolver = x4, PkiAcmeConfig_eab_policy = x5\<rparr>)))))))"

section \<open>Operations\<close>

definition pki_generate_root :: "'w handler \<Rightarrow> pki_root_params \<Rightarrow> ('w, pki_certificate) io" where
  "pki_generate_root h params =
     bind_io (lift_io (to_body (Inr (ser_pki_root_params params)))) (\<lambda>body.
       exec_with_data (h_client h) de_pki_certificate POST (h_mount h @ ''/root/generate/'' @
           encode_path (PkiRootParams_generate_type params)) (Some body))"

definition pki_generate_intermediate_csr :: "'w handler \<Rightarrow> pki_intermediate_params \<Rightarrow> ('w, pki_csr) io" where
  "pki_generate_intermediate_csr h params =
     bind_io (lift_io (to_body (Inr (ser_pki_intermediate_params params)))) (\<lambda>body.
       exec_with_data (h_client h) de_pki_csr POST (h_mount h @ ''/intermediate/generate/'' @
           encode_path (PkiIntermediateParams_generate_type params)) (Some body))"

definition pki_set_signed_intermediate :: "'w handler \<Rightarrow> string \<Rightarrow> ('w, pki_import_result) io" where
  "pki_set_signed_intermediate h certificate =
     (let body = obj [(''certificate'', JStr certificate)]
      in exec_with_data (h_client h) de_pki_import_result POST (h_mount h @
          ''/intermediate/set-signed'') (Some body))"

definition pki_delete_root :: "'w handler \<Rightarrow> ('w, unit) io" where
  "pki_delete_root h =
     exec_empty (h_client h) DELETE (h_mount h @ ''/root'') None"

definition pki_list_issuers :: "'w handler \<Rightarrow> ('w, string list) io" where
  "pki_list_issuers h =
     exec_list (h_client h) (h_mount h @ ''/issuers'')"

definition pki_read_issuer :: "'w handler \<Rightarrow> string \<Rightarrow> ('w, pki_issuer_info) io" where
  "pki_read_issuer h issuer_ref =
     exec_with_data (h_client h) de_pki_issuer_info GET (h_mount h @ ''/issuer/'' @ encode_path
         issuer_ref) None"

definition pki_delete_issuer :: "'w handler \<Rightarrow> string \<Rightarrow> ('w, unit) io" where
  "pki_delete_issuer h issuer_ref =
     exec_empty (h_client h) DELETE (h_mount h @ ''/issuer/'' @ encode_path issuer_ref) None"

definition pki_create_role :: "'w handler \<Rightarrow> string \<Rightarrow> pki_role_params \<Rightarrow> ('w, unit) io" where
  "pki_create_role h name params =
     bind_io (lift_io (to_body (Inr (ser_pki_role_params params)))) (\<lambda>body.
       exec_empty (h_client h) POST (h_mount h @ ''/roles/'' @ encode_path name) (Some body))"

definition pki_read_role :: "'w handler \<Rightarrow> string \<Rightarrow> ('w, pki_role) io" where
  "pki_read_role h name =
     exec_with_data (h_client h) de_pki_role GET (h_mount h @ ''/roles/'' @ encode_path name) None"

definition pki_list_roles :: "'w handler \<Rightarrow> ('w, string list) io" where
  "pki_list_roles h =
     exec_list (h_client h) (h_mount h @ ''/roles'')"

definition pki_delete_role :: "'w handler \<Rightarrow> string \<Rightarrow> ('w, unit) io" where
  "pki_delete_role h name =
     exec_empty (h_client h) DELETE (h_mount h @ ''/roles/'' @ encode_path name) None"

definition pki_issue :: "'w handler \<Rightarrow> string \<Rightarrow> pki_issue_params \<Rightarrow> ('w, pki_issued_cert) io" where
  "pki_issue h role params =
     bind_io (lift_io (to_body (Inr (ser_pki_issue_params params)))) (\<lambda>body.
       exec_with_data (h_client h) de_pki_issued_cert POST (h_mount h @ ''/issue/'' @ encode_path
           role) (Some body))"

definition pki_sign :: "'w handler \<Rightarrow> string \<Rightarrow> pki_sign_params \<Rightarrow> ('w, pki_signed_cert) io" where
  "pki_sign h role params =
     bind_io (lift_io (to_body (Inr (ser_pki_sign_params params)))) (\<lambda>body.
       exec_with_data (h_client h) de_pki_signed_cert POST (h_mount h @ ''/sign/'' @ encode_path
           role) (Some body))"

definition pki_sign_verbatim :: "'w handler \<Rightarrow> string \<Rightarrow> string \<Rightarrow> ('w, pki_signed_cert) io" where
  "pki_sign_verbatim h role csr =
     (let body = obj [(''csr'', JStr csr)]
      in exec_with_data (h_client h) de_pki_signed_cert POST (h_mount h @ ''/sign-verbatim/'' @
          encode_path role) (Some body))"

definition pki_list_certs :: "'w handler \<Rightarrow> ('w, string list) io" where
  "pki_list_certs h =
     exec_list (h_client h) (h_mount h @ ''/certs'')"

definition pki_read_cert :: "'w handler \<Rightarrow> string \<Rightarrow> ('w, pki_certificate_entry) io" where
  "pki_read_cert h serial =
     exec_with_data (h_client h) de_pki_certificate_entry GET (h_mount h @ ''/cert/'' @ encode_path
         serial) None"

definition pki_set_urls :: "'w handler \<Rightarrow> pki_urls_config \<Rightarrow> ('w, unit) io" where
  "pki_set_urls h cfg =
     bind_io (lift_io (to_body (Inr (ser_pki_urls_config cfg)))) (\<lambda>body.
       exec_empty (h_client h) POST (h_mount h @ ''/config/urls'') (Some body))"

definition pki_read_urls :: "'w handler \<Rightarrow> ('w, pki_urls_config) io" where
  "pki_read_urls h =
     exec_with_data (h_client h) de_pki_urls_config GET (h_mount h @ ''/config/urls'') None"

definition pki_revoke :: "'w handler \<Rightarrow> string \<Rightarrow> ('w, pki_revocation_info) io" where
  "pki_revoke h serial =
     (let body = obj [(''serial_number'', JStr serial)]
      in exec_with_data (h_client h) de_pki_revocation_info POST (h_mount h @ ''/revoke'') (Some body))"

definition pki_revoke_with_key :: "'w handler \<Rightarrow> string \<Rightarrow> secret \<Rightarrow> ('w, pki_revocation_info) io" where
  "pki_revoke_with_key h serial private_key =
     (let body = obj [(''serial_number'', JStr serial), (''private_key'', JStr (expose_secret
         private_key))]
      in exec_with_data (h_client h) de_pki_revocation_info POST (h_mount h @ ''/revoke-with-key'')
          (Some body))"

definition pki_rotate_crl :: "'w handler \<Rightarrow> ('w, unit) io" where
  "pki_rotate_crl h =
     exec_empty (h_client h) POST (h_mount h @ ''/crl/rotate'') None"

definition pki_tidy :: "'w handler \<Rightarrow> pki_tidy_params \<Rightarrow> ('w, unit) io" where
  "pki_tidy h params =
     bind_io (lift_io (to_body (Inr (ser_pki_tidy_params params)))) (\<lambda>body.
       exec_empty (h_client h) POST (h_mount h @ ''/tidy'') (Some body))"

definition pki_tidy_status :: "'w handler \<Rightarrow> ('w, pki_tidy_status) io" where
  "pki_tidy_status h =
     exec_with_data (h_client h) de_pki_tidy_status GET (h_mount h @ ''/tidy-status'') None"

definition pki_update_issuer :: "'w handler \<Rightarrow> string \<Rightarrow> pki_issuer_update_params \<Rightarrow> ('w, pki_issuer_info) io" where
  "pki_update_issuer h issuer_ref params =
     bind_io (lift_io (to_body (Inr (ser_pki_issuer_update_params params)))) (\<lambda>body.
       exec_with_data (h_client h) de_pki_issuer_info POST (h_mount h @ ''/issuer/'' @ encode_path
           issuer_ref) (Some body))"

definition pki_cross_sign_intermediate :: "'w handler \<Rightarrow> pki_cross_sign_request \<Rightarrow> ('w, pki_certificate) io" where
  "pki_cross_sign_intermediate h params =
     bind_io (lift_io (to_body (Inr (ser_pki_cross_sign_request params)))) (\<lambda>body.
       exec_with_data (h_client h) de_pki_certificate POST (h_mount h @
           ''/intermediate/cross-sign'') (Some body))"

definition pki_read_acme_config :: "'w handler \<Rightarrow> ('w, pki_acme_config) io" where
  "pki_read_acme_config h =
     exec_with_data (h_client h) de_pki_acme_config GET (h_mount h @ ''/config/acme'') None"

definition pki_write_acme_config :: "'w handler \<Rightarrow> pki_acme_config \<Rightarrow> ('w, unit) io" where
  "pki_write_acme_config h cfg =
     bind_io (lift_io (to_body (Inr (ser_pki_acme_config cfg)))) (\<lambda>body.
       exec_empty (h_client h) POST (h_mount h @ ''/config/acme'') (Some body))"

definition pki_rotate_delta_crl :: "'w handler \<Rightarrow> ('w, unit) io" where
  "pki_rotate_delta_crl h =
     exec_empty (h_client h) POST (h_mount h @ ''/crl/rotate-delta'') None"

text \<open>The CRL is DER: the body bytes as they are, with no check of the status.\<close>

definition body_bytes :: "http_response \<Rightarrow> string outcome" where
  "body_bytes resp = (case rs_body resp of Inl e \<Rightarrow> Err (Http e) | Inr bytes \<Rightarrow> Ok bytes)"

definition pki_read_crl :: "'w handler \<Rightarrow> ('w, string) io" where
  "pki_read_crl h = map_io body_bytes (execute (h_client h) GET (h_mount h @ ''/crl'') None)"

definition pki_read_crl_delta :: "'w handler \<Rightarrow> ('w, string) io" where
  "pki_read_crl_delta h = map_io body_bytes (execute (h_client h) GET (h_mount h @ ''/crl/delta'') None)"

end
