(* ===== verification/Database.thy ===== *)
theory Database
  imports Api
begin

text \<open>
  The database engine: \<open>types/database.rs\<close> and \<open>api/database.rs\<close>.
\<close>

section \<open>Types\<close>

record database_config_request =
  DatabaseConfigRequest_plugin_name :: string
  DatabaseConfigRequest_connection_url :: secret
  DatabaseConfigRequest_allowed_roles :: "(string list) option"
  DatabaseConfigRequest_username :: "string option"
  DatabaseConfigRequest_password :: "secret option"
  DatabaseConfigRequest_max_open_connections :: "nat option"
  DatabaseConfigRequest_max_idle_connections :: "nat option"
  DatabaseConfigRequest_max_connection_lifetime :: "string option"
  DatabaseConfigRequest_username_template :: "string option"
  DatabaseConfigRequest_verify_connection :: "bool option"

definition ser_database_config_request :: "database_config_request \<Rightarrow> json" where
  "ser_database_config_request x = obj
     ([(''plugin_name'', JStr (DatabaseConfigRequest_plugin_name x))]
      @ [(''connection_url'', ser_secret (DatabaseConfigRequest_connection_url x))]
      @ opt_field ''allowed_roles'' jstrs (DatabaseConfigRequest_allowed_roles x)
      @ opt_field ''username'' JStr (DatabaseConfigRequest_username x)
      @ opt_field ''password'' ser_secret (DatabaseConfigRequest_password x)
      @ opt_field ''max_open_connections'' jnat (DatabaseConfigRequest_max_open_connections x)
      @ opt_field ''max_idle_connections'' jnat (DatabaseConfigRequest_max_idle_connections x)
      @ opt_field ''max_connection_lifetime'' JStr (DatabaseConfigRequest_max_connection_lifetime x)
      @ opt_field ''username_template'' JStr (DatabaseConfigRequest_username_template x)
      @ opt_field ''verify_connection'' JBool (DatabaseConfigRequest_verify_connection x))"

record database_config =
  DatabaseConfig_plugin_name :: string
  DatabaseConfig_connection_details :: json
  DatabaseConfig_allowed_roles :: "string list"

definition de_database_config :: "json \<Rightarrow> database_config option" where
  "de_database_config = in_obj (\<lambda>v.
     Option.bind (fld de_string ''plugin_name'' v) (\<lambda>x0.
     Option.bind (fld de_value ''connection_details'' v) (\<lambda>x1.
     Option.bind (fld_default [] (de_vec de_string) ''allowed_roles'' v) (\<lambda>x2.
       Some \<lparr>DatabaseConfig_plugin_name = x0, DatabaseConfig_connection_details = x1,
             DatabaseConfig_allowed_roles = x2\<rparr>))))"

record database_role_request =
  DatabaseRoleRequest_db_name :: string
  DatabaseRoleRequest_creation_statements :: "(string list) option"
  DatabaseRoleRequest_revocation_statements :: "(string list) option"
  DatabaseRoleRequest_rollback_statements :: "(string list) option"
  DatabaseRoleRequest_renew_statements :: "(string list) option"
  DatabaseRoleRequest_default_ttl :: "string option"
  DatabaseRoleRequest_max_ttl :: "string option"

definition ser_database_role_request :: "database_role_request \<Rightarrow> json" where
  "ser_database_role_request x = obj
     ([(''db_name'', JStr (DatabaseRoleRequest_db_name x))]
      @ opt_field ''creation_statements'' jstrs (DatabaseRoleRequest_creation_statements x)
      @ opt_field ''revocation_statements'' jstrs (DatabaseRoleRequest_revocation_statements x)
      @ opt_field ''rollback_statements'' jstrs (DatabaseRoleRequest_rollback_statements x)
      @ opt_field ''renew_statements'' jstrs (DatabaseRoleRequest_renew_statements x)
      @ opt_field ''default_ttl'' JStr (DatabaseRoleRequest_default_ttl x)
      @ opt_field ''max_ttl'' JStr (DatabaseRoleRequest_max_ttl x))"

record database_role =
  DatabaseRole_db_name :: string
  DatabaseRole_creation_statements :: "string list"
  DatabaseRole_revocation_statements :: "string list"
  DatabaseRole_rollback_statements :: "string list"
  DatabaseRole_renew_statements :: "string list"
  DatabaseRole_default_ttl :: nat
  DatabaseRole_max_ttl :: nat

definition de_database_role :: "json \<Rightarrow> database_role option" where
  "de_database_role = in_obj (\<lambda>v.
     Option.bind (fld de_string ''db_name'' v) (\<lambda>x0.
     Option.bind (fld_default [] (de_vec de_string) ''creation_statements'' v) (\<lambda>x1.
     Option.bind (fld_default [] (de_vec de_string) ''revocation_statements'' v) (\<lambda>x2.
     Option.bind (fld_default [] (de_vec de_string) ''rollback_statements'' v) (\<lambda>x3.
     Option.bind (fld_default [] (de_vec de_string) ''renew_statements'' v) (\<lambda>x4.
     Option.bind (fld (de_uint 64) ''default_ttl'' v) (\<lambda>x5.
     Option.bind (fld (de_uint 64) ''max_ttl'' v) (\<lambda>x6.
       Some \<lparr>DatabaseRole_db_name = x0, DatabaseRole_creation_statements = x1,
             DatabaseRole_revocation_statements = x2, DatabaseRole_rollback_statements = x3,
             DatabaseRole_renew_statements = x4, DatabaseRole_default_ttl = x5, DatabaseRole_max_ttl
             = x6\<rparr>))))))))"

record database_static_role_request =
  DatabaseStaticRoleRequest_db_name :: string
  DatabaseStaticRoleRequest_username :: string
  DatabaseStaticRoleRequest_rotation_statements :: "(string list) option"
  DatabaseStaticRoleRequest_rotation_period :: "string option"

definition ser_database_static_role_request :: "database_static_role_request \<Rightarrow> json" where
  "ser_database_static_role_request x = obj
     ([(''db_name'', JStr (DatabaseStaticRoleRequest_db_name x))]
      @ [(''username'', JStr (DatabaseStaticRoleRequest_username x))]
      @ opt_field ''rotation_statements'' jstrs (DatabaseStaticRoleRequest_rotation_statements x)
      @ opt_field ''rotation_period'' JStr (DatabaseStaticRoleRequest_rotation_period x))"

record database_static_role =
  DatabaseStaticRole_db_name :: string
  DatabaseStaticRole_username :: string
  DatabaseStaticRole_rotation_statements :: "string list"
  DatabaseStaticRole_rotation_period :: nat
  DatabaseStaticRole_last_vault_rotation :: "string option"

definition de_database_static_role :: "json \<Rightarrow> database_static_role option" where
  "de_database_static_role = in_obj (\<lambda>v.
     Option.bind (fld de_string ''db_name'' v) (\<lambda>x0.
     Option.bind (fld de_string ''username'' v) (\<lambda>x1.
     Option.bind (fld_default [] (de_vec de_string) ''rotation_statements'' v) (\<lambda>x2.
     Option.bind (fld (de_uint 64) ''rotation_period'' v) (\<lambda>x3.
     Option.bind (fld_opt de_string ''last_vault_rotation'' v) (\<lambda>x4.
       Some \<lparr>DatabaseStaticRole_db_name = x0, DatabaseStaticRole_username = x1,
             DatabaseStaticRole_rotation_statements = x2, DatabaseStaticRole_rotation_period = x3,
             DatabaseStaticRole_last_vault_rotation = x4\<rparr>))))))"

record database_credentials =
  DatabaseCredentials_username :: secret
  DatabaseCredentials_password :: secret

definition de_database_credentials :: "json \<Rightarrow> database_credentials option" where
  "de_database_credentials = in_obj (\<lambda>v.
     Option.bind (fld de_secret ''username'' v) (\<lambda>x0.
     Option.bind (fld de_secret ''password'' v) (\<lambda>x1.
       Some \<lparr>DatabaseCredentials_username = x0, DatabaseCredentials_password = x1\<rparr>)))"

definition dbg_database_credentials :: "nat \<Rightarrow> database_credentials \<Rightarrow> dbg" where
  "dbg_database_credentials lvl x = DStruct ''DatabaseCredentials''
     [(''username'', dbg_secret lvl (DatabaseCredentials_username x)),
      (''password'', dbg_secret lvl (DatabaseCredentials_password x))]"

record database_static_credentials =
  DatabaseStaticCredentials_username :: secret
  DatabaseStaticCredentials_password :: secret
  DatabaseStaticCredentials_last_vault_rotation :: "string option"
  DatabaseStaticCredentials_rotation_period :: nat
  DatabaseStaticCredentials_ttl :: nat

definition de_database_static_credentials :: "json \<Rightarrow> database_static_credentials option" where
  "de_database_static_credentials = in_obj (\<lambda>v.
     Option.bind (fld de_secret ''username'' v) (\<lambda>x0.
     Option.bind (fld de_secret ''password'' v) (\<lambda>x1.
     Option.bind (fld_opt de_string ''last_vault_rotation'' v) (\<lambda>x2.
     Option.bind (fld (de_uint 64) ''rotation_period'' v) (\<lambda>x3.
     Option.bind (fld (de_uint 64) ''ttl'' v) (\<lambda>x4.
       Some \<lparr>DatabaseStaticCredentials_username = x0, DatabaseStaticCredentials_password = x1,
             DatabaseStaticCredentials_last_vault_rotation = x2,
             DatabaseStaticCredentials_rotation_period = x3, DatabaseStaticCredentials_ttl = x4\<rparr>))))))"

definition dbg_database_static_credentials :: "nat \<Rightarrow> database_static_credentials \<Rightarrow> dbg" where
  "dbg_database_static_credentials lvl x = DStruct ''DatabaseStaticCredentials''
     [(''username'', dbg_secret lvl (DatabaseStaticCredentials_username x)),
      (''password'', dbg_secret lvl (DatabaseStaticCredentials_password x)),
      (''ttl'', DNum (DatabaseStaticCredentials_ttl x))]"

section \<open>Operations\<close>

definition database_configure :: "'w handler \<Rightarrow> string \<Rightarrow> database_config_request \<Rightarrow> ('w, unit) io" where
  "database_configure h name params =
     bind_io (lift_io (to_body (Inr (ser_database_config_request params)))) (\<lambda>body.
       exec_empty (h_client h) POST (h_mount h @ ''/config/'' @ encode_path name) (Some body))"

definition database_read_config :: "'w handler \<Rightarrow> string \<Rightarrow> ('w, database_config) io" where
  "database_read_config h name =
     exec_with_data (h_client h) de_database_config GET (h_mount h @ ''/config/'' @ encode_path
         name) None"

definition database_delete_config :: "'w handler \<Rightarrow> string \<Rightarrow> ('w, unit) io" where
  "database_delete_config h name =
     exec_empty (h_client h) DELETE (h_mount h @ ''/config/'' @ encode_path name) None"

definition database_list_connections :: "'w handler \<Rightarrow> ('w, string list) io" where
  "database_list_connections h =
     exec_list (h_client h) (h_mount h @ ''/config'')"

definition database_reset_connection :: "'w handler \<Rightarrow> string \<Rightarrow> ('w, unit) io" where
  "database_reset_connection h name =
     exec_empty (h_client h) POST (h_mount h @ ''/reset/'' @ encode_path name) None"

definition database_create_role :: "'w handler \<Rightarrow> string \<Rightarrow> database_role_request \<Rightarrow> ('w, unit) io" where
  "database_create_role h name params =
     bind_io (lift_io (to_body (Inr (ser_database_role_request params)))) (\<lambda>body.
       exec_empty (h_client h) POST (h_mount h @ ''/roles/'' @ encode_path name) (Some body))"

definition database_read_role :: "'w handler \<Rightarrow> string \<Rightarrow> ('w, database_role) io" where
  "database_read_role h name =
     exec_with_data (h_client h) de_database_role GET (h_mount h @ ''/roles/'' @ encode_path name) None"

definition database_delete_role :: "'w handler \<Rightarrow> string \<Rightarrow> ('w, unit) io" where
  "database_delete_role h name =
     exec_empty (h_client h) DELETE (h_mount h @ ''/roles/'' @ encode_path name) None"

definition database_list_roles :: "'w handler \<Rightarrow> ('w, string list) io" where
  "database_list_roles h =
     exec_list (h_client h) (h_mount h @ ''/roles'')"

definition database_get_credentials :: "'w handler \<Rightarrow> string \<Rightarrow> ('w, database_credentials) io" where
  "database_get_credentials h role =
     exec_with_data (h_client h) de_database_credentials GET (h_mount h @ ''/creds/'' @ encode_path
         role) None"

definition database_create_static_role :: "'w handler \<Rightarrow> string \<Rightarrow> database_static_role_request \<Rightarrow> ('w, unit) io" where
  "database_create_static_role h name params =
     bind_io (lift_io (to_body (Inr (ser_database_static_role_request params)))) (\<lambda>body.
       exec_empty (h_client h) POST (h_mount h @ ''/static-roles/'' @ encode_path name) (Some body))"

definition database_read_static_role :: "'w handler \<Rightarrow> string \<Rightarrow> ('w, database_static_role) io" where
  "database_read_static_role h name =
     exec_with_data (h_client h) de_database_static_role GET (h_mount h @ ''/static-roles/'' @
         encode_path name) None"

definition database_delete_static_role :: "'w handler \<Rightarrow> string \<Rightarrow> ('w, unit) io" where
  "database_delete_static_role h name =
     exec_empty (h_client h) DELETE (h_mount h @ ''/static-roles/'' @ encode_path name) None"

definition database_list_static_roles :: "'w handler \<Rightarrow> ('w, string list) io" where
  "database_list_static_roles h =
     exec_list (h_client h) (h_mount h @ ''/static-roles'')"

definition database_get_static_credentials :: "'w handler \<Rightarrow> string \<Rightarrow> ('w, database_static_credentials) io" where
  "database_get_static_credentials h name =
     exec_with_data (h_client h) de_database_static_credentials GET (h_mount h @ ''/static-creds/''
         @ encode_path name) None"

definition database_rotate_static_role :: "'w handler \<Rightarrow> string \<Rightarrow> ('w, unit) io" where
  "database_rotate_static_role h name =
     exec_empty (h_client h) POST (h_mount h @ ''/rotate-role/'' @ encode_path name) None"

end
