(* ===== verification/Cloud_Engines.thy ===== *)
theory Cloud_Engines
  imports Api
begin

text \<open>
  The AWS, Azure and GCP secrets engines (\<open>api/aws.rs\<close>, \<open>api/azure.rs\<close>, \<open>api/gcp.rs\<close>) with the
  types of \<open>types/aws.rs\<close>, \<open>types/azure.rs\<close> and \<open>types/gcp.rs\<close>, which the auth methods share.
\<close>

section \<open>AWS\<close>

record aws_config_root_request =
  AwsConfigRootRequest_access_key :: "string option"
  AwsConfigRootRequest_secret_key :: "secret option"
  AwsConfigRootRequest_region :: "string option"
  AwsConfigRootRequest_iam_endpoint :: "string option"
  AwsConfigRootRequest_sts_endpoint :: "string option"
  AwsConfigRootRequest_max_retries :: "int option"

definition ser_aws_config_root_request :: "aws_config_root_request \<Rightarrow> json" where
  "ser_aws_config_root_request x = obj
     (opt_field ''access_key'' JStr (AwsConfigRootRequest_access_key x)
      @ opt_field ''secret_key'' ser_secret (AwsConfigRootRequest_secret_key x)
      @ opt_field ''region'' JStr (AwsConfigRootRequest_region x)
      @ opt_field ''iam_endpoint'' JStr (AwsConfigRootRequest_iam_endpoint x)
      @ opt_field ''sts_endpoint'' JStr (AwsConfigRootRequest_sts_endpoint x)
      @ opt_field ''max_retries'' JNum (AwsConfigRootRequest_max_retries x))"

record aws_config_root =
  AwsConfigRoot_access_key :: string
  AwsConfigRoot_region :: string
  AwsConfigRoot_iam_endpoint :: string
  AwsConfigRoot_sts_endpoint :: string
  AwsConfigRoot_max_retries :: int

definition de_aws_config_root :: "json \<Rightarrow> aws_config_root option" where
  "de_aws_config_root = in_obj (\<lambda>v.
     Option.bind (fld_default [] de_string ''access_key'' v) (\<lambda>x0.
     Option.bind (fld_default [] de_string ''region'' v) (\<lambda>x1.
     Option.bind (fld_default [] de_string ''iam_endpoint'' v) (\<lambda>x2.
     Option.bind (fld_default [] de_string ''sts_endpoint'' v) (\<lambda>x3.
     Option.bind (fld_default 0 (de_int 32) ''max_retries'' v) (\<lambda>x4.
       Some \<lparr>AwsConfigRoot_access_key = x0, AwsConfigRoot_region = x1, AwsConfigRoot_iam_endpoint =
             x2, AwsConfigRoot_sts_endpoint = x3, AwsConfigRoot_max_retries = x4\<rparr>))))))"

record aws_role_request =
  AwsRoleRequest_credential_type :: "string option"
  AwsRoleRequest_role_arns :: "(string list) option"
  AwsRoleRequest_policy_arns :: "(string list) option"
  AwsRoleRequest_policy_document :: "string option"
  AwsRoleRequest_iam_groups :: "(string list) option"
  AwsRoleRequest_iam_tags :: "json option"
  AwsRoleRequest_default_sts_ttl :: "string option"
  AwsRoleRequest_max_sts_ttl :: "string option"
  AwsRoleRequest_user_path :: "string option"
  AwsRoleRequest_permissions_boundary_arn :: "string option"

definition ser_aws_role_request :: "aws_role_request \<Rightarrow> json" where
  "ser_aws_role_request x = obj
     (opt_field ''credential_type'' JStr (AwsRoleRequest_credential_type x)
      @ opt_field ''role_arns'' jstrs (AwsRoleRequest_role_arns x)
      @ opt_field ''policy_arns'' jstrs (AwsRoleRequest_policy_arns x)
      @ opt_field ''policy_document'' JStr (AwsRoleRequest_policy_document x)
      @ opt_field ''iam_groups'' jstrs (AwsRoleRequest_iam_groups x)
      @ opt_field ''iam_tags'' id (AwsRoleRequest_iam_tags x)
      @ opt_field ''default_sts_ttl'' JStr (AwsRoleRequest_default_sts_ttl x)
      @ opt_field ''max_sts_ttl'' JStr (AwsRoleRequest_max_sts_ttl x)
      @ opt_field ''user_path'' JStr (AwsRoleRequest_user_path x)
      @ opt_field ''permissions_boundary_arn'' JStr (AwsRoleRequest_permissions_boundary_arn x))"

record aws_role =
  AwsRole_credential_type :: string
  AwsRole_role_arns :: "string list"
  AwsRole_policy_arns :: "string list"
  AwsRole_policy_document :: string
  AwsRole_iam_groups :: "string list"
  AwsRole_default_sts_ttl :: nat
  AwsRole_max_sts_ttl :: nat

definition de_aws_role :: "json \<Rightarrow> aws_role option" where
  "de_aws_role = in_obj (\<lambda>v.
     Option.bind (fld_default [] de_string ''credential_type'' v) (\<lambda>x0.
     Option.bind (fld_default [] (de_vec de_string) ''role_arns'' v) (\<lambda>x1.
     Option.bind (fld_default [] (de_vec de_string) ''policy_arns'' v) (\<lambda>x2.
     Option.bind (fld_default [] de_string ''policy_document'' v) (\<lambda>x3.
     Option.bind (fld_default [] (de_vec de_string) ''iam_groups'' v) (\<lambda>x4.
     Option.bind (fld_default 0 (de_uint 64) ''default_sts_ttl'' v) (\<lambda>x5.
     Option.bind (fld_default 0 (de_uint 64) ''max_sts_ttl'' v) (\<lambda>x6.
       Some \<lparr>AwsRole_credential_type = x0, AwsRole_role_arns = x1, AwsRole_policy_arns = x2,
             AwsRole_policy_document = x3, AwsRole_iam_groups = x4, AwsRole_default_sts_ttl = x5,
             AwsRole_max_sts_ttl = x6\<rparr>))))))))"

record aws_credentials =
  AwsCredentials_access_key :: string
  AwsCredentials_secret_key :: secret
  AwsCredentials_security_token :: "secret option"
  AwsCredentials_arn :: "string option"

definition de_aws_credentials :: "json \<Rightarrow> aws_credentials option" where
  "de_aws_credentials = in_obj (\<lambda>v.
     Option.bind (fld de_string ''access_key'' v) (\<lambda>x0.
     Option.bind (fld de_secret ''secret_key'' v) (\<lambda>x1.
     Option.bind (fld_opt de_secret ''security_token'' v) (\<lambda>x2.
     Option.bind (fld_opt de_string ''arn'' v) (\<lambda>x3.
       Some \<lparr>AwsCredentials_access_key = x0, AwsCredentials_secret_key = x1,
             AwsCredentials_security_token = x2, AwsCredentials_arn = x3\<rparr>)))))"

definition dbg_aws_credentials :: "nat \<Rightarrow> aws_credentials \<Rightarrow> dbg" where
  "dbg_aws_credentials lvl x = DStruct ''AwsCredentials''
     [(''access_key'', DStr (AwsCredentials_access_key x)),
      (''secret_key'', dbg_secret lvl (AwsCredentials_secret_key x)),
      (''security_token'', dbg_opt (dbg_secret lvl) (AwsCredentials_security_token x)),
      (''arn'', dbg_opt DStr (AwsCredentials_arn x))]"

record aws_sts_request =
  AwsStsRequest_role_arn :: "string option"
  AwsStsRequest_ttl :: "string option"

definition ser_aws_sts_request :: "aws_sts_request \<Rightarrow> json" where
  "ser_aws_sts_request x = obj
     (opt_field ''role_arn'' JStr (AwsStsRequest_role_arn x)
      @ opt_field ''ttl'' JStr (AwsStsRequest_ttl x))"

record aws_auth_config_request =
  AwsAuthConfigRequest_access_key :: "string option"
  AwsAuthConfigRequest_secret_key :: "secret option"
  AwsAuthConfigRequest_endpoint :: "string option"
  AwsAuthConfigRequest_iam_endpoint :: "string option"
  AwsAuthConfigRequest_sts_endpoint :: "string option"
  AwsAuthConfigRequest_sts_region :: "string option"
  AwsAuthConfigRequest_max_retries :: "int option"

definition ser_aws_auth_config_request :: "aws_auth_config_request \<Rightarrow> json" where
  "ser_aws_auth_config_request x = obj
     (opt_field ''access_key'' JStr (AwsAuthConfigRequest_access_key x)
      @ opt_field ''secret_key'' ser_secret (AwsAuthConfigRequest_secret_key x)
      @ opt_field ''endpoint'' JStr (AwsAuthConfigRequest_endpoint x)
      @ opt_field ''iam_endpoint'' JStr (AwsAuthConfigRequest_iam_endpoint x)
      @ opt_field ''sts_endpoint'' JStr (AwsAuthConfigRequest_sts_endpoint x)
      @ opt_field ''sts_region'' JStr (AwsAuthConfigRequest_sts_region x)
      @ opt_field ''max_retries'' JNum (AwsAuthConfigRequest_max_retries x))"

record aws_auth_config =
  AwsAuthConfig_access_key :: string
  AwsAuthConfig_endpoint :: string
  AwsAuthConfig_iam_endpoint :: string
  AwsAuthConfig_sts_endpoint :: string
  AwsAuthConfig_sts_region :: string
  AwsAuthConfig_max_retries :: int

definition de_aws_auth_config :: "json \<Rightarrow> aws_auth_config option" where
  "de_aws_auth_config = in_obj (\<lambda>v.
     Option.bind (fld_default [] de_string ''access_key'' v) (\<lambda>x0.
     Option.bind (fld_default [] de_string ''endpoint'' v) (\<lambda>x1.
     Option.bind (fld_default [] de_string ''iam_endpoint'' v) (\<lambda>x2.
     Option.bind (fld_default [] de_string ''sts_endpoint'' v) (\<lambda>x3.
     Option.bind (fld_default [] de_string ''sts_region'' v) (\<lambda>x4.
     Option.bind (fld_default 0 (de_int 32) ''max_retries'' v) (\<lambda>x5.
       Some \<lparr>AwsAuthConfig_access_key = x0, AwsAuthConfig_endpoint = x1, AwsAuthConfig_iam_endpoint =
             x2, AwsAuthConfig_sts_endpoint = x3, AwsAuthConfig_sts_region = x4,
             AwsAuthConfig_max_retries = x5\<rparr>)))))))"

record aws_auth_role_request =
  AwsAuthRoleRequest_auth_type :: "string option"
  AwsAuthRoleRequest_bound_ami_id :: "(string list) option"
  AwsAuthRoleRequest_bound_account_id :: "(string list) option"
  AwsAuthRoleRequest_bound_region :: "(string list) option"
  AwsAuthRoleRequest_bound_vpc_id :: "(string list) option"
  AwsAuthRoleRequest_bound_subnet_id :: "(string list) option"
  AwsAuthRoleRequest_bound_iam_role_arn :: "(string list) option"
  AwsAuthRoleRequest_bound_iam_instance_profile_arn :: "(string list) option"
  AwsAuthRoleRequest_bound_iam_principal_arn :: "(string list) option"
  AwsAuthRoleRequest_bound_ec2_instance_id :: "(string list) option"
  AwsAuthRoleRequest_token_ttl :: "string option"
  AwsAuthRoleRequest_token_max_ttl :: "string option"
  AwsAuthRoleRequest_token_policies :: "(string list) option"

definition ser_aws_auth_role_request :: "aws_auth_role_request \<Rightarrow> json" where
  "ser_aws_auth_role_request x = obj
     (opt_field ''auth_type'' JStr (AwsAuthRoleRequest_auth_type x)
      @ opt_field ''bound_ami_id'' jstrs (AwsAuthRoleRequest_bound_ami_id x)
      @ opt_field ''bound_account_id'' jstrs (AwsAuthRoleRequest_bound_account_id x)
      @ opt_field ''bound_region'' jstrs (AwsAuthRoleRequest_bound_region x)
      @ opt_field ''bound_vpc_id'' jstrs (AwsAuthRoleRequest_bound_vpc_id x)
      @ opt_field ''bound_subnet_id'' jstrs (AwsAuthRoleRequest_bound_subnet_id x)
      @ opt_field ''bound_iam_role_arn'' jstrs (AwsAuthRoleRequest_bound_iam_role_arn x)
      @ opt_field ''bound_iam_instance_profile_arn'' jstrs (AwsAuthRoleRequest_bound_iam_instance_profile_arn x)
      @ opt_field ''bound_iam_principal_arn'' jstrs (AwsAuthRoleRequest_bound_iam_principal_arn x)
      @ opt_field ''bound_ec2_instance_id'' jstrs (AwsAuthRoleRequest_bound_ec2_instance_id x)
      @ opt_field ''token_ttl'' JStr (AwsAuthRoleRequest_token_ttl x)
      @ opt_field ''token_max_ttl'' JStr (AwsAuthRoleRequest_token_max_ttl x)
      @ opt_field ''token_policies'' jstrs (AwsAuthRoleRequest_token_policies x))"

record aws_auth_role_info =
  AwsAuthRoleInfo_auth_type :: string
  AwsAuthRoleInfo_bound_ami_id :: "string list"
  AwsAuthRoleInfo_bound_account_id :: "string list"
  AwsAuthRoleInfo_bound_region :: "string list"
  AwsAuthRoleInfo_bound_iam_role_arn :: "string list"
  AwsAuthRoleInfo_bound_iam_principal_arn :: "string list"
  AwsAuthRoleInfo_token_ttl :: nat
  AwsAuthRoleInfo_token_max_ttl :: nat
  AwsAuthRoleInfo_token_policies :: "string list"

definition de_aws_auth_role_info :: "json \<Rightarrow> aws_auth_role_info option" where
  "de_aws_auth_role_info = in_obj (\<lambda>v.
     Option.bind (fld_default [] de_string ''auth_type'' v) (\<lambda>x0.
     Option.bind (fld_default [] (de_vec de_string) ''bound_ami_id'' v) (\<lambda>x1.
     Option.bind (fld_default [] (de_vec de_string) ''bound_account_id'' v) (\<lambda>x2.
     Option.bind (fld_default [] (de_vec de_string) ''bound_region'' v) (\<lambda>x3.
     Option.bind (fld_default [] (de_vec de_string) ''bound_iam_role_arn'' v) (\<lambda>x4.
     Option.bind (fld_default [] (de_vec de_string) ''bound_iam_principal_arn'' v) (\<lambda>x5.
     Option.bind (fld_default 0 (de_uint 64) ''token_ttl'' v) (\<lambda>x6.
     Option.bind (fld_default 0 (de_uint 64) ''token_max_ttl'' v) (\<lambda>x7.
     Option.bind (fld_default [] (de_vec de_string) ''token_policies'' v) (\<lambda>x8.
       Some \<lparr>AwsAuthRoleInfo_auth_type = x0, AwsAuthRoleInfo_bound_ami_id = x1,
             AwsAuthRoleInfo_bound_account_id = x2, AwsAuthRoleInfo_bound_region = x3,
             AwsAuthRoleInfo_bound_iam_role_arn = x4, AwsAuthRoleInfo_bound_iam_principal_arn = x5,
             AwsAuthRoleInfo_token_ttl = x6, AwsAuthRoleInfo_token_max_ttl = x7,
             AwsAuthRoleInfo_token_policies = x8\<rparr>))))))))))"

record aws_auth_login_request =
  AwsAuthLoginRequest_role :: "string option"
  AwsAuthLoginRequest_identity :: "secret option"
  AwsAuthLoginRequest_signature :: "secret option"
  AwsAuthLoginRequest_pkcs7 :: "secret option"
  AwsAuthLoginRequest_nonce :: "string option"
  AwsAuthLoginRequest_iam_http_request_method :: "string option"
  AwsAuthLoginRequest_iam_request_url :: "string option"
  AwsAuthLoginRequest_iam_request_body :: "string option"
  AwsAuthLoginRequest_iam_request_headers :: "string option"

definition ser_aws_auth_login_request :: "aws_auth_login_request \<Rightarrow> json" where
  "ser_aws_auth_login_request x = obj
     (opt_field ''role'' JStr (AwsAuthLoginRequest_role x)
      @ opt_field ''identity'' ser_secret (AwsAuthLoginRequest_identity x)
      @ opt_field ''signature'' ser_secret (AwsAuthLoginRequest_signature x)
      @ opt_field ''pkcs7'' ser_secret (AwsAuthLoginRequest_pkcs7 x)
      @ opt_field ''nonce'' JStr (AwsAuthLoginRequest_nonce x)
      @ opt_field ''iam_http_request_method'' JStr (AwsAuthLoginRequest_iam_http_request_method x)
      @ opt_field ''iam_request_url'' JStr (AwsAuthLoginRequest_iam_request_url x)
      @ opt_field ''iam_request_body'' JStr (AwsAuthLoginRequest_iam_request_body x)
      @ opt_field ''iam_request_headers'' JStr (AwsAuthLoginRequest_iam_request_headers x))"

definition aws_configure_root :: "'w handler \<Rightarrow> aws_config_root_request \<Rightarrow> ('w, unit) io" where
  "aws_configure_root h params =
     bind_io (lift_io (to_body (Inr (ser_aws_config_root_request params)))) (\<lambda>body.
       exec_empty (h_client h) POST (h_mount h @ ''/config/root'') (Some body))"

definition aws_read_config_root :: "'w handler \<Rightarrow> ('w, aws_config_root) io" where
  "aws_read_config_root h =
     exec_with_data (h_client h) de_aws_config_root GET (h_mount h @ ''/config/root'') None"

definition aws_rotate_root :: "'w handler \<Rightarrow> ('w, unit) io" where
  "aws_rotate_root h =
     exec_empty (h_client h) POST (h_mount h @ ''/config/rotate-root'') None"

definition aws_create_role :: "'w handler \<Rightarrow> string \<Rightarrow> aws_role_request \<Rightarrow> ('w, unit) io" where
  "aws_create_role h name params =
     bind_io (lift_io (to_body (Inr (ser_aws_role_request params)))) (\<lambda>body.
       exec_empty (h_client h) POST (h_mount h @ ''/roles/'' @ encode_path name) (Some body))"

definition aws_read_role :: "'w handler \<Rightarrow> string \<Rightarrow> ('w, aws_role) io" where
  "aws_read_role h name =
     exec_with_data (h_client h) de_aws_role GET (h_mount h @ ''/roles/'' @ encode_path name) None"

definition aws_delete_role :: "'w handler \<Rightarrow> string \<Rightarrow> ('w, unit) io" where
  "aws_delete_role h name =
     exec_empty (h_client h) DELETE (h_mount h @ ''/roles/'' @ encode_path name) None"

definition aws_list_roles :: "'w handler \<Rightarrow> ('w, string list) io" where
  "aws_list_roles h =
     exec_list (h_client h) (h_mount h @ ''/roles'')"

definition aws_get_credentials :: "'w handler \<Rightarrow> string \<Rightarrow> ('w, aws_credentials) io" where
  "aws_get_credentials h name =
     exec_with_data (h_client h) de_aws_credentials GET (h_mount h @ ''/creds/'' @ encode_path name)
         None"

definition aws_get_sts_credentials :: "'w handler \<Rightarrow> string \<Rightarrow> aws_sts_request \<Rightarrow> ('w, aws_credentials) io" where
  "aws_get_sts_credentials h name params =
     bind_io (lift_io (to_body (Inr (ser_aws_sts_request params)))) (\<lambda>body.
       exec_with_data (h_client h) de_aws_credentials POST (h_mount h @ ''/sts/'' @ encode_path
           name) (Some body))"

section \<open>Azure\<close>

record azure_config_request =
  AzureConfigRequest_subscription_id :: "string option"
  AzureConfigRequest_tenant_id :: "string option"
  AzureConfigRequest_client_id :: "string option"
  AzureConfigRequest_client_secret :: "secret option"
  AzureConfigRequest_environment :: "string option"

definition ser_azure_config_request :: "azure_config_request \<Rightarrow> json" where
  "ser_azure_config_request x = obj
     (opt_field ''subscription_id'' JStr (AzureConfigRequest_subscription_id x)
      @ opt_field ''tenant_id'' JStr (AzureConfigRequest_tenant_id x)
      @ opt_field ''client_id'' JStr (AzureConfigRequest_client_id x)
      @ opt_field ''client_secret'' ser_secret (AzureConfigRequest_client_secret x)
      @ opt_field ''environment'' JStr (AzureConfigRequest_environment x))"

record azure_config =
  AzureConfig_subscription_id :: string
  AzureConfig_tenant_id :: string
  AzureConfig_client_id :: string
  AzureConfig_environment :: string

definition de_azure_config :: "json \<Rightarrow> azure_config option" where
  "de_azure_config = in_obj (\<lambda>v.
     Option.bind (fld_default [] de_string ''subscription_id'' v) (\<lambda>x0.
     Option.bind (fld_default [] de_string ''tenant_id'' v) (\<lambda>x1.
     Option.bind (fld_default [] de_string ''client_id'' v) (\<lambda>x2.
     Option.bind (fld_default [] de_string ''environment'' v) (\<lambda>x3.
       Some \<lparr>AzureConfig_subscription_id = x0, AzureConfig_tenant_id = x1, AzureConfig_client_id =
             x2, AzureConfig_environment = x3\<rparr>)))))"

record azure_role_request =
  AzureRoleRequest_azure_roles :: "json option"
  AzureRoleRequest_azure_groups :: "json option"
  AzureRoleRequest_application_object_id :: "string option"
  AzureRoleRequest_ttl :: "string option"
  AzureRoleRequest_max_ttl :: "string option"

definition ser_azure_role_request :: "azure_role_request \<Rightarrow> json" where
  "ser_azure_role_request x = obj
     (opt_field ''azure_roles'' id (AzureRoleRequest_azure_roles x)
      @ opt_field ''azure_groups'' id (AzureRoleRequest_azure_groups x)
      @ opt_field ''application_object_id'' JStr (AzureRoleRequest_application_object_id x)
      @ opt_field ''ttl'' JStr (AzureRoleRequest_ttl x)
      @ opt_field ''max_ttl'' JStr (AzureRoleRequest_max_ttl x))"

record azure_role =
  AzureRole_azure_roles :: json
  AzureRole_azure_groups :: json
  AzureRole_application_object_id :: string
  AzureRole_ttl :: nat
  AzureRole_max_ttl :: nat

definition de_azure_role :: "json \<Rightarrow> azure_role option" where
  "de_azure_role = in_obj (\<lambda>v.
     Option.bind (fld_default JNull de_value ''azure_roles'' v) (\<lambda>x0.
     Option.bind (fld_default JNull de_value ''azure_groups'' v) (\<lambda>x1.
     Option.bind (fld_default [] de_string ''application_object_id'' v) (\<lambda>x2.
     Option.bind (fld_default 0 (de_uint 64) ''ttl'' v) (\<lambda>x3.
     Option.bind (fld_default 0 (de_uint 64) ''max_ttl'' v) (\<lambda>x4.
       Some \<lparr>AzureRole_azure_roles = x0, AzureRole_azure_groups = x1, AzureRole_application_object_id
             = x2, AzureRole_ttl = x3, AzureRole_max_ttl = x4\<rparr>))))))"

record azure_credentials =
  AzureCredentials_client_id :: string
  AzureCredentials_client_secret :: secret

definition de_azure_credentials :: "json \<Rightarrow> azure_credentials option" where
  "de_azure_credentials = in_obj (\<lambda>v.
     Option.bind (fld de_string ''client_id'' v) (\<lambda>x0.
     Option.bind (fld de_secret ''client_secret'' v) (\<lambda>x1.
       Some \<lparr>AzureCredentials_client_id = x0, AzureCredentials_client_secret = x1\<rparr>)))"

definition dbg_azure_credentials :: "nat \<Rightarrow> azure_credentials \<Rightarrow> dbg" where
  "dbg_azure_credentials lvl x = DStruct ''AzureCredentials''
     [(''client_id'', DStr (AzureCredentials_client_id x)),
      (''client_secret'', dbg_secret lvl (AzureCredentials_client_secret x))]"

record azure_auth_config_request =
  AzureAuthConfigRequest_tenant_id :: "string option"
  AzureAuthConfigRequest_resource :: "string option"
  AzureAuthConfigRequest_environment :: "string option"
  AzureAuthConfigRequest_client_id :: "string option"
  AzureAuthConfigRequest_client_secret :: "secret option"

definition ser_azure_auth_config_request :: "azure_auth_config_request \<Rightarrow> json" where
  "ser_azure_auth_config_request x = obj
     (opt_field ''tenant_id'' JStr (AzureAuthConfigRequest_tenant_id x)
      @ opt_field ''resource'' JStr (AzureAuthConfigRequest_resource x)
      @ opt_field ''environment'' JStr (AzureAuthConfigRequest_environment x)
      @ opt_field ''client_id'' JStr (AzureAuthConfigRequest_client_id x)
      @ opt_field ''client_secret'' ser_secret (AzureAuthConfigRequest_client_secret x))"

record azure_auth_config =
  AzureAuthConfig_tenant_id :: string
  AzureAuthConfig_resource :: string
  AzureAuthConfig_environment :: string
  AzureAuthConfig_client_id :: string

definition de_azure_auth_config :: "json \<Rightarrow> azure_auth_config option" where
  "de_azure_auth_config = in_obj (\<lambda>v.
     Option.bind (fld_default [] de_string ''tenant_id'' v) (\<lambda>x0.
     Option.bind (fld_default [] de_string ''resource'' v) (\<lambda>x1.
     Option.bind (fld_default [] de_string ''environment'' v) (\<lambda>x2.
     Option.bind (fld_default [] de_string ''client_id'' v) (\<lambda>x3.
       Some \<lparr>AzureAuthConfig_tenant_id = x0, AzureAuthConfig_resource = x1,
             AzureAuthConfig_environment = x2, AzureAuthConfig_client_id = x3\<rparr>)))))"

record azure_auth_role_request =
  AzureAuthRoleRequest_bound_service_principal_ids :: "(string list) option"
  AzureAuthRoleRequest_bound_group_ids :: "(string list) option"
  AzureAuthRoleRequest_bound_locations :: "(string list) option"
  AzureAuthRoleRequest_bound_subscription_ids :: "(string list) option"
  AzureAuthRoleRequest_bound_resource_groups :: "(string list) option"
  AzureAuthRoleRequest_bound_scale_sets :: "(string list) option"
  AzureAuthRoleRequest_token_ttl :: "string option"
  AzureAuthRoleRequest_token_max_ttl :: "string option"
  AzureAuthRoleRequest_token_policies :: "(string list) option"

definition ser_azure_auth_role_request :: "azure_auth_role_request \<Rightarrow> json" where
  "ser_azure_auth_role_request x = obj
     (opt_field ''bound_service_principal_ids'' jstrs (AzureAuthRoleRequest_bound_service_principal_ids x)
      @ opt_field ''bound_group_ids'' jstrs (AzureAuthRoleRequest_bound_group_ids x)
      @ opt_field ''bound_locations'' jstrs (AzureAuthRoleRequest_bound_locations x)
      @ opt_field ''bound_subscription_ids'' jstrs (AzureAuthRoleRequest_bound_subscription_ids x)
      @ opt_field ''bound_resource_groups'' jstrs (AzureAuthRoleRequest_bound_resource_groups x)
      @ opt_field ''bound_scale_sets'' jstrs (AzureAuthRoleRequest_bound_scale_sets x)
      @ opt_field ''token_ttl'' JStr (AzureAuthRoleRequest_token_ttl x)
      @ opt_field ''token_max_ttl'' JStr (AzureAuthRoleRequest_token_max_ttl x)
      @ opt_field ''token_policies'' jstrs (AzureAuthRoleRequest_token_policies x))"

record azure_auth_role_info =
  AzureAuthRoleInfo_bound_service_principal_ids :: "string list"
  AzureAuthRoleInfo_bound_group_ids :: "string list"
  AzureAuthRoleInfo_bound_locations :: "string list"
  AzureAuthRoleInfo_bound_subscription_ids :: "string list"
  AzureAuthRoleInfo_bound_resource_groups :: "string list"
  AzureAuthRoleInfo_token_ttl :: nat
  AzureAuthRoleInfo_token_max_ttl :: nat
  AzureAuthRoleInfo_token_policies :: "string list"

definition de_azure_auth_role_info :: "json \<Rightarrow> azure_auth_role_info option" where
  "de_azure_auth_role_info = in_obj (\<lambda>v.
     Option.bind (fld_default [] (de_vec de_string) ''bound_service_principal_ids'' v) (\<lambda>x0.
     Option.bind (fld_default [] (de_vec de_string) ''bound_group_ids'' v) (\<lambda>x1.
     Option.bind (fld_default [] (de_vec de_string) ''bound_locations'' v) (\<lambda>x2.
     Option.bind (fld_default [] (de_vec de_string) ''bound_subscription_ids'' v) (\<lambda>x3.
     Option.bind (fld_default [] (de_vec de_string) ''bound_resource_groups'' v) (\<lambda>x4.
     Option.bind (fld_default 0 (de_uint 64) ''token_ttl'' v) (\<lambda>x5.
     Option.bind (fld_default 0 (de_uint 64) ''token_max_ttl'' v) (\<lambda>x6.
     Option.bind (fld_default [] (de_vec de_string) ''token_policies'' v) (\<lambda>x7.
       Some \<lparr>AzureAuthRoleInfo_bound_service_principal_ids = x0, AzureAuthRoleInfo_bound_group_ids =
             x1, AzureAuthRoleInfo_bound_locations = x2, AzureAuthRoleInfo_bound_subscription_ids =
             x3, AzureAuthRoleInfo_bound_resource_groups = x4, AzureAuthRoleInfo_token_ttl = x5,
             AzureAuthRoleInfo_token_max_ttl = x6, AzureAuthRoleInfo_token_policies = x7\<rparr>)))))))))"

record azure_auth_login_request =
  AzureAuthLoginRequest_role :: string
  AzureAuthLoginRequest_jwt :: secret
  AzureAuthLoginRequest_subscription_id :: "string option"
  AzureAuthLoginRequest_resource_group_name :: "string option"
  AzureAuthLoginRequest_vm_name :: "string option"
  AzureAuthLoginRequest_vmss_name :: "string option"

definition ser_azure_auth_login_request :: "azure_auth_login_request \<Rightarrow> json" where
  "ser_azure_auth_login_request x = obj
     ([(''role'', JStr (AzureAuthLoginRequest_role x))]
      @ [(''jwt'', ser_secret (AzureAuthLoginRequest_jwt x))]
      @ opt_field ''subscription_id'' JStr (AzureAuthLoginRequest_subscription_id x)
      @ opt_field ''resource_group_name'' JStr (AzureAuthLoginRequest_resource_group_name x)
      @ opt_field ''vm_name'' JStr (AzureAuthLoginRequest_vm_name x)
      @ opt_field ''vmss_name'' JStr (AzureAuthLoginRequest_vmss_name x))"

definition azure_configure :: "'w handler \<Rightarrow> azure_config_request \<Rightarrow> ('w, unit) io" where
  "azure_configure h params =
     bind_io (lift_io (to_body (Inr (ser_azure_config_request params)))) (\<lambda>body.
       exec_empty (h_client h) POST (h_mount h @ ''/config'') (Some body))"

definition azure_read_config :: "'w handler \<Rightarrow> ('w, azure_config) io" where
  "azure_read_config h =
     exec_with_data (h_client h) de_azure_config GET (h_mount h @ ''/config'') None"

definition azure_delete_config :: "'w handler \<Rightarrow> ('w, unit) io" where
  "azure_delete_config h =
     exec_empty (h_client h) DELETE (h_mount h @ ''/config'') None"

definition azure_create_role :: "'w handler \<Rightarrow> string \<Rightarrow> azure_role_request \<Rightarrow> ('w, unit) io" where
  "azure_create_role h name params =
     bind_io (lift_io (to_body (Inr (ser_azure_role_request params)))) (\<lambda>body.
       exec_empty (h_client h) POST (h_mount h @ ''/roles/'' @ encode_path name) (Some body))"

definition azure_read_role :: "'w handler \<Rightarrow> string \<Rightarrow> ('w, azure_role) io" where
  "azure_read_role h name =
     exec_with_data (h_client h) de_azure_role GET (h_mount h @ ''/roles/'' @ encode_path name) None"

definition azure_delete_role :: "'w handler \<Rightarrow> string \<Rightarrow> ('w, unit) io" where
  "azure_delete_role h name =
     exec_empty (h_client h) DELETE (h_mount h @ ''/roles/'' @ encode_path name) None"

definition azure_list_roles :: "'w handler \<Rightarrow> ('w, string list) io" where
  "azure_list_roles h =
     exec_list (h_client h) (h_mount h @ ''/roles'')"

definition azure_get_credentials :: "'w handler \<Rightarrow> string \<Rightarrow> ('w, azure_credentials) io" where
  "azure_get_credentials h role =
     exec_with_data (h_client h) de_azure_credentials GET (h_mount h @ ''/creds/'' @ encode_path
         role) None"

section \<open>GCP\<close>

record gcp_config_request =
  GcpConfigRequest_credentials :: "secret option"
  GcpConfigRequest_ttl :: "string option"
  GcpConfigRequest_max_ttl :: "string option"

definition ser_gcp_config_request :: "gcp_config_request \<Rightarrow> json" where
  "ser_gcp_config_request x = obj
     (opt_field ''credentials'' ser_secret (GcpConfigRequest_credentials x)
      @ opt_field ''ttl'' JStr (GcpConfigRequest_ttl x)
      @ opt_field ''max_ttl'' JStr (GcpConfigRequest_max_ttl x))"

record gcp_config =
  GcpConfig_ttl :: nat
  GcpConfig_max_ttl :: nat

definition de_gcp_config :: "json \<Rightarrow> gcp_config option" where
  "de_gcp_config = in_obj (\<lambda>v.
     Option.bind (fld_default 0 (de_uint 64) ''ttl'' v) (\<lambda>x0.
     Option.bind (fld_default 0 (de_uint 64) ''max_ttl'' v) (\<lambda>x1.
       Some \<lparr>GcpConfig_ttl = x0, GcpConfig_max_ttl = x1\<rparr>)))"

record gcp_roleset_request =
  GcpRolesetRequest_project :: "string option"
  GcpRolesetRequest_bindings :: "string option"
  GcpRolesetRequest_secret_type :: "string option"
  GcpRolesetRequest_token_scopes :: "(string list) option"

definition ser_gcp_roleset_request :: "gcp_roleset_request \<Rightarrow> json" where
  "ser_gcp_roleset_request x = obj
     (opt_field ''project'' JStr (GcpRolesetRequest_project x)
      @ opt_field ''bindings'' JStr (GcpRolesetRequest_bindings x)
      @ opt_field ''secret_type'' JStr (GcpRolesetRequest_secret_type x)
      @ opt_field ''token_scopes'' jstrs (GcpRolesetRequest_token_scopes x))"

record gcp_roleset =
  GcpRoleset_project :: string
  GcpRoleset_bindings :: json
  GcpRoleset_secret_type :: string
  GcpRoleset_token_scopes :: "string list"
  GcpRoleset_service_account_email :: string

definition de_gcp_roleset :: "json \<Rightarrow> gcp_roleset option" where
  "de_gcp_roleset = in_obj (\<lambda>v.
     Option.bind (fld_default [] de_string ''project'' v) (\<lambda>x0.
     Option.bind (fld_default JNull de_value ''bindings'' v) (\<lambda>x1.
     Option.bind (fld_default [] de_string ''secret_type'' v) (\<lambda>x2.
     Option.bind (fld_default [] (de_vec de_string) ''token_scopes'' v) (\<lambda>x3.
     Option.bind (fld_default [] de_string ''service_account_email'' v) (\<lambda>x4.
       Some \<lparr>GcpRoleset_project = x0, GcpRoleset_bindings = x1, GcpRoleset_secret_type = x2,
             GcpRoleset_token_scopes = x3, GcpRoleset_service_account_email = x4\<rparr>))))))"

record gcp_service_account_key =
  GcpServiceAccountKey_private_key_data :: secret
  GcpServiceAccountKey_key_algorithm :: string
  GcpServiceAccountKey_key_type :: string

definition de_gcp_service_account_key :: "json \<Rightarrow> gcp_service_account_key option" where
  "de_gcp_service_account_key = in_obj (\<lambda>v.
     Option.bind (fld de_secret ''private_key_data'' v) (\<lambda>x0.
     Option.bind (fld_default [] de_string ''key_algorithm'' v) (\<lambda>x1.
     Option.bind (fld_default [] de_string ''key_type'' v) (\<lambda>x2.
       Some \<lparr>GcpServiceAccountKey_private_key_data = x0, GcpServiceAccountKey_key_algorithm = x1,
             GcpServiceAccountKey_key_type = x2\<rparr>))))"

definition dbg_gcp_service_account_key :: "nat \<Rightarrow> gcp_service_account_key \<Rightarrow> dbg" where
  "dbg_gcp_service_account_key lvl x = DStruct ''GcpServiceAccountKey''
     [(''private_key_data'', dbg_secret lvl (GcpServiceAccountKey_private_key_data x)),
      (''key_algorithm'', DStr (GcpServiceAccountKey_key_algorithm x)),
      (''key_type'', DStr (GcpServiceAccountKey_key_type x))]"

record gcp_oauth_token =
  GcpOAuthToken_token :: secret
  GcpOAuthToken_expires_at_seconds :: nat
  GcpOAuthToken_token_ttl :: nat

definition de_gcp_oauth_token :: "json \<Rightarrow> gcp_oauth_token option" where
  "de_gcp_oauth_token = in_obj (\<lambda>v.
     Option.bind (fld de_secret ''token'' v) (\<lambda>x0.
     Option.bind (fld_default 0 (de_uint 64) ''expires_at_seconds'' v) (\<lambda>x1.
     Option.bind (fld_default 0 (de_uint 64) ''token_ttl'' v) (\<lambda>x2.
       Some \<lparr>GcpOAuthToken_token = x0, GcpOAuthToken_expires_at_seconds = x1, GcpOAuthToken_token_ttl
             = x2\<rparr>))))"

definition dbg_gcp_oauth_token :: "nat \<Rightarrow> gcp_oauth_token \<Rightarrow> dbg" where
  "dbg_gcp_oauth_token lvl x = DStruct ''GcpOAuthToken''
     [(''token'', dbg_secret lvl (GcpOAuthToken_token x)),
      (''expires_at_seconds'', DNum (GcpOAuthToken_expires_at_seconds x)),
      (''token_ttl'', DNum (GcpOAuthToken_token_ttl x))]"

record gcp_auth_config_request =
  GcpAuthConfigRequest_credentials :: "secret option"
  GcpAuthConfigRequest_iam_alias :: "string option"
  GcpAuthConfigRequest_gce_alias :: "string option"

definition ser_gcp_auth_config_request :: "gcp_auth_config_request \<Rightarrow> json" where
  "ser_gcp_auth_config_request x = obj
     (opt_field ''credentials'' ser_secret (GcpAuthConfigRequest_credentials x)
      @ opt_field ''iam_alias'' JStr (GcpAuthConfigRequest_iam_alias x)
      @ opt_field ''gce_alias'' JStr (GcpAuthConfigRequest_gce_alias x))"

record gcp_auth_config =
  GcpAuthConfig_iam_alias :: string
  GcpAuthConfig_gce_alias :: string

definition de_gcp_auth_config :: "json \<Rightarrow> gcp_auth_config option" where
  "de_gcp_auth_config = in_obj (\<lambda>v.
     Option.bind (fld_default [] de_string ''iam_alias'' v) (\<lambda>x0.
     Option.bind (fld_default [] de_string ''gce_alias'' v) (\<lambda>x1.
       Some \<lparr>GcpAuthConfig_iam_alias = x0, GcpAuthConfig_gce_alias = x1\<rparr>)))"

record gcp_auth_role_request =
  GcpAuthRoleRequest_role_type :: string
  GcpAuthRoleRequest_bound_service_accounts :: "(string list) option"
  GcpAuthRoleRequest_bound_projects :: "(string list) option"
  GcpAuthRoleRequest_bound_zones :: "(string list) option"
  GcpAuthRoleRequest_bound_regions :: "(string list) option"
  GcpAuthRoleRequest_bound_instance_groups :: "(string list) option"
  GcpAuthRoleRequest_bound_labels :: "json option"
  GcpAuthRoleRequest_token_ttl :: "string option"
  GcpAuthRoleRequest_token_max_ttl :: "string option"
  GcpAuthRoleRequest_token_policies :: "(string list) option"

definition ser_gcp_auth_role_request :: "gcp_auth_role_request \<Rightarrow> json" where
  "ser_gcp_auth_role_request x = obj
     ([(''type'', JStr (GcpAuthRoleRequest_role_type x))]
      @ opt_field ''bound_service_accounts'' jstrs (GcpAuthRoleRequest_bound_service_accounts x)
      @ opt_field ''bound_projects'' jstrs (GcpAuthRoleRequest_bound_projects x)
      @ opt_field ''bound_zones'' jstrs (GcpAuthRoleRequest_bound_zones x)
      @ opt_field ''bound_regions'' jstrs (GcpAuthRoleRequest_bound_regions x)
      @ opt_field ''bound_instance_groups'' jstrs (GcpAuthRoleRequest_bound_instance_groups x)
      @ opt_field ''bound_labels'' id (GcpAuthRoleRequest_bound_labels x)
      @ opt_field ''token_ttl'' JStr (GcpAuthRoleRequest_token_ttl x)
      @ opt_field ''token_max_ttl'' JStr (GcpAuthRoleRequest_token_max_ttl x)
      @ opt_field ''token_policies'' jstrs (GcpAuthRoleRequest_token_policies x))"

record gcp_auth_role_info =
  GcpAuthRoleInfo_role_type :: string
  GcpAuthRoleInfo_bound_service_accounts :: "string list"
  GcpAuthRoleInfo_bound_projects :: "string list"
  GcpAuthRoleInfo_bound_zones :: "string list"
  GcpAuthRoleInfo_bound_regions :: "string list"
  GcpAuthRoleInfo_token_ttl :: nat
  GcpAuthRoleInfo_token_max_ttl :: nat
  GcpAuthRoleInfo_token_policies :: "string list"

definition de_gcp_auth_role_info :: "json \<Rightarrow> gcp_auth_role_info option" where
  "de_gcp_auth_role_info = in_obj (\<lambda>v.
     Option.bind (fld_default [] de_string ''type'' v) (\<lambda>x0.
     Option.bind (fld_default [] (de_vec de_string) ''bound_service_accounts'' v) (\<lambda>x1.
     Option.bind (fld_default [] (de_vec de_string) ''bound_projects'' v) (\<lambda>x2.
     Option.bind (fld_default [] (de_vec de_string) ''bound_zones'' v) (\<lambda>x3.
     Option.bind (fld_default [] (de_vec de_string) ''bound_regions'' v) (\<lambda>x4.
     Option.bind (fld_default 0 (de_uint 64) ''token_ttl'' v) (\<lambda>x5.
     Option.bind (fld_default 0 (de_uint 64) ''token_max_ttl'' v) (\<lambda>x6.
     Option.bind (fld_default [] (de_vec de_string) ''token_policies'' v) (\<lambda>x7.
       Some \<lparr>GcpAuthRoleInfo_role_type = x0, GcpAuthRoleInfo_bound_service_accounts = x1,
             GcpAuthRoleInfo_bound_projects = x2, GcpAuthRoleInfo_bound_zones = x3,
             GcpAuthRoleInfo_bound_regions = x4, GcpAuthRoleInfo_token_ttl = x5,
             GcpAuthRoleInfo_token_max_ttl = x6, GcpAuthRoleInfo_token_policies = x7\<rparr>)))))))))"

definition gcp_configure :: "'w handler \<Rightarrow> gcp_config_request \<Rightarrow> ('w, unit) io" where
  "gcp_configure h params =
     bind_io (lift_io (to_body (Inr (ser_gcp_config_request params)))) (\<lambda>body.
       exec_empty (h_client h) POST (h_mount h @ ''/config'') (Some body))"

definition gcp_read_config :: "'w handler \<Rightarrow> ('w, gcp_config) io" where
  "gcp_read_config h =
     exec_with_data (h_client h) de_gcp_config GET (h_mount h @ ''/config'') None"

definition gcp_delete_config :: "'w handler \<Rightarrow> ('w, unit) io" where
  "gcp_delete_config h =
     exec_empty (h_client h) DELETE (h_mount h @ ''/config'') None"

definition gcp_create_roleset :: "'w handler \<Rightarrow> string \<Rightarrow> gcp_roleset_request \<Rightarrow> ('w, unit) io" where
  "gcp_create_roleset h name params =
     bind_io (lift_io (to_body (Inr (ser_gcp_roleset_request params)))) (\<lambda>body.
       exec_empty (h_client h) POST (h_mount h @ ''/roleset/'' @ encode_path name) (Some body))"

definition gcp_read_roleset :: "'w handler \<Rightarrow> string \<Rightarrow> ('w, gcp_roleset) io" where
  "gcp_read_roleset h name =
     exec_with_data (h_client h) de_gcp_roleset GET (h_mount h @ ''/roleset/'' @ encode_path name) None"

definition gcp_delete_roleset :: "'w handler \<Rightarrow> string \<Rightarrow> ('w, unit) io" where
  "gcp_delete_roleset h name =
     exec_empty (h_client h) DELETE (h_mount h @ ''/roleset/'' @ encode_path name) None"

definition gcp_list_rolesets :: "'w handler \<Rightarrow> ('w, string list) io" where
  "gcp_list_rolesets h =
     exec_list (h_client h) (h_mount h @ ''/rolesets'')"

definition gcp_get_service_account_key :: "'w handler \<Rightarrow> string \<Rightarrow> ('w, gcp_service_account_key) io" where
  "gcp_get_service_account_key h roleset =
     exec_with_data (h_client h) de_gcp_service_account_key GET (h_mount h @ ''/key/'' @ encode_path
         roleset) None"

definition gcp_get_oauth_token :: "'w handler \<Rightarrow> string \<Rightarrow> ('w, gcp_oauth_token) io" where
  "gcp_get_oauth_token h roleset =
     exec_with_data (h_client h) de_gcp_oauth_token GET (h_mount h @ ''/token/'' @ encode_path
         roleset) None"

definition gcp_rotate_roleset :: "'w handler \<Rightarrow> string \<Rightarrow> ('w, unit) io" where
  "gcp_rotate_roleset h name =
     exec_empty (h_client h) POST (h_mount h @ ''/roleset/'' @ encode_path name @ ''/rotate'') None"

end
