(* ===== verification/Small_Engines.thy ===== *)
theory Small_Engines
  imports Api
begin

text \<open>
  The SSH, TOTP, Consul, Nomad, RabbitMQ and Terraform Cloud secrets engines: their types
  (\<open>types/*.rs\<close>) and handlers (\<open>api/*.rs\<close>).
\<close>

section \<open>SSH\<close>

record ssh_role_request =
  SshRoleRequest_key_type :: string
  SshRoleRequest_default_user :: "string option"
  SshRoleRequest_allowed_users :: "string option"
  SshRoleRequest_allowed_domains :: "string option"
  SshRoleRequest_ttl :: "string option"
  SshRoleRequest_max_ttl :: "string option"
  SshRoleRequest_allowed_critical_options :: "string option"
  SshRoleRequest_allowed_extensions :: "string option"
  SshRoleRequest_default_extensions :: "json option"
  SshRoleRequest_allow_user_certificates :: "bool option"
  SshRoleRequest_allow_host_certificates :: "bool option"
  SshRoleRequest_allow_bare_domains :: "bool option"
  SshRoleRequest_allow_subdomains :: "bool option"
  SshRoleRequest_algorithm_signer :: "string option"

definition ser_ssh_role_request :: "ssh_role_request \<Rightarrow> json" where
  "ser_ssh_role_request x = obj
     ([(''key_type'', JStr (SshRoleRequest_key_type x))]
      @ opt_field ''default_user'' JStr (SshRoleRequest_default_user x)
      @ opt_field ''allowed_users'' JStr (SshRoleRequest_allowed_users x)
      @ opt_field ''allowed_domains'' JStr (SshRoleRequest_allowed_domains x)
      @ opt_field ''ttl'' JStr (SshRoleRequest_ttl x)
      @ opt_field ''max_ttl'' JStr (SshRoleRequest_max_ttl x)
      @ opt_field ''allowed_critical_options'' JStr (SshRoleRequest_allowed_critical_options x)
      @ opt_field ''allowed_extensions'' JStr (SshRoleRequest_allowed_extensions x)
      @ opt_field ''default_extensions'' id (SshRoleRequest_default_extensions x)
      @ opt_field ''allow_user_certificates'' JBool (SshRoleRequest_allow_user_certificates x)
      @ opt_field ''allow_host_certificates'' JBool (SshRoleRequest_allow_host_certificates x)
      @ opt_field ''allow_bare_domains'' JBool (SshRoleRequest_allow_bare_domains x)
      @ opt_field ''allow_subdomains'' JBool (SshRoleRequest_allow_subdomains x)
      @ opt_field ''algorithm_signer'' JStr (SshRoleRequest_algorithm_signer x))"

record ssh_role =
  SshRole_key_type :: string
  SshRole_default_user :: string
  SshRole_allowed_users :: string
  SshRole_ttl :: string
  SshRole_max_ttl :: string
  SshRole_allowed_critical_options :: string
  SshRole_allowed_extensions :: string
  SshRole_allow_user_certificates :: bool
  SshRole_allow_host_certificates :: bool

definition de_ssh_role :: "json \<Rightarrow> ssh_role option" where
  "de_ssh_role = in_obj (\<lambda>v.
     Option.bind (fld de_string ''key_type'' v) (\<lambda>x0.
     Option.bind (fld de_string ''default_user'' v) (\<lambda>x1.
     Option.bind (fld de_string ''allowed_users'' v) (\<lambda>x2.
     Option.bind (fld de_string ''ttl'' v) (\<lambda>x3.
     Option.bind (fld de_string ''max_ttl'' v) (\<lambda>x4.
     Option.bind (fld de_string ''allowed_critical_options'' v) (\<lambda>x5.
     Option.bind (fld de_string ''allowed_extensions'' v) (\<lambda>x6.
     Option.bind (fld de_bool ''allow_user_certificates'' v) (\<lambda>x7.
     Option.bind (fld de_bool ''allow_host_certificates'' v) (\<lambda>x8.
       Some \<lparr>SshRole_key_type = x0, SshRole_default_user = x1, SshRole_allowed_users = x2,
             SshRole_ttl = x3, SshRole_max_ttl = x4, SshRole_allowed_critical_options = x5,
             SshRole_allowed_extensions = x6, SshRole_allow_user_certificates = x7,
             SshRole_allow_host_certificates = x8\<rparr>))))))))))"

record ssh_sign_request =
  SshSignRequest_public_key :: string
  SshSignRequest_valid_principals :: "string option"
  SshSignRequest_cert_type :: "string option"
  SshSignRequest_ttl :: "string option"
  SshSignRequest_critical_options :: "json option"
  SshSignRequest_extensions :: "json option"

definition ser_ssh_sign_request :: "ssh_sign_request \<Rightarrow> json" where
  "ser_ssh_sign_request x = obj
     ([(''public_key'', JStr (SshSignRequest_public_key x))]
      @ opt_field ''valid_principals'' JStr (SshSignRequest_valid_principals x)
      @ opt_field ''cert_type'' JStr (SshSignRequest_cert_type x)
      @ opt_field ''ttl'' JStr (SshSignRequest_ttl x)
      @ opt_field ''critical_options'' id (SshSignRequest_critical_options x)
      @ opt_field ''extensions'' id (SshSignRequest_extensions x))"

record ssh_signed_key =
  SshSignedKey_serial_number :: string
  SshSignedKey_signed_key :: secret

definition de_ssh_signed_key :: "json \<Rightarrow> ssh_signed_key option" where
  "de_ssh_signed_key = in_obj (\<lambda>v.
     Option.bind (fld de_string ''serial_number'' v) (\<lambda>x0.
     Option.bind (fld de_secret ''signed_key'' v) (\<lambda>x1.
       Some \<lparr>SshSignedKey_serial_number = x0, SshSignedKey_signed_key = x1\<rparr>)))"

definition dbg_ssh_signed_key :: "nat \<Rightarrow> ssh_signed_key \<Rightarrow> dbg" where
  "dbg_ssh_signed_key lvl x = DStruct ''SshSignedKey''
     [(''serial_number'', DStr (SshSignedKey_serial_number x)),
      (''signed_key'', dbg_secret lvl (SshSignedKey_signed_key x))]"

record ssh_ca_config_request =
  SshCaConfigRequest_generate_signing_key :: "bool option"
  SshCaConfigRequest_private_key :: "secret option"
  SshCaConfigRequest_public_key :: "string option"
  SshCaConfigRequest_key_type :: "string option"
  SshCaConfigRequest_key_bits :: "nat option"

definition ser_ssh_ca_config_request :: "ssh_ca_config_request \<Rightarrow> json" where
  "ser_ssh_ca_config_request x = obj
     (opt_field ''generate_signing_key'' JBool (SshCaConfigRequest_generate_signing_key x)
      @ opt_field ''private_key'' ser_secret (SshCaConfigRequest_private_key x)
      @ opt_field ''public_key'' JStr (SshCaConfigRequest_public_key x)
      @ opt_field ''key_type'' JStr (SshCaConfigRequest_key_type x)
      @ opt_field ''key_bits'' jnat (SshCaConfigRequest_key_bits x))"

record ssh_ca_public_key =
  SshCaPublicKey_public_key :: string

definition de_ssh_ca_public_key :: "json \<Rightarrow> ssh_ca_public_key option" where
  "de_ssh_ca_public_key = in_obj (\<lambda>v.
     Option.bind (fld de_string ''public_key'' v) (\<lambda>x0.
       Some \<lparr>SshCaPublicKey_public_key = x0\<rparr>))"

record ssh_verify_request =
  SshVerifyRequest_otp :: secret

definition ser_ssh_verify_request :: "ssh_verify_request \<Rightarrow> json" where
  "ser_ssh_verify_request x = obj
     ([(''otp'', ser_secret (SshVerifyRequest_otp x))])"

record ssh_verify_response =
  SshVerifyResponse_ip :: string
  SshVerifyResponse_username :: string

definition de_ssh_verify_response :: "json \<Rightarrow> ssh_verify_response option" where
  "de_ssh_verify_response = in_obj (\<lambda>v.
     Option.bind (fld de_string ''ip'' v) (\<lambda>x0.
     Option.bind (fld de_string ''username'' v) (\<lambda>x1.
       Some \<lparr>SshVerifyResponse_ip = x0, SshVerifyResponse_username = x1\<rparr>)))"

definition ssh_configure_ca :: "'w handler \<Rightarrow> ssh_ca_config_request \<Rightarrow> ('w, unit) io" where
  "ssh_configure_ca h params =
     bind_io (lift_io (to_body (Inr (ser_ssh_ca_config_request params)))) (\<lambda>body.
       exec_empty (h_client h) POST (h_mount h @ ''/config/ca'') (Some body))"

definition ssh_read_public_key :: "'w handler \<Rightarrow> ('w, ssh_ca_public_key) io" where
  "ssh_read_public_key h =
     exec_with_data (h_client h) de_ssh_ca_public_key GET (h_mount h @ ''/config/ca'') None"

definition ssh_delete_ca :: "'w handler \<Rightarrow> ('w, unit) io" where
  "ssh_delete_ca h =
     exec_empty (h_client h) DELETE (h_mount h @ ''/config/ca'') None"

definition ssh_create_role :: "'w handler \<Rightarrow> string \<Rightarrow> ssh_role_request \<Rightarrow> ('w, unit) io" where
  "ssh_create_role h name params =
     bind_io (lift_io (to_body (Inr (ser_ssh_role_request params)))) (\<lambda>body.
       exec_empty (h_client h) POST (h_mount h @ ''/roles/'' @ encode_path name) (Some body))"

definition ssh_read_role :: "'w handler \<Rightarrow> string \<Rightarrow> ('w, ssh_role) io" where
  "ssh_read_role h name =
     exec_with_data (h_client h) de_ssh_role GET (h_mount h @ ''/roles/'' @ encode_path name) None"

definition ssh_delete_role :: "'w handler \<Rightarrow> string \<Rightarrow> ('w, unit) io" where
  "ssh_delete_role h name =
     exec_empty (h_client h) DELETE (h_mount h @ ''/roles/'' @ encode_path name) None"

definition ssh_list_roles :: "'w handler \<Rightarrow> ('w, string list) io" where
  "ssh_list_roles h =
     exec_list (h_client h) (h_mount h @ ''/roles'')"

definition ssh_sign_key :: "'w handler \<Rightarrow> string \<Rightarrow> ssh_sign_request \<Rightarrow> ('w, ssh_signed_key) io" where
  "ssh_sign_key h role params =
     bind_io (lift_io (to_body (Inr (ser_ssh_sign_request params)))) (\<lambda>body.
       exec_with_data (h_client h) de_ssh_signed_key POST (h_mount h @ ''/sign/'' @ encode_path
           role) (Some body))"

definition ssh_verify_otp :: "'w handler \<Rightarrow> ssh_verify_request \<Rightarrow> ('w, ssh_verify_response) io" where
  "ssh_verify_otp h params =
     bind_io (lift_io (to_body (Inr (ser_ssh_verify_request params)))) (\<lambda>body.
       exec_with_data (h_client h) de_ssh_verify_response POST (h_mount h @ ''/verify'') (Some body))"

section \<open>TOTP\<close>

record totp_key_request =
  TotpKeyRequest_generate :: bool
  TotpKeyRequest_exported :: "bool option"
  TotpKeyRequest_key_size :: "nat option"
  TotpKeyRequest_url :: "string option"
  TotpKeyRequest_key :: "secret option"
  TotpKeyRequest_issuer :: "string option"
  TotpKeyRequest_account_name :: "string option"
  TotpKeyRequest_period :: "nat option"
  TotpKeyRequest_algorithm :: "string option"
  TotpKeyRequest_digits :: "nat option"
  TotpKeyRequest_skew :: "nat option"
  TotpKeyRequest_qr_size :: "nat option"

definition ser_totp_key_request :: "totp_key_request \<Rightarrow> json" where
  "ser_totp_key_request x = obj
     ([(''generate'', JBool (TotpKeyRequest_generate x))]
      @ opt_field ''exported'' JBool (TotpKeyRequest_exported x)
      @ opt_field ''key_size'' jnat (TotpKeyRequest_key_size x)
      @ opt_field ''url'' JStr (TotpKeyRequest_url x)
      @ opt_field ''key'' ser_secret (TotpKeyRequest_key x)
      @ opt_field ''issuer'' JStr (TotpKeyRequest_issuer x)
      @ opt_field ''account_name'' JStr (TotpKeyRequest_account_name x)
      @ opt_field ''period'' jnat (TotpKeyRequest_period x)
      @ opt_field ''algorithm'' JStr (TotpKeyRequest_algorithm x)
      @ opt_field ''digits'' jnat (TotpKeyRequest_digits x)
      @ opt_field ''skew'' jnat (TotpKeyRequest_skew x)
      @ opt_field ''qr_size'' jnat (TotpKeyRequest_qr_size x))"

record totp_key_info =
  TotpKeyInfo_account_name :: string
  TotpKeyInfo_algorithm :: string
  TotpKeyInfo_digits :: nat
  TotpKeyInfo_issuer :: string
  TotpKeyInfo_period :: nat

definition de_totp_key_info :: "json \<Rightarrow> totp_key_info option" where
  "de_totp_key_info = in_obj (\<lambda>v.
     Option.bind (fld_default [] de_string ''account_name'' v) (\<lambda>x0.
     Option.bind (fld_default [] de_string ''algorithm'' v) (\<lambda>x1.
     Option.bind (fld_default 0 (de_uint 32) ''digits'' v) (\<lambda>x2.
     Option.bind (fld_default [] de_string ''issuer'' v) (\<lambda>x3.
     Option.bind (fld_default 0 (de_uint 32) ''period'' v) (\<lambda>x4.
       Some \<lparr>TotpKeyInfo_account_name = x0, TotpKeyInfo_algorithm = x1, TotpKeyInfo_digits = x2,
             TotpKeyInfo_issuer = x3, TotpKeyInfo_period = x4\<rparr>))))))"

record totp_generate_response =
  TotpGenerateResponse_barcode :: "secret option"
  TotpGenerateResponse_url :: "secret option"

definition de_totp_generate_response :: "json \<Rightarrow> totp_generate_response option" where
  "de_totp_generate_response = in_obj (\<lambda>v.
     Option.bind (fld_opt de_secret ''barcode'' v) (\<lambda>x0.
     Option.bind (fld_opt de_secret ''url'' v) (\<lambda>x1.
       Some \<lparr>TotpGenerateResponse_barcode = x0, TotpGenerateResponse_url = x1\<rparr>)))"

definition dbg_totp_generate_response :: "nat \<Rightarrow> totp_generate_response \<Rightarrow> dbg" where
  "dbg_totp_generate_response lvl x = DStruct ''TotpGenerateResponse''
     [(''barcode'', dbg_opt (dbg_secret lvl) (TotpGenerateResponse_barcode x)),
      (''url'', dbg_opt (dbg_secret lvl) (TotpGenerateResponse_url x))]"

record totp_code =
  TotpCode_code :: secret

definition de_totp_code :: "json \<Rightarrow> totp_code option" where
  "de_totp_code = in_obj (\<lambda>v.
     Option.bind (fld de_secret ''code'' v) (\<lambda>x0.
       Some \<lparr>TotpCode_code = x0\<rparr>))"

definition dbg_totp_code :: "nat \<Rightarrow> totp_code \<Rightarrow> dbg" where
  "dbg_totp_code lvl x = DStruct ''TotpCode''
     [(''code'', dbg_secret lvl (TotpCode_code x))]"

record totp_validation =
  TotpValidation_valid :: bool

definition de_totp_validation :: "json \<Rightarrow> totp_validation option" where
  "de_totp_validation = in_obj (\<lambda>v.
     Option.bind (fld de_bool ''valid'' v) (\<lambda>x0.
       Some \<lparr>TotpValidation_valid = x0\<rparr>))"

definition totp_create_key :: "'w handler \<Rightarrow> string \<Rightarrow> totp_key_request \<Rightarrow> ('w, totp_generate_response option) io" where
  "totp_create_key h name params =
     bind_io (lift_io (to_body (Inr (ser_totp_key_request params)))) (\<lambda>body.
       map_io (\<lambda>resp. Ok (data resp)) (exec_with_auth (h_client h) de_totp_generate_response
           POST (h_mount h @ ''/keys/'' @ encode_path name) (Some body)))"

definition totp_read_key :: "'w handler \<Rightarrow> string \<Rightarrow> ('w, totp_key_info) io" where
  "totp_read_key h name =
     exec_with_data (h_client h) de_totp_key_info GET (h_mount h @ ''/keys/'' @ encode_path name) None"

definition totp_delete_key :: "'w handler \<Rightarrow> string \<Rightarrow> ('w, unit) io" where
  "totp_delete_key h name =
     exec_empty (h_client h) DELETE (h_mount h @ ''/keys/'' @ encode_path name) None"

definition totp_list_keys :: "'w handler \<Rightarrow> ('w, string list) io" where
  "totp_list_keys h =
     exec_list (h_client h) (h_mount h @ ''/keys'')"

definition totp_generate_code :: "'w handler \<Rightarrow> string \<Rightarrow> ('w, totp_code) io" where
  "totp_generate_code h name =
     exec_with_data (h_client h) de_totp_code GET (h_mount h @ ''/code/'' @ encode_path name) None"

definition totp_validate_code :: "'w handler \<Rightarrow> string \<Rightarrow> string \<Rightarrow> ('w, totp_validation) io" where
  "totp_validate_code h name code =
     (let body = obj [(''code'', JStr code)]
      in exec_with_data (h_client h) de_totp_validation POST (h_mount h @ ''/code/'' @ encode_path
          name) (Some body))"

section \<open>Consul\<close>

record consul_config_request =
  ConsulConfigRequest_address :: string
  ConsulConfigRequest_scheme :: "string option"
  ConsulConfigRequest_token :: "secret option"

definition ser_consul_config_request :: "consul_config_request \<Rightarrow> json" where
  "ser_consul_config_request x = obj
     ([(''address'', JStr (ConsulConfigRequest_address x))]
      @ opt_field ''scheme'' JStr (ConsulConfigRequest_scheme x)
      @ opt_field ''token'' ser_secret (ConsulConfigRequest_token x))"

record consul_config =
  ConsulConfig_address :: string
  ConsulConfig_scheme :: string

definition de_consul_config :: "json \<Rightarrow> consul_config option" where
  "de_consul_config = in_obj (\<lambda>v.
     Option.bind (fld_default [] de_string ''address'' v) (\<lambda>x0.
     Option.bind (fld_default [] de_string ''scheme'' v) (\<lambda>x1.
       Some \<lparr>ConsulConfig_address = x0, ConsulConfig_scheme = x1\<rparr>)))"

record consul_role_request =
  ConsulRoleRequest_consul_policies :: "(string list) option"
  ConsulRoleRequest_consul_roles :: "(string list) option"
  ConsulRoleRequest_service_identities :: "(string list) option"
  ConsulRoleRequest_node_identities :: "(string list) option"
  ConsulRoleRequest_consul_namespace :: "string option"
  ConsulRoleRequest_partition :: "string option"
  ConsulRoleRequest_ttl :: "string option"
  ConsulRoleRequest_max_ttl :: "string option"
  ConsulRoleRequest_local :: "bool option"

definition ser_consul_role_request :: "consul_role_request \<Rightarrow> json" where
  "ser_consul_role_request x = obj
     (opt_field ''consul_policies'' jstrs (ConsulRoleRequest_consul_policies x)
      @ opt_field ''consul_roles'' jstrs (ConsulRoleRequest_consul_roles x)
      @ opt_field ''service_identities'' jstrs (ConsulRoleRequest_service_identities x)
      @ opt_field ''node_identities'' jstrs (ConsulRoleRequest_node_identities x)
      @ opt_field ''consul_namespace'' JStr (ConsulRoleRequest_consul_namespace x)
      @ opt_field ''partition'' JStr (ConsulRoleRequest_partition x)
      @ opt_field ''ttl'' JStr (ConsulRoleRequest_ttl x)
      @ opt_field ''max_ttl'' JStr (ConsulRoleRequest_max_ttl x)
      @ opt_field ''local'' JBool (ConsulRoleRequest_local x))"

record consul_role =
  ConsulRole_consul_policies :: "string list"
  ConsulRole_consul_roles :: "string list"
  ConsulRole_service_identities :: "string list"
  ConsulRole_node_identities :: "string list"
  ConsulRole_ttl :: nat
  ConsulRole_max_ttl :: nat
  ConsulRole_local :: bool

definition de_consul_role :: "json \<Rightarrow> consul_role option" where
  "de_consul_role = in_obj (\<lambda>v.
     Option.bind (fld_default [] (de_vec de_string) ''consul_policies'' v) (\<lambda>x0.
     Option.bind (fld_default [] (de_vec de_string) ''consul_roles'' v) (\<lambda>x1.
     Option.bind (fld_default [] (de_vec de_string) ''service_identities'' v) (\<lambda>x2.
     Option.bind (fld_default [] (de_vec de_string) ''node_identities'' v) (\<lambda>x3.
     Option.bind (fld_default 0 (de_uint 64) ''ttl'' v) (\<lambda>x4.
     Option.bind (fld_default 0 (de_uint 64) ''max_ttl'' v) (\<lambda>x5.
     Option.bind (fld_default False de_bool ''local'' v) (\<lambda>x6.
       Some \<lparr>ConsulRole_consul_policies = x0, ConsulRole_consul_roles = x1,
             ConsulRole_service_identities = x2, ConsulRole_node_identities = x3, ConsulRole_ttl =
             x4, ConsulRole_max_ttl = x5, ConsulRole_local = x6\<rparr>))))))))"

record consul_credentials =
  ConsulCredentials_token :: secret

definition de_consul_credentials :: "json \<Rightarrow> consul_credentials option" where
  "de_consul_credentials = in_obj (\<lambda>v.
     Option.bind (fld de_secret ''token'' v) (\<lambda>x0.
       Some \<lparr>ConsulCredentials_token = x0\<rparr>))"

definition dbg_consul_credentials :: "nat \<Rightarrow> consul_credentials \<Rightarrow> dbg" where
  "dbg_consul_credentials lvl x = DStruct ''ConsulCredentials''
     [(''token'', dbg_secret lvl (ConsulCredentials_token x))]"

definition consul_configure :: "'w handler \<Rightarrow> consul_config_request \<Rightarrow> ('w, unit) io" where
  "consul_configure h params =
     bind_io (lift_io (to_body (Inr (ser_consul_config_request params)))) (\<lambda>body.
       exec_empty (h_client h) POST (h_mount h @ ''/config/access'') (Some body))"

definition consul_read_config :: "'w handler \<Rightarrow> ('w, consul_config) io" where
  "consul_read_config h =
     exec_with_data (h_client h) de_consul_config GET (h_mount h @ ''/config/access'') None"

definition consul_delete_config :: "'w handler \<Rightarrow> ('w, unit) io" where
  "consul_delete_config h =
     exec_empty (h_client h) DELETE (h_mount h @ ''/config/access'') None"

definition consul_create_role :: "'w handler \<Rightarrow> string \<Rightarrow> consul_role_request \<Rightarrow> ('w, unit) io" where
  "consul_create_role h name params =
     bind_io (lift_io (to_body (Inr (ser_consul_role_request params)))) (\<lambda>body.
       exec_empty (h_client h) POST (h_mount h @ ''/roles/'' @ encode_path name) (Some body))"

definition consul_read_role :: "'w handler \<Rightarrow> string \<Rightarrow> ('w, consul_role) io" where
  "consul_read_role h name =
     exec_with_data (h_client h) de_consul_role GET (h_mount h @ ''/roles/'' @ encode_path name) None"

definition consul_delete_role :: "'w handler \<Rightarrow> string \<Rightarrow> ('w, unit) io" where
  "consul_delete_role h name =
     exec_empty (h_client h) DELETE (h_mount h @ ''/roles/'' @ encode_path name) None"

definition consul_list_roles :: "'w handler \<Rightarrow> ('w, string list) io" where
  "consul_list_roles h =
     exec_list (h_client h) (h_mount h @ ''/roles'')"

definition consul_get_credentials :: "'w handler \<Rightarrow> string \<Rightarrow> ('w, consul_credentials) io" where
  "consul_get_credentials h role =
     exec_with_data (h_client h) de_consul_credentials GET (h_mount h @ ''/creds/'' @ encode_path
         role) None"

section \<open>Nomad\<close>

record nomad_config_request =
  NomadConfigRequest_address :: string
  NomadConfigRequest_token :: "secret option"
  NomadConfigRequest_max_token_name_length :: "nat option"

definition ser_nomad_config_request :: "nomad_config_request \<Rightarrow> json" where
  "ser_nomad_config_request x = obj
     ([(''address'', JStr (NomadConfigRequest_address x))]
      @ opt_field ''token'' ser_secret (NomadConfigRequest_token x)
      @ opt_field ''max_token_name_length'' jnat (NomadConfigRequest_max_token_name_length x))"

record nomad_config =
  NomadConfig_address :: string
  NomadConfig_max_token_name_length :: nat

definition de_nomad_config :: "json \<Rightarrow> nomad_config option" where
  "de_nomad_config = in_obj (\<lambda>v.
     Option.bind (fld_default [] de_string ''address'' v) (\<lambda>x0.
     Option.bind (fld_default 0 (de_uint 32) ''max_token_name_length'' v) (\<lambda>x1.
       Some \<lparr>NomadConfig_address = x0, NomadConfig_max_token_name_length = x1\<rparr>)))"

record nomad_role_request =
  NomadRoleRequest_policies :: "(string list) option"
  NomadRoleRequest_token_type :: "string option"
  NomadRoleRequest_global :: "bool option"

definition ser_nomad_role_request :: "nomad_role_request \<Rightarrow> json" where
  "ser_nomad_role_request x = obj
     (opt_field ''policies'' jstrs (NomadRoleRequest_policies x)
      @ opt_field ''type'' JStr (NomadRoleRequest_token_type x)
      @ opt_field ''global'' JBool (NomadRoleRequest_global x))"

record nomad_role =
  NomadRole_policies :: "string list"
  NomadRole_token_type :: string
  NomadRole_global :: bool

definition de_nomad_role :: "json \<Rightarrow> nomad_role option" where
  "de_nomad_role = in_obj (\<lambda>v.
     Option.bind (fld_default [] (de_vec de_string) ''policies'' v) (\<lambda>x0.
     Option.bind (fld_default [] de_string ''type'' v) (\<lambda>x1.
     Option.bind (fld_default False de_bool ''global'' v) (\<lambda>x2.
       Some \<lparr>NomadRole_policies = x0, NomadRole_token_type = x1, NomadRole_global = x2\<rparr>))))"

record nomad_credentials =
  NomadCredentials_secret_id :: secret
  NomadCredentials_accessor_id :: string

definition de_nomad_credentials :: "json \<Rightarrow> nomad_credentials option" where
  "de_nomad_credentials = in_obj (\<lambda>v.
     Option.bind (fld de_secret ''secret_id'' v) (\<lambda>x0.
     Option.bind (fld de_string ''accessor_id'' v) (\<lambda>x1.
       Some \<lparr>NomadCredentials_secret_id = x0, NomadCredentials_accessor_id = x1\<rparr>)))"

definition dbg_nomad_credentials :: "nat \<Rightarrow> nomad_credentials \<Rightarrow> dbg" where
  "dbg_nomad_credentials lvl x = DStruct ''NomadCredentials''
     [(''secret_id'', dbg_secret lvl (NomadCredentials_secret_id x)),
      (''accessor_id'', DStr (NomadCredentials_accessor_id x))]"

definition nomad_configure :: "'w handler \<Rightarrow> nomad_config_request \<Rightarrow> ('w, unit) io" where
  "nomad_configure h params =
     bind_io (lift_io (to_body (Inr (ser_nomad_config_request params)))) (\<lambda>body.
       exec_empty (h_client h) POST (h_mount h @ ''/config/access'') (Some body))"

definition nomad_read_config :: "'w handler \<Rightarrow> ('w, nomad_config) io" where
  "nomad_read_config h =
     exec_with_data (h_client h) de_nomad_config GET (h_mount h @ ''/config/access'') None"

definition nomad_delete_config :: "'w handler \<Rightarrow> ('w, unit) io" where
  "nomad_delete_config h =
     exec_empty (h_client h) DELETE (h_mount h @ ''/config/access'') None"

definition nomad_create_role :: "'w handler \<Rightarrow> string \<Rightarrow> nomad_role_request \<Rightarrow> ('w, unit) io" where
  "nomad_create_role h name params =
     bind_io (lift_io (to_body (Inr (ser_nomad_role_request params)))) (\<lambda>body.
       exec_empty (h_client h) POST (h_mount h @ ''/role/'' @ encode_path name) (Some body))"

definition nomad_read_role :: "'w handler \<Rightarrow> string \<Rightarrow> ('w, nomad_role) io" where
  "nomad_read_role h name =
     exec_with_data (h_client h) de_nomad_role GET (h_mount h @ ''/role/'' @ encode_path name) None"

definition nomad_delete_role :: "'w handler \<Rightarrow> string \<Rightarrow> ('w, unit) io" where
  "nomad_delete_role h name =
     exec_empty (h_client h) DELETE (h_mount h @ ''/role/'' @ encode_path name) None"

definition nomad_list_roles :: "'w handler \<Rightarrow> ('w, string list) io" where
  "nomad_list_roles h =
     exec_list (h_client h) (h_mount h @ ''/role'')"

definition nomad_get_credentials :: "'w handler \<Rightarrow> string \<Rightarrow> ('w, nomad_credentials) io" where
  "nomad_get_credentials h role =
     exec_with_data (h_client h) de_nomad_credentials GET (h_mount h @ ''/creds/'' @ encode_path
         role) None"

section \<open>RabbitMQ\<close>

record rabbitmq_config_request =
  RabbitmqConfigRequest_connection_uri :: string
  RabbitmqConfigRequest_username :: string
  RabbitmqConfigRequest_password :: "secret option"
  RabbitmqConfigRequest_verify_connection :: "bool option"

definition ser_rabbitmq_config_request :: "rabbitmq_config_request \<Rightarrow> json" where
  "ser_rabbitmq_config_request x = obj
     ([(''connection_uri'', JStr (RabbitmqConfigRequest_connection_uri x))]
      @ [(''username'', JStr (RabbitmqConfigRequest_username x))]
      @ opt_field ''password'' ser_secret (RabbitmqConfigRequest_password x)
      @ opt_field ''verify_connection'' JBool (RabbitmqConfigRequest_verify_connection x))"

record rabbitmq_role_request =
  RabbitmqRoleRequest_vhosts :: "json option"
  RabbitmqRoleRequest_vhost_topics :: "json option"
  RabbitmqRoleRequest_tags :: "string option"

definition ser_rabbitmq_role_request :: "rabbitmq_role_request \<Rightarrow> json" where
  "ser_rabbitmq_role_request x = obj
     (opt_field ''vhosts'' id (RabbitmqRoleRequest_vhosts x)
      @ opt_field ''vhost_topics'' id (RabbitmqRoleRequest_vhost_topics x)
      @ opt_field ''tags'' JStr (RabbitmqRoleRequest_tags x))"

record rabbitmq_role =
  RabbitmqRole_vhosts :: json
  RabbitmqRole_vhost_topics :: json
  RabbitmqRole_tags :: string

definition de_rabbitmq_role :: "json \<Rightarrow> rabbitmq_role option" where
  "de_rabbitmq_role = in_obj (\<lambda>v.
     Option.bind (fld_default JNull de_value ''vhosts'' v) (\<lambda>x0.
     Option.bind (fld_default JNull de_value ''vhost_topics'' v) (\<lambda>x1.
     Option.bind (fld_default [] de_string ''tags'' v) (\<lambda>x2.
       Some \<lparr>RabbitmqRole_vhosts = x0, RabbitmqRole_vhost_topics = x1, RabbitmqRole_tags = x2\<rparr>))))"

record rabbitmq_credentials =
  RabbitmqCredentials_username :: string
  RabbitmqCredentials_password :: secret

definition de_rabbitmq_credentials :: "json \<Rightarrow> rabbitmq_credentials option" where
  "de_rabbitmq_credentials = in_obj (\<lambda>v.
     Option.bind (fld de_string ''username'' v) (\<lambda>x0.
     Option.bind (fld de_secret ''password'' v) (\<lambda>x1.
       Some \<lparr>RabbitmqCredentials_username = x0, RabbitmqCredentials_password = x1\<rparr>)))"

definition dbg_rabbitmq_credentials :: "nat \<Rightarrow> rabbitmq_credentials \<Rightarrow> dbg" where
  "dbg_rabbitmq_credentials lvl x = DStruct ''RabbitmqCredentials''
     [(''username'', DStr (RabbitmqCredentials_username x)),
      (''password'', dbg_secret lvl (RabbitmqCredentials_password x))]"

definition rabbitmq_configure :: "'w handler \<Rightarrow> rabbitmq_config_request \<Rightarrow> ('w, unit) io" where
  "rabbitmq_configure h params =
     bind_io (lift_io (to_body (Inr (ser_rabbitmq_config_request params)))) (\<lambda>body.
       exec_empty (h_client h) POST (h_mount h @ ''/config/connection'') (Some body))"

definition rabbitmq_configure_lease :: "'w handler \<Rightarrow> string \<Rightarrow> string \<Rightarrow> ('w, unit) io" where
  "rabbitmq_configure_lease h ttl max_ttl =
     (let body = obj [(''ttl'', JStr ttl), (''max_ttl'', JStr max_ttl)]
      in exec_empty (h_client h) POST (h_mount h @ ''/config/lease'') (Some body))"

definition rabbitmq_create_role :: "'w handler \<Rightarrow> string \<Rightarrow> rabbitmq_role_request \<Rightarrow> ('w, unit) io" where
  "rabbitmq_create_role h name params =
     bind_io (lift_io (to_body (Inr (ser_rabbitmq_role_request params)))) (\<lambda>body.
       exec_empty (h_client h) POST (h_mount h @ ''/roles/'' @ encode_path name) (Some body))"

definition rabbitmq_read_role :: "'w handler \<Rightarrow> string \<Rightarrow> ('w, rabbitmq_role) io" where
  "rabbitmq_read_role h name =
     exec_with_data (h_client h) de_rabbitmq_role GET (h_mount h @ ''/roles/'' @ encode_path name) None"

definition rabbitmq_delete_role :: "'w handler \<Rightarrow> string \<Rightarrow> ('w, unit) io" where
  "rabbitmq_delete_role h name =
     exec_empty (h_client h) DELETE (h_mount h @ ''/roles/'' @ encode_path name) None"

definition rabbitmq_list_roles :: "'w handler \<Rightarrow> ('w, string list) io" where
  "rabbitmq_list_roles h =
     exec_list (h_client h) (h_mount h @ ''/roles'')"

definition rabbitmq_get_credentials :: "'w handler \<Rightarrow> string \<Rightarrow> ('w, rabbitmq_credentials) io" where
  "rabbitmq_get_credentials h role =
     exec_with_data (h_client h) de_rabbitmq_credentials GET (h_mount h @ ''/creds/'' @ encode_path
         role) None"

section \<open>Terraform Cloud\<close>

record terraform_cloud_config_request =
  TerraformCloudConfigRequest_token :: secret
  TerraformCloudConfigRequest_address :: "string option"

definition ser_terraform_cloud_config_request :: "terraform_cloud_config_request \<Rightarrow> json" where
  "ser_terraform_cloud_config_request x = obj
     ([(''token'', ser_secret (TerraformCloudConfigRequest_token x))]
      @ opt_field ''address'' JStr (TerraformCloudConfigRequest_address x))"

record terraform_cloud_config =
  TerraformCloudConfig_address :: string

definition de_terraform_cloud_config :: "json \<Rightarrow> terraform_cloud_config option" where
  "de_terraform_cloud_config = in_obj (\<lambda>v.
     Option.bind (fld_default [] de_string ''address'' v) (\<lambda>x0.
       Some \<lparr>TerraformCloudConfig_address = x0\<rparr>))"

record terraform_cloud_role_request =
  TerraformCloudRoleRequest_organization :: "string option"
  TerraformCloudRoleRequest_team_id :: "string option"
  TerraformCloudRoleRequest_user_id :: "string option"
  TerraformCloudRoleRequest_ttl :: "string option"
  TerraformCloudRoleRequest_max_ttl :: "string option"

definition ser_terraform_cloud_role_request :: "terraform_cloud_role_request \<Rightarrow> json" where
  "ser_terraform_cloud_role_request x = obj
     (opt_field ''organization'' JStr (TerraformCloudRoleRequest_organization x)
      @ opt_field ''team_id'' JStr (TerraformCloudRoleRequest_team_id x)
      @ opt_field ''user_id'' JStr (TerraformCloudRoleRequest_user_id x)
      @ opt_field ''ttl'' JStr (TerraformCloudRoleRequest_ttl x)
      @ opt_field ''max_ttl'' JStr (TerraformCloudRoleRequest_max_ttl x))"

record terraform_cloud_role =
  TerraformCloudRole_organization :: string
  TerraformCloudRole_team_id :: string
  TerraformCloudRole_user_id :: string
  TerraformCloudRole_ttl :: nat
  TerraformCloudRole_max_ttl :: nat

definition de_terraform_cloud_role :: "json \<Rightarrow> terraform_cloud_role option" where
  "de_terraform_cloud_role = in_obj (\<lambda>v.
     Option.bind (fld_default [] de_string ''organization'' v) (\<lambda>x0.
     Option.bind (fld_default [] de_string ''team_id'' v) (\<lambda>x1.
     Option.bind (fld_default [] de_string ''user_id'' v) (\<lambda>x2.
     Option.bind (fld_default 0 (de_uint 64) ''ttl'' v) (\<lambda>x3.
     Option.bind (fld_default 0 (de_uint 64) ''max_ttl'' v) (\<lambda>x4.
       Some \<lparr>TerraformCloudRole_organization = x0, TerraformCloudRole_team_id = x1,
             TerraformCloudRole_user_id = x2, TerraformCloudRole_ttl = x3, TerraformCloudRole_max_ttl
             = x4\<rparr>))))))"

record terraform_cloud_token =
  TerraformCloudToken_token :: secret
  TerraformCloudToken_token_id :: string

definition de_terraform_cloud_token :: "json \<Rightarrow> terraform_cloud_token option" where
  "de_terraform_cloud_token = in_obj (\<lambda>v.
     Option.bind (fld de_secret ''token'' v) (\<lambda>x0.
     Option.bind (fld_default [] de_string ''token_id'' v) (\<lambda>x1.
       Some \<lparr>TerraformCloudToken_token = x0, TerraformCloudToken_token_id = x1\<rparr>)))"

definition dbg_terraform_cloud_token :: "nat \<Rightarrow> terraform_cloud_token \<Rightarrow> dbg" where
  "dbg_terraform_cloud_token lvl x = DStruct ''TerraformCloudToken''
     [(''token'', dbg_secret lvl (TerraformCloudToken_token x)),
      (''token_id'', DStr (TerraformCloudToken_token_id x))]"

definition terraform_configure :: "'w handler \<Rightarrow> terraform_cloud_config_request \<Rightarrow> ('w, unit) io" where
  "terraform_configure h params =
     bind_io (lift_io (to_body (Inr (ser_terraform_cloud_config_request params)))) (\<lambda>body.
       exec_empty (h_client h) POST (h_mount h @ ''/config'') (Some body))"

definition terraform_read_config :: "'w handler \<Rightarrow> ('w, terraform_cloud_config) io" where
  "terraform_read_config h =
     exec_with_data (h_client h) de_terraform_cloud_config GET (h_mount h @ ''/config'') None"

definition terraform_delete_config :: "'w handler \<Rightarrow> ('w, unit) io" where
  "terraform_delete_config h =
     exec_empty (h_client h) DELETE (h_mount h @ ''/config'') None"

definition terraform_create_role :: "'w handler \<Rightarrow> string \<Rightarrow> terraform_cloud_role_request \<Rightarrow> ('w, unit) io" where
  "terraform_create_role h name params =
     bind_io (lift_io (to_body (Inr (ser_terraform_cloud_role_request params)))) (\<lambda>body.
       exec_empty (h_client h) POST (h_mount h @ ''/role/'' @ encode_path name) (Some body))"

definition terraform_read_role :: "'w handler \<Rightarrow> string \<Rightarrow> ('w, terraform_cloud_role) io" where
  "terraform_read_role h name =
     exec_with_data (h_client h) de_terraform_cloud_role GET (h_mount h @ ''/role/'' @ encode_path
         name) None"

definition terraform_delete_role :: "'w handler \<Rightarrow> string \<Rightarrow> ('w, unit) io" where
  "terraform_delete_role h name =
     exec_empty (h_client h) DELETE (h_mount h @ ''/role/'' @ encode_path name) None"

definition terraform_list_roles :: "'w handler \<Rightarrow> ('w, string list) io" where
  "terraform_list_roles h =
     exec_list (h_client h) (h_mount h @ ''/role'')"

definition terraform_get_credentials :: "'w handler \<Rightarrow> string \<Rightarrow> ('w, terraform_cloud_token) io" where
  "terraform_get_credentials h role =
     exec_with_data (h_client h) de_terraform_cloud_token GET (h_mount h @ ''/creds/'' @ encode_path
         role) None"

end
