(* ===== verification/Identity.thy ===== *)
theory Identity
  imports Api
begin

text \<open>
  The identity store: \<open>types/identity.rs\<close> and \<open>api/identity.rs\<close>.
\<close>

section \<open>Types\<close>

record entity_create_request =
  EntityCreateRequest_name :: "string option"
  EntityCreateRequest_metadata :: "((string \<times> string) list) option"
  EntityCreateRequest_policies :: "(string list) option"
  EntityCreateRequest_disabled :: "bool option"

definition ser_entity_create_request :: "entity_create_request \<Rightarrow> json" where
  "ser_entity_create_request x = obj
     (opt_field ''name'' JStr (EntityCreateRequest_name x)
      @ opt_field ''metadata'' (ser_map JStr) (EntityCreateRequest_metadata x)
      @ opt_field ''policies'' jstrs (EntityCreateRequest_policies x)
      @ opt_field ''disabled'' JBool (EntityCreateRequest_disabled x))"

record entity_alias =
  EntityAlias_id :: string
  EntityAlias_canonical_id :: string
  EntityAlias_mount_accessor :: string
  EntityAlias_mount_type :: string
  EntityAlias_name :: string
  EntityAlias_metadata :: "((string \<times> string) list) option"

definition de_entity_alias :: "json \<Rightarrow> entity_alias option" where
  "de_entity_alias = in_obj (\<lambda>v.
     Option.bind (fld de_string ''id'' v) (\<lambda>x0.
     Option.bind (fld de_string ''canonical_id'' v) (\<lambda>x1.
     Option.bind (fld de_string ''mount_accessor'' v) (\<lambda>x2.
     Option.bind (fld de_string ''mount_type'' v) (\<lambda>x3.
     Option.bind (fld de_string ''name'' v) (\<lambda>x4.
     Option.bind (fld_opt (de_map de_string) ''metadata'' v) (\<lambda>x5.
       Some \<lparr>EntityAlias_id = x0, EntityAlias_canonical_id = x1, EntityAlias_mount_accessor = x2,
             EntityAlias_mount_type = x3, EntityAlias_name = x4, EntityAlias_metadata = x5\<rparr>)))))))"

record entity =
  Entity_id :: string
  Entity_name :: string
  Entity_metadata :: "((string \<times> string) list) option"
  Entity_policies :: "string list"
  Entity_disabled :: bool
  Entity_aliases :: "entity_alias list"
  Entity_creation_time :: string
  Entity_last_update_time :: string

definition de_entity :: "json \<Rightarrow> entity option" where
  "de_entity = in_obj (\<lambda>v.
     Option.bind (fld de_string ''id'' v) (\<lambda>x0.
     Option.bind (fld de_string ''name'' v) (\<lambda>x1.
     Option.bind (fld_opt (de_map de_string) ''metadata'' v) (\<lambda>x2.
     Option.bind (fld_default [] (de_vec de_string) ''policies'' v) (\<lambda>x3.
     Option.bind (fld de_bool ''disabled'' v) (\<lambda>x4.
     Option.bind (fld_default [] (de_vec de_entity_alias) ''aliases'' v) (\<lambda>x5.
     Option.bind (fld de_string ''creation_time'' v) (\<lambda>x6.
     Option.bind (fld de_string ''last_update_time'' v) (\<lambda>x7.
       Some \<lparr>Entity_id = x0, Entity_name = x1, Entity_metadata = x2, Entity_policies = x3,
             Entity_disabled = x4, Entity_aliases = x5, Entity_creation_time = x6,
             Entity_last_update_time = x7\<rparr>)))))))))"

record entity_alias_create_request =
  EntityAliasCreateRequest_name :: string
  EntityAliasCreateRequest_canonical_id :: string
  EntityAliasCreateRequest_mount_accessor :: string
  EntityAliasCreateRequest_metadata :: "((string \<times> string) list) option"

definition ser_entity_alias_create_request :: "entity_alias_create_request \<Rightarrow> json" where
  "ser_entity_alias_create_request x = obj
     ([(''name'', JStr (EntityAliasCreateRequest_name x))]
      @ [(''canonical_id'', JStr (EntityAliasCreateRequest_canonical_id x))]
      @ [(''mount_accessor'', JStr (EntityAliasCreateRequest_mount_accessor x))]
      @ opt_field ''metadata'' (ser_map JStr) (EntityAliasCreateRequest_metadata x))"

record entity_alias_response =
  EntityAliasResponse_id :: string
  EntityAliasResponse_canonical_id :: string
  EntityAliasResponse_mount_accessor :: string
  EntityAliasResponse_name :: string

definition de_entity_alias_response :: "json \<Rightarrow> entity_alias_response option" where
  "de_entity_alias_response = in_obj (\<lambda>v.
     Option.bind (fld de_string ''id'' v) (\<lambda>x0.
     Option.bind (fld de_string ''canonical_id'' v) (\<lambda>x1.
     Option.bind (fld de_string ''mount_accessor'' v) (\<lambda>x2.
     Option.bind (fld de_string ''name'' v) (\<lambda>x3.
       Some \<lparr>EntityAliasResponse_id = x0, EntityAliasResponse_canonical_id = x1,
             EntityAliasResponse_mount_accessor = x2, EntityAliasResponse_name = x3\<rparr>)))))"

record group_create_request =
  GroupCreateRequest_name :: string
  GroupCreateRequest_policies :: "(string list) option"
  GroupCreateRequest_metadata :: "((string \<times> string) list) option"
  GroupCreateRequest_member_entity_ids :: "(string list) option"
  GroupCreateRequest_member_group_ids :: "(string list) option"
  GroupCreateRequest_group_type :: "string option"

definition ser_group_create_request :: "group_create_request \<Rightarrow> json" where
  "ser_group_create_request x = obj
     ([(''name'', JStr (GroupCreateRequest_name x))]
      @ opt_field ''policies'' jstrs (GroupCreateRequest_policies x)
      @ opt_field ''metadata'' (ser_map JStr) (GroupCreateRequest_metadata x)
      @ opt_field ''member_entity_ids'' jstrs (GroupCreateRequest_member_entity_ids x)
      @ opt_field ''member_group_ids'' jstrs (GroupCreateRequest_member_group_ids x)
      @ opt_field ''type'' JStr (GroupCreateRequest_group_type x))"

record group_alias =
  GroupAlias_id :: string
  GroupAlias_canonical_id :: string
  GroupAlias_mount_accessor :: string
  GroupAlias_mount_type :: string
  GroupAlias_name :: string

definition de_group_alias :: "json \<Rightarrow> group_alias option" where
  "de_group_alias = in_obj (\<lambda>v.
     Option.bind (fld de_string ''id'' v) (\<lambda>x0.
     Option.bind (fld de_string ''canonical_id'' v) (\<lambda>x1.
     Option.bind (fld de_string ''mount_accessor'' v) (\<lambda>x2.
     Option.bind (fld de_string ''mount_type'' v) (\<lambda>x3.
     Option.bind (fld de_string ''name'' v) (\<lambda>x4.
       Some \<lparr>GroupAlias_id = x0, GroupAlias_canonical_id = x1, GroupAlias_mount_accessor = x2,
             GroupAlias_mount_type = x3, GroupAlias_name = x4\<rparr>))))))"

record group =
  Group_id :: string
  Group_name :: string
  Group_policies :: "string list"
  Group_metadata :: "((string \<times> string) list) option"
  Group_member_entity_ids :: "string list"
  Group_member_group_ids :: "string list"
  Group_group_type :: string
  Group_creation_time :: string
  Group_last_update_time :: string
  Group_alias :: "group_alias option"

definition de_group :: "json \<Rightarrow> group option" where
  "de_group = in_obj (\<lambda>v.
     Option.bind (fld de_string ''id'' v) (\<lambda>x0.
     Option.bind (fld de_string ''name'' v) (\<lambda>x1.
     Option.bind (fld_default [] (de_vec de_string) ''policies'' v) (\<lambda>x2.
     Option.bind (fld_opt (de_map de_string) ''metadata'' v) (\<lambda>x3.
     Option.bind (fld_default [] (de_vec de_string) ''member_entity_ids'' v) (\<lambda>x4.
     Option.bind (fld_default [] (de_vec de_string) ''member_group_ids'' v) (\<lambda>x5.
     Option.bind (fld de_string ''type'' v) (\<lambda>x6.
     Option.bind (fld de_string ''creation_time'' v) (\<lambda>x7.
     Option.bind (fld de_string ''last_update_time'' v) (\<lambda>x8.
     Option.bind (fld_opt de_group_alias ''alias'' v) (\<lambda>x9.
       Some \<lparr>Group_id = x0, Group_name = x1, Group_policies = x2, Group_metadata = x3,
             Group_member_entity_ids = x4, Group_member_group_ids = x5, Group_group_type = x6,
             Group_creation_time = x7, Group_last_update_time = x8, Group_alias = x9\<rparr>)))))))))))"

record group_alias_create_request =
  GroupAliasCreateRequest_name :: string
  GroupAliasCreateRequest_mount_accessor :: string
  GroupAliasCreateRequest_canonical_id :: string

definition ser_group_alias_create_request :: "group_alias_create_request \<Rightarrow> json" where
  "ser_group_alias_create_request x = obj
     ([(''name'', JStr (GroupAliasCreateRequest_name x))]
      @ [(''mount_accessor'', JStr (GroupAliasCreateRequest_mount_accessor x))]
      @ [(''canonical_id'', JStr (GroupAliasCreateRequest_canonical_id x))])"

record group_alias_response =
  GroupAliasResponse_id :: string
  GroupAliasResponse_canonical_id :: string
  GroupAliasResponse_mount_accessor :: string
  GroupAliasResponse_name :: string

definition de_group_alias_response :: "json \<Rightarrow> group_alias_response option" where
  "de_group_alias_response = in_obj (\<lambda>v.
     Option.bind (fld de_string ''id'' v) (\<lambda>x0.
     Option.bind (fld de_string ''canonical_id'' v) (\<lambda>x1.
     Option.bind (fld de_string ''mount_accessor'' v) (\<lambda>x2.
     Option.bind (fld de_string ''name'' v) (\<lambda>x3.
       Some \<lparr>GroupAliasResponse_id = x0, GroupAliasResponse_canonical_id = x1,
             GroupAliasResponse_mount_accessor = x2, GroupAliasResponse_name = x3\<rparr>)))))"

section \<open>Operations\<close>

definition identity_create_entity :: "'w client \<Rightarrow> entity_create_request \<Rightarrow> ('w, entity) io" where
  "identity_create_entity c params =
     bind_io (lift_io (to_body (Inr (ser_entity_create_request params)))) (\<lambda>body.
       exec_with_data c de_entity POST ''identity/entity'' (Some body))"

definition identity_read_entity :: "'w client \<Rightarrow> string \<Rightarrow> ('w, entity) io" where
  "identity_read_entity c ident =
     exec_with_data c de_entity GET (''identity/entity/id/'' @ encode_path ident) None"

definition identity_read_entity_by_name :: "'w client \<Rightarrow> string \<Rightarrow> ('w, entity) io" where
  "identity_read_entity_by_name c name =
     exec_with_data c de_entity GET (''identity/entity/name/'' @ encode_path name) None"

definition identity_update_entity :: "'w client \<Rightarrow> string \<Rightarrow> entity_create_request \<Rightarrow> ('w, unit) io" where
  "identity_update_entity c ident params =
     bind_io (lift_io (to_body (Inr (ser_entity_create_request params)))) (\<lambda>body.
       exec_empty c POST (''identity/entity/id/'' @ encode_path ident) (Some body))"

definition identity_delete_entity :: "'w client \<Rightarrow> string \<Rightarrow> ('w, unit) io" where
  "identity_delete_entity c ident =
     exec_empty c DELETE (''identity/entity/id/'' @ encode_path ident) None"

definition identity_list_entities :: "'w client \<Rightarrow> ('w, string list) io" where
  "identity_list_entities c =
     exec_list c (''identity/entity/id'')"

definition identity_create_entity_alias :: "'w client \<Rightarrow> entity_alias_create_request \<Rightarrow> ('w, entity_alias_response) io" where
  "identity_create_entity_alias c params =
     bind_io (lift_io (to_body (Inr (ser_entity_alias_create_request params)))) (\<lambda>body.
       exec_with_data c de_entity_alias_response POST ''identity/entity-alias'' (Some body))"

definition identity_read_entity_alias :: "'w client \<Rightarrow> string \<Rightarrow> ('w, entity_alias_response) io" where
  "identity_read_entity_alias c ident =
     exec_with_data c de_entity_alias_response GET (''identity/entity-alias/id/'' @ encode_path
         ident) None"

definition identity_delete_entity_alias :: "'w client \<Rightarrow> string \<Rightarrow> ('w, unit) io" where
  "identity_delete_entity_alias c ident =
     exec_empty c DELETE (''identity/entity-alias/id/'' @ encode_path ident) None"

definition identity_list_entity_aliases :: "'w client \<Rightarrow> ('w, string list) io" where
  "identity_list_entity_aliases c =
     exec_list c (''identity/entity-alias/id'')"

definition identity_create_group :: "'w client \<Rightarrow> group_create_request \<Rightarrow> ('w, group) io" where
  "identity_create_group c params =
     bind_io (lift_io (to_body (Inr (ser_group_create_request params)))) (\<lambda>body.
       exec_with_data c de_group POST ''identity/group'' (Some body))"

definition identity_read_group :: "'w client \<Rightarrow> string \<Rightarrow> ('w, group) io" where
  "identity_read_group c ident =
     exec_with_data c de_group GET (''identity/group/id/'' @ encode_path ident) None"

definition identity_read_group_by_name :: "'w client \<Rightarrow> string \<Rightarrow> ('w, group) io" where
  "identity_read_group_by_name c name =
     exec_with_data c de_group GET (''identity/group/name/'' @ encode_path name) None"

definition identity_update_group :: "'w client \<Rightarrow> string \<Rightarrow> group_create_request \<Rightarrow> ('w, unit) io" where
  "identity_update_group c ident params =
     bind_io (lift_io (to_body (Inr (ser_group_create_request params)))) (\<lambda>body.
       exec_empty c POST (''identity/group/id/'' @ encode_path ident) (Some body))"

definition identity_delete_group :: "'w client \<Rightarrow> string \<Rightarrow> ('w, unit) io" where
  "identity_delete_group c ident =
     exec_empty c DELETE (''identity/group/id/'' @ encode_path ident) None"

definition identity_list_groups :: "'w client \<Rightarrow> ('w, string list) io" where
  "identity_list_groups c =
     exec_list c (''identity/group/id'')"

definition identity_create_group_alias :: "'w client \<Rightarrow> group_alias_create_request \<Rightarrow> ('w, group_alias_response) io" where
  "identity_create_group_alias c params =
     bind_io (lift_io (to_body (Inr (ser_group_alias_create_request params)))) (\<lambda>body.
       exec_with_data c de_group_alias_response POST ''identity/group-alias'' (Some body))"

definition identity_read_group_alias :: "'w client \<Rightarrow> string \<Rightarrow> ('w, group_alias_response) io" where
  "identity_read_group_alias c ident =
     exec_with_data c de_group_alias_response GET (''identity/group-alias/id/'' @ encode_path ident)
         None"

definition identity_delete_group_alias :: "'w client \<Rightarrow> string \<Rightarrow> ('w, unit) io" where
  "identity_delete_group_alias c ident =
     exec_empty c DELETE (''identity/group-alias/id/'' @ encode_path ident) None"

definition identity_list_group_aliases :: "'w client \<Rightarrow> ('w, string list) io" where
  "identity_list_group_aliases c =
     exec_list c (''identity/group-alias/id'')"

end
