(* ===== verification/Sys.thy ===== *)
theory Sys
  imports Api "HOL-Library.Multiset"
begin

text \<open>
  The system backend: \<open>types/sys.rs\<close> and \<open>api/sys/**\<close>.
\<close>

section \<open>Types\<close>

record health_response =
  HealthResponse_initialized :: bool
  HealthResponse_sealed :: bool
  HealthResponse_standby :: bool
  HealthResponse_performance_standby :: bool
  HealthResponse_replication_performance_mode :: "string option"
  HealthResponse_replication_dr_mode :: "string option"
  HealthResponse_server_time_utc :: "nat option"
  HealthResponse_version :: string
  HealthResponse_cluster_name :: "string option"
  HealthResponse_cluster_id :: "string option"

definition de_health_response :: "json \<Rightarrow> health_response option" where
  "de_health_response = in_obj (\<lambda>v.
     Option.bind (fld de_bool ''initialized'' v) (\<lambda>x0.
     Option.bind (fld de_bool ''sealed'' v) (\<lambda>x1.
     Option.bind (fld de_bool ''standby'' v) (\<lambda>x2.
     Option.bind (fld_default False de_bool ''performance_standby'' v) (\<lambda>x3.
     Option.bind (fld_opt de_string ''replication_performance_mode'' v) (\<lambda>x4.
     Option.bind (fld_opt de_string ''replication_dr_mode'' v) (\<lambda>x5.
     Option.bind (fld_opt (de_uint 64) ''server_time_utc'' v) (\<lambda>x6.
     Option.bind (fld de_string ''version'' v) (\<lambda>x7.
     Option.bind (fld_opt de_string ''cluster_name'' v) (\<lambda>x8.
     Option.bind (fld_opt de_string ''cluster_id'' v) (\<lambda>x9.
       Some \<lparr>HealthResponse_initialized = x0, HealthResponse_sealed = x1, HealthResponse_standby =
             x2, HealthResponse_performance_standby = x3, HealthResponse_replication_performance_mode
             = x4, HealthResponse_replication_dr_mode = x5, HealthResponse_server_time_utc = x6,
             HealthResponse_version = x7, HealthResponse_cluster_name = x8, HealthResponse_cluster_id
             = x9\<rparr>)))))))))))"

record leader_response =
  LeaderResponse_ha_enabled :: bool
  LeaderResponse_is_self :: bool
  LeaderResponse_leader_address :: string
  LeaderResponse_leader_cluster_address :: string
  LeaderResponse_performance_standby :: bool

definition de_leader_response :: "json \<Rightarrow> leader_response option" where
  "de_leader_response = in_obj (\<lambda>v.
     Option.bind (fld de_bool ''ha_enabled'' v) (\<lambda>x0.
     Option.bind (fld de_bool ''is_self'' v) (\<lambda>x1.
     Option.bind (fld_default [] de_string ''leader_address'' v) (\<lambda>x2.
     Option.bind (fld_default [] de_string ''leader_cluster_address'' v) (\<lambda>x3.
     Option.bind (fld_default False de_bool ''performance_standby'' v) (\<lambda>x4.
       Some \<lparr>LeaderResponse_ha_enabled = x0, LeaderResponse_is_self = x1,
             LeaderResponse_leader_address = x2, LeaderResponse_leader_cluster_address = x3,
             LeaderResponse_performance_standby = x4\<rparr>))))))"

record seal_status =
  SealStatus_seal_type :: string
  SealStatus_initialized :: bool
  SealStatus_sealed :: bool
  SealStatus_t :: nat
  SealStatus_n :: nat
  SealStatus_progress :: nat
  SealStatus_nonce :: string
  SealStatus_version :: string
  SealStatus_build_date :: "string option"
  SealStatus_migration :: "bool option"
  SealStatus_cluster_name :: "string option"
  SealStatus_cluster_id :: "string option"
  SealStatus_recovery_seal :: "bool option"
  SealStatus_storage_type :: "string option"

definition de_seal_status :: "json \<Rightarrow> seal_status option" where
  "de_seal_status = in_obj (\<lambda>v.
     Option.bind (fld de_string ''type'' v) (\<lambda>x0.
     Option.bind (fld de_bool ''initialized'' v) (\<lambda>x1.
     Option.bind (fld de_bool ''sealed'' v) (\<lambda>x2.
     Option.bind (fld (de_uint 32) ''t'' v) (\<lambda>x3.
     Option.bind (fld (de_uint 32) ''n'' v) (\<lambda>x4.
     Option.bind (fld (de_uint 32) ''progress'' v) (\<lambda>x5.
     Option.bind (fld de_string ''nonce'' v) (\<lambda>x6.
     Option.bind (fld de_string ''version'' v) (\<lambda>x7.
     Option.bind (fld_opt de_string ''build_date'' v) (\<lambda>x8.
     Option.bind (fld_opt de_bool ''migration'' v) (\<lambda>x9.
     Option.bind (fld_opt de_string ''cluster_name'' v) (\<lambda>x10.
     Option.bind (fld_opt de_string ''cluster_id'' v) (\<lambda>x11.
     Option.bind (fld_opt de_bool ''recovery_seal'' v) (\<lambda>x12.
     Option.bind (fld_opt de_string ''storage_type'' v) (\<lambda>x13.
       Some \<lparr>SealStatus_seal_type = x0, SealStatus_initialized = x1, SealStatus_sealed = x2,
             SealStatus_t = x3, SealStatus_n = x4, SealStatus_progress = x5, SealStatus_nonce = x6,
             SealStatus_version = x7, SealStatus_build_date = x8, SealStatus_migration = x9,
             SealStatus_cluster_name = x10, SealStatus_cluster_id = x11, SealStatus_recovery_seal =
             x12, SealStatus_storage_type = x13\<rparr>)))))))))))))))"

record init_params =
  InitParams_secret_shares :: nat
  InitParams_secret_threshold :: nat
  InitParams_pgp_keys :: "(string list) option"
  InitParams_root_token_pgp_key :: "string option"
  InitParams_recovery_shares :: "nat option"
  InitParams_recovery_threshold :: "nat option"

definition ser_init_params :: "init_params \<Rightarrow> json" where
  "ser_init_params x = obj
     ([(''secret_shares'', jnat (InitParams_secret_shares x))]
      @ [(''secret_threshold'', jnat (InitParams_secret_threshold x))]
      @ opt_field ''pgp_keys'' jstrs (InitParams_pgp_keys x)
      @ opt_field ''root_token_pgp_key'' JStr (InitParams_root_token_pgp_key x)
      @ opt_field ''recovery_shares'' jnat (InitParams_recovery_shares x)
      @ opt_field ''recovery_threshold'' jnat (InitParams_recovery_threshold x))"

record init_response =
  InitResponse_keys :: "secret list"
  InitResponse_keys_base64 :: "secret list"
  InitResponse_root_token :: secret

definition de_init_response :: "json \<Rightarrow> init_response option" where
  "de_init_response = in_obj (\<lambda>v.
     Option.bind (fld_default [] (de_vec de_secret) ''keys'' v) (\<lambda>x0.
     Option.bind (fld_default [] (de_vec de_secret) ''keys_base64'' v) (\<lambda>x1.
     Option.bind (fld de_secret ''root_token'' v) (\<lambda>x2.
       Some \<lparr>InitResponse_keys = x0, InitResponse_keys_base64 = x1, InitResponse_root_token = x2\<rparr>))))"

definition dbg_init_response :: "nat \<Rightarrow> init_response \<Rightarrow> dbg" where
  "dbg_init_response lvl x = DStruct ''InitResponse''
     [(''keys'', dbg_list (dbg_secret lvl) (InitResponse_keys x)),
      (''keys_base64'', dbg_list (dbg_secret lvl) (InitResponse_keys_base64 x)),
      (''root_token'', dbg_secret lvl (InitResponse_root_token x))]"

record mount_config =
  MountConfig_default_lease_ttl :: nat
  MountConfig_max_lease_ttl :: nat
  MountConfig_force_no_cache :: bool

definition de_mount_config :: "json \<Rightarrow> mount_config option" where
  "de_mount_config = in_obj (\<lambda>v.
     Option.bind (fld (de_uint 64) ''default_lease_ttl'' v) (\<lambda>x0.
     Option.bind (fld (de_uint 64) ''max_lease_ttl'' v) (\<lambda>x1.
     Option.bind (fld_default False de_bool ''force_no_cache'' v) (\<lambda>x2.
       Some \<lparr>MountConfig_default_lease_ttl = x0, MountConfig_max_lease_ttl = x1,
             MountConfig_force_no_cache = x2\<rparr>))))"

record mount_info =
  MountInfo_mount_type :: string
  MountInfo_description :: string
  MountInfo_accessor :: string
  MountInfo_config :: mount_config
  MountInfo_local :: bool
  MountInfo_seal_wrap :: bool
  MountInfo_external_entropy_access :: bool
  MountInfo_options :: "((string \<times> string) list) option"
  MountInfo_uuid :: "string option"

definition de_mount_info :: "json \<Rightarrow> mount_info option" where
  "de_mount_info = in_obj (\<lambda>v.
     Option.bind (fld de_string ''type'' v) (\<lambda>x0.
     Option.bind (fld_default [] de_string ''description'' v) (\<lambda>x1.
     Option.bind (fld de_string ''accessor'' v) (\<lambda>x2.
     Option.bind (fld de_mount_config ''config'' v) (\<lambda>x3.
     Option.bind (fld_default False de_bool ''local'' v) (\<lambda>x4.
     Option.bind (fld_default False de_bool ''seal_wrap'' v) (\<lambda>x5.
     Option.bind (fld_default False de_bool ''external_entropy_access'' v) (\<lambda>x6.
     Option.bind (fld_opt (de_map de_string) ''options'' v) (\<lambda>x7.
     Option.bind (fld_opt de_string ''uuid'' v) (\<lambda>x8.
       Some \<lparr>MountInfo_mount_type = x0, MountInfo_description = x1, MountInfo_accessor = x2,
             MountInfo_config = x3, MountInfo_local = x4, MountInfo_seal_wrap = x5,
             MountInfo_external_entropy_access = x6, MountInfo_options = x7, MountInfo_uuid = x8\<rparr>))))))))))"

record mount_tune_params =
  MountTuneParams_default_lease_ttl :: "string option"
  MountTuneParams_max_lease_ttl :: "string option"
  MountTuneParams_description :: "string option"

definition ser_mount_tune_params :: "mount_tune_params \<Rightarrow> json" where
  "ser_mount_tune_params x = obj
     (opt_field ''default_lease_ttl'' JStr (MountTuneParams_default_lease_ttl x)
      @ opt_field ''max_lease_ttl'' JStr (MountTuneParams_max_lease_ttl x)
      @ opt_field ''description'' JStr (MountTuneParams_description x))"

record mount_params =
  MountParams_mount_type :: string
  MountParams_description :: "string option"
  MountParams_config :: "mount_tune_params option"
  MountParams_options :: "((string \<times> string) list) option"

definition ser_mount_params :: "mount_params \<Rightarrow> json" where
  "ser_mount_params x = obj
     ([(''type'', JStr (MountParams_mount_type x))]
      @ opt_field ''description'' JStr (MountParams_description x)
      @ opt_field ''config'' ser_mount_tune_params (MountParams_config x)
      @ opt_field ''options'' (ser_map JStr) (MountParams_options x))"

record auth_mount_info =
  AuthMountInfo_mount_type :: string
  AuthMountInfo_description :: string
  AuthMountInfo_accessor :: string
  AuthMountInfo_config :: mount_config
  AuthMountInfo_local :: bool
  AuthMountInfo_seal_wrap :: bool
  AuthMountInfo_uuid :: "string option"

definition de_auth_mount_info :: "json \<Rightarrow> auth_mount_info option" where
  "de_auth_mount_info = in_obj (\<lambda>v.
     Option.bind (fld de_string ''type'' v) (\<lambda>x0.
     Option.bind (fld_default [] de_string ''description'' v) (\<lambda>x1.
     Option.bind (fld de_string ''accessor'' v) (\<lambda>x2.
     Option.bind (fld de_mount_config ''config'' v) (\<lambda>x3.
     Option.bind (fld_default False de_bool ''local'' v) (\<lambda>x4.
     Option.bind (fld_default False de_bool ''seal_wrap'' v) (\<lambda>x5.
     Option.bind (fld_opt de_string ''uuid'' v) (\<lambda>x6.
       Some \<lparr>AuthMountInfo_mount_type = x0, AuthMountInfo_description = x1, AuthMountInfo_accessor =
             x2, AuthMountInfo_config = x3, AuthMountInfo_local = x4, AuthMountInfo_seal_wrap = x5,
             AuthMountInfo_uuid = x6\<rparr>))))))))"

record auth_mount_params =
  AuthMountParams_mount_type :: string
  AuthMountParams_description :: "string option"
  AuthMountParams_config :: "mount_tune_params option"

definition ser_auth_mount_params :: "auth_mount_params \<Rightarrow> json" where
  "ser_auth_mount_params x = obj
     ([(''type'', JStr (AuthMountParams_mount_type x))]
      @ opt_field ''description'' JStr (AuthMountParams_description x)
      @ opt_field ''config'' ser_mount_tune_params (AuthMountParams_config x))"

record policy_info =
  PolicyInfo_name :: string
  PolicyInfo_policy :: string

definition de_policy_info :: "json \<Rightarrow> policy_info option" where
  "de_policy_info = in_obj (\<lambda>v.
     Option.bind (fld de_string ''name'' v) (\<lambda>x0.
     Option.bind (fld de_string ''policy'' v) (\<lambda>x1.
       Some \<lparr>PolicyInfo_name = x0, PolicyInfo_policy = x1\<rparr>)))"

record lease_info =
  LeaseInfo_id :: string
  LeaseInfo_issue_time :: string
  LeaseInfo_expire_time :: "string option"
  LeaseInfo_last_renewal :: "string option"
  LeaseInfo_renewable :: bool
  LeaseInfo_ttl :: nat

definition de_lease_info :: "json \<Rightarrow> lease_info option" where
  "de_lease_info = in_obj (\<lambda>v.
     Option.bind (fld de_string ''id'' v) (\<lambda>x0.
     Option.bind (fld de_string ''issue_time'' v) (\<lambda>x1.
     Option.bind (fld_opt de_string ''expire_time'' v) (\<lambda>x2.
     Option.bind (fld_opt de_string ''last_renewal'' v) (\<lambda>x3.
     Option.bind (fld de_bool ''renewable'' v) (\<lambda>x4.
     Option.bind (fld (de_uint 64) ''ttl'' v) (\<lambda>x5.
       Some \<lparr>LeaseInfo_id = x0, LeaseInfo_issue_time = x1, LeaseInfo_expire_time = x2,
             LeaseInfo_last_renewal = x3, LeaseInfo_renewable = x4, LeaseInfo_ttl = x5\<rparr>)))))))"

record lease_renewal =
  LeaseRenewal_lease_id :: string
  LeaseRenewal_lease_duration :: nat
  LeaseRenewal_renewable :: bool

definition de_lease_renewal :: "json \<Rightarrow> lease_renewal option" where
  "de_lease_renewal = in_obj (\<lambda>v.
     Option.bind (fld de_string ''lease_id'' v) (\<lambda>x0.
     Option.bind (fld (de_uint 64) ''lease_duration'' v) (\<lambda>x1.
     Option.bind (fld de_bool ''renewable'' v) (\<lambda>x2.
       Some \<lparr>LeaseRenewal_lease_id = x0, LeaseRenewal_lease_duration = x1, LeaseRenewal_renewable =
             x2\<rparr>))))"

record audit_device =
  AuditDevice_audit_type :: string
  AuditDevice_description :: string
  AuditDevice_options :: "(string \<times> string) list"
  AuditDevice_path :: string
  AuditDevice_local :: bool

definition de_audit_device :: "json \<Rightarrow> audit_device option" where
  "de_audit_device = in_obj (\<lambda>v.
     Option.bind (fld de_string ''type'' v) (\<lambda>x0.
     Option.bind (fld_default [] de_string ''description'' v) (\<lambda>x1.
     Option.bind (fld_default [] (de_map de_string) ''options'' v) (\<lambda>x2.
     Option.bind (fld de_string ''path'' v) (\<lambda>x3.
     Option.bind (fld_default False de_bool ''local'' v) (\<lambda>x4.
       Some \<lparr>AuditDevice_audit_type = x0, AuditDevice_description = x1, AuditDevice_options = x2,
             AuditDevice_path = x3, AuditDevice_local = x4\<rparr>))))))"

record audit_params =
  AuditParams_audit_type :: string
  AuditParams_description :: "string option"
  AuditParams_options :: "(string \<times> string) list"
  AuditParams_local :: "bool option"

definition ser_audit_params :: "audit_params \<Rightarrow> json" where
  "ser_audit_params x = obj
     ([(''type'', JStr (AuditParams_audit_type x))]
      @ opt_field ''description'' JStr (AuditParams_description x)
      @ [(''options'', ser_map JStr (AuditParams_options x))]
      @ opt_field ''local'' JBool (AuditParams_local x))"

record key_status =
  KeyStatus_term :: nat
  KeyStatus_install_time :: string
  KeyStatus_encryptions :: "nat option"

definition de_key_status :: "json \<Rightarrow> key_status option" where
  "de_key_status = in_obj (\<lambda>v.
     Option.bind (fld (de_uint 64) ''term'' v) (\<lambda>x0.
     Option.bind (fld de_string ''install_time'' v) (\<lambda>x1.
     Option.bind (fld_opt (de_uint 64) ''encryptions'' v) (\<lambda>x2.
       Some \<lparr>KeyStatus_term = x0, KeyStatus_install_time = x1, KeyStatus_encryptions = x2\<rparr>))))"

record plugin_info =
  PluginInfo_name :: string
  PluginInfo_command :: string
  PluginInfo_args :: "string list"
  PluginInfo_sha256 :: string
  PluginInfo_version :: "string option"
  PluginInfo_builtin :: bool

definition de_plugin_info :: "json \<Rightarrow> plugin_info option" where
  "de_plugin_info = in_obj (\<lambda>v.
     Option.bind (fld de_string ''name'' v) (\<lambda>x0.
     Option.bind (fld de_string ''command'' v) (\<lambda>x1.
     Option.bind (fld_default [] (de_vec de_string) ''args'' v) (\<lambda>x2.
     Option.bind (fld de_string ''sha256'' v) (\<lambda>x3.
     Option.bind (fld_opt de_string ''version'' v) (\<lambda>x4.
     Option.bind (fld de_bool ''builtin'' v) (\<lambda>x5.
       Some \<lparr>PluginInfo_name = x0, PluginInfo_command = x1, PluginInfo_args = x2, PluginInfo_sha256 =
             x3, PluginInfo_version = x4, PluginInfo_builtin = x5\<rparr>)))))))"

record register_plugin_request =
  RegisterPluginRequest_name :: string
  RegisterPluginRequest_plugin_type :: string
  RegisterPluginRequest_command :: string
  RegisterPluginRequest_sha256 :: string
  RegisterPluginRequest_args :: "(string list) option"
  RegisterPluginRequest_env :: "(string list) option"
  RegisterPluginRequest_version :: "string option"

definition ser_register_plugin_request :: "register_plugin_request \<Rightarrow> json" where
  "ser_register_plugin_request x = obj
     ([(''name'', JStr (RegisterPluginRequest_name x))]
      @ [(''type'', JStr (RegisterPluginRequest_plugin_type x))]
      @ [(''command'', JStr (RegisterPluginRequest_command x))]
      @ [(''sha256'', JStr (RegisterPluginRequest_sha256 x))]
      @ opt_field ''args'' jstrs (RegisterPluginRequest_args x)
      @ opt_field ''env'' jstrs (RegisterPluginRequest_env x)
      @ opt_field ''version'' JStr (RegisterPluginRequest_version x))"

record raft_server =
  RaftServer_node_id :: string
  RaftServer_address :: string
  RaftServer_leader :: bool
  RaftServer_voter :: bool

definition de_raft_server :: "json \<Rightarrow> raft_server option" where
  "de_raft_server = in_obj (\<lambda>v.
     Option.bind (fld de_string ''node_id'' v) (\<lambda>x0.
     Option.bind (fld de_string ''address'' v) (\<lambda>x1.
     Option.bind (fld de_bool ''leader'' v) (\<lambda>x2.
     Option.bind (fld de_bool ''voter'' v) (\<lambda>x3.
       Some \<lparr>RaftServer_node_id = x0, RaftServer_address = x1, RaftServer_leader = x2,
             RaftServer_voter = x3\<rparr>)))))"

record raft_config =
  RaftConfig_servers :: "raft_server list"
  RaftConfig_index :: nat

definition de_raft_config :: "json \<Rightarrow> raft_config option" where
  "de_raft_config = in_obj (\<lambda>v.
     Option.bind (fld_default [] (de_vec de_raft_server) ''servers'' v) (\<lambda>x0.
     Option.bind (fld (de_uint 64) ''index'' v) (\<lambda>x1.
       Some \<lparr>RaftConfig_servers = x0, RaftConfig_index = x1\<rparr>)))"

record autopilot_server_state =
  AutopilotServerState_id :: string
  AutopilotServerState_name :: string
  AutopilotServerState_address :: string
  AutopilotServerState_node_status :: string
  AutopilotServerState_status :: string
  AutopilotServerState_healthy :: bool
  AutopilotServerState_last_contact :: string
  AutopilotServerState_last_index :: nat
  AutopilotServerState_last_term :: nat
  AutopilotServerState_voter :: bool
  AutopilotServerState_leader :: bool

definition de_autopilot_server_state :: "json \<Rightarrow> autopilot_server_state option" where
  "de_autopilot_server_state = in_obj (\<lambda>v.
     Option.bind (fld de_string ''id'' v) (\<lambda>x0.
     Option.bind (fld de_string ''name'' v) (\<lambda>x1.
     Option.bind (fld de_string ''address'' v) (\<lambda>x2.
     Option.bind (fld de_string ''node_status'' v) (\<lambda>x3.
     Option.bind (fld de_string ''status'' v) (\<lambda>x4.
     Option.bind (fld de_bool ''healthy'' v) (\<lambda>x5.
     Option.bind (fld de_string ''last_contact'' v) (\<lambda>x6.
     Option.bind (fld (de_uint 64) ''last_index'' v) (\<lambda>x7.
     Option.bind (fld (de_uint 64) ''last_term'' v) (\<lambda>x8.
     Option.bind (fld de_bool ''voter'' v) (\<lambda>x9.
     Option.bind (fld de_bool ''leader'' v) (\<lambda>x10.
       Some \<lparr>AutopilotServerState_id = x0, AutopilotServerState_name = x1,
             AutopilotServerState_address = x2, AutopilotServerState_node_status = x3,
             AutopilotServerState_status = x4, AutopilotServerState_healthy = x5,
             AutopilotServerState_last_contact = x6, AutopilotServerState_last_index = x7,
             AutopilotServerState_last_term = x8, AutopilotServerState_voter = x9,
             AutopilotServerState_leader = x10\<rparr>))))))))))))"

record autopilot_state =
  AutopilotState_healthy :: bool
  AutopilotState_failure_tolerance :: nat
  AutopilotState_leader :: string
  AutopilotState_voters :: "string list"
  AutopilotState_servers :: "(string \<times> autopilot_server_state) list"

definition de_autopilot_state :: "json \<Rightarrow> autopilot_state option" where
  "de_autopilot_state = in_obj (\<lambda>v.
     Option.bind (fld de_bool ''healthy'' v) (\<lambda>x0.
     Option.bind (fld (de_uint 64) ''failure_tolerance'' v) (\<lambda>x1.
     Option.bind (fld de_string ''leader'' v) (\<lambda>x2.
     Option.bind (fld_default [] (de_vec de_string) ''voters'' v) (\<lambda>x3.
     Option.bind (fld_default [] (de_map de_autopilot_server_state) ''servers'' v) (\<lambda>x4.
       Some \<lparr>AutopilotState_healthy = x0, AutopilotState_failure_tolerance = x1,
             AutopilotState_leader = x2, AutopilotState_voters = x3, AutopilotState_servers = x4\<rparr>))))))"

record namespace_info =
  NamespaceInfo_id :: string
  NamespaceInfo_path :: string

definition de_namespace_info :: "json \<Rightarrow> namespace_info option" where
  "de_namespace_info = in_obj (\<lambda>v.
     Option.bind (fld de_string ''id'' v) (\<lambda>x0.
     Option.bind (fld de_string ''path'' v) (\<lambda>x1.
       Some \<lparr>NamespaceInfo_id = x0, NamespaceInfo_path = x1\<rparr>)))"

record rate_limit_quota_request =
  RateLimitQuotaRequest_name :: string
  RateLimitQuotaRequest_rate :: json
  RateLimitQuotaRequest_burst :: "nat option"
  RateLimitQuotaRequest_path :: "string option"
  RateLimitQuotaRequest_interval :: "string option"
  RateLimitQuotaRequest_block_interval :: "string option"
  RateLimitQuotaRequest_role :: "string option"
  RateLimitQuotaRequest_inheritable :: "bool option"

definition ser_rate_limit_quota_request :: "rate_limit_quota_request \<Rightarrow> json" where
  "ser_rate_limit_quota_request x = obj
     ([(''name'', JStr (RateLimitQuotaRequest_name x))]
      @ [(''rate'', id (RateLimitQuotaRequest_rate x))]
      @ opt_field ''burst'' jnat (RateLimitQuotaRequest_burst x)
      @ opt_field ''path'' JStr (RateLimitQuotaRequest_path x)
      @ opt_field ''interval'' JStr (RateLimitQuotaRequest_interval x)
      @ opt_field ''block_interval'' JStr (RateLimitQuotaRequest_block_interval x)
      @ opt_field ''role'' JStr (RateLimitQuotaRequest_role x)
      @ opt_field ''inheritable'' JBool (RateLimitQuotaRequest_inheritable x))"

record rate_limit_quota =
  RateLimitQuota_name :: string
  RateLimitQuota_rate :: json
  RateLimitQuota_burst :: nat
  RateLimitQuota_path :: string
  RateLimitQuota_interval :: "string option"
  RateLimitQuota_block_interval :: "string option"
  RateLimitQuota_role :: "string option"
  RateLimitQuota_quota_type :: "string option"

definition de_rate_limit_quota :: "json \<Rightarrow> rate_limit_quota option" where
  "de_rate_limit_quota = in_obj (\<lambda>v.
     Option.bind (fld de_string ''name'' v) (\<lambda>x0.
     Option.bind (fld de_number ''rate'' v) (\<lambda>x1.
     Option.bind (fld (de_uint 64) ''burst'' v) (\<lambda>x2.
     Option.bind (fld de_string ''path'' v) (\<lambda>x3.
     Option.bind (fld_opt de_string ''interval'' v) (\<lambda>x4.
     Option.bind (fld_opt de_string ''block_interval'' v) (\<lambda>x5.
     Option.bind (fld_opt de_string ''role'' v) (\<lambda>x6.
     Option.bind (fld_opt de_string ''type'' v) (\<lambda>x7.
       Some \<lparr>RateLimitQuota_name = x0, RateLimitQuota_rate = x1, RateLimitQuota_burst = x2,
             RateLimitQuota_path = x3, RateLimitQuota_interval = x4, RateLimitQuota_block_interval =
             x5, RateLimitQuota_role = x6, RateLimitQuota_quota_type = x7\<rparr>)))))))))"

record rekey_init_request =
  RekeyInitRequest_secret_shares :: nat
  RekeyInitRequest_secret_threshold :: nat
  RekeyInitRequest_pgp_keys :: "(string list) option"
  RekeyInitRequest_backup :: "bool option"

definition ser_rekey_init_request :: "rekey_init_request \<Rightarrow> json" where
  "ser_rekey_init_request x = obj
     ([(''secret_shares'', jnat (RekeyInitRequest_secret_shares x))]
      @ [(''secret_threshold'', jnat (RekeyInitRequest_secret_threshold x))]
      @ opt_field ''pgp_keys'' jstrs (RekeyInitRequest_pgp_keys x)
      @ opt_field ''backup'' JBool (RekeyInitRequest_backup x))"

record rekey_status =
  RekeyStatus_started :: bool
  RekeyStatus_nonce :: string
  RekeyStatus_t :: nat
  RekeyStatus_n :: nat
  RekeyStatus_progress :: nat
  RekeyStatus_required :: nat
  RekeyStatus_pgp_finger_prints :: "(string list) option"
  RekeyStatus_backup :: bool
  RekeyStatus_verification_required :: bool
  RekeyStatus_complete :: bool
  RekeyStatus_keys :: "(secret list) option"
  RekeyStatus_keys_base64 :: "(secret list) option"

definition de_rekey_status :: "json \<Rightarrow> rekey_status option" where
  "de_rekey_status = in_obj (\<lambda>v.
     Option.bind (fld de_bool ''started'' v) (\<lambda>x0.
     Option.bind (fld de_string ''nonce'' v) (\<lambda>x1.
     Option.bind (fld (de_uint 32) ''t'' v) (\<lambda>x2.
     Option.bind (fld (de_uint 32) ''n'' v) (\<lambda>x3.
     Option.bind (fld (de_uint 32) ''progress'' v) (\<lambda>x4.
     Option.bind (fld (de_uint 32) ''required'' v) (\<lambda>x5.
     Option.bind (fld_opt (de_vec de_string) ''pgp_finger_prints'' v) (\<lambda>x6.
     Option.bind (fld de_bool ''backup'' v) (\<lambda>x7.
     Option.bind (fld de_bool ''verification_required'' v) (\<lambda>x8.
     Option.bind (fld de_bool ''complete'' v) (\<lambda>x9.
     Option.bind (fld_opt (de_vec de_secret) ''keys'' v) (\<lambda>x10.
     Option.bind (fld_opt (de_vec de_secret) ''keys_base64'' v) (\<lambda>x11.
       Some \<lparr>RekeyStatus_started = x0, RekeyStatus_nonce = x1, RekeyStatus_t = x2, RekeyStatus_n =
             x3, RekeyStatus_progress = x4, RekeyStatus_required = x5, RekeyStatus_pgp_finger_prints
             = x6, RekeyStatus_backup = x7, RekeyStatus_verification_required = x8,
             RekeyStatus_complete = x9, RekeyStatus_keys = x10, RekeyStatus_keys_base64 = x11\<rparr>)))))))))))))"

definition dbg_rekey_status :: "nat \<Rightarrow> rekey_status \<Rightarrow> dbg" where
  "dbg_rekey_status lvl x = DStruct ''RekeyStatus''
     [(''started'', DBool (RekeyStatus_started x)),
      (''nonce'', DStr (RekeyStatus_nonce x)),
      (''t'', DNum (RekeyStatus_t x)),
      (''n'', DNum (RekeyStatus_n x)),
      (''progress'', DNum (RekeyStatus_progress x)),
      (''required'', DNum (RekeyStatus_required x)),
      (''pgp_finger_prints'', dbg_opt dbg_strs (RekeyStatus_pgp_finger_prints x)),
      (''backup'', DBool (RekeyStatus_backup x)),
      (''verification_required'', DBool (RekeyStatus_verification_required x)),
      (''complete'', DBool (RekeyStatus_complete x)),
      (''keys'', dbg_opt (dbg_list (dbg_secret lvl)) (RekeyStatus_keys x)),
      (''keys_base64'', dbg_opt (dbg_list (dbg_secret lvl)) (RekeyStatus_keys_base64 x))]"

record generate_root_init_request =
  GenerateRootInitRequest_pgp_key :: "string option"

definition ser_generate_root_init_request :: "generate_root_init_request \<Rightarrow> json" where
  "ser_generate_root_init_request x = obj
     (opt_field ''pgp_key'' JStr (GenerateRootInitRequest_pgp_key x))"

record generate_root_status =
  GenerateRootStatus_started :: bool
  GenerateRootStatus_nonce :: string
  GenerateRootStatus_progress :: nat
  GenerateRootStatus_required :: nat
  GenerateRootStatus_complete :: bool
  GenerateRootStatus_encoded_token :: "secret option"
  GenerateRootStatus_encoded_root_token :: "secret option"
  GenerateRootStatus_otp_length :: "nat option"
  GenerateRootStatus_otp :: "secret option"

definition de_generate_root_status :: "json \<Rightarrow> generate_root_status option" where
  "de_generate_root_status = in_obj (\<lambda>v.
     Option.bind (fld de_bool ''started'' v) (\<lambda>x0.
     Option.bind (fld de_string ''nonce'' v) (\<lambda>x1.
     Option.bind (fld (de_uint 32) ''progress'' v) (\<lambda>x2.
     Option.bind (fld (de_uint 32) ''required'' v) (\<lambda>x3.
     Option.bind (fld de_bool ''complete'' v) (\<lambda>x4.
     Option.bind (fld_opt de_secret ''encoded_token'' v) (\<lambda>x5.
     Option.bind (fld_opt de_secret ''encoded_root_token'' v) (\<lambda>x6.
     Option.bind (fld_opt (de_uint 64) ''otp_length'' v) (\<lambda>x7.
     Option.bind (fld_opt de_secret ''otp'' v) (\<lambda>x8.
       Some \<lparr>GenerateRootStatus_started = x0, GenerateRootStatus_nonce = x1,
             GenerateRootStatus_progress = x2, GenerateRootStatus_required = x3,
             GenerateRootStatus_complete = x4, GenerateRootStatus_encoded_token = x5,
             GenerateRootStatus_encoded_root_token = x6, GenerateRootStatus_otp_length = x7,
             GenerateRootStatus_otp = x8\<rparr>))))))))))"

definition dbg_generate_root_status :: "nat \<Rightarrow> generate_root_status \<Rightarrow> dbg" where
  "dbg_generate_root_status lvl x = DStruct ''GenerateRootStatus''
     [(''started'', DBool (GenerateRootStatus_started x)),
      (''nonce'', DStr (GenerateRootStatus_nonce x)),
      (''progress'', DNum (GenerateRootStatus_progress x)),
      (''required'', DNum (GenerateRootStatus_required x)),
      (''complete'', DBool (GenerateRootStatus_complete x)),
      (''encoded_token'', dbg_opt (dbg_secret lvl) (GenerateRootStatus_encoded_token x)),
      (''encoded_root_token'', dbg_opt (dbg_secret lvl) (GenerateRootStatus_encoded_root_token x)),
      (''otp_length'', dbg_opt DNum (GenerateRootStatus_otp_length x)),
      (''otp'', dbg_opt (dbg_secret lvl) (GenerateRootStatus_otp x))]"

record remount_status =
  RemountStatus_migration_id :: string

definition de_remount_status :: "json \<Rightarrow> remount_status option" where
  "de_remount_status = in_obj (\<lambda>v.
     Option.bind (fld de_string ''migration_id'' v) (\<lambda>x0.
       Some \<lparr>RemountStatus_migration_id = x0\<rparr>))"

record host_info =
  HostInfo_cpu :: "(json list) option"
  HostInfo_disk :: "(json list) option"
  HostInfo_host :: "json option"
  HostInfo_memory :: "json option"
  HostInfo_timestamp :: string

definition de_host_info :: "json \<Rightarrow> host_info option" where
  "de_host_info = in_obj (\<lambda>v.
     Option.bind (fld_opt (de_vec de_value) ''cpu'' v) (\<lambda>x0.
     Option.bind (fld_opt (de_vec de_value) ''disk'' v) (\<lambda>x1.
     Option.bind (fld_opt de_value ''host'' v) (\<lambda>x2.
     Option.bind (fld_opt de_value ''memory'' v) (\<lambda>x3.
     Option.bind (fld de_string ''timestamp'' v) (\<lambda>x4.
       Some \<lparr>HostInfo_cpu = x0, HostInfo_disk = x1, HostInfo_host = x2, HostInfo_memory = x3,
             HostInfo_timestamp = x4\<rparr>))))))"

record in_flight_request =
  InFlightRequest_request_id :: string
  InFlightRequest_request_path :: string
  InFlightRequest_client_address :: string
  InFlightRequest_start_time :: string

definition de_in_flight_request :: "json \<Rightarrow> in_flight_request option" where
  "de_in_flight_request = in_obj (\<lambda>v.
     Option.bind (fld de_string ''request_id'' v) (\<lambda>x0.
     Option.bind (fld de_string ''request_path'' v) (\<lambda>x1.
     Option.bind (fld de_string ''client_address'' v) (\<lambda>x2.
     Option.bind (fld de_string ''start_time'' v) (\<lambda>x3.
       Some \<lparr>InFlightRequest_request_id = x0, InFlightRequest_request_path = x1,
             InFlightRequest_client_address = x2, InFlightRequest_start_time = x3\<rparr>)))))"

record version_history_entry =
  VersionHistoryEntry_version :: string
  VersionHistoryEntry_timestamp_installed :: string
  VersionHistoryEntry_build_date :: "string option"
  VersionHistoryEntry_previous_version :: "string option"

definition de_version_history_entry :: "json \<Rightarrow> version_history_entry option" where
  "de_version_history_entry = in_obj (\<lambda>v.
     Option.bind (fld_default [] de_string ''version'' v) (\<lambda>x0.
     Option.bind (fld de_string ''timestamp_installed'' v) (\<lambda>x1.
     Option.bind (fld_opt de_string ''build_date'' v) (\<lambda>x2.
     Option.bind (fld_opt de_string ''previous_version'' v) (\<lambda>x3.
       Some \<lparr>VersionHistoryEntry_version = x0, VersionHistoryEntry_timestamp_installed = x1,
             VersionHistoryEntry_build_date = x2, VersionHistoryEntry_previous_version = x3\<rparr>)))))"

section \<open>health\<close>

definition sys_health :: "'w client \<Rightarrow> ('w, health_response) io" where
  "sys_health c =
     exec_direct c de_health_response GET
         ''sys/health?standbyok=true&perfstandbyok=true&drsecondarycode=200&sealedcode=200&uninitcode=200''
         None"

definition sys_leader :: "'w client \<Rightarrow> ('w, leader_response) io" where
  "sys_leader c =
     exec_direct c de_leader_response GET ''sys/leader'' None"

section \<open>seal\<close>

definition sys_seal_status :: "'w client \<Rightarrow> ('w, seal_status) io" where
  "sys_seal_status c =
     exec_direct c de_seal_status GET ''sys/seal-status'' None"

definition sys_seal :: "'w client \<Rightarrow> ('w, unit) io" where
  "sys_seal c =
     exec_empty c PUT ''sys/seal'' None"

definition sys_unseal :: "'w client \<Rightarrow> secret \<Rightarrow> ('w, seal_status) io" where
  "sys_unseal c key =
     (let body = obj [(''key'', JStr (expose_secret key))]
      in exec_direct c de_seal_status PUT ''sys/unseal'' (Some body))"

definition sys_init :: "'w client \<Rightarrow> init_params \<Rightarrow> ('w, init_response) io" where
  "sys_init c params =
     bind_io (lift_io (to_body (Inr (ser_init_params params)))) (\<lambda>body.
       exec_direct c de_init_response PUT ''sys/init'' (Some body))"

definition sys_step_down :: "'w client \<Rightarrow> ('w, unit) io" where
  "sys_step_down c =
     exec_empty c PUT ''sys/step-down'' None"

section \<open>mounts\<close>

definition sys_list_mounts :: "'w client \<Rightarrow> ('w, (string \<times> mount_info) list) io" where
  "sys_list_mounts c =
     exec_with_data c (de_map de_mount_info) GET ''sys/mounts'' None"

definition sys_mount :: "'w client \<Rightarrow> string \<Rightarrow> mount_params \<Rightarrow> ('w, unit) io" where
  "sys_mount c path params =
     bind_io (lift_io (to_body (Inr (ser_mount_params params)))) (\<lambda>body.
       exec_empty c POST (''sys/mounts/'' @ encode_path path) (Some body))"

definition sys_unmount :: "'w client \<Rightarrow> string \<Rightarrow> ('w, unit) io" where
  "sys_unmount c path =
     exec_empty c DELETE (''sys/mounts/'' @ encode_path path) None"

definition sys_tune_mount :: "'w client \<Rightarrow> string \<Rightarrow> mount_tune_params \<Rightarrow> ('w, unit) io" where
  "sys_tune_mount c path params =
     bind_io (lift_io (to_body (Inr (ser_mount_tune_params params)))) (\<lambda>body.
       exec_empty c POST (''sys/mounts/'' @ encode_path path @ ''/tune'') (Some body))"

definition sys_read_mount_tune :: "'w client \<Rightarrow> string \<Rightarrow> ('w, mount_config) io" where
  "sys_read_mount_tune c path =
     exec_with_data c de_mount_config GET (''sys/mounts/'' @ encode_path path @ ''/tune'') None"

definition sys_list_auth_mounts :: "'w client \<Rightarrow> ('w, (string \<times> auth_mount_info) list) io" where
  "sys_list_auth_mounts c =
     exec_with_data c (de_map de_auth_mount_info) GET ''sys/auth'' None"

definition sys_enable_auth :: "'w client \<Rightarrow> string \<Rightarrow> auth_mount_params \<Rightarrow> ('w, unit) io" where
  "sys_enable_auth c path params =
     bind_io (lift_io (to_body (Inr (ser_auth_mount_params params)))) (\<lambda>body.
       exec_empty c POST (''sys/auth/'' @ encode_path path) (Some body))"

definition sys_disable_auth :: "'w client \<Rightarrow> string \<Rightarrow> ('w, unit) io" where
  "sys_disable_auth c path =
     exec_empty c DELETE (''sys/auth/'' @ encode_path path) None"

definition sys_read_auth_tune :: "'w client \<Rightarrow> string \<Rightarrow> ('w, mount_config) io" where
  "sys_read_auth_tune c path =
     exec_with_data c de_mount_config GET (''sys/auth/'' @ encode_path path @ ''/tune'') None"

section \<open>policy\<close>

definition sys_list_policies :: "'w client \<Rightarrow> ('w, string list) io" where
  "sys_list_policies c =
     exec_list c (''sys/policies/acl'')"

definition sys_read_policy :: "'w client \<Rightarrow> string \<Rightarrow> ('w, policy_info) io" where
  "sys_read_policy c name =
     exec_with_data c de_policy_info GET (''sys/policies/acl/'' @ encode_path name) None"

definition sys_write_policy :: "'w client \<Rightarrow> string \<Rightarrow> string \<Rightarrow> ('w, unit) io" where
  "sys_write_policy c name rules =
     (let body = obj [(''policy'', JStr rules)]
      in exec_empty c PUT (''sys/policies/acl/'' @ encode_path name) (Some body))"

definition sys_delete_policy :: "'w client \<Rightarrow> string \<Rightarrow> ('w, unit) io" where
  "sys_delete_policy c name =
     exec_empty c DELETE (''sys/policies/acl/'' @ encode_path name) None"

section \<open>audit\<close>

definition sys_list_audit_devices :: "'w client \<Rightarrow> ('w, (string \<times> audit_device) list) io" where
  "sys_list_audit_devices c =
     exec_with_data c (de_map de_audit_device) GET ''sys/audit'' None"

definition sys_enable_audit :: "'w client \<Rightarrow> string \<Rightarrow> audit_params \<Rightarrow> ('w, unit) io" where
  "sys_enable_audit c path params =
     bind_io (lift_io (to_body (Inr (ser_audit_params params)))) (\<lambda>body.
       exec_empty c PUT (''sys/audit/'' @ encode_path path) (Some body))"

definition sys_disable_audit :: "'w client \<Rightarrow> string \<Rightarrow> ('w, unit) io" where
  "sys_disable_audit c path =
     exec_empty c DELETE (''sys/audit/'' @ encode_path path) None"

section \<open>lease\<close>

definition sys_read_lease :: "'w client \<Rightarrow> string \<Rightarrow> ('w, lease_info) io" where
  "sys_read_lease c lease =
     (let body = obj [(''lease_id'', JStr lease)]
      in exec_with_data c de_lease_info POST ''sys/leases/lookup'' (Some body))"

definition sys_revoke_lease :: "'w client \<Rightarrow> string \<Rightarrow> ('w, unit) io" where
  "sys_revoke_lease c lease =
     (let body = obj [(''lease_id'', JStr lease)]
      in exec_empty c PUT ''sys/leases/revoke'' (Some body))"

definition sys_revoke_prefix :: "'w client \<Rightarrow> string \<Rightarrow> ('w, unit) io" where
  "sys_revoke_prefix c prefix =
     exec_empty c PUT (''sys/leases/revoke-prefix/'' @ encode_path prefix) None"

section \<open>namespaces\<close>

definition sys_list_namespaces :: "'w client \<Rightarrow> ('w, string list) io" where
  "sys_list_namespaces c =
     exec_list c (''sys/namespaces'')"

definition sys_create_namespace :: "'w client \<Rightarrow> string \<Rightarrow> ('w, namespace_info) io" where
  "sys_create_namespace c path =
     exec_with_data c de_namespace_info POST (''sys/namespaces/'' @ encode_path path) None"

definition sys_delete_namespace :: "'w client \<Rightarrow> string \<Rightarrow> ('w, unit) io" where
  "sys_delete_namespace c path =
     exec_empty c DELETE (''sys/namespaces/'' @ encode_path path) None"

section \<open>plugins\<close>

definition sys_list_plugins :: "'w client \<Rightarrow> string \<Rightarrow> ('w, string list) io" where
  "sys_list_plugins c plugin_type =
     exec_list c (''sys/plugins/catalog/'' @ encode_path plugin_type)"

definition sys_read_plugin :: "'w client \<Rightarrow> string \<Rightarrow> string \<Rightarrow> ('w, plugin_info) io" where
  "sys_read_plugin c plugin_type name =
     exec_with_data c de_plugin_info GET (''sys/plugins/catalog/'' @ encode_path plugin_type @ ''/''
         @ encode_path name) None"

definition sys_register_plugin :: "'w client \<Rightarrow> register_plugin_request \<Rightarrow> ('w, unit) io" where
  "sys_register_plugin c params =
     bind_io (lift_io (to_body (Inr (ser_register_plugin_request params)))) (\<lambda>body.
       exec_empty c POST (''sys/plugins/catalog/'' @ encode_path (RegisterPluginRequest_plugin_type
           params) @ ''/'' @ encode_path (RegisterPluginRequest_name params)) (Some body))"

definition sys_deregister_plugin :: "'w client \<Rightarrow> string \<Rightarrow> string \<Rightarrow> ('w, unit) io" where
  "sys_deregister_plugin c plugin_type name =
     exec_empty c DELETE (''sys/plugins/catalog/'' @ encode_path plugin_type @ ''/'' @ encode_path
         name) None"

definition sys_reload_plugin :: "'w client \<Rightarrow> string \<Rightarrow> ('w, unit) io" where
  "sys_reload_plugin c plugin =
     (let body = obj [(''plugin'', JStr plugin)]
      in exec_empty c PUT ''sys/plugins/reload/backend'' (Some body))"

section \<open>quotas\<close>

definition sys_list_rate_limit_quotas :: "'w client \<Rightarrow> ('w, string list) io" where
  "sys_list_rate_limit_quotas c =
     exec_list c (''sys/quotas/rate-limit'')"

definition sys_read_rate_limit_quota :: "'w client \<Rightarrow> string \<Rightarrow> ('w, rate_limit_quota) io" where
  "sys_read_rate_limit_quota c name =
     exec_with_data c de_rate_limit_quota GET (''sys/quotas/rate-limit/'' @ encode_path name) None"

definition sys_write_rate_limit_quota :: "'w client \<Rightarrow> string \<Rightarrow> rate_limit_quota_request \<Rightarrow> ('w, unit) io" where
  "sys_write_rate_limit_quota c name params =
     bind_io (lift_io (to_body (Inr (ser_rate_limit_quota_request params)))) (\<lambda>body.
       exec_empty c POST (''sys/quotas/rate-limit/'' @ encode_path name) (Some body))"

definition sys_delete_rate_limit_quota :: "'w client \<Rightarrow> string \<Rightarrow> ('w, unit) io" where
  "sys_delete_rate_limit_quota c name =
     exec_empty c DELETE (''sys/quotas/rate-limit/'' @ encode_path name) None"

section \<open>raft\<close>

definition sys_raft_config :: "'w client \<Rightarrow> ('w, raft_config) io" where
  "sys_raft_config c =
     exec_with_data c de_raft_config GET ''sys/storage/raft/configuration'' None"

definition sys_raft_autopilot_state :: "'w client \<Rightarrow> ('w, autopilot_state) io" where
  "sys_raft_autopilot_state c =
     exec_with_data c de_autopilot_state GET ''sys/storage/raft/autopilot/state'' None"

definition sys_raft_remove_peer :: "'w client \<Rightarrow> string \<Rightarrow> ('w, unit) io" where
  "sys_raft_remove_peer c server_id =
     (let body = obj [(''server_id'', JStr server_id)]
      in exec_empty c POST ''sys/storage/raft/remove-peer'' (Some body))"

section \<open>rekey\<close>

definition sys_rekey_init :: "'w client \<Rightarrow> rekey_init_request \<Rightarrow> ('w, rekey_status) io" where
  "sys_rekey_init c params =
     bind_io (lift_io (to_body (Inr (ser_rekey_init_request params)))) (\<lambda>body.
       exec_direct c de_rekey_status PUT ''sys/rekey/init'' (Some body))"

definition sys_rekey_status :: "'w client \<Rightarrow> ('w, rekey_status) io" where
  "sys_rekey_status c =
     exec_direct c de_rekey_status GET ''sys/rekey/init'' None"

definition sys_rekey_cancel :: "'w client \<Rightarrow> ('w, unit) io" where
  "sys_rekey_cancel c =
     exec_empty c DELETE ''sys/rekey/init'' None"

definition sys_rekey_update :: "'w client \<Rightarrow> secret \<Rightarrow> string \<Rightarrow> ('w, rekey_status) io" where
  "sys_rekey_update c key nonce =
     (let body = obj [(''key'', JStr (expose_secret key)), (''nonce'', JStr nonce)]
      in exec_direct c de_rekey_status PUT ''sys/rekey/update'' (Some body))"

definition sys_generate_root_init :: "'w client \<Rightarrow> generate_root_init_request \<Rightarrow> ('w, generate_root_status) io" where
  "sys_generate_root_init c params =
     bind_io (lift_io (to_body (Inr (ser_generate_root_init_request params)))) (\<lambda>body.
       exec_direct c de_generate_root_status PUT ''sys/generate-root/attempt'' (Some body))"

definition sys_generate_root_status :: "'w client \<Rightarrow> ('w, generate_root_status) io" where
  "sys_generate_root_status c =
     exec_direct c de_generate_root_status GET ''sys/generate-root/attempt'' None"

definition sys_generate_root_cancel :: "'w client \<Rightarrow> ('w, unit) io" where
  "sys_generate_root_cancel c =
     exec_empty c DELETE ''sys/generate-root/attempt'' None"

definition sys_generate_root_update :: "'w client \<Rightarrow> secret \<Rightarrow> string \<Rightarrow> ('w, generate_root_status) io" where
  "sys_generate_root_update c key nonce =
     (let body = obj [(''key'', JStr (expose_secret key)), (''nonce'', JStr nonce)]
      in exec_direct c de_generate_root_status PUT ''sys/generate-root/update'' (Some body))"

definition sys_remount :: "'w client \<Rightarrow> string \<Rightarrow> string \<Rightarrow> ('w, remount_status) io" where
  "sys_remount c origin dest =
     (let body = obj [(''from'', JStr origin), (''to'', JStr dest)]
      in exec_with_data c de_remount_status POST ''sys/remount'' (Some body))"

definition sys_metrics_json :: "'w client \<Rightarrow> ('w, json) io" where
  "sys_metrics_json c =
     exec_direct c de_value GET ''sys/metrics'' None"

definition sys_host_info :: "'w client \<Rightarrow> ('w, host_info) io" where
  "sys_host_info c =
     exec_with_data c de_host_info GET ''sys/host-info'' None"

definition sys_internal_counters_activity :: "'w client \<Rightarrow> ('w, json) io" where
  "sys_internal_counters_activity c =
     exec_with_data c de_value GET ''sys/internal/counters/activity'' None"

definition sys_rewrap :: "'w client \<Rightarrow> secret \<Rightarrow> ('w, wrap_info) io" where
  "sys_rewrap c tok =
     (let body = obj [(''token'', JStr (expose_secret tok))]
      in map_io (\<lambda>resp. ok_or (wrap_info_of resp) EmptyResponse) (exec_with_auth c de_value
          POST ''sys/wrapping/rewrap'' (Some body)))"

definition sys_in_flight_requests :: "'w client \<Rightarrow> ('w, (string \<times> in_flight_request) list) io" where
  "sys_in_flight_requests c =
     exec_direct c (de_map de_in_flight_request) GET ''sys/in-flight-req'' None"

section \<open>wrapping\<close>

definition sys_unwrap :: "'w client \<Rightarrow> (json \<Rightarrow> 'a option) \<Rightarrow> secret \<Rightarrow> ('w, 'a) io" where
  "sys_unwrap c d tok =
     (let body = obj [(''token'', JStr (expose_secret tok))]
      in exec_with_data c d POST ''sys/wrapping/unwrap'' (Some body))"

definition sys_wrap_lookup :: "'w client \<Rightarrow> secret \<Rightarrow> ('w, wrap_info) io" where
  "sys_wrap_lookup c tok =
     (let body = obj [(''token'', JStr (expose_secret tok))]
      in exec_with_data c de_wrap_info POST ''sys/wrapping/lookup'' (Some body))"

definition sys_capabilities :: "'w client \<Rightarrow> secret \<Rightarrow> string list \<Rightarrow> ('w, (string \<times> string list) list) io" where
  "sys_capabilities c tok paths =
     (let body = obj [(''token'', JStr (expose_secret tok)), (''paths'', jstrs paths)]
      in exec_with_data c (de_map (de_vec de_string)) POST ''sys/capabilities'' (Some body))"

definition sys_capabilities_self :: "'w client \<Rightarrow> string list \<Rightarrow> ('w, (string \<times> string list) list) io" where
  "sys_capabilities_self c paths =
     (let body = obj [(''paths'', jstrs paths)]
      in exec_with_data c (de_map (de_vec de_string)) POST ''sys/capabilities-self'' (Some body))"

definition sys_key_status :: "'w client \<Rightarrow> ('w, key_status) io" where
  "sys_key_status c =
     exec_with_data c de_key_status GET ''sys/key-status'' None"

definition sys_rotate_encryption_key :: "'w client \<Rightarrow> ('w, unit) io" where
  "sys_rotate_encryption_key c =
     exec_empty c PUT ''sys/rotate'' None"

section \<open>Operations with code of their own\<close>

definition sys_renew_lease :: "'w client \<Rightarrow> string \<Rightarrow> string option \<Rightarrow> ('w, lease_renewal) io" where
  "sys_renew_lease c lease increment =
     bind_io (lift_io (let body = obj [(''lease_id'', JStr lease)]
        in case increment of
             Some inc \<Rightarrow> json_set body ''increment'' (JStr inc)
           | None \<Rightarrow> Ok body)) (\<lambda>body.
     exec_direct c de_lease_renewal PUT ''sys/leases/renew'' (Some body))"

definition sys_unwrap_str :: "'w client \<Rightarrow> (json \<Rightarrow> 'a option) \<Rightarrow> string \<Rightarrow> ('w, 'a) io" where
  "sys_unwrap_str c d tok = sys_unwrap c d (Secret tok)"

definition sys_raft_snapshot :: "'w client \<Rightarrow> ('w, string) io" where
  "sys_raft_snapshot c =
     map_io (\<lambda>resp. case rs_body resp of Inl e \<Rightarrow> Err (Http e) | Inr bytes \<Rightarrow> Ok bytes)
       (execute c GET ''sys/storage/raft/snapshot'' None)"

text \<open>The restore builds and sends its request itself, with a raw body.\<close>

definition sys_raft_snapshot_restore :: "'w client \<Rightarrow> string \<Rightarrow> ('w, unit) io" where
  "sys_raft_snapshot_restore c snapshot =
     (let url_str = base_url c @ ''v1/sys/storage/raft/snapshot''
      in case e_url (cl_env c) url_str of
           Inl e \<Rightarrow> lift_io (Err (Url e))
         | Inr url \<Rightarrow>
             (let req = (header ''X-Vault-Request'' ''true''
                           \<lparr>rq_method = POST, rq_url = url, rq_headers = [], rq_body = None\<rparr>)
                        \<lparr>rq_body := Some (RawBody snapshot)\<rparr>
              in bind_io (inject_headers c req) (\<lambda>req. \<lambda>s.
                   case send c req s of
                     (Inl e, s') \<Rightarrow> (Err (Http e), s')
                   | (Inr resp, s') \<Rightarrow>
                       (let status = rs_status resp
                        in if 200 \<le> status \<and> status \<le> 299 then Ok ()
                           else if status = 401 then Err AuthRequired
                           else if status = 403 then Err (PermissionDenied (extract_errors c resp))
                           else Err (Api status (extract_errors c resp)), s'))))"

text \<open>
  \<open>iter\<close> is the order in which the \<open>HashMap\<close> of the answer yields its entries, which Rust leaves
  open; the sort is stable.
\<close>

record version_history_response =
  VersionHistoryResponse_key_info :: "(string \<times> version_history_entry) list"

definition de_version_history_response :: "json \<Rightarrow> version_history_response option" where
  "de_version_history_response = in_obj (\<lambda>v.
     Option.bind (fld_default [] (de_map de_version_history_entry) ''key_info'' v) (\<lambda>x0.
       Some \<lparr>VersionHistoryResponse_key_info = x0\<rparr>))"

definition version_entries ::
  "((string \<times> version_history_entry) list \<Rightarrow> (string \<times> version_history_entry) list)
     \<Rightarrow> version_history_response \<Rightarrow> version_history_entry list" where
  "version_entries iter resp =
     sort_key VersionHistoryEntry_timestamp_installed
       (map (\<lambda>(ver, entry). entry\<lparr>VersionHistoryEntry_version := ver\<rparr>)
          (iter (VersionHistoryResponse_key_info resp)))"

definition sys_version_history ::
  "'w client \<Rightarrow> ((string \<times> version_history_entry) list \<Rightarrow> (string \<times> version_history_entry) list)
     \<Rightarrow> ('w, version_history_entry list) io" where
  "sys_version_history c iter =
     map_io (\<lambda>resp. Ok (version_entries iter resp))
       (exec_with_data c de_version_history_response GET ''sys/version-history'' None)"

section \<open>Properties\<close>

text \<open>
  C31: A snapshot restore bypasses everything the other calls go through: whatever the token's age, the
  breaker's state and the answer, it sends at most one request - a POST of the raw snapshot with the
  token as it is stored - never sleeps, retries or renews, and leaves token and breaker alone; it
  succeeds exactly on a 2xx answer.
\<close>

theorem raft_restore_bypasses:
  assumes "sys_raft_snapshot_restore c snapshot s = (r, s')"
  shows "\<exists>es. trace s' = trace s @ es \<and> length (requests es) \<le> 1 \<and> sleeps es = [] \<and> token_changes es = []
    \<and> token s' = token s \<and> breaker s' = breaker s
    \<and> list_all (\<lambda>rq. rq_method rq = POST \<and> rq_body rq = Some (RawBody snapshot)
         \<and> map_of (rq_headers rq) ''X-Vault-Token''
             = map_option (\<lambda>ts. expose_secret (ts_value ts)) (token s)) (requests es)
    \<and> is_ok r = (\<exists>resp. answers es = [Inr resp] \<and> 200 \<le> rs_status resp \<and> rs_status resp \<le> 299)"
proof (cases "e_url (cl_env c) (base_url c @ ''v1/sys/storage/raft/snapshot'')")
  case (Inl e)
  then show ?thesis using assms by (auto simp: sys_raft_snapshot_restore_def intro: exI [of _ "[]"])
next
  case (Inr url)
  let ?req = "(header ''X-Vault-Request'' ''true''
     \<lparr>rq_method = POST, rq_url = url, rq_headers = [], rq_body = None\<rparr>)\<lparr>rq_body := Some (RawBody snapshot)\<rparr>"
  show ?thesis
  proof (cases "token_poisoned s")
    case True
    then show ?thesis
      using assms Inr by (auto simp: sys_raft_snapshot_restore_def inject_headers_def bind_io_cases Let_def intro: exI [of _ "[]"])
  next
    case False
    then obtain req where req: "inject_headers c ?req s = (Ok req, s)" "rq_method req = POST"
      "rq_body req = Some (RawBody snapshot)"
      "map_of (rq_headers req) ''X-Vault-Token'' = map_option (\<lambda>ts. expose_secret (ts_value ts)) (token s)"
      by (auto simp: inject_headers_def header_def Let_def split: option.split)
    obtain res s1 where sd: "send c req s = (res, s1)" by fastforce
    note fr = send_frame [OF sd]
    have "r = (case res of Inl e \<Rightarrow> Err (Http e)
        | Inr resp \<Rightarrow> let status = rs_status resp
            in if 200 \<le> status \<and> status \<le> 299 then Ok ()
               else if status = 401 then Err AuthRequired
               else if status = 403 then Err (PermissionDenied (extract_errors c resp))
               else Err (Api status (extract_errors c resp)))" and "s' = s1"
      using assms Inr req(1) sd
      by (auto simp: sys_raft_snapshot_restore_def bind_io_cases Let_def split: sum.splits)
    then show ?thesis
      using fr req by (intro exI [of _ "[ESend req res]"]) (auto simp: Let_def split: sum.splits if_splits)
  qed
qed

theorem raft_restore_bypasses_witness:
  "\<exists>s'. sys_raft_snapshot_restore (script_client []) ''SNAP'' (script_state [answer 503 [], answer 204 []] (Some root_token))
      = (Err (Api 503 []), s')
    \<and> length (requests (trace s')) \<le> 1"
proof -
  obtain r s' where ex: "sys_raft_snapshot_restore (script_client []) ''SNAP''
      (script_state [answer 503 [], answer 204 []] (Some root_token)) = (r, s')" by fastforce
  moreover from ex have "r = Err (Api 503 [])"
    by (simp add: sys_raft_snapshot_restore_def bind_io_cases inject_headers_def Let_def send_def answer_def extract_errors_def)
  ultimately show ?thesis using raft_restore_bypasses [OF ex] by auto
qed

text \<open>
  C30: The version history is the answer's, in the order of installation: in whatever order the hash
  map yields its entries, the result has every version of the answer exactly once, each under its own
  key, sorted by timestamp; and when the timestamps differ, the hash map's order does not matter.
\<close>

theorem version_history_sorted:
  assumes "\<And>kvs. mset (iter kvs) = mset kvs" and "\<And>kvs. mset (iter' kvs) = mset kvs"
  shows "sorted (map VersionHistoryEntry_timestamp_installed (version_entries iter resp))
    \<and> mset (version_entries iter resp)
        = image_mset (\<lambda>(k, e). e\<lparr>VersionHistoryEntry_version := k\<rparr>) (mset (VersionHistoryResponse_key_info resp))
    \<and> (distinct (map (VersionHistoryEntry_timestamp_installed \<circ> snd) (VersionHistoryResponse_key_info resp))
       \<longrightarrow> version_entries iter resp = version_entries iter' resp)"
proof (intro conjI impI)
  let ?t = VersionHistoryEntry_timestamp_installed and ?kvs = "VersionHistoryResponse_key_info resp"
  let ?f = "\<lambda>(k, e). e\<lparr>VersionHistoryEntry_version := k\<rparr>"
  have sorted_entries: "sorted (map ?t (version_entries it resp))" for it
    by (simp add: version_entries_def)
  then show "sorted (map ?t (version_entries iter resp))" .
  have ms: "mset (version_entries it resp) = image_mset ?f (mset ?kvs)" if "\<And>kvs. mset (it kvs) = mset kvs" for it
    using that by (simp add: version_entries_def)
  show "mset (version_entries iter resp) = image_mset ?f (mset ?kvs)" by (rule ms [OF assms(1)])
  assume "distinct (map (?t \<circ> snd) ?kvs)"
  moreover have "?t \<circ> ?f = ?t \<circ> snd" by (auto simp: fun_eq_iff)
  ultimately have d: "distinct (map ?t (map ?f ?kvs))" by (metis map_map)
  have eq: "mset (map ?t (version_entries it resp)) = mset (map ?t (map ?f ?kvs))" if "\<And>kvs. mset (it kvs) = mset kvs" for it
    using ms [OF that] by (metis mset_map)
  have "inj_on ?t (set (map ?f ?kvs))" using d by (simp only: distinct_map)
  moreover have "set (version_entries it resp) = set (map ?f ?kvs)" if "\<And>kvs. mset (it kvs) = mset kvs" for it
    using ms [OF that] by (metis mset_map mset_eq_setD)
  ultimately have inj: "inj_on ?t (set (version_entries iter resp) \<union> set (version_entries iter' resp))"
    using assms by simp
  have "map ?t (version_entries iter resp) = map ?t (version_entries iter' resp)"
    using eq [OF assms(1)] eq [OF assms(2)] sorted_entries properties_for_sort by metis
  then show "version_entries iter resp = version_entries iter' resp"
    using inj by (rule map_inj_on)
qed

definition history_example :: version_history_response where
  "history_example = \<lparr>VersionHistoryResponse_key_info =
     [(''1.9'', \<lparr>VersionHistoryEntry_version = [], VersionHistoryEntry_timestamp_installed = ''2022'',
                VersionHistoryEntry_build_date = None, VersionHistoryEntry_previous_version = None\<rparr>),
      (''1.8'', \<lparr>VersionHistoryEntry_version = [], VersionHistoryEntry_timestamp_installed = ''2021'',
                VersionHistoryEntry_build_date = None, VersionHistoryEntry_previous_version = None\<rparr>)]\<rparr>"

theorem version_history_sorted_witness:
  "version_entries rev history_example = version_entries id history_example
   \<and> sorted (map VersionHistoryEntry_timestamp_installed (version_entries rev history_example))"
proof -
  have "distinct (map (VersionHistoryEntry_timestamp_installed \<circ> snd) (VersionHistoryResponse_key_info history_example))"
    by (simp add: history_example_def)
  moreover have "mset (id kvs) = mset kvs" for kvs by simp
  ultimately show ?thesis
    using version_history_sorted [OF mset_rev, of id history_example] by blast
qed

end
