(* ===== verification/Auth_Methods.thy ===== *)
theory Auth_Methods
  imports Cloud_Engines
begin

text \<open>
  The auth methods: \<open>types/auth.rs\<close>, the handlers of \<open>api/auth/*.rs\<close> with the accessors of
  \<open>api/auth/mod.rs\<close>, and the built-in \<open>AuthMethod\<close> implementations.
\<close>

section \<open>Types\<close>

record token_create_request =
  TokenCreateRequest_id :: "string option"
  TokenCreateRequest_policies :: "(string list) option"
  TokenCreateRequest_meta :: "((string \<times> string) list) option"
  TokenCreateRequest_no_parent :: "bool option"
  TokenCreateRequest_no_default_policy :: "bool option"
  TokenCreateRequest_renewable :: "bool option"
  TokenCreateRequest_ttl :: "string option"
  TokenCreateRequest_explicit_max_ttl :: "string option"
  TokenCreateRequest_display_name :: "string option"
  TokenCreateRequest_num_uses :: "nat option"
  TokenCreateRequest_period :: "string option"
  TokenCreateRequest_entity_alias :: "string option"

definition ser_token_create_request :: "token_create_request \<Rightarrow> json" where
  "ser_token_create_request x = obj
     (opt_field ''id'' JStr (TokenCreateRequest_id x)
      @ opt_field ''policies'' jstrs (TokenCreateRequest_policies x)
      @ opt_field ''meta'' (ser_map JStr) (TokenCreateRequest_meta x)
      @ opt_field ''no_parent'' JBool (TokenCreateRequest_no_parent x)
      @ opt_field ''no_default_policy'' JBool (TokenCreateRequest_no_default_policy x)
      @ opt_field ''renewable'' JBool (TokenCreateRequest_renewable x)
      @ opt_field ''ttl'' JStr (TokenCreateRequest_ttl x)
      @ opt_field ''explicit_max_ttl'' JStr (TokenCreateRequest_explicit_max_ttl x)
      @ opt_field ''display_name'' JStr (TokenCreateRequest_display_name x)
      @ opt_field ''num_uses'' jnat (TokenCreateRequest_num_uses x)
      @ opt_field ''period'' JStr (TokenCreateRequest_period x)
      @ opt_field ''entity_alias'' JStr (TokenCreateRequest_entity_alias x))"

record token_lookup_response =
  TokenLookupResponse_accessor :: string
  TokenLookupResponse_creation_time :: nat
  TokenLookupResponse_creation_ttl :: nat
  TokenLookupResponse_display_name :: string
  TokenLookupResponse_entity_id :: string
  TokenLookupResponse_expire_time :: "string option"
  TokenLookupResponse_explicit_max_ttl :: nat
  TokenLookupResponse_id :: secret
  TokenLookupResponse_issue_time :: string
  TokenLookupResponse_meta :: "((string \<times> string) list) option"
  TokenLookupResponse_num_uses :: nat
  TokenLookupResponse_orphan :: bool
  TokenLookupResponse_path :: string
  TokenLookupResponse_policies :: "string list"
  TokenLookupResponse_renewable :: bool
  TokenLookupResponse_ttl :: nat
  TokenLookupResponse_token_type :: string

definition de_token_lookup_response :: "json \<Rightarrow> token_lookup_response option" where
  "de_token_lookup_response = in_obj (\<lambda>v.
     Option.bind (fld de_string ''accessor'' v) (\<lambda>x0.
     Option.bind (fld (de_uint 64) ''creation_time'' v) (\<lambda>x1.
     Option.bind (fld (de_uint 64) ''creation_ttl'' v) (\<lambda>x2.
     Option.bind (fld de_string ''display_name'' v) (\<lambda>x3.
     Option.bind (fld de_string ''entity_id'' v) (\<lambda>x4.
     Option.bind (fld_opt de_string ''expire_time'' v) (\<lambda>x5.
     Option.bind (fld (de_uint 64) ''explicit_max_ttl'' v) (\<lambda>x6.
     Option.bind (fld de_secret ''id'' v) (\<lambda>x7.
     Option.bind (fld de_string ''issue_time'' v) (\<lambda>x8.
     Option.bind (fld_opt (de_map de_string) ''meta'' v) (\<lambda>x9.
     Option.bind (fld (de_uint 64) ''num_uses'' v) (\<lambda>x10.
     Option.bind (fld de_bool ''orphan'' v) (\<lambda>x11.
     Option.bind (fld de_string ''path'' v) (\<lambda>x12.
     Option.bind (fld_default [] (de_vec de_string) ''policies'' v) (\<lambda>x13.
     Option.bind (fld de_bool ''renewable'' v) (\<lambda>x14.
     Option.bind (fld (de_uint 64) ''ttl'' v) (\<lambda>x15.
     Option.bind (fld de_string ''type'' v) (\<lambda>x16.
       Some \<lparr>TokenLookupResponse_accessor = x0, TokenLookupResponse_creation_time = x1,
             TokenLookupResponse_creation_ttl = x2, TokenLookupResponse_display_name = x3,
             TokenLookupResponse_entity_id = x4, TokenLookupResponse_expire_time = x5,
             TokenLookupResponse_explicit_max_ttl = x6, TokenLookupResponse_id = x7,
             TokenLookupResponse_issue_time = x8, TokenLookupResponse_meta = x9,
             TokenLookupResponse_num_uses = x10, TokenLookupResponse_orphan = x11,
             TokenLookupResponse_path = x12, TokenLookupResponse_policies = x13,
             TokenLookupResponse_renewable = x14, TokenLookupResponse_ttl = x15,
             TokenLookupResponse_token_type = x16\<rparr>))))))))))))))))))"

definition dbg_token_lookup_response :: "nat \<Rightarrow> token_lookup_response \<Rightarrow> dbg" where
  "dbg_token_lookup_response lvl x = DStruct ''TokenLookupResponse''
     [(''accessor'', DStr (TokenLookupResponse_accessor x)),
      (''creation_time'', DNum (TokenLookupResponse_creation_time x)),
      (''creation_ttl'', DNum (TokenLookupResponse_creation_ttl x)),
      (''display_name'', DStr (TokenLookupResponse_display_name x)),
      (''entity_id'', DStr (TokenLookupResponse_entity_id x)),
      (''expire_time'', dbg_opt DStr (TokenLookupResponse_expire_time x)),
      (''explicit_max_ttl'', DNum (TokenLookupResponse_explicit_max_ttl x)),
      (''id'', dbg_secret lvl (TokenLookupResponse_id x)),
      (''issue_time'', DStr (TokenLookupResponse_issue_time x)),
      (''meta'', dbg_opt (dbg_map DStr) (TokenLookupResponse_meta x)),
      (''num_uses'', DNum (TokenLookupResponse_num_uses x)),
      (''orphan'', DBool (TokenLookupResponse_orphan x)),
      (''path'', DStr (TokenLookupResponse_path x)),
      (''policies'', dbg_strs (TokenLookupResponse_policies x)),
      (''renewable'', DBool (TokenLookupResponse_renewable x)),
      (''ttl'', DNum (TokenLookupResponse_ttl x)),
      (''token_type'', DStr (TokenLookupResponse_token_type x))]"

record app_role_create_request =
  AppRoleCreateRequest_bind_secret_id :: "bool option"
  AppRoleCreateRequest_secret_id_bound_cidrs :: "(string list) option"
  AppRoleCreateRequest_token_bound_cidrs :: "(string list) option"
  AppRoleCreateRequest_token_policies :: "(string list) option"
  AppRoleCreateRequest_token_ttl :: "string option"
  AppRoleCreateRequest_token_max_ttl :: "string option"
  AppRoleCreateRequest_token_num_uses :: "nat option"
  AppRoleCreateRequest_token_type :: "string option"

definition ser_app_role_create_request :: "app_role_create_request \<Rightarrow> json" where
  "ser_app_role_create_request x = obj
     (opt_field ''bind_secret_id'' JBool (AppRoleCreateRequest_bind_secret_id x)
      @ opt_field ''secret_id_bound_cidrs'' jstrs (AppRoleCreateRequest_secret_id_bound_cidrs x)
      @ opt_field ''token_bound_cidrs'' jstrs (AppRoleCreateRequest_token_bound_cidrs x)
      @ opt_field ''token_policies'' jstrs (AppRoleCreateRequest_token_policies x)
      @ opt_field ''token_ttl'' JStr (AppRoleCreateRequest_token_ttl x)
      @ opt_field ''token_max_ttl'' JStr (AppRoleCreateRequest_token_max_ttl x)
      @ opt_field ''token_num_uses'' jnat (AppRoleCreateRequest_token_num_uses x)
      @ opt_field ''token_type'' JStr (AppRoleCreateRequest_token_type x))"

record app_role_info =
  AppRoleInfo_bind_secret_id :: bool
  AppRoleInfo_secret_id_bound_cidrs :: "string list"
  AppRoleInfo_token_bound_cidrs :: "string list"
  AppRoleInfo_token_policies :: "string list"
  AppRoleInfo_token_ttl :: nat
  AppRoleInfo_token_max_ttl :: nat
  AppRoleInfo_token_num_uses :: nat
  AppRoleInfo_token_type :: string

definition de_app_role_info :: "json \<Rightarrow> app_role_info option" where
  "de_app_role_info = in_obj (\<lambda>v.
     Option.bind (fld de_bool ''bind_secret_id'' v) (\<lambda>x0.
     Option.bind (fld_null_default [] (de_vec de_string) ''secret_id_bound_cidrs'' v) (\<lambda>x1.
     Option.bind (fld_null_default [] (de_vec de_string) ''token_bound_cidrs'' v) (\<lambda>x2.
     Option.bind (fld_null_default [] (de_vec de_string) ''token_policies'' v) (\<lambda>x3.
     Option.bind (fld (de_uint 64) ''token_ttl'' v) (\<lambda>x4.
     Option.bind (fld (de_uint 64) ''token_max_ttl'' v) (\<lambda>x5.
     Option.bind (fld (de_uint 64) ''token_num_uses'' v) (\<lambda>x6.
     Option.bind (fld_default [] de_string ''token_type'' v) (\<lambda>x7.
       Some \<lparr>AppRoleInfo_bind_secret_id = x0, AppRoleInfo_secret_id_bound_cidrs = x1,
             AppRoleInfo_token_bound_cidrs = x2, AppRoleInfo_token_policies = x3,
             AppRoleInfo_token_ttl = x4, AppRoleInfo_token_max_ttl = x5, AppRoleInfo_token_num_uses =
             x6, AppRoleInfo_token_type = x7\<rparr>)))))))))"

record app_role_role_id_response =
  AppRoleRoleIdResponse_role_id :: string

definition de_app_role_role_id_response :: "json \<Rightarrow> app_role_role_id_response option" where
  "de_app_role_role_id_response = in_obj (\<lambda>v.
     Option.bind (fld de_string ''role_id'' v) (\<lambda>x0.
       Some \<lparr>AppRoleRoleIdResponse_role_id = x0\<rparr>))"

record app_role_secret_id_response =
  AppRoleSecretIdResponse_secret_id :: secret
  AppRoleSecretIdResponse_secret_id_accessor :: string
  AppRoleSecretIdResponse_secret_id_num_uses :: nat
  AppRoleSecretIdResponse_secret_id_ttl :: nat

definition de_app_role_secret_id_response :: "json \<Rightarrow> app_role_secret_id_response option" where
  "de_app_role_secret_id_response = in_obj (\<lambda>v.
     Option.bind (fld de_secret ''secret_id'' v) (\<lambda>x0.
     Option.bind (fld de_string ''secret_id_accessor'' v) (\<lambda>x1.
     Option.bind (fld (de_uint 64) ''secret_id_num_uses'' v) (\<lambda>x2.
     Option.bind (fld (de_uint 64) ''secret_id_ttl'' v) (\<lambda>x3.
       Some \<lparr>AppRoleSecretIdResponse_secret_id = x0, AppRoleSecretIdResponse_secret_id_accessor = x1,
             AppRoleSecretIdResponse_secret_id_num_uses = x2, AppRoleSecretIdResponse_secret_id_ttl =
             x3\<rparr>)))))"

definition dbg_app_role_secret_id_response :: "nat \<Rightarrow> app_role_secret_id_response \<Rightarrow> dbg" where
  "dbg_app_role_secret_id_response lvl x = DStruct ''AppRoleSecretIdResponse''
     [(''secret_id'', dbg_secret lvl (AppRoleSecretIdResponse_secret_id x)),
      (''secret_id_accessor'', DStr (AppRoleSecretIdResponse_secret_id_accessor x)),
      (''secret_id_num_uses'', DNum (AppRoleSecretIdResponse_secret_id_num_uses x)),
      (''secret_id_ttl'', DNum (AppRoleSecretIdResponse_secret_id_ttl x))]"

record k8s_auth_role_info =
  K8sAuthRoleInfo_bound_service_account_names :: "string list"
  K8sAuthRoleInfo_bound_service_account_namespaces :: "string list"
  K8sAuthRoleInfo_token_policies :: "string list"
  K8sAuthRoleInfo_token_ttl :: nat
  K8sAuthRoleInfo_token_max_ttl :: nat
  K8sAuthRoleInfo_token_type :: string

definition de_k8s_auth_role_info :: "json \<Rightarrow> k8s_auth_role_info option" where
  "de_k8s_auth_role_info = in_obj (\<lambda>v.
     Option.bind (fld_default [] (de_vec de_string) ''bound_service_account_names'' v) (\<lambda>x0.
     Option.bind (fld_default [] (de_vec de_string) ''bound_service_account_namespaces'' v) (\<lambda>x1.
     Option.bind (fld_default [] (de_vec de_string) ''token_policies'' v) (\<lambda>x2.
     Option.bind (fld_default 0 (de_uint 64) ''token_ttl'' v) (\<lambda>x3.
     Option.bind (fld_default 0 (de_uint 64) ''token_max_ttl'' v) (\<lambda>x4.
     Option.bind (fld_default [] de_string ''token_type'' v) (\<lambda>x5.
       Some \<lparr>K8sAuthRoleInfo_bound_service_account_names = x0,
             K8sAuthRoleInfo_bound_service_account_namespaces = x1, K8sAuthRoleInfo_token_policies =
             x2, K8sAuthRoleInfo_token_ttl = x3, K8sAuthRoleInfo_token_max_ttl = x4,
             K8sAuthRoleInfo_token_type = x5\<rparr>)))))))"

record k8s_auth_config_request =
  K8sAuthConfigRequest_kubernetes_host :: string
  K8sAuthConfigRequest_kubernetes_ca_cert :: "string option"
  K8sAuthConfigRequest_token_reviewer_jwt :: "secret option"
  K8sAuthConfigRequest_disable_local_ca_jwt :: "bool option"

definition ser_k8s_auth_config_request :: "k8s_auth_config_request \<Rightarrow> json" where
  "ser_k8s_auth_config_request x = obj
     ([(''kubernetes_host'', JStr (K8sAuthConfigRequest_kubernetes_host x))]
      @ opt_field ''kubernetes_ca_cert'' JStr (K8sAuthConfigRequest_kubernetes_ca_cert x)
      @ opt_field ''token_reviewer_jwt'' ser_secret (K8sAuthConfigRequest_token_reviewer_jwt x)
      @ opt_field ''disable_local_ca_jwt'' JBool (K8sAuthConfigRequest_disable_local_ca_jwt x))"

record k8s_auth_role_request =
  K8sAuthRoleRequest_bound_service_account_names :: "string list"
  K8sAuthRoleRequest_bound_service_account_namespaces :: "string list"
  K8sAuthRoleRequest_token_policies :: "(string list) option"
  K8sAuthRoleRequest_token_ttl :: "string option"
  K8sAuthRoleRequest_token_max_ttl :: "string option"

definition ser_k8s_auth_role_request :: "k8s_auth_role_request \<Rightarrow> json" where
  "ser_k8s_auth_role_request x = obj
     ([(''bound_service_account_names'', jstrs (K8sAuthRoleRequest_bound_service_account_names x))]
      @ [(''bound_service_account_namespaces'', jstrs (K8sAuthRoleRequest_bound_service_account_namespaces x))]
      @ opt_field ''token_policies'' jstrs (K8sAuthRoleRequest_token_policies x)
      @ opt_field ''token_ttl'' JStr (K8sAuthRoleRequest_token_ttl x)
      @ opt_field ''token_max_ttl'' JStr (K8sAuthRoleRequest_token_max_ttl x))"

record userpass_user_request =
  UserpassUserRequest_password :: "secret option"
  UserpassUserRequest_token_policies :: "(string list) option"
  UserpassUserRequest_token_ttl :: "string option"
  UserpassUserRequest_token_max_ttl :: "string option"
  UserpassUserRequest_token_bound_cidrs :: "(string list) option"
  UserpassUserRequest_token_num_uses :: "nat option"

definition ser_userpass_user_request :: "userpass_user_request \<Rightarrow> json" where
  "ser_userpass_user_request x = obj
     (opt_field ''password'' ser_secret (UserpassUserRequest_password x)
      @ opt_field ''token_policies'' jstrs (UserpassUserRequest_token_policies x)
      @ opt_field ''token_ttl'' JStr (UserpassUserRequest_token_ttl x)
      @ opt_field ''token_max_ttl'' JStr (UserpassUserRequest_token_max_ttl x)
      @ opt_field ''token_bound_cidrs'' jstrs (UserpassUserRequest_token_bound_cidrs x)
      @ opt_field ''token_num_uses'' jnat (UserpassUserRequest_token_num_uses x))"

record userpass_user_info =
  UserpassUserInfo_token_policies :: "string list"
  UserpassUserInfo_token_ttl :: nat
  UserpassUserInfo_token_max_ttl :: nat
  UserpassUserInfo_token_bound_cidrs :: "string list"
  UserpassUserInfo_token_num_uses :: nat

definition de_userpass_user_info :: "json \<Rightarrow> userpass_user_info option" where
  "de_userpass_user_info = in_obj (\<lambda>v.
     Option.bind (fld_default [] (de_vec de_string) ''token_policies'' v) (\<lambda>x0.
     Option.bind (fld (de_uint 64) ''token_ttl'' v) (\<lambda>x1.
     Option.bind (fld (de_uint 64) ''token_max_ttl'' v) (\<lambda>x2.
     Option.bind (fld_default [] (de_vec de_string) ''token_bound_cidrs'' v) (\<lambda>x3.
     Option.bind (fld (de_uint 64) ''token_num_uses'' v) (\<lambda>x4.
       Some \<lparr>UserpassUserInfo_token_policies = x0, UserpassUserInfo_token_ttl = x1,
             UserpassUserInfo_token_max_ttl = x2, UserpassUserInfo_token_bound_cidrs = x3,
             UserpassUserInfo_token_num_uses = x4\<rparr>))))))"

record ldap_config_request =
  LdapConfigRequest_url :: string
  LdapConfigRequest_userdn :: "string option"
  LdapConfigRequest_userattr :: "string option"
  LdapConfigRequest_groupdn :: "string option"
  LdapConfigRequest_groupattr :: "string option"
  LdapConfigRequest_groupfilter :: "string option"
  LdapConfigRequest_binddn :: "string option"
  LdapConfigRequest_bindpass :: "secret option"
  LdapConfigRequest_starttls :: "bool option"
  LdapConfigRequest_insecure_tls :: "bool option"
  LdapConfigRequest_certificate :: "string option"
  LdapConfigRequest_token_policies :: "(string list) option"
  LdapConfigRequest_token_ttl :: "string option"
  LdapConfigRequest_token_max_ttl :: "string option"

definition ser_ldap_config_request :: "ldap_config_request \<Rightarrow> json" where
  "ser_ldap_config_request x = obj
     ([(''url'', JStr (LdapConfigRequest_url x))]
      @ opt_field ''userdn'' JStr (LdapConfigRequest_userdn x)
      @ opt_field ''userattr'' JStr (LdapConfigRequest_userattr x)
      @ opt_field ''groupdn'' JStr (LdapConfigRequest_groupdn x)
      @ opt_field ''groupattr'' JStr (LdapConfigRequest_groupattr x)
      @ opt_field ''groupfilter'' JStr (LdapConfigRequest_groupfilter x)
      @ opt_field ''binddn'' JStr (LdapConfigRequest_binddn x)
      @ opt_field ''bindpass'' ser_secret (LdapConfigRequest_bindpass x)
      @ opt_field ''starttls'' JBool (LdapConfigRequest_starttls x)
      @ opt_field ''insecure_tls'' JBool (LdapConfigRequest_insecure_tls x)
      @ opt_field ''certificate'' JStr (LdapConfigRequest_certificate x)
      @ opt_field ''token_policies'' jstrs (LdapConfigRequest_token_policies x)
      @ opt_field ''token_ttl'' JStr (LdapConfigRequest_token_ttl x)
      @ opt_field ''token_max_ttl'' JStr (LdapConfigRequest_token_max_ttl x))"

record ldap_config =
  LdapConfig_url :: string
  LdapConfig_userdn :: string
  LdapConfig_userattr :: string
  LdapConfig_groupdn :: string
  LdapConfig_groupattr :: string
  LdapConfig_groupfilter :: string
  LdapConfig_starttls :: bool
  LdapConfig_insecure_tls :: bool

definition de_ldap_config :: "json \<Rightarrow> ldap_config option" where
  "de_ldap_config = in_obj (\<lambda>v.
     Option.bind (fld de_string ''url'' v) (\<lambda>x0.
     Option.bind (fld de_string ''userdn'' v) (\<lambda>x1.
     Option.bind (fld de_string ''userattr'' v) (\<lambda>x2.
     Option.bind (fld de_string ''groupdn'' v) (\<lambda>x3.
     Option.bind (fld de_string ''groupattr'' v) (\<lambda>x4.
     Option.bind (fld de_string ''groupfilter'' v) (\<lambda>x5.
     Option.bind (fld de_bool ''starttls'' v) (\<lambda>x6.
     Option.bind (fld de_bool ''insecure_tls'' v) (\<lambda>x7.
       Some \<lparr>LdapConfig_url = x0, LdapConfig_userdn = x1, LdapConfig_userattr = x2,
             LdapConfig_groupdn = x3, LdapConfig_groupattr = x4, LdapConfig_groupfilter = x5,
             LdapConfig_starttls = x6, LdapConfig_insecure_tls = x7\<rparr>)))))))))"

record ldap_group_request =
  LdapGroupRequest_policies :: "(string list) option"

definition ser_ldap_group_request :: "ldap_group_request \<Rightarrow> json" where
  "ser_ldap_group_request x = obj
     (opt_field ''policies'' jstrs (LdapGroupRequest_policies x))"

record ldap_group =
  LdapGroup_policies :: "string list"

definition de_ldap_group :: "json \<Rightarrow> ldap_group option" where
  "de_ldap_group = in_obj (\<lambda>v.
     Option.bind (fld_default [] (de_vec de_string) ''policies'' v) (\<lambda>x0.
       Some \<lparr>LdapGroup_policies = x0\<rparr>))"

record ldap_user_request =
  LdapUserRequest_policies :: "(string list) option"
  LdapUserRequest_groups :: "(string list) option"

definition ser_ldap_user_request :: "ldap_user_request \<Rightarrow> json" where
  "ser_ldap_user_request x = obj
     (opt_field ''policies'' jstrs (LdapUserRequest_policies x)
      @ opt_field ''groups'' jstrs (LdapUserRequest_groups x))"

record ldap_user =
  LdapUser_policies :: "string list"
  LdapUser_groups :: "string list"

definition de_ldap_user :: "json \<Rightarrow> ldap_user option" where
  "de_ldap_user = in_obj (\<lambda>v.
     Option.bind (fld_default [] (de_vec de_string) ''policies'' v) (\<lambda>x0.
     Option.bind (fld_default [] (de_vec de_string) ''groups'' v) (\<lambda>x1.
       Some \<lparr>LdapUser_policies = x0, LdapUser_groups = x1\<rparr>)))"

record cert_role_request =
  CertRoleRequest_certificate :: string
  CertRoleRequest_allowed_common_names :: "(string list) option"
  CertRoleRequest_allowed_dns_sans :: "(string list) option"
  CertRoleRequest_allowed_uri_sans :: "(string list) option"
  CertRoleRequest_required_extensions :: "(string list) option"
  CertRoleRequest_token_policies :: "(string list) option"
  CertRoleRequest_token_ttl :: "string option"
  CertRoleRequest_token_max_ttl :: "string option"
  CertRoleRequest_display_name :: "string option"

definition ser_cert_role_request :: "cert_role_request \<Rightarrow> json" where
  "ser_cert_role_request x = obj
     ([(''certificate'', JStr (CertRoleRequest_certificate x))]
      @ opt_field ''allowed_common_names'' jstrs (CertRoleRequest_allowed_common_names x)
      @ opt_field ''allowed_dns_sans'' jstrs (CertRoleRequest_allowed_dns_sans x)
      @ opt_field ''allowed_uri_sans'' jstrs (CertRoleRequest_allowed_uri_sans x)
      @ opt_field ''required_extensions'' jstrs (CertRoleRequest_required_extensions x)
      @ opt_field ''token_policies'' jstrs (CertRoleRequest_token_policies x)
      @ opt_field ''token_ttl'' JStr (CertRoleRequest_token_ttl x)
      @ opt_field ''token_max_ttl'' JStr (CertRoleRequest_token_max_ttl x)
      @ opt_field ''display_name'' JStr (CertRoleRequest_display_name x))"

record cert_role_info =
  CertRoleInfo_certificate :: string
  CertRoleInfo_allowed_common_names :: "string list"
  CertRoleInfo_allowed_dns_sans :: "string list"
  CertRoleInfo_token_policies :: "string list"
  CertRoleInfo_token_ttl :: nat
  CertRoleInfo_token_max_ttl :: nat
  CertRoleInfo_display_name :: string

definition de_cert_role_info :: "json \<Rightarrow> cert_role_info option" where
  "de_cert_role_info = in_obj (\<lambda>v.
     Option.bind (fld de_string ''certificate'' v) (\<lambda>x0.
     Option.bind (fld_default [] (de_vec de_string) ''allowed_common_names'' v) (\<lambda>x1.
     Option.bind (fld_default [] (de_vec de_string) ''allowed_dns_sans'' v) (\<lambda>x2.
     Option.bind (fld_default [] (de_vec de_string) ''token_policies'' v) (\<lambda>x3.
     Option.bind (fld (de_uint 64) ''token_ttl'' v) (\<lambda>x4.
     Option.bind (fld (de_uint 64) ''token_max_ttl'' v) (\<lambda>x5.
     Option.bind (fld de_string ''display_name'' v) (\<lambda>x6.
       Some \<lparr>CertRoleInfo_certificate = x0, CertRoleInfo_allowed_common_names = x1,
             CertRoleInfo_allowed_dns_sans = x2, CertRoleInfo_token_policies = x3,
             CertRoleInfo_token_ttl = x4, CertRoleInfo_token_max_ttl = x5, CertRoleInfo_display_name
             = x6\<rparr>))))))))"

record github_config_request =
  GithubConfigRequest_organization :: string
  GithubConfigRequest_base_url :: "string option"
  GithubConfigRequest_token_policies :: "(string list) option"
  GithubConfigRequest_token_ttl :: "string option"
  GithubConfigRequest_token_max_ttl :: "string option"

definition ser_github_config_request :: "github_config_request \<Rightarrow> json" where
  "ser_github_config_request x = obj
     ([(''organization'', JStr (GithubConfigRequest_organization x))]
      @ opt_field ''base_url'' JStr (GithubConfigRequest_base_url x)
      @ opt_field ''token_policies'' jstrs (GithubConfigRequest_token_policies x)
      @ opt_field ''token_ttl'' JStr (GithubConfigRequest_token_ttl x)
      @ opt_field ''token_max_ttl'' JStr (GithubConfigRequest_token_max_ttl x))"

record github_config =
  GithubConfig_organization :: string
  GithubConfig_base_url :: string
  GithubConfig_token_policies :: "string list"
  GithubConfig_token_ttl :: nat
  GithubConfig_token_max_ttl :: nat

definition de_github_config :: "json \<Rightarrow> github_config option" where
  "de_github_config = in_obj (\<lambda>v.
     Option.bind (fld de_string ''organization'' v) (\<lambda>x0.
     Option.bind (fld de_string ''base_url'' v) (\<lambda>x1.
     Option.bind (fld_default [] (de_vec de_string) ''token_policies'' v) (\<lambda>x2.
     Option.bind (fld (de_uint 64) ''token_ttl'' v) (\<lambda>x3.
     Option.bind (fld (de_uint 64) ''token_max_ttl'' v) (\<lambda>x4.
       Some \<lparr>GithubConfig_organization = x0, GithubConfig_base_url = x1, GithubConfig_token_policies
             = x2, GithubConfig_token_ttl = x3, GithubConfig_token_max_ttl = x4\<rparr>))))))"

record github_team_mapping =
  GithubTeamMapping_value :: "string option"

definition ser_github_team_mapping :: "github_team_mapping \<Rightarrow> json" where
  "ser_github_team_mapping x = obj
     (opt_field ''value'' JStr (GithubTeamMapping_value x))"

record github_team_info =
  GithubTeamInfo_value :: string

definition de_github_team_info :: "json \<Rightarrow> github_team_info option" where
  "de_github_team_info = in_obj (\<lambda>v.
     Option.bind (fld_default [] de_string ''value'' v) (\<lambda>x0.
       Some \<lparr>GithubTeamInfo_value = x0\<rparr>))"

record oidc_config_request =
  OidcConfigRequest_oidc_discovery_url :: "string option"
  OidcConfigRequest_oidc_client_id :: "string option"
  OidcConfigRequest_oidc_client_secret :: "secret option"
  OidcConfigRequest_jwt_validation_pubkeys :: "(string list) option"
  OidcConfigRequest_bound_issuer :: "string option"
  OidcConfigRequest_default_role :: "string option"
  OidcConfigRequest_jwt_supported_algs :: "(string list) option"

definition ser_oidc_config_request :: "oidc_config_request \<Rightarrow> json" where
  "ser_oidc_config_request x = obj
     (opt_field ''oidc_discovery_url'' JStr (OidcConfigRequest_oidc_discovery_url x)
      @ opt_field ''oidc_client_id'' JStr (OidcConfigRequest_oidc_client_id x)
      @ opt_field ''oidc_client_secret'' ser_secret (OidcConfigRequest_oidc_client_secret x)
      @ opt_field ''jwt_validation_pubkeys'' jstrs (OidcConfigRequest_jwt_validation_pubkeys x)
      @ opt_field ''bound_issuer'' JStr (OidcConfigRequest_bound_issuer x)
      @ opt_field ''default_role'' JStr (OidcConfigRequest_default_role x)
      @ opt_field ''jwt_supported_algs'' jstrs (OidcConfigRequest_jwt_supported_algs x))"

record oidc_config =
  OidcConfig_oidc_discovery_url :: "string option"
  OidcConfig_oidc_client_id :: "string option"
  OidcConfig_bound_issuer :: "string option"
  OidcConfig_default_role :: "string option"
  OidcConfig_jwt_supported_algs :: "string list"

definition de_oidc_config :: "json \<Rightarrow> oidc_config option" where
  "de_oidc_config = in_obj (\<lambda>v.
     Option.bind (fld_opt de_string ''oidc_discovery_url'' v) (\<lambda>x0.
     Option.bind (fld_opt de_string ''oidc_client_id'' v) (\<lambda>x1.
     Option.bind (fld_opt de_string ''bound_issuer'' v) (\<lambda>x2.
     Option.bind (fld_opt de_string ''default_role'' v) (\<lambda>x3.
     Option.bind (fld_default [] (de_vec de_string) ''jwt_supported_algs'' v) (\<lambda>x4.
       Some \<lparr>OidcConfig_oidc_discovery_url = x0, OidcConfig_oidc_client_id = x1,
             OidcConfig_bound_issuer = x2, OidcConfig_default_role = x3,
             OidcConfig_jwt_supported_algs = x4\<rparr>))))))"

record oidc_role_request =
  OidcRoleRequest_role_type :: "string option"
  OidcRoleRequest_bound_audiences :: "(string list) option"
  OidcRoleRequest_user_claim :: "string option"
  OidcRoleRequest_bound_claims :: "((string \<times> string) list) option"
  OidcRoleRequest_token_policies :: "(string list) option"
  OidcRoleRequest_token_ttl :: "string option"
  OidcRoleRequest_token_max_ttl :: "string option"
  OidcRoleRequest_allowed_redirect_uris :: "(string list) option"
  OidcRoleRequest_groups_claim :: "string option"
  OidcRoleRequest_claim_mappings :: "((string \<times> string) list) option"

definition ser_oidc_role_request :: "oidc_role_request \<Rightarrow> json" where
  "ser_oidc_role_request x = obj
     (opt_field ''role_type'' JStr (OidcRoleRequest_role_type x)
      @ opt_field ''bound_audiences'' jstrs (OidcRoleRequest_bound_audiences x)
      @ opt_field ''user_claim'' JStr (OidcRoleRequest_user_claim x)
      @ opt_field ''bound_claims'' (ser_map JStr) (OidcRoleRequest_bound_claims x)
      @ opt_field ''token_policies'' jstrs (OidcRoleRequest_token_policies x)
      @ opt_field ''token_ttl'' JStr (OidcRoleRequest_token_ttl x)
      @ opt_field ''token_max_ttl'' JStr (OidcRoleRequest_token_max_ttl x)
      @ opt_field ''allowed_redirect_uris'' jstrs (OidcRoleRequest_allowed_redirect_uris x)
      @ opt_field ''groups_claim'' JStr (OidcRoleRequest_groups_claim x)
      @ opt_field ''claim_mappings'' (ser_map JStr) (OidcRoleRequest_claim_mappings x))"

record oidc_role_info =
  OidcRoleInfo_role_type :: string
  OidcRoleInfo_bound_audiences :: "string list"
  OidcRoleInfo_user_claim :: string
  OidcRoleInfo_bound_claims :: "(string \<times> string) list"
  OidcRoleInfo_token_policies :: "string list"
  OidcRoleInfo_token_ttl :: nat
  OidcRoleInfo_token_max_ttl :: nat
  OidcRoleInfo_allowed_redirect_uris :: "string list"

definition de_oidc_role_info :: "json \<Rightarrow> oidc_role_info option" where
  "de_oidc_role_info = in_obj (\<lambda>v.
     Option.bind (fld de_string ''role_type'' v) (\<lambda>x0.
     Option.bind (fld_default [] (de_vec de_string) ''bound_audiences'' v) (\<lambda>x1.
     Option.bind (fld de_string ''user_claim'' v) (\<lambda>x2.
     Option.bind (fld_default [] (de_map de_string) ''bound_claims'' v) (\<lambda>x3.
     Option.bind (fld_default [] (de_vec de_string) ''token_policies'' v) (\<lambda>x4.
     Option.bind (fld (de_uint 64) ''token_ttl'' v) (\<lambda>x5.
     Option.bind (fld (de_uint 64) ''token_max_ttl'' v) (\<lambda>x6.
     Option.bind (fld_default [] (de_vec de_string) ''allowed_redirect_uris'' v) (\<lambda>x7.
       Some \<lparr>OidcRoleInfo_role_type = x0, OidcRoleInfo_bound_audiences = x1, OidcRoleInfo_user_claim
             = x2, OidcRoleInfo_bound_claims = x3, OidcRoleInfo_token_policies = x4,
             OidcRoleInfo_token_ttl = x5, OidcRoleInfo_token_max_ttl = x6,
             OidcRoleInfo_allowed_redirect_uris = x7\<rparr>)))))))))"

record radius_config_request =
  RadiusConfigRequest_host :: string
  RadiusConfigRequest_secret :: secret
  RadiusConfigRequest_port :: "nat option"
  RadiusConfigRequest_unregistered_user_policies :: "string option"
  RadiusConfigRequest_dial_timeout :: "nat option"
  RadiusConfigRequest_read_timeout :: "nat option"
  RadiusConfigRequest_nas_port :: "nat option"
  RadiusConfigRequest_token_policies :: "(string list) option"
  RadiusConfigRequest_token_ttl :: "string option"
  RadiusConfigRequest_token_max_ttl :: "string option"

definition ser_radius_config_request :: "radius_config_request \<Rightarrow> json" where
  "ser_radius_config_request x = obj
     ([(''host'', JStr (RadiusConfigRequest_host x))]
      @ [(''secret'', ser_secret (RadiusConfigRequest_secret x))]
      @ opt_field ''port'' jnat (RadiusConfigRequest_port x)
      @ opt_field ''unregistered_user_policies'' JStr (RadiusConfigRequest_unregistered_user_policies x)
      @ opt_field ''dial_timeout'' jnat (RadiusConfigRequest_dial_timeout x)
      @ opt_field ''read_timeout'' jnat (RadiusConfigRequest_read_timeout x)
      @ opt_field ''nas_port'' jnat (RadiusConfigRequest_nas_port x)
      @ opt_field ''token_policies'' jstrs (RadiusConfigRequest_token_policies x)
      @ opt_field ''token_ttl'' JStr (RadiusConfigRequest_token_ttl x)
      @ opt_field ''token_max_ttl'' JStr (RadiusConfigRequest_token_max_ttl x))"

record radius_config =
  RadiusConfig_host :: string
  RadiusConfig_port :: nat
  RadiusConfig_unregistered_user_policies :: string
  RadiusConfig_dial_timeout :: nat
  RadiusConfig_read_timeout :: nat
  RadiusConfig_nas_port :: nat

definition de_radius_config :: "json \<Rightarrow> radius_config option" where
  "de_radius_config = in_obj (\<lambda>v.
     Option.bind (fld de_string ''host'' v) (\<lambda>x0.
     Option.bind (fld_default 0 (de_uint 16) ''port'' v) (\<lambda>x1.
     Option.bind (fld_default [] de_string ''unregistered_user_policies'' v) (\<lambda>x2.
     Option.bind (fld_default 0 (de_uint 64) ''dial_timeout'' v) (\<lambda>x3.
     Option.bind (fld_default 0 (de_uint 64) ''read_timeout'' v) (\<lambda>x4.
     Option.bind (fld_default 0 (de_uint 16) ''nas_port'' v) (\<lambda>x5.
       Some \<lparr>RadiusConfig_host = x0, RadiusConfig_port = x1, RadiusConfig_unregistered_user_policies
             = x2, RadiusConfig_dial_timeout = x3, RadiusConfig_read_timeout = x4,
             RadiusConfig_nas_port = x5\<rparr>)))))))"

record radius_user_request =
  RadiusUserRequest_policies :: "(string list) option"

definition ser_radius_user_request :: "radius_user_request \<Rightarrow> json" where
  "ser_radius_user_request x = obj
     (opt_field ''policies'' jstrs (RadiusUserRequest_policies x))"

record radius_user =
  RadiusUser_policies :: "string list"

definition de_radius_user :: "json \<Rightarrow> radius_user option" where
  "de_radius_user = in_obj (\<lambda>v.
     Option.bind (fld_default [] (de_vec de_string) ''policies'' v) (\<lambda>x0.
       Some \<lparr>RadiusUser_policies = x0\<rparr>))"

record kerberos_config_request =
  KerberosConfigRequest_keytab :: "secret option"
  KerberosConfigRequest_service_account :: "string option"

definition ser_kerberos_config_request :: "kerberos_config_request \<Rightarrow> json" where
  "ser_kerberos_config_request x = obj
     (opt_field ''keytab'' ser_secret (KerberosConfigRequest_keytab x)
      @ opt_field ''service_account'' JStr (KerberosConfigRequest_service_account x))"

record kerberos_config =
  KerberosConfig_service_account :: string

definition de_kerberos_config :: "json \<Rightarrow> kerberos_config option" where
  "de_kerberos_config = in_obj (\<lambda>v.
     Option.bind (fld_default [] de_string ''service_account'' v) (\<lambda>x0.
       Some \<lparr>KerberosConfig_service_account = x0\<rparr>))"

record kerberos_ldap_config_request =
  KerberosLdapConfigRequest_url :: string
  KerberosLdapConfigRequest_userdn :: "string option"
  KerberosLdapConfigRequest_userattr :: "string option"
  KerberosLdapConfigRequest_groupdn :: "string option"
  KerberosLdapConfigRequest_groupattr :: "string option"
  KerberosLdapConfigRequest_groupfilter :: "string option"
  KerberosLdapConfigRequest_binddn :: "string option"
  KerberosLdapConfigRequest_bindpass :: "secret option"
  KerberosLdapConfigRequest_starttls :: "bool option"
  KerberosLdapConfigRequest_insecure_tls :: "bool option"
  KerberosLdapConfigRequest_certificate :: "string option"
  KerberosLdapConfigRequest_token_policies :: "(string list) option"
  KerberosLdapConfigRequest_token_ttl :: "string option"
  KerberosLdapConfigRequest_token_max_ttl :: "string option"

definition ser_kerberos_ldap_config_request :: "kerberos_ldap_config_request \<Rightarrow> json" where
  "ser_kerberos_ldap_config_request x = obj
     ([(''url'', JStr (KerberosLdapConfigRequest_url x))]
      @ opt_field ''userdn'' JStr (KerberosLdapConfigRequest_userdn x)
      @ opt_field ''userattr'' JStr (KerberosLdapConfigRequest_userattr x)
      @ opt_field ''groupdn'' JStr (KerberosLdapConfigRequest_groupdn x)
      @ opt_field ''groupattr'' JStr (KerberosLdapConfigRequest_groupattr x)
      @ opt_field ''groupfilter'' JStr (KerberosLdapConfigRequest_groupfilter x)
      @ opt_field ''binddn'' JStr (KerberosLdapConfigRequest_binddn x)
      @ opt_field ''bindpass'' ser_secret (KerberosLdapConfigRequest_bindpass x)
      @ opt_field ''starttls'' JBool (KerberosLdapConfigRequest_starttls x)
      @ opt_field ''insecure_tls'' JBool (KerberosLdapConfigRequest_insecure_tls x)
      @ opt_field ''certificate'' JStr (KerberosLdapConfigRequest_certificate x)
      @ opt_field ''token_policies'' jstrs (KerberosLdapConfigRequest_token_policies x)
      @ opt_field ''token_ttl'' JStr (KerberosLdapConfigRequest_token_ttl x)
      @ opt_field ''token_max_ttl'' JStr (KerberosLdapConfigRequest_token_max_ttl x))"

record kerberos_ldap_config =
  KerberosLdapConfig_url :: string
  KerberosLdapConfig_userdn :: string
  KerberosLdapConfig_userattr :: string
  KerberosLdapConfig_groupdn :: string
  KerberosLdapConfig_groupattr :: string
  KerberosLdapConfig_groupfilter :: string
  KerberosLdapConfig_starttls :: bool
  KerberosLdapConfig_insecure_tls :: bool

definition de_kerberos_ldap_config :: "json \<Rightarrow> kerberos_ldap_config option" where
  "de_kerberos_ldap_config = in_obj (\<lambda>v.
     Option.bind (fld de_string ''url'' v) (\<lambda>x0.
     Option.bind (fld_default [] de_string ''userdn'' v) (\<lambda>x1.
     Option.bind (fld_default [] de_string ''userattr'' v) (\<lambda>x2.
     Option.bind (fld_default [] de_string ''groupdn'' v) (\<lambda>x3.
     Option.bind (fld_default [] de_string ''groupattr'' v) (\<lambda>x4.
     Option.bind (fld_default [] de_string ''groupfilter'' v) (\<lambda>x5.
     Option.bind (fld de_bool ''starttls'' v) (\<lambda>x6.
     Option.bind (fld de_bool ''insecure_tls'' v) (\<lambda>x7.
       Some \<lparr>KerberosLdapConfig_url = x0, KerberosLdapConfig_userdn = x1, KerberosLdapConfig_userattr
             = x2, KerberosLdapConfig_groupdn = x3, KerberosLdapConfig_groupattr = x4,
             KerberosLdapConfig_groupfilter = x5, KerberosLdapConfig_starttls = x6,
             KerberosLdapConfig_insecure_tls = x7\<rparr>)))))))))"

record kerberos_group_request =
  KerberosGroupRequest_policies :: "(string list) option"

definition ser_kerberos_group_request :: "kerberos_group_request \<Rightarrow> json" where
  "ser_kerberos_group_request x = obj
     (opt_field ''policies'' jstrs (KerberosGroupRequest_policies x))"

record kerberos_group =
  KerberosGroup_policies :: "string list"

definition de_kerberos_group :: "json \<Rightarrow> kerberos_group option" where
  "de_kerberos_group = in_obj (\<lambda>v.
     Option.bind (fld_default [] (de_vec de_string) ''policies'' v) (\<lambda>x0.
       Some \<lparr>KerberosGroup_policies = x0\<rparr>))"

section \<open>Token\<close>

definition token_auth_lookup_self :: "'w client \<Rightarrow> ('w, token_lookup_response) io" where
  "token_auth_lookup_self c =
     exec_with_data c de_token_lookup_response GET ''auth/token/lookup-self'' None"

definition token_auth_lookup :: "'w client \<Rightarrow> secret \<Rightarrow> ('w, token_lookup_response) io" where
  "token_auth_lookup c tok =
     (let body = obj [(''token'', JStr (expose_secret tok))]
      in exec_with_data c de_token_lookup_response POST ''auth/token/lookup'' (Some body))"

definition token_auth_renew_self :: "'w client \<Rightarrow> string option \<Rightarrow> ('w, auth_info) io" where
  "token_auth_renew_self c increment =
     (let body = map_option (\<lambda>i. obj [(''increment'', JStr i)]) increment
      in login_result c (exec_with_auth c de_value POST ''auth/token/renew-self'' body))"

definition token_auth_create :: "'w client \<Rightarrow> token_create_request \<Rightarrow> ('w, auth_info) io" where
  "token_auth_create c params =
     bind_io (lift_io (to_body (Inr (ser_token_create_request params)))) (\<lambda>body.
       map_io (\<lambda>resp. ok_or (auth resp) EmptyResponse) (exec_with_auth c de_value POST
           ''auth/token/create'' (Some body)))"

definition token_auth_create_orphan :: "'w client \<Rightarrow> token_create_request \<Rightarrow> ('w, auth_info) io" where
  "token_auth_create_orphan c params =
     bind_io (lift_io (to_body (Inr (ser_token_create_request params)))) (\<lambda>body.
       map_io (\<lambda>resp. ok_or (auth resp) EmptyResponse) (exec_with_auth c de_value POST
           ''auth/token/create-orphan'' (Some body)))"

definition token_auth_revoke :: "'w client \<Rightarrow> secret \<Rightarrow> ('w, unit) io" where
  "token_auth_revoke c tok =
     (let body = obj [(''token'', JStr (expose_secret tok))]
      in exec_empty c POST ''auth/token/revoke'' (Some body))"

definition token_auth_revoke_self :: "'w client \<Rightarrow> ('w, unit) io" where
  "token_auth_revoke_self c =
     exec_empty c POST ''auth/token/revoke-self'' None"

definition token_auth_revoke_accessor :: "'w client \<Rightarrow> string \<Rightarrow> ('w, unit) io" where
  "token_auth_revoke_accessor c acc =
     (let body = obj [(''accessor'', JStr acc)]
      in exec_empty c POST ''auth/token/revoke-accessor'' (Some body))"

definition token_auth_list_accessors :: "'w client \<Rightarrow> ('w, string list) io" where
  "token_auth_list_accessors c =
     exec_list c (''auth/token/accessors'')"

section \<open>AppRole\<close>

definition approle_auth_login :: "'w handler \<Rightarrow> string \<Rightarrow> secret \<Rightarrow> ('w, auth_info) io" where
  "approle_auth_login h role_id secret_id =
     (let body = obj [(''role_id'', JStr role_id), (''secret_id'', JStr (expose_secret secret_id))]
      in login_result (h_client h) (exec_with_auth (h_client h) de_value POST (''auth/'' @ h_mount h
          @ ''/login'') (Some body)))"

definition approle_auth_create_role :: "'w handler \<Rightarrow> string \<Rightarrow> app_role_create_request \<Rightarrow> ('w, unit) io" where
  "approle_auth_create_role h name params =
     bind_io (lift_io (to_body (Inr (ser_app_role_create_request params)))) (\<lambda>body.
       exec_empty (h_client h) POST (''auth/'' @ h_mount h @ ''/role/'' @ encode_path name) (Some body))"

definition approle_auth_read_role :: "'w handler \<Rightarrow> string \<Rightarrow> ('w, app_role_info) io" where
  "approle_auth_read_role h name =
     exec_with_data (h_client h) de_app_role_info GET (''auth/'' @ h_mount h @ ''/role/'' @
         encode_path name) None"

definition approle_auth_delete_role :: "'w handler \<Rightarrow> string \<Rightarrow> ('w, unit) io" where
  "approle_auth_delete_role h name =
     exec_empty (h_client h) DELETE (''auth/'' @ h_mount h @ ''/role/'' @ encode_path name) None"

definition approle_auth_list_roles :: "'w handler \<Rightarrow> ('w, string list) io" where
  "approle_auth_list_roles h =
     exec_list (h_client h) (''auth/'' @ h_mount h @ ''/role'')"

definition approle_auth_read_role_id :: "'w handler \<Rightarrow> string \<Rightarrow> ('w, string) io" where
  "approle_auth_read_role_id h name =
     map_io (\<lambda>resp. Ok (AppRoleRoleIdResponse_role_id resp)) (exec_with_data (h_client h)
         de_app_role_role_id_response GET (''auth/'' @ h_mount h @ ''/role/'' @ encode_path name @
         ''/role-id'') None)"

definition approle_auth_generate_secret_id :: "'w handler \<Rightarrow> string \<Rightarrow> ('w, app_role_secret_id_response) io" where
  "approle_auth_generate_secret_id h name =
     exec_with_data (h_client h) de_app_role_secret_id_response POST (''auth/'' @ h_mount h @
         ''/role/'' @ encode_path name @ ''/secret-id'') None"

definition approle_auth_destroy_secret_id :: "'w handler \<Rightarrow> string \<Rightarrow> secret \<Rightarrow> ('w, unit) io" where
  "approle_auth_destroy_secret_id h name secret_id =
     (let body = obj [(''secret_id'', JStr (expose_secret secret_id))]
      in exec_empty (h_client h) POST (''auth/'' @ h_mount h @ ''/role/'' @ encode_path name @
          ''/secret-id/destroy'') (Some body))"

section \<open>Kubernetes\<close>

definition kubernetes_auth_login :: "'w handler \<Rightarrow> string \<Rightarrow> secret \<Rightarrow> ('w, auth_info) io" where
  "kubernetes_auth_login h role jwt =
     (let body = obj [(''role'', JStr role), (''jwt'', JStr (expose_secret jwt))]
      in login_result (h_client h) (exec_with_auth (h_client h) de_value POST (''auth/'' @ h_mount h
          @ ''/login'') (Some body)))"

definition kubernetes_auth_configure :: "'w handler \<Rightarrow> k8s_auth_config_request \<Rightarrow> ('w, unit) io" where
  "kubernetes_auth_configure h cfg =
     bind_io (lift_io (to_body (Inr (ser_k8s_auth_config_request cfg)))) (\<lambda>body.
       exec_empty (h_client h) POST (''auth/'' @ h_mount h @ ''/config'') (Some body))"

definition kubernetes_auth_create_role :: "'w handler \<Rightarrow> string \<Rightarrow> k8s_auth_role_request \<Rightarrow> ('w, unit) io" where
  "kubernetes_auth_create_role h name params =
     bind_io (lift_io (to_body (Inr (ser_k8s_auth_role_request params)))) (\<lambda>body.
       exec_empty (h_client h) POST (''auth/'' @ h_mount h @ ''/role/'' @ encode_path name) (Some body))"

definition kubernetes_auth_read_role :: "'w handler \<Rightarrow> string \<Rightarrow> ('w, k8s_auth_role_info) io" where
  "kubernetes_auth_read_role h name =
     exec_with_data (h_client h) de_k8s_auth_role_info GET (''auth/'' @ h_mount h @ ''/role/'' @
         encode_path name) None"

definition kubernetes_auth_delete_role :: "'w handler \<Rightarrow> string \<Rightarrow> ('w, unit) io" where
  "kubernetes_auth_delete_role h name =
     exec_empty (h_client h) DELETE (''auth/'' @ h_mount h @ ''/role/'' @ encode_path name) None"

definition kubernetes_auth_list_roles :: "'w handler \<Rightarrow> ('w, string list) io" where
  "kubernetes_auth_list_roles h =
     exec_list (h_client h) (''auth/'' @ h_mount h @ ''/role'')"

section \<open>Userpass\<close>

definition userpass_auth_login :: "'w handler \<Rightarrow> string \<Rightarrow> secret \<Rightarrow> ('w, auth_info) io" where
  "userpass_auth_login h username password =
     (let body = obj [(''password'', JStr (expose_secret password))]
      in login_result (h_client h) (exec_with_auth (h_client h) de_value POST (''auth/'' @ h_mount h
          @ ''/login/'' @ encode_path username) (Some body)))"

definition userpass_auth_create_user :: "'w handler \<Rightarrow> string \<Rightarrow> userpass_user_request \<Rightarrow> ('w, unit) io" where
  "userpass_auth_create_user h username params =
     bind_io (lift_io (to_body (Inr (ser_userpass_user_request params)))) (\<lambda>body.
       exec_empty (h_client h) POST (''auth/'' @ h_mount h @ ''/users/'' @ encode_path username)
           (Some body))"

definition userpass_auth_read_user :: "'w handler \<Rightarrow> string \<Rightarrow> ('w, userpass_user_info) io" where
  "userpass_auth_read_user h username =
     exec_with_data (h_client h) de_userpass_user_info GET (''auth/'' @ h_mount h @ ''/users/'' @
         encode_path username) None"

definition userpass_auth_delete_user :: "'w handler \<Rightarrow> string \<Rightarrow> ('w, unit) io" where
  "userpass_auth_delete_user h username =
     exec_empty (h_client h) DELETE (''auth/'' @ h_mount h @ ''/users/'' @ encode_path username) None"

definition userpass_auth_list_users :: "'w handler \<Rightarrow> ('w, string list) io" where
  "userpass_auth_list_users h =
     exec_list (h_client h) (''auth/'' @ h_mount h @ ''/users'')"

definition userpass_auth_update_password :: "'w handler \<Rightarrow> string \<Rightarrow> secret \<Rightarrow> ('w, unit) io" where
  "userpass_auth_update_password h username password =
     (let body = obj [(''password'', JStr (expose_secret password))]
      in exec_empty (h_client h) POST (''auth/'' @ h_mount h @ ''/users/'' @ encode_path username @
          ''/password'') (Some body))"

section \<open>LDAP\<close>

definition ldap_auth_login :: "'w handler \<Rightarrow> string \<Rightarrow> secret \<Rightarrow> ('w, auth_info) io" where
  "ldap_auth_login h username password =
     (let body = obj [(''password'', JStr (expose_secret password))]
      in login_result (h_client h) (exec_with_auth (h_client h) de_value POST (''auth/'' @ h_mount h
          @ ''/login/'' @ encode_path username) (Some body)))"

definition ldap_auth_configure :: "'w handler \<Rightarrow> ldap_config_request \<Rightarrow> ('w, unit) io" where
  "ldap_auth_configure h cfg =
     bind_io (lift_io (to_body (Inr (ser_ldap_config_request cfg)))) (\<lambda>body.
       exec_empty (h_client h) POST (''auth/'' @ h_mount h @ ''/config'') (Some body))"

definition ldap_auth_read_config :: "'w handler \<Rightarrow> ('w, ldap_config) io" where
  "ldap_auth_read_config h =
     exec_with_data (h_client h) de_ldap_config GET (''auth/'' @ h_mount h @ ''/config'') None"

definition ldap_auth_write_group :: "'w handler \<Rightarrow> string \<Rightarrow> ldap_group_request \<Rightarrow> ('w, unit) io" where
  "ldap_auth_write_group h name params =
     bind_io (lift_io (to_body (Inr (ser_ldap_group_request params)))) (\<lambda>body.
       exec_empty (h_client h) POST (''auth/'' @ h_mount h @ ''/groups/'' @ encode_path name) (Some
           body))"

definition ldap_auth_read_group :: "'w handler \<Rightarrow> string \<Rightarrow> ('w, ldap_group) io" where
  "ldap_auth_read_group h name =
     exec_with_data (h_client h) de_ldap_group GET (''auth/'' @ h_mount h @ ''/groups/'' @
         encode_path name) None"

definition ldap_auth_delete_group :: "'w handler \<Rightarrow> string \<Rightarrow> ('w, unit) io" where
  "ldap_auth_delete_group h name =
     exec_empty (h_client h) DELETE (''auth/'' @ h_mount h @ ''/groups/'' @ encode_path name) None"

definition ldap_auth_list_groups :: "'w handler \<Rightarrow> ('w, string list) io" where
  "ldap_auth_list_groups h =
     exec_list (h_client h) (''auth/'' @ h_mount h @ ''/groups'')"

definition ldap_auth_write_user :: "'w handler \<Rightarrow> string \<Rightarrow> ldap_user_request \<Rightarrow> ('w, unit) io" where
  "ldap_auth_write_user h name params =
     bind_io (lift_io (to_body (Inr (ser_ldap_user_request params)))) (\<lambda>body.
       exec_empty (h_client h) POST (''auth/'' @ h_mount h @ ''/users/'' @ encode_path name) (Some
           body))"

definition ldap_auth_read_user :: "'w handler \<Rightarrow> string \<Rightarrow> ('w, ldap_user) io" where
  "ldap_auth_read_user h name =
     exec_with_data (h_client h) de_ldap_user GET (''auth/'' @ h_mount h @ ''/users/'' @ encode_path
         name) None"

definition ldap_auth_delete_user :: "'w handler \<Rightarrow> string \<Rightarrow> ('w, unit) io" where
  "ldap_auth_delete_user h name =
     exec_empty (h_client h) DELETE (''auth/'' @ h_mount h @ ''/users/'' @ encode_path name) None"

definition ldap_auth_list_users :: "'w handler \<Rightarrow> ('w, string list) io" where
  "ldap_auth_list_users h =
     exec_list (h_client h) (''auth/'' @ h_mount h @ ''/users'')"

section \<open>TLS certificate\<close>

definition cert_auth_login :: "'w handler \<Rightarrow> string option \<Rightarrow> ('w, auth_info) io" where
  "cert_auth_login h name =
     (let body = map_option (\<lambda>n. obj [(''name'', JStr n)]) name
      in login_result (h_client h) (exec_with_auth (h_client h) de_value POST (''auth/'' @ h_mount h
          @ ''/login'') body))"

definition cert_auth_create_role :: "'w handler \<Rightarrow> string \<Rightarrow> cert_role_request \<Rightarrow> ('w, unit) io" where
  "cert_auth_create_role h name params =
     bind_io (lift_io (to_body (Inr (ser_cert_role_request params)))) (\<lambda>body.
       exec_empty (h_client h) POST (''auth/'' @ h_mount h @ ''/certs/'' @ encode_path name) (Some
           body))"

definition cert_auth_read_role :: "'w handler \<Rightarrow> string \<Rightarrow> ('w, cert_role_info) io" where
  "cert_auth_read_role h name =
     exec_with_data (h_client h) de_cert_role_info GET (''auth/'' @ h_mount h @ ''/certs/'' @
         encode_path name) None"

definition cert_auth_delete_role :: "'w handler \<Rightarrow> string \<Rightarrow> ('w, unit) io" where
  "cert_auth_delete_role h name =
     exec_empty (h_client h) DELETE (''auth/'' @ h_mount h @ ''/certs/'' @ encode_path name) None"

definition cert_auth_list_roles :: "'w handler \<Rightarrow> ('w, string list) io" where
  "cert_auth_list_roles h =
     exec_list (h_client h) (''auth/'' @ h_mount h @ ''/certs'')"

section \<open>GitHub\<close>

definition github_auth_login :: "'w handler \<Rightarrow> secret \<Rightarrow> ('w, auth_info) io" where
  "github_auth_login h tok =
     (let body = obj [(''token'', JStr (expose_secret tok))]
      in login_result (h_client h) (exec_with_auth (h_client h) de_value POST (''auth/'' @ h_mount h
          @ ''/login'') (Some body)))"

definition github_auth_configure :: "'w handler \<Rightarrow> github_config_request \<Rightarrow> ('w, unit) io" where
  "github_auth_configure h cfg =
     bind_io (lift_io (to_body (Inr (ser_github_config_request cfg)))) (\<lambda>body.
       exec_empty (h_client h) POST (''auth/'' @ h_mount h @ ''/config'') (Some body))"

definition github_auth_read_config :: "'w handler \<Rightarrow> ('w, github_config) io" where
  "github_auth_read_config h =
     exec_with_data (h_client h) de_github_config GET (''auth/'' @ h_mount h @ ''/config'') None"

definition github_auth_map_team :: "'w handler \<Rightarrow> string \<Rightarrow> github_team_mapping \<Rightarrow> ('w, unit) io" where
  "github_auth_map_team h team params =
     bind_io (lift_io (to_body (Inr (ser_github_team_mapping params)))) (\<lambda>body.
       exec_empty (h_client h) POST (''auth/'' @ h_mount h @ ''/map/teams/'' @ encode_path team)
           (Some body))"

definition github_auth_read_team_mapping :: "'w handler \<Rightarrow> string \<Rightarrow> ('w, github_team_info) io" where
  "github_auth_read_team_mapping h team =
     exec_with_data (h_client h) de_github_team_info GET (''auth/'' @ h_mount h @ ''/map/teams/'' @
         encode_path team) None"

definition github_auth_list_teams :: "'w handler \<Rightarrow> ('w, string list) io" where
  "github_auth_list_teams h =
     exec_list (h_client h) (''auth/'' @ h_mount h @ ''/map/teams'')"

section \<open>OIDC and JWT\<close>

definition oidc_auth_login_jwt :: "'w handler \<Rightarrow> string \<Rightarrow> secret \<Rightarrow> ('w, auth_info) io" where
  "oidc_auth_login_jwt h role jwt =
     (let body = obj [(''role'', JStr role), (''jwt'', JStr (expose_secret jwt))]
      in login_result (h_client h) (exec_with_auth (h_client h) de_value POST (''auth/'' @ h_mount h
          @ ''/login'') (Some body)))"

definition oidc_auth_configure :: "'w handler \<Rightarrow> oidc_config_request \<Rightarrow> ('w, unit) io" where
  "oidc_auth_configure h cfg =
     bind_io (lift_io (to_body (Inr (ser_oidc_config_request cfg)))) (\<lambda>body.
       exec_empty (h_client h) POST (''auth/'' @ h_mount h @ ''/config'') (Some body))"

definition oidc_auth_read_config :: "'w handler \<Rightarrow> ('w, oidc_config) io" where
  "oidc_auth_read_config h =
     exec_with_data (h_client h) de_oidc_config GET (''auth/'' @ h_mount h @ ''/config'') None"

definition oidc_auth_create_role :: "'w handler \<Rightarrow> string \<Rightarrow> oidc_role_request \<Rightarrow> ('w, unit) io" where
  "oidc_auth_create_role h name params =
     bind_io (lift_io (to_body (Inr (ser_oidc_role_request params)))) (\<lambda>body.
       exec_empty (h_client h) POST (''auth/'' @ h_mount h @ ''/role/'' @ encode_path name) (Some body))"

definition oidc_auth_read_role :: "'w handler \<Rightarrow> string \<Rightarrow> ('w, oidc_role_info) io" where
  "oidc_auth_read_role h name =
     exec_with_data (h_client h) de_oidc_role_info GET (''auth/'' @ h_mount h @ ''/role/'' @
         encode_path name) None"

definition oidc_auth_delete_role :: "'w handler \<Rightarrow> string \<Rightarrow> ('w, unit) io" where
  "oidc_auth_delete_role h name =
     exec_empty (h_client h) DELETE (''auth/'' @ h_mount h @ ''/role/'' @ encode_path name) None"

definition oidc_auth_list_roles :: "'w handler \<Rightarrow> ('w, string list) io" where
  "oidc_auth_list_roles h =
     exec_list (h_client h) (''auth/'' @ h_mount h @ ''/role'')"

section \<open>AWS\<close>

definition aws_auth_login :: "'w handler \<Rightarrow> aws_auth_login_request \<Rightarrow> ('w, auth_info) io" where
  "aws_auth_login h params =
     bind_io (lift_io (to_body (Inr (ser_aws_auth_login_request params)))) (\<lambda>body.
       login_result (h_client h) (exec_with_auth (h_client h) de_value POST (''auth/'' @ h_mount h @
           ''/login'') (Some body)))"

definition aws_auth_configure :: "'w handler \<Rightarrow> aws_auth_config_request \<Rightarrow> ('w, unit) io" where
  "aws_auth_configure h cfg =
     bind_io (lift_io (to_body (Inr (ser_aws_auth_config_request cfg)))) (\<lambda>body.
       exec_empty (h_client h) POST (''auth/'' @ h_mount h @ ''/config/client'') (Some body))"

definition aws_auth_read_config :: "'w handler \<Rightarrow> ('w, aws_auth_config) io" where
  "aws_auth_read_config h =
     exec_with_data (h_client h) de_aws_auth_config GET (''auth/'' @ h_mount h @ ''/config/client'')
         None"

definition aws_auth_create_role :: "'w handler \<Rightarrow> string \<Rightarrow> aws_auth_role_request \<Rightarrow> ('w, unit) io" where
  "aws_auth_create_role h name params =
     bind_io (lift_io (to_body (Inr (ser_aws_auth_role_request params)))) (\<lambda>body.
       exec_empty (h_client h) POST (''auth/'' @ h_mount h @ ''/role/'' @ encode_path name) (Some body))"

definition aws_auth_read_role :: "'w handler \<Rightarrow> string \<Rightarrow> ('w, aws_auth_role_info) io" where
  "aws_auth_read_role h name =
     exec_with_data (h_client h) de_aws_auth_role_info GET (''auth/'' @ h_mount h @ ''/role/'' @
         encode_path name) None"

definition aws_auth_delete_role :: "'w handler \<Rightarrow> string \<Rightarrow> ('w, unit) io" where
  "aws_auth_delete_role h name =
     exec_empty (h_client h) DELETE (''auth/'' @ h_mount h @ ''/role/'' @ encode_path name) None"

definition aws_auth_list_roles :: "'w handler \<Rightarrow> ('w, string list) io" where
  "aws_auth_list_roles h =
     exec_list (h_client h) (''auth/'' @ h_mount h @ ''/role'')"

section \<open>Azure\<close>

definition azure_auth_configure :: "'w handler \<Rightarrow> azure_auth_config_request \<Rightarrow> ('w, unit) io" where
  "azure_auth_configure h cfg =
     bind_io (lift_io (to_body (Inr (ser_azure_auth_config_request cfg)))) (\<lambda>body.
       exec_empty (h_client h) POST (''auth/'' @ h_mount h @ ''/config'') (Some body))"

definition azure_auth_read_config :: "'w handler \<Rightarrow> ('w, azure_auth_config) io" where
  "azure_auth_read_config h =
     exec_with_data (h_client h) de_azure_auth_config GET (''auth/'' @ h_mount h @ ''/config'') None"

definition azure_auth_create_role :: "'w handler \<Rightarrow> string \<Rightarrow> azure_auth_role_request \<Rightarrow> ('w, unit) io" where
  "azure_auth_create_role h name params =
     bind_io (lift_io (to_body (Inr (ser_azure_auth_role_request params)))) (\<lambda>body.
       exec_empty (h_client h) POST (''auth/'' @ h_mount h @ ''/role/'' @ encode_path name) (Some body))"

definition azure_auth_read_role :: "'w handler \<Rightarrow> string \<Rightarrow> ('w, azure_auth_role_info) io" where
  "azure_auth_read_role h name =
     exec_with_data (h_client h) de_azure_auth_role_info GET (''auth/'' @ h_mount h @ ''/role/'' @
         encode_path name) None"

definition azure_auth_delete_role :: "'w handler \<Rightarrow> string \<Rightarrow> ('w, unit) io" where
  "azure_auth_delete_role h name =
     exec_empty (h_client h) DELETE (''auth/'' @ h_mount h @ ''/role/'' @ encode_path name) None"

definition azure_auth_list_roles :: "'w handler \<Rightarrow> ('w, string list) io" where
  "azure_auth_list_roles h =
     exec_list (h_client h) (''auth/'' @ h_mount h @ ''/role'')"

section \<open>GCP\<close>

definition gcp_auth_login :: "'w handler \<Rightarrow> string \<Rightarrow> secret \<Rightarrow> ('w, auth_info) io" where
  "gcp_auth_login h role jwt =
     (let body = obj [(''role'', JStr role), (''jwt'', JStr (expose_secret jwt))]
      in login_result (h_client h) (exec_with_auth (h_client h) de_value POST (''auth/'' @ h_mount h
          @ ''/login'') (Some body)))"

definition gcp_auth_configure :: "'w handler \<Rightarrow> gcp_auth_config_request \<Rightarrow> ('w, unit) io" where
  "gcp_auth_configure h cfg =
     bind_io (lift_io (to_body (Inr (ser_gcp_auth_config_request cfg)))) (\<lambda>body.
       exec_empty (h_client h) POST (''auth/'' @ h_mount h @ ''/config'') (Some body))"

definition gcp_auth_read_config :: "'w handler \<Rightarrow> ('w, gcp_auth_config) io" where
  "gcp_auth_read_config h =
     exec_with_data (h_client h) de_gcp_auth_config GET (''auth/'' @ h_mount h @ ''/config'') None"

definition gcp_auth_create_role :: "'w handler \<Rightarrow> string \<Rightarrow> gcp_auth_role_request \<Rightarrow> ('w, unit) io" where
  "gcp_auth_create_role h name params =
     bind_io (lift_io (to_body (Inr (ser_gcp_auth_role_request params)))) (\<lambda>body.
       exec_empty (h_client h) POST (''auth/'' @ h_mount h @ ''/role/'' @ encode_path name) (Some body))"

definition gcp_auth_read_role :: "'w handler \<Rightarrow> string \<Rightarrow> ('w, gcp_auth_role_info) io" where
  "gcp_auth_read_role h name =
     exec_with_data (h_client h) de_gcp_auth_role_info GET (''auth/'' @ h_mount h @ ''/role/'' @
         encode_path name) None"

definition gcp_auth_delete_role :: "'w handler \<Rightarrow> string \<Rightarrow> ('w, unit) io" where
  "gcp_auth_delete_role h name =
     exec_empty (h_client h) DELETE (''auth/'' @ h_mount h @ ''/role/'' @ encode_path name) None"

definition gcp_auth_list_roles :: "'w handler \<Rightarrow> ('w, string list) io" where
  "gcp_auth_list_roles h =
     exec_list (h_client h) (''auth/'' @ h_mount h @ ''/role'')"

section \<open>RADIUS\<close>

definition radius_auth_login :: "'w handler \<Rightarrow> string \<Rightarrow> secret \<Rightarrow> ('w, auth_info) io" where
  "radius_auth_login h username password =
     (let body = obj [(''password'', JStr (expose_secret password))]
      in login_result (h_client h) (exec_with_auth (h_client h) de_value POST (''auth/'' @ h_mount h
          @ ''/login/'' @ encode_path username) (Some body)))"

definition radius_auth_configure :: "'w handler \<Rightarrow> radius_config_request \<Rightarrow> ('w, unit) io" where
  "radius_auth_configure h cfg =
     bind_io (lift_io (to_body (Inr (ser_radius_config_request cfg)))) (\<lambda>body.
       exec_empty (h_client h) POST (''auth/'' @ h_mount h @ ''/config'') (Some body))"

definition radius_auth_read_config :: "'w handler \<Rightarrow> ('w, radius_config) io" where
  "radius_auth_read_config h =
     exec_with_data (h_client h) de_radius_config GET (''auth/'' @ h_mount h @ ''/config'') None"

definition radius_auth_write_user :: "'w handler \<Rightarrow> string \<Rightarrow> radius_user_request \<Rightarrow> ('w, unit) io" where
  "radius_auth_write_user h username params =
     bind_io (lift_io (to_body (Inr (ser_radius_user_request params)))) (\<lambda>body.
       exec_empty (h_client h) POST (''auth/'' @ h_mount h @ ''/users/'' @ encode_path username)
           (Some body))"

definition radius_auth_read_user :: "'w handler \<Rightarrow> string \<Rightarrow> ('w, radius_user) io" where
  "radius_auth_read_user h username =
     exec_with_data (h_client h) de_radius_user GET (''auth/'' @ h_mount h @ ''/users/'' @
         encode_path username) None"

definition radius_auth_delete_user :: "'w handler \<Rightarrow> string \<Rightarrow> ('w, unit) io" where
  "radius_auth_delete_user h username =
     exec_empty (h_client h) DELETE (''auth/'' @ h_mount h @ ''/users/'' @ encode_path username) None"

definition radius_auth_list_users :: "'w handler \<Rightarrow> ('w, string list) io" where
  "radius_auth_list_users h =
     exec_list (h_client h) (''auth/'' @ h_mount h @ ''/users'')"

section \<open>Kerberos\<close>

definition kerberos_auth_login :: "'w handler \<Rightarrow> string \<Rightarrow> ('w, auth_info) io" where
  "kerberos_auth_login h authorization =
     (let body = obj [(''authorization'', JStr authorization)]
      in login_result (h_client h) (exec_with_auth (h_client h) de_value POST (''auth/'' @ h_mount h
          @ ''/login'') (Some body)))"

definition kerberos_auth_configure :: "'w handler \<Rightarrow> kerberos_config_request \<Rightarrow> ('w, unit) io" where
  "kerberos_auth_configure h cfg =
     bind_io (lift_io (to_body (Inr (ser_kerberos_config_request cfg)))) (\<lambda>body.
       exec_empty (h_client h) POST (''auth/'' @ h_mount h @ ''/config'') (Some body))"

definition kerberos_auth_read_config :: "'w handler \<Rightarrow> ('w, kerberos_config) io" where
  "kerberos_auth_read_config h =
     exec_with_data (h_client h) de_kerberos_config GET (''auth/'' @ h_mount h @ ''/config'') None"

definition kerberos_auth_configure_ldap :: "'w handler \<Rightarrow> kerberos_ldap_config_request \<Rightarrow> ('w, unit) io" where
  "kerberos_auth_configure_ldap h cfg =
     bind_io (lift_io (to_body (Inr (ser_kerberos_ldap_config_request cfg)))) (\<lambda>body.
       exec_empty (h_client h) POST (''auth/'' @ h_mount h @ ''/config/ldap'') (Some body))"

definition kerberos_auth_read_ldap_config :: "'w handler \<Rightarrow> ('w, kerberos_ldap_config) io" where
  "kerberos_auth_read_ldap_config h =
     exec_with_data (h_client h) de_kerberos_ldap_config GET (''auth/'' @ h_mount h @
         ''/config/ldap'') None"

definition kerberos_auth_write_group :: "'w handler \<Rightarrow> string \<Rightarrow> kerberos_group_request \<Rightarrow> ('w, unit) io" where
  "kerberos_auth_write_group h name params =
     bind_io (lift_io (to_body (Inr (ser_kerberos_group_request params)))) (\<lambda>body.
       exec_empty (h_client h) POST (''auth/'' @ h_mount h @ ''/groups/'' @ encode_path name) (Some
           body))"

definition kerberos_auth_read_group :: "'w handler \<Rightarrow> string \<Rightarrow> ('w, kerberos_group) io" where
  "kerberos_auth_read_group h name =
     exec_with_data (h_client h) de_kerberos_group GET (''auth/'' @ h_mount h @ ''/groups/'' @
         encode_path name) None"

definition kerberos_auth_delete_group :: "'w handler \<Rightarrow> string \<Rightarrow> ('w, unit) io" where
  "kerberos_auth_delete_group h name =
     exec_empty (h_client h) DELETE (''auth/'' @ h_mount h @ ''/groups/'' @ encode_path name) None"

definition kerberos_auth_list_groups :: "'w handler \<Rightarrow> ('w, string list) io" where
  "kerberos_auth_list_groups h =
     exec_list (h_client h) (''auth/'' @ h_mount h @ ''/groups'')"

section \<open>Accessors\<close>

definition approle_at :: "'w client \<Rightarrow> string \<Rightarrow> 'w handler" where
  [handler_defs]: "approle_at c mount = \<lparr>h_client = c, h_mount = encode_path mount\<rparr>"

definition kubernetes_at :: "'w client \<Rightarrow> string \<Rightarrow> 'w handler" where
  [handler_defs]: "kubernetes_at c mount = \<lparr>h_client = c, h_mount = encode_path mount\<rparr>"

definition userpass_at :: "'w client \<Rightarrow> string \<Rightarrow> 'w handler" where
  [handler_defs]: "userpass_at c mount = \<lparr>h_client = c, h_mount = encode_path mount\<rparr>"

definition ldap_at :: "'w client \<Rightarrow> string \<Rightarrow> 'w handler" where
  [handler_defs]: "ldap_at c mount = \<lparr>h_client = c, h_mount = encode_path mount\<rparr>"

definition cert_at :: "'w client \<Rightarrow> string \<Rightarrow> 'w handler" where
  [handler_defs]: "cert_at c mount = \<lparr>h_client = c, h_mount = encode_path mount\<rparr>"

definition github_at :: "'w client \<Rightarrow> string \<Rightarrow> 'w handler" where
  [handler_defs]: "github_at c mount = \<lparr>h_client = c, h_mount = encode_path mount\<rparr>"

definition oidc_at :: "'w client \<Rightarrow> string \<Rightarrow> 'w handler" where
  [handler_defs]: "oidc_at c mount = \<lparr>h_client = c, h_mount = encode_path mount\<rparr>"

definition aws_at :: "'w client \<Rightarrow> string \<Rightarrow> 'w handler" where
  [handler_defs]: "aws_at c mount = \<lparr>h_client = c, h_mount = encode_path mount\<rparr>"

definition azure_at :: "'w client \<Rightarrow> string \<Rightarrow> 'w handler" where
  [handler_defs]: "azure_at c mount = \<lparr>h_client = c, h_mount = encode_path mount\<rparr>"

definition gcp_at :: "'w client \<Rightarrow> string \<Rightarrow> 'w handler" where
  [handler_defs]: "gcp_at c mount = \<lparr>h_client = c, h_mount = encode_path mount\<rparr>"

definition radius_at :: "'w client \<Rightarrow> string \<Rightarrow> 'w handler" where
  [handler_defs]: "radius_at c mount = \<lparr>h_client = c, h_mount = encode_path mount\<rparr>"

definition kerberos_at :: "'w client \<Rightarrow> string \<Rightarrow> 'w handler" where
  [handler_defs]: "kerberos_at c mount = \<lparr>h_client = c, h_mount = encode_path mount\<rparr>"

text \<open>The accessors with the default mount.\<close>

definition approle_default :: "'w client \<Rightarrow> 'w handler" where
  [handler_defs]: "approle_default c = approle_at c ''approle''"

definition kubernetes_default :: "'w client \<Rightarrow> 'w handler" where
  [handler_defs]: "kubernetes_default c = kubernetes_at c ''kubernetes''"

definition userpass_default :: "'w client \<Rightarrow> 'w handler" where
  [handler_defs]: "userpass_default c = userpass_at c ''userpass''"

definition ldap_default :: "'w client \<Rightarrow> 'w handler" where
  [handler_defs]: "ldap_default c = ldap_at c ''ldap''"

definition cert_default :: "'w client \<Rightarrow> 'w handler" where
  [handler_defs]: "cert_default c = cert_at c ''cert''"

definition github_default :: "'w client \<Rightarrow> 'w handler" where
  [handler_defs]: "github_default c = github_at c ''github''"

definition oidc_default :: "'w client \<Rightarrow> 'w handler" where
  [handler_defs]: "oidc_default c = oidc_at c ''oidc''"

definition aws_default :: "'w client \<Rightarrow> 'w handler" where
  [handler_defs]: "aws_default c = aws_at c ''aws''"

definition azure_default :: "'w client \<Rightarrow> 'w handler" where
  [handler_defs]: "azure_default c = azure_at c ''azure''"

definition gcp_default :: "'w client \<Rightarrow> 'w handler" where
  [handler_defs]: "gcp_default c = gcp_at c ''gcp''"

definition radius_default :: "'w client \<Rightarrow> 'w handler" where
  [handler_defs]: "radius_default c = radius_at c ''radius''"

definition kerberos_default :: "'w client \<Rightarrow> 'w handler" where
  [handler_defs]: "kerberos_default c = kerberos_at c ''kerberos''"

definition jwt_default :: "'w client \<Rightarrow> 'w handler" where
  [handler_defs]: "jwt_default c = oidc_at c ''jwt''"

definition jwt_at :: "'w client \<Rightarrow> string \<Rightarrow> 'w handler" where
  [handler_defs]: "jwt_at c mount = oidc_at c mount"

section \<open>The Azure login\<close>

text \<open>\<open>if let Some(v) = value { body[key] = v }\<close>.\<close>

definition set_some :: "string \<Rightarrow> string option \<Rightarrow> json \<Rightarrow> json outcome" where
  "set_some k v body = (case v of Some x \<Rightarrow> json_set body k (JStr x) | None \<Rightarrow> Ok body)"

definition azure_auth_login ::
  "'w handler \<Rightarrow> string \<Rightarrow> secret \<Rightarrow> string option \<Rightarrow> string option \<Rightarrow> string option
     \<Rightarrow> string option \<Rightarrow> ('w, auth_info) io" where
  "azure_auth_login h role jwt subscription_id resource_group_name vm_name vmss_name =
     bind_io (lift_io (let body = obj [(''role'', JStr role), (''jwt'', JStr (expose_secret jwt))]
        in then_ok (set_some ''subscription_id'' subscription_id body) (\<lambda>body.
           then_ok (set_some ''resource_group_name'' resource_group_name body) (\<lambda>body.
           then_ok (set_some ''vm_name'' vm_name body) (\<lambda>body.
           set_some ''vmss_name'' vmss_name body))))) (\<lambda>body.
     login_result (h_client h)
       (exec_with_auth (h_client h) de_value POST (''auth/'' @ h_mount h @ ''/login'') (Some body)))"

section \<open>Built-in AuthMethod implementations\<close>

record app_role_login =
  AppRoleLogin_role_id :: string
  AppRoleLogin_secret_id :: secret
  AppRoleLogin_mount :: string

definition app_role_login_run :: "app_role_login \<Rightarrow> 'w client \<Rightarrow> ('w, auth_info) io" where
  "app_role_login_run l c =
     approle_auth_login (approle_at c (AppRoleLogin_mount l)) (AppRoleLogin_role_id l) (AppRoleLogin_secret_id l)"

record k8s_login =
  K8sLogin_role :: string
  K8sLogin_jwt :: secret
  K8sLogin_mount :: string

definition k8s_login_run :: "k8s_login \<Rightarrow> 'w client \<Rightarrow> ('w, auth_info) io" where
  "k8s_login_run l c =
     kubernetes_auth_login (kubernetes_at c (K8sLogin_mount l)) (K8sLogin_role l) (K8sLogin_jwt l)"

record userpass_login =
  UserpassLogin_username :: string
  UserpassLogin_password :: secret
  UserpassLogin_mount :: string

definition userpass_login_run :: "userpass_login \<Rightarrow> 'w client \<Rightarrow> ('w, auth_info) io" where
  "userpass_login_run l c =
     userpass_auth_login (userpass_at c (UserpassLogin_mount l)) (UserpassLogin_username l) (UserpassLogin_password l)"

record ldap_login =
  LdapLogin_username :: string
  LdapLogin_password :: secret
  LdapLogin_mount :: string

definition ldap_login_run :: "ldap_login \<Rightarrow> 'w client \<Rightarrow> ('w, auth_info) io" where
  "ldap_login_run l c =
     ldap_auth_login (ldap_at c (LdapLogin_mount l)) (LdapLogin_username l) (LdapLogin_password l)"

record github_login =
  GithubLogin_token :: secret
  GithubLogin_mount :: string

definition github_login_run :: "github_login \<Rightarrow> 'w client \<Rightarrow> ('w, auth_info) io" where
  "github_login_run l c =
     github_auth_login (github_at c (GithubLogin_mount l)) (GithubLogin_token l)"

record jwt_login =
  JwtLogin_role :: string
  JwtLogin_jwt :: secret
  JwtLogin_mount :: string

definition jwt_login_run :: "jwt_login \<Rightarrow> 'w client \<Rightarrow> ('w, auth_info) io" where
  "jwt_login_run l c =
     oidc_auth_login_jwt (oidc_at c (JwtLogin_mount l)) (JwtLogin_role l) (JwtLogin_jwt l)"

record aws_login =
  AwsLogin_params :: aws_auth_login_request
  AwsLogin_mount :: string

definition aws_login_run :: "aws_login \<Rightarrow> 'w client \<Rightarrow> ('w, auth_info) io" where
  "aws_login_run l c = aws_auth_login (aws_at c (AwsLogin_mount l)) (AwsLogin_params l)"

record azure_login =
  AzureLogin_role :: string
  AzureLogin_jwt :: secret
  AzureLogin_subscription_id :: "string option"
  AzureLogin_resource_group_name :: "string option"
  AzureLogin_vm_name :: "string option"
  AzureLogin_vmss_name :: "string option"
  AzureLogin_mount :: string

definition azure_login_run :: "azure_login \<Rightarrow> 'w client \<Rightarrow> ('w, auth_info) io" where
  "azure_login_run l c =
     azure_auth_login (azure_at c (AzureLogin_mount l)) (AzureLogin_role l) (AzureLogin_jwt l) (AzureLogin_subscription_id l)
       (AzureLogin_resource_group_name l) (AzureLogin_vm_name l) (AzureLogin_vmss_name l)"

record gcp_login =
  GcpLogin_role :: string
  GcpLogin_jwt :: secret
  GcpLogin_mount :: string

definition gcp_login_run :: "gcp_login \<Rightarrow> 'w client \<Rightarrow> ('w, auth_info) io" where
  "gcp_login_run l c =
     gcp_auth_login (gcp_at c (GcpLogin_mount l)) (GcpLogin_role l) (GcpLogin_jwt l)"

section \<open>What a login is\<close>

text \<open>
  The contract that every login method keeps: on a client it is one POST to a login path - which
  never enters the token lifecycle - whose answer is stored.
\<close>

lemma login_path_shape [simp]: "is_login (''auth/'' @ m @ ''/login'' @ r)"
proof -
  have "contains ((''auth/'' @ m) @ ''/login'' @ r) ''/login''" by (rule contains_append)
  then show ?thesis by (simp add: is_login_def starts_with_def)
qed

lemma login_paths [simp]:
  "is_login (''auth/'' @ m @ ''/login'')" "is_login (''auth/'' @ m @ ''/login/'' @ r)"
  using login_path_shape [of m "[]"] login_path_shape [of m "''/'' @ r"] by simp_all

lemma login_resultE:
  assumes "login_result c m s = (Ok a, s')"
  obtains resp s1 where "m s = (Ok resp, s1)" and "auth resp = Some a"
    and "\<not> token_poisoned s1" and "stored c a s1 s'"
proof -
  obtain resp s1 where m: "m s = (Ok resp, s1)" "auth resp = Some a"
    "update_token_from_auth c a s1 = (Ok (), s')"
    using assms by (auto simp: login_result_def bind_io_cases ok_or_def
        split: prod.splits outcome.splits option.splits)
  have np: "\<not> token_poisoned s1" using m(3) by (auto simp: update_token_from_auth_def)
  show thesis
    using update_token_stored [OF np, of c a] m np by (auto intro: that)
qed

locale login_method =
  fixes run :: "'w client \<Rightarrow> ('w, auth_info) io" and path :: string and body :: "json option"
  assumes run_eq: "run c = login_result c (exec_with_auth c de_value POST path body)"
    and path_login: "is_login path"
begin

lemma sends_own: "clone_faithful (cl_env c) \<Longrightarrow> keeps (sent (asks c POST path body)) (run c)"
  unfolding run_eq login_result_def exec_with_auth_def
  by (intro sent.keeps_bind sent.keeps_map sent.keeps_lift update_token_sends execute_login_sends path_login)

lemma run_evolves: "clone_faithful (cl_env c) \<Longrightarrow> keeps evolves (run c)"
  unfolding run_eq login_result_def exec_with_auth_def execute_login [OF path_login]
  by (intro ev.keeps_bind ev.keeps_map ev.keeps_lift evolves_update_token evolves_execute_raw)

lemma run_metered:
  "clone_faithful (cl_env c) \<Longrightarrow> keeps (metered (Suc (max_retries (config c)))) (run c)"
  unfolding run_eq login_result_def exec_with_auth_def execute_login [OF path_login]
  by (intro met.keeps_bind met.keeps_map met.keeps_lift metered_update_token metered_execute_raw)

lemma run_succeeds:
  assumes "execute_raw c POST path body s = (Ok resp, s1)" and "rs_status resp \<noteq> 404"
    and "json_body c (de_vault_response de_value) resp = Ok env" and "auth env = Some a"
    and "\<not> token_poisoned s1"
  obtains s' where "run c s = (Ok a, s')" and "stored c a s1 s'"
proof -
  obtain s' where s': "update_token_from_auth c a s1 = (Ok (), s')" "stored c a s1 s'"
    by (rule update_token_stored [OF assms(5)])
  have "exec_with_auth c de_value POST path body s = (Ok env, s1)"
    by (simp add: exec_with_auth_def map_io_apply execute_login [OF path_login] assms(1-3) not_found_check_def)
  then show thesis
    by (intro that [of s']) (simp_all add: run_eq login_result_def bind_io_cases ok_or_def assms(4) s')
qed

text \<open>Every way a login can end: the token of its answer is stored, or nothing is.\<close>

lemma run_cases:
  assumes cf: "clone_faithful (cl_env c)" and run: "run c s = (r, s')"
  obtains s1 es url where "trace s1 = trace s @ es" and "token s1 = token s"
    and "only_requests (vault_request c POST url (token s) body) es"
    and "requests es \<noteq> [] \<longrightarrow> e_url (cl_env c) (url_string c path) = Inr url"
    and "(\<exists>a. r = Ok a \<and> stored c a s1 s') \<or> (\<not> is_ok r \<and> s' = s1)"
proof -
  obtain r0 s1 where ex: "execute_raw c POST path body s = (r0, s1)" by fastforce
  then obtain r1 where m: "exec_with_auth c de_value POST path body s = (r1, s1)"
    by (simp add: exec_with_auth_def map_io_apply execute_login [OF path_login])
  have end_of: "(\<exists>a. r = Ok a \<and> stored c a s1 s') \<or> (\<not> is_ok r \<and> s' = s1)"
  proof (cases "\<exists>resp a. r1 = Ok resp \<and> auth resp = Some a \<and> \<not> token_poisoned s1")
    case True
    then obtain resp a where a: "r1 = Ok resp" "auth resp = Some a" "\<not> token_poisoned s1" by blast
    obtain s2 where "update_token_from_auth c a s1 = (Ok (), s2)" "stored c a s1 s2"
      by (rule update_token_stored [OF a(3)])
    then show ?thesis
      using run m a by (auto simp: run_eq login_result_def bind_io_cases ok_or_def)
  next
    case False
    then show ?thesis
      using run m by (cases r1) (auto simp: run_eq login_result_def bind_io_cases ok_or_def
          update_token_from_auth_def split: option.splits)
  qed
  show thesis
    by (rule execute_raw_requests [OF cf ex]) (rule that; use end_of in simp)
qed

lemma run_ok:
  assumes cf: "clone_faithful (cl_env c)" and "run c s = (Ok a, s')"
  obtains s1 es where "stored c a s1 s'" and "trace s1 = trace s @ es" and "token_changes es = []"
    and "list_all (asks c POST path body) (requests es)" and "\<not> token_poisoned s'" and "token s1 = token s"
proof -
  obtain resp s1 where m: "exec_with_auth c de_value POST path body s = (Ok resp, s1)" "auth resp = Some a"
    "\<not> token_poisoned s1" "stored c a s1 s'"
    using assms(2) login_resultE [of c "exec_with_auth c de_value POST path body" s a s'] by (auto simp: run_eq)
  then obtain r where ex: "execute_raw c POST path body s = (r, s1)"
    by (auto simp: exec_with_auth_def map_io_apply execute_login [OF path_login] split: prod.splits)
  show thesis
  proof (rule execute_raw_requests [OF cf ex], goal_cases)
    case (1 es url)
    then show ?case
      using m by (intro that [of s1 es])
        (auto simp: only_requests_def asks_def list_all_iff stored_def split: sum.splits)
  qed
qed

end

text \<open>\<open>ClientBuilder::auth_method\<close> with \<open>AuthMethodDyn\<close>: the login is run on the view that needs it.\<close>

definition with_login :: "('w client \<Rightarrow> ('w, auth_info) io) \<Rightarrow> 'w client \<Rightarrow> 'w client" where
  "with_login run c =
     c\<lparr>auth_method := Some (\<lambda>ns wrap. run (c\<lparr>namespace_override := ns, wrap_ttl_override := wrap\<rparr>))\<rparr>"

lemma with_login_simps [simp]:
  "cl_env (with_login run c) = cl_env c" "has_callback (with_login run c) = has_callback c"
  "namespace_override (with_login run c) = namespace_override c"
  "wrap_ttl_override (with_login run c) = wrap_ttl_override c"
  "auth_method (with_login run c)
     = Some (\<lambda>ns wrap. run (c\<lparr>namespace_override := ns, wrap_ttl_override := wrap\<rparr>))"
  by (simp_all add: with_login_def)

context login_method
begin

lemma relogin:
  assumes cf: "clone_faithful (cl_env c)" and re: "try_re_authenticate (with_login run c) s = (Ok (), s')"
  obtains a es s0 where "trace s' = trace s @ es" and "list_all (asks c POST path body) (requests es)"
    and "token_changes es = (if has_callback c then [a, a] else [])"
    and "token s' = Some (token_of_auth (now s') a)" and "run c s = (Ok a, s0)"
proof -
  have "c\<lparr>namespace_override := namespace_override c, wrap_ttl_override := wrap_ttl_override c\<rparr> = c" by simp
  then obtain a s0 where a: "run c s = (Ok a, s0)" and up: "update_token_from_auth (with_login run c) a s0 = (Ok (), s')"
    using re by (auto simp: try_re_authenticate_def bind_io_cases split: prod.splits outcome.splits)
  then have np: "\<not> token_poisoned s0" by (auto simp: update_token_from_auth_def)
  have st: "stored (with_login run c) a s0 s'"
    using update_token_stored [OF np, of "with_login run c" a] up by auto
  show thesis
  proof (rule run_ok [OF cf a], goal_cases)
    case (1 s1 es)
    then show ?case
      using a st by (intro that [of "es @ (if has_callback c then [ETokenChanged a, ETokenChanged a] else [])"])
        (auto simp: stored_def)
  qed
qed

end

section \<open>The built-in logins keep the contract\<close>

text \<open>The optional fields that the Azure login adds to its body.\<close>

lemma set_some_obj:
  obtains kvs' where "set_some k v (JObj kvs) = Ok (JObj kvs')"
  by (cases v) (auto simp: set_some_def json_set_def)

lemma set_some_is_obj: "set_some k v (obj kvs) = Ok b \<Longrightarrow> \<exists>kvs'. b = JObj kvs'"
  by (cases v) (auto simp: set_some_def json_set_def obj_def)

definition azure_login_body :: "azure_login \<Rightarrow> json outcome" where
  "azure_login_body l =
     then_ok (set_some ''subscription_id'' (AzureLogin_subscription_id l)
                (obj [(''role'', JStr (AzureLogin_role l)), (''jwt'', JStr (expose_secret (AzureLogin_jwt l)))]))
       (\<lambda>body. then_ok (set_some ''resource_group_name'' (AzureLogin_resource_group_name l) body)
       (\<lambda>body. then_ok (set_some ''vm_name'' (AzureLogin_vm_name l) body)
       (\<lambda>body. set_some ''vmss_name'' (AzureLogin_vmss_name l) body)))"

lemma azure_login_body_ok: "\<exists>b. azure_login_body l = Ok b"
proof -
  obtain o1 where 1: "set_some ''subscription_id'' (AzureLogin_subscription_id l)
      (obj [(''role'', JStr (AzureLogin_role l)), (''jwt'', JStr (expose_secret (AzureLogin_jwt l)))]) = Ok (JObj o1)"
    unfolding obj_def by (rule set_some_obj)
  obtain o2 where 2: "set_some ''resource_group_name'' (AzureLogin_resource_group_name l) (JObj o1) = Ok (JObj o2)"
    by (rule set_some_obj)
  obtain o3 where 3: "set_some ''vm_name'' (AzureLogin_vm_name l) (JObj o2) = Ok (JObj o3)"
    by (rule set_some_obj)
  obtain o4 where 4: "set_some ''vmss_name'' (AzureLogin_vmss_name l) (JObj o3) = Ok (JObj o4)"
    by (rule set_some_obj)
  show ?thesis using 1 2 3 4 by (simp add: azure_login_body_def)
qed

definition azure_body :: "azure_login \<Rightarrow> json option" where
  "azure_body l = (case azure_login_body l of Ok b \<Rightarrow> Some b | _ \<Rightarrow> None)"

lemma azure_login_run_eq:
  "azure_login_run l c = login_result c (exec_with_auth c de_value POST
     (''auth/'' @ encode_path (AzureLogin_mount l) @ ''/login'') (azure_body l))"
proof -
  obtain b where b: "azure_login_body l = Ok b" using azure_login_body_ok by blast
  then show ?thesis
    by (simp only: azure_login_run_def azure_auth_login_def azure_at_def azure_body_def Let_def
        handler.select_convs b [unfolded azure_login_body_def] b bind_io_lift outcome.case option.case)
qed

lemmas login_runs = app_role_login_run_def approle_auth_login_def k8s_login_run_def
  kubernetes_auth_login_def userpass_login_run_def userpass_auth_login_def ldap_login_run_def
  ldap_auth_login_def github_login_run_def github_auth_login_def jwt_login_run_def
  oidc_auth_login_jwt_def aws_login_run_def aws_auth_login_def gcp_login_run_def gcp_auth_login_def

interpretation app_role: login_method "app_role_login_run l"
  "''auth/'' @ encode_path (AppRoleLogin_mount l) @ ''/login''"
  "Some (obj [(''role_id'', JStr (AppRoleLogin_role_id l)), (''secret_id'', JStr (expose_secret (AppRoleLogin_secret_id l)))])" for l
  by (unfold_locales, simp add: login_runs handler_defs, rule login_paths)

interpretation k8s: login_method "k8s_login_run l"
  "''auth/'' @ encode_path (K8sLogin_mount l) @ ''/login''"
  "Some (obj [(''role'', JStr (K8sLogin_role l)), (''jwt'', JStr (expose_secret (K8sLogin_jwt l)))])" for l
  by (unfold_locales, simp add: login_runs handler_defs, rule login_paths)

interpretation upass: login_method "userpass_login_run l"
  "''auth/'' @ encode_path (UserpassLogin_mount l) @ ''/login/'' @ encode_path (UserpassLogin_username l)"
  "Some (obj [(''password'', JStr (expose_secret (UserpassLogin_password l)))])" for l
  by (unfold_locales, simp add: login_runs handler_defs, rule login_paths)

interpretation ldp: login_method "ldap_login_run l"
  "''auth/'' @ encode_path (LdapLogin_mount l) @ ''/login/'' @ encode_path (LdapLogin_username l)"
  "Some (obj [(''password'', JStr (expose_secret (LdapLogin_password l)))])" for l
  by (unfold_locales, simp add: login_runs handler_defs, rule login_paths)

interpretation ghub: login_method "github_login_run l"
  "''auth/'' @ encode_path (GithubLogin_mount l) @ ''/login''"
  "Some (obj [(''token'', JStr (expose_secret (GithubLogin_token l)))])" for l
  by (unfold_locales, simp add: login_runs handler_defs, rule login_paths)

interpretation jwt: login_method "jwt_login_run l"
  "''auth/'' @ encode_path (JwtLogin_mount l) @ ''/login''"
  "Some (obj [(''role'', JStr (JwtLogin_role l)), (''jwt'', JStr (expose_secret (JwtLogin_jwt l)))])" for l
  by (unfold_locales, simp add: login_runs handler_defs, rule login_paths)

interpretation awsl: login_method "aws_login_run l"
  "''auth/'' @ encode_path (AwsLogin_mount l) @ ''/login''"
  "Some (ser_aws_auth_login_request (AwsLogin_params l))" for l
  by (unfold_locales, simp add: login_runs handler_defs, rule login_paths)

interpretation azl: login_method "azure_login_run l"
  "''auth/'' @ encode_path (AzureLogin_mount l) @ ''/login''"
  "azure_body l" for l
  by (unfold_locales, rule azure_login_run_eq, rule login_paths)

interpretation gcpl: login_method "gcp_login_run l"
  "''auth/'' @ encode_path (GcpLogin_mount l) @ ''/login''"
  "Some (obj [(''role'', JStr (GcpLogin_role l)), (''jwt'', JStr (expose_secret (GcpLogin_jwt l)))])" for l
  by (unfold_locales, simp add: login_runs handler_defs, rule login_paths)

inductive built_in :: "('w client \<Rightarrow> ('w, auth_info) io) \<Rightarrow> bool" where
  "built_in (app_role_login_run l1)"
| "built_in (k8s_login_run l2)"
| "built_in (userpass_login_run l3)"
| "built_in (ldap_login_run l4)"
| "built_in (github_login_run l5)"
| "built_in (jwt_login_run l6)"
| "built_in (aws_login_run l7)"
| "built_in (azure_login_run l8)"
| "built_in (gcp_login_run l9)"

lemma built_in_contract: "built_in run \<Longrightarrow> \<exists>path body. login_method run path body"
  by (erule built_in.cases)
    (blast intro: app_role.login_method_axioms k8s.login_method_axioms upass.login_method_axioms
      ldp.login_method_axioms ghub.login_method_axioms jwt.login_method_axioms awsl.login_method_axioms
      azl.login_method_axioms gcpl.login_method_axioms)+

text \<open>The request that each of them makes.\<close>

inductive login_request ::
  "('w client \<Rightarrow> ('w, auth_info) io) \<Rightarrow> string \<Rightarrow> json option \<Rightarrow> bool" where
  "login_request (app_role_login_run l) (''auth/'' @ encode_path (AppRoleLogin_mount l) @ ''/login'')
     (Some (obj [(''role_id'', JStr (AppRoleLogin_role_id l)),
                 (''secret_id'', JStr (expose_secret (AppRoleLogin_secret_id l)))]))"
| "login_request (k8s_login_run l) (''auth/'' @ encode_path (K8sLogin_mount l) @ ''/login'')
     (Some (obj [(''role'', JStr (K8sLogin_role l)), (''jwt'', JStr (expose_secret (K8sLogin_jwt l)))]))"
| "login_request (userpass_login_run l)
     (''auth/'' @ encode_path (UserpassLogin_mount l) @ ''/login/'' @ encode_path (UserpassLogin_username l))
     (Some (obj [(''password'', JStr (expose_secret (UserpassLogin_password l)))]))"
| "login_request (ldap_login_run l)
     (''auth/'' @ encode_path (LdapLogin_mount l) @ ''/login/'' @ encode_path (LdapLogin_username l))
     (Some (obj [(''password'', JStr (expose_secret (LdapLogin_password l)))]))"
| "login_request (github_login_run l) (''auth/'' @ encode_path (GithubLogin_mount l) @ ''/login'')
     (Some (obj [(''token'', JStr (expose_secret (GithubLogin_token l)))]))"
| "login_request (jwt_login_run l) (''auth/'' @ encode_path (JwtLogin_mount l) @ ''/login'')
     (Some (obj [(''role'', JStr (JwtLogin_role l)), (''jwt'', JStr (expose_secret (JwtLogin_jwt l)))]))"
| "login_request (aws_login_run l) (''auth/'' @ encode_path (AwsLogin_mount l) @ ''/login'')
     (Some (ser_aws_auth_login_request (AwsLogin_params l)))"
| "login_request (azure_login_run l) (''auth/'' @ encode_path (AzureLogin_mount l) @ ''/login'') (azure_body l)"
| "login_request (gcp_login_run l) (''auth/'' @ encode_path (GcpLogin_mount l) @ ''/login'')
     (Some (obj [(''role'', JStr (GcpLogin_role l)), (''jwt'', JStr (expose_secret (GcpLogin_jwt l)))]))"

lemma login_request_method: "login_request run path body \<Longrightarrow> login_method run path body"
  by (induction rule: login_request.induct)
    (rule app_role.login_method_axioms k8s.login_method_axioms upass.login_method_axioms
      ldp.login_method_axioms ghub.login_method_axioms jwt.login_method_axioms awsl.login_method_axioms
      azl.login_method_axioms gcpl.login_method_axioms)+

text \<open>A client that logs in with a built-in method is lawful: its logins send login requests only.\<close>

definition logs_in :: "'w client \<Rightarrow> http_request \<Rightarrow> bool" where
  "logs_in c rq \<longleftrightarrow> (\<exists>path body. is_login path \<and> asks c POST path body rq)"

lemma asks_view [simp]:
  "asks (c\<lparr>namespace_override := ns, wrap_ttl_override := w\<rparr>) = asks c" "asks (with_login run c) = asks c"
  by (simp_all add: asks_def url_string_def with_login_def fun_eq_iff)

lemma lawful_with_login:
  assumes "built_in run" and cf: "clone_faithful (cl_env c)"
  shows "lawful (with_login run c) (logs_in c)"
proof -
  obtain path body where lm: "login_method run path body" using built_in_contract [OF assms(1)] by blast
  let ?v = "\<lambda>ns w. c\<lparr>namespace_override := ns, wrap_ttl_override := w\<rparr>"
  have "keeps (sent (logs_in c)) (run (?v ns w))" for ns w
    by (rule keeps_sent_mono [OF login_method.sends_own [OF lm]])
      (use cf login_method.path_login [OF lm] in \<open>auto simp: logs_in_def\<close>)
  moreover have "keeps evolves (run (?v ns w))" for ns w
    by (rule login_method.run_evolves [OF lm]) (simp add: cf)
  moreover have "keeps (metered (Suc (max_retries (config c)))) (run (?v ns w))" for ns w
    using login_method.run_metered [OF lm, of "?v ns w"] cf by simp
  ultimately show ?thesis
    using cf by (simp add: lawful_def login_sends_def login_evolves_def login_metered_def with_login_def)
qed

section \<open>Properties\<close>

text \<open>
  C12: A built-in login - AppRole, Kubernetes, userpass, LDAP, GitHub, JWT, AWS, Azure or GCP, with
  whatever mount and credentials - never enters the token lifecycle: however it ends, all it sends
  is its own POST, to the login path of its mount and with its credentials as the body, any number
  of tries of it. When it succeeds, the token it returns is stored, its expiry counted from the
  instant of storing, and the callback has run once; when it fails, the token is as it was and the
  callback has not run.
\<close>

theorem built_in_login_contract:
  assumes "login_request run path body" and "clone_faithful (cl_env c)" and "run c s = (r, s')"
  shows "is_login path
    \<and> (\<exists>es. trace s' = trace s @ es
       \<and> (\<forall>rq \<in> set (requests es). \<exists>url. e_url (cl_env c) (url_string c path) = Inr url
            \<and> rq = vault_request c POST url (token s) body)
       \<and> token_changes es = (case r of Ok a \<Rightarrow> if has_callback c then [a] else [] | _ \<Rightarrow> []))
    \<and> token s' =
        (case r of
           Ok a \<Rightarrow> Some \<lparr>ts_value = client_token a,
             ts_expires_at = (if 0 < auth_lease_duration a
                then instant_checked_add (now s') (secs (auth_lease_duration a)) else None),
             ts_renewable = auth_renewable a, ts_lease_duration = secs (auth_lease_duration a)\<rparr>
         | _ \<Rightarrow> token s)"
proof -
  have lm: "login_method run path body" by (rule login_request_method [OF assms(1)])
  obtain s1 es url where s1: "trace s1 = trace s @ es" "token s1 = token s"
    "only_requests (vault_request c POST url (token s) body) es"
    "requests es \<noteq> [] \<longrightarrow> e_url (cl_env c) (url_string c path) = Inr url"
    and fin: "(\<exists>a. r = Ok a \<and> stored c a s1 s') \<or> (\<not> is_ok r \<and> s' = s1)"
    by (rule login_method.run_cases [OF lm assms(2,3)])
  have own: "\<forall>rq \<in> set (requests es). \<exists>url. e_url (cl_env c) (url_string c path) = Inr url
      \<and> rq = vault_request c POST url (token s) body" and quiet: "token_changes es = []"
    using s1(3,4) by (auto simp: only_requests_def)
  from fin show ?thesis
  proof
    assume "\<exists>a. r = Ok a \<and> stored c a s1 s'"
    then show ?thesis
      using login_method.path_login [OF lm] s1(1) own quiet
      by (auto simp: stored_def token_of_auth_def intro!: exI [of _ "es @ (if has_callback c then [ETokenChanged a] else [])" for a]
          split: if_splits)
  next
    assume "\<not> is_ok r \<and> s' = s1"
    then show ?thesis
      using login_method.path_login [OF lm] s1(1,2) own quiet by (cases r) auto
  qed
qed

text \<open>
  C39: Re-authentication through a built-in login notifies twice: the login already stores the token
  and runs the callback, and the client then stores it and runs the callback again, for one login
  request and one auth block.
\<close>

theorem relogin_notifies_twice:
  assumes "built_in run" and "clone_faithful (cl_env c)"
    and "try_re_authenticate (with_login run c) s = (Ok (), s')"
  shows "\<exists>a s0 es. run c s = (Ok a, s0) \<and> trace s' = trace s @ es
    \<and> token_changes es = (if has_callback c then [a, a] else [])
    \<and> map_option ts_value (token s') = Some (client_token a)"
proof -
  obtain path body where lm: "login_method run path body" using built_in_contract [OF assms(1)] by blast
  show ?thesis
    by (rule login_method.relogin [OF lm assms(2,3)]) (auto simp: token_of_auth_def)
qed

definition example_login :: app_role_login where
  "example_login = \<lparr>AppRoleLogin_role_id = ''r'', AppRoleLogin_secret_id = Secret ''s'', AppRoleLogin_mount = ''approle''\<rparr>"

lemma example_login_run:
  obtains a s' where "app_role_login_run example_login (script_client [(''renewed'', renew_json)])
      (script_state [answer 200 ''renewed''] None) = (Ok a, s')"
    and "client_token a = Secret ''new''" and "\<not> token_poisoned s'"
proof -
  let ?c = "script_client [(''renewed'', renew_json)]"
  let ?s = "script_state [answer 200 ''renewed''] None"
  have "\<exists>resp s1. execute_raw ?c POST p b ?s = (Ok resp, s1)
      \<and> rs_body resp = Inr ''renewed'' \<and> rs_status resp = 200 \<and> \<not> token_poisoned s1" for p b
    by (cases b) (simp_all add: run_raw)
  then obtain resp s1 where raw: "execute_raw ?c POST (''auth/'' @ encode_path (AppRoleLogin_mount example_login) @ ''/login'')
        (Some (obj [(''role_id'', JStr (AppRoleLogin_role_id example_login)),
          (''secret_id'', JStr (expose_secret (AppRoleLogin_secret_id example_login)))])) ?s = (Ok resp, s1)"
    "rs_body resp = Inr ''renewed''" "rs_status resp = 200" "\<not> token_poisoned s1" by blast
  obtain a where a: "auth (the (de_vault_response de_value renew_json)) = Some a" "client_token a = Secret ''new''"
    by (simp add: renew_json_decodes)
  have js: "json_body ?c (de_vault_response de_value) resp = Ok (the (de_vault_response de_value renew_json))"
    using raw(2) renew_json_decodes by (simp add: json_body_def)
  show thesis
    by (rule app_role.run_succeeds [OF raw(1) _ js a(1) raw(4)])
      (use raw(3,4) a(2) in \<open>auto simp: stored_def intro: that\<close>)
qed

theorem built_in_login_contract_witness:
  "\<exists>a s'. app_role_login_run example_login (script_client [(''renewed'', renew_json)])
      (script_state [answer 200 ''renewed''] None) = (Ok a, s')
    \<and> map_option ts_value (token s') = Some (Secret ''new'')"
proof (rule example_login_run, goal_cases)
  case (1 a s')
  then show ?case
    using built_in_login_contract [OF login_request.intros(1) _ 1(1)] by (auto simp: clone_faithful_def)
qed

theorem relogin_notifies_twice_witness:
  "\<exists>a s' es. try_re_authenticate (with_login (app_role_login_run example_login)
        (script_client [(''renewed'', renew_json)])) (script_state [answer 200 ''renewed''] None) = (Ok (), s')
    \<and> trace s' = es \<and> token_changes es = [a, a]"
proof (rule example_login_run, goal_cases)
  case (1 a s0)
  let ?c = "script_client [(''renewed'', renew_json)]"
  have view: "?c\<lparr>namespace_override := None, wrap_ttl_override := None\<rparr> = ?c" by (simp add: script_client_def)
  obtain s' where re: "try_re_authenticate (with_login (app_role_login_run example_login) ?c)
      (script_state [answer 200 ''renewed''] None) = (Ok (), s')"
    using reauth_ok [OF with_login_simps(5), of "app_role_login_run example_login" ?c _ a s0] 1 view by auto
  then show ?case
    using relogin_notifies_twice [OF built_in.intros(1) _ re] by (auto simp: clone_faithful_def)
qed

end
