(* ===== verification/Api_Calls.thy ===== *)
theory Api_Calls
  imports Kv Transit Pki Database Cloud_Engines Small_Engines Identity Sys Auth_Methods Token_Daemon
begin

text \<open>
  All operations of the client as one relation. \<open>api_call c pre m\<close>: \<open>m\<close> is a call of one of the
  modelled operations on \<open>c\<close>, with any arguments, of a handler obtained by the accessor of its
  engine for some mount, and \<open>pre\<close> is the part of the API that the operation belongs to
  (\<open>sys/\<close>, \<open>auth/token/\<close>, the mount); for the generic \<open>read\<close>, \<open>write\<close>, \<open>delete\<close> and \<open>list\<close> of the client it
  is the path they are given. The restore of a raft snapshot is left out of the relation: it uses the
  HTTP client directly, is treated in theory \<open>Sys\<close> and is a \<open>client_use\<close> of its own below. The relation is split into groups of at most fifty rules.
\<close>

section \<open>Calls\<close>

text \<open>A call, without its result.\<close>

definition void :: "('w, 'a) io \<Rightarrow> ('w, unit) io" where
  "void m = map_io (\<lambda>_. Ok ()) m"

lemma stays_void: "stays c L pre m \<Longrightarrow> stays c L pre (void m)"
  unfolding void_def by (rule stays_map)

lemma starts_with_self [simp]: "starts_with path path"
  by (simp add: starts_with_def)

inductive kv_call :: "'w client \<Rightarrow> string \<Rightarrow> ('w, unit) io \<Rightarrow> bool" for c where
  "kv_call c (encode_path mount @ ''/'') (void (kv1_read (kv1 c mount) (x1 :: json \<Rightarrow> json option) x2))"
| "kv_call c (encode_path mount @ ''/'') (void (kv1_write (kv1 c mount) x3 x4))"
| "kv_call c (encode_path mount @ ''/'') (void (kv1_delete (kv1 c mount) x5))"
| "kv_call c (encode_path mount @ ''/'') (void (kv1_list (kv1 c mount) x6))"
| "kv_call c (encode_path mount @ ''/'') (void (kv1_write_serialize (kv1 c mount) x7 x8))"
| "kv_call c (encode_path mount @ ''/'') (void (kv1_read_data (kv1 c mount) (x9 :: json \<Rightarrow> json option) x10))"
| "kv_call c (encode_path mount @ ''/'') (void (kv1_read_field (kv1 c mount) x11 x12 x13))"
| "kv_call c (encode_path mount @ ''/'') (void (kv1_read_string_data (kv1 c mount) x14))"
| "kv_call c (encode_path mount @ ''/'') (void (cubbyhole_read (cubbyhole c mount) (x15 :: json \<Rightarrow> json option) x16))"
| "kv_call c (encode_path mount @ ''/'') (void (cubbyhole_write (cubbyhole c mount) x17 x18))"
| "kv_call c (encode_path mount @ ''/'') (void (cubbyhole_delete (cubbyhole c mount) x19))"
| "kv_call c (encode_path mount @ ''/'') (void (cubbyhole_list (cubbyhole c mount) x20))"
| "kv_call c (encode_path mount @ ''/'') (void (kv2_read_config (kv2 c mount)))"
| "kv_call c (encode_path mount @ ''/'') (void (kv2_write_config (kv2 c mount) x21))"
| "kv_call c (encode_path mount @ ''/'') (void (kv2_read (kv2 c mount) (x22 :: json \<Rightarrow> json option) x23))"
| "kv_call c (encode_path mount @ ''/'') (void (kv2_read_version (kv2 c mount) (x24 :: json \<Rightarrow> json option) x25 x26))"
| "kv_call c (encode_path mount @ ''/'') (void (kv2_write (kv2 c mount) x27 x28))"
| "kv_call c (encode_path mount @ ''/'') (void (kv2_write_cas (kv2 c mount) x29 x30 x31))"
| "kv_call c (encode_path mount @ ''/'') (void (kv2_patch (kv2 c mount) x32 x33))"
| "kv_call c (encode_path mount @ ''/'') (void (kv2_list (kv2 c mount) x34))"
| "kv_call c (encode_path mount @ ''/'') (void (kv2_delete (kv2 c mount) x35))"
| "kv_call c (encode_path mount @ ''/'') (void (kv2_read_metadata (kv2 c mount) x36))"
| "kv_call c (encode_path mount @ ''/'') (void (kv2_write_metadata (kv2 c mount) x37 x38))"
| "kv_call c (encode_path mount @ ''/'') (void (kv2_patch_metadata (kv2 c mount) x39 x40))"
| "kv_call c (encode_path mount @ ''/'') (void (kv2_delete_metadata (kv2 c mount) x41))"
| "kv_call c (encode_path mount @ ''/'') (void (kv2_version_op (kv2 c mount) x42 x43 x44))"
| "kv_call c (encode_path mount @ ''/'') (void (kv2_read_data (kv2 c mount) (x45 :: json \<Rightarrow> json option) x46))"
| "kv_call c (encode_path mount @ ''/'') (void (kv2_delete_versions (kv2 c mount) x47 x48))"
| "kv_call c (encode_path mount @ ''/'') (void (kv2_undelete_versions (kv2 c mount) x49 x50))"
| "kv_call c (encode_path mount @ ''/'') (void (kv2_destroy_versions (kv2 c mount) x51 x52))"
| "kv_call c (encode_path mount @ ''/'') (void (kv2_read_subkeys (kv2 c mount) x53 x54))"
| "kv_call c (encode_path mount @ ''/'') (void (kv2_write_serialize (kv2 c mount) x55 x56))"
| "kv_call c (encode_path mount @ ''/'') (void (kv2_write_cas_serialize (kv2 c mount) x57 x58 x59))"
| "kv_call c (encode_path mount @ ''/'') (void (kv2_patch_serialize (kv2 c mount) x60 x61))"
| "kv_call c (encode_path mount @ ''/'') (void (kv2_write_field (kv2 c mount) x62 x63 x64))"
| "kv_call c (encode_path mount @ ''/'') (void (kv2_read_field (kv2 c mount) x65 x66 x67))"
| "kv_call c (encode_path mount @ ''/'') (void (kv2_read_string_data (kv2 c mount) x68))"

inductive transit_call :: "'w client \<Rightarrow> string \<Rightarrow> ('w, unit) io \<Rightarrow> bool" for c where
  "transit_call c (encode_path mount @ ''/'') (void (transit_create_key (transit c mount) x1 x2))"
| "transit_call c (encode_path mount @ ''/'') (void (transit_read_key (transit c mount) x3))"
| "transit_call c (encode_path mount @ ''/'') (void (transit_list_keys (transit c mount)))"
| "transit_call c (encode_path mount @ ''/'') (void (transit_delete_key (transit c mount) x4))"
| "transit_call c (encode_path mount @ ''/'') (void (transit_update_key_config (transit c mount) x5 x6))"
| "transit_call c (encode_path mount @ ''/'') (void (transit_rotate_key (transit c mount) x7))"
| "transit_call c (encode_path mount @ ''/'') (void (transit_encrypt (transit c mount) x8 x9 x10))"
| "transit_call c (encode_path mount @ ''/'') (void (transit_rewrap (transit c mount) x11 x12))"
| "transit_call c (encode_path mount @ ''/'') (void (transit_batch_encrypt (transit c mount) x13 x14))"
| "transit_call c (encode_path mount @ ''/'') (void (transit_batch_decrypt (transit c mount) x15 x16))"
| "transit_call c (encode_path mount @ ''/'') (void (transit_verify (transit c mount) x17 x18 x19 x20))"
| "transit_call c (encode_path mount @ ''/'') (void (transit_hash (transit c mount) x21 x22 x23))"
| "transit_call c (encode_path mount @ ''/'') (void (transit_hmac (transit c mount) x24 x25 x26 x27))"
| "transit_call c (encode_path mount @ ''/'') (void (transit_random (transit c mount) x28 x29))"
| "transit_call c (encode_path mount @ ''/'') (void (transit_generate_data_key (transit c mount) x30 x31))"
| "transit_call c (encode_path mount @ ''/'') (void (transit_trim_key (transit c mount) x32 x33))"
| "transit_call c (encode_path mount @ ''/'') (void (transit_backup_key (transit c mount) x34))"
| "transit_call c (encode_path mount @ ''/'') (void (transit_restore_key (transit c mount) x35 x36))"
| "transit_call c (encode_path mount @ ''/'') (void (transit_batch_verify (transit c mount) x37 x38))"
| "transit_call c (encode_path mount @ ''/'') (void (transit_read_cache_config (transit c mount)))"
| "transit_call c (encode_path mount @ ''/'') (void (transit_write_cache_config (transit c mount) x39))"
| "transit_call c (encode_path mount @ ''/'') (void (transit_export_key (transit c mount) x40 x41 x42))"
| "transit_call c (encode_path mount @ ''/'') (void (transit_decrypt (transit c mount) x43 x44 x45))"
| "transit_call c (encode_path mount @ ''/'') (void (transit_sign (transit c mount) x46 x47 x48 x49))"
| "transit_call c (encode_path mount @ ''/'') (void (transit_batch_sign (transit c mount) x50 x51 x52))"

inductive pki_call :: "'w client \<Rightarrow> string \<Rightarrow> ('w, unit) io \<Rightarrow> bool" for c where
  "pki_call c (encode_path mount @ ''/'') (void (pki_generate_root (pki c mount) x1))"
| "pki_call c (encode_path mount @ ''/'') (void (pki_generate_intermediate_csr (pki c mount) x2))"
| "pki_call c (encode_path mount @ ''/'') (void (pki_set_signed_intermediate (pki c mount) x3))"
| "pki_call c (encode_path mount @ ''/'') (void (pki_delete_root (pki c mount)))"
| "pki_call c (encode_path mount @ ''/'') (void (pki_list_issuers (pki c mount)))"
| "pki_call c (encode_path mount @ ''/'') (void (pki_read_issuer (pki c mount) x4))"
| "pki_call c (encode_path mount @ ''/'') (void (pki_delete_issuer (pki c mount) x5))"
| "pki_call c (encode_path mount @ ''/'') (void (pki_create_role (pki c mount) x6 x7))"
| "pki_call c (encode_path mount @ ''/'') (void (pki_read_role (pki c mount) x8))"
| "pki_call c (encode_path mount @ ''/'') (void (pki_list_roles (pki c mount)))"
| "pki_call c (encode_path mount @ ''/'') (void (pki_delete_role (pki c mount) x9))"
| "pki_call c (encode_path mount @ ''/'') (void (pki_issue (pki c mount) x10 x11))"
| "pki_call c (encode_path mount @ ''/'') (void (pki_sign (pki c mount) x12 x13))"
| "pki_call c (encode_path mount @ ''/'') (void (pki_sign_verbatim (pki c mount) x14 x15))"
| "pki_call c (encode_path mount @ ''/'') (void (pki_list_certs (pki c mount)))"
| "pki_call c (encode_path mount @ ''/'') (void (pki_read_cert (pki c mount) x16))"
| "pki_call c (encode_path mount @ ''/'') (void (pki_set_urls (pki c mount) x17))"
| "pki_call c (encode_path mount @ ''/'') (void (pki_read_urls (pki c mount)))"
| "pki_call c (encode_path mount @ ''/'') (void (pki_revoke (pki c mount) x18))"
| "pki_call c (encode_path mount @ ''/'') (void (pki_revoke_with_key (pki c mount) x19 x20))"
| "pki_call c (encode_path mount @ ''/'') (void (pki_rotate_crl (pki c mount)))"
| "pki_call c (encode_path mount @ ''/'') (void (pki_tidy (pki c mount) x21))"
| "pki_call c (encode_path mount @ ''/'') (void (pki_tidy_status (pki c mount)))"
| "pki_call c (encode_path mount @ ''/'') (void (pki_update_issuer (pki c mount) x22 x23))"
| "pki_call c (encode_path mount @ ''/'') (void (pki_cross_sign_intermediate (pki c mount) x24))"
| "pki_call c (encode_path mount @ ''/'') (void (pki_read_acme_config (pki c mount)))"
| "pki_call c (encode_path mount @ ''/'') (void (pki_write_acme_config (pki c mount) x25))"
| "pki_call c (encode_path mount @ ''/'') (void (pki_rotate_delta_crl (pki c mount)))"
| "pki_call c (encode_path mount @ ''/'') (void (pki_read_crl (pki c mount)))"
| "pki_call c (encode_path mount @ ''/'') (void (pki_read_crl_delta (pki c mount)))"

inductive database_call :: "'w client \<Rightarrow> string \<Rightarrow> ('w, unit) io \<Rightarrow> bool" for c where
  "database_call c (encode_path mount @ ''/'') (void (database_configure (database c mount) x1 x2))"
| "database_call c (encode_path mount @ ''/'') (void (database_read_config (database c mount) x3))"
| "database_call c (encode_path mount @ ''/'') (void (database_delete_config (database c mount) x4))"
| "database_call c (encode_path mount @ ''/'') (void (database_list_connections (database c mount)))"
| "database_call c (encode_path mount @ ''/'') (void (database_reset_connection (database c mount) x5))"
| "database_call c (encode_path mount @ ''/'') (void (database_create_role (database c mount) x6 x7))"
| "database_call c (encode_path mount @ ''/'') (void (database_read_role (database c mount) x8))"
| "database_call c (encode_path mount @ ''/'') (void (database_delete_role (database c mount) x9))"
| "database_call c (encode_path mount @ ''/'') (void (database_list_roles (database c mount)))"
| "database_call c (encode_path mount @ ''/'') (void (database_get_credentials (database c mount) x10))"
| "database_call c (encode_path mount @ ''/'') (void (database_create_static_role (database c mount) x11 x12))"
| "database_call c (encode_path mount @ ''/'') (void (database_read_static_role (database c mount) x13))"
| "database_call c (encode_path mount @ ''/'') (void (database_delete_static_role (database c mount) x14))"
| "database_call c (encode_path mount @ ''/'') (void (database_list_static_roles (database c mount)))"
| "database_call c (encode_path mount @ ''/'') (void (database_get_static_credentials (database c mount) x15))"
| "database_call c (encode_path mount @ ''/'') (void (database_rotate_static_role (database c mount) x16))"

inductive cloud_call :: "'w client \<Rightarrow> string \<Rightarrow> ('w, unit) io \<Rightarrow> bool" for c where
  "cloud_call c (encode_path mount @ ''/'') (void (aws_configure_root (aws_secrets c mount) x1))"
| "cloud_call c (encode_path mount @ ''/'') (void (aws_read_config_root (aws_secrets c mount)))"
| "cloud_call c (encode_path mount @ ''/'') (void (aws_rotate_root (aws_secrets c mount)))"
| "cloud_call c (encode_path mount @ ''/'') (void (aws_create_role (aws_secrets c mount) x2 x3))"
| "cloud_call c (encode_path mount @ ''/'') (void (aws_read_role (aws_secrets c mount) x4))"
| "cloud_call c (encode_path mount @ ''/'') (void (aws_delete_role (aws_secrets c mount) x5))"
| "cloud_call c (encode_path mount @ ''/'') (void (aws_list_roles (aws_secrets c mount)))"
| "cloud_call c (encode_path mount @ ''/'') (void (aws_get_credentials (aws_secrets c mount) x6))"
| "cloud_call c (encode_path mount @ ''/'') (void (aws_get_sts_credentials (aws_secrets c mount) x7 x8))"
| "cloud_call c (encode_path mount @ ''/'') (void (azure_configure (azure_secrets c mount) x9))"
| "cloud_call c (encode_path mount @ ''/'') (void (azure_read_config (azure_secrets c mount)))"
| "cloud_call c (encode_path mount @ ''/'') (void (azure_delete_config (azure_secrets c mount)))"
| "cloud_call c (encode_path mount @ ''/'') (void (azure_create_role (azure_secrets c mount) x10 x11))"
| "cloud_call c (encode_path mount @ ''/'') (void (azure_read_role (azure_secrets c mount) x12))"
| "cloud_call c (encode_path mount @ ''/'') (void (azure_delete_role (azure_secrets c mount) x13))"
| "cloud_call c (encode_path mount @ ''/'') (void (azure_list_roles (azure_secrets c mount)))"
| "cloud_call c (encode_path mount @ ''/'') (void (azure_get_credentials (azure_secrets c mount) x14))"
| "cloud_call c (encode_path mount @ ''/'') (void (gcp_configure (gcp_secrets c mount) x15))"
| "cloud_call c (encode_path mount @ ''/'') (void (gcp_read_config (gcp_secrets c mount)))"
| "cloud_call c (encode_path mount @ ''/'') (void (gcp_delete_config (gcp_secrets c mount)))"
| "cloud_call c (encode_path mount @ ''/'') (void (gcp_create_roleset (gcp_secrets c mount) x16 x17))"
| "cloud_call c (encode_path mount @ ''/'') (void (gcp_read_roleset (gcp_secrets c mount) x18))"
| "cloud_call c (encode_path mount @ ''/'') (void (gcp_delete_roleset (gcp_secrets c mount) x19))"
| "cloud_call c (encode_path mount @ ''/'') (void (gcp_list_rolesets (gcp_secrets c mount)))"
| "cloud_call c (encode_path mount @ ''/'') (void (gcp_get_service_account_key (gcp_secrets c mount) x20))"
| "cloud_call c (encode_path mount @ ''/'') (void (gcp_get_oauth_token (gcp_secrets c mount) x21))"
| "cloud_call c (encode_path mount @ ''/'') (void (gcp_rotate_roleset (gcp_secrets c mount) x22))"

inductive small_call :: "'w client \<Rightarrow> string \<Rightarrow> ('w, unit) io \<Rightarrow> bool" for c where
  "small_call c (encode_path mount @ ''/'') (void (ssh_configure_ca (ssh c mount) x1))"
| "small_call c (encode_path mount @ ''/'') (void (ssh_read_public_key (ssh c mount)))"
| "small_call c (encode_path mount @ ''/'') (void (ssh_delete_ca (ssh c mount)))"
| "small_call c (encode_path mount @ ''/'') (void (ssh_create_role (ssh c mount) x2 x3))"
| "small_call c (encode_path mount @ ''/'') (void (ssh_read_role (ssh c mount) x4))"
| "small_call c (encode_path mount @ ''/'') (void (ssh_delete_role (ssh c mount) x5))"
| "small_call c (encode_path mount @ ''/'') (void (ssh_list_roles (ssh c mount)))"
| "small_call c (encode_path mount @ ''/'') (void (ssh_sign_key (ssh c mount) x6 x7))"
| "small_call c (encode_path mount @ ''/'') (void (ssh_verify_otp (ssh c mount) x8))"
| "small_call c (encode_path mount @ ''/'') (void (totp_create_key (totp c mount) x9 x10))"
| "small_call c (encode_path mount @ ''/'') (void (totp_read_key (totp c mount) x11))"
| "small_call c (encode_path mount @ ''/'') (void (totp_delete_key (totp c mount) x12))"
| "small_call c (encode_path mount @ ''/'') (void (totp_list_keys (totp c mount)))"
| "small_call c (encode_path mount @ ''/'') (void (totp_generate_code (totp c mount) x13))"
| "small_call c (encode_path mount @ ''/'') (void (totp_validate_code (totp c mount) x14 x15))"
| "small_call c (encode_path mount @ ''/'') (void (consul_configure (consul_secrets c mount) x16))"
| "small_call c (encode_path mount @ ''/'') (void (consul_read_config (consul_secrets c mount)))"
| "small_call c (encode_path mount @ ''/'') (void (consul_delete_config (consul_secrets c mount)))"
| "small_call c (encode_path mount @ ''/'') (void (consul_create_role (consul_secrets c mount) x17 x18))"
| "small_call c (encode_path mount @ ''/'') (void (consul_read_role (consul_secrets c mount) x19))"
| "small_call c (encode_path mount @ ''/'') (void (consul_delete_role (consul_secrets c mount) x20))"
| "small_call c (encode_path mount @ ''/'') (void (consul_list_roles (consul_secrets c mount)))"
| "small_call c (encode_path mount @ ''/'') (void (consul_get_credentials (consul_secrets c mount) x21))"
| "small_call c (encode_path mount @ ''/'') (void (nomad_configure (nomad_secrets c mount) x22))"
| "small_call c (encode_path mount @ ''/'') (void (nomad_read_config (nomad_secrets c mount)))"
| "small_call c (encode_path mount @ ''/'') (void (nomad_delete_config (nomad_secrets c mount)))"
| "small_call c (encode_path mount @ ''/'') (void (nomad_create_role (nomad_secrets c mount) x23 x24))"
| "small_call c (encode_path mount @ ''/'') (void (nomad_read_role (nomad_secrets c mount) x25))"
| "small_call c (encode_path mount @ ''/'') (void (nomad_delete_role (nomad_secrets c mount) x26))"
| "small_call c (encode_path mount @ ''/'') (void (nomad_list_roles (nomad_secrets c mount)))"
| "small_call c (encode_path mount @ ''/'') (void (nomad_get_credentials (nomad_secrets c mount) x27))"
| "small_call c (encode_path mount @ ''/'') (void (rabbitmq_configure (rabbitmq c mount) x28))"
| "small_call c (encode_path mount @ ''/'') (void (rabbitmq_configure_lease (rabbitmq c mount) x29 x30))"
| "small_call c (encode_path mount @ ''/'') (void (rabbitmq_create_role (rabbitmq c mount) x31 x32))"
| "small_call c (encode_path mount @ ''/'') (void (rabbitmq_read_role (rabbitmq c mount) x33))"
| "small_call c (encode_path mount @ ''/'') (void (rabbitmq_delete_role (rabbitmq c mount) x34))"
| "small_call c (encode_path mount @ ''/'') (void (rabbitmq_list_roles (rabbitmq c mount)))"
| "small_call c (encode_path mount @ ''/'') (void (rabbitmq_get_credentials (rabbitmq c mount) x35))"
| "small_call c (encode_path mount @ ''/'') (void (terraform_configure (terraform_cloud c mount) x36))"
| "small_call c (encode_path mount @ ''/'') (void (terraform_read_config (terraform_cloud c mount)))"
| "small_call c (encode_path mount @ ''/'') (void (terraform_delete_config (terraform_cloud c mount)))"
| "small_call c (encode_path mount @ ''/'') (void (terraform_create_role (terraform_cloud c mount) x37 x38))"
| "small_call c (encode_path mount @ ''/'') (void (terraform_read_role (terraform_cloud c mount) x39))"
| "small_call c (encode_path mount @ ''/'') (void (terraform_delete_role (terraform_cloud c mount) x40))"
| "small_call c (encode_path mount @ ''/'') (void (terraform_list_roles (terraform_cloud c mount)))"
| "small_call c (encode_path mount @ ''/'') (void (terraform_get_credentials (terraform_cloud c mount) x41))"

inductive identity_call :: "'w client \<Rightarrow> string \<Rightarrow> ('w, unit) io \<Rightarrow> bool" for c where
  "identity_call c ''identity/'' (void (identity_create_entity c x1))"
| "identity_call c ''identity/'' (void (identity_read_entity c x2))"
| "identity_call c ''identity/'' (void (identity_read_entity_by_name c x3))"
| "identity_call c ''identity/'' (void (identity_update_entity c x4 x5))"
| "identity_call c ''identity/'' (void (identity_delete_entity c x6))"
| "identity_call c ''identity/'' (void (identity_list_entities c))"
| "identity_call c ''identity/'' (void (identity_create_entity_alias c x7))"
| "identity_call c ''identity/'' (void (identity_read_entity_alias c x8))"
| "identity_call c ''identity/'' (void (identity_delete_entity_alias c x9))"
| "identity_call c ''identity/'' (void (identity_list_entity_aliases c))"
| "identity_call c ''identity/'' (void (identity_create_group c x10))"
| "identity_call c ''identity/'' (void (identity_read_group c x11))"
| "identity_call c ''identity/'' (void (identity_read_group_by_name c x12))"
| "identity_call c ''identity/'' (void (identity_update_group c x13 x14))"
| "identity_call c ''identity/'' (void (identity_delete_group c x15))"
| "identity_call c ''identity/'' (void (identity_list_groups c))"
| "identity_call c ''identity/'' (void (identity_create_group_alias c x16))"
| "identity_call c ''identity/'' (void (identity_read_group_alias c x17))"
| "identity_call c ''identity/'' (void (identity_delete_group_alias c x18))"
| "identity_call c ''identity/'' (void (identity_list_group_aliases c))"

inductive sys_call1 :: "'w client \<Rightarrow> string \<Rightarrow> ('w, unit) io \<Rightarrow> bool" for c where
  "sys_call1 c ''sys/'' (void (sys_health c))"
| "sys_call1 c ''sys/'' (void (sys_leader c))"
| "sys_call1 c ''sys/'' (void (sys_seal_status c))"
| "sys_call1 c ''sys/'' (void (sys_seal c))"
| "sys_call1 c ''sys/'' (void (sys_unseal c x1))"
| "sys_call1 c ''sys/'' (void (sys_init c x2))"
| "sys_call1 c ''sys/'' (void (sys_step_down c))"
| "sys_call1 c ''sys/'' (void (sys_list_mounts c))"
| "sys_call1 c ''sys/'' (void (sys_mount c x3 x4))"
| "sys_call1 c ''sys/'' (void (sys_unmount c x5))"
| "sys_call1 c ''sys/'' (void (sys_tune_mount c x6 x7))"
| "sys_call1 c ''sys/'' (void (sys_read_mount_tune c x8))"
| "sys_call1 c ''sys/'' (void (sys_list_auth_mounts c))"
| "sys_call1 c ''sys/'' (void (sys_enable_auth c x9 x10))"
| "sys_call1 c ''sys/'' (void (sys_disable_auth c x11))"
| "sys_call1 c ''sys/'' (void (sys_read_auth_tune c x12))"
| "sys_call1 c ''sys/'' (void (sys_list_policies c))"
| "sys_call1 c ''sys/'' (void (sys_read_policy c x13))"
| "sys_call1 c ''sys/'' (void (sys_write_policy c x14 x15))"
| "sys_call1 c ''sys/'' (void (sys_delete_policy c x16))"
| "sys_call1 c ''sys/'' (void (sys_list_audit_devices c))"
| "sys_call1 c ''sys/'' (void (sys_enable_audit c x17 x18))"
| "sys_call1 c ''sys/'' (void (sys_disable_audit c x19))"
| "sys_call1 c ''sys/'' (void (sys_read_lease c x20))"
| "sys_call1 c ''sys/'' (void (sys_revoke_lease c x21))"
| "sys_call1 c ''sys/'' (void (sys_revoke_prefix c x22))"
| "sys_call1 c ''sys/'' (void (sys_list_namespaces c))"
| "sys_call1 c ''sys/'' (void (sys_create_namespace c x23))"
| "sys_call1 c ''sys/'' (void (sys_delete_namespace c x24))"
| "sys_call1 c ''sys/'' (void (sys_list_plugins c x25))"
| "sys_call1 c ''sys/'' (void (sys_read_plugin c x26 x27))"
| "sys_call1 c ''sys/'' (void (sys_register_plugin c x28))"
| "sys_call1 c ''sys/'' (void (sys_deregister_plugin c x29 x30))"

inductive sys_call2 :: "'w client \<Rightarrow> string \<Rightarrow> ('w, unit) io \<Rightarrow> bool" for c where
  "sys_call2 c ''sys/'' (void (sys_reload_plugin c x1))"
| "sys_call2 c ''sys/'' (void (sys_list_rate_limit_quotas c))"
| "sys_call2 c ''sys/'' (void (sys_read_rate_limit_quota c x2))"
| "sys_call2 c ''sys/'' (void (sys_write_rate_limit_quota c x3 x4))"
| "sys_call2 c ''sys/'' (void (sys_delete_rate_limit_quota c x5))"
| "sys_call2 c ''sys/'' (void (sys_raft_config c))"
| "sys_call2 c ''sys/'' (void (sys_raft_autopilot_state c))"
| "sys_call2 c ''sys/'' (void (sys_raft_remove_peer c x6))"
| "sys_call2 c ''sys/'' (void (sys_rekey_init c x7))"
| "sys_call2 c ''sys/'' (void (sys_rekey_status c))"
| "sys_call2 c ''sys/'' (void (sys_rekey_cancel c))"
| "sys_call2 c ''sys/'' (void (sys_rekey_update c x8 x9))"
| "sys_call2 c ''sys/'' (void (sys_generate_root_init c x10))"
| "sys_call2 c ''sys/'' (void (sys_generate_root_status c))"
| "sys_call2 c ''sys/'' (void (sys_generate_root_cancel c))"
| "sys_call2 c ''sys/'' (void (sys_generate_root_update c x11 x12))"
| "sys_call2 c ''sys/'' (void (sys_remount c x13 x14))"
| "sys_call2 c ''sys/'' (void (sys_metrics_json c))"
| "sys_call2 c ''sys/'' (void (sys_host_info c))"
| "sys_call2 c ''sys/'' (void (sys_internal_counters_activity c))"
| "sys_call2 c ''sys/'' (void (sys_rewrap c x15))"
| "sys_call2 c ''sys/'' (void (sys_in_flight_requests c))"
| "sys_call2 c ''sys/'' (void (sys_unwrap c (x16 :: json \<Rightarrow> json option) x17))"
| "sys_call2 c ''sys/'' (void (sys_wrap_lookup c x18))"
| "sys_call2 c ''sys/'' (void (sys_capabilities c x19 x20))"
| "sys_call2 c ''sys/'' (void (sys_capabilities_self c x21))"
| "sys_call2 c ''sys/'' (void (sys_key_status c))"
| "sys_call2 c ''sys/'' (void (sys_rotate_encryption_key c))"
| "sys_call2 c ''sys/'' (void (sys_renew_lease c x22 x23))"
| "sys_call2 c ''sys/'' (void (sys_unwrap_str c (x24 :: json \<Rightarrow> json option) x25))"
| "sys_call2 c ''sys/'' (void (sys_raft_snapshot c))"
| "sys_call2 c ''sys/'' (void (sys_version_history c x26))"

inductive auth_call1 :: "'w client \<Rightarrow> string \<Rightarrow> ('w, unit) io \<Rightarrow> bool" for c where
  "auth_call1 c ''auth/token/'' (void (token_auth_lookup_self c))"
| "auth_call1 c ''auth/token/'' (void (token_auth_lookup c x1))"
| "auth_call1 c ''auth/token/'' (void (token_auth_renew_self c x2))"
| "auth_call1 c ''auth/token/'' (void (token_auth_create c x3))"
| "auth_call1 c ''auth/token/'' (void (token_auth_create_orphan c x4))"
| "auth_call1 c ''auth/token/'' (void (token_auth_revoke c x5))"
| "auth_call1 c ''auth/token/'' (void (token_auth_revoke_self c))"
| "auth_call1 c ''auth/token/'' (void (token_auth_revoke_accessor c x6))"
| "auth_call1 c ''auth/token/'' (void (token_auth_list_accessors c))"
| "auth_call1 c (''auth/'' @ encode_path mount @ ''/'') (void (approle_auth_login (approle_at c mount) x7 x8))"
| "auth_call1 c (''auth/'' @ encode_path mount @ ''/'') (void (approle_auth_create_role (approle_at c mount) x9 x10))"
| "auth_call1 c (''auth/'' @ encode_path mount @ ''/'') (void (approle_auth_read_role (approle_at c mount) x11))"
| "auth_call1 c (''auth/'' @ encode_path mount @ ''/'') (void (approle_auth_delete_role (approle_at c mount) x12))"
| "auth_call1 c (''auth/'' @ encode_path mount @ ''/'') (void (approle_auth_list_roles (approle_at c mount)))"
| "auth_call1 c (''auth/'' @ encode_path mount @ ''/'') (void (approle_auth_read_role_id (approle_at c mount) x13))"
| "auth_call1 c (''auth/'' @ encode_path mount @ ''/'') (void (approle_auth_generate_secret_id (approle_at c mount) x14))"
| "auth_call1 c (''auth/'' @ encode_path mount @ ''/'') (void (approle_auth_destroy_secret_id (approle_at c mount) x15 x16))"
| "auth_call1 c (''auth/'' @ encode_path mount @ ''/'') (void (kubernetes_auth_login (kubernetes_at c mount) x17 x18))"
| "auth_call1 c (''auth/'' @ encode_path mount @ ''/'') (void (kubernetes_auth_configure (kubernetes_at c mount) x19))"
| "auth_call1 c (''auth/'' @ encode_path mount @ ''/'') (void (kubernetes_auth_create_role (kubernetes_at c mount) x20 x21))"
| "auth_call1 c (''auth/'' @ encode_path mount @ ''/'') (void (kubernetes_auth_read_role (kubernetes_at c mount) x22))"
| "auth_call1 c (''auth/'' @ encode_path mount @ ''/'') (void (kubernetes_auth_delete_role (kubernetes_at c mount) x23))"
| "auth_call1 c (''auth/'' @ encode_path mount @ ''/'') (void (kubernetes_auth_list_roles (kubernetes_at c mount)))"
| "auth_call1 c (''auth/'' @ encode_path mount @ ''/'') (void (userpass_auth_login (userpass_at c mount) x24 x25))"
| "auth_call1 c (''auth/'' @ encode_path mount @ ''/'') (void (userpass_auth_create_user (userpass_at c mount) x26 x27))"
| "auth_call1 c (''auth/'' @ encode_path mount @ ''/'') (void (userpass_auth_read_user (userpass_at c mount) x28))"
| "auth_call1 c (''auth/'' @ encode_path mount @ ''/'') (void (userpass_auth_delete_user (userpass_at c mount) x29))"
| "auth_call1 c (''auth/'' @ encode_path mount @ ''/'') (void (userpass_auth_list_users (userpass_at c mount)))"
| "auth_call1 c (''auth/'' @ encode_path mount @ ''/'') (void (userpass_auth_update_password (userpass_at c mount) x30 x31))"
| "auth_call1 c (''auth/'' @ encode_path mount @ ''/'') (void (ldap_auth_login (ldap_at c mount) x32 x33))"
| "auth_call1 c (''auth/'' @ encode_path mount @ ''/'') (void (ldap_auth_configure (ldap_at c mount) x34))"
| "auth_call1 c (''auth/'' @ encode_path mount @ ''/'') (void (ldap_auth_read_config (ldap_at c mount)))"

inductive auth_call2 :: "'w client \<Rightarrow> string \<Rightarrow> ('w, unit) io \<Rightarrow> bool" for c where
  "auth_call2 c (''auth/'' @ encode_path mount @ ''/'') (void (ldap_auth_write_group (ldap_at c mount) x1 x2))"
| "auth_call2 c (''auth/'' @ encode_path mount @ ''/'') (void (ldap_auth_read_group (ldap_at c mount) x3))"
| "auth_call2 c (''auth/'' @ encode_path mount @ ''/'') (void (ldap_auth_delete_group (ldap_at c mount) x4))"
| "auth_call2 c (''auth/'' @ encode_path mount @ ''/'') (void (ldap_auth_list_groups (ldap_at c mount)))"
| "auth_call2 c (''auth/'' @ encode_path mount @ ''/'') (void (ldap_auth_write_user (ldap_at c mount) x5 x6))"
| "auth_call2 c (''auth/'' @ encode_path mount @ ''/'') (void (ldap_auth_read_user (ldap_at c mount) x7))"
| "auth_call2 c (''auth/'' @ encode_path mount @ ''/'') (void (ldap_auth_delete_user (ldap_at c mount) x8))"
| "auth_call2 c (''auth/'' @ encode_path mount @ ''/'') (void (ldap_auth_list_users (ldap_at c mount)))"
| "auth_call2 c (''auth/'' @ encode_path mount @ ''/'') (void (cert_auth_login (cert_at c mount) x9))"
| "auth_call2 c (''auth/'' @ encode_path mount @ ''/'') (void (cert_auth_create_role (cert_at c mount) x10 x11))"
| "auth_call2 c (''auth/'' @ encode_path mount @ ''/'') (void (cert_auth_read_role (cert_at c mount) x12))"
| "auth_call2 c (''auth/'' @ encode_path mount @ ''/'') (void (cert_auth_delete_role (cert_at c mount) x13))"
| "auth_call2 c (''auth/'' @ encode_path mount @ ''/'') (void (cert_auth_list_roles (cert_at c mount)))"
| "auth_call2 c (''auth/'' @ encode_path mount @ ''/'') (void (github_auth_login (github_at c mount) x14))"
| "auth_call2 c (''auth/'' @ encode_path mount @ ''/'') (void (github_auth_configure (github_at c mount) x15))"
| "auth_call2 c (''auth/'' @ encode_path mount @ ''/'') (void (github_auth_read_config (github_at c mount)))"
| "auth_call2 c (''auth/'' @ encode_path mount @ ''/'') (void (github_auth_map_team (github_at c mount) x16 x17))"
| "auth_call2 c (''auth/'' @ encode_path mount @ ''/'') (void (github_auth_read_team_mapping (github_at c mount) x18))"
| "auth_call2 c (''auth/'' @ encode_path mount @ ''/'') (void (github_auth_list_teams (github_at c mount)))"
| "auth_call2 c (''auth/'' @ encode_path mount @ ''/'') (void (oidc_auth_login_jwt (oidc_at c mount) x19 x20))"
| "auth_call2 c (''auth/'' @ encode_path mount @ ''/'') (void (oidc_auth_configure (oidc_at c mount) x21))"
| "auth_call2 c (''auth/'' @ encode_path mount @ ''/'') (void (oidc_auth_read_config (oidc_at c mount)))"
| "auth_call2 c (''auth/'' @ encode_path mount @ ''/'') (void (oidc_auth_create_role (oidc_at c mount) x22 x23))"
| "auth_call2 c (''auth/'' @ encode_path mount @ ''/'') (void (oidc_auth_read_role (oidc_at c mount) x24))"
| "auth_call2 c (''auth/'' @ encode_path mount @ ''/'') (void (oidc_auth_delete_role (oidc_at c mount) x25))"
| "auth_call2 c (''auth/'' @ encode_path mount @ ''/'') (void (oidc_auth_list_roles (oidc_at c mount)))"
| "auth_call2 c (''auth/'' @ encode_path mount @ ''/'') (void (aws_auth_login (aws_at c mount) x26))"
| "auth_call2 c (''auth/'' @ encode_path mount @ ''/'') (void (aws_auth_configure (aws_at c mount) x27))"
| "auth_call2 c (''auth/'' @ encode_path mount @ ''/'') (void (aws_auth_read_config (aws_at c mount)))"
| "auth_call2 c (''auth/'' @ encode_path mount @ ''/'') (void (aws_auth_create_role (aws_at c mount) x28 x29))"
| "auth_call2 c (''auth/'' @ encode_path mount @ ''/'') (void (aws_auth_read_role (aws_at c mount) x30))"
| "auth_call2 c (''auth/'' @ encode_path mount @ ''/'') (void (aws_auth_delete_role (aws_at c mount) x31))"

inductive auth_call3 :: "'w client \<Rightarrow> string \<Rightarrow> ('w, unit) io \<Rightarrow> bool" for c where
  "auth_call3 c (''auth/'' @ encode_path mount @ ''/'') (void (aws_auth_list_roles (aws_at c mount)))"
| "auth_call3 c (''auth/'' @ encode_path mount @ ''/'') (void (azure_auth_configure (azure_at c mount) x1))"
| "auth_call3 c (''auth/'' @ encode_path mount @ ''/'') (void (azure_auth_read_config (azure_at c mount)))"
| "auth_call3 c (''auth/'' @ encode_path mount @ ''/'') (void (azure_auth_create_role (azure_at c mount) x2 x3))"
| "auth_call3 c (''auth/'' @ encode_path mount @ ''/'') (void (azure_auth_read_role (azure_at c mount) x4))"
| "auth_call3 c (''auth/'' @ encode_path mount @ ''/'') (void (azure_auth_delete_role (azure_at c mount) x5))"
| "auth_call3 c (''auth/'' @ encode_path mount @ ''/'') (void (azure_auth_list_roles (azure_at c mount)))"
| "auth_call3 c (''auth/'' @ encode_path mount @ ''/'') (void (gcp_auth_login (gcp_at c mount) x6 x7))"
| "auth_call3 c (''auth/'' @ encode_path mount @ ''/'') (void (gcp_auth_configure (gcp_at c mount) x8))"
| "auth_call3 c (''auth/'' @ encode_path mount @ ''/'') (void (gcp_auth_read_config (gcp_at c mount)))"
| "auth_call3 c (''auth/'' @ encode_path mount @ ''/'') (void (gcp_auth_create_role (gcp_at c mount) x9 x10))"
| "auth_call3 c (''auth/'' @ encode_path mount @ ''/'') (void (gcp_auth_read_role (gcp_at c mount) x11))"
| "auth_call3 c (''auth/'' @ encode_path mount @ ''/'') (void (gcp_auth_delete_role (gcp_at c mount) x12))"
| "auth_call3 c (''auth/'' @ encode_path mount @ ''/'') (void (gcp_auth_list_roles (gcp_at c mount)))"
| "auth_call3 c (''auth/'' @ encode_path mount @ ''/'') (void (radius_auth_login (radius_at c mount) x13 x14))"
| "auth_call3 c (''auth/'' @ encode_path mount @ ''/'') (void (radius_auth_configure (radius_at c mount) x15))"
| "auth_call3 c (''auth/'' @ encode_path mount @ ''/'') (void (radius_auth_read_config (radius_at c mount)))"
| "auth_call3 c (''auth/'' @ encode_path mount @ ''/'') (void (radius_auth_write_user (radius_at c mount) x16 x17))"
| "auth_call3 c (''auth/'' @ encode_path mount @ ''/'') (void (radius_auth_read_user (radius_at c mount) x18))"
| "auth_call3 c (''auth/'' @ encode_path mount @ ''/'') (void (radius_auth_delete_user (radius_at c mount) x19))"
| "auth_call3 c (''auth/'' @ encode_path mount @ ''/'') (void (radius_auth_list_users (radius_at c mount)))"
| "auth_call3 c (''auth/'' @ encode_path mount @ ''/'') (void (kerberos_auth_login (kerberos_at c mount) x20))"
| "auth_call3 c (''auth/'' @ encode_path mount @ ''/'') (void (kerberos_auth_configure (kerberos_at c mount) x21))"
| "auth_call3 c (''auth/'' @ encode_path mount @ ''/'') (void (kerberos_auth_read_config (kerberos_at c mount)))"
| "auth_call3 c (''auth/'' @ encode_path mount @ ''/'') (void (kerberos_auth_configure_ldap (kerberos_at c mount) x22))"
| "auth_call3 c (''auth/'' @ encode_path mount @ ''/'') (void (kerberos_auth_read_ldap_config (kerberos_at c mount)))"
| "auth_call3 c (''auth/'' @ encode_path mount @ ''/'') (void (kerberos_auth_write_group (kerberos_at c mount) x23 x24))"
| "auth_call3 c (''auth/'' @ encode_path mount @ ''/'') (void (kerberos_auth_read_group (kerberos_at c mount) x25))"
| "auth_call3 c (''auth/'' @ encode_path mount @ ''/'') (void (kerberos_auth_delete_group (kerberos_at c mount) x26))"
| "auth_call3 c (''auth/'' @ encode_path mount @ ''/'') (void (kerberos_auth_list_groups (kerberos_at c mount)))"
| "auth_call3 c (''auth/'' @ encode_path mount @ ''/'') (void (azure_auth_login (azure_at c mount) x27 x28 x29 x30 x31 x32))"

inductive client_call :: "'w client \<Rightarrow> string \<Rightarrow> ('w, unit) io \<Rightarrow> bool" for c where
  "client_call c x2 (void (read c (x1 :: json \<Rightarrow> json option) x2))"
| "client_call c x3 (void (read_raw c x3))"
| "client_call c x5 (void (write_data c (x4 :: json \<Rightarrow> json option) x5 x6))"
| "client_call c x7 (void (delete c x7))"
| "client_call c x8 (void (list_keys c x8))"

inductive api_call :: "'w client \<Rightarrow> string \<Rightarrow> ('w, unit) io \<Rightarrow> bool" for c where
  "kv_call c pre m \<Longrightarrow> api_call c pre m"
| "transit_call c pre m \<Longrightarrow> api_call c pre m"
| "pki_call c pre m \<Longrightarrow> api_call c pre m"
| "database_call c pre m \<Longrightarrow> api_call c pre m"
| "cloud_call c pre m \<Longrightarrow> api_call c pre m"
| "small_call c pre m \<Longrightarrow> api_call c pre m"
| "identity_call c pre m \<Longrightarrow> api_call c pre m"
| "sys_call1 c pre m \<Longrightarrow> api_call c pre m"
| "sys_call2 c pre m \<Longrightarrow> api_call c pre m"
| "auth_call1 c pre m \<Longrightarrow> api_call c pre m"
| "auth_call2 c pre m \<Longrightarrow> api_call c pre m"
| "auth_call3 c pre m \<Longrightarrow> api_call c pre m"
| "client_call c pre m \<Longrightarrow> api_call c pre m"

lemmas kv_call_ops =
  kv1_read_def kv1_write_def kv1_delete_def kv1_list_def kv1_write_serialize_def
  kv1_read_data_def kv1_read_field_def kv1_read_string_data_def cubbyhole_read_def
  cubbyhole_write_def cubbyhole_delete_def cubbyhole_list_def kv2_read_config_def
  kv2_write_config_def kv2_read_def kv2_read_version_def kv2_write_def kv2_write_cas_def
  kv2_patch_def kv2_list_def kv2_delete_def kv2_read_metadata_def kv2_write_metadata_def
  kv2_patch_metadata_def kv2_delete_metadata_def kv2_version_op_def kv2_read_data_def
  kv2_delete_versions_def kv2_undelete_versions_def kv2_destroy_versions_def kv2_read_subkeys_def
  kv2_write_serialize_def kv2_write_cas_serialize_def kv2_patch_serialize_def kv2_write_field_def
  kv2_read_field_def kv2_read_string_data_def

lemma kv_call_confined: "kv_call c pre m \<Longrightarrow> lawful c L \<Longrightarrow> stays c L pre m"
  by (erule kv_call.cases)
    (simp_all add: kv_call_ops handler_defs Let_def, (intro confined stays_void; simp split: option.split)+)

lemmas transit_call_ops =
  transit_create_key_def transit_read_key_def transit_list_keys_def transit_delete_key_def
  transit_update_key_config_def transit_rotate_key_def transit_encrypt_def transit_rewrap_def
  transit_batch_encrypt_def transit_batch_decrypt_def transit_verify_def transit_hash_def
  transit_hmac_def transit_random_def transit_generate_data_key_def transit_trim_key_def
  transit_backup_key_def transit_restore_key_def transit_batch_verify_def
  transit_read_cache_config_def transit_write_cache_config_def transit_export_key_def
  transit_decrypt_def transit_sign_def transit_batch_sign_def

lemma transit_call_confined: "transit_call c pre m \<Longrightarrow> lawful c L \<Longrightarrow> stays c L pre m"
  by (erule transit_call.cases)
    (simp_all add: transit_call_ops handler_defs Let_def, (intro confined stays_void; simp split: option.split)+)

lemmas pki_call_ops =
  pki_generate_root_def pki_generate_intermediate_csr_def pki_set_signed_intermediate_def
  pki_delete_root_def pki_list_issuers_def pki_read_issuer_def pki_delete_issuer_def
  pki_create_role_def pki_read_role_def pki_list_roles_def pki_delete_role_def pki_issue_def
  pki_sign_def pki_sign_verbatim_def pki_list_certs_def pki_read_cert_def pki_set_urls_def
  pki_read_urls_def pki_revoke_def pki_revoke_with_key_def pki_rotate_crl_def pki_tidy_def
  pki_tidy_status_def pki_update_issuer_def pki_cross_sign_intermediate_def
  pki_read_acme_config_def pki_write_acme_config_def pki_rotate_delta_crl_def pki_read_crl_def
  pki_read_crl_delta_def

lemma pki_call_confined: "pki_call c pre m \<Longrightarrow> lawful c L \<Longrightarrow> stays c L pre m"
  by (erule pki_call.cases)
    (simp_all add: pki_call_ops handler_defs Let_def, (intro confined stays_void; simp split: option.split)+)

lemmas database_call_ops =
  database_configure_def database_read_config_def database_delete_config_def
  database_list_connections_def database_reset_connection_def database_create_role_def
  database_read_role_def database_delete_role_def database_list_roles_def
  database_get_credentials_def database_create_static_role_def database_read_static_role_def
  database_delete_static_role_def database_list_static_roles_def
  database_get_static_credentials_def database_rotate_static_role_def

lemma database_call_confined: "database_call c pre m \<Longrightarrow> lawful c L \<Longrightarrow> stays c L pre m"
  by (erule database_call.cases)
    (simp_all add: database_call_ops handler_defs Let_def, (intro confined stays_void; simp split: option.split)+)

lemmas cloud_call_ops =
  aws_configure_root_def aws_read_config_root_def aws_rotate_root_def aws_create_role_def
  aws_read_role_def aws_delete_role_def aws_list_roles_def aws_get_credentials_def
  aws_get_sts_credentials_def azure_configure_def azure_read_config_def azure_delete_config_def
  azure_create_role_def azure_read_role_def azure_delete_role_def azure_list_roles_def
  azure_get_credentials_def gcp_configure_def gcp_read_config_def gcp_delete_config_def
  gcp_create_roleset_def gcp_read_roleset_def gcp_delete_roleset_def gcp_list_rolesets_def
  gcp_get_service_account_key_def gcp_get_oauth_token_def gcp_rotate_roleset_def

lemma cloud_call_confined: "cloud_call c pre m \<Longrightarrow> lawful c L \<Longrightarrow> stays c L pre m"
  by (erule cloud_call.cases)
    (simp_all add: cloud_call_ops handler_defs Let_def, (intro confined stays_void; simp split: option.split)+)

lemmas small_call_ops =
  ssh_configure_ca_def ssh_read_public_key_def ssh_delete_ca_def ssh_create_role_def
  ssh_read_role_def ssh_delete_role_def ssh_list_roles_def ssh_sign_key_def ssh_verify_otp_def
  totp_create_key_def totp_read_key_def totp_delete_key_def totp_list_keys_def
  totp_generate_code_def totp_validate_code_def consul_configure_def consul_read_config_def
  consul_delete_config_def consul_create_role_def consul_read_role_def consul_delete_role_def
  consul_list_roles_def consul_get_credentials_def nomad_configure_def nomad_read_config_def
  nomad_delete_config_def nomad_create_role_def nomad_read_role_def nomad_delete_role_def
  nomad_list_roles_def nomad_get_credentials_def rabbitmq_configure_def
  rabbitmq_configure_lease_def rabbitmq_create_role_def rabbitmq_read_role_def
  rabbitmq_delete_role_def rabbitmq_list_roles_def rabbitmq_get_credentials_def
  terraform_configure_def terraform_read_config_def terraform_delete_config_def
  terraform_create_role_def terraform_read_role_def terraform_delete_role_def
  terraform_list_roles_def terraform_get_credentials_def

lemma small_call_confined: "small_call c pre m \<Longrightarrow> lawful c L \<Longrightarrow> stays c L pre m"
  by (erule small_call.cases)
    (simp_all add: small_call_ops handler_defs Let_def, (intro confined stays_void; simp split: option.split)+)

lemmas identity_call_ops =
  identity_create_entity_def identity_read_entity_def identity_read_entity_by_name_def
  identity_update_entity_def identity_delete_entity_def identity_list_entities_def
  identity_create_entity_alias_def identity_read_entity_alias_def
  identity_delete_entity_alias_def identity_list_entity_aliases_def identity_create_group_def
  identity_read_group_def identity_read_group_by_name_def identity_update_group_def
  identity_delete_group_def identity_list_groups_def identity_create_group_alias_def
  identity_read_group_alias_def identity_delete_group_alias_def identity_list_group_aliases_def

lemma identity_call_confined: "identity_call c pre m \<Longrightarrow> lawful c L \<Longrightarrow> stays c L pre m"
  by (erule identity_call.cases)
    (simp_all add: identity_call_ops handler_defs Let_def, (intro confined stays_void; simp split: option.split)+)

lemmas sys_call1_ops =
  sys_health_def sys_leader_def sys_seal_status_def sys_seal_def sys_unseal_def sys_init_def
  sys_step_down_def sys_list_mounts_def sys_mount_def sys_unmount_def sys_tune_mount_def
  sys_read_mount_tune_def sys_list_auth_mounts_def sys_enable_auth_def sys_disable_auth_def
  sys_read_auth_tune_def sys_list_policies_def sys_read_policy_def sys_write_policy_def
  sys_delete_policy_def sys_list_audit_devices_def sys_enable_audit_def sys_disable_audit_def
  sys_read_lease_def sys_revoke_lease_def sys_revoke_prefix_def sys_list_namespaces_def
  sys_create_namespace_def sys_delete_namespace_def sys_list_plugins_def sys_read_plugin_def
  sys_register_plugin_def sys_deregister_plugin_def

lemma sys_call1_confined: "sys_call1 c pre m \<Longrightarrow> lawful c L \<Longrightarrow> stays c L pre m"
  by (erule sys_call1.cases)
    (simp_all add: sys_call1_ops handler_defs Let_def, (intro confined stays_void; simp split: option.split)+)

lemmas sys_call2_ops =
  sys_reload_plugin_def sys_list_rate_limit_quotas_def sys_read_rate_limit_quota_def
  sys_write_rate_limit_quota_def sys_delete_rate_limit_quota_def sys_raft_config_def
  sys_raft_autopilot_state_def sys_raft_remove_peer_def sys_rekey_init_def sys_rekey_status_def
  sys_rekey_cancel_def sys_rekey_update_def sys_generate_root_init_def
  sys_generate_root_status_def sys_generate_root_cancel_def sys_generate_root_update_def
  sys_remount_def sys_metrics_json_def sys_host_info_def sys_internal_counters_activity_def
  sys_rewrap_def sys_in_flight_requests_def sys_unwrap_def sys_wrap_lookup_def
  sys_capabilities_def sys_capabilities_self_def sys_key_status_def sys_rotate_encryption_key_def
  sys_renew_lease_def sys_unwrap_str_def sys_raft_snapshot_def sys_version_history_def

lemma sys_call2_confined: "sys_call2 c pre m \<Longrightarrow> lawful c L \<Longrightarrow> stays c L pre m"
  by (erule sys_call2.cases)
    (simp_all add: sys_call2_ops handler_defs Let_def, (intro confined stays_void; simp split: option.split)+)

lemmas auth_call1_ops =
  token_auth_lookup_self_def token_auth_lookup_def token_auth_renew_self_def
  token_auth_create_def token_auth_create_orphan_def token_auth_revoke_def
  token_auth_revoke_self_def token_auth_revoke_accessor_def token_auth_list_accessors_def
  approle_auth_login_def approle_auth_create_role_def approle_auth_read_role_def
  approle_auth_delete_role_def approle_auth_list_roles_def approle_auth_read_role_id_def
  approle_auth_generate_secret_id_def approle_auth_destroy_secret_id_def
  kubernetes_auth_login_def kubernetes_auth_configure_def kubernetes_auth_create_role_def
  kubernetes_auth_read_role_def kubernetes_auth_delete_role_def kubernetes_auth_list_roles_def
  userpass_auth_login_def userpass_auth_create_user_def userpass_auth_read_user_def
  userpass_auth_delete_user_def userpass_auth_list_users_def userpass_auth_update_password_def
  ldap_auth_login_def ldap_auth_configure_def ldap_auth_read_config_def

lemma auth_call1_confined: "auth_call1 c pre m \<Longrightarrow> lawful c L \<Longrightarrow> stays c L pre m"
  by (erule auth_call1.cases)
    (simp_all add: auth_call1_ops handler_defs Let_def, (intro confined stays_void; simp split: option.split)+)

lemmas auth_call2_ops =
  ldap_auth_write_group_def ldap_auth_read_group_def ldap_auth_delete_group_def
  ldap_auth_list_groups_def ldap_auth_write_user_def ldap_auth_read_user_def
  ldap_auth_delete_user_def ldap_auth_list_users_def cert_auth_login_def
  cert_auth_create_role_def cert_auth_read_role_def cert_auth_delete_role_def
  cert_auth_list_roles_def github_auth_login_def github_auth_configure_def
  github_auth_read_config_def github_auth_map_team_def github_auth_read_team_mapping_def
  github_auth_list_teams_def oidc_auth_login_jwt_def oidc_auth_configure_def
  oidc_auth_read_config_def oidc_auth_create_role_def oidc_auth_read_role_def
  oidc_auth_delete_role_def oidc_auth_list_roles_def aws_auth_login_def aws_auth_configure_def
  aws_auth_read_config_def aws_auth_create_role_def aws_auth_read_role_def
  aws_auth_delete_role_def

lemma auth_call2_confined: "auth_call2 c pre m \<Longrightarrow> lawful c L \<Longrightarrow> stays c L pre m"
  by (erule auth_call2.cases)
    (simp_all add: auth_call2_ops handler_defs Let_def, (intro confined stays_void; simp split: option.split)+)

lemmas auth_call3_ops =
  aws_auth_list_roles_def azure_auth_configure_def azure_auth_read_config_def
  azure_auth_create_role_def azure_auth_read_role_def azure_auth_delete_role_def
  azure_auth_list_roles_def gcp_auth_login_def gcp_auth_configure_def gcp_auth_read_config_def
  gcp_auth_create_role_def gcp_auth_read_role_def gcp_auth_delete_role_def
  gcp_auth_list_roles_def radius_auth_login_def radius_auth_configure_def
  radius_auth_read_config_def radius_auth_write_user_def radius_auth_read_user_def
  radius_auth_delete_user_def radius_auth_list_users_def kerberos_auth_login_def
  kerberos_auth_configure_def kerberos_auth_read_config_def kerberos_auth_configure_ldap_def
  kerberos_auth_read_ldap_config_def kerberos_auth_write_group_def kerberos_auth_read_group_def
  kerberos_auth_delete_group_def kerberos_auth_list_groups_def azure_auth_login_def

lemma auth_call3_confined: "auth_call3 c pre m \<Longrightarrow> lawful c L \<Longrightarrow> stays c L pre m"
  by (erule auth_call3.cases)
    (simp_all add: auth_call3_ops handler_defs Let_def, (intro confined stays_void; simp split: option.split)+)

lemmas client_call_ops =
  read_def read_raw_def write_data_def delete_def list_keys_def

lemma client_call_confined: "client_call c pre m \<Longrightarrow> lawful c L \<Longrightarrow> stays c L pre m"
  by (erule client_call.cases)
    (simp_all add: client_call_ops handler_defs Let_def, (intro confined stays_void; simp split: option.split)+)

lemma api_call_stays: "api_call c pre m \<Longrightarrow> lawful c L \<Longrightarrow> stays c L pre m"
  by (erule api_call.cases) (simp_all add: kv_call_confined transit_call_confined pki_call_confined database_call_confined cloud_call_confined small_call_confined identity_call_confined sys_call1_confined sys_call2_confined auth_call1_confined auth_call2_confined auth_call3_confined client_call_confined)

lemma lawful_script: "lawful (script_client tb) L"
  by (simp add: lawful_def clone_faithful_def login_sends_def login_evolves_def login_metered_def)

section \<open>A client over time\<close>

text \<open>
  The use of a client over time: operations of its callers, passes of the token daemon and restores of
  snapshots, one after the other, each after some time of its own and each through some view of the
  client (\<open>with_namespace\<close>, \<open>with_wrap_ttl\<close>).
\<close>

definition client_view :: "'w client \<Rightarrow> string option \<times> string option \<Rightarrow> 'w client" where
  "client_view c v = c\<lparr>namespace_override := fst v, wrap_ttl_override := snd v\<rparr>"

datatype 'w client_use =
    Call "('w, unit) io"
  | DaemonPass
  | Restore string

primrec use_io :: "'w client \<Rightarrow> 'w client_use \<Rightarrow> ('w, unit) io" where
  "use_io c (Call m) = m"
| "use_io c DaemonPass = daemon_body c"
| "use_io c (Restore snapshot) = sys_raft_snapshot_restore c snapshot"

primrec restores :: "'w client_use \<Rightarrow> nat" where
  "restores (Call m) = 0"
| "restores DaemonPass = 0"
| "restores (Restore snapshot) = 1"

type_synonym 'w schedule = "(nat \<times> (string option \<times> string option) \<times> 'w client_use) list"

fun run_uses :: "'w client \<Rightarrow> 'w schedule \<Rightarrow> 'w cstate \<Rightarrow> 'w cstate" where
  "run_uses c [] s = s"
| "run_uses c ((d, v, u) # us) s = run_uses c us (snd (use_io (client_view c v) u (s\<lparr>now := now s + d\<rparr>)))"

definition uses_of :: "'w client \<Rightarrow> 'w schedule \<Rightarrow> bool" where
  "uses_of c us \<longleftrightarrow>
     (\<forall>(d, v, u) \<in> set us. \<forall>m. u = Call m \<longrightarrow> (\<exists>pre. api_call (client_view c v) pre m))"

definition total_restores :: "'w schedule \<Rightarrow> nat" where
  "total_restores us = sum_list (map (\<lambda>(d, v, u). restores u) us)"

lemma client_view_simps [simp]:
  "config (client_view c v) = config c" "lawful (client_view c v) L \<longleftrightarrow> lawful c L"
  by (simp_all add: client_view_def lawful_def login_sends_def login_evolves_def login_metered_def)

lemma raft_restore_metered: "metered_plus M 1 s (snd (sys_raft_snapshot_restore c snapshot s))"
proof -
  have "\<exists>es. trace (snd (sys_raft_snapshot_restore c snapshot s)) = trace s @ es \<and> length (requests es) \<le> 1"
    by (auto simp: sys_raft_snapshot_restore_def inject_headers_def bind_io_cases Let_def send_def
        split: sum.split prod.split)
  moreover have "breaker (snd (sys_raft_snapshot_restore c snapshot s)) = breaker s"
    "now s \<le> now (snd (sys_raft_snapshot_restore c snapshot s))"
    by (auto simp: sys_raft_snapshot_restore_def inject_headers_def bind_io_cases Let_def send_def
        split: sum.split prod.split)
  ultimately show ?thesis by (auto intro: metered_free)
qed

lemma use_metered:
  assumes "lawful c L" and "\<And>m. u = Call m \<Longrightarrow> \<exists>pre. api_call c pre m"
  shows "metered_plus (Suc (max_retries (config c))) (restores u) s (snd (use_io c u s))"
proof (cases u)
  case (Call m)
  then obtain pre where "stays c L pre m" using assms api_call_stays by blast
  then show ?thesis by (simp add: Call stays_def keeps_def)
next
  case DaemonPass
  then show ?thesis using assms(1) metered_daemon_body [of c] by (simp add: lawful_def keeps_def)
next
  case (Restore snapshot)
  then show ?thesis using raft_restore_metered [of _ s c snapshot] by simp
qed

lemma run_uses_metered:
  "uses_of c us \<Longrightarrow> lawful c L \<Longrightarrow>
   metered_plus (Suc (max_retries (config c))) (total_restores us) s (run_uses c us s)"
proof (induction us arbitrary: s)
  case Nil
  then show ?case by (simp add: total_restores_def met.R_refl)
next
  case (Cons x us)
  obtain d v u where x: "x = (d, v, u)" by (cases x)
  let ?s0 = "s\<lparr>now := now s + d\<rparr>" and ?M = "Suc (max_retries (config c))"
  let ?s1 = "snd (use_io (client_view c v) u ?s0)"
  have "\<exists>pre. api_call (client_view c v) pre m" if "u = Call m" for m
    using Cons.prems(1) that by (auto simp: uses_of_def x)
  then have "metered_plus ?M (restores u) ?s0 ?s1"
    using use_metered [of "client_view c v" L u ?s0] Cons.prems(2) by simp
  then have "metered_plus ?M (0 + restores u) s ?s1"
    by (intro metered_plus_trans [OF metered_quiet [of s ?s0 "[]"]]) simp_all
  moreover have "metered_plus ?M (total_restores us) ?s1 (run_uses c us ?s1)"
    using Cons by (auto simp: uses_of_def)
  ultimately have "metered_plus ?M (0 + restores u + total_restores us) s (run_uses c us ?s1)"
    by (rule metered_plus_trans)
  then show ?case by (simp add: x total_restores_def)
qed

section \<open>Properties\<close>

text \<open>
  C5: No operation leaves its part of the API, whatever the mounts, names and other strings it is
  given and whatever the server answers: each request it adds to the trace is to a path that starts
  with its prefix (as it is handed to the URL parser, which resolves \<open>..\<close> segments), or is the
  renewal of the token, or was sent by the login of the client. And on every
  branch, errors and panics included, it preserves the invariant of the shared state: time does not
  run backwards, the lock of the token is not poisoned, and a consistent breaker stays consistent
  with the same configuration.
\<close>

theorem api_calls_confined:
  assumes "api_call c pre m" and "lawful c L"
  shows "(\<exists>es. trace (snd (m s)) = trace s @ es \<and> (\<forall>rq \<in> set (requests es). inside c L pre rq))
    \<and> now s \<le> now (snd (m s)) \<and> token_poisoned (snd (m s)) = token_poisoned s
    \<and> (case (breaker s, breaker (snd (m s))) of
         (None, None) \<Rightarrow> True
       | (Some x, Some y) \<Rightarrow> cb_config y = cb_config x \<and> (cb_inv x \<longrightarrow> cb_inv y)
       | _ \<Rightarrow> False)"
  using api_call_stays [OF assms]
  by (auto simp: stays_def keeps_def sent_def list_all_iff evolves_def breaker_rel_def)

theorem api_calls_confined_witness:
  "let r = void (kv1_delete (kv1 (script_client []) ''kv'') ''a/b'') (script_state [answer 204 []] None)
   in (\<forall>rq \<in> set (requests (trace (snd r))). inside (script_client []) (\<lambda>_. False) (encode_path ''kv'' @ ''/'') rq)
     \<and> 1000 \<le> now (snd r)"
proof -
  have "api_call (script_client []) (encode_path ''kv'' @ ''/'') (void (kv1_delete (kv1 (script_client []) ''kv'') ''a/b''))"
    by (intro api_call.intros(1) kv_call.intros)
  moreover have "lawful (script_client []) (\<lambda>_. False)"
    by (rule lawful_script)
  ultimately show ?thesis
    using api_calls_confined [of "script_client []" _ _ "\<lambda>_. False" "script_state [answer 204 []] None"] by simp
qed

text \<open>
  C8: The breaker bounds the traffic of an outage. A client is used over time, one use after the other:
  operations of the API and the generic calls, passes of the token daemon and restores of
  snapshots, at whatever times, through whatever views, with whatever the token lifecycle and the
  logins of its auth method add. While every answer is a failure (no answer, or a status that is
  neither 2xx nor 404), the requests sent are at most those of \<open>failure_threshold\<close> calls, and of one
  more call for each \<open>reset_timeout\<close> that has passed, each call with its \<open>max_retries\<close> - and one for
  each restore of a snapshot, which does not ask the breaker. This holds from every consistent state
  of the breaker, and the bound does not depend on the number of the other uses.
\<close>

theorem outage_traffic_bounded:
  assumes "lawful c L" and "uses_of c us"
    and "breaker s = Some b" and "cb_inv b" and "dated b (now s)"
    and "trace (run_uses c us s) = trace s @ es" and "list_all fails (answers es)"
  shows "length (requests es) * reset_timeout (cb_config b)
    \<le> (max_retries (config c) + 1)
      * (max 1 (unat (failure_threshold (cb_config b))) * reset_timeout (cb_config b)
         + (now (run_uses c us s) - now s))
      + total_restores us * reset_timeout (cb_config b)"
  using metered_traffic [OF run_uses_metered [OF assms(2,1)] assms(3-7)] by (simp add: mult.commute)

theorem outage_traffic_bounded_witness:
  "let s' = run_uses (script_client []) [(7, (None, None), Call (void (kv1_delete (kv1 (script_client []) ''kv'') ''a/b'')))]
       (script_state [answer 500 [], answer 503 [], answer 500 []] None)
   in list_all fails (answers (trace s'))
     \<and> length (requests (trace s')) * secs 30
        \<le> (max_retries client_config_default + 1) * (5 * secs 30 + (now s' - 1000))"
proof -
  let ?c = "script_client []" and ?m = "void (kv1_delete (kv1 (script_client []) ''kv'') ''a/b'')"
  let ?s = "script_state [answer 500 [], answer 503 [], answer 500 []] None"
  have v: "client_view ?c (None, None) = ?c" by (simp add: client_view_def script_client_def)
  have "api_call ?c (encode_path ''kv'' @ ''/'') ?m"
    by (intro api_call.intros(1) kv_call.intros)
  then have c: "uses_of ?c [(7, (None, None), Call ?m)]" by (auto simp: uses_of_def v)
  have ex: "execute ?c DELETE p None (?s\<lparr>now := 1007\<rparr>) = execute_raw ?c DELETE p None (?s\<lparr>now := 1007\<rparr>)" for p
    by (cases "is_login p") (simp_all add: execute_login execute_ensured ensure_no_token)
  have "list_all fails (answers (trace (snd (execute_raw ?c DELETE p None (?s\<lparr>now := 1007\<rparr>)))))" for p
    by (simp add: run_raw fails_def backoff_sleep_def draw_below_def sleep_def)
  then have f: "list_all fails (answers (trace (run_uses ?c [(7, (None, None), Call ?m)] ?s)))"
    by (simp add: v void_def map_io_apply kv1_delete_def kv1_def exec_empty_def ex split: prod.split) (metis snd_conv)
  show ?thesis
    using outage_traffic_bounded [OF lawful_script c, of ?s "cb_new cb_config_default"] f
    by (simp add: cb_config_default_def secs_def Let_def dated_def cb_new_def cb_inv_def total_restores_def)
qed

end
