(* ===== verification/Builder.thy ===== *)
theory Builder
  imports Token_Lifecycle
begin

text \<open>
  \<open>ClientBuilder\<close> of \<open>client/async_client.rs\<close>: its setters, \<open>from_env\<close>, the token file, the
  construction of the HTTP client and \<open>build\<close>; and \<open>BlockingClientBuilder\<close> of
  \<open>client/blocking_client.rs\<close>. The process (environment variables, files, home directory) and
  the crates reqwest and url are arguments. An HTTP client is the environment its client runs in.
\<close>

section \<open>The builder\<close>

record 'w builder =
  b_address :: "string option"
  b_token :: "secret option"
  b_namespace :: "string option"
  b_timeout :: "nat option"
  b_max_retries :: "nat option"
  b_initial_retry_delay :: "nat option"
  b_wrap_ttl :: "string option"
  b_forward_to_leader :: bool
  b_danger_disable_tls_verify :: bool
  b_ca_cert_pem :: "string option"
  b_client_cert_pem :: "string option"
  b_client_key_pem :: "string option"
  b_reqwest_client :: "'w env option"
  b_auth_method :: "('w client \<Rightarrow> ('w, auth_info) io) option"
  b_circuit_breaker :: "cb_config option"
  b_on_token_changed :: bool
  b_cli_mode :: bool

definition builder_default :: "'w builder" where
  "builder_default =
     \<lparr>b_address = None, b_token = None, b_namespace = None, b_timeout = None, b_max_retries = None,
      b_initial_retry_delay = None, b_wrap_ttl = None, b_forward_to_leader = False,
      b_danger_disable_tls_verify = False, b_ca_cert_pem = None, b_client_cert_pem = None,
      b_client_key_pem = None, b_reqwest_client = None, b_auth_method = None,
      b_circuit_breaker = None, b_on_token_changed = False, b_cli_mode = False\<rparr>"

definition set_address :: "string \<Rightarrow> 'w builder \<Rightarrow> 'w builder" where
  "set_address addr b = b\<lparr>b_address := Some addr\<rparr>"

definition builder_token :: "secret \<Rightarrow> 'w builder \<Rightarrow> 'w builder" where
  "builder_token t b = b\<lparr>b_token := Some t\<rparr>"

definition token_str :: "string \<Rightarrow> 'w builder \<Rightarrow> 'w builder" where
  "token_str t b = builder_token (Secret t) b"

definition set_namespace :: "string \<Rightarrow> 'w builder \<Rightarrow> 'w builder" where
  "set_namespace ns b = b\<lparr>b_namespace := Some ns\<rparr>"

definition set_timeout :: "nat \<Rightarrow> 'w builder \<Rightarrow> 'w builder" where
  "set_timeout d b = b\<lparr>b_timeout := Some d\<rparr>"

definition set_max_retries :: "nat \<Rightarrow> 'w builder \<Rightarrow> 'w builder" where
  "set_max_retries n b = b\<lparr>b_max_retries := Some n\<rparr>"

definition set_initial_retry_delay :: "nat \<Rightarrow> 'w builder \<Rightarrow> 'w builder" where
  "set_initial_retry_delay d b = b\<lparr>b_initial_retry_delay := Some d\<rparr>"

definition set_wrap_ttl :: "string \<Rightarrow> 'w builder \<Rightarrow> 'w builder" where
  "set_wrap_ttl ttl b = b\<lparr>b_wrap_ttl := Some ttl\<rparr>"

definition set_forward_to_leader :: "bool \<Rightarrow> 'w builder \<Rightarrow> 'w builder" where
  "set_forward_to_leader yes b = b\<lparr>b_forward_to_leader := yes\<rparr>"

definition set_cli_mode :: "bool \<Rightarrow> 'w builder \<Rightarrow> 'w builder" where
  "set_cli_mode yes b =
     (let b1 = (if yes then b\<lparr>b_max_retries := Some 0\<rparr> else b) in b1\<lparr>b_cli_mode := yes\<rparr>)"

definition danger_disable_tls_verify :: "bool \<Rightarrow> 'w builder \<Rightarrow> 'w builder" where
  "danger_disable_tls_verify yes b = b\<lparr>b_danger_disable_tls_verify := yes\<rparr>"

definition set_ca_cert_pem :: "string \<Rightarrow> 'w builder \<Rightarrow> 'w builder" where
  "set_ca_cert_pem pem b = b\<lparr>b_ca_cert_pem := Some pem\<rparr>"

definition set_client_cert_pem :: "string \<Rightarrow> string \<Rightarrow> 'w builder \<Rightarrow> 'w builder" where
  "set_client_cert_pem cert key b = b\<lparr>b_client_cert_pem := Some cert, b_client_key_pem := Some key\<rparr>"

definition set_auth_method :: "('w client \<Rightarrow> ('w, auth_info) io) \<Rightarrow> 'w builder \<Rightarrow> 'w builder" where
  "set_auth_method run b = b\<lparr>b_auth_method := Some run\<rparr>"

definition set_circuit_breaker :: "cb_config \<Rightarrow> 'w builder \<Rightarrow> 'w builder" where
  "set_circuit_breaker cfg b = b\<lparr>b_circuit_breaker := Some cfg\<rparr>"

definition on_token_changed :: "'w builder \<Rightarrow> 'w builder" where
  "on_token_changed b = b\<lparr>b_on_token_changed := True\<rparr>"

definition with_reqwest_client :: "'w env \<Rightarrow> 'w builder \<Rightarrow> 'w builder" where
  "with_reqwest_client env b = b\<lparr>b_reqwest_client := Some env\<rparr>"

section \<open>The process\<close>

text \<open>\<open>std::env::var(k).ok()\<close>, \<open>fs::read(p).ok()\<close>, \<open>fs::read_to_string(p).ok()\<close>, \<open>home::home_dir()\<close>.\<close>

record process =
  p_var :: "string \<Rightarrow> string option"
  p_file :: "string \<Rightarrow> string option"
  p_text :: "string \<Rightarrow> string option"
  p_home :: "string option"

text \<open>\<open>str::trim\<close>: the UTF-8 encodings of the characters with the property White\_Space.\<close>

definition whitespace :: "string list" where
  "whitespace = map (\<lambda>b. map char_of b)
     ([[9], [10], [11], [12], [13], [32], [194, 133], [194, 160], [225, 154, 128],
       [226, 128, 168], [226, 128, 169], [226, 128, 175], [226, 129, 159], [227, 128, 128 :: nat]]
      @ map (\<lambda>k. [226, 128, k]) [128..<139])"

function trim_start :: "string list \<Rightarrow> string \<Rightarrow> string" where
  "trim_start ws s =
     (case find (\<lambda>w. w \<noteq> [] \<and> starts_with s w) ws of
        Some w \<Rightarrow> trim_start ws (drop (length w) s)
      | None \<Rightarrow> s)"
  by pat_completeness auto
termination
proof (relation "measure (\<lambda>(ws, s). length s)")
  fix ws s w
  assume "find (\<lambda>w. w \<noteq> [] \<and> starts_with s w) ws = Some w"
  then have "w \<noteq> []" "starts_with s w" by (auto simp: find_Some_iff)
  then show "((ws, drop (length w) s), ws, s) \<in> measure (\<lambda>(ws, s). length s)"
    by (auto simp: starts_with_iff)
qed simp

declare trim_start.simps [simp del]

definition trim_end :: "string list \<Rightarrow> string \<Rightarrow> string" where
  "trim_end ws s = rev (trim_start (map rev ws) (rev s))"

definition trim :: "string \<Rightarrow> string" where
  "trim s = trim_end whitespace (trim_start whitespace s)"

definition path_join :: "string \<Rightarrow> string \<Rightarrow> string" where
  "path_join dir f = (if dir = [] \<or> ends_with dir ''/'' then dir @ f else dir @ ''/'' @ f)"

definition read_vault_token_file :: "process \<Rightarrow> secret option" where
  "read_vault_token_file p =
     Option.bind (p_home p) (\<lambda>home.
     Option.bind (p_text p (path_join home ''.vault-token'')) (\<lambda>raw.
       let trimmed = trim raw in if trimmed = [] then None else Some (Secret trimmed)))"

definition to_ascii_lowercase :: "char \<Rightarrow> char" where
  "to_ascii_lowercase x =
     (let n = (of_char x :: nat) in if 65 \<le> n \<and> n \<le> 90 then char_of (n + 32) else x)"

definition eq_ignore_ascii_case :: "string \<Rightarrow> string \<Rightarrow> bool" where
  "eq_ignore_ascii_case a b \<longleftrightarrow> map to_ascii_lowercase a = map to_ascii_lowercase b"

definition truthy :: "string option \<Rightarrow> bool" where
  "truthy v = (case v of Some x \<Rightarrow> x = ''1'' \<or> eq_ignore_ascii_case x ''true'' | None \<Rightarrow> False)"

definition from_env :: "process \<Rightarrow> 'w builder" where
  "from_env p =
     (let cli = truthy (p_var p ''VAULT_CLI_MODE'');
          skip_tls = truthy (opt_or (p_var p ''VAULT_SKIP_VERIFY'') (p_var p ''VAULT_SKIP_TLS_VERIFY''))
      in builder_default
           \<lparr>b_address := p_var p ''VAULT_ADDR'',
            b_token := opt_or (map_option Secret (p_var p ''VAULT_TOKEN'')) (read_vault_token_file p),
            b_namespace := p_var p ''VAULT_NAMESPACE'',
            b_timeout := map_option secs (Option.bind (p_var p ''VAULT_CLIENT_TIMEOUT'') (parse_uint 64)),
            b_max_retries := (if cli then Some 0
                              else Option.bind (p_var p ''VAULT_MAX_RETRIES'') (parse_uint 32)),
            b_wrap_ttl := p_var p ''VAULT_WRAP_TTL'',
            b_danger_disable_tls_verify := skip_tls,
            b_ca_cert_pem := Option.bind (p_var p ''VAULT_CACERT'') (p_file p),
            b_client_cert_pem := Option.bind (p_var p ''VAULT_CLIENT_CERT'') (p_file p),
            b_client_key_pem := Option.bind (p_var p ''VAULT_CLIENT_KEY'') (p_file p),
            b_cli_mode := cli\<rparr>)"

section \<open>build\<close>

text \<open>
  The crates: what is set on reqwest's own builder, the errors of \<open>Certificate::from_pem\<close> and
  \<open>Identity::from_pem\<close>, reqwest's \<open>build\<close>, and \<open>parse\<close>, \<open>path\<close> and \<open>set_path\<close> of \<open>Url\<close>.
\<close>

record reqwest_config =
  rc_timeout :: nat
  rc_accept_invalid_certs :: bool
  rc_root :: "string option"
  rc_identity :: "string option"

record 'w crates =
  x_certificate :: "string \<Rightarrow> string option"
  x_identity :: "string \<Rightarrow> string option"
  x_build :: "reqwest_config \<Rightarrow> string + 'w env"
  x_parse :: "string \<Rightarrow> string + string"
  x_path :: "string \<Rightarrow> string"
  x_set_path :: "string \<Rightarrow> string \<Rightarrow> string"

definition pem_check :: "string \<Rightarrow> (string \<Rightarrow> string option) \<Rightarrow> string \<Rightarrow> unit outcome" where
  "pem_check what f pem = (case f pem of None \<Rightarrow> Ok () | Some e \<Rightarrow> Err (Config (what @ e)))"

definition build_reqwest_client ::
  "'w crates \<Rightarrow> client_config \<Rightarrow> bool \<Rightarrow> string option \<Rightarrow> string option \<Rightarrow> string option \<Rightarrow> 'w env outcome" where
  "build_reqwest_client x cfg danger ca cert key =
     (let b0 = \<lparr>rc_timeout = timeout cfg, rc_accept_invalid_certs = danger, rc_root = None, rc_identity = None\<rparr> in
      then_ok (case ca of
                 Some pem \<Rightarrow> then_ok (pem_check ''CA cert: '' (x_certificate x) pem) (\<lambda>_. Ok (b0\<lparr>rc_root := Some pem\<rparr>))
               | None \<Rightarrow> Ok b0) (\<lambda>b1.
      then_ok (case (cert, key) of
                 (Some cp, Some kp) \<Rightarrow>
                   then_ok (pem_check ''TLS identity: '' (x_identity x) (cp @ kp)) (\<lambda>_. Ok (b1\<lparr>rc_identity := Some (cp @ kp)\<rparr>))
               | _ \<Rightarrow> Ok b1) (\<lambda>b2.
        case x_build x b2 of Inr http \<Rightarrow> Ok http | Inl e \<Rightarrow> Err (Config (''reqwest client: '' @ e)))))"

definition or_default :: "'a option \<Rightarrow> 'a \<Rightarrow> 'a" where
  "or_default v d = (case v of Some a \<Rightarrow> a | None \<Rightarrow> d)"

text \<open>
  What \<open>build\<close> returns: the fixed part of the client with what its locks hold at first. The
  login of an auth method runs on a view of the client; a login sends its request to a login path,
  for which the client does not consult its auth method again.
\<close>

definition build :: "'w crates \<Rightarrow> 'w builder \<Rightarrow> ('w client \<times> token_state option \<times> circuit_breaker option) outcome" where
  "build x b =
     then_ok (ok_or (b_address b) (Config ''address is required'')) (\<lambda>addr.
     then_ok (case x_parse x addr of Inr u \<Rightarrow> Ok u | Inl e \<Rightarrow> Err (Config (''invalid address: '' @ e))) (\<lambda>u.
       let url = (if ends_with (x_path x u) ''/'' then u else x_set_path x u (x_path x u @ ''/''));
           cfg = \<lparr>timeout = or_default (b_timeout b) (secs 60),
                  max_retries = or_default (b_max_retries b) 2,
                  initial_retry_delay = or_default (b_initial_retry_delay b) (millis 500),
                  cfg_wrap_ttl = b_wrap_ttl b, forward_to_leader = b_forward_to_leader b,
                  retry_on_sealed = (\<not> b_cli_mode b)\<rparr>
       in then_ok (case b_reqwest_client b of
                     Some env \<Rightarrow> Ok env
                   | None \<Rightarrow> build_reqwest_client x cfg (b_danger_disable_tls_verify b) (b_ca_cert_pem b)
                               (b_client_cert_pem b) (b_client_key_pem b)) (\<lambda>http.
            let c = \<lparr>cl_env = http, base_url = url, namespace = b_namespace b, config = cfg,
                     auth_method = None, has_callback = b_on_token_changed b,
                     namespace_override = None, wrap_ttl_override = None\<rparr>
            in Ok (c\<lparr>auth_method := map_option (\<lambda>run ns wrap.
                        run (c\<lparr>namespace_override := ns, wrap_ttl_override := wrap\<rparr>)) (b_auth_method b)\<rparr>,
                   map_option (\<lambda>t. \<lparr>ts_value = t, ts_expires_at = None, ts_renewable = False,
                                    ts_lease_duration = 0\<rparr>) (b_token b),
                   map_option cb_new (b_circuit_breaker b)))))"

definition client_new :: "'w crates \<Rightarrow> string \<Rightarrow> string \<Rightarrow>
    ('w client \<times> token_state option \<times> circuit_breaker option) outcome" where
  "client_new x addr t = build x (token_str t (set_address addr builder_default))"

definition client_from_env :: "'w crates \<Rightarrow> process \<Rightarrow>
    ('w client \<times> token_state option \<times> circuit_breaker option) outcome" where
  "client_from_env x p = build x (from_env p)"

section \<open>What build gives\<close>

lemma then_ok_Ok: "then_ok r f = Ok y \<longleftrightarrow> (\<exists>a. r = Ok a \<and> f a = Ok y)"
  by (cases r) auto

lemma then_ok_Err: "then_ok r f = Err e \<longleftrightarrow> r = Err e \<or> (\<exists>a. r = Ok a \<and> f a = Err e)"
  by (cases r) auto

lemma then_ok_Panic: "then_ok r f = Panic m \<longleftrightarrow> r = Panic m \<or> (\<exists>a. r = Ok a \<and> f a = Panic m)"
  by (cases r) auto

lemmas then_ok_iff = then_ok_Ok then_ok_Err then_ok_Panic

text \<open>Building the HTTP client, like the whole of \<open>build\<close>, only fails as a configuration error.\<close>

definition config_only :: "'a outcome \<Rightarrow> bool" where
  "config_only r \<longleftrightarrow> (case r of Ok a \<Rightarrow> True | Err e \<Rightarrow> (\<exists>m. e = Config m) | Panic m \<Rightarrow> False)"

lemma config_only_simps [simp]:
  "config_only (Ok a)" "config_only (Err (Config m))" "config_only (ok_or v (Config m))"
  by (auto simp: config_only_def ok_or_def split: option.split)


lemma config_only_pem [simp]: "config_only (pem_check what f pem)"
  by (simp add: pem_check_def split: option.split)



lemma build_ok:
  assumes "build x b = Ok (c, tok, br)"
  obtains addr u where "b_address b = Some addr" and "x_parse x addr = Inr u"
    and "base_url c = (if ends_with (x_path x u) ''/'' then u else x_set_path x u (x_path x u @ ''/''))"
    and "config c = \<lparr>timeout = or_default (b_timeout b) (secs 60),
           max_retries = or_default (b_max_retries b) 2,
           initial_retry_delay = or_default (b_initial_retry_delay b) (millis 500),
           cfg_wrap_ttl = b_wrap_ttl b, forward_to_leader = b_forward_to_leader b,
           retry_on_sealed = (\<not> b_cli_mode b)\<rparr>"
    and "tok = map_option (\<lambda>t. \<lparr>ts_value = t, ts_expires_at = None, ts_renewable = False,
                                 ts_lease_duration = 0\<rparr>) (b_token b)"
    and "br = map_option cb_new (b_circuit_breaker b)"
    and "\<And>env. b_reqwest_client b = Some env \<Longrightarrow> cl_env c = env"
    and "namespace_override c = None" and "wrap_ttl_override c = None" and "namespace c = b_namespace b"
    and "auth_method c = None \<longleftrightarrow> b_auth_method b = None" and "has_callback c = b_on_token_changed b"
    and "auth_method c = map_option (\<lambda>run ns wrap. run (c\<lparr>auth_method := None, namespace_override := ns,
           wrap_ttl_override := wrap\<rparr>)) (b_auth_method b)"
    and "b_reqwest_client b = None \<Longrightarrow>
         build_reqwest_client x (config c) (b_danger_disable_tls_verify b) (b_ca_cert_pem b)
           (b_client_cert_pem b) (b_client_key_pem b) = Ok (cl_env c)"
  using assms unfolding build_def Let_def then_ok_Ok
  by (auto simp: ok_or_def intro!: that split: option.splits sum.splits)


text \<open>
  A client built with a token never enters the token lifecycle while that token is in place, even
  when it has an auth method: a call is exactly its own request.
\<close>

lemma static_token_execute:
  assumes "build x b = Ok (c, tok, br)" and "b_token b \<noteq> None"
    and "token s = tok" and "\<not> token_poisoned s"
  shows "execute c m path body s = execute_raw c m path body s"
proof (rule build_ok [OF assms(1)], goal_cases)
  case (1 addr u)
  then obtain t where t: "token s = Some \<lparr>ts_value = t, ts_expires_at = None, ts_renewable = False, ts_lease_duration = 0\<rparr>"
    using assms(2,3) by auto
  have "ensure_valid_token c s = (Ok (), s)"
    by (rule ensure_fresh [OF assms(4) t]) simp
  then show ?case by (simp add: execute_def bind_io_cases)
qed

section \<open>Trimming\<close>

text \<open>A set of encodings, none a prefix of another and none starting with a visible ASCII character.\<close>

definition visible :: "char \<Rightarrow> bool" where
  "visible x \<longleftrightarrow> 33 \<le> (of_char x :: nat) \<and> (of_char x :: nat) \<le> 126"

definition ws_code :: "string list \<Rightarrow> bool" where
  "ws_code ws \<longleftrightarrow> list_all (\<lambda>u. u \<noteq> [] \<and> \<not> visible (hd u) \<and> list_all (\<lambda>w. starts_with u w \<longrightarrow> w = u) ws) ws"

lemma ws_code_whitespace: "ws_code whitespace" "ws_code (map rev whitespace)"
  by (simp_all add: ws_code_def whitespace_def upt_rec visible_def)

lemma trim_start_skip:
  assumes "ws_code ws" and "u \<in> set ws"
  shows "trim_start ws (u @ s) = trim_start ws s"
proof -
  have u: "u \<noteq> []" using assms by (auto simp: ws_code_def list_all_iff)
  then obtain w where w: "find (\<lambda>w. w \<noteq> [] \<and> starts_with (u @ s) w) ws = Some w"
    using assms(2) by (cases "find (\<lambda>w. w \<noteq> [] \<and> starts_with (u @ s) w) ws")
      (auto simp: find_None_iff)
  then have "w \<in> set ws" "starts_with (u @ s) w" by (auto simp: find_Some_iff)
  then have "w \<in> set ws" "starts_with u w \<or> starts_with w u"
    by (auto simp: starts_with_iff append_eq_append_conv2)
  then have "w = u" using assms unfolding ws_code_def list_all_iff by metis
  then show ?thesis by (subst trim_start.simps) (simp add: w)
qed

lemma trim_start_Nil [simp]: "trim_start ws [] = []"
proof -
  have "find (\<lambda>w. w \<noteq> [] \<and> starts_with [] w) ws = None"
    by (auto simp: find_None_iff starts_with_iff)
  then show ?thesis by (subst trim_start.simps) simp
qed

lemma trim_start_concat:
  "ws_code ws \<Longrightarrow> set us \<subseteq> set ws \<Longrightarrow> trim_start ws (concat us @ s) = trim_start ws s"
  by (induction us) (simp_all add: trim_start_skip)

lemma trim_start_visible:
  assumes "ws_code ws" and "visible x"
  shows "trim_start ws (x # s) = x # s"
proof -
  have "\<not> starts_with (x # s) w" if "w \<in> set ws" for w
    using assms that by (cases w) (auto simp: ws_code_def list_all_iff)
  then have "find (\<lambda>w. w \<noteq> [] \<and> starts_with (x # s) w) ws = None"
    by (auto simp: find_None_iff)
  then show ?thesis by (subst trim_start.simps) simp
qed

lemma trim_visible:
  assumes "set us \<subseteq> set whitespace" and "set vs \<subseteq> set whitespace"
    and "t \<noteq> []" and "visible (hd t)" and "visible (last t)"
  shows "trim (concat us @ t @ concat vs) = t"
proof -
  have "trim_start whitespace (concat us @ t @ concat vs) = t @ concat vs"
    using assms trim_start_visible [OF ws_code_whitespace(1), of "hd t" "tl t @ concat vs"]
    by (simp add: trim_start_concat ws_code_whitespace(1) flip: append_Cons)
  moreover have "rev (t @ concat vs) = concat (map rev (rev vs)) @ rev t"
    by (simp add: rev_concat rev_map)
  moreover have "trim_start (map rev whitespace) (concat (map rev (rev vs)) @ rev t) = rev t"
    using assms trim_start_visible [OF ws_code_whitespace(2), of "last t" "tl (rev t)"]
    by (subst trim_start_concat) (auto simp: ws_code_whitespace(2) hd_rev simp flip: hd_rev)
  ultimately show ?thesis by (simp add: trim_def trim_end_def)
qed

section \<open>Properties\<close>


text \<open>Crates that answer what a test needs: an identity parser and the scripted environment.\<close>

definition script_crates :: "script crates" where
  "script_crates =
     \<lparr>x_certificate = (\<lambda>_. None), x_identity = (\<lambda>_. None), x_build = (\<lambda>_. Inr (script_env [])),
      x_parse = Inr, x_path = (\<lambda>u. u), x_set_path = (\<lambda>_ p. p)\<rparr>"

lemma script_crates_simps [simp]:
  "x_parse script_crates = Inr" "x_path script_crates u = u" "x_set_path script_crates u p = p"
  "x_build script_crates rc = Inr (script_env [])"
  by (simp_all add: script_crates_def)


text \<open>The two ways into CLI mode.\<close>

definition cli_builder :: "'w builder \<Rightarrow> bool" where
  "cli_builder b \<longleftrightarrow> (\<exists>b0. b = set_cli_mode True b0)
     \<or> (\<exists>p. b = from_env p \<and> truthy (p_var p ''VAULT_CLI_MODE''))"

lemma cli_builder_fields: "cli_builder b \<Longrightarrow> b_cli_mode b \<and> b_max_retries b = Some 0"
  by (auto simp: cli_builder_def set_cli_mode_def from_env_def Let_def)

text \<open>
  A client in CLI mode, set by the builder or by the environment, makes one attempt: with the token it was built with, a call sends at
  most one request, whatever the answer, and never sleeps; a sealed Vault is reported at once.
\<close>

lemma cli_mode_single_request:
  assumes "build x b = Ok (c, tok, br)" and "cli_builder b" and "b_token b \<noteq> None"
    and "clone_faithful (cl_env c)" and "token s = tok" and "\<not> token_poisoned s"
  shows "\<exists>r s' es. execute c m path body s = (r, s') \<and> trace s' = trace s @ es
    \<and> length (requests es) \<le> 1 \<and> sleeps es = []
    \<and> (\<forall>resp. answers es = [Inr resp] \<and> rs_status resp = 503 \<longrightarrow> (\<exists>url. r = Err (Sealed url)))"
proof -
  have ex: "execute c m path body s = execute_raw c m path body s"
    by (rule static_token_execute [OF assms(1,3,5,6)])
  have mx: "max_retries (config c) = 0"
    by (rule build_ok [OF assms(1)]) (simp add: cli_builder_fields [OF assms(2)] or_default_def)
  show ?thesis
  proof (rule execute_raw_cases [OF assms(4), of m path body s], goal_cases)
    case (1 e s')
    then show ?case by (intro exI [of _ "Err e"] exI [of _ s'] exI [of _ "[]"]) (simp add: ex)
  next
    case (2 url es r s')
    have "length (requests es) = 1" "sleeps es = []"
      using retry_trace_length [OF 2(5)] retry_trace_nonempty [OF 2(5)] retry_trace_sleeps [OF 2(5)] mx
      by (cases "answers es"; simp add: length_answers [symmetric])+
    then show ?case
      using 2(1,4) retry_trace_result [OF 2(5)]
      by (intro exI [of _ r] exI [of _ s'] exI [of _ es]) (auto simp: ex answer_outcome_def)
  qed
qed

text \<open>
  Leaving CLI mode does not restore the retries: after \<open>cli_mode(true)\<close> and then
  \<open>cli_mode(false)\<close> the client retries nothing, whatever number of retries was set before, while
  it again treats a sealed Vault as worth retrying.
\<close>

lemma cli_mode_not_restored:
  assumes "build x (set_cli_mode False (set_cli_mode True b)) = Ok (c, tok, br)"
  shows "max_retries (config c) = 0 \<and> retry_on_sealed (config c)"
  using assms by (rule build_ok) (simp add: set_cli_mode_def or_default_def)

text \<open>
  C33: The token file: without \<open>VAULT_TOKEN\<close>, a token written to \<open>~/.vault-token\<close> between any
  Unicode white space, such as the newline of \<open>vault login\<close>, is the builder's token exactly, if it
  starts and ends with a visible ASCII character; a file of white space gives none, and
  \<open>VAULT_TOKEN\<close>, even empty, wins over the file.
\<close>

theorem token_file_roundtrip:
  assumes "p_home p = Some home" and "p_text p (path_join home ''.vault-token'') = Some (concat us @ t @ concat vs)"
    and "set us \<subseteq> set whitespace" and "set vs \<subseteq> set whitespace"
    and "t = [] \<or> visible (hd t) \<and> visible (last t)"
  shows "b_token (from_env p) =
    (case p_var p ''VAULT_TOKEN'' of
       Some v \<Rightarrow> Some (Secret v)
     | None \<Rightarrow> if t = [] then None else Some (Secret t))"
proof -
  have "trim (concat us @ t @ concat vs) = t"
  proof (cases "t = []")
    case True
    have "trim_start whitespace (concat (us @ vs) @ []) = []"
      using assms(3,4) by (subst trim_start_concat) (auto simp: ws_code_whitespace)
    then show ?thesis by (simp add: True trim_def trim_end_def)
  qed (use assms(3-5) trim_visible in blast)
  then show ?thesis
    using assms(1,2) by (auto simp: from_env_def Let_def read_vault_token_file_def split: option.split)
qed

definition example_process :: process where
  "example_process =
     \<lparr>p_var = (\<lambda>_. None), p_file = (\<lambda>_. None),
      p_text = (\<lambda>f. if f = ''/root/.vault-token'' then Some (''hvs.x'' @ [char_of (10 :: nat)]) else None),
      p_home = Some ''/root''\<rparr>"

theorem token_file_roundtrip_witness:
  "b_token (from_env example_process :: script builder) = Some (Secret ''hvs.x'')"
proof -
  have f: "p_home example_process = Some ''/root''"
    "p_text example_process (path_join ''/root'' ''.vault-token'') = Some (concat [] @ ''hvs.x'' @ concat [[char_of (10 :: nat)]])"
    by (simp_all add: example_process_def path_join_def ends_with_def)
  have "set [[char_of (10 :: nat)]] \<subseteq> set whitespace" by (simp add: whitespace_def)
  from token_file_roundtrip [OF f _ this] show ?thesis
    by (simp add: visible_def example_process_def)
qed

text \<open>What becomes of the address, for any client that is built.\<close>

lemma built_url:
  assumes "build x b = Ok (c, tok, br)" and "b_address b = Some addr" and "x_parse x addr = Inr u"
  shows "base_url c = (if ends_with (x_path x u) ''/'' then u else x_set_path x u (x_path x u @ ''/''))"
  by (rule build_ok [OF assms(1)]) (use assms(2,3) in auto)

text \<open>Whether a builder is accepted does not depend on its address, as long as that parses.\<close>

lemma build_accepts:
  assumes "b_address b = Some addr" and "x_parse x addr = Inr u"
    and "is_ok (build x (set_address addr' b))"
  shows "\<exists>c tok br. build x b = Ok (c, tok, br)"
proof (cases "build x (set_address addr' b)")
  case (Ok r)
  then show ?thesis
    using assms(1,2) by (cases b) (auto simp: build_def set_address_def ok_or_def Let_def then_ok_Ok split: sum.splits option.splits)
qed (use assms(3) in simp_all)

text \<open>
  C40: An address with a query or a fragment is accepted, like any other that parses, and misdirects
  every call: the client appends the path of a call to the whole text of its base URL, so that the
  part of the URL before the query (or fragment) is that of the base URL for every path. The law on
  \<open>set_path\<close> is the url crate's: it changes the path only, and so leaves the query where it is.
\<close>

theorem address_query_swallows_path:
  assumes "b_address b = Some addr" and "x_parse x addr = Inr u" and "d \<in> {CHR ''?'', CHR ''#''}" and "d \<in> set u"
    and "\<And>p. d \<in> set (x_set_path x u p)" and "is_ok (build x (set_address addr' b))"
  shows "\<exists>c tok br. build x b = Ok (c, tok, br)
    \<and> (\<forall>path. takeWhile (\<lambda>y. y \<noteq> d) (url_string c path) = takeWhile (\<lambda>y. y \<noteq> d) (base_url c))
    \<and> (ends_with (x_path x u) ''/'' \<longrightarrow> base_url c = u)"
proof -
  obtain c tok br where b: "build x b = Ok (c, tok, br)" using build_accepts [OF assms(1,2,6)] by blast
  have "d \<in> set (base_url c)" using built_url [OF b assms(1,2)] assms(4,5) by simp
  then show ?thesis
    using b built_url [OF b assms(1,2)] by (auto simp: url_string_def takeWhile_append1)
qed

theorem address_query_swallows_path_witness:
  "\<exists>c tok br. build (script_crates\<lparr>x_path := (\<lambda>_. ''/base''), x_set_path := (\<lambda>_ p. ''http://vault:8200'' @ p @ ''?x=1'')\<rparr>)
       (set_address ''http://vault:8200/base?x=1'' builder_default) = Ok (c, tok, br)
     \<and> takeWhile (\<lambda>y. y \<noteq> CHR ''?'') (url_string c ''sys/mounts'') = takeWhile (\<lambda>y. y \<noteq> CHR ''?'') (base_url c)"
proof -
  let ?x = "script_crates\<lparr>x_path := (\<lambda>_. ''/base''), x_set_path := (\<lambda>_ p. ''http://vault:8200'' @ p @ ''?x=1'')\<rparr>"
  let ?b = "set_address ''http://vault:8200/base?x=1'' builder_default"
  have "is_ok (build ?x (set_address ''http://vault:8200'' ?b))"
    by (simp add: build_def set_address_def builder_default_def ok_or_def Let_def build_reqwest_client_def ends_with_def)
  then show ?thesis
    using address_query_swallows_path [of ?b "''http://vault:8200/base?x=1''" ?x "''http://vault:8200/base?x=1''"
        "CHR ''?''" "''http://vault:8200''"]
    by (auto simp: set_address_def)
qed

end
