(* ===== verification/Blocking.thy ===== *)
theory Blocking
  imports Api_Calls Builder
begin

text \<open>
  The blocking client: \<open>BlockingVaultClient\<close> and its builder (\<open>client/blocking_client.rs\<close>) and the
  blocking handlers of \<open>blocking/mod.rs\<close>. A client or handler is its asynchronous counterpart with a
  single-threaded runtime; an operation drives the asynchronous one to its end on the runtime.
  The runtime is of the tokio crate and is a parameter: it says with which message, if any, its
  \<open>block_on\<close> panics on a thread that is (\<open>nested\<close>) or is not itself inside a runtime. Its documentation,
  which the comments of the client repeat, is \<open>documented_runtime\<close>: it panics inside a runtime only.
\<close>

section \<open>Runtime\<close>

type_synonym runtime = "bool \<Rightarrow> string option"

record 'h blocking =
  bl_inner :: 'h
  bl_rt :: runtime

definition dbg_blocking_client :: "'w client blocking \<Rightarrow> dbg" where
  "dbg_blocking_client b = DStruct ''BlockingVaultClient'' [(''inner'', dbg_vault_client (bl_inner b))]"

named_theorems blocking_defs

definition documented_runtime :: "runtime \<Rightarrow> bool" where
  "documented_runtime rt \<longleftrightarrow> rt False = None \<and> rt True \<noteq> None"

definition block_on :: "runtime \<Rightarrow> bool \<Rightarrow> ('w, 'a) io \<Rightarrow> ('w, 'a) io" where
  "block_on rt nested m = (case rt nested of None \<Rightarrow> m | Some p \<Rightarrow> lift_io (Panic p))"

lemma block_on_void: "void (block_on rt nested m) = block_on rt nested (void m)"
  by (simp add: block_on_def void_def split: option.split)

section \<open>Client and builder\<close>

datatype 'w blocking_builder = BlockingClientBuilder (async_builder: "'w builder")

definition blk_builder :: "'w blocking_builder" where
  "blk_builder = BlockingClientBuilder builder_default"

definition blk_builder_from_env :: "process \<Rightarrow> 'w blocking_builder" where
  "blk_builder_from_env p = BlockingClientBuilder (from_env p)"

definition blk_builder_address :: "string \<Rightarrow> 'w blocking_builder \<Rightarrow> 'w blocking_builder" where
  "blk_builder_address addr b = BlockingClientBuilder (set_address addr (async_builder b))"

definition blk_builder_token :: "secret \<Rightarrow> 'w blocking_builder \<Rightarrow> 'w blocking_builder" where
  "blk_builder_token t b = BlockingClientBuilder (builder_token t (async_builder b))"

definition blk_builder_token_str :: "string \<Rightarrow> 'w blocking_builder \<Rightarrow> 'w blocking_builder" where
  "blk_builder_token_str t b = blk_builder_token (Secret t) b"

definition blk_builder_namespace :: "string \<Rightarrow> 'w blocking_builder \<Rightarrow> 'w blocking_builder" where
  "blk_builder_namespace ns b = BlockingClientBuilder (set_namespace ns (async_builder b))"

definition blk_builder_timeout :: "nat \<Rightarrow> 'w blocking_builder \<Rightarrow> 'w blocking_builder" where
  "blk_builder_timeout d b = BlockingClientBuilder (set_timeout d (async_builder b))"

definition blk_builder_max_retries :: "nat \<Rightarrow> 'w blocking_builder \<Rightarrow> 'w blocking_builder" where
  "blk_builder_max_retries n b = BlockingClientBuilder (set_max_retries n (async_builder b))"

definition blk_builder_initial_retry_delay :: "nat \<Rightarrow> 'w blocking_builder \<Rightarrow> 'w blocking_builder" where
  "blk_builder_initial_retry_delay d b = BlockingClientBuilder (set_initial_retry_delay d (async_builder b))"

definition blk_builder_wrap_ttl :: "string \<Rightarrow> 'w blocking_builder \<Rightarrow> 'w blocking_builder" where
  "blk_builder_wrap_ttl ttl b = BlockingClientBuilder (set_wrap_ttl ttl (async_builder b))"

definition blk_builder_forward_to_leader :: "bool \<Rightarrow> 'w blocking_builder \<Rightarrow> 'w blocking_builder" where
  "blk_builder_forward_to_leader yes b = BlockingClientBuilder (set_forward_to_leader yes (async_builder b))"

definition blk_builder_cli_mode :: "bool \<Rightarrow> 'w blocking_builder \<Rightarrow> 'w blocking_builder" where
  "blk_builder_cli_mode yes b = BlockingClientBuilder (set_cli_mode yes (async_builder b))"

definition blk_builder_danger_disable_tls_verify :: "bool \<Rightarrow> 'w blocking_builder \<Rightarrow> 'w blocking_builder" where
  "blk_builder_danger_disable_tls_verify yes b = BlockingClientBuilder (danger_disable_tls_verify yes (async_builder b))"

definition blk_builder_ca_cert_pem :: "string \<Rightarrow> 'w blocking_builder \<Rightarrow> 'w blocking_builder" where
  "blk_builder_ca_cert_pem pem b = BlockingClientBuilder (set_ca_cert_pem pem (async_builder b))"

definition blk_builder_client_cert_pem :: "string \<Rightarrow> string \<Rightarrow> 'w blocking_builder \<Rightarrow> 'w blocking_builder" where
  "blk_builder_client_cert_pem cert key b = BlockingClientBuilder (set_client_cert_pem cert key (async_builder b))"

definition blk_builder_auth_method :: "('w client \<Rightarrow> ('w, auth_info) io) \<Rightarrow> 'w blocking_builder \<Rightarrow> 'w blocking_builder" where
  "blk_builder_auth_method run b = BlockingClientBuilder (set_auth_method run (async_builder b))"

definition blk_builder_circuit_breaker :: "cb_config \<Rightarrow> 'w blocking_builder \<Rightarrow> 'w blocking_builder" where
  "blk_builder_circuit_breaker cfg b = BlockingClientBuilder (set_circuit_breaker cfg (async_builder b))"

definition blk_builder_on_token_changed :: "'w blocking_builder \<Rightarrow> 'w blocking_builder" where
  "blk_builder_on_token_changed b = BlockingClientBuilder (on_token_changed (async_builder b))"

definition blk_builder_with_reqwest_client :: "'w env \<Rightarrow> 'w blocking_builder \<Rightarrow> 'w blocking_builder" where
  "blk_builder_with_reqwest_client http b = BlockingClientBuilder (with_reqwest_client http (async_builder b))"

text \<open>\<open>rt\<close> is the result of building the runtime: the text of the error or the runtime.\<close>

definition blk_build :: "bool \<Rightarrow> string + runtime \<Rightarrow> 'w crates \<Rightarrow> 'w blocking_builder \<Rightarrow>
    ('w client blocking \<times> token_state option \<times> circuit_breaker option) outcome" where
  "blk_build nested rt x b =
     (if nested then Err (Config (''BlockingVaultClient cannot be created inside a Tokio runtime. ''
        @ ''Reason: BlockingVaultClient spawns its own single-threaded Tokio runtime, ''
        @ ''and nested runtimes are not supported. ''
        @ ''Fix: use VaultClient (async) with .await, or call ''
        @ ''BlockingVaultClient::new() from a std::thread outside the existing runtime.''))
      else then_ok (build x (async_builder b)) (\<lambda>(c, tok, br).
        case rt of
          Inr runtime \<Rightarrow> Ok (\<lparr>bl_inner = c, bl_rt = runtime\<rparr>, tok, br)
        | Inl e \<Rightarrow> Err (Config (''tokio runtime: '' @ e))))"

definition blk_new :: "bool \<Rightarrow> string + runtime \<Rightarrow> 'w crates \<Rightarrow> string \<Rightarrow> string \<Rightarrow>
    ('w client blocking \<times> token_state option \<times> circuit_breaker option) outcome" where
  "blk_new nested rt x addr t =
     blk_build nested rt x (blk_builder_token_str t (blk_builder_address addr blk_builder))"

definition blk_from_env :: "bool \<Rightarrow> string + runtime \<Rightarrow> 'w crates \<Rightarrow> process \<Rightarrow>
    ('w client blocking \<times> token_state option \<times> circuit_breaker option) outcome" where
  "blk_from_env nested rt x p = blk_build nested rt x (blk_builder_from_env p)"

definition blk_set_token :: "secret \<Rightarrow> ('w, unit) io" where
  "blk_set_token t = set_token t"

definition blk_with_namespace :: "'w client blocking \<Rightarrow> string \<Rightarrow> 'w client blocking" where
  "blk_with_namespace c ns = \<lparr>bl_inner = with_namespace (bl_inner c) ns, bl_rt = bl_rt c\<rparr>"

definition blk_with_wrap_ttl :: "'w client blocking \<Rightarrow> string \<Rightarrow> 'w client blocking" where
  "blk_with_wrap_ttl c ttl = \<lparr>bl_inner = with_wrap_ttl (bl_inner c) ttl, bl_rt = bl_rt c\<rparr>"

section \<open>Accessors\<close>

definition blk_cubbyhole :: "'w client blocking \<Rightarrow> string \<Rightarrow> 'w handler blocking" where
  [blocking_defs]: "blk_cubbyhole c mount = \<lparr>bl_inner = cubbyhole (bl_inner c) mount, bl_rt = bl_rt c\<rparr>"

definition blk_kv1 :: "'w client blocking \<Rightarrow> string \<Rightarrow> 'w handler blocking" where
  [blocking_defs]: "blk_kv1 c mount = \<lparr>bl_inner = kv1 (bl_inner c) mount, bl_rt = bl_rt c\<rparr>"

definition blk_kv2 :: "'w client blocking \<Rightarrow> string \<Rightarrow> 'w handler blocking" where
  [blocking_defs]: "blk_kv2 c mount = \<lparr>bl_inner = kv2 (bl_inner c) mount, bl_rt = bl_rt c\<rparr>"

definition blk_transit :: "'w client blocking \<Rightarrow> string \<Rightarrow> 'w handler blocking" where
  [blocking_defs]: "blk_transit c mount = \<lparr>bl_inner = transit (bl_inner c) mount, bl_rt = bl_rt c\<rparr>"

definition blk_pki :: "'w client blocking \<Rightarrow> string \<Rightarrow> 'w handler blocking" where
  [blocking_defs]: "blk_pki c mount = \<lparr>bl_inner = pki (bl_inner c) mount, bl_rt = bl_rt c\<rparr>"

definition blk_database :: "'w client blocking \<Rightarrow> string \<Rightarrow> 'w handler blocking" where
  [blocking_defs]: "blk_database c mount = \<lparr>bl_inner = database (bl_inner c) mount, bl_rt = bl_rt c\<rparr>"

definition blk_ssh :: "'w client blocking \<Rightarrow> string \<Rightarrow> 'w handler blocking" where
  [blocking_defs]: "blk_ssh c mount = \<lparr>bl_inner = ssh (bl_inner c) mount, bl_rt = bl_rt c\<rparr>"

definition blk_aws_secrets :: "'w client blocking \<Rightarrow> string \<Rightarrow> 'w handler blocking" where
  [blocking_defs]: "blk_aws_secrets c mount = \<lparr>bl_inner = aws_secrets (bl_inner c) mount, bl_rt = bl_rt c\<rparr>"

definition blk_totp :: "'w client blocking \<Rightarrow> string \<Rightarrow> 'w handler blocking" where
  [blocking_defs]: "blk_totp c mount = \<lparr>bl_inner = totp (bl_inner c) mount, bl_rt = bl_rt c\<rparr>"

definition blk_consul_secrets :: "'w client blocking \<Rightarrow> string \<Rightarrow> 'w handler blocking" where
  [blocking_defs]: "blk_consul_secrets c mount = \<lparr>bl_inner = consul_secrets (bl_inner c) mount, bl_rt = bl_rt c\<rparr>"

definition blk_nomad_secrets :: "'w client blocking \<Rightarrow> string \<Rightarrow> 'w handler blocking" where
  [blocking_defs]: "blk_nomad_secrets c mount = \<lparr>bl_inner = nomad_secrets (bl_inner c) mount, bl_rt = bl_rt c\<rparr>"

definition blk_azure_secrets :: "'w client blocking \<Rightarrow> string \<Rightarrow> 'w handler blocking" where
  [blocking_defs]: "blk_azure_secrets c mount = \<lparr>bl_inner = azure_secrets (bl_inner c) mount, bl_rt = bl_rt c\<rparr>"

definition blk_gcp_secrets :: "'w client blocking \<Rightarrow> string \<Rightarrow> 'w handler blocking" where
  [blocking_defs]: "blk_gcp_secrets c mount = \<lparr>bl_inner = gcp_secrets (bl_inner c) mount, bl_rt = bl_rt c\<rparr>"

definition blk_rabbitmq :: "'w client blocking \<Rightarrow> string \<Rightarrow> 'w handler blocking" where
  [blocking_defs]: "blk_rabbitmq c mount = \<lparr>bl_inner = rabbitmq (bl_inner c) mount, bl_rt = bl_rt c\<rparr>"

definition blk_terraform_cloud :: "'w client blocking \<Rightarrow> string \<Rightarrow> 'w handler blocking" where
  [blocking_defs]: "blk_terraform_cloud c mount = \<lparr>bl_inner = terraform_cloud (bl_inner c) mount, bl_rt = bl_rt c\<rparr>"

definition blk_identity :: "'w client blocking \<Rightarrow> 'w client blocking" where
  [blocking_defs]: "blk_identity c = \<lparr>bl_inner = bl_inner c, bl_rt = bl_rt c\<rparr>"

definition blk_sys :: "'w client blocking \<Rightarrow> 'w client blocking" where
  [blocking_defs]: "blk_sys c = \<lparr>bl_inner = bl_inner c, bl_rt = bl_rt c\<rparr>"

definition blk_auth :: "'w client blocking \<Rightarrow> 'w client blocking" where
  [blocking_defs]: "blk_auth c = \<lparr>bl_inner = bl_inner c, bl_rt = bl_rt c\<rparr>"

definition blk_auth_token :: "'w client blocking \<Rightarrow> 'w client blocking" where
  [blocking_defs]: "blk_auth_token c = \<lparr>bl_inner = bl_inner c, bl_rt = bl_rt c\<rparr>"

definition blk_auth_approle :: "'w client blocking \<Rightarrow> 'w handler blocking" where
  [blocking_defs]: "blk_auth_approle c = \<lparr>bl_inner = approle_default (bl_inner c), bl_rt = bl_rt c\<rparr>"

definition blk_auth_approle_at :: "'w client blocking \<Rightarrow> string \<Rightarrow> 'w handler blocking" where
  [blocking_defs]: "blk_auth_approle_at c mount = \<lparr>bl_inner = approle_at (bl_inner c) mount, bl_rt = bl_rt c\<rparr>"

definition blk_auth_kubernetes :: "'w client blocking \<Rightarrow> 'w handler blocking" where
  [blocking_defs]: "blk_auth_kubernetes c = \<lparr>bl_inner = kubernetes_default (bl_inner c), bl_rt = bl_rt c\<rparr>"

definition blk_auth_kubernetes_at :: "'w client blocking \<Rightarrow> string \<Rightarrow> 'w handler blocking" where
  [blocking_defs]: "blk_auth_kubernetes_at c mount = \<lparr>bl_inner = kubernetes_at (bl_inner c) mount, bl_rt = bl_rt c\<rparr>"

definition blk_auth_userpass :: "'w client blocking \<Rightarrow> 'w handler blocking" where
  [blocking_defs]: "blk_auth_userpass c = \<lparr>bl_inner = userpass_default (bl_inner c), bl_rt = bl_rt c\<rparr>"

definition blk_auth_userpass_at :: "'w client blocking \<Rightarrow> string \<Rightarrow> 'w handler blocking" where
  [blocking_defs]: "blk_auth_userpass_at c mount = \<lparr>bl_inner = userpass_at (bl_inner c) mount, bl_rt = bl_rt c\<rparr>"

definition blk_auth_ldap :: "'w client blocking \<Rightarrow> 'w handler blocking" where
  [blocking_defs]: "blk_auth_ldap c = \<lparr>bl_inner = ldap_default (bl_inner c), bl_rt = bl_rt c\<rparr>"

definition blk_auth_ldap_at :: "'w client blocking \<Rightarrow> string \<Rightarrow> 'w handler blocking" where
  [blocking_defs]: "blk_auth_ldap_at c mount = \<lparr>bl_inner = ldap_at (bl_inner c) mount, bl_rt = bl_rt c\<rparr>"

definition blk_auth_cert :: "'w client blocking \<Rightarrow> 'w handler blocking" where
  [blocking_defs]: "blk_auth_cert c = \<lparr>bl_inner = cert_default (bl_inner c), bl_rt = bl_rt c\<rparr>"

definition blk_auth_cert_at :: "'w client blocking \<Rightarrow> string \<Rightarrow> 'w handler blocking" where
  [blocking_defs]: "blk_auth_cert_at c mount = \<lparr>bl_inner = cert_at (bl_inner c) mount, bl_rt = bl_rt c\<rparr>"

definition blk_auth_github :: "'w client blocking \<Rightarrow> 'w handler blocking" where
  [blocking_defs]: "blk_auth_github c = \<lparr>bl_inner = github_default (bl_inner c), bl_rt = bl_rt c\<rparr>"

definition blk_auth_github_at :: "'w client blocking \<Rightarrow> string \<Rightarrow> 'w handler blocking" where
  [blocking_defs]: "blk_auth_github_at c mount = \<lparr>bl_inner = github_at (bl_inner c) mount, bl_rt = bl_rt c\<rparr>"

definition blk_auth_oidc :: "'w client blocking \<Rightarrow> 'w handler blocking" where
  [blocking_defs]: "blk_auth_oidc c = \<lparr>bl_inner = oidc_default (bl_inner c), bl_rt = bl_rt c\<rparr>"

definition blk_auth_oidc_at :: "'w client blocking \<Rightarrow> string \<Rightarrow> 'w handler blocking" where
  [blocking_defs]: "blk_auth_oidc_at c mount = \<lparr>bl_inner = oidc_at (bl_inner c) mount, bl_rt = bl_rt c\<rparr>"

definition blk_auth_jwt :: "'w client blocking \<Rightarrow> 'w handler blocking" where
  [blocking_defs]: "blk_auth_jwt c = blk_auth_oidc_at c ''jwt''"

definition blk_auth_jwt_at :: "'w client blocking \<Rightarrow> string \<Rightarrow> 'w handler blocking" where
  [blocking_defs]: "blk_auth_jwt_at c mount = blk_auth_oidc_at c mount"

definition blk_auth_aws :: "'w client blocking \<Rightarrow> 'w handler blocking" where
  [blocking_defs]: "blk_auth_aws c = \<lparr>bl_inner = aws_default (bl_inner c), bl_rt = bl_rt c\<rparr>"

definition blk_auth_aws_at :: "'w client blocking \<Rightarrow> string \<Rightarrow> 'w handler blocking" where
  [blocking_defs]: "blk_auth_aws_at c mount = \<lparr>bl_inner = aws_at (bl_inner c) mount, bl_rt = bl_rt c\<rparr>"

definition blk_auth_azure :: "'w client blocking \<Rightarrow> 'w handler blocking" where
  [blocking_defs]: "blk_auth_azure c = \<lparr>bl_inner = azure_default (bl_inner c), bl_rt = bl_rt c\<rparr>"

definition blk_auth_azure_at :: "'w client blocking \<Rightarrow> string \<Rightarrow> 'w handler blocking" where
  [blocking_defs]: "blk_auth_azure_at c mount = \<lparr>bl_inner = azure_at (bl_inner c) mount, bl_rt = bl_rt c\<rparr>"

definition blk_auth_gcp :: "'w client blocking \<Rightarrow> 'w handler blocking" where
  [blocking_defs]: "blk_auth_gcp c = \<lparr>bl_inner = gcp_default (bl_inner c), bl_rt = bl_rt c\<rparr>"

definition blk_auth_gcp_at :: "'w client blocking \<Rightarrow> string \<Rightarrow> 'w handler blocking" where
  [blocking_defs]: "blk_auth_gcp_at c mount = \<lparr>bl_inner = gcp_at (bl_inner c) mount, bl_rt = bl_rt c\<rparr>"

definition blk_auth_radius :: "'w client blocking \<Rightarrow> 'w handler blocking" where
  [blocking_defs]: "blk_auth_radius c = \<lparr>bl_inner = radius_default (bl_inner c), bl_rt = bl_rt c\<rparr>"

definition blk_auth_radius_at :: "'w client blocking \<Rightarrow> string \<Rightarrow> 'w handler blocking" where
  [blocking_defs]: "blk_auth_radius_at c mount = \<lparr>bl_inner = radius_at (bl_inner c) mount, bl_rt = bl_rt c\<rparr>"

definition blk_auth_kerberos :: "'w client blocking \<Rightarrow> 'w handler blocking" where
  [blocking_defs]: "blk_auth_kerberos c = \<lparr>bl_inner = kerberos_default (bl_inner c), bl_rt = bl_rt c\<rparr>"

definition blk_auth_kerberos_at :: "'w client blocking \<Rightarrow> string \<Rightarrow> 'w handler blocking" where
  [blocking_defs]: "blk_auth_kerberos_at c mount = \<lparr>bl_inner = kerberos_at (bl_inner c) mount, bl_rt = bl_rt c\<rparr>"

section \<open>Generic escape hatch\<close>

definition blk_read ::
  "'w client blocking \<Rightarrow> bool \<Rightarrow> (json \<Rightarrow> 'a option)
     \<Rightarrow> string \<Rightarrow> ('w, 'a) io" where
  "blk_read h nested d path =
     block_on (bl_rt h) nested (read (bl_inner h) d path)"

definition blk_read_raw ::
  "'w client blocking \<Rightarrow> bool \<Rightarrow> string \<Rightarrow> ('w, json
     vault_response) io" where
  "blk_read_raw h nested path =
     block_on (bl_rt h) nested (read_raw (bl_inner h) path)"

definition blk_write_data ::
  "'w client blocking \<Rightarrow> bool \<Rightarrow> (json \<Rightarrow> 'a option)
     \<Rightarrow> string \<Rightarrow> serial \<Rightarrow> ('w, 'a vault_response) io" where
  "blk_write_data h nested d path dat =
     block_on (bl_rt h) nested (write_data (bl_inner h) d path dat)"

definition blk_delete ::
  "'w client blocking \<Rightarrow> bool \<Rightarrow> string \<Rightarrow> ('w, unit) io" where
  "blk_delete h nested path =
     block_on (bl_rt h) nested (delete (bl_inner h) path)"

definition blk_list_keys ::
  "'w client blocking \<Rightarrow> bool \<Rightarrow> string \<Rightarrow> ('w, string list)
     io" where
  "blk_list_keys h nested path =
     block_on (bl_rt h) nested (list_keys (bl_inner h) path)"

section \<open>CubbyholeHandler\<close>

definition blk_cubbyhole_read ::
  "'w handler blocking \<Rightarrow> bool \<Rightarrow> (json \<Rightarrow> 'a option)
     \<Rightarrow> string \<Rightarrow> ('w, 'a) io" where
  "blk_cubbyhole_read h nested d path =
     block_on (bl_rt h) nested (cubbyhole_read (bl_inner h) d path)"

definition blk_cubbyhole_write ::
  "'w handler blocking \<Rightarrow> bool \<Rightarrow> string \<Rightarrow> json \<Rightarrow>
     ('w, unit) io" where
  "blk_cubbyhole_write h nested path dat =
     block_on (bl_rt h) nested (cubbyhole_write (bl_inner h) path dat)"

definition blk_cubbyhole_delete ::
  "'w handler blocking \<Rightarrow> bool \<Rightarrow> string \<Rightarrow> ('w, unit) io" where
  "blk_cubbyhole_delete h nested path =
     block_on (bl_rt h) nested (cubbyhole_delete (bl_inner h) path)"

definition blk_cubbyhole_list ::
  "'w handler blocking \<Rightarrow> bool \<Rightarrow> string \<Rightarrow> ('w, string list)
     io" where
  "blk_cubbyhole_list h nested path =
     block_on (bl_rt h) nested (cubbyhole_list (bl_inner h) path)"

section \<open>Kv1Handler\<close>

definition blk_kv1_read ::
  "'w handler blocking \<Rightarrow> bool \<Rightarrow> (json \<Rightarrow> 'a option)
     \<Rightarrow> string \<Rightarrow> ('w, 'a) io" where
  "blk_kv1_read h nested d path =
     block_on (bl_rt h) nested (kv1_read (bl_inner h) d path)"

definition blk_kv1_write_serialize ::
  "'w handler blocking \<Rightarrow> bool \<Rightarrow> string \<Rightarrow> serial
     \<Rightarrow> ('w, unit) io" where
  "blk_kv1_write_serialize h nested path dat =
     block_on (bl_rt h) nested (kv1_write_serialize (bl_inner h) path dat)"

definition blk_kv1_delete ::
  "'w handler blocking \<Rightarrow> bool \<Rightarrow> string \<Rightarrow> ('w, unit) io" where
  "blk_kv1_delete h nested path =
     block_on (bl_rt h) nested (kv1_delete (bl_inner h) path)"

definition blk_kv1_list ::
  "'w handler blocking \<Rightarrow> bool \<Rightarrow> string \<Rightarrow> ('w, string list)
     io" where
  "blk_kv1_list h nested path =
     block_on (bl_rt h) nested (kv1_list (bl_inner h) path)"

section \<open>Kv2Handler\<close>

definition blk_kv2_read_config ::
  "'w handler blocking \<Rightarrow> bool \<Rightarrow> ('w, kv_config) io" where
  "blk_kv2_read_config h nested =
     block_on (bl_rt h) nested (kv2_read_config (bl_inner h))"

definition blk_kv2_write_config ::
  "'w handler blocking \<Rightarrow> bool \<Rightarrow> kv_config \<Rightarrow> ('w, unit) io" where
  "blk_kv2_write_config h nested cfg =
     block_on (bl_rt h) nested (kv2_write_config (bl_inner h) cfg)"

definition blk_kv2_read ::
  "'w handler blocking \<Rightarrow> bool \<Rightarrow> (json \<Rightarrow> 'a option)
     \<Rightarrow> string \<Rightarrow> ('w, 'a kv_read_response) io" where
  "blk_kv2_read h nested d path =
     block_on (bl_rt h) nested (kv2_read (bl_inner h) d path)"

definition blk_kv2_read_data ::
  "'w handler blocking \<Rightarrow> bool \<Rightarrow> (json \<Rightarrow> 'a option)
     \<Rightarrow> string \<Rightarrow> ('w, 'a) io" where
  "blk_kv2_read_data h nested d path =
     block_on (bl_rt h) nested (kv2_read_data (bl_inner h) d path)"

definition blk_kv2_read_version ::
  "'w handler blocking \<Rightarrow> bool \<Rightarrow> (json \<Rightarrow> 'a option)
     \<Rightarrow> string \<Rightarrow> nat \<Rightarrow> ('w, 'a kv_read_response) io" where
  "blk_kv2_read_version h nested d path version =
     block_on (bl_rt h) nested (kv2_read_version (bl_inner h) d path version)"

definition blk_kv2_write_serialize ::
  "'w handler blocking \<Rightarrow> bool \<Rightarrow> string \<Rightarrow> serial
     \<Rightarrow> ('w, kv_metadata) io" where
  "blk_kv2_write_serialize h nested path dat =
     block_on (bl_rt h) nested (kv2_write_serialize (bl_inner h) path dat)"

definition blk_kv2_write_cas_serialize ::
  "'w handler blocking \<Rightarrow> bool \<Rightarrow> string \<Rightarrow> serial
     \<Rightarrow> nat \<Rightarrow> ('w, kv_metadata) io" where
  "blk_kv2_write_cas_serialize h nested path dat cas =
     block_on (bl_rt h) nested (kv2_write_cas_serialize (bl_inner h) path dat cas)"

definition blk_kv2_patch_serialize ::
  "'w handler blocking \<Rightarrow> bool \<Rightarrow> string \<Rightarrow> serial
     \<Rightarrow> ('w, kv_metadata) io" where
  "blk_kv2_patch_serialize h nested path dat =
     block_on (bl_rt h) nested (kv2_patch_serialize (bl_inner h) path dat)"

definition blk_kv2_list ::
  "'w handler blocking \<Rightarrow> bool \<Rightarrow> string \<Rightarrow> ('w, string list)
     io" where
  "blk_kv2_list h nested path =
     block_on (bl_rt h) nested (kv2_list (bl_inner h) path)"

definition blk_kv2_delete ::
  "'w handler blocking \<Rightarrow> bool \<Rightarrow> string \<Rightarrow> ('w, unit) io" where
  "blk_kv2_delete h nested path =
     block_on (bl_rt h) nested (kv2_delete (bl_inner h) path)"

definition blk_kv2_delete_versions ::
  "'w handler blocking \<Rightarrow> bool \<Rightarrow> string \<Rightarrow> nat list
     \<Rightarrow> ('w, unit) io" where
  "blk_kv2_delete_versions h nested path versions =
     block_on (bl_rt h) nested (kv2_delete_versions (bl_inner h) path versions)"

definition blk_kv2_undelete_versions ::
  "'w handler blocking \<Rightarrow> bool \<Rightarrow> string \<Rightarrow> nat list
     \<Rightarrow> ('w, unit) io" where
  "blk_kv2_undelete_versions h nested path versions =
     block_on (bl_rt h) nested (kv2_undelete_versions (bl_inner h) path versions)"

definition blk_kv2_destroy_versions ::
  "'w handler blocking \<Rightarrow> bool \<Rightarrow> string \<Rightarrow> nat list
     \<Rightarrow> ('w, unit) io" where
  "blk_kv2_destroy_versions h nested path versions =
     block_on (bl_rt h) nested (kv2_destroy_versions (bl_inner h) path versions)"

definition blk_kv2_read_metadata ::
  "'w handler blocking \<Rightarrow> bool \<Rightarrow> string \<Rightarrow> ('w,
     kv_full_metadata) io" where
  "blk_kv2_read_metadata h nested path =
     block_on (bl_rt h) nested (kv2_read_metadata (bl_inner h) path)"

definition blk_kv2_write_metadata ::
  "'w handler blocking \<Rightarrow> bool \<Rightarrow> string \<Rightarrow> kv_metadata_params
     \<Rightarrow> ('w, unit) io" where
  "blk_kv2_write_metadata h nested path meta =
     block_on (bl_rt h) nested (kv2_write_metadata (bl_inner h) path meta)"

definition blk_kv2_patch_metadata ::
  "'w handler blocking \<Rightarrow> bool \<Rightarrow> string \<Rightarrow> kv_metadata_params
     \<Rightarrow> ('w, unit) io" where
  "blk_kv2_patch_metadata h nested path meta =
     block_on (bl_rt h) nested (kv2_patch_metadata (bl_inner h) path meta)"

definition blk_kv2_delete_metadata ::
  "'w handler blocking \<Rightarrow> bool \<Rightarrow> string \<Rightarrow> ('w, unit) io" where
  "blk_kv2_delete_metadata h nested path =
     block_on (bl_rt h) nested (kv2_delete_metadata (bl_inner h) path)"

definition blk_kv2_write_field ::
  "'w handler blocking \<Rightarrow> bool \<Rightarrow> string \<Rightarrow> string
     \<Rightarrow> string \<Rightarrow> ('w, kv_metadata) io" where
  "blk_kv2_write_field h nested path fl v =
     block_on (bl_rt h) nested (kv2_write_field (bl_inner h) path fl v)"

definition blk_kv2_read_field ::
  "'w handler blocking \<Rightarrow> bool \<Rightarrow> (json \<Rightarrow> string)
     \<Rightarrow> string \<Rightarrow> string \<Rightarrow> ('w, string) io" where
  "blk_kv2_read_field h nested print path fl =
     block_on (bl_rt h) nested (kv2_read_field (bl_inner h) print path fl)"

definition blk_kv2_read_string_data ::
  "'w handler blocking \<Rightarrow> bool \<Rightarrow> string \<Rightarrow> ('w, (string
     \<times> string) list) io" where
  "blk_kv2_read_string_data h nested path =
     block_on (bl_rt h) nested (kv2_read_string_data (bl_inner h) path)"

definition blk_kv2_read_subkeys ::
  "'w handler blocking \<Rightarrow> bool \<Rightarrow> string \<Rightarrow> nat option
     \<Rightarrow> ('w, json) io" where
  "blk_kv2_read_subkeys h nested path depth =
     block_on (bl_rt h) nested (kv2_read_subkeys (bl_inner h) path depth)"

section \<open>TransitHandler\<close>

definition blk_transit_create_key ::
  "'w handler blocking \<Rightarrow> bool \<Rightarrow> string \<Rightarrow> transit_key_params
     \<Rightarrow> ('w, unit) io" where
  "blk_transit_create_key h nested name params =
     block_on (bl_rt h) nested (transit_create_key (bl_inner h) name params)"

definition blk_transit_read_key ::
  "'w handler blocking \<Rightarrow> bool \<Rightarrow> string \<Rightarrow> ('w,
     transit_key_info) io" where
  "blk_transit_read_key h nested name =
     block_on (bl_rt h) nested (transit_read_key (bl_inner h) name)"

definition blk_transit_list_keys ::
  "'w handler blocking \<Rightarrow> bool \<Rightarrow> ('w, string list) io" where
  "blk_transit_list_keys h nested =
     block_on (bl_rt h) nested (transit_list_keys (bl_inner h))"

definition blk_transit_delete_key ::
  "'w handler blocking \<Rightarrow> bool \<Rightarrow> string \<Rightarrow> ('w, unit) io" where
  "blk_transit_delete_key h nested name =
     block_on (bl_rt h) nested (transit_delete_key (bl_inner h) name)"

definition blk_transit_update_key_config ::
  "'w handler blocking \<Rightarrow> bool \<Rightarrow> string \<Rightarrow> transit_key_config
     \<Rightarrow> ('w, unit) io" where
  "blk_transit_update_key_config h nested name cfg =
     block_on (bl_rt h) nested (transit_update_key_config (bl_inner h) name cfg)"

definition blk_transit_rotate_key ::
  "'w handler blocking \<Rightarrow> bool \<Rightarrow> string \<Rightarrow> ('w, unit) io" where
  "blk_transit_rotate_key h nested name =
     block_on (bl_rt h) nested (transit_rotate_key (bl_inner h) name)"

definition blk_transit_export_key ::
  "'w handler blocking \<Rightarrow> bool \<Rightarrow> string \<Rightarrow> string
     \<Rightarrow> nat option \<Rightarrow> ('w, transit_exported_key) io" where
  "blk_transit_export_key h nested name key_type version =
     block_on (bl_rt h) nested (transit_export_key (bl_inner h) name key_type version)"

definition blk_transit_encrypt ::
  "'w handler blocking \<Rightarrow> bool \<Rightarrow> (string \<Rightarrow> string)
     \<Rightarrow> string \<Rightarrow> secret \<Rightarrow> ('w, string) io" where
  "blk_transit_encrypt h nested b64 name plaintext =
     block_on (bl_rt h) nested (transit_encrypt (bl_inner h) b64 name plaintext)"

definition blk_transit_decrypt ::
  "'w handler blocking \<Rightarrow> bool \<Rightarrow> (string \<Rightarrow> string + string)
     \<Rightarrow> string \<Rightarrow> string \<Rightarrow> ('w, secret) io" where
  "blk_transit_decrypt h nested unb64 name ciphertext =
     block_on (bl_rt h) nested (transit_decrypt (bl_inner h) unb64 name ciphertext)"

definition blk_transit_rewrap ::
  "'w handler blocking \<Rightarrow> bool \<Rightarrow> string \<Rightarrow> string
     \<Rightarrow> ('w, string) io" where
  "blk_transit_rewrap h nested name ciphertext =
     block_on (bl_rt h) nested (transit_rewrap (bl_inner h) name ciphertext)"

definition blk_transit_batch_encrypt ::
  "'w handler blocking \<Rightarrow> bool \<Rightarrow> string \<Rightarrow>
     transit_batch_plaintext list \<Rightarrow> ('w, transit_batch_ciphertext list) io" where
  "blk_transit_batch_encrypt h nested name items =
     block_on (bl_rt h) nested (transit_batch_encrypt (bl_inner h) name items)"

definition blk_transit_batch_decrypt ::
  "'w handler blocking \<Rightarrow> bool \<Rightarrow> string \<Rightarrow>
     transit_batch_ciphertext list \<Rightarrow> ('w, transit_batch_decrypt_item list) io" where
  "blk_transit_batch_decrypt h nested name items =
     block_on (bl_rt h) nested (transit_batch_decrypt (bl_inner h) name items)"

definition blk_transit_sign ::
  "'w handler blocking \<Rightarrow> bool \<Rightarrow> (string \<Rightarrow> string)
     \<Rightarrow> string \<Rightarrow> string \<Rightarrow> transit_sign_params \<Rightarrow>
     ('w, string) io" where
  "blk_transit_sign h nested b64 name inp params =
     block_on (bl_rt h) nested (transit_sign (bl_inner h) b64 name inp params)"

definition blk_transit_verify ::
  "'w handler blocking \<Rightarrow> bool \<Rightarrow> (string \<Rightarrow> string)
     \<Rightarrow> string \<Rightarrow> string \<Rightarrow> string \<Rightarrow> ('w, bool) io" where
  "blk_transit_verify h nested b64 name inp signature =
     block_on (bl_rt h) nested (transit_verify (bl_inner h) b64 name inp signature)"

definition blk_transit_batch_sign ::
  "'w handler blocking \<Rightarrow> bool \<Rightarrow> string \<Rightarrow>
     transit_batch_sign_input list \<Rightarrow> transit_sign_params \<Rightarrow> ('w,
     transit_batch_sign_result list) io" where
  "blk_transit_batch_sign h nested name items params =
     block_on (bl_rt h) nested (transit_batch_sign (bl_inner h) name items params)"

definition blk_transit_batch_verify ::
  "'w handler blocking \<Rightarrow> bool \<Rightarrow> string \<Rightarrow>
     transit_batch_verify_input list \<Rightarrow> ('w, transit_batch_verify_result list) io" where
  "blk_transit_batch_verify h nested name items =
     block_on (bl_rt h) nested (transit_batch_verify (bl_inner h) name items)"

definition blk_transit_hash ::
  "'w handler blocking \<Rightarrow> bool \<Rightarrow> (string \<Rightarrow> string)
     \<Rightarrow> string \<Rightarrow> string \<Rightarrow> ('w, string) io" where
  "blk_transit_hash h nested b64 inp algorithm =
     block_on (bl_rt h) nested (transit_hash (bl_inner h) b64 inp algorithm)"

definition blk_transit_hmac ::
  "'w handler blocking \<Rightarrow> bool \<Rightarrow> (string \<Rightarrow> string)
     \<Rightarrow> string \<Rightarrow> string \<Rightarrow> string \<Rightarrow> ('w, string) io" where
  "blk_transit_hmac h nested b64 name inp algorithm =
     block_on (bl_rt h) nested (transit_hmac (bl_inner h) b64 name inp algorithm)"

definition blk_transit_random ::
  "'w handler blocking \<Rightarrow> bool \<Rightarrow> nat \<Rightarrow> string \<Rightarrow>
     ('w, string) io" where
  "blk_transit_random h nested num_bytes fmt =
     block_on (bl_rt h) nested (transit_random (bl_inner h) num_bytes fmt)"

definition blk_transit_generate_data_key ::
  "'w handler blocking \<Rightarrow> bool \<Rightarrow> string \<Rightarrow> string
     \<Rightarrow> ('w, transit_data_key) io" where
  "blk_transit_generate_data_key h nested name key_type =
     block_on (bl_rt h) nested (transit_generate_data_key (bl_inner h) name key_type)"

definition blk_transit_trim_key ::
  "'w handler blocking \<Rightarrow> bool \<Rightarrow> string \<Rightarrow> nat \<Rightarrow>
     ('w, unit) io" where
  "blk_transit_trim_key h nested name min_version =
     block_on (bl_rt h) nested (transit_trim_key (bl_inner h) name min_version)"

definition blk_transit_backup_key ::
  "'w handler blocking \<Rightarrow> bool \<Rightarrow> string \<Rightarrow> ('w, secret) io" where
  "blk_transit_backup_key h nested name =
     block_on (bl_rt h) nested (transit_backup_key (bl_inner h) name)"

definition blk_transit_restore_key ::
  "'w handler blocking \<Rightarrow> bool \<Rightarrow> string \<Rightarrow> secret
     \<Rightarrow> ('w, unit) io" where
  "blk_transit_restore_key h nested name backup =
     block_on (bl_rt h) nested (transit_restore_key (bl_inner h) name backup)"

definition blk_transit_read_cache_config ::
  "'w handler blocking \<Rightarrow> bool \<Rightarrow> ('w, transit_cache_config) io" where
  "blk_transit_read_cache_config h nested =
     block_on (bl_rt h) nested (transit_read_cache_config (bl_inner h))"

definition blk_transit_write_cache_config ::
  "'w handler blocking \<Rightarrow> bool \<Rightarrow> nat \<Rightarrow> ('w, unit) io" where
  "blk_transit_write_cache_config h nested sz =
     block_on (bl_rt h) nested (transit_write_cache_config (bl_inner h) sz)"

section \<open>PkiHandler\<close>

definition blk_pki_generate_root ::
  "'w handler blocking \<Rightarrow> bool \<Rightarrow> pki_root_params \<Rightarrow> ('w,
     pki_certificate) io" where
  "blk_pki_generate_root h nested params =
     block_on (bl_rt h) nested (pki_generate_root (bl_inner h) params)"

definition blk_pki_generate_intermediate_csr ::
  "'w handler blocking \<Rightarrow> bool \<Rightarrow> pki_intermediate_params \<Rightarrow>
     ('w, pki_csr) io" where
  "blk_pki_generate_intermediate_csr h nested params =
     block_on (bl_rt h) nested (pki_generate_intermediate_csr (bl_inner h) params)"

definition blk_pki_set_signed_intermediate ::
  "'w handler blocking \<Rightarrow> bool \<Rightarrow> string \<Rightarrow> ('w,
     pki_import_result) io" where
  "blk_pki_set_signed_intermediate h nested certificate =
     block_on (bl_rt h) nested (pki_set_signed_intermediate (bl_inner h) certificate)"

definition blk_pki_delete_root ::
  "'w handler blocking \<Rightarrow> bool \<Rightarrow> ('w, unit) io" where
  "blk_pki_delete_root h nested =
     block_on (bl_rt h) nested (pki_delete_root (bl_inner h))"

definition blk_pki_list_issuers ::
  "'w handler blocking \<Rightarrow> bool \<Rightarrow> ('w, string list) io" where
  "blk_pki_list_issuers h nested =
     block_on (bl_rt h) nested (pki_list_issuers (bl_inner h))"

definition blk_pki_read_issuer ::
  "'w handler blocking \<Rightarrow> bool \<Rightarrow> string \<Rightarrow> ('w,
     pki_issuer_info) io" where
  "blk_pki_read_issuer h nested issuer_ref =
     block_on (bl_rt h) nested (pki_read_issuer (bl_inner h) issuer_ref)"

definition blk_pki_update_issuer ::
  "'w handler blocking \<Rightarrow> bool \<Rightarrow> string \<Rightarrow>
     pki_issuer_update_params \<Rightarrow> ('w, pki_issuer_info) io" where
  "blk_pki_update_issuer h nested issuer_ref params =
     block_on (bl_rt h) nested (pki_update_issuer (bl_inner h) issuer_ref params)"

definition blk_pki_delete_issuer ::
  "'w handler blocking \<Rightarrow> bool \<Rightarrow> string \<Rightarrow> ('w, unit) io" where
  "blk_pki_delete_issuer h nested issuer_ref =
     block_on (bl_rt h) nested (pki_delete_issuer (bl_inner h) issuer_ref)"

definition blk_pki_create_role ::
  "'w handler blocking \<Rightarrow> bool \<Rightarrow> string \<Rightarrow> pki_role_params
     \<Rightarrow> ('w, unit) io" where
  "blk_pki_create_role h nested name params =
     block_on (bl_rt h) nested (pki_create_role (bl_inner h) name params)"

definition blk_pki_read_role ::
  "'w handler blocking \<Rightarrow> bool \<Rightarrow> string \<Rightarrow> ('w, pki_role) io" where
  "blk_pki_read_role h nested name =
     block_on (bl_rt h) nested (pki_read_role (bl_inner h) name)"

definition blk_pki_list_roles ::
  "'w handler blocking \<Rightarrow> bool \<Rightarrow> ('w, string list) io" where
  "blk_pki_list_roles h nested =
     block_on (bl_rt h) nested (pki_list_roles (bl_inner h))"

definition blk_pki_delete_role ::
  "'w handler blocking \<Rightarrow> bool \<Rightarrow> string \<Rightarrow> ('w, unit) io" where
  "blk_pki_delete_role h nested name =
     block_on (bl_rt h) nested (pki_delete_role (bl_inner h) name)"

definition blk_pki_issue ::
  "'w handler blocking \<Rightarrow> bool \<Rightarrow> string \<Rightarrow> pki_issue_params
     \<Rightarrow> ('w, pki_issued_cert) io" where
  "blk_pki_issue h nested role params =
     block_on (bl_rt h) nested (pki_issue (bl_inner h) role params)"

definition blk_pki_sign ::
  "'w handler blocking \<Rightarrow> bool \<Rightarrow> string \<Rightarrow> pki_sign_params
     \<Rightarrow> ('w, pki_signed_cert) io" where
  "blk_pki_sign h nested role params =
     block_on (bl_rt h) nested (pki_sign (bl_inner h) role params)"

definition blk_pki_sign_verbatim ::
  "'w handler blocking \<Rightarrow> bool \<Rightarrow> string \<Rightarrow> string
     \<Rightarrow> ('w, pki_signed_cert) io" where
  "blk_pki_sign_verbatim h nested role csr =
     block_on (bl_rt h) nested (pki_sign_verbatim (bl_inner h) role csr)"

definition blk_pki_list_certs ::
  "'w handler blocking \<Rightarrow> bool \<Rightarrow> ('w, string list) io" where
  "blk_pki_list_certs h nested =
     block_on (bl_rt h) nested (pki_list_certs (bl_inner h))"

definition blk_pki_read_cert ::
  "'w handler blocking \<Rightarrow> bool \<Rightarrow> string \<Rightarrow> ('w,
     pki_certificate_entry) io" where
  "blk_pki_read_cert h nested serial =
     block_on (bl_rt h) nested (pki_read_cert (bl_inner h) serial)"

definition blk_pki_set_urls ::
  "'w handler blocking \<Rightarrow> bool \<Rightarrow> pki_urls_config \<Rightarrow> ('w,
     unit) io" where
  "blk_pki_set_urls h nested cfg =
     block_on (bl_rt h) nested (pki_set_urls (bl_inner h) cfg)"

definition blk_pki_read_urls ::
  "'w handler blocking \<Rightarrow> bool \<Rightarrow> ('w, pki_urls_config) io" where
  "blk_pki_read_urls h nested =
     block_on (bl_rt h) nested (pki_read_urls (bl_inner h))"

definition blk_pki_revoke ::
  "'w handler blocking \<Rightarrow> bool \<Rightarrow> string \<Rightarrow> ('w,
     pki_revocation_info) io" where
  "blk_pki_revoke h nested serial =
     block_on (bl_rt h) nested (pki_revoke (bl_inner h) serial)"

definition blk_pki_revoke_with_key ::
  "'w handler blocking \<Rightarrow> bool \<Rightarrow> string \<Rightarrow> secret
     \<Rightarrow> ('w, pki_revocation_info) io" where
  "blk_pki_revoke_with_key h nested serial private_key =
     block_on (bl_rt h) nested (pki_revoke_with_key (bl_inner h) serial private_key)"

definition blk_pki_rotate_crl ::
  "'w handler blocking \<Rightarrow> bool \<Rightarrow> ('w, unit) io" where
  "blk_pki_rotate_crl h nested =
     block_on (bl_rt h) nested (pki_rotate_crl (bl_inner h))"

definition blk_pki_tidy ::
  "'w handler blocking \<Rightarrow> bool \<Rightarrow> pki_tidy_params \<Rightarrow> ('w,
     unit) io" where
  "blk_pki_tidy h nested params =
     block_on (bl_rt h) nested (pki_tidy (bl_inner h) params)"

definition blk_pki_tidy_status ::
  "'w handler blocking \<Rightarrow> bool \<Rightarrow> ('w, pki_tidy_status) io" where
  "blk_pki_tidy_status h nested =
     block_on (bl_rt h) nested (pki_tidy_status (bl_inner h))"

definition blk_pki_cross_sign_intermediate ::
  "'w handler blocking \<Rightarrow> bool \<Rightarrow> pki_cross_sign_request \<Rightarrow>
     ('w, pki_certificate) io" where
  "blk_pki_cross_sign_intermediate h nested params =
     block_on (bl_rt h) nested (pki_cross_sign_intermediate (bl_inner h) params)"

definition blk_pki_read_acme_config ::
  "'w handler blocking \<Rightarrow> bool \<Rightarrow> ('w, pki_acme_config) io" where
  "blk_pki_read_acme_config h nested =
     block_on (bl_rt h) nested (pki_read_acme_config (bl_inner h))"

definition blk_pki_write_acme_config ::
  "'w handler blocking \<Rightarrow> bool \<Rightarrow> pki_acme_config \<Rightarrow> ('w,
     unit) io" where
  "blk_pki_write_acme_config h nested cfg =
     block_on (bl_rt h) nested (pki_write_acme_config (bl_inner h) cfg)"

definition blk_pki_rotate_delta_crl ::
  "'w handler blocking \<Rightarrow> bool \<Rightarrow> ('w, unit) io" where
  "blk_pki_rotate_delta_crl h nested =
     block_on (bl_rt h) nested (pki_rotate_delta_crl (bl_inner h))"

definition blk_pki_read_crl ::
  "'w handler blocking \<Rightarrow> bool \<Rightarrow> ('w, string) io" where
  "blk_pki_read_crl h nested =
     block_on (bl_rt h) nested (pki_read_crl (bl_inner h))"

definition blk_pki_read_crl_delta ::
  "'w handler blocking \<Rightarrow> bool \<Rightarrow> ('w, string) io" where
  "blk_pki_read_crl_delta h nested =
     block_on (bl_rt h) nested (pki_read_crl_delta (bl_inner h))"

section \<open>DatabaseHandler\<close>

definition blk_database_configure ::
  "'w handler blocking \<Rightarrow> bool \<Rightarrow> string \<Rightarrow>
     database_config_request \<Rightarrow> ('w, unit) io" where
  "blk_database_configure h nested name params =
     block_on (bl_rt h) nested (database_configure (bl_inner h) name params)"

definition blk_database_read_config ::
  "'w handler blocking \<Rightarrow> bool \<Rightarrow> string \<Rightarrow> ('w,
     database_config) io" where
  "blk_database_read_config h nested name =
     block_on (bl_rt h) nested (database_read_config (bl_inner h) name)"

definition blk_database_delete_config ::
  "'w handler blocking \<Rightarrow> bool \<Rightarrow> string \<Rightarrow> ('w, unit) io" where
  "blk_database_delete_config h nested name =
     block_on (bl_rt h) nested (database_delete_config (bl_inner h) name)"

definition blk_database_list_connections ::
  "'w handler blocking \<Rightarrow> bool \<Rightarrow> ('w, string list) io" where
  "blk_database_list_connections h nested =
     block_on (bl_rt h) nested (database_list_connections (bl_inner h))"

definition blk_database_reset_connection ::
  "'w handler blocking \<Rightarrow> bool \<Rightarrow> string \<Rightarrow> ('w, unit) io" where
  "blk_database_reset_connection h nested name =
     block_on (bl_rt h) nested (database_reset_connection (bl_inner h) name)"

definition blk_database_create_role ::
  "'w handler blocking \<Rightarrow> bool \<Rightarrow> string \<Rightarrow>
     database_role_request \<Rightarrow> ('w, unit) io" where
  "blk_database_create_role h nested name params =
     block_on (bl_rt h) nested (database_create_role (bl_inner h) name params)"

definition blk_database_read_role ::
  "'w handler blocking \<Rightarrow> bool \<Rightarrow> string \<Rightarrow> ('w,
     database_role) io" where
  "blk_database_read_role h nested name =
     block_on (bl_rt h) nested (database_read_role (bl_inner h) name)"

definition blk_database_delete_role ::
  "'w handler blocking \<Rightarrow> bool \<Rightarrow> string \<Rightarrow> ('w, unit) io" where
  "blk_database_delete_role h nested name =
     block_on (bl_rt h) nested (database_delete_role (bl_inner h) name)"

definition blk_database_list_roles ::
  "'w handler blocking \<Rightarrow> bool \<Rightarrow> ('w, string list) io" where
  "blk_database_list_roles h nested =
     block_on (bl_rt h) nested (database_list_roles (bl_inner h))"

definition blk_database_get_credentials ::
  "'w handler blocking \<Rightarrow> bool \<Rightarrow> string \<Rightarrow> ('w,
     database_credentials) io" where
  "blk_database_get_credentials h nested role =
     block_on (bl_rt h) nested (database_get_credentials (bl_inner h) role)"

definition blk_database_create_static_role ::
  "'w handler blocking \<Rightarrow> bool \<Rightarrow> string \<Rightarrow>
     database_static_role_request \<Rightarrow> ('w, unit) io" where
  "blk_database_create_static_role h nested name params =
     block_on (bl_rt h) nested (database_create_static_role (bl_inner h) name params)"

definition blk_database_read_static_role ::
  "'w handler blocking \<Rightarrow> bool \<Rightarrow> string \<Rightarrow> ('w,
     database_static_role) io" where
  "blk_database_read_static_role h nested name =
     block_on (bl_rt h) nested (database_read_static_role (bl_inner h) name)"

definition blk_database_delete_static_role ::
  "'w handler blocking \<Rightarrow> bool \<Rightarrow> string \<Rightarrow> ('w, unit) io" where
  "blk_database_delete_static_role h nested name =
     block_on (bl_rt h) nested (database_delete_static_role (bl_inner h) name)"

definition blk_database_list_static_roles ::
  "'w handler blocking \<Rightarrow> bool \<Rightarrow> ('w, string list) io" where
  "blk_database_list_static_roles h nested =
     block_on (bl_rt h) nested (database_list_static_roles (bl_inner h))"

definition blk_database_get_static_credentials ::
  "'w handler blocking \<Rightarrow> bool \<Rightarrow> string \<Rightarrow> ('w,
     database_static_credentials) io" where
  "blk_database_get_static_credentials h nested name =
     block_on (bl_rt h) nested (database_get_static_credentials (bl_inner h) name)"

definition blk_database_rotate_static_role ::
  "'w handler blocking \<Rightarrow> bool \<Rightarrow> string \<Rightarrow> ('w, unit) io" where
  "blk_database_rotate_static_role h nested name =
     block_on (bl_rt h) nested (database_rotate_static_role (bl_inner h) name)"

section \<open>SshHandler\<close>

definition blk_ssh_configure_ca ::
  "'w handler blocking \<Rightarrow> bool \<Rightarrow> ssh_ca_config_request \<Rightarrow>
     ('w, unit) io" where
  "blk_ssh_configure_ca h nested params =
     block_on (bl_rt h) nested (ssh_configure_ca (bl_inner h) params)"

definition blk_ssh_read_public_key ::
  "'w handler blocking \<Rightarrow> bool \<Rightarrow> ('w, ssh_ca_public_key) io" where
  "blk_ssh_read_public_key h nested =
     block_on (bl_rt h) nested (ssh_read_public_key (bl_inner h))"

definition blk_ssh_delete_ca ::
  "'w handler blocking \<Rightarrow> bool \<Rightarrow> ('w, unit) io" where
  "blk_ssh_delete_ca h nested =
     block_on (bl_rt h) nested (ssh_delete_ca (bl_inner h))"

definition blk_ssh_create_role ::
  "'w handler blocking \<Rightarrow> bool \<Rightarrow> string \<Rightarrow> ssh_role_request
     \<Rightarrow> ('w, unit) io" where
  "blk_ssh_create_role h nested name params =
     block_on (bl_rt h) nested (ssh_create_role (bl_inner h) name params)"

definition blk_ssh_read_role ::
  "'w handler blocking \<Rightarrow> bool \<Rightarrow> string \<Rightarrow> ('w, ssh_role) io" where
  "blk_ssh_read_role h nested name =
     block_on (bl_rt h) nested (ssh_read_role (bl_inner h) name)"

definition blk_ssh_delete_role ::
  "'w handler blocking \<Rightarrow> bool \<Rightarrow> string \<Rightarrow> ('w, unit) io" where
  "blk_ssh_delete_role h nested name =
     block_on (bl_rt h) nested (ssh_delete_role (bl_inner h) name)"

definition blk_ssh_list_roles ::
  "'w handler blocking \<Rightarrow> bool \<Rightarrow> ('w, string list) io" where
  "blk_ssh_list_roles h nested =
     block_on (bl_rt h) nested (ssh_list_roles (bl_inner h))"

definition blk_ssh_sign_key ::
  "'w handler blocking \<Rightarrow> bool \<Rightarrow> string \<Rightarrow> ssh_sign_request
     \<Rightarrow> ('w, ssh_signed_key) io" where
  "blk_ssh_sign_key h nested role params =
     block_on (bl_rt h) nested (ssh_sign_key (bl_inner h) role params)"

definition blk_ssh_verify_otp ::
  "'w handler blocking \<Rightarrow> bool \<Rightarrow> ssh_verify_request \<Rightarrow> ('w,
     ssh_verify_response) io" where
  "blk_ssh_verify_otp h nested params =
     block_on (bl_rt h) nested (ssh_verify_otp (bl_inner h) params)"

section \<open>IdentityHandler\<close>

definition blk_identity_create_entity ::
  "'w client blocking \<Rightarrow> bool \<Rightarrow> entity_create_request \<Rightarrow> ('w,
     entity) io" where
  "blk_identity_create_entity h nested params =
     block_on (bl_rt h) nested (identity_create_entity (bl_inner h) params)"

definition blk_identity_read_entity ::
  "'w client blocking \<Rightarrow> bool \<Rightarrow> string \<Rightarrow> ('w, entity) io" where
  "blk_identity_read_entity h nested ident =
     block_on (bl_rt h) nested (identity_read_entity (bl_inner h) ident)"

definition blk_identity_read_entity_by_name ::
  "'w client blocking \<Rightarrow> bool \<Rightarrow> string \<Rightarrow> ('w, entity) io" where
  "blk_identity_read_entity_by_name h nested name =
     block_on (bl_rt h) nested (identity_read_entity_by_name (bl_inner h) name)"

definition blk_identity_update_entity ::
  "'w client blocking \<Rightarrow> bool \<Rightarrow> string \<Rightarrow>
     entity_create_request \<Rightarrow> ('w, unit) io" where
  "blk_identity_update_entity h nested ident params =
     block_on (bl_rt h) nested (identity_update_entity (bl_inner h) ident params)"

definition blk_identity_delete_entity ::
  "'w client blocking \<Rightarrow> bool \<Rightarrow> string \<Rightarrow> ('w, unit) io" where
  "blk_identity_delete_entity h nested ident =
     block_on (bl_rt h) nested (identity_delete_entity (bl_inner h) ident)"

definition blk_identity_list_entities ::
  "'w client blocking \<Rightarrow> bool \<Rightarrow> ('w, string list) io" where
  "blk_identity_list_entities h nested =
     block_on (bl_rt h) nested (identity_list_entities (bl_inner h))"

definition blk_identity_create_entity_alias ::
  "'w client blocking \<Rightarrow> bool \<Rightarrow> entity_alias_create_request
     \<Rightarrow> ('w, entity_alias_response) io" where
  "blk_identity_create_entity_alias h nested params =
     block_on (bl_rt h) nested (identity_create_entity_alias (bl_inner h) params)"

definition blk_identity_read_entity_alias ::
  "'w client blocking \<Rightarrow> bool \<Rightarrow> string \<Rightarrow> ('w,
     entity_alias_response) io" where
  "blk_identity_read_entity_alias h nested ident =
     block_on (bl_rt h) nested (identity_read_entity_alias (bl_inner h) ident)"

definition blk_identity_delete_entity_alias ::
  "'w client blocking \<Rightarrow> bool \<Rightarrow> string \<Rightarrow> ('w, unit) io" where
  "blk_identity_delete_entity_alias h nested ident =
     block_on (bl_rt h) nested (identity_delete_entity_alias (bl_inner h) ident)"

definition blk_identity_list_entity_aliases ::
  "'w client blocking \<Rightarrow> bool \<Rightarrow> ('w, string list) io" where
  "blk_identity_list_entity_aliases h nested =
     block_on (bl_rt h) nested (identity_list_entity_aliases (bl_inner h))"

definition blk_identity_create_group ::
  "'w client blocking \<Rightarrow> bool \<Rightarrow> group_create_request \<Rightarrow> ('w,
     group) io" where
  "blk_identity_create_group h nested params =
     block_on (bl_rt h) nested (identity_create_group (bl_inner h) params)"

definition blk_identity_read_group ::
  "'w client blocking \<Rightarrow> bool \<Rightarrow> string \<Rightarrow> ('w, group) io" where
  "blk_identity_read_group h nested ident =
     block_on (bl_rt h) nested (identity_read_group (bl_inner h) ident)"

definition blk_identity_read_group_by_name ::
  "'w client blocking \<Rightarrow> bool \<Rightarrow> string \<Rightarrow> ('w, group) io" where
  "blk_identity_read_group_by_name h nested name =
     block_on (bl_rt h) nested (identity_read_group_by_name (bl_inner h) name)"

definition blk_identity_update_group ::
  "'w client blocking \<Rightarrow> bool \<Rightarrow> string \<Rightarrow>
     group_create_request \<Rightarrow> ('w, unit) io" where
  "blk_identity_update_group h nested ident params =
     block_on (bl_rt h) nested (identity_update_group (bl_inner h) ident params)"

definition blk_identity_delete_group ::
  "'w client blocking \<Rightarrow> bool \<Rightarrow> string \<Rightarrow> ('w, unit) io" where
  "blk_identity_delete_group h nested ident =
     block_on (bl_rt h) nested (identity_delete_group (bl_inner h) ident)"

definition blk_identity_list_groups ::
  "'w client blocking \<Rightarrow> bool \<Rightarrow> ('w, string list) io" where
  "blk_identity_list_groups h nested =
     block_on (bl_rt h) nested (identity_list_groups (bl_inner h))"

definition blk_identity_create_group_alias ::
  "'w client blocking \<Rightarrow> bool \<Rightarrow> group_alias_create_request \<Rightarrow>
     ('w, group_alias_response) io" where
  "blk_identity_create_group_alias h nested params =
     block_on (bl_rt h) nested (identity_create_group_alias (bl_inner h) params)"

definition blk_identity_read_group_alias ::
  "'w client blocking \<Rightarrow> bool \<Rightarrow> string \<Rightarrow> ('w,
     group_alias_response) io" where
  "blk_identity_read_group_alias h nested ident =
     block_on (bl_rt h) nested (identity_read_group_alias (bl_inner h) ident)"

definition blk_identity_delete_group_alias ::
  "'w client blocking \<Rightarrow> bool \<Rightarrow> string \<Rightarrow> ('w, unit) io" where
  "blk_identity_delete_group_alias h nested ident =
     block_on (bl_rt h) nested (identity_delete_group_alias (bl_inner h) ident)"

definition blk_identity_list_group_aliases ::
  "'w client blocking \<Rightarrow> bool \<Rightarrow> ('w, string list) io" where
  "blk_identity_list_group_aliases h nested =
     block_on (bl_rt h) nested (identity_list_group_aliases (bl_inner h))"

section \<open>SysHandler\<close>

definition blk_sys_health ::
  "'w client blocking \<Rightarrow> bool \<Rightarrow> ('w, health_response) io" where
  "blk_sys_health h nested =
     block_on (bl_rt h) nested (sys_health (bl_inner h))"

definition blk_sys_leader ::
  "'w client blocking \<Rightarrow> bool \<Rightarrow> ('w, leader_response) io" where
  "blk_sys_leader h nested =
     block_on (bl_rt h) nested (sys_leader (bl_inner h))"

definition blk_sys_seal_status ::
  "'w client blocking \<Rightarrow> bool \<Rightarrow> ('w, seal_status) io" where
  "blk_sys_seal_status h nested =
     block_on (bl_rt h) nested (sys_seal_status (bl_inner h))"

definition blk_sys_seal ::
  "'w client blocking \<Rightarrow> bool \<Rightarrow> ('w, unit) io" where
  "blk_sys_seal h nested =
     block_on (bl_rt h) nested (sys_seal (bl_inner h))"

definition blk_sys_unseal ::
  "'w client blocking \<Rightarrow> bool \<Rightarrow> secret \<Rightarrow> ('w, seal_status)
     io" where
  "blk_sys_unseal h nested key =
     block_on (bl_rt h) nested (sys_unseal (bl_inner h) key)"

definition blk_sys_init ::
  "'w client blocking \<Rightarrow> bool \<Rightarrow> init_params \<Rightarrow> ('w,
     init_response) io" where
  "blk_sys_init h nested params =
     block_on (bl_rt h) nested (sys_init (bl_inner h) params)"

definition blk_sys_step_down ::
  "'w client blocking \<Rightarrow> bool \<Rightarrow> ('w, unit) io" where
  "blk_sys_step_down h nested =
     block_on (bl_rt h) nested (sys_step_down (bl_inner h))"

definition blk_sys_list_mounts ::
  "'w client blocking \<Rightarrow> bool \<Rightarrow> ('w, (string \<times> mount_info) list)
     io" where
  "blk_sys_list_mounts h nested =
     block_on (bl_rt h) nested (sys_list_mounts (bl_inner h))"

definition blk_sys_mount ::
  "'w client blocking \<Rightarrow> bool \<Rightarrow> string \<Rightarrow> mount_params
     \<Rightarrow> ('w, unit) io" where
  "blk_sys_mount h nested path params =
     block_on (bl_rt h) nested (sys_mount (bl_inner h) path params)"

definition blk_sys_unmount ::
  "'w client blocking \<Rightarrow> bool \<Rightarrow> string \<Rightarrow> ('w, unit) io" where
  "blk_sys_unmount h nested path =
     block_on (bl_rt h) nested (sys_unmount (bl_inner h) path)"

definition blk_sys_tune_mount ::
  "'w client blocking \<Rightarrow> bool \<Rightarrow> string \<Rightarrow> mount_tune_params
     \<Rightarrow> ('w, unit) io" where
  "blk_sys_tune_mount h nested path params =
     block_on (bl_rt h) nested (sys_tune_mount (bl_inner h) path params)"

definition blk_sys_read_mount_tune ::
  "'w client blocking \<Rightarrow> bool \<Rightarrow> string \<Rightarrow> ('w, mount_config)
     io" where
  "blk_sys_read_mount_tune h nested path =
     block_on (bl_rt h) nested (sys_read_mount_tune (bl_inner h) path)"

definition blk_sys_list_auth_mounts ::
  "'w client blocking \<Rightarrow> bool \<Rightarrow> ('w, (string \<times> auth_mount_info)
     list) io" where
  "blk_sys_list_auth_mounts h nested =
     block_on (bl_rt h) nested (sys_list_auth_mounts (bl_inner h))"

definition blk_sys_enable_auth ::
  "'w client blocking \<Rightarrow> bool \<Rightarrow> string \<Rightarrow> auth_mount_params
     \<Rightarrow> ('w, unit) io" where
  "blk_sys_enable_auth h nested path params =
     block_on (bl_rt h) nested (sys_enable_auth (bl_inner h) path params)"

definition blk_sys_disable_auth ::
  "'w client blocking \<Rightarrow> bool \<Rightarrow> string \<Rightarrow> ('w, unit) io" where
  "blk_sys_disable_auth h nested path =
     block_on (bl_rt h) nested (sys_disable_auth (bl_inner h) path)"

definition blk_sys_read_auth_tune ::
  "'w client blocking \<Rightarrow> bool \<Rightarrow> string \<Rightarrow> ('w, mount_config)
     io" where
  "blk_sys_read_auth_tune h nested path =
     block_on (bl_rt h) nested (sys_read_auth_tune (bl_inner h) path)"

definition blk_sys_list_policies ::
  "'w client blocking \<Rightarrow> bool \<Rightarrow> ('w, string list) io" where
  "blk_sys_list_policies h nested =
     block_on (bl_rt h) nested (sys_list_policies (bl_inner h))"

definition blk_sys_read_policy ::
  "'w client blocking \<Rightarrow> bool \<Rightarrow> string \<Rightarrow> ('w, policy_info)
     io" where
  "blk_sys_read_policy h nested name =
     block_on (bl_rt h) nested (sys_read_policy (bl_inner h) name)"

definition blk_sys_write_policy ::
  "'w client blocking \<Rightarrow> bool \<Rightarrow> string \<Rightarrow> string
     \<Rightarrow> ('w, unit) io" where
  "blk_sys_write_policy h nested name rules =
     block_on (bl_rt h) nested (sys_write_policy (bl_inner h) name rules)"

definition blk_sys_delete_policy ::
  "'w client blocking \<Rightarrow> bool \<Rightarrow> string \<Rightarrow> ('w, unit) io" where
  "blk_sys_delete_policy h nested name =
     block_on (bl_rt h) nested (sys_delete_policy (bl_inner h) name)"

definition blk_sys_read_lease ::
  "'w client blocking \<Rightarrow> bool \<Rightarrow> string \<Rightarrow> ('w, lease_info) io" where
  "blk_sys_read_lease h nested lease =
     block_on (bl_rt h) nested (sys_read_lease (bl_inner h) lease)"

definition blk_sys_renew_lease ::
  "'w client blocking \<Rightarrow> bool \<Rightarrow> string \<Rightarrow> string option
     \<Rightarrow> ('w, lease_renewal) io" where
  "blk_sys_renew_lease h nested lease increment =
     block_on (bl_rt h) nested (sys_renew_lease (bl_inner h) lease increment)"

definition blk_sys_revoke_lease ::
  "'w client blocking \<Rightarrow> bool \<Rightarrow> string \<Rightarrow> ('w, unit) io" where
  "blk_sys_revoke_lease h nested lease =
     block_on (bl_rt h) nested (sys_revoke_lease (bl_inner h) lease)"

definition blk_sys_revoke_prefix ::
  "'w client blocking \<Rightarrow> bool \<Rightarrow> string \<Rightarrow> ('w, unit) io" where
  "blk_sys_revoke_prefix h nested prefix =
     block_on (bl_rt h) nested (sys_revoke_prefix (bl_inner h) prefix)"

definition blk_sys_list_audit_devices ::
  "'w client blocking \<Rightarrow> bool \<Rightarrow> ('w, (string \<times> audit_device)
     list) io" where
  "blk_sys_list_audit_devices h nested =
     block_on (bl_rt h) nested (sys_list_audit_devices (bl_inner h))"

definition blk_sys_enable_audit ::
  "'w client blocking \<Rightarrow> bool \<Rightarrow> string \<Rightarrow> audit_params
     \<Rightarrow> ('w, unit) io" where
  "blk_sys_enable_audit h nested path params =
     block_on (bl_rt h) nested (sys_enable_audit (bl_inner h) path params)"

definition blk_sys_disable_audit ::
  "'w client blocking \<Rightarrow> bool \<Rightarrow> string \<Rightarrow> ('w, unit) io" where
  "blk_sys_disable_audit h nested path =
     block_on (bl_rt h) nested (sys_disable_audit (bl_inner h) path)"

definition blk_sys_unwrap ::
  "'w client blocking \<Rightarrow> bool \<Rightarrow> (json \<Rightarrow> 'a option)
     \<Rightarrow> secret \<Rightarrow> ('w, 'a) io" where
  "blk_sys_unwrap h nested d tok =
     block_on (bl_rt h) nested (sys_unwrap (bl_inner h) d tok)"

definition blk_sys_unwrap_str ::
  "'w client blocking \<Rightarrow> bool \<Rightarrow> (json \<Rightarrow> 'a option)
     \<Rightarrow> string \<Rightarrow> ('w, 'a) io" where
  "blk_sys_unwrap_str h nested d tok =
     block_on (bl_rt h) nested (sys_unwrap_str (bl_inner h) d tok)"

definition blk_sys_wrap_lookup ::
  "'w client blocking \<Rightarrow> bool \<Rightarrow> secret \<Rightarrow> ('w, wrap_info) io" where
  "blk_sys_wrap_lookup h nested tok =
     block_on (bl_rt h) nested (sys_wrap_lookup (bl_inner h) tok)"

definition blk_sys_capabilities ::
  "'w client blocking \<Rightarrow> bool \<Rightarrow> secret \<Rightarrow> string list
     \<Rightarrow> ('w, (string \<times> string list) list) io" where
  "blk_sys_capabilities h nested tok paths =
     block_on (bl_rt h) nested (sys_capabilities (bl_inner h) tok paths)"

definition blk_sys_capabilities_self ::
  "'w client blocking \<Rightarrow> bool \<Rightarrow> string list \<Rightarrow> ('w, (string
     \<times> string list) list) io" where
  "blk_sys_capabilities_self h nested paths =
     block_on (bl_rt h) nested (sys_capabilities_self (bl_inner h) paths)"

definition blk_sys_key_status ::
  "'w client blocking \<Rightarrow> bool \<Rightarrow> ('w, key_status) io" where
  "blk_sys_key_status h nested =
     block_on (bl_rt h) nested (sys_key_status (bl_inner h))"

definition blk_sys_rotate_encryption_key ::
  "'w client blocking \<Rightarrow> bool \<Rightarrow> ('w, unit) io" where
  "blk_sys_rotate_encryption_key h nested =
     block_on (bl_rt h) nested (sys_rotate_encryption_key (bl_inner h))"

definition blk_sys_list_plugins ::
  "'w client blocking \<Rightarrow> bool \<Rightarrow> string \<Rightarrow> ('w, string list)
     io" where
  "blk_sys_list_plugins h nested plugin_type =
     block_on (bl_rt h) nested (sys_list_plugins (bl_inner h) plugin_type)"

definition blk_sys_read_plugin ::
  "'w client blocking \<Rightarrow> bool \<Rightarrow> string \<Rightarrow> string
     \<Rightarrow> ('w, plugin_info) io" where
  "blk_sys_read_plugin h nested plugin_type name =
     block_on (bl_rt h) nested (sys_read_plugin (bl_inner h) plugin_type name)"

definition blk_sys_register_plugin ::
  "'w client blocking \<Rightarrow> bool \<Rightarrow> register_plugin_request \<Rightarrow>
     ('w, unit) io" where
  "blk_sys_register_plugin h nested params =
     block_on (bl_rt h) nested (sys_register_plugin (bl_inner h) params)"

definition blk_sys_deregister_plugin ::
  "'w client blocking \<Rightarrow> bool \<Rightarrow> string \<Rightarrow> string
     \<Rightarrow> ('w, unit) io" where
  "blk_sys_deregister_plugin h nested plugin_type name =
     block_on (bl_rt h) nested (sys_deregister_plugin (bl_inner h) plugin_type name)"

definition blk_sys_reload_plugin ::
  "'w client blocking \<Rightarrow> bool \<Rightarrow> string \<Rightarrow> ('w, unit) io" where
  "blk_sys_reload_plugin h nested plugin =
     block_on (bl_rt h) nested (sys_reload_plugin (bl_inner h) plugin)"

definition blk_sys_raft_config ::
  "'w client blocking \<Rightarrow> bool \<Rightarrow> ('w, raft_config) io" where
  "blk_sys_raft_config h nested =
     block_on (bl_rt h) nested (sys_raft_config (bl_inner h))"

definition blk_sys_raft_autopilot_state ::
  "'w client blocking \<Rightarrow> bool \<Rightarrow> ('w, autopilot_state) io" where
  "blk_sys_raft_autopilot_state h nested =
     block_on (bl_rt h) nested (sys_raft_autopilot_state (bl_inner h))"

definition blk_sys_raft_remove_peer ::
  "'w client blocking \<Rightarrow> bool \<Rightarrow> string \<Rightarrow> ('w, unit) io" where
  "blk_sys_raft_remove_peer h nested server_id =
     block_on (bl_rt h) nested (sys_raft_remove_peer (bl_inner h) server_id)"

definition blk_sys_raft_snapshot ::
  "'w client blocking \<Rightarrow> bool \<Rightarrow> ('w, string) io" where
  "blk_sys_raft_snapshot h nested =
     block_on (bl_rt h) nested (sys_raft_snapshot (bl_inner h))"

definition blk_sys_raft_snapshot_restore ::
  "'w client blocking \<Rightarrow> bool \<Rightarrow> string \<Rightarrow> ('w, unit) io" where
  "blk_sys_raft_snapshot_restore h nested snapshot =
     block_on (bl_rt h) nested (sys_raft_snapshot_restore (bl_inner h) snapshot)"

definition blk_sys_in_flight_requests ::
  "'w client blocking \<Rightarrow> bool \<Rightarrow> ('w, (string \<times> in_flight_request)
     list) io" where
  "blk_sys_in_flight_requests h nested =
     block_on (bl_rt h) nested (sys_in_flight_requests (bl_inner h))"

definition blk_sys_list_namespaces ::
  "'w client blocking \<Rightarrow> bool \<Rightarrow> ('w, string list) io" where
  "blk_sys_list_namespaces h nested =
     block_on (bl_rt h) nested (sys_list_namespaces (bl_inner h))"

definition blk_sys_create_namespace ::
  "'w client blocking \<Rightarrow> bool \<Rightarrow> string \<Rightarrow> ('w,
     namespace_info) io" where
  "blk_sys_create_namespace h nested path =
     block_on (bl_rt h) nested (sys_create_namespace (bl_inner h) path)"

definition blk_sys_delete_namespace ::
  "'w client blocking \<Rightarrow> bool \<Rightarrow> string \<Rightarrow> ('w, unit) io" where
  "blk_sys_delete_namespace h nested path =
     block_on (bl_rt h) nested (sys_delete_namespace (bl_inner h) path)"

definition blk_sys_list_rate_limit_quotas ::
  "'w client blocking \<Rightarrow> bool \<Rightarrow> ('w, string list) io" where
  "blk_sys_list_rate_limit_quotas h nested =
     block_on (bl_rt h) nested (sys_list_rate_limit_quotas (bl_inner h))"

definition blk_sys_read_rate_limit_quota ::
  "'w client blocking \<Rightarrow> bool \<Rightarrow> string \<Rightarrow> ('w,
     rate_limit_quota) io" where
  "blk_sys_read_rate_limit_quota h nested name =
     block_on (bl_rt h) nested (sys_read_rate_limit_quota (bl_inner h) name)"

definition blk_sys_write_rate_limit_quota ::
  "'w client blocking \<Rightarrow> bool \<Rightarrow> string \<Rightarrow>
     rate_limit_quota_request \<Rightarrow> ('w, unit) io" where
  "blk_sys_write_rate_limit_quota h nested name params =
     block_on (bl_rt h) nested (sys_write_rate_limit_quota (bl_inner h) name params)"

definition blk_sys_delete_rate_limit_quota ::
  "'w client blocking \<Rightarrow> bool \<Rightarrow> string \<Rightarrow> ('w, unit) io" where
  "blk_sys_delete_rate_limit_quota h nested name =
     block_on (bl_rt h) nested (sys_delete_rate_limit_quota (bl_inner h) name)"

definition blk_sys_rekey_init ::
  "'w client blocking \<Rightarrow> bool \<Rightarrow> rekey_init_request \<Rightarrow> ('w,
     rekey_status) io" where
  "blk_sys_rekey_init h nested params =
     block_on (bl_rt h) nested (sys_rekey_init (bl_inner h) params)"

definition blk_sys_rekey_status ::
  "'w client blocking \<Rightarrow> bool \<Rightarrow> ('w, rekey_status) io" where
  "blk_sys_rekey_status h nested =
     block_on (bl_rt h) nested (sys_rekey_status (bl_inner h))"

definition blk_sys_rekey_cancel ::
  "'w client blocking \<Rightarrow> bool \<Rightarrow> ('w, unit) io" where
  "blk_sys_rekey_cancel h nested =
     block_on (bl_rt h) nested (sys_rekey_cancel (bl_inner h))"

definition blk_sys_rekey_update ::
  "'w client blocking \<Rightarrow> bool \<Rightarrow> secret \<Rightarrow> string
     \<Rightarrow> ('w, rekey_status) io" where
  "blk_sys_rekey_update h nested key nonce =
     block_on (bl_rt h) nested (sys_rekey_update (bl_inner h) key nonce)"

definition blk_sys_generate_root_init ::
  "'w client blocking \<Rightarrow> bool \<Rightarrow> generate_root_init_request \<Rightarrow>
     ('w, generate_root_status) io" where
  "blk_sys_generate_root_init h nested params =
     block_on (bl_rt h) nested (sys_generate_root_init (bl_inner h) params)"

definition blk_sys_generate_root_status ::
  "'w client blocking \<Rightarrow> bool \<Rightarrow> ('w, generate_root_status) io" where
  "blk_sys_generate_root_status h nested =
     block_on (bl_rt h) nested (sys_generate_root_status (bl_inner h))"

definition blk_sys_generate_root_cancel ::
  "'w client blocking \<Rightarrow> bool \<Rightarrow> ('w, unit) io" where
  "blk_sys_generate_root_cancel h nested =
     block_on (bl_rt h) nested (sys_generate_root_cancel (bl_inner h))"

definition blk_sys_generate_root_update ::
  "'w client blocking \<Rightarrow> bool \<Rightarrow> secret \<Rightarrow> string
     \<Rightarrow> ('w, generate_root_status) io" where
  "blk_sys_generate_root_update h nested key nonce =
     block_on (bl_rt h) nested (sys_generate_root_update (bl_inner h) key nonce)"

definition blk_sys_remount ::
  "'w client blocking \<Rightarrow> bool \<Rightarrow> string \<Rightarrow> string
     \<Rightarrow> ('w, remount_status) io" where
  "blk_sys_remount h nested origin dest =
     block_on (bl_rt h) nested (sys_remount (bl_inner h) origin dest)"

definition blk_sys_metrics_json ::
  "'w client blocking \<Rightarrow> bool \<Rightarrow> ('w, json) io" where
  "blk_sys_metrics_json h nested =
     block_on (bl_rt h) nested (sys_metrics_json (bl_inner h))"

definition blk_sys_host_info ::
  "'w client blocking \<Rightarrow> bool \<Rightarrow> ('w, host_info) io" where
  "blk_sys_host_info h nested =
     block_on (bl_rt h) nested (sys_host_info (bl_inner h))"

definition blk_sys_internal_counters_activity ::
  "'w client blocking \<Rightarrow> bool \<Rightarrow> ('w, json) io" where
  "blk_sys_internal_counters_activity h nested =
     block_on (bl_rt h) nested (sys_internal_counters_activity (bl_inner h))"

definition blk_sys_version_history ::
  "'w client blocking \<Rightarrow> bool \<Rightarrow> ((string \<times> version_history_entry)
     list \<Rightarrow> (string \<times> version_history_entry) list) \<Rightarrow> ('w,
     version_history_entry list) io" where
  "blk_sys_version_history h nested iter =
     block_on (bl_rt h) nested (sys_version_history (bl_inner h) iter)"

definition blk_sys_rewrap ::
  "'w client blocking \<Rightarrow> bool \<Rightarrow> secret \<Rightarrow> ('w, wrap_info) io" where
  "blk_sys_rewrap h nested tok =
     block_on (bl_rt h) nested (sys_rewrap (bl_inner h) tok)"

section \<open>TokenAuthHandler\<close>

definition blk_token_auth_lookup_self ::
  "'w client blocking \<Rightarrow> bool \<Rightarrow> ('w, token_lookup_response) io" where
  "blk_token_auth_lookup_self h nested =
     block_on (bl_rt h) nested (token_auth_lookup_self (bl_inner h))"

definition blk_token_auth_lookup ::
  "'w client blocking \<Rightarrow> bool \<Rightarrow> secret \<Rightarrow> ('w,
     token_lookup_response) io" where
  "blk_token_auth_lookup h nested tok =
     block_on (bl_rt h) nested (token_auth_lookup (bl_inner h) tok)"

definition blk_token_auth_renew_self ::
  "'w client blocking \<Rightarrow> bool \<Rightarrow> string option \<Rightarrow> ('w,
     auth_info) io" where
  "blk_token_auth_renew_self h nested increment =
     block_on (bl_rt h) nested (token_auth_renew_self (bl_inner h) increment)"

definition blk_token_auth_create ::
  "'w client blocking \<Rightarrow> bool \<Rightarrow> token_create_request \<Rightarrow> ('w,
     auth_info) io" where
  "blk_token_auth_create h nested params =
     block_on (bl_rt h) nested (token_auth_create (bl_inner h) params)"

definition blk_token_auth_create_orphan ::
  "'w client blocking \<Rightarrow> bool \<Rightarrow> token_create_request \<Rightarrow> ('w,
     auth_info) io" where
  "blk_token_auth_create_orphan h nested params =
     block_on (bl_rt h) nested (token_auth_create_orphan (bl_inner h) params)"

definition blk_token_auth_revoke ::
  "'w client blocking \<Rightarrow> bool \<Rightarrow> secret \<Rightarrow> ('w, unit) io" where
  "blk_token_auth_revoke h nested tok =
     block_on (bl_rt h) nested (token_auth_revoke (bl_inner h) tok)"

definition blk_token_auth_revoke_self ::
  "'w client blocking \<Rightarrow> bool \<Rightarrow> ('w, unit) io" where
  "blk_token_auth_revoke_self h nested =
     block_on (bl_rt h) nested (token_auth_revoke_self (bl_inner h))"

definition blk_token_auth_revoke_accessor ::
  "'w client blocking \<Rightarrow> bool \<Rightarrow> string \<Rightarrow> ('w, unit) io" where
  "blk_token_auth_revoke_accessor h nested acc =
     block_on (bl_rt h) nested (token_auth_revoke_accessor (bl_inner h) acc)"

definition blk_token_auth_list_accessors ::
  "'w client blocking \<Rightarrow> bool \<Rightarrow> ('w, string list) io" where
  "blk_token_auth_list_accessors h nested =
     block_on (bl_rt h) nested (token_auth_list_accessors (bl_inner h))"

section \<open>AppRoleAuthHandler\<close>

definition blk_approle_auth_login ::
  "'w handler blocking \<Rightarrow> bool \<Rightarrow> string \<Rightarrow> secret
     \<Rightarrow> ('w, auth_info) io" where
  "blk_approle_auth_login h nested role_id secret_id =
     block_on (bl_rt h) nested (approle_auth_login (bl_inner h) role_id secret_id)"

definition blk_approle_auth_create_role ::
  "'w handler blocking \<Rightarrow> bool \<Rightarrow> string \<Rightarrow>
     app_role_create_request \<Rightarrow> ('w, unit) io" where
  "blk_approle_auth_create_role h nested name params =
     block_on (bl_rt h) nested (approle_auth_create_role (bl_inner h) name params)"

definition blk_approle_auth_read_role ::
  "'w handler blocking \<Rightarrow> bool \<Rightarrow> string \<Rightarrow> ('w,
     app_role_info) io" where
  "blk_approle_auth_read_role h nested name =
     block_on (bl_rt h) nested (approle_auth_read_role (bl_inner h) name)"

definition blk_approle_auth_delete_role ::
  "'w handler blocking \<Rightarrow> bool \<Rightarrow> string \<Rightarrow> ('w, unit) io" where
  "blk_approle_auth_delete_role h nested name =
     block_on (bl_rt h) nested (approle_auth_delete_role (bl_inner h) name)"

definition blk_approle_auth_list_roles ::
  "'w handler blocking \<Rightarrow> bool \<Rightarrow> ('w, string list) io" where
  "blk_approle_auth_list_roles h nested =
     block_on (bl_rt h) nested (approle_auth_list_roles (bl_inner h))"

definition blk_approle_auth_read_role_id ::
  "'w handler blocking \<Rightarrow> bool \<Rightarrow> string \<Rightarrow> ('w, string) io" where
  "blk_approle_auth_read_role_id h nested name =
     block_on (bl_rt h) nested (approle_auth_read_role_id (bl_inner h) name)"

definition blk_approle_auth_generate_secret_id ::
  "'w handler blocking \<Rightarrow> bool \<Rightarrow> string \<Rightarrow> ('w,
     app_role_secret_id_response) io" where
  "blk_approle_auth_generate_secret_id h nested name =
     block_on (bl_rt h) nested (approle_auth_generate_secret_id (bl_inner h) name)"

definition blk_approle_auth_destroy_secret_id ::
  "'w handler blocking \<Rightarrow> bool \<Rightarrow> string \<Rightarrow> secret
     \<Rightarrow> ('w, unit) io" where
  "blk_approle_auth_destroy_secret_id h nested name secret_id =
     block_on (bl_rt h) nested (approle_auth_destroy_secret_id (bl_inner h) name secret_id)"

section \<open>K8sAuthHandler\<close>

definition blk_kubernetes_auth_login ::
  "'w handler blocking \<Rightarrow> bool \<Rightarrow> string \<Rightarrow> secret
     \<Rightarrow> ('w, auth_info) io" where
  "blk_kubernetes_auth_login h nested role jwt =
     block_on (bl_rt h) nested (kubernetes_auth_login (bl_inner h) role jwt)"

definition blk_kubernetes_auth_configure ::
  "'w handler blocking \<Rightarrow> bool \<Rightarrow> k8s_auth_config_request \<Rightarrow>
     ('w, unit) io" where
  "blk_kubernetes_auth_configure h nested cfg =
     block_on (bl_rt h) nested (kubernetes_auth_configure (bl_inner h) cfg)"

definition blk_kubernetes_auth_create_role ::
  "'w handler blocking \<Rightarrow> bool \<Rightarrow> string \<Rightarrow>
     k8s_auth_role_request \<Rightarrow> ('w, unit) io" where
  "blk_kubernetes_auth_create_role h nested name params =
     block_on (bl_rt h) nested (kubernetes_auth_create_role (bl_inner h) name params)"

definition blk_kubernetes_auth_read_role ::
  "'w handler blocking \<Rightarrow> bool \<Rightarrow> string \<Rightarrow> ('w,
     k8s_auth_role_info) io" where
  "blk_kubernetes_auth_read_role h nested name =
     block_on (bl_rt h) nested (kubernetes_auth_read_role (bl_inner h) name)"

definition blk_kubernetes_auth_delete_role ::
  "'w handler blocking \<Rightarrow> bool \<Rightarrow> string \<Rightarrow> ('w, unit) io" where
  "blk_kubernetes_auth_delete_role h nested name =
     block_on (bl_rt h) nested (kubernetes_auth_delete_role (bl_inner h) name)"

definition blk_kubernetes_auth_list_roles ::
  "'w handler blocking \<Rightarrow> bool \<Rightarrow> ('w, string list) io" where
  "blk_kubernetes_auth_list_roles h nested =
     block_on (bl_rt h) nested (kubernetes_auth_list_roles (bl_inner h))"

section \<open>UserpassAuthHandler\<close>

definition blk_userpass_auth_login ::
  "'w handler blocking \<Rightarrow> bool \<Rightarrow> string \<Rightarrow> secret
     \<Rightarrow> ('w, auth_info) io" where
  "blk_userpass_auth_login h nested username password =
     block_on (bl_rt h) nested (userpass_auth_login (bl_inner h) username password)"

definition blk_userpass_auth_create_user ::
  "'w handler blocking \<Rightarrow> bool \<Rightarrow> string \<Rightarrow>
     userpass_user_request \<Rightarrow> ('w, unit) io" where
  "blk_userpass_auth_create_user h nested username params =
     block_on (bl_rt h) nested (userpass_auth_create_user (bl_inner h) username params)"

definition blk_userpass_auth_read_user ::
  "'w handler blocking \<Rightarrow> bool \<Rightarrow> string \<Rightarrow> ('w,
     userpass_user_info) io" where
  "blk_userpass_auth_read_user h nested username =
     block_on (bl_rt h) nested (userpass_auth_read_user (bl_inner h) username)"

definition blk_userpass_auth_delete_user ::
  "'w handler blocking \<Rightarrow> bool \<Rightarrow> string \<Rightarrow> ('w, unit) io" where
  "blk_userpass_auth_delete_user h nested username =
     block_on (bl_rt h) nested (userpass_auth_delete_user (bl_inner h) username)"

definition blk_userpass_auth_list_users ::
  "'w handler blocking \<Rightarrow> bool \<Rightarrow> ('w, string list) io" where
  "blk_userpass_auth_list_users h nested =
     block_on (bl_rt h) nested (userpass_auth_list_users (bl_inner h))"

definition blk_userpass_auth_update_password ::
  "'w handler blocking \<Rightarrow> bool \<Rightarrow> string \<Rightarrow> secret
     \<Rightarrow> ('w, unit) io" where
  "blk_userpass_auth_update_password h nested username password =
     block_on (bl_rt h) nested (userpass_auth_update_password (bl_inner h) username password)"

section \<open>LdapAuthHandler\<close>

definition blk_ldap_auth_login ::
  "'w handler blocking \<Rightarrow> bool \<Rightarrow> string \<Rightarrow> secret
     \<Rightarrow> ('w, auth_info) io" where
  "blk_ldap_auth_login h nested username password =
     block_on (bl_rt h) nested (ldap_auth_login (bl_inner h) username password)"

definition blk_ldap_auth_configure ::
  "'w handler blocking \<Rightarrow> bool \<Rightarrow> ldap_config_request \<Rightarrow> ('w,
     unit) io" where
  "blk_ldap_auth_configure h nested cfg =
     block_on (bl_rt h) nested (ldap_auth_configure (bl_inner h) cfg)"

definition blk_ldap_auth_read_config ::
  "'w handler blocking \<Rightarrow> bool \<Rightarrow> ('w, ldap_config) io" where
  "blk_ldap_auth_read_config h nested =
     block_on (bl_rt h) nested (ldap_auth_read_config (bl_inner h))"

definition blk_ldap_auth_write_group ::
  "'w handler blocking \<Rightarrow> bool \<Rightarrow> string \<Rightarrow> ldap_group_request
     \<Rightarrow> ('w, unit) io" where
  "blk_ldap_auth_write_group h nested name params =
     block_on (bl_rt h) nested (ldap_auth_write_group (bl_inner h) name params)"

definition blk_ldap_auth_read_group ::
  "'w handler blocking \<Rightarrow> bool \<Rightarrow> string \<Rightarrow> ('w, ldap_group)
     io" where
  "blk_ldap_auth_read_group h nested name =
     block_on (bl_rt h) nested (ldap_auth_read_group (bl_inner h) name)"

definition blk_ldap_auth_delete_group ::
  "'w handler blocking \<Rightarrow> bool \<Rightarrow> string \<Rightarrow> ('w, unit) io" where
  "blk_ldap_auth_delete_group h nested name =
     block_on (bl_rt h) nested (ldap_auth_delete_group (bl_inner h) name)"

definition blk_ldap_auth_list_groups ::
  "'w handler blocking \<Rightarrow> bool \<Rightarrow> ('w, string list) io" where
  "blk_ldap_auth_list_groups h nested =
     block_on (bl_rt h) nested (ldap_auth_list_groups (bl_inner h))"

definition blk_ldap_auth_write_user ::
  "'w handler blocking \<Rightarrow> bool \<Rightarrow> string \<Rightarrow> ldap_user_request
     \<Rightarrow> ('w, unit) io" where
  "blk_ldap_auth_write_user h nested name params =
     block_on (bl_rt h) nested (ldap_auth_write_user (bl_inner h) name params)"

definition blk_ldap_auth_read_user ::
  "'w handler blocking \<Rightarrow> bool \<Rightarrow> string \<Rightarrow> ('w, ldap_user) io" where
  "blk_ldap_auth_read_user h nested name =
     block_on (bl_rt h) nested (ldap_auth_read_user (bl_inner h) name)"

definition blk_ldap_auth_delete_user ::
  "'w handler blocking \<Rightarrow> bool \<Rightarrow> string \<Rightarrow> ('w, unit) io" where
  "blk_ldap_auth_delete_user h nested name =
     block_on (bl_rt h) nested (ldap_auth_delete_user (bl_inner h) name)"

definition blk_ldap_auth_list_users ::
  "'w handler blocking \<Rightarrow> bool \<Rightarrow> ('w, string list) io" where
  "blk_ldap_auth_list_users h nested =
     block_on (bl_rt h) nested (ldap_auth_list_users (bl_inner h))"

section \<open>CertAuthHandler\<close>

definition blk_cert_auth_login ::
  "'w handler blocking \<Rightarrow> bool \<Rightarrow> string option \<Rightarrow> ('w,
     auth_info) io" where
  "blk_cert_auth_login h nested name =
     block_on (bl_rt h) nested (cert_auth_login (bl_inner h) name)"

definition blk_cert_auth_create_role ::
  "'w handler blocking \<Rightarrow> bool \<Rightarrow> string \<Rightarrow> cert_role_request
     \<Rightarrow> ('w, unit) io" where
  "blk_cert_auth_create_role h nested name params =
     block_on (bl_rt h) nested (cert_auth_create_role (bl_inner h) name params)"

definition blk_cert_auth_read_role ::
  "'w handler blocking \<Rightarrow> bool \<Rightarrow> string \<Rightarrow> ('w,
     cert_role_info) io" where
  "blk_cert_auth_read_role h nested name =
     block_on (bl_rt h) nested (cert_auth_read_role (bl_inner h) name)"

definition blk_cert_auth_delete_role ::
  "'w handler blocking \<Rightarrow> bool \<Rightarrow> string \<Rightarrow> ('w, unit) io" where
  "blk_cert_auth_delete_role h nested name =
     block_on (bl_rt h) nested (cert_auth_delete_role (bl_inner h) name)"

definition blk_cert_auth_list_roles ::
  "'w handler blocking \<Rightarrow> bool \<Rightarrow> ('w, string list) io" where
  "blk_cert_auth_list_roles h nested =
     block_on (bl_rt h) nested (cert_auth_list_roles (bl_inner h))"

section \<open>GithubAuthHandler\<close>

definition blk_github_auth_login ::
  "'w handler blocking \<Rightarrow> bool \<Rightarrow> secret \<Rightarrow> ('w, auth_info) io" where
  "blk_github_auth_login h nested tok =
     block_on (bl_rt h) nested (github_auth_login (bl_inner h) tok)"

definition blk_github_auth_configure ::
  "'w handler blocking \<Rightarrow> bool \<Rightarrow> github_config_request \<Rightarrow>
     ('w, unit) io" where
  "blk_github_auth_configure h nested cfg =
     block_on (bl_rt h) nested (github_auth_configure (bl_inner h) cfg)"

definition blk_github_auth_read_config ::
  "'w handler blocking \<Rightarrow> bool \<Rightarrow> ('w, github_config) io" where
  "blk_github_auth_read_config h nested =
     block_on (bl_rt h) nested (github_auth_read_config (bl_inner h))"

definition blk_github_auth_map_team ::
  "'w handler blocking \<Rightarrow> bool \<Rightarrow> string \<Rightarrow>
     github_team_mapping \<Rightarrow> ('w, unit) io" where
  "blk_github_auth_map_team h nested team params =
     block_on (bl_rt h) nested (github_auth_map_team (bl_inner h) team params)"

definition blk_github_auth_read_team_mapping ::
  "'w handler blocking \<Rightarrow> bool \<Rightarrow> string \<Rightarrow> ('w,
     github_team_info) io" where
  "blk_github_auth_read_team_mapping h nested team =
     block_on (bl_rt h) nested (github_auth_read_team_mapping (bl_inner h) team)"

definition blk_github_auth_list_teams ::
  "'w handler blocking \<Rightarrow> bool \<Rightarrow> ('w, string list) io" where
  "blk_github_auth_list_teams h nested =
     block_on (bl_rt h) nested (github_auth_list_teams (bl_inner h))"

section \<open>OidcAuthHandler\<close>

definition blk_oidc_auth_login_jwt ::
  "'w handler blocking \<Rightarrow> bool \<Rightarrow> string \<Rightarrow> secret
     \<Rightarrow> ('w, auth_info) io" where
  "blk_oidc_auth_login_jwt h nested role jwt =
     block_on (bl_rt h) nested (oidc_auth_login_jwt (bl_inner h) role jwt)"

definition blk_oidc_auth_configure ::
  "'w handler blocking \<Rightarrow> bool \<Rightarrow> oidc_config_request \<Rightarrow> ('w,
     unit) io" where
  "blk_oidc_auth_configure h nested cfg =
     block_on (bl_rt h) nested (oidc_auth_configure (bl_inner h) cfg)"

definition blk_oidc_auth_read_config ::
  "'w handler blocking \<Rightarrow> bool \<Rightarrow> ('w, oidc_config) io" where
  "blk_oidc_auth_read_config h nested =
     block_on (bl_rt h) nested (oidc_auth_read_config (bl_inner h))"

definition blk_oidc_auth_create_role ::
  "'w handler blocking \<Rightarrow> bool \<Rightarrow> string \<Rightarrow> oidc_role_request
     \<Rightarrow> ('w, unit) io" where
  "blk_oidc_auth_create_role h nested name params =
     block_on (bl_rt h) nested (oidc_auth_create_role (bl_inner h) name params)"

definition blk_oidc_auth_read_role ::
  "'w handler blocking \<Rightarrow> bool \<Rightarrow> string \<Rightarrow> ('w,
     oidc_role_info) io" where
  "blk_oidc_auth_read_role h nested name =
     block_on (bl_rt h) nested (oidc_auth_read_role (bl_inner h) name)"

definition blk_oidc_auth_delete_role ::
  "'w handler blocking \<Rightarrow> bool \<Rightarrow> string \<Rightarrow> ('w, unit) io" where
  "blk_oidc_auth_delete_role h nested name =
     block_on (bl_rt h) nested (oidc_auth_delete_role (bl_inner h) name)"

definition blk_oidc_auth_list_roles ::
  "'w handler blocking \<Rightarrow> bool \<Rightarrow> ('w, string list) io" where
  "blk_oidc_auth_list_roles h nested =
     block_on (bl_rt h) nested (oidc_auth_list_roles (bl_inner h))"

section \<open>AwsSecretsHandler\<close>

definition blk_aws_configure_root ::
  "'w handler blocking \<Rightarrow> bool \<Rightarrow> aws_config_root_request \<Rightarrow>
     ('w, unit) io" where
  "blk_aws_configure_root h nested params =
     block_on (bl_rt h) nested (aws_configure_root (bl_inner h) params)"

definition blk_aws_read_config_root ::
  "'w handler blocking \<Rightarrow> bool \<Rightarrow> ('w, aws_config_root) io" where
  "blk_aws_read_config_root h nested =
     block_on (bl_rt h) nested (aws_read_config_root (bl_inner h))"

definition blk_aws_rotate_root ::
  "'w handler blocking \<Rightarrow> bool \<Rightarrow> ('w, unit) io" where
  "blk_aws_rotate_root h nested =
     block_on (bl_rt h) nested (aws_rotate_root (bl_inner h))"

definition blk_aws_create_role ::
  "'w handler blocking \<Rightarrow> bool \<Rightarrow> string \<Rightarrow> aws_role_request
     \<Rightarrow> ('w, unit) io" where
  "blk_aws_create_role h nested name params =
     block_on (bl_rt h) nested (aws_create_role (bl_inner h) name params)"

definition blk_aws_read_role ::
  "'w handler blocking \<Rightarrow> bool \<Rightarrow> string \<Rightarrow> ('w, aws_role) io" where
  "blk_aws_read_role h nested name =
     block_on (bl_rt h) nested (aws_read_role (bl_inner h) name)"

definition blk_aws_delete_role ::
  "'w handler blocking \<Rightarrow> bool \<Rightarrow> string \<Rightarrow> ('w, unit) io" where
  "blk_aws_delete_role h nested name =
     block_on (bl_rt h) nested (aws_delete_role (bl_inner h) name)"

definition blk_aws_list_roles ::
  "'w handler blocking \<Rightarrow> bool \<Rightarrow> ('w, string list) io" where
  "blk_aws_list_roles h nested =
     block_on (bl_rt h) nested (aws_list_roles (bl_inner h))"

definition blk_aws_get_credentials ::
  "'w handler blocking \<Rightarrow> bool \<Rightarrow> string \<Rightarrow> ('w,
     aws_credentials) io" where
  "blk_aws_get_credentials h nested name =
     block_on (bl_rt h) nested (aws_get_credentials (bl_inner h) name)"

definition blk_aws_get_sts_credentials ::
  "'w handler blocking \<Rightarrow> bool \<Rightarrow> string \<Rightarrow> aws_sts_request
     \<Rightarrow> ('w, aws_credentials) io" where
  "blk_aws_get_sts_credentials h nested name params =
     block_on (bl_rt h) nested (aws_get_sts_credentials (bl_inner h) name params)"

section \<open>AwsAuthHandler\<close>

definition blk_aws_auth_login ::
  "'w handler blocking \<Rightarrow> bool \<Rightarrow> aws_auth_login_request \<Rightarrow>
     ('w, auth_info) io" where
  "blk_aws_auth_login h nested params =
     block_on (bl_rt h) nested (aws_auth_login (bl_inner h) params)"

definition blk_aws_auth_configure ::
  "'w handler blocking \<Rightarrow> bool \<Rightarrow> aws_auth_config_request \<Rightarrow>
     ('w, unit) io" where
  "blk_aws_auth_configure h nested cfg =
     block_on (bl_rt h) nested (aws_auth_configure (bl_inner h) cfg)"

definition blk_aws_auth_read_config ::
  "'w handler blocking \<Rightarrow> bool \<Rightarrow> ('w, aws_auth_config) io" where
  "blk_aws_auth_read_config h nested =
     block_on (bl_rt h) nested (aws_auth_read_config (bl_inner h))"

definition blk_aws_auth_create_role ::
  "'w handler blocking \<Rightarrow> bool \<Rightarrow> string \<Rightarrow>
     aws_auth_role_request \<Rightarrow> ('w, unit) io" where
  "blk_aws_auth_create_role h nested name params =
     block_on (bl_rt h) nested (aws_auth_create_role (bl_inner h) name params)"

definition blk_aws_auth_read_role ::
  "'w handler blocking \<Rightarrow> bool \<Rightarrow> string \<Rightarrow> ('w,
     aws_auth_role_info) io" where
  "blk_aws_auth_read_role h nested name =
     block_on (bl_rt h) nested (aws_auth_read_role (bl_inner h) name)"

definition blk_aws_auth_delete_role ::
  "'w handler blocking \<Rightarrow> bool \<Rightarrow> string \<Rightarrow> ('w, unit) io" where
  "blk_aws_auth_delete_role h nested name =
     block_on (bl_rt h) nested (aws_auth_delete_role (bl_inner h) name)"

definition blk_aws_auth_list_roles ::
  "'w handler blocking \<Rightarrow> bool \<Rightarrow> ('w, string list) io" where
  "blk_aws_auth_list_roles h nested =
     block_on (bl_rt h) nested (aws_auth_list_roles (bl_inner h))"

section \<open>TotpHandler\<close>

definition blk_totp_create_key ::
  "'w handler blocking \<Rightarrow> bool \<Rightarrow> string \<Rightarrow> totp_key_request
     \<Rightarrow> ('w, totp_generate_response option) io" where
  "blk_totp_create_key h nested name params =
     block_on (bl_rt h) nested (totp_create_key (bl_inner h) name params)"

definition blk_totp_read_key ::
  "'w handler blocking \<Rightarrow> bool \<Rightarrow> string \<Rightarrow> ('w,
     totp_key_info) io" where
  "blk_totp_read_key h nested name =
     block_on (bl_rt h) nested (totp_read_key (bl_inner h) name)"

definition blk_totp_delete_key ::
  "'w handler blocking \<Rightarrow> bool \<Rightarrow> string \<Rightarrow> ('w, unit) io" where
  "blk_totp_delete_key h nested name =
     block_on (bl_rt h) nested (totp_delete_key (bl_inner h) name)"

definition blk_totp_list_keys ::
  "'w handler blocking \<Rightarrow> bool \<Rightarrow> ('w, string list) io" where
  "blk_totp_list_keys h nested =
     block_on (bl_rt h) nested (totp_list_keys (bl_inner h))"

definition blk_totp_generate_code ::
  "'w handler blocking \<Rightarrow> bool \<Rightarrow> string \<Rightarrow> ('w, totp_code) io" where
  "blk_totp_generate_code h nested name =
     block_on (bl_rt h) nested (totp_generate_code (bl_inner h) name)"

definition blk_totp_validate_code ::
  "'w handler blocking \<Rightarrow> bool \<Rightarrow> string \<Rightarrow> string
     \<Rightarrow> ('w, totp_validation) io" where
  "blk_totp_validate_code h nested name code =
     block_on (bl_rt h) nested (totp_validate_code (bl_inner h) name code)"

section \<open>ConsulHandler\<close>

definition blk_consul_configure ::
  "'w handler blocking \<Rightarrow> bool \<Rightarrow> consul_config_request \<Rightarrow>
     ('w, unit) io" where
  "blk_consul_configure h nested params =
     block_on (bl_rt h) nested (consul_configure (bl_inner h) params)"

definition blk_consul_read_config ::
  "'w handler blocking \<Rightarrow> bool \<Rightarrow> ('w, consul_config) io" where
  "blk_consul_read_config h nested =
     block_on (bl_rt h) nested (consul_read_config (bl_inner h))"

definition blk_consul_delete_config ::
  "'w handler blocking \<Rightarrow> bool \<Rightarrow> ('w, unit) io" where
  "blk_consul_delete_config h nested =
     block_on (bl_rt h) nested (consul_delete_config (bl_inner h))"

definition blk_consul_create_role ::
  "'w handler blocking \<Rightarrow> bool \<Rightarrow> string \<Rightarrow>
     consul_role_request \<Rightarrow> ('w, unit) io" where
  "blk_consul_create_role h nested name params =
     block_on (bl_rt h) nested (consul_create_role (bl_inner h) name params)"

definition blk_consul_read_role ::
  "'w handler blocking \<Rightarrow> bool \<Rightarrow> string \<Rightarrow> ('w, consul_role)
     io" where
  "blk_consul_read_role h nested name =
     block_on (bl_rt h) nested (consul_read_role (bl_inner h) name)"

definition blk_consul_delete_role ::
  "'w handler blocking \<Rightarrow> bool \<Rightarrow> string \<Rightarrow> ('w, unit) io" where
  "blk_consul_delete_role h nested name =
     block_on (bl_rt h) nested (consul_delete_role (bl_inner h) name)"

definition blk_consul_list_roles ::
  "'w handler blocking \<Rightarrow> bool \<Rightarrow> ('w, string list) io" where
  "blk_consul_list_roles h nested =
     block_on (bl_rt h) nested (consul_list_roles (bl_inner h))"

definition blk_consul_get_credentials ::
  "'w handler blocking \<Rightarrow> bool \<Rightarrow> string \<Rightarrow> ('w,
     consul_credentials) io" where
  "blk_consul_get_credentials h nested role =
     block_on (bl_rt h) nested (consul_get_credentials (bl_inner h) role)"

section \<open>NomadHandler\<close>

definition blk_nomad_configure ::
  "'w handler blocking \<Rightarrow> bool \<Rightarrow> nomad_config_request \<Rightarrow> ('w,
     unit) io" where
  "blk_nomad_configure h nested params =
     block_on (bl_rt h) nested (nomad_configure (bl_inner h) params)"

definition blk_nomad_read_config ::
  "'w handler blocking \<Rightarrow> bool \<Rightarrow> ('w, nomad_config) io" where
  "blk_nomad_read_config h nested =
     block_on (bl_rt h) nested (nomad_read_config (bl_inner h))"

definition blk_nomad_delete_config ::
  "'w handler blocking \<Rightarrow> bool \<Rightarrow> ('w, unit) io" where
  "blk_nomad_delete_config h nested =
     block_on (bl_rt h) nested (nomad_delete_config (bl_inner h))"

definition blk_nomad_create_role ::
  "'w handler blocking \<Rightarrow> bool \<Rightarrow> string \<Rightarrow> nomad_role_request
     \<Rightarrow> ('w, unit) io" where
  "blk_nomad_create_role h nested name params =
     block_on (bl_rt h) nested (nomad_create_role (bl_inner h) name params)"

definition blk_nomad_read_role ::
  "'w handler blocking \<Rightarrow> bool \<Rightarrow> string \<Rightarrow> ('w, nomad_role)
     io" where
  "blk_nomad_read_role h nested name =
     block_on (bl_rt h) nested (nomad_read_role (bl_inner h) name)"

definition blk_nomad_delete_role ::
  "'w handler blocking \<Rightarrow> bool \<Rightarrow> string \<Rightarrow> ('w, unit) io" where
  "blk_nomad_delete_role h nested name =
     block_on (bl_rt h) nested (nomad_delete_role (bl_inner h) name)"

definition blk_nomad_list_roles ::
  "'w handler blocking \<Rightarrow> bool \<Rightarrow> ('w, string list) io" where
  "blk_nomad_list_roles h nested =
     block_on (bl_rt h) nested (nomad_list_roles (bl_inner h))"

definition blk_nomad_get_credentials ::
  "'w handler blocking \<Rightarrow> bool \<Rightarrow> string \<Rightarrow> ('w,
     nomad_credentials) io" where
  "blk_nomad_get_credentials h nested role =
     block_on (bl_rt h) nested (nomad_get_credentials (bl_inner h) role)"

section \<open>AzureSecretsHandler\<close>

definition blk_azure_configure ::
  "'w handler blocking \<Rightarrow> bool \<Rightarrow> azure_config_request \<Rightarrow> ('w,
     unit) io" where
  "blk_azure_configure h nested params =
     block_on (bl_rt h) nested (azure_configure (bl_inner h) params)"

definition blk_azure_read_config ::
  "'w handler blocking \<Rightarrow> bool \<Rightarrow> ('w, azure_config) io" where
  "blk_azure_read_config h nested =
     block_on (bl_rt h) nested (azure_read_config (bl_inner h))"

definition blk_azure_delete_config ::
  "'w handler blocking \<Rightarrow> bool \<Rightarrow> ('w, unit) io" where
  "blk_azure_delete_config h nested =
     block_on (bl_rt h) nested (azure_delete_config (bl_inner h))"

definition blk_azure_create_role ::
  "'w handler blocking \<Rightarrow> bool \<Rightarrow> string \<Rightarrow> azure_role_request
     \<Rightarrow> ('w, unit) io" where
  "blk_azure_create_role h nested name params =
     block_on (bl_rt h) nested (azure_create_role (bl_inner h) name params)"

definition blk_azure_read_role ::
  "'w handler blocking \<Rightarrow> bool \<Rightarrow> string \<Rightarrow> ('w, azure_role)
     io" where
  "blk_azure_read_role h nested name =
     block_on (bl_rt h) nested (azure_read_role (bl_inner h) name)"

definition blk_azure_delete_role ::
  "'w handler blocking \<Rightarrow> bool \<Rightarrow> string \<Rightarrow> ('w, unit) io" where
  "blk_azure_delete_role h nested name =
     block_on (bl_rt h) nested (azure_delete_role (bl_inner h) name)"

definition blk_azure_list_roles ::
  "'w handler blocking \<Rightarrow> bool \<Rightarrow> ('w, string list) io" where
  "blk_azure_list_roles h nested =
     block_on (bl_rt h) nested (azure_list_roles (bl_inner h))"

definition blk_azure_get_credentials ::
  "'w handler blocking \<Rightarrow> bool \<Rightarrow> string \<Rightarrow> ('w,
     azure_credentials) io" where
  "blk_azure_get_credentials h nested role =
     block_on (bl_rt h) nested (azure_get_credentials (bl_inner h) role)"

section \<open>AzureAuthHandler\<close>

definition blk_azure_auth_login ::
  "'w handler blocking \<Rightarrow> bool \<Rightarrow> string \<Rightarrow> secret
     \<Rightarrow> string option \<Rightarrow> string option \<Rightarrow> string option
     \<Rightarrow> string option \<Rightarrow> ('w, auth_info) io" where
  "blk_azure_auth_login h nested role jwt subscription_id resource_group_name vm_name vmss_name =
     block_on (bl_rt h) nested (azure_auth_login (bl_inner h) role jwt subscription_id
     resource_group_name vm_name vmss_name)"

definition blk_azure_auth_configure ::
  "'w handler blocking \<Rightarrow> bool \<Rightarrow> azure_auth_config_request \<Rightarrow>
     ('w, unit) io" where
  "blk_azure_auth_configure h nested cfg =
     block_on (bl_rt h) nested (azure_auth_configure (bl_inner h) cfg)"

definition blk_azure_auth_read_config ::
  "'w handler blocking \<Rightarrow> bool \<Rightarrow> ('w, azure_auth_config) io" where
  "blk_azure_auth_read_config h nested =
     block_on (bl_rt h) nested (azure_auth_read_config (bl_inner h))"

definition blk_azure_auth_create_role ::
  "'w handler blocking \<Rightarrow> bool \<Rightarrow> string \<Rightarrow>
     azure_auth_role_request \<Rightarrow> ('w, unit) io" where
  "blk_azure_auth_create_role h nested name params =
     block_on (bl_rt h) nested (azure_auth_create_role (bl_inner h) name params)"

definition blk_azure_auth_read_role ::
  "'w handler blocking \<Rightarrow> bool \<Rightarrow> string \<Rightarrow> ('w,
     azure_auth_role_info) io" where
  "blk_azure_auth_read_role h nested name =
     block_on (bl_rt h) nested (azure_auth_read_role (bl_inner h) name)"

definition blk_azure_auth_delete_role ::
  "'w handler blocking \<Rightarrow> bool \<Rightarrow> string \<Rightarrow> ('w, unit) io" where
  "blk_azure_auth_delete_role h nested name =
     block_on (bl_rt h) nested (azure_auth_delete_role (bl_inner h) name)"

definition blk_azure_auth_list_roles ::
  "'w handler blocking \<Rightarrow> bool \<Rightarrow> ('w, string list) io" where
  "blk_azure_auth_list_roles h nested =
     block_on (bl_rt h) nested (azure_auth_list_roles (bl_inner h))"

section \<open>GcpSecretsHandler\<close>

definition blk_gcp_configure ::
  "'w handler blocking \<Rightarrow> bool \<Rightarrow> gcp_config_request \<Rightarrow> ('w,
     unit) io" where
  "blk_gcp_configure h nested params =
     block_on (bl_rt h) nested (gcp_configure (bl_inner h) params)"

definition blk_gcp_read_config ::
  "'w handler blocking \<Rightarrow> bool \<Rightarrow> ('w, gcp_config) io" where
  "blk_gcp_read_config h nested =
     block_on (bl_rt h) nested (gcp_read_config (bl_inner h))"

definition blk_gcp_delete_config ::
  "'w handler blocking \<Rightarrow> bool \<Rightarrow> ('w, unit) io" where
  "blk_gcp_delete_config h nested =
     block_on (bl_rt h) nested (gcp_delete_config (bl_inner h))"

definition blk_gcp_create_roleset ::
  "'w handler blocking \<Rightarrow> bool \<Rightarrow> string \<Rightarrow>
     gcp_roleset_request \<Rightarrow> ('w, unit) io" where
  "blk_gcp_create_roleset h nested name params =
     block_on (bl_rt h) nested (gcp_create_roleset (bl_inner h) name params)"

definition blk_gcp_read_roleset ::
  "'w handler blocking \<Rightarrow> bool \<Rightarrow> string \<Rightarrow> ('w, gcp_roleset)
     io" where
  "blk_gcp_read_roleset h nested name =
     block_on (bl_rt h) nested (gcp_read_roleset (bl_inner h) name)"

definition blk_gcp_delete_roleset ::
  "'w handler blocking \<Rightarrow> bool \<Rightarrow> string \<Rightarrow> ('w, unit) io" where
  "blk_gcp_delete_roleset h nested name =
     block_on (bl_rt h) nested (gcp_delete_roleset (bl_inner h) name)"

definition blk_gcp_list_rolesets ::
  "'w handler blocking \<Rightarrow> bool \<Rightarrow> ('w, string list) io" where
  "blk_gcp_list_rolesets h nested =
     block_on (bl_rt h) nested (gcp_list_rolesets (bl_inner h))"

definition blk_gcp_get_service_account_key ::
  "'w handler blocking \<Rightarrow> bool \<Rightarrow> string \<Rightarrow> ('w,
     gcp_service_account_key) io" where
  "blk_gcp_get_service_account_key h nested roleset =
     block_on (bl_rt h) nested (gcp_get_service_account_key (bl_inner h) roleset)"

definition blk_gcp_get_oauth_token ::
  "'w handler blocking \<Rightarrow> bool \<Rightarrow> string \<Rightarrow> ('w,
     gcp_oauth_token) io" where
  "blk_gcp_get_oauth_token h nested roleset =
     block_on (bl_rt h) nested (gcp_get_oauth_token (bl_inner h) roleset)"

definition blk_gcp_rotate_roleset ::
  "'w handler blocking \<Rightarrow> bool \<Rightarrow> string \<Rightarrow> ('w, unit) io" where
  "blk_gcp_rotate_roleset h nested name =
     block_on (bl_rt h) nested (gcp_rotate_roleset (bl_inner h) name)"

section \<open>GcpAuthHandler\<close>

definition blk_gcp_auth_login ::
  "'w handler blocking \<Rightarrow> bool \<Rightarrow> string \<Rightarrow> secret
     \<Rightarrow> ('w, auth_info) io" where
  "blk_gcp_auth_login h nested role jwt =
     block_on (bl_rt h) nested (gcp_auth_login (bl_inner h) role jwt)"

definition blk_gcp_auth_configure ::
  "'w handler blocking \<Rightarrow> bool \<Rightarrow> gcp_auth_config_request \<Rightarrow>
     ('w, unit) io" where
  "blk_gcp_auth_configure h nested cfg =
     block_on (bl_rt h) nested (gcp_auth_configure (bl_inner h) cfg)"

definition blk_gcp_auth_read_config ::
  "'w handler blocking \<Rightarrow> bool \<Rightarrow> ('w, gcp_auth_config) io" where
  "blk_gcp_auth_read_config h nested =
     block_on (bl_rt h) nested (gcp_auth_read_config (bl_inner h))"

definition blk_gcp_auth_create_role ::
  "'w handler blocking \<Rightarrow> bool \<Rightarrow> string \<Rightarrow>
     gcp_auth_role_request \<Rightarrow> ('w, unit) io" where
  "blk_gcp_auth_create_role h nested name params =
     block_on (bl_rt h) nested (gcp_auth_create_role (bl_inner h) name params)"

definition blk_gcp_auth_read_role ::
  "'w handler blocking \<Rightarrow> bool \<Rightarrow> string \<Rightarrow> ('w,
     gcp_auth_role_info) io" where
  "blk_gcp_auth_read_role h nested name =
     block_on (bl_rt h) nested (gcp_auth_read_role (bl_inner h) name)"

definition blk_gcp_auth_delete_role ::
  "'w handler blocking \<Rightarrow> bool \<Rightarrow> string \<Rightarrow> ('w, unit) io" where
  "blk_gcp_auth_delete_role h nested name =
     block_on (bl_rt h) nested (gcp_auth_delete_role (bl_inner h) name)"

definition blk_gcp_auth_list_roles ::
  "'w handler blocking \<Rightarrow> bool \<Rightarrow> ('w, string list) io" where
  "blk_gcp_auth_list_roles h nested =
     block_on (bl_rt h) nested (gcp_auth_list_roles (bl_inner h))"

section \<open>RabbitmqHandler\<close>

definition blk_rabbitmq_configure ::
  "'w handler blocking \<Rightarrow> bool \<Rightarrow> rabbitmq_config_request \<Rightarrow>
     ('w, unit) io" where
  "blk_rabbitmq_configure h nested params =
     block_on (bl_rt h) nested (rabbitmq_configure (bl_inner h) params)"

definition blk_rabbitmq_configure_lease ::
  "'w handler blocking \<Rightarrow> bool \<Rightarrow> string \<Rightarrow> string
     \<Rightarrow> ('w, unit) io" where
  "blk_rabbitmq_configure_lease h nested ttl max_ttl =
     block_on (bl_rt h) nested (rabbitmq_configure_lease (bl_inner h) ttl max_ttl)"

definition blk_rabbitmq_create_role ::
  "'w handler blocking \<Rightarrow> bool \<Rightarrow> string \<Rightarrow>
     rabbitmq_role_request \<Rightarrow> ('w, unit) io" where
  "blk_rabbitmq_create_role h nested name params =
     block_on (bl_rt h) nested (rabbitmq_create_role (bl_inner h) name params)"

definition blk_rabbitmq_read_role ::
  "'w handler blocking \<Rightarrow> bool \<Rightarrow> string \<Rightarrow> ('w,
     rabbitmq_role) io" where
  "blk_rabbitmq_read_role h nested name =
     block_on (bl_rt h) nested (rabbitmq_read_role (bl_inner h) name)"

definition blk_rabbitmq_delete_role ::
  "'w handler blocking \<Rightarrow> bool \<Rightarrow> string \<Rightarrow> ('w, unit) io" where
  "blk_rabbitmq_delete_role h nested name =
     block_on (bl_rt h) nested (rabbitmq_delete_role (bl_inner h) name)"

definition blk_rabbitmq_list_roles ::
  "'w handler blocking \<Rightarrow> bool \<Rightarrow> ('w, string list) io" where
  "blk_rabbitmq_list_roles h nested =
     block_on (bl_rt h) nested (rabbitmq_list_roles (bl_inner h))"

definition blk_rabbitmq_get_credentials ::
  "'w handler blocking \<Rightarrow> bool \<Rightarrow> string \<Rightarrow> ('w,
     rabbitmq_credentials) io" where
  "blk_rabbitmq_get_credentials h nested role =
     block_on (bl_rt h) nested (rabbitmq_get_credentials (bl_inner h) role)"

section \<open>TerraformCloudHandler\<close>

definition blk_terraform_configure ::
  "'w handler blocking \<Rightarrow> bool \<Rightarrow> terraform_cloud_config_request
     \<Rightarrow> ('w, unit) io" where
  "blk_terraform_configure h nested params =
     block_on (bl_rt h) nested (terraform_configure (bl_inner h) params)"

definition blk_terraform_read_config ::
  "'w handler blocking \<Rightarrow> bool \<Rightarrow> ('w, terraform_cloud_config) io" where
  "blk_terraform_read_config h nested =
     block_on (bl_rt h) nested (terraform_read_config (bl_inner h))"

definition blk_terraform_delete_config ::
  "'w handler blocking \<Rightarrow> bool \<Rightarrow> ('w, unit) io" where
  "blk_terraform_delete_config h nested =
     block_on (bl_rt h) nested (terraform_delete_config (bl_inner h))"

definition blk_terraform_create_role ::
  "'w handler blocking \<Rightarrow> bool \<Rightarrow> string \<Rightarrow>
     terraform_cloud_role_request \<Rightarrow> ('w, unit) io" where
  "blk_terraform_create_role h nested name params =
     block_on (bl_rt h) nested (terraform_create_role (bl_inner h) name params)"

definition blk_terraform_read_role ::
  "'w handler blocking \<Rightarrow> bool \<Rightarrow> string \<Rightarrow> ('w,
     terraform_cloud_role) io" where
  "blk_terraform_read_role h nested name =
     block_on (bl_rt h) nested (terraform_read_role (bl_inner h) name)"

definition blk_terraform_delete_role ::
  "'w handler blocking \<Rightarrow> bool \<Rightarrow> string \<Rightarrow> ('w, unit) io" where
  "blk_terraform_delete_role h nested name =
     block_on (bl_rt h) nested (terraform_delete_role (bl_inner h) name)"

definition blk_terraform_list_roles ::
  "'w handler blocking \<Rightarrow> bool \<Rightarrow> ('w, string list) io" where
  "blk_terraform_list_roles h nested =
     block_on (bl_rt h) nested (terraform_list_roles (bl_inner h))"

definition blk_terraform_get_credentials ::
  "'w handler blocking \<Rightarrow> bool \<Rightarrow> string \<Rightarrow> ('w,
     terraform_cloud_token) io" where
  "blk_terraform_get_credentials h nested role =
     block_on (bl_rt h) nested (terraform_get_credentials (bl_inner h) role)"

section \<open>RadiusAuthHandler\<close>

definition blk_radius_auth_login ::
  "'w handler blocking \<Rightarrow> bool \<Rightarrow> string \<Rightarrow> secret
     \<Rightarrow> ('w, auth_info) io" where
  "blk_radius_auth_login h nested username password =
     block_on (bl_rt h) nested (radius_auth_login (bl_inner h) username password)"

definition blk_radius_auth_configure ::
  "'w handler blocking \<Rightarrow> bool \<Rightarrow> radius_config_request \<Rightarrow>
     ('w, unit) io" where
  "blk_radius_auth_configure h nested cfg =
     block_on (bl_rt h) nested (radius_auth_configure (bl_inner h) cfg)"

definition blk_radius_auth_read_config ::
  "'w handler blocking \<Rightarrow> bool \<Rightarrow> ('w, radius_config) io" where
  "blk_radius_auth_read_config h nested =
     block_on (bl_rt h) nested (radius_auth_read_config (bl_inner h))"

definition blk_radius_auth_write_user ::
  "'w handler blocking \<Rightarrow> bool \<Rightarrow> string \<Rightarrow>
     radius_user_request \<Rightarrow> ('w, unit) io" where
  "blk_radius_auth_write_user h nested username params =
     block_on (bl_rt h) nested (radius_auth_write_user (bl_inner h) username params)"

definition blk_radius_auth_read_user ::
  "'w handler blocking \<Rightarrow> bool \<Rightarrow> string \<Rightarrow> ('w, radius_user)
     io" where
  "blk_radius_auth_read_user h nested username =
     block_on (bl_rt h) nested (radius_auth_read_user (bl_inner h) username)"

definition blk_radius_auth_delete_user ::
  "'w handler blocking \<Rightarrow> bool \<Rightarrow> string \<Rightarrow> ('w, unit) io" where
  "blk_radius_auth_delete_user h nested username =
     block_on (bl_rt h) nested (radius_auth_delete_user (bl_inner h) username)"

definition blk_radius_auth_list_users ::
  "'w handler blocking \<Rightarrow> bool \<Rightarrow> ('w, string list) io" where
  "blk_radius_auth_list_users h nested =
     block_on (bl_rt h) nested (radius_auth_list_users (bl_inner h))"

section \<open>KerberosAuthHandler\<close>

definition blk_kerberos_auth_login ::
  "'w handler blocking \<Rightarrow> bool \<Rightarrow> string \<Rightarrow> ('w, auth_info) io" where
  "blk_kerberos_auth_login h nested authorization =
     block_on (bl_rt h) nested (kerberos_auth_login (bl_inner h) authorization)"

definition blk_kerberos_auth_configure ::
  "'w handler blocking \<Rightarrow> bool \<Rightarrow> kerberos_config_request \<Rightarrow>
     ('w, unit) io" where
  "blk_kerberos_auth_configure h nested cfg =
     block_on (bl_rt h) nested (kerberos_auth_configure (bl_inner h) cfg)"

definition blk_kerberos_auth_read_config ::
  "'w handler blocking \<Rightarrow> bool \<Rightarrow> ('w, kerberos_config) io" where
  "blk_kerberos_auth_read_config h nested =
     block_on (bl_rt h) nested (kerberos_auth_read_config (bl_inner h))"

definition blk_kerberos_auth_configure_ldap ::
  "'w handler blocking \<Rightarrow> bool \<Rightarrow> kerberos_ldap_config_request
     \<Rightarrow> ('w, unit) io" where
  "blk_kerberos_auth_configure_ldap h nested cfg =
     block_on (bl_rt h) nested (kerberos_auth_configure_ldap (bl_inner h) cfg)"

definition blk_kerberos_auth_read_ldap_config ::
  "'w handler blocking \<Rightarrow> bool \<Rightarrow> ('w, kerberos_ldap_config) io" where
  "blk_kerberos_auth_read_ldap_config h nested =
     block_on (bl_rt h) nested (kerberos_auth_read_ldap_config (bl_inner h))"

definition blk_kerberos_auth_write_group ::
  "'w handler blocking \<Rightarrow> bool \<Rightarrow> string \<Rightarrow>
     kerberos_group_request \<Rightarrow> ('w, unit) io" where
  "blk_kerberos_auth_write_group h nested name params =
     block_on (bl_rt h) nested (kerberos_auth_write_group (bl_inner h) name params)"

definition blk_kerberos_auth_read_group ::
  "'w handler blocking \<Rightarrow> bool \<Rightarrow> string \<Rightarrow> ('w,
     kerberos_group) io" where
  "blk_kerberos_auth_read_group h nested name =
     block_on (bl_rt h) nested (kerberos_auth_read_group (bl_inner h) name)"

definition blk_kerberos_auth_delete_group ::
  "'w handler blocking \<Rightarrow> bool \<Rightarrow> string \<Rightarrow> ('w, unit) io" where
  "blk_kerberos_auth_delete_group h nested name =
     block_on (bl_rt h) nested (kerberos_auth_delete_group (bl_inner h) name)"

definition blk_kerberos_auth_list_groups ::
  "'w handler blocking \<Rightarrow> bool \<Rightarrow> ('w, string list) io" where
  "blk_kerberos_auth_list_groups h nested =
     block_on (bl_rt h) nested (kerberos_auth_list_groups (bl_inner h))"

section \<open>Blocking and asynchronous calls\<close>

inductive blocking_kv_call ::
  "'w client blocking \<Rightarrow> bool \<Rightarrow> string \<Rightarrow> ('w, unit) io \<Rightarrow> ('w, unit) io \<Rightarrow> bool" for b nested where
  "blocking_kv_call b nested (encode_path mount @ ''/'')
     (void (blk_kv1_read (blk_kv1 b mount) nested (x1 :: json \<Rightarrow> json option) x2))
     (void (kv1_read (kv1 (bl_inner b) mount) (x1 :: json \<Rightarrow> json option) x2))"
| "blocking_kv_call b nested (encode_path mount @ ''/'')
     (void (blk_kv1_delete (blk_kv1 b mount) nested x3))
     (void (kv1_delete (kv1 (bl_inner b) mount) x3))"
| "blocking_kv_call b nested (encode_path mount @ ''/'')
     (void (blk_kv1_list (blk_kv1 b mount) nested x4))
     (void (kv1_list (kv1 (bl_inner b) mount) x4))"
| "blocking_kv_call b nested (encode_path mount @ ''/'')
     (void (blk_kv1_write_serialize (blk_kv1 b mount) nested x5 x6))
     (void (kv1_write_serialize (kv1 (bl_inner b) mount) x5 x6))"
| "blocking_kv_call b nested (encode_path mount @ ''/'')
     (void (blk_cubbyhole_read (blk_cubbyhole b mount) nested (x7 :: json \<Rightarrow> json option) x8))
     (void (cubbyhole_read (cubbyhole (bl_inner b) mount) (x7 :: json \<Rightarrow> json option) x8))"
| "blocking_kv_call b nested (encode_path mount @ ''/'')
     (void (blk_cubbyhole_write (blk_cubbyhole b mount) nested x9 x10))
     (void (cubbyhole_write (cubbyhole (bl_inner b) mount) x9 x10))"
| "blocking_kv_call b nested (encode_path mount @ ''/'')
     (void (blk_cubbyhole_delete (blk_cubbyhole b mount) nested x11))
     (void (cubbyhole_delete (cubbyhole (bl_inner b) mount) x11))"
| "blocking_kv_call b nested (encode_path mount @ ''/'')
     (void (blk_cubbyhole_list (blk_cubbyhole b mount) nested x12))
     (void (cubbyhole_list (cubbyhole (bl_inner b) mount) x12))"
| "blocking_kv_call b nested (encode_path mount @ ''/'')
     (void (blk_kv2_read_config (blk_kv2 b mount) nested))
     (void (kv2_read_config (kv2 (bl_inner b) mount)))"
| "blocking_kv_call b nested (encode_path mount @ ''/'')
     (void (blk_kv2_write_config (blk_kv2 b mount) nested x13))
     (void (kv2_write_config (kv2 (bl_inner b) mount) x13))"
| "blocking_kv_call b nested (encode_path mount @ ''/'')
     (void (blk_kv2_read (blk_kv2 b mount) nested (x14 :: json \<Rightarrow> json option) x15))
     (void (kv2_read (kv2 (bl_inner b) mount) (x14 :: json \<Rightarrow> json option) x15))"
| "blocking_kv_call b nested (encode_path mount @ ''/'')
     (void (blk_kv2_read_version (blk_kv2 b mount) nested (x16 :: json \<Rightarrow> json option) x17 x18))
     (void (kv2_read_version (kv2 (bl_inner b) mount) (x16 :: json \<Rightarrow> json option) x17 x18))"
| "blocking_kv_call b nested (encode_path mount @ ''/'')
     (void (blk_kv2_list (blk_kv2 b mount) nested x19))
     (void (kv2_list (kv2 (bl_inner b) mount) x19))"
| "blocking_kv_call b nested (encode_path mount @ ''/'')
     (void (blk_kv2_delete (blk_kv2 b mount) nested x20))
     (void (kv2_delete (kv2 (bl_inner b) mount) x20))"
| "blocking_kv_call b nested (encode_path mount @ ''/'')
     (void (blk_kv2_read_metadata (blk_kv2 b mount) nested x21))
     (void (kv2_read_metadata (kv2 (bl_inner b) mount) x21))"
| "blocking_kv_call b nested (encode_path mount @ ''/'')
     (void (blk_kv2_write_metadata (blk_kv2 b mount) nested x22 x23))
     (void (kv2_write_metadata (kv2 (bl_inner b) mount) x22 x23))"
| "blocking_kv_call b nested (encode_path mount @ ''/'')
     (void (blk_kv2_patch_metadata (blk_kv2 b mount) nested x24 x25))
     (void (kv2_patch_metadata (kv2 (bl_inner b) mount) x24 x25))"
| "blocking_kv_call b nested (encode_path mount @ ''/'')
     (void (blk_kv2_delete_metadata (blk_kv2 b mount) nested x26))
     (void (kv2_delete_metadata (kv2 (bl_inner b) mount) x26))"
| "blocking_kv_call b nested (encode_path mount @ ''/'')
     (void (blk_kv2_read_data (blk_kv2 b mount) nested (x27 :: json \<Rightarrow> json option) x28))
     (void (kv2_read_data (kv2 (bl_inner b) mount) (x27 :: json \<Rightarrow> json option) x28))"
| "blocking_kv_call b nested (encode_path mount @ ''/'')
     (void (blk_kv2_delete_versions (blk_kv2 b mount) nested x29 x30))
     (void (kv2_delete_versions (kv2 (bl_inner b) mount) x29 x30))"
| "blocking_kv_call b nested (encode_path mount @ ''/'')
     (void (blk_kv2_undelete_versions (blk_kv2 b mount) nested x31 x32))
     (void (kv2_undelete_versions (kv2 (bl_inner b) mount) x31 x32))"
| "blocking_kv_call b nested (encode_path mount @ ''/'')
     (void (blk_kv2_destroy_versions (blk_kv2 b mount) nested x33 x34))
     (void (kv2_destroy_versions (kv2 (bl_inner b) mount) x33 x34))"
| "blocking_kv_call b nested (encode_path mount @ ''/'')
     (void (blk_kv2_read_subkeys (blk_kv2 b mount) nested x35 x36))
     (void (kv2_read_subkeys (kv2 (bl_inner b) mount) x35 x36))"
| "blocking_kv_call b nested (encode_path mount @ ''/'')
     (void (blk_kv2_write_serialize (blk_kv2 b mount) nested x37 x38))
     (void (kv2_write_serialize (kv2 (bl_inner b) mount) x37 x38))"
| "blocking_kv_call b nested (encode_path mount @ ''/'')
     (void (blk_kv2_write_cas_serialize (blk_kv2 b mount) nested x39 x40 x41))
     (void (kv2_write_cas_serialize (kv2 (bl_inner b) mount) x39 x40 x41))"
| "blocking_kv_call b nested (encode_path mount @ ''/'')
     (void (blk_kv2_patch_serialize (blk_kv2 b mount) nested x42 x43))
     (void (kv2_patch_serialize (kv2 (bl_inner b) mount) x42 x43))"
| "blocking_kv_call b nested (encode_path mount @ ''/'')
     (void (blk_kv2_write_field (blk_kv2 b mount) nested x44 x45 x46))
     (void (kv2_write_field (kv2 (bl_inner b) mount) x44 x45 x46))"
| "blocking_kv_call b nested (encode_path mount @ ''/'')
     (void (blk_kv2_read_field (blk_kv2 b mount) nested x47 x48 x49))
     (void (kv2_read_field (kv2 (bl_inner b) mount) x47 x48 x49))"
| "blocking_kv_call b nested (encode_path mount @ ''/'')
     (void (blk_kv2_read_string_data (blk_kv2 b mount) nested x50))
     (void (kv2_read_string_data (kv2 (bl_inner b) mount) x50))"

lemmas blocking_kv_call_ops =
  blk_kv1_read_def blk_kv1_delete_def blk_kv1_list_def blk_kv1_write_serialize_def
  blk_cubbyhole_read_def blk_cubbyhole_write_def blk_cubbyhole_delete_def blk_cubbyhole_list_def
  blk_kv2_read_config_def blk_kv2_write_config_def blk_kv2_read_def blk_kv2_read_version_def
  blk_kv2_list_def blk_kv2_delete_def blk_kv2_read_metadata_def blk_kv2_write_metadata_def
  blk_kv2_patch_metadata_def blk_kv2_delete_metadata_def blk_kv2_read_data_def
  blk_kv2_delete_versions_def blk_kv2_undelete_versions_def blk_kv2_destroy_versions_def
  blk_kv2_read_subkeys_def blk_kv2_write_serialize_def blk_kv2_write_cas_serialize_def
  blk_kv2_patch_serialize_def blk_kv2_write_field_def blk_kv2_read_field_def
  blk_kv2_read_string_data_def

lemma blocking_kv_call_same: "blocking_kv_call b nested pre m m' \<Longrightarrow>
    m = block_on (bl_rt b) nested m' \<and> kv_call (bl_inner b) pre m'"
  by (erule blocking_kv_call.cases; hypsubst; rule conjI;
      (rule kv_call.intros | simp only: blocking_kv_call_ops blocking_defs block_on_void blocking.select_convs))

inductive blocking_transit_call ::
  "'w client blocking \<Rightarrow> bool \<Rightarrow> string \<Rightarrow> ('w, unit) io \<Rightarrow> ('w, unit) io \<Rightarrow> bool" for b nested where
  "blocking_transit_call b nested (encode_path mount @ ''/'')
     (void (blk_transit_create_key (blk_transit b mount) nested x1 x2))
     (void (transit_create_key (transit (bl_inner b) mount) x1 x2))"
| "blocking_transit_call b nested (encode_path mount @ ''/'')
     (void (blk_transit_read_key (blk_transit b mount) nested x3))
     (void (transit_read_key (transit (bl_inner b) mount) x3))"
| "blocking_transit_call b nested (encode_path mount @ ''/'')
     (void (blk_transit_list_keys (blk_transit b mount) nested))
     (void (transit_list_keys (transit (bl_inner b) mount)))"
| "blocking_transit_call b nested (encode_path mount @ ''/'')
     (void (blk_transit_delete_key (blk_transit b mount) nested x4))
     (void (transit_delete_key (transit (bl_inner b) mount) x4))"
| "blocking_transit_call b nested (encode_path mount @ ''/'')
     (void (blk_transit_update_key_config (blk_transit b mount) nested x5 x6))
     (void (transit_update_key_config (transit (bl_inner b) mount) x5 x6))"
| "blocking_transit_call b nested (encode_path mount @ ''/'')
     (void (blk_transit_rotate_key (blk_transit b mount) nested x7))
     (void (transit_rotate_key (transit (bl_inner b) mount) x7))"
| "blocking_transit_call b nested (encode_path mount @ ''/'')
     (void (blk_transit_encrypt (blk_transit b mount) nested x8 x9 x10))
     (void (transit_encrypt (transit (bl_inner b) mount) x8 x9 x10))"
| "blocking_transit_call b nested (encode_path mount @ ''/'')
     (void (blk_transit_rewrap (blk_transit b mount) nested x11 x12))
     (void (transit_rewrap (transit (bl_inner b) mount) x11 x12))"
| "blocking_transit_call b nested (encode_path mount @ ''/'')
     (void (blk_transit_batch_encrypt (blk_transit b mount) nested x13 x14))
     (void (transit_batch_encrypt (transit (bl_inner b) mount) x13 x14))"
| "blocking_transit_call b nested (encode_path mount @ ''/'')
     (void (blk_transit_batch_decrypt (blk_transit b mount) nested x15 x16))
     (void (transit_batch_decrypt (transit (bl_inner b) mount) x15 x16))"
| "blocking_transit_call b nested (encode_path mount @ ''/'')
     (void (blk_transit_verify (blk_transit b mount) nested x17 x18 x19 x20))
     (void (transit_verify (transit (bl_inner b) mount) x17 x18 x19 x20))"
| "blocking_transit_call b nested (encode_path mount @ ''/'')
     (void (blk_transit_hash (blk_transit b mount) nested x21 x22 x23))
     (void (transit_hash (transit (bl_inner b) mount) x21 x22 x23))"
| "blocking_transit_call b nested (encode_path mount @ ''/'')
     (void (blk_transit_hmac (blk_transit b mount) nested x24 x25 x26 x27))
     (void (transit_hmac (transit (bl_inner b) mount) x24 x25 x26 x27))"
| "blocking_transit_call b nested (encode_path mount @ ''/'')
     (void (blk_transit_random (blk_transit b mount) nested x28 x29))
     (void (transit_random (transit (bl_inner b) mount) x28 x29))"
| "blocking_transit_call b nested (encode_path mount @ ''/'')
     (void (blk_transit_generate_data_key (blk_transit b mount) nested x30 x31))
     (void (transit_generate_data_key (transit (bl_inner b) mount) x30 x31))"
| "blocking_transit_call b nested (encode_path mount @ ''/'')
     (void (blk_transit_trim_key (blk_transit b mount) nested x32 x33))
     (void (transit_trim_key (transit (bl_inner b) mount) x32 x33))"
| "blocking_transit_call b nested (encode_path mount @ ''/'')
     (void (blk_transit_backup_key (blk_transit b mount) nested x34))
     (void (transit_backup_key (transit (bl_inner b) mount) x34))"
| "blocking_transit_call b nested (encode_path mount @ ''/'')
     (void (blk_transit_restore_key (blk_transit b mount) nested x35 x36))
     (void (transit_restore_key (transit (bl_inner b) mount) x35 x36))"
| "blocking_transit_call b nested (encode_path mount @ ''/'')
     (void (blk_transit_batch_verify (blk_transit b mount) nested x37 x38))
     (void (transit_batch_verify (transit (bl_inner b) mount) x37 x38))"
| "blocking_transit_call b nested (encode_path mount @ ''/'')
     (void (blk_transit_read_cache_config (blk_transit b mount) nested))
     (void (transit_read_cache_config (transit (bl_inner b) mount)))"
| "blocking_transit_call b nested (encode_path mount @ ''/'')
     (void (blk_transit_write_cache_config (blk_transit b mount) nested x39))
     (void (transit_write_cache_config (transit (bl_inner b) mount) x39))"
| "blocking_transit_call b nested (encode_path mount @ ''/'')
     (void (blk_transit_export_key (blk_transit b mount) nested x40 x41 x42))
     (void (transit_export_key (transit (bl_inner b) mount) x40 x41 x42))"
| "blocking_transit_call b nested (encode_path mount @ ''/'')
     (void (blk_transit_decrypt (blk_transit b mount) nested x43 x44 x45))
     (void (transit_decrypt (transit (bl_inner b) mount) x43 x44 x45))"
| "blocking_transit_call b nested (encode_path mount @ ''/'')
     (void (blk_transit_sign (blk_transit b mount) nested x46 x47 x48 x49))
     (void (transit_sign (transit (bl_inner b) mount) x46 x47 x48 x49))"
| "blocking_transit_call b nested (encode_path mount @ ''/'')
     (void (blk_transit_batch_sign (blk_transit b mount) nested x50 x51 x52))
     (void (transit_batch_sign (transit (bl_inner b) mount) x50 x51 x52))"

lemmas blocking_transit_call_ops =
  blk_transit_create_key_def blk_transit_read_key_def blk_transit_list_keys_def
  blk_transit_delete_key_def blk_transit_update_key_config_def blk_transit_rotate_key_def
  blk_transit_encrypt_def blk_transit_rewrap_def blk_transit_batch_encrypt_def
  blk_transit_batch_decrypt_def blk_transit_verify_def blk_transit_hash_def blk_transit_hmac_def
  blk_transit_random_def blk_transit_generate_data_key_def blk_transit_trim_key_def
  blk_transit_backup_key_def blk_transit_restore_key_def blk_transit_batch_verify_def
  blk_transit_read_cache_config_def blk_transit_write_cache_config_def blk_transit_export_key_def
  blk_transit_decrypt_def blk_transit_sign_def blk_transit_batch_sign_def

lemma blocking_transit_call_same: "blocking_transit_call b nested pre m m' \<Longrightarrow>
    m = block_on (bl_rt b) nested m' \<and> transit_call (bl_inner b) pre m'"
  by (erule blocking_transit_call.cases; hypsubst; rule conjI;
      (rule transit_call.intros | simp only: blocking_transit_call_ops blocking_defs block_on_void blocking.select_convs))

inductive blocking_pki_call ::
  "'w client blocking \<Rightarrow> bool \<Rightarrow> string \<Rightarrow> ('w, unit) io \<Rightarrow> ('w, unit) io \<Rightarrow> bool" for b nested where
  "blocking_pki_call b nested (encode_path mount @ ''/'')
     (void (blk_pki_generate_root (blk_pki b mount) nested x1))
     (void (pki_generate_root (pki (bl_inner b) mount) x1))"
| "blocking_pki_call b nested (encode_path mount @ ''/'')
     (void (blk_pki_generate_intermediate_csr (blk_pki b mount) nested x2))
     (void (pki_generate_intermediate_csr (pki (bl_inner b) mount) x2))"
| "blocking_pki_call b nested (encode_path mount @ ''/'')
     (void (blk_pki_set_signed_intermediate (blk_pki b mount) nested x3))
     (void (pki_set_signed_intermediate (pki (bl_inner b) mount) x3))"
| "blocking_pki_call b nested (encode_path mount @ ''/'')
     (void (blk_pki_delete_root (blk_pki b mount) nested))
     (void (pki_delete_root (pki (bl_inner b) mount)))"
| "blocking_pki_call b nested (encode_path mount @ ''/'')
     (void (blk_pki_list_issuers (blk_pki b mount) nested))
     (void (pki_list_issuers (pki (bl_inner b) mount)))"
| "blocking_pki_call b nested (encode_path mount @ ''/'')
     (void (blk_pki_read_issuer (blk_pki b mount) nested x4))
     (void (pki_read_issuer (pki (bl_inner b) mount) x4))"
| "blocking_pki_call b nested (encode_path mount @ ''/'')
     (void (blk_pki_delete_issuer (blk_pki b mount) nested x5))
     (void (pki_delete_issuer (pki (bl_inner b) mount) x5))"
| "blocking_pki_call b nested (encode_path mount @ ''/'')
     (void (blk_pki_create_role (blk_pki b mount) nested x6 x7))
     (void (pki_create_role (pki (bl_inner b) mount) x6 x7))"
| "blocking_pki_call b nested (encode_path mount @ ''/'')
     (void (blk_pki_read_role (blk_pki b mount) nested x8))
     (void (pki_read_role (pki (bl_inner b) mount) x8))"
| "blocking_pki_call b nested (encode_path mount @ ''/'')
     (void (blk_pki_list_roles (blk_pki b mount) nested))
     (void (pki_list_roles (pki (bl_inner b) mount)))"
| "blocking_pki_call b nested (encode_path mount @ ''/'')
     (void (blk_pki_delete_role (blk_pki b mount) nested x9))
     (void (pki_delete_role (pki (bl_inner b) mount) x9))"
| "blocking_pki_call b nested (encode_path mount @ ''/'')
     (void (blk_pki_issue (blk_pki b mount) nested x10 x11))
     (void (pki_issue (pki (bl_inner b) mount) x10 x11))"
| "blocking_pki_call b nested (encode_path mount @ ''/'')
     (void (blk_pki_sign (blk_pki b mount) nested x12 x13))
     (void (pki_sign (pki (bl_inner b) mount) x12 x13))"
| "blocking_pki_call b nested (encode_path mount @ ''/'')
     (void (blk_pki_sign_verbatim (blk_pki b mount) nested x14 x15))
     (void (pki_sign_verbatim (pki (bl_inner b) mount) x14 x15))"
| "blocking_pki_call b nested (encode_path mount @ ''/'')
     (void (blk_pki_list_certs (blk_pki b mount) nested))
     (void (pki_list_certs (pki (bl_inner b) mount)))"
| "blocking_pki_call b nested (encode_path mount @ ''/'')
     (void (blk_pki_read_cert (blk_pki b mount) nested x16))
     (void (pki_read_cert (pki (bl_inner b) mount) x16))"
| "blocking_pki_call b nested (encode_path mount @ ''/'')
     (void (blk_pki_set_urls (blk_pki b mount) nested x17))
     (void (pki_set_urls (pki (bl_inner b) mount) x17))"
| "blocking_pki_call b nested (encode_path mount @ ''/'')
     (void (blk_pki_read_urls (blk_pki b mount) nested))
     (void (pki_read_urls (pki (bl_inner b) mount)))"
| "blocking_pki_call b nested (encode_path mount @ ''/'')
     (void (blk_pki_revoke (blk_pki b mount) nested x18))
     (void (pki_revoke (pki (bl_inner b) mount) x18))"
| "blocking_pki_call b nested (encode_path mount @ ''/'')
     (void (blk_pki_revoke_with_key (blk_pki b mount) nested x19 x20))
     (void (pki_revoke_with_key (pki (bl_inner b) mount) x19 x20))"
| "blocking_pki_call b nested (encode_path mount @ ''/'')
     (void (blk_pki_rotate_crl (blk_pki b mount) nested))
     (void (pki_rotate_crl (pki (bl_inner b) mount)))"
| "blocking_pki_call b nested (encode_path mount @ ''/'')
     (void (blk_pki_tidy (blk_pki b mount) nested x21))
     (void (pki_tidy (pki (bl_inner b) mount) x21))"
| "blocking_pki_call b nested (encode_path mount @ ''/'')
     (void (blk_pki_tidy_status (blk_pki b mount) nested))
     (void (pki_tidy_status (pki (bl_inner b) mount)))"
| "blocking_pki_call b nested (encode_path mount @ ''/'')
     (void (blk_pki_update_issuer (blk_pki b mount) nested x22 x23))
     (void (pki_update_issuer (pki (bl_inner b) mount) x22 x23))"
| "blocking_pki_call b nested (encode_path mount @ ''/'')
     (void (blk_pki_cross_sign_intermediate (blk_pki b mount) nested x24))
     (void (pki_cross_sign_intermediate (pki (bl_inner b) mount) x24))"
| "blocking_pki_call b nested (encode_path mount @ ''/'')
     (void (blk_pki_read_acme_config (blk_pki b mount) nested))
     (void (pki_read_acme_config (pki (bl_inner b) mount)))"
| "blocking_pki_call b nested (encode_path mount @ ''/'')
     (void (blk_pki_write_acme_config (blk_pki b mount) nested x25))
     (void (pki_write_acme_config (pki (bl_inner b) mount) x25))"
| "blocking_pki_call b nested (encode_path mount @ ''/'')
     (void (blk_pki_rotate_delta_crl (blk_pki b mount) nested))
     (void (pki_rotate_delta_crl (pki (bl_inner b) mount)))"
| "blocking_pki_call b nested (encode_path mount @ ''/'')
     (void (blk_pki_read_crl (blk_pki b mount) nested))
     (void (pki_read_crl (pki (bl_inner b) mount)))"
| "blocking_pki_call b nested (encode_path mount @ ''/'')
     (void (blk_pki_read_crl_delta (blk_pki b mount) nested))
     (void (pki_read_crl_delta (pki (bl_inner b) mount)))"

lemmas blocking_pki_call_ops =
  blk_pki_generate_root_def blk_pki_generate_intermediate_csr_def
  blk_pki_set_signed_intermediate_def blk_pki_delete_root_def blk_pki_list_issuers_def
  blk_pki_read_issuer_def blk_pki_delete_issuer_def blk_pki_create_role_def blk_pki_read_role_def
  blk_pki_list_roles_def blk_pki_delete_role_def blk_pki_issue_def blk_pki_sign_def
  blk_pki_sign_verbatim_def blk_pki_list_certs_def blk_pki_read_cert_def blk_pki_set_urls_def
  blk_pki_read_urls_def blk_pki_revoke_def blk_pki_revoke_with_key_def blk_pki_rotate_crl_def
  blk_pki_tidy_def blk_pki_tidy_status_def blk_pki_update_issuer_def
  blk_pki_cross_sign_intermediate_def blk_pki_read_acme_config_def blk_pki_write_acme_config_def
  blk_pki_rotate_delta_crl_def blk_pki_read_crl_def blk_pki_read_crl_delta_def

lemma blocking_pki_call_same: "blocking_pki_call b nested pre m m' \<Longrightarrow>
    m = block_on (bl_rt b) nested m' \<and> pki_call (bl_inner b) pre m'"
  by (erule blocking_pki_call.cases; hypsubst; rule conjI;
      (rule pki_call.intros | simp only: blocking_pki_call_ops blocking_defs block_on_void blocking.select_convs))

inductive blocking_database_call ::
  "'w client blocking \<Rightarrow> bool \<Rightarrow> string \<Rightarrow> ('w, unit) io \<Rightarrow> ('w, unit) io \<Rightarrow> bool" for b nested where
  "blocking_database_call b nested (encode_path mount @ ''/'')
     (void (blk_database_configure (blk_database b mount) nested x1 x2))
     (void (database_configure (database (bl_inner b) mount) x1 x2))"
| "blocking_database_call b nested (encode_path mount @ ''/'')
     (void (blk_database_read_config (blk_database b mount) nested x3))
     (void (database_read_config (database (bl_inner b) mount) x3))"
| "blocking_database_call b nested (encode_path mount @ ''/'')
     (void (blk_database_delete_config (blk_database b mount) nested x4))
     (void (database_delete_config (database (bl_inner b) mount) x4))"
| "blocking_database_call b nested (encode_path mount @ ''/'')
     (void (blk_database_list_connections (blk_database b mount) nested))
     (void (database_list_connections (database (bl_inner b) mount)))"
| "blocking_database_call b nested (encode_path mount @ ''/'')
     (void (blk_database_reset_connection (blk_database b mount) nested x5))
     (void (database_reset_connection (database (bl_inner b) mount) x5))"
| "blocking_database_call b nested (encode_path mount @ ''/'')
     (void (blk_database_create_role (blk_database b mount) nested x6 x7))
     (void (database_create_role (database (bl_inner b) mount) x6 x7))"
| "blocking_database_call b nested (encode_path mount @ ''/'')
     (void (blk_database_read_role (blk_database b mount) nested x8))
     (void (database_read_role (database (bl_inner b) mount) x8))"
| "blocking_database_call b nested (encode_path mount @ ''/'')
     (void (blk_database_delete_role (blk_database b mount) nested x9))
     (void (database_delete_role (database (bl_inner b) mount) x9))"
| "blocking_database_call b nested (encode_path mount @ ''/'')
     (void (blk_database_list_roles (blk_database b mount) nested))
     (void (database_list_roles (database (bl_inner b) mount)))"
| "blocking_database_call b nested (encode_path mount @ ''/'')
     (void (blk_database_get_credentials (blk_database b mount) nested x10))
     (void (database_get_credentials (database (bl_inner b) mount) x10))"
| "blocking_database_call b nested (encode_path mount @ ''/'')
     (void (blk_database_create_static_role (blk_database b mount) nested x11 x12))
     (void (database_create_static_role (database (bl_inner b) mount) x11 x12))"
| "blocking_database_call b nested (encode_path mount @ ''/'')
     (void (blk_database_read_static_role (blk_database b mount) nested x13))
     (void (database_read_static_role (database (bl_inner b) mount) x13))"
| "blocking_database_call b nested (encode_path mount @ ''/'')
     (void (blk_database_delete_static_role (blk_database b mount) nested x14))
     (void (database_delete_static_role (database (bl_inner b) mount) x14))"
| "blocking_database_call b nested (encode_path mount @ ''/'')
     (void (blk_database_list_static_roles (blk_database b mount) nested))
     (void (database_list_static_roles (database (bl_inner b) mount)))"
| "blocking_database_call b nested (encode_path mount @ ''/'')
     (void (blk_database_get_static_credentials (blk_database b mount) nested x15))
     (void (database_get_static_credentials (database (bl_inner b) mount) x15))"
| "blocking_database_call b nested (encode_path mount @ ''/'')
     (void (blk_database_rotate_static_role (blk_database b mount) nested x16))
     (void (database_rotate_static_role (database (bl_inner b) mount) x16))"

lemmas blocking_database_call_ops =
  blk_database_configure_def blk_database_read_config_def blk_database_delete_config_def
  blk_database_list_connections_def blk_database_reset_connection_def
  blk_database_create_role_def blk_database_read_role_def blk_database_delete_role_def
  blk_database_list_roles_def blk_database_get_credentials_def
  blk_database_create_static_role_def blk_database_read_static_role_def
  blk_database_delete_static_role_def blk_database_list_static_roles_def
  blk_database_get_static_credentials_def blk_database_rotate_static_role_def

lemma blocking_database_call_same: "blocking_database_call b nested pre m m' \<Longrightarrow>
    m = block_on (bl_rt b) nested m' \<and> database_call (bl_inner b) pre m'"
  by (erule blocking_database_call.cases; hypsubst; rule conjI;
      (rule database_call.intros | simp only: blocking_database_call_ops blocking_defs block_on_void blocking.select_convs))

inductive blocking_cloud_call ::
  "'w client blocking \<Rightarrow> bool \<Rightarrow> string \<Rightarrow> ('w, unit) io \<Rightarrow> ('w, unit) io \<Rightarrow> bool" for b nested where
  "blocking_cloud_call b nested (encode_path mount @ ''/'')
     (void (blk_aws_configure_root (blk_aws_secrets b mount) nested x1))
     (void (aws_configure_root (aws_secrets (bl_inner b) mount) x1))"
| "blocking_cloud_call b nested (encode_path mount @ ''/'')
     (void (blk_aws_read_config_root (blk_aws_secrets b mount) nested))
     (void (aws_read_config_root (aws_secrets (bl_inner b) mount)))"
| "blocking_cloud_call b nested (encode_path mount @ ''/'')
     (void (blk_aws_rotate_root (blk_aws_secrets b mount) nested))
     (void (aws_rotate_root (aws_secrets (bl_inner b) mount)))"
| "blocking_cloud_call b nested (encode_path mount @ ''/'')
     (void (blk_aws_create_role (blk_aws_secrets b mount) nested x2 x3))
     (void (aws_create_role (aws_secrets (bl_inner b) mount) x2 x3))"
| "blocking_cloud_call b nested (encode_path mount @ ''/'')
     (void (blk_aws_read_role (blk_aws_secrets b mount) nested x4))
     (void (aws_read_role (aws_secrets (bl_inner b) mount) x4))"
| "blocking_cloud_call b nested (encode_path mount @ ''/'')
     (void (blk_aws_delete_role (blk_aws_secrets b mount) nested x5))
     (void (aws_delete_role (aws_secrets (bl_inner b) mount) x5))"
| "blocking_cloud_call b nested (encode_path mount @ ''/'')
     (void (blk_aws_list_roles (blk_aws_secrets b mount) nested))
     (void (aws_list_roles (aws_secrets (bl_inner b) mount)))"
| "blocking_cloud_call b nested (encode_path mount @ ''/'')
     (void (blk_aws_get_credentials (blk_aws_secrets b mount) nested x6))
     (void (aws_get_credentials (aws_secrets (bl_inner b) mount) x6))"
| "blocking_cloud_call b nested (encode_path mount @ ''/'')
     (void (blk_aws_get_sts_credentials (blk_aws_secrets b mount) nested x7 x8))
     (void (aws_get_sts_credentials (aws_secrets (bl_inner b) mount) x7 x8))"
| "blocking_cloud_call b nested (encode_path mount @ ''/'')
     (void (blk_azure_configure (blk_azure_secrets b mount) nested x9))
     (void (azure_configure (azure_secrets (bl_inner b) mount) x9))"
| "blocking_cloud_call b nested (encode_path mount @ ''/'')
     (void (blk_azure_read_config (blk_azure_secrets b mount) nested))
     (void (azure_read_config (azure_secrets (bl_inner b) mount)))"
| "blocking_cloud_call b nested (encode_path mount @ ''/'')
     (void (blk_azure_delete_config (blk_azure_secrets b mount) nested))
     (void (azure_delete_config (azure_secrets (bl_inner b) mount)))"
| "blocking_cloud_call b nested (encode_path mount @ ''/'')
     (void (blk_azure_create_role (blk_azure_secrets b mount) nested x10 x11))
     (void (azure_create_role (azure_secrets (bl_inner b) mount) x10 x11))"
| "blocking_cloud_call b nested (encode_path mount @ ''/'')
     (void (blk_azure_read_role (blk_azure_secrets b mount) nested x12))
     (void (azure_read_role (azure_secrets (bl_inner b) mount) x12))"
| "blocking_cloud_call b nested (encode_path mount @ ''/'')
     (void (blk_azure_delete_role (blk_azure_secrets b mount) nested x13))
     (void (azure_delete_role (azure_secrets (bl_inner b) mount) x13))"
| "blocking_cloud_call b nested (encode_path mount @ ''/'')
     (void (blk_azure_list_roles (blk_azure_secrets b mount) nested))
     (void (azure_list_roles (azure_secrets (bl_inner b) mount)))"
| "blocking_cloud_call b nested (encode_path mount @ ''/'')
     (void (blk_azure_get_credentials (blk_azure_secrets b mount) nested x14))
     (void (azure_get_credentials (azure_secrets (bl_inner b) mount) x14))"
| "blocking_cloud_call b nested (encode_path mount @ ''/'')
     (void (blk_gcp_configure (blk_gcp_secrets b mount) nested x15))
     (void (gcp_configure (gcp_secrets (bl_inner b) mount) x15))"
| "blocking_cloud_call b nested (encode_path mount @ ''/'')
     (void (blk_gcp_read_config (blk_gcp_secrets b mount) nested))
     (void (gcp_read_config (gcp_secrets (bl_inner b) mount)))"
| "blocking_cloud_call b nested (encode_path mount @ ''/'')
     (void (blk_gcp_delete_config (blk_gcp_secrets b mount) nested))
     (void (gcp_delete_config (gcp_secrets (bl_inner b) mount)))"
| "blocking_cloud_call b nested (encode_path mount @ ''/'')
     (void (blk_gcp_create_roleset (blk_gcp_secrets b mount) nested x16 x17))
     (void (gcp_create_roleset (gcp_secrets (bl_inner b) mount) x16 x17))"
| "blocking_cloud_call b nested (encode_path mount @ ''/'')
     (void (blk_gcp_read_roleset (blk_gcp_secrets b mount) nested x18))
     (void (gcp_read_roleset (gcp_secrets (bl_inner b) mount) x18))"
| "blocking_cloud_call b nested (encode_path mount @ ''/'')
     (void (blk_gcp_delete_roleset (blk_gcp_secrets b mount) nested x19))
     (void (gcp_delete_roleset (gcp_secrets (bl_inner b) mount) x19))"
| "blocking_cloud_call b nested (encode_path mount @ ''/'')
     (void (blk_gcp_list_rolesets (blk_gcp_secrets b mount) nested))
     (void (gcp_list_rolesets (gcp_secrets (bl_inner b) mount)))"
| "blocking_cloud_call b nested (encode_path mount @ ''/'')
     (void (blk_gcp_get_service_account_key (blk_gcp_secrets b mount) nested x20))
     (void (gcp_get_service_account_key (gcp_secrets (bl_inner b) mount) x20))"
| "blocking_cloud_call b nested (encode_path mount @ ''/'')
     (void (blk_gcp_get_oauth_token (blk_gcp_secrets b mount) nested x21))
     (void (gcp_get_oauth_token (gcp_secrets (bl_inner b) mount) x21))"
| "blocking_cloud_call b nested (encode_path mount @ ''/'')
     (void (blk_gcp_rotate_roleset (blk_gcp_secrets b mount) nested x22))
     (void (gcp_rotate_roleset (gcp_secrets (bl_inner b) mount) x22))"

lemmas blocking_cloud_call_ops =
  blk_aws_configure_root_def blk_aws_read_config_root_def blk_aws_rotate_root_def
  blk_aws_create_role_def blk_aws_read_role_def blk_aws_delete_role_def blk_aws_list_roles_def
  blk_aws_get_credentials_def blk_aws_get_sts_credentials_def blk_azure_configure_def
  blk_azure_read_config_def blk_azure_delete_config_def blk_azure_create_role_def
  blk_azure_read_role_def blk_azure_delete_role_def blk_azure_list_roles_def
  blk_azure_get_credentials_def blk_gcp_configure_def blk_gcp_read_config_def
  blk_gcp_delete_config_def blk_gcp_create_roleset_def blk_gcp_read_roleset_def
  blk_gcp_delete_roleset_def blk_gcp_list_rolesets_def blk_gcp_get_service_account_key_def
  blk_gcp_get_oauth_token_def blk_gcp_rotate_roleset_def

lemma blocking_cloud_call_same: "blocking_cloud_call b nested pre m m' \<Longrightarrow>
    m = block_on (bl_rt b) nested m' \<and> cloud_call (bl_inner b) pre m'"
  by (erule blocking_cloud_call.cases; hypsubst; rule conjI;
      (rule cloud_call.intros | simp only: blocking_cloud_call_ops blocking_defs block_on_void blocking.select_convs))

inductive blocking_small_call ::
  "'w client blocking \<Rightarrow> bool \<Rightarrow> string \<Rightarrow> ('w, unit) io \<Rightarrow> ('w, unit) io \<Rightarrow> bool" for b nested where
  "blocking_small_call b nested (encode_path mount @ ''/'')
     (void (blk_ssh_configure_ca (blk_ssh b mount) nested x1))
     (void (ssh_configure_ca (ssh (bl_inner b) mount) x1))"
| "blocking_small_call b nested (encode_path mount @ ''/'')
     (void (blk_ssh_read_public_key (blk_ssh b mount) nested))
     (void (ssh_read_public_key (ssh (bl_inner b) mount)))"
| "blocking_small_call b nested (encode_path mount @ ''/'')
     (void (blk_ssh_delete_ca (blk_ssh b mount) nested))
     (void (ssh_delete_ca (ssh (bl_inner b) mount)))"
| "blocking_small_call b nested (encode_path mount @ ''/'')
     (void (blk_ssh_create_role (blk_ssh b mount) nested x2 x3))
     (void (ssh_create_role (ssh (bl_inner b) mount) x2 x3))"
| "blocking_small_call b nested (encode_path mount @ ''/'')
     (void (blk_ssh_read_role (blk_ssh b mount) nested x4))
     (void (ssh_read_role (ssh (bl_inner b) mount) x4))"
| "blocking_small_call b nested (encode_path mount @ ''/'')
     (void (blk_ssh_delete_role (blk_ssh b mount) nested x5))
     (void (ssh_delete_role (ssh (bl_inner b) mount) x5))"
| "blocking_small_call b nested (encode_path mount @ ''/'')
     (void (blk_ssh_list_roles (blk_ssh b mount) nested))
     (void (ssh_list_roles (ssh (bl_inner b) mount)))"
| "blocking_small_call b nested (encode_path mount @ ''/'')
     (void (blk_ssh_sign_key (blk_ssh b mount) nested x6 x7))
     (void (ssh_sign_key (ssh (bl_inner b) mount) x6 x7))"
| "blocking_small_call b nested (encode_path mount @ ''/'')
     (void (blk_ssh_verify_otp (blk_ssh b mount) nested x8))
     (void (ssh_verify_otp (ssh (bl_inner b) mount) x8))"
| "blocking_small_call b nested (encode_path mount @ ''/'')
     (void (blk_totp_create_key (blk_totp b mount) nested x9 x10))
     (void (totp_create_key (totp (bl_inner b) mount) x9 x10))"
| "blocking_small_call b nested (encode_path mount @ ''/'')
     (void (blk_totp_read_key (blk_totp b mount) nested x11))
     (void (totp_read_key (totp (bl_inner b) mount) x11))"
| "blocking_small_call b nested (encode_path mount @ ''/'')
     (void (blk_totp_delete_key (blk_totp b mount) nested x12))
     (void (totp_delete_key (totp (bl_inner b) mount) x12))"
| "blocking_small_call b nested (encode_path mount @ ''/'')
     (void (blk_totp_list_keys (blk_totp b mount) nested))
     (void (totp_list_keys (totp (bl_inner b) mount)))"
| "blocking_small_call b nested (encode_path mount @ ''/'')
     (void (blk_totp_generate_code (blk_totp b mount) nested x13))
     (void (totp_generate_code (totp (bl_inner b) mount) x13))"
| "blocking_small_call b nested (encode_path mount @ ''/'')
     (void (blk_totp_validate_code (blk_totp b mount) nested x14 x15))
     (void (totp_validate_code (totp (bl_inner b) mount) x14 x15))"
| "blocking_small_call b nested (encode_path mount @ ''/'')
     (void (blk_consul_configure (blk_consul_secrets b mount) nested x16))
     (void (consul_configure (consul_secrets (bl_inner b) mount) x16))"
| "blocking_small_call b nested (encode_path mount @ ''/'')
     (void (blk_consul_read_config (blk_consul_secrets b mount) nested))
     (void (consul_read_config (consul_secrets (bl_inner b) mount)))"
| "blocking_small_call b nested (encode_path mount @ ''/'')
     (void (blk_consul_delete_config (blk_consul_secrets b mount) nested))
     (void (consul_delete_config (consul_secrets (bl_inner b) mount)))"
| "blocking_small_call b nested (encode_path mount @ ''/'')
     (void (blk_consul_create_role (blk_consul_secrets b mount) nested x17 x18))
     (void (consul_create_role (consul_secrets (bl_inner b) mount) x17 x18))"
| "blocking_small_call b nested (encode_path mount @ ''/'')
     (void (blk_consul_read_role (blk_consul_secrets b mount) nested x19))
     (void (consul_read_role (consul_secrets (bl_inner b) mount) x19))"
| "blocking_small_call b nested (encode_path mount @ ''/'')
     (void (blk_consul_delete_role (blk_consul_secrets b mount) nested x20))
     (void (consul_delete_role (consul_secrets (bl_inner b) mount) x20))"
| "blocking_small_call b nested (encode_path mount @ ''/'')
     (void (blk_consul_list_roles (blk_consul_secrets b mount) nested))
     (void (consul_list_roles (consul_secrets (bl_inner b) mount)))"
| "blocking_small_call b nested (encode_path mount @ ''/'')
     (void (blk_consul_get_credentials (blk_consul_secrets b mount) nested x21))
     (void (consul_get_credentials (consul_secrets (bl_inner b) mount) x21))"
| "blocking_small_call b nested (encode_path mount @ ''/'')
     (void (blk_nomad_configure (blk_nomad_secrets b mount) nested x22))
     (void (nomad_configure (nomad_secrets (bl_inner b) mount) x22))"
| "blocking_small_call b nested (encode_path mount @ ''/'')
     (void (blk_nomad_read_config (blk_nomad_secrets b mount) nested))
     (void (nomad_read_config (nomad_secrets (bl_inner b) mount)))"
| "blocking_small_call b nested (encode_path mount @ ''/'')
     (void (blk_nomad_delete_config (blk_nomad_secrets b mount) nested))
     (void (nomad_delete_config (nomad_secrets (bl_inner b) mount)))"
| "blocking_small_call b nested (encode_path mount @ ''/'')
     (void (blk_nomad_create_role (blk_nomad_secrets b mount) nested x23 x24))
     (void (nomad_create_role (nomad_secrets (bl_inner b) mount) x23 x24))"
| "blocking_small_call b nested (encode_path mount @ ''/'')
     (void (blk_nomad_read_role (blk_nomad_secrets b mount) nested x25))
     (void (nomad_read_role (nomad_secrets (bl_inner b) mount) x25))"
| "blocking_small_call b nested (encode_path mount @ ''/'')
     (void (blk_nomad_delete_role (blk_nomad_secrets b mount) nested x26))
     (void (nomad_delete_role (nomad_secrets (bl_inner b) mount) x26))"
| "blocking_small_call b nested (encode_path mount @ ''/'')
     (void (blk_nomad_list_roles (blk_nomad_secrets b mount) nested))
     (void (nomad_list_roles (nomad_secrets (bl_inner b) mount)))"
| "blocking_small_call b nested (encode_path mount @ ''/'')
     (void (blk_nomad_get_credentials (blk_nomad_secrets b mount) nested x27))
     (void (nomad_get_credentials (nomad_secrets (bl_inner b) mount) x27))"
| "blocking_small_call b nested (encode_path mount @ ''/'')
     (void (blk_rabbitmq_configure (blk_rabbitmq b mount) nested x28))
     (void (rabbitmq_configure (rabbitmq (bl_inner b) mount) x28))"
| "blocking_small_call b nested (encode_path mount @ ''/'')
     (void (blk_rabbitmq_configure_lease (blk_rabbitmq b mount) nested x29 x30))
     (void (rabbitmq_configure_lease (rabbitmq (bl_inner b) mount) x29 x30))"
| "blocking_small_call b nested (encode_path mount @ ''/'')
     (void (blk_rabbitmq_create_role (blk_rabbitmq b mount) nested x31 x32))
     (void (rabbitmq_create_role (rabbitmq (bl_inner b) mount) x31 x32))"
| "blocking_small_call b nested (encode_path mount @ ''/'')
     (void (blk_rabbitmq_read_role (blk_rabbitmq b mount) nested x33))
     (void (rabbitmq_read_role (rabbitmq (bl_inner b) mount) x33))"
| "blocking_small_call b nested (encode_path mount @ ''/'')
     (void (blk_rabbitmq_delete_role (blk_rabbitmq b mount) nested x34))
     (void (rabbitmq_delete_role (rabbitmq (bl_inner b) mount) x34))"
| "blocking_small_call b nested (encode_path mount @ ''/'')
     (void (blk_rabbitmq_list_roles (blk_rabbitmq b mount) nested))
     (void (rabbitmq_list_roles (rabbitmq (bl_inner b) mount)))"
| "blocking_small_call b nested (encode_path mount @ ''/'')
     (void (blk_rabbitmq_get_credentials (blk_rabbitmq b mount) nested x35))
     (void (rabbitmq_get_credentials (rabbitmq (bl_inner b) mount) x35))"
| "blocking_small_call b nested (encode_path mount @ ''/'')
     (void (blk_terraform_configure (blk_terraform_cloud b mount) nested x36))
     (void (terraform_configure (terraform_cloud (bl_inner b) mount) x36))"
| "blocking_small_call b nested (encode_path mount @ ''/'')
     (void (blk_terraform_read_config (blk_terraform_cloud b mount) nested))
     (void (terraform_read_config (terraform_cloud (bl_inner b) mount)))"
| "blocking_small_call b nested (encode_path mount @ ''/'')
     (void (blk_terraform_delete_config (blk_terraform_cloud b mount) nested))
     (void (terraform_delete_config (terraform_cloud (bl_inner b) mount)))"
| "blocking_small_call b nested (encode_path mount @ ''/'')
     (void (blk_terraform_create_role (blk_terraform_cloud b mount) nested x37 x38))
     (void (terraform_create_role (terraform_cloud (bl_inner b) mount) x37 x38))"
| "blocking_small_call b nested (encode_path mount @ ''/'')
     (void (blk_terraform_read_role (blk_terraform_cloud b mount) nested x39))
     (void (terraform_read_role (terraform_cloud (bl_inner b) mount) x39))"
| "blocking_small_call b nested (encode_path mount @ ''/'')
     (void (blk_terraform_delete_role (blk_terraform_cloud b mount) nested x40))
     (void (terraform_delete_role (terraform_cloud (bl_inner b) mount) x40))"
| "blocking_small_call b nested (encode_path mount @ ''/'')
     (void (blk_terraform_list_roles (blk_terraform_cloud b mount) nested))
     (void (terraform_list_roles (terraform_cloud (bl_inner b) mount)))"
| "blocking_small_call b nested (encode_path mount @ ''/'')
     (void (blk_terraform_get_credentials (blk_terraform_cloud b mount) nested x41))
     (void (terraform_get_credentials (terraform_cloud (bl_inner b) mount) x41))"

lemmas blocking_small_call_ops =
  blk_ssh_configure_ca_def blk_ssh_read_public_key_def blk_ssh_delete_ca_def
  blk_ssh_create_role_def blk_ssh_read_role_def blk_ssh_delete_role_def blk_ssh_list_roles_def
  blk_ssh_sign_key_def blk_ssh_verify_otp_def blk_totp_create_key_def blk_totp_read_key_def
  blk_totp_delete_key_def blk_totp_list_keys_def blk_totp_generate_code_def
  blk_totp_validate_code_def blk_consul_configure_def blk_consul_read_config_def
  blk_consul_delete_config_def blk_consul_create_role_def blk_consul_read_role_def
  blk_consul_delete_role_def blk_consul_list_roles_def blk_consul_get_credentials_def
  blk_nomad_configure_def blk_nomad_read_config_def blk_nomad_delete_config_def
  blk_nomad_create_role_def blk_nomad_read_role_def blk_nomad_delete_role_def
  blk_nomad_list_roles_def blk_nomad_get_credentials_def blk_rabbitmq_configure_def
  blk_rabbitmq_configure_lease_def blk_rabbitmq_create_role_def blk_rabbitmq_read_role_def
  blk_rabbitmq_delete_role_def blk_rabbitmq_list_roles_def blk_rabbitmq_get_credentials_def
  blk_terraform_configure_def blk_terraform_read_config_def blk_terraform_delete_config_def
  blk_terraform_create_role_def blk_terraform_read_role_def blk_terraform_delete_role_def
  blk_terraform_list_roles_def blk_terraform_get_credentials_def

lemma blocking_small_call_same: "blocking_small_call b nested pre m m' \<Longrightarrow>
    m = block_on (bl_rt b) nested m' \<and> small_call (bl_inner b) pre m'"
  by (erule blocking_small_call.cases; hypsubst; rule conjI;
      (rule small_call.intros | simp only: blocking_small_call_ops blocking_defs block_on_void blocking.select_convs))

inductive blocking_identity_call ::
  "'w client blocking \<Rightarrow> bool \<Rightarrow> string \<Rightarrow> ('w, unit) io \<Rightarrow> ('w, unit) io \<Rightarrow> bool" for b nested where
  "blocking_identity_call b nested ''identity/''
     (void (blk_identity_create_entity (blk_identity b) nested x1))
     (void (identity_create_entity (bl_inner b) x1))"
| "blocking_identity_call b nested ''identity/''
     (void (blk_identity_read_entity (blk_identity b) nested x2))
     (void (identity_read_entity (bl_inner b) x2))"
| "blocking_identity_call b nested ''identity/''
     (void (blk_identity_read_entity_by_name (blk_identity b) nested x3))
     (void (identity_read_entity_by_name (bl_inner b) x3))"
| "blocking_identity_call b nested ''identity/''
     (void (blk_identity_update_entity (blk_identity b) nested x4 x5))
     (void (identity_update_entity (bl_inner b) x4 x5))"
| "blocking_identity_call b nested ''identity/''
     (void (blk_identity_delete_entity (blk_identity b) nested x6))
     (void (identity_delete_entity (bl_inner b) x6))"
| "blocking_identity_call b nested ''identity/''
     (void (blk_identity_list_entities (blk_identity b) nested))
     (void (identity_list_entities (bl_inner b)))"
| "blocking_identity_call b nested ''identity/''
     (void (blk_identity_create_entity_alias (blk_identity b) nested x7))
     (void (identity_create_entity_alias (bl_inner b) x7))"
| "blocking_identity_call b nested ''identity/''
     (void (blk_identity_read_entity_alias (blk_identity b) nested x8))
     (void (identity_read_entity_alias (bl_inner b) x8))"
| "blocking_identity_call b nested ''identity/''
     (void (blk_identity_delete_entity_alias (blk_identity b) nested x9))
     (void (identity_delete_entity_alias (bl_inner b) x9))"
| "blocking_identity_call b nested ''identity/''
     (void (blk_identity_list_entity_aliases (blk_identity b) nested))
     (void (identity_list_entity_aliases (bl_inner b)))"
| "blocking_identity_call b nested ''identity/''
     (void (blk_identity_create_group (blk_identity b) nested x10))
     (void (identity_create_group (bl_inner b) x10))"
| "blocking_identity_call b nested ''identity/''
     (void (blk_identity_read_group (blk_identity b) nested x11))
     (void (identity_read_group (bl_inner b) x11))"
| "blocking_identity_call b nested ''identity/''
     (void (blk_identity_read_group_by_name (blk_identity b) nested x12))
     (void (identity_read_group_by_name (bl_inner b) x12))"
| "blocking_identity_call b nested ''identity/''
     (void (blk_identity_update_group (blk_identity b) nested x13 x14))
     (void (identity_update_group (bl_inner b) x13 x14))"
| "blocking_identity_call b nested ''identity/''
     (void (blk_identity_delete_group (blk_identity b) nested x15))
     (void (identity_delete_group (bl_inner b) x15))"
| "blocking_identity_call b nested ''identity/''
     (void (blk_identity_list_groups (blk_identity b) nested))
     (void (identity_list_groups (bl_inner b)))"
| "blocking_identity_call b nested ''identity/''
     (void (blk_identity_create_group_alias (blk_identity b) nested x16))
     (void (identity_create_group_alias (bl_inner b) x16))"
| "blocking_identity_call b nested ''identity/''
     (void (blk_identity_read_group_alias (blk_identity b) nested x17))
     (void (identity_read_group_alias (bl_inner b) x17))"
| "blocking_identity_call b nested ''identity/''
     (void (blk_identity_delete_group_alias (blk_identity b) nested x18))
     (void (identity_delete_group_alias (bl_inner b) x18))"
| "blocking_identity_call b nested ''identity/''
     (void (blk_identity_list_group_aliases (blk_identity b) nested))
     (void (identity_list_group_aliases (bl_inner b)))"

lemmas blocking_identity_call_ops =
  blk_identity_create_entity_def blk_identity_read_entity_def
  blk_identity_read_entity_by_name_def blk_identity_update_entity_def
  blk_identity_delete_entity_def blk_identity_list_entities_def
  blk_identity_create_entity_alias_def blk_identity_read_entity_alias_def
  blk_identity_delete_entity_alias_def blk_identity_list_entity_aliases_def
  blk_identity_create_group_def blk_identity_read_group_def blk_identity_read_group_by_name_def
  blk_identity_update_group_def blk_identity_delete_group_def blk_identity_list_groups_def
  blk_identity_create_group_alias_def blk_identity_read_group_alias_def
  blk_identity_delete_group_alias_def blk_identity_list_group_aliases_def

lemma blocking_identity_call_same: "blocking_identity_call b nested pre m m' \<Longrightarrow>
    m = block_on (bl_rt b) nested m' \<and> identity_call (bl_inner b) pre m'"
  by (erule blocking_identity_call.cases; hypsubst; rule conjI;
      (rule identity_call.intros | simp only: blocking_identity_call_ops blocking_defs block_on_void blocking.select_convs))

inductive blocking_sys_call1 ::
  "'w client blocking \<Rightarrow> bool \<Rightarrow> string \<Rightarrow> ('w, unit) io \<Rightarrow> ('w, unit) io \<Rightarrow> bool" for b nested where
  "blocking_sys_call1 b nested ''sys/''
     (void (blk_sys_health (blk_sys b) nested))
     (void (sys_health (bl_inner b)))"
| "blocking_sys_call1 b nested ''sys/''
     (void (blk_sys_leader (blk_sys b) nested))
     (void (sys_leader (bl_inner b)))"
| "blocking_sys_call1 b nested ''sys/''
     (void (blk_sys_seal_status (blk_sys b) nested))
     (void (sys_seal_status (bl_inner b)))"
| "blocking_sys_call1 b nested ''sys/''
     (void (blk_sys_seal (blk_sys b) nested))
     (void (sys_seal (bl_inner b)))"
| "blocking_sys_call1 b nested ''sys/''
     (void (blk_sys_unseal (blk_sys b) nested x1))
     (void (sys_unseal (bl_inner b) x1))"
| "blocking_sys_call1 b nested ''sys/''
     (void (blk_sys_init (blk_sys b) nested x2))
     (void (sys_init (bl_inner b) x2))"
| "blocking_sys_call1 b nested ''sys/''
     (void (blk_sys_step_down (blk_sys b) nested))
     (void (sys_step_down (bl_inner b)))"
| "blocking_sys_call1 b nested ''sys/''
     (void (blk_sys_list_mounts (blk_sys b) nested))
     (void (sys_list_mounts (bl_inner b)))"
| "blocking_sys_call1 b nested ''sys/''
     (void (blk_sys_mount (blk_sys b) nested x3 x4))
     (void (sys_mount (bl_inner b) x3 x4))"
| "blocking_sys_call1 b nested ''sys/''
     (void (blk_sys_unmount (blk_sys b) nested x5))
     (void (sys_unmount (bl_inner b) x5))"
| "blocking_sys_call1 b nested ''sys/''
     (void (blk_sys_tune_mount (blk_sys b) nested x6 x7))
     (void (sys_tune_mount (bl_inner b) x6 x7))"
| "blocking_sys_call1 b nested ''sys/''
     (void (blk_sys_read_mount_tune (blk_sys b) nested x8))
     (void (sys_read_mount_tune (bl_inner b) x8))"
| "blocking_sys_call1 b nested ''sys/''
     (void (blk_sys_list_auth_mounts (blk_sys b) nested))
     (void (sys_list_auth_mounts (bl_inner b)))"
| "blocking_sys_call1 b nested ''sys/''
     (void (blk_sys_enable_auth (blk_sys b) nested x9 x10))
     (void (sys_enable_auth (bl_inner b) x9 x10))"
| "blocking_sys_call1 b nested ''sys/''
     (void (blk_sys_disable_auth (blk_sys b) nested x11))
     (void (sys_disable_auth (bl_inner b) x11))"
| "blocking_sys_call1 b nested ''sys/''
     (void (blk_sys_read_auth_tune (blk_sys b) nested x12))
     (void (sys_read_auth_tune (bl_inner b) x12))"
| "blocking_sys_call1 b nested ''sys/''
     (void (blk_sys_list_policies (blk_sys b) nested))
     (void (sys_list_policies (bl_inner b)))"
| "blocking_sys_call1 b nested ''sys/''
     (void (blk_sys_read_policy (blk_sys b) nested x13))
     (void (sys_read_policy (bl_inner b) x13))"
| "blocking_sys_call1 b nested ''sys/''
     (void (blk_sys_write_policy (blk_sys b) nested x14 x15))
     (void (sys_write_policy (bl_inner b) x14 x15))"
| "blocking_sys_call1 b nested ''sys/''
     (void (blk_sys_delete_policy (blk_sys b) nested x16))
     (void (sys_delete_policy (bl_inner b) x16))"
| "blocking_sys_call1 b nested ''sys/''
     (void (blk_sys_list_audit_devices (blk_sys b) nested))
     (void (sys_list_audit_devices (bl_inner b)))"
| "blocking_sys_call1 b nested ''sys/''
     (void (blk_sys_enable_audit (blk_sys b) nested x17 x18))
     (void (sys_enable_audit (bl_inner b) x17 x18))"
| "blocking_sys_call1 b nested ''sys/''
     (void (blk_sys_disable_audit (blk_sys b) nested x19))
     (void (sys_disable_audit (bl_inner b) x19))"
| "blocking_sys_call1 b nested ''sys/''
     (void (blk_sys_read_lease (blk_sys b) nested x20))
     (void (sys_read_lease (bl_inner b) x20))"
| "blocking_sys_call1 b nested ''sys/''
     (void (blk_sys_revoke_lease (blk_sys b) nested x21))
     (void (sys_revoke_lease (bl_inner b) x21))"
| "blocking_sys_call1 b nested ''sys/''
     (void (blk_sys_revoke_prefix (blk_sys b) nested x22))
     (void (sys_revoke_prefix (bl_inner b) x22))"
| "blocking_sys_call1 b nested ''sys/''
     (void (blk_sys_list_namespaces (blk_sys b) nested))
     (void (sys_list_namespaces (bl_inner b)))"
| "blocking_sys_call1 b nested ''sys/''
     (void (blk_sys_create_namespace (blk_sys b) nested x23))
     (void (sys_create_namespace (bl_inner b) x23))"
| "blocking_sys_call1 b nested ''sys/''
     (void (blk_sys_delete_namespace (blk_sys b) nested x24))
     (void (sys_delete_namespace (bl_inner b) x24))"
| "blocking_sys_call1 b nested ''sys/''
     (void (blk_sys_list_plugins (blk_sys b) nested x25))
     (void (sys_list_plugins (bl_inner b) x25))"
| "blocking_sys_call1 b nested ''sys/''
     (void (blk_sys_read_plugin (blk_sys b) nested x26 x27))
     (void (sys_read_plugin (bl_inner b) x26 x27))"
| "blocking_sys_call1 b nested ''sys/''
     (void (blk_sys_register_plugin (blk_sys b) nested x28))
     (void (sys_register_plugin (bl_inner b) x28))"
| "blocking_sys_call1 b nested ''sys/''
     (void (blk_sys_deregister_plugin (blk_sys b) nested x29 x30))
     (void (sys_deregister_plugin (bl_inner b) x29 x30))"

lemmas blocking_sys_call1_ops =
  blk_sys_health_def blk_sys_leader_def blk_sys_seal_status_def blk_sys_seal_def
  blk_sys_unseal_def blk_sys_init_def blk_sys_step_down_def blk_sys_list_mounts_def
  blk_sys_mount_def blk_sys_unmount_def blk_sys_tune_mount_def blk_sys_read_mount_tune_def
  blk_sys_list_auth_mounts_def blk_sys_enable_auth_def blk_sys_disable_auth_def
  blk_sys_read_auth_tune_def blk_sys_list_policies_def blk_sys_read_policy_def
  blk_sys_write_policy_def blk_sys_delete_policy_def blk_sys_list_audit_devices_def
  blk_sys_enable_audit_def blk_sys_disable_audit_def blk_sys_read_lease_def
  blk_sys_revoke_lease_def blk_sys_revoke_prefix_def blk_sys_list_namespaces_def
  blk_sys_create_namespace_def blk_sys_delete_namespace_def blk_sys_list_plugins_def
  blk_sys_read_plugin_def blk_sys_register_plugin_def blk_sys_deregister_plugin_def

lemma blocking_sys_call1_same: "blocking_sys_call1 b nested pre m m' \<Longrightarrow>
    m = block_on (bl_rt b) nested m' \<and> sys_call1 (bl_inner b) pre m'"
  by (erule blocking_sys_call1.cases; hypsubst; rule conjI;
      (rule sys_call1.intros | simp only: blocking_sys_call1_ops blocking_defs block_on_void blocking.select_convs))

inductive blocking_sys_call2 ::
  "'w client blocking \<Rightarrow> bool \<Rightarrow> string \<Rightarrow> ('w, unit) io \<Rightarrow> ('w, unit) io \<Rightarrow> bool" for b nested where
  "blocking_sys_call2 b nested ''sys/''
     (void (blk_sys_reload_plugin (blk_sys b) nested x1))
     (void (sys_reload_plugin (bl_inner b) x1))"
| "blocking_sys_call2 b nested ''sys/''
     (void (blk_sys_list_rate_limit_quotas (blk_sys b) nested))
     (void (sys_list_rate_limit_quotas (bl_inner b)))"
| "blocking_sys_call2 b nested ''sys/''
     (void (blk_sys_read_rate_limit_quota (blk_sys b) nested x2))
     (void (sys_read_rate_limit_quota (bl_inner b) x2))"
| "blocking_sys_call2 b nested ''sys/''
     (void (blk_sys_write_rate_limit_quota (blk_sys b) nested x3 x4))
     (void (sys_write_rate_limit_quota (bl_inner b) x3 x4))"
| "blocking_sys_call2 b nested ''sys/''
     (void (blk_sys_delete_rate_limit_quota (blk_sys b) nested x5))
     (void (sys_delete_rate_limit_quota (bl_inner b) x5))"
| "blocking_sys_call2 b nested ''sys/''
     (void (blk_sys_raft_config (blk_sys b) nested))
     (void (sys_raft_config (bl_inner b)))"
| "blocking_sys_call2 b nested ''sys/''
     (void (blk_sys_raft_autopilot_state (blk_sys b) nested))
     (void (sys_raft_autopilot_state (bl_inner b)))"
| "blocking_sys_call2 b nested ''sys/''
     (void (blk_sys_raft_remove_peer (blk_sys b) nested x6))
     (void (sys_raft_remove_peer (bl_inner b) x6))"
| "blocking_sys_call2 b nested ''sys/''
     (void (blk_sys_rekey_init (blk_sys b) nested x7))
     (void (sys_rekey_init (bl_inner b) x7))"
| "blocking_sys_call2 b nested ''sys/''
     (void (blk_sys_rekey_status (blk_sys b) nested))
     (void (sys_rekey_status (bl_inner b)))"
| "blocking_sys_call2 b nested ''sys/''
     (void (blk_sys_rekey_cancel (blk_sys b) nested))
     (void (sys_rekey_cancel (bl_inner b)))"
| "blocking_sys_call2 b nested ''sys/''
     (void (blk_sys_rekey_update (blk_sys b) nested x8 x9))
     (void (sys_rekey_update (bl_inner b) x8 x9))"
| "blocking_sys_call2 b nested ''sys/''
     (void (blk_sys_generate_root_init (blk_sys b) nested x10))
     (void (sys_generate_root_init (bl_inner b) x10))"
| "blocking_sys_call2 b nested ''sys/''
     (void (blk_sys_generate_root_status (blk_sys b) nested))
     (void (sys_generate_root_status (bl_inner b)))"
| "blocking_sys_call2 b nested ''sys/''
     (void (blk_sys_generate_root_cancel (blk_sys b) nested))
     (void (sys_generate_root_cancel (bl_inner b)))"
| "blocking_sys_call2 b nested ''sys/''
     (void (blk_sys_generate_root_update (blk_sys b) nested x11 x12))
     (void (sys_generate_root_update (bl_inner b) x11 x12))"
| "blocking_sys_call2 b nested ''sys/''
     (void (blk_sys_remount (blk_sys b) nested x13 x14))
     (void (sys_remount (bl_inner b) x13 x14))"
| "blocking_sys_call2 b nested ''sys/''
     (void (blk_sys_metrics_json (blk_sys b) nested))
     (void (sys_metrics_json (bl_inner b)))"
| "blocking_sys_call2 b nested ''sys/''
     (void (blk_sys_host_info (blk_sys b) nested))
     (void (sys_host_info (bl_inner b)))"
| "blocking_sys_call2 b nested ''sys/''
     (void (blk_sys_internal_counters_activity (blk_sys b) nested))
     (void (sys_internal_counters_activity (bl_inner b)))"
| "blocking_sys_call2 b nested ''sys/''
     (void (blk_sys_rewrap (blk_sys b) nested x15))
     (void (sys_rewrap (bl_inner b) x15))"
| "blocking_sys_call2 b nested ''sys/''
     (void (blk_sys_in_flight_requests (blk_sys b) nested))
     (void (sys_in_flight_requests (bl_inner b)))"
| "blocking_sys_call2 b nested ''sys/''
     (void (blk_sys_unwrap (blk_sys b) nested (x16 :: json \<Rightarrow> json option) x17))
     (void (sys_unwrap (bl_inner b) (x16 :: json \<Rightarrow> json option) x17))"
| "blocking_sys_call2 b nested ''sys/''
     (void (blk_sys_wrap_lookup (blk_sys b) nested x18))
     (void (sys_wrap_lookup (bl_inner b) x18))"
| "blocking_sys_call2 b nested ''sys/''
     (void (blk_sys_capabilities (blk_sys b) nested x19 x20))
     (void (sys_capabilities (bl_inner b) x19 x20))"
| "blocking_sys_call2 b nested ''sys/''
     (void (blk_sys_capabilities_self (blk_sys b) nested x21))
     (void (sys_capabilities_self (bl_inner b) x21))"
| "blocking_sys_call2 b nested ''sys/''
     (void (blk_sys_key_status (blk_sys b) nested))
     (void (sys_key_status (bl_inner b)))"
| "blocking_sys_call2 b nested ''sys/''
     (void (blk_sys_rotate_encryption_key (blk_sys b) nested))
     (void (sys_rotate_encryption_key (bl_inner b)))"
| "blocking_sys_call2 b nested ''sys/''
     (void (blk_sys_renew_lease (blk_sys b) nested x22 x23))
     (void (sys_renew_lease (bl_inner b) x22 x23))"
| "blocking_sys_call2 b nested ''sys/''
     (void (blk_sys_unwrap_str (blk_sys b) nested (x24 :: json \<Rightarrow> json option) x25))
     (void (sys_unwrap_str (bl_inner b) (x24 :: json \<Rightarrow> json option) x25))"
| "blocking_sys_call2 b nested ''sys/''
     (void (blk_sys_raft_snapshot (blk_sys b) nested))
     (void (sys_raft_snapshot (bl_inner b)))"
| "blocking_sys_call2 b nested ''sys/''
     (void (blk_sys_version_history (blk_sys b) nested x26))
     (void (sys_version_history (bl_inner b) x26))"

lemmas blocking_sys_call2_ops =
  blk_sys_reload_plugin_def blk_sys_list_rate_limit_quotas_def blk_sys_read_rate_limit_quota_def
  blk_sys_write_rate_limit_quota_def blk_sys_delete_rate_limit_quota_def blk_sys_raft_config_def
  blk_sys_raft_autopilot_state_def blk_sys_raft_remove_peer_def blk_sys_rekey_init_def
  blk_sys_rekey_status_def blk_sys_rekey_cancel_def blk_sys_rekey_update_def
  blk_sys_generate_root_init_def blk_sys_generate_root_status_def
  blk_sys_generate_root_cancel_def blk_sys_generate_root_update_def blk_sys_remount_def
  blk_sys_metrics_json_def blk_sys_host_info_def blk_sys_internal_counters_activity_def
  blk_sys_rewrap_def blk_sys_in_flight_requests_def blk_sys_unwrap_def blk_sys_wrap_lookup_def
  blk_sys_capabilities_def blk_sys_capabilities_self_def blk_sys_key_status_def
  blk_sys_rotate_encryption_key_def blk_sys_renew_lease_def blk_sys_unwrap_str_def
  blk_sys_raft_snapshot_def blk_sys_version_history_def

lemma blocking_sys_call2_same: "blocking_sys_call2 b nested pre m m' \<Longrightarrow>
    m = block_on (bl_rt b) nested m' \<and> sys_call2 (bl_inner b) pre m'"
  by (erule blocking_sys_call2.cases; hypsubst; rule conjI;
      (rule sys_call2.intros | simp only: blocking_sys_call2_ops blocking_defs block_on_void blocking.select_convs))

inductive blocking_auth_call1 ::
  "'w client blocking \<Rightarrow> bool \<Rightarrow> string \<Rightarrow> ('w, unit) io \<Rightarrow> ('w, unit) io \<Rightarrow> bool" for b nested where
  "blocking_auth_call1 b nested ''auth/token/''
     (void (blk_token_auth_lookup_self (blk_auth_token b) nested))
     (void (token_auth_lookup_self (bl_inner b)))"
| "blocking_auth_call1 b nested ''auth/token/''
     (void (blk_token_auth_lookup (blk_auth_token b) nested x1))
     (void (token_auth_lookup (bl_inner b) x1))"
| "blocking_auth_call1 b nested ''auth/token/''
     (void (blk_token_auth_renew_self (blk_auth_token b) nested x2))
     (void (token_auth_renew_self (bl_inner b) x2))"
| "blocking_auth_call1 b nested ''auth/token/''
     (void (blk_token_auth_create (blk_auth_token b) nested x3))
     (void (token_auth_create (bl_inner b) x3))"
| "blocking_auth_call1 b nested ''auth/token/''
     (void (blk_token_auth_create_orphan (blk_auth_token b) nested x4))
     (void (token_auth_create_orphan (bl_inner b) x4))"
| "blocking_auth_call1 b nested ''auth/token/''
     (void (blk_token_auth_revoke (blk_auth_token b) nested x5))
     (void (token_auth_revoke (bl_inner b) x5))"
| "blocking_auth_call1 b nested ''auth/token/''
     (void (blk_token_auth_revoke_self (blk_auth_token b) nested))
     (void (token_auth_revoke_self (bl_inner b)))"
| "blocking_auth_call1 b nested ''auth/token/''
     (void (blk_token_auth_revoke_accessor (blk_auth_token b) nested x6))
     (void (token_auth_revoke_accessor (bl_inner b) x6))"
| "blocking_auth_call1 b nested ''auth/token/''
     (void (blk_token_auth_list_accessors (blk_auth_token b) nested))
     (void (token_auth_list_accessors (bl_inner b)))"
| "blocking_auth_call1 b nested (''auth/'' @ encode_path mount @ ''/'')
     (void (blk_approle_auth_login (blk_auth_approle_at b mount) nested x7 x8))
     (void (approle_auth_login (approle_at (bl_inner b) mount) x7 x8))"
| "blocking_auth_call1 b nested (''auth/'' @ encode_path mount @ ''/'')
     (void (blk_approle_auth_create_role (blk_auth_approle_at b mount) nested x9 x10))
     (void (approle_auth_create_role (approle_at (bl_inner b) mount) x9 x10))"
| "blocking_auth_call1 b nested (''auth/'' @ encode_path mount @ ''/'')
     (void (blk_approle_auth_read_role (blk_auth_approle_at b mount) nested x11))
     (void (approle_auth_read_role (approle_at (bl_inner b) mount) x11))"
| "blocking_auth_call1 b nested (''auth/'' @ encode_path mount @ ''/'')
     (void (blk_approle_auth_delete_role (blk_auth_approle_at b mount) nested x12))
     (void (approle_auth_delete_role (approle_at (bl_inner b) mount) x12))"
| "blocking_auth_call1 b nested (''auth/'' @ encode_path mount @ ''/'')
     (void (blk_approle_auth_list_roles (blk_auth_approle_at b mount) nested))
     (void (approle_auth_list_roles (approle_at (bl_inner b) mount)))"
| "blocking_auth_call1 b nested (''auth/'' @ encode_path mount @ ''/'')
     (void (blk_approle_auth_read_role_id (blk_auth_approle_at b mount) nested x13))
     (void (approle_auth_read_role_id (approle_at (bl_inner b) mount) x13))"
| "blocking_auth_call1 b nested (''auth/'' @ encode_path mount @ ''/'')
     (void (blk_approle_auth_generate_secret_id (blk_auth_approle_at b mount) nested x14))
     (void (approle_auth_generate_secret_id (approle_at (bl_inner b) mount) x14))"
| "blocking_auth_call1 b nested (''auth/'' @ encode_path mount @ ''/'')
     (void (blk_approle_auth_destroy_secret_id (blk_auth_approle_at b mount) nested x15 x16))
     (void (approle_auth_destroy_secret_id (approle_at (bl_inner b) mount) x15 x16))"
| "blocking_auth_call1 b nested (''auth/'' @ encode_path mount @ ''/'')
     (void (blk_kubernetes_auth_login (blk_auth_kubernetes_at b mount) nested x17 x18))
     (void (kubernetes_auth_login (kubernetes_at (bl_inner b) mount) x17 x18))"
| "blocking_auth_call1 b nested (''auth/'' @ encode_path mount @ ''/'')
     (void (blk_kubernetes_auth_configure (blk_auth_kubernetes_at b mount) nested x19))
     (void (kubernetes_auth_configure (kubernetes_at (bl_inner b) mount) x19))"
| "blocking_auth_call1 b nested (''auth/'' @ encode_path mount @ ''/'')
     (void (blk_kubernetes_auth_create_role (blk_auth_kubernetes_at b mount) nested x20 x21))
     (void (kubernetes_auth_create_role (kubernetes_at (bl_inner b) mount) x20 x21))"
| "blocking_auth_call1 b nested (''auth/'' @ encode_path mount @ ''/'')
     (void (blk_kubernetes_auth_read_role (blk_auth_kubernetes_at b mount) nested x22))
     (void (kubernetes_auth_read_role (kubernetes_at (bl_inner b) mount) x22))"
| "blocking_auth_call1 b nested (''auth/'' @ encode_path mount @ ''/'')
     (void (blk_kubernetes_auth_delete_role (blk_auth_kubernetes_at b mount) nested x23))
     (void (kubernetes_auth_delete_role (kubernetes_at (bl_inner b) mount) x23))"
| "blocking_auth_call1 b nested (''auth/'' @ encode_path mount @ ''/'')
     (void (blk_kubernetes_auth_list_roles (blk_auth_kubernetes_at b mount) nested))
     (void (kubernetes_auth_list_roles (kubernetes_at (bl_inner b) mount)))"
| "blocking_auth_call1 b nested (''auth/'' @ encode_path mount @ ''/'')
     (void (blk_userpass_auth_login (blk_auth_userpass_at b mount) nested x24 x25))
     (void (userpass_auth_login (userpass_at (bl_inner b) mount) x24 x25))"
| "blocking_auth_call1 b nested (''auth/'' @ encode_path mount @ ''/'')
     (void (blk_userpass_auth_create_user (blk_auth_userpass_at b mount) nested x26 x27))
     (void (userpass_auth_create_user (userpass_at (bl_inner b) mount) x26 x27))"
| "blocking_auth_call1 b nested (''auth/'' @ encode_path mount @ ''/'')
     (void (blk_userpass_auth_read_user (blk_auth_userpass_at b mount) nested x28))
     (void (userpass_auth_read_user (userpass_at (bl_inner b) mount) x28))"
| "blocking_auth_call1 b nested (''auth/'' @ encode_path mount @ ''/'')
     (void (blk_userpass_auth_delete_user (blk_auth_userpass_at b mount) nested x29))
     (void (userpass_auth_delete_user (userpass_at (bl_inner b) mount) x29))"
| "blocking_auth_call1 b nested (''auth/'' @ encode_path mount @ ''/'')
     (void (blk_userpass_auth_list_users (blk_auth_userpass_at b mount) nested))
     (void (userpass_auth_list_users (userpass_at (bl_inner b) mount)))"
| "blocking_auth_call1 b nested (''auth/'' @ encode_path mount @ ''/'')
     (void (blk_userpass_auth_update_password (blk_auth_userpass_at b mount) nested x30 x31))
     (void (userpass_auth_update_password (userpass_at (bl_inner b) mount) x30 x31))"
| "blocking_auth_call1 b nested (''auth/'' @ encode_path mount @ ''/'')
     (void (blk_ldap_auth_login (blk_auth_ldap_at b mount) nested x32 x33))
     (void (ldap_auth_login (ldap_at (bl_inner b) mount) x32 x33))"
| "blocking_auth_call1 b nested (''auth/'' @ encode_path mount @ ''/'')
     (void (blk_ldap_auth_configure (blk_auth_ldap_at b mount) nested x34))
     (void (ldap_auth_configure (ldap_at (bl_inner b) mount) x34))"
| "blocking_auth_call1 b nested (''auth/'' @ encode_path mount @ ''/'')
     (void (blk_ldap_auth_read_config (blk_auth_ldap_at b mount) nested))
     (void (ldap_auth_read_config (ldap_at (bl_inner b) mount)))"

lemmas blocking_auth_call1_ops =
  blk_token_auth_lookup_self_def blk_token_auth_lookup_def blk_token_auth_renew_self_def
  blk_token_auth_create_def blk_token_auth_create_orphan_def blk_token_auth_revoke_def
  blk_token_auth_revoke_self_def blk_token_auth_revoke_accessor_def
  blk_token_auth_list_accessors_def blk_approle_auth_login_def blk_approle_auth_create_role_def
  blk_approle_auth_read_role_def blk_approle_auth_delete_role_def blk_approle_auth_list_roles_def
  blk_approle_auth_read_role_id_def blk_approle_auth_generate_secret_id_def
  blk_approle_auth_destroy_secret_id_def blk_kubernetes_auth_login_def
  blk_kubernetes_auth_configure_def blk_kubernetes_auth_create_role_def
  blk_kubernetes_auth_read_role_def blk_kubernetes_auth_delete_role_def
  blk_kubernetes_auth_list_roles_def blk_userpass_auth_login_def
  blk_userpass_auth_create_user_def blk_userpass_auth_read_user_def
  blk_userpass_auth_delete_user_def blk_userpass_auth_list_users_def
  blk_userpass_auth_update_password_def blk_ldap_auth_login_def blk_ldap_auth_configure_def
  blk_ldap_auth_read_config_def

lemma blocking_auth_call1_same: "blocking_auth_call1 b nested pre m m' \<Longrightarrow>
    m = block_on (bl_rt b) nested m' \<and> auth_call1 (bl_inner b) pre m'"
  by (erule blocking_auth_call1.cases; hypsubst; rule conjI;
      (rule auth_call1.intros | simp only: blocking_auth_call1_ops blocking_defs block_on_void blocking.select_convs))

inductive blocking_auth_call2 ::
  "'w client blocking \<Rightarrow> bool \<Rightarrow> string \<Rightarrow> ('w, unit) io \<Rightarrow> ('w, unit) io \<Rightarrow> bool" for b nested where
  "blocking_auth_call2 b nested (''auth/'' @ encode_path mount @ ''/'')
     (void (blk_ldap_auth_write_group (blk_auth_ldap_at b mount) nested x1 x2))
     (void (ldap_auth_write_group (ldap_at (bl_inner b) mount) x1 x2))"
| "blocking_auth_call2 b nested (''auth/'' @ encode_path mount @ ''/'')
     (void (blk_ldap_auth_read_group (blk_auth_ldap_at b mount) nested x3))
     (void (ldap_auth_read_group (ldap_at (bl_inner b) mount) x3))"
| "blocking_auth_call2 b nested (''auth/'' @ encode_path mount @ ''/'')
     (void (blk_ldap_auth_delete_group (blk_auth_ldap_at b mount) nested x4))
     (void (ldap_auth_delete_group (ldap_at (bl_inner b) mount) x4))"
| "blocking_auth_call2 b nested (''auth/'' @ encode_path mount @ ''/'')
     (void (blk_ldap_auth_list_groups (blk_auth_ldap_at b mount) nested))
     (void (ldap_auth_list_groups (ldap_at (bl_inner b) mount)))"
| "blocking_auth_call2 b nested (''auth/'' @ encode_path mount @ ''/'')
     (void (blk_ldap_auth_write_user (blk_auth_ldap_at b mount) nested x5 x6))
     (void (ldap_auth_write_user (ldap_at (bl_inner b) mount) x5 x6))"
| "blocking_auth_call2 b nested (''auth/'' @ encode_path mount @ ''/'')
     (void (blk_ldap_auth_read_user (blk_auth_ldap_at b mount) nested x7))
     (void (ldap_auth_read_user (ldap_at (bl_inner b) mount) x7))"
| "blocking_auth_call2 b nested (''auth/'' @ encode_path mount @ ''/'')
     (void (blk_ldap_auth_delete_user (blk_auth_ldap_at b mount) nested x8))
     (void (ldap_auth_delete_user (ldap_at (bl_inner b) mount) x8))"
| "blocking_auth_call2 b nested (''auth/'' @ encode_path mount @ ''/'')
     (void (blk_ldap_auth_list_users (blk_auth_ldap_at b mount) nested))
     (void (ldap_auth_list_users (ldap_at (bl_inner b) mount)))"
| "blocking_auth_call2 b nested (''auth/'' @ encode_path mount @ ''/'')
     (void (blk_cert_auth_login (blk_auth_cert_at b mount) nested x9))
     (void (cert_auth_login (cert_at (bl_inner b) mount) x9))"
| "blocking_auth_call2 b nested (''auth/'' @ encode_path mount @ ''/'')
     (void (blk_cert_auth_create_role (blk_auth_cert_at b mount) nested x10 x11))
     (void (cert_auth_create_role (cert_at (bl_inner b) mount) x10 x11))"
| "blocking_auth_call2 b nested (''auth/'' @ encode_path mount @ ''/'')
     (void (blk_cert_auth_read_role (blk_auth_cert_at b mount) nested x12))
     (void (cert_auth_read_role (cert_at (bl_inner b) mount) x12))"
| "blocking_auth_call2 b nested (''auth/'' @ encode_path mount @ ''/'')
     (void (blk_cert_auth_delete_role (blk_auth_cert_at b mount) nested x13))
     (void (cert_auth_delete_role (cert_at (bl_inner b) mount) x13))"
| "blocking_auth_call2 b nested (''auth/'' @ encode_path mount @ ''/'')
     (void (blk_cert_auth_list_roles (blk_auth_cert_at b mount) nested))
     (void (cert_auth_list_roles (cert_at (bl_inner b) mount)))"
| "blocking_auth_call2 b nested (''auth/'' @ encode_path mount @ ''/'')
     (void (blk_github_auth_login (blk_auth_github_at b mount) nested x14))
     (void (github_auth_login (github_at (bl_inner b) mount) x14))"
| "blocking_auth_call2 b nested (''auth/'' @ encode_path mount @ ''/'')
     (void (blk_github_auth_configure (blk_auth_github_at b mount) nested x15))
     (void (github_auth_configure (github_at (bl_inner b) mount) x15))"
| "blocking_auth_call2 b nested (''auth/'' @ encode_path mount @ ''/'')
     (void (blk_github_auth_read_config (blk_auth_github_at b mount) nested))
     (void (github_auth_read_config (github_at (bl_inner b) mount)))"
| "blocking_auth_call2 b nested (''auth/'' @ encode_path mount @ ''/'')
     (void (blk_github_auth_map_team (blk_auth_github_at b mount) nested x16 x17))
     (void (github_auth_map_team (github_at (bl_inner b) mount) x16 x17))"
| "blocking_auth_call2 b nested (''auth/'' @ encode_path mount @ ''/'')
     (void (blk_github_auth_read_team_mapping (blk_auth_github_at b mount) nested x18))
     (void (github_auth_read_team_mapping (github_at (bl_inner b) mount) x18))"
| "blocking_auth_call2 b nested (''auth/'' @ encode_path mount @ ''/'')
     (void (blk_github_auth_list_teams (blk_auth_github_at b mount) nested))
     (void (github_auth_list_teams (github_at (bl_inner b) mount)))"
| "blocking_auth_call2 b nested (''auth/'' @ encode_path mount @ ''/'')
     (void (blk_oidc_auth_login_jwt (blk_auth_oidc_at b mount) nested x19 x20))
     (void (oidc_auth_login_jwt (oidc_at (bl_inner b) mount) x19 x20))"
| "blocking_auth_call2 b nested (''auth/'' @ encode_path mount @ ''/'')
     (void (blk_oidc_auth_configure (blk_auth_oidc_at b mount) nested x21))
     (void (oidc_auth_configure (oidc_at (bl_inner b) mount) x21))"
| "blocking_auth_call2 b nested (''auth/'' @ encode_path mount @ ''/'')
     (void (blk_oidc_auth_read_config (blk_auth_oidc_at b mount) nested))
     (void (oidc_auth_read_config (oidc_at (bl_inner b) mount)))"
| "blocking_auth_call2 b nested (''auth/'' @ encode_path mount @ ''/'')
     (void (blk_oidc_auth_create_role (blk_auth_oidc_at b mount) nested x22 x23))
     (void (oidc_auth_create_role (oidc_at (bl_inner b) mount) x22 x23))"
| "blocking_auth_call2 b nested (''auth/'' @ encode_path mount @ ''/'')
     (void (blk_oidc_auth_read_role (blk_auth_oidc_at b mount) nested x24))
     (void (oidc_auth_read_role (oidc_at (bl_inner b) mount) x24))"
| "blocking_auth_call2 b nested (''auth/'' @ encode_path mount @ ''/'')
     (void (blk_oidc_auth_delete_role (blk_auth_oidc_at b mount) nested x25))
     (void (oidc_auth_delete_role (oidc_at (bl_inner b) mount) x25))"
| "blocking_auth_call2 b nested (''auth/'' @ encode_path mount @ ''/'')
     (void (blk_oidc_auth_list_roles (blk_auth_oidc_at b mount) nested))
     (void (oidc_auth_list_roles (oidc_at (bl_inner b) mount)))"
| "blocking_auth_call2 b nested (''auth/'' @ encode_path mount @ ''/'')
     (void (blk_aws_auth_login (blk_auth_aws_at b mount) nested x26))
     (void (aws_auth_login (aws_at (bl_inner b) mount) x26))"
| "blocking_auth_call2 b nested (''auth/'' @ encode_path mount @ ''/'')
     (void (blk_aws_auth_configure (blk_auth_aws_at b mount) nested x27))
     (void (aws_auth_configure (aws_at (bl_inner b) mount) x27))"
| "blocking_auth_call2 b nested (''auth/'' @ encode_path mount @ ''/'')
     (void (blk_aws_auth_read_config (blk_auth_aws_at b mount) nested))
     (void (aws_auth_read_config (aws_at (bl_inner b) mount)))"
| "blocking_auth_call2 b nested (''auth/'' @ encode_path mount @ ''/'')
     (void (blk_aws_auth_create_role (blk_auth_aws_at b mount) nested x28 x29))
     (void (aws_auth_create_role (aws_at (bl_inner b) mount) x28 x29))"
| "blocking_auth_call2 b nested (''auth/'' @ encode_path mount @ ''/'')
     (void (blk_aws_auth_read_role (blk_auth_aws_at b mount) nested x30))
     (void (aws_auth_read_role (aws_at (bl_inner b) mount) x30))"
| "blocking_auth_call2 b nested (''auth/'' @ encode_path mount @ ''/'')
     (void (blk_aws_auth_delete_role (blk_auth_aws_at b mount) nested x31))
     (void (aws_auth_delete_role (aws_at (bl_inner b) mount) x31))"

lemmas blocking_auth_call2_ops =
  blk_ldap_auth_write_group_def blk_ldap_auth_read_group_def blk_ldap_auth_delete_group_def
  blk_ldap_auth_list_groups_def blk_ldap_auth_write_user_def blk_ldap_auth_read_user_def
  blk_ldap_auth_delete_user_def blk_ldap_auth_list_users_def blk_cert_auth_login_def
  blk_cert_auth_create_role_def blk_cert_auth_read_role_def blk_cert_auth_delete_role_def
  blk_cert_auth_list_roles_def blk_github_auth_login_def blk_github_auth_configure_def
  blk_github_auth_read_config_def blk_github_auth_map_team_def
  blk_github_auth_read_team_mapping_def blk_github_auth_list_teams_def
  blk_oidc_auth_login_jwt_def blk_oidc_auth_configure_def blk_oidc_auth_read_config_def
  blk_oidc_auth_create_role_def blk_oidc_auth_read_role_def blk_oidc_auth_delete_role_def
  blk_oidc_auth_list_roles_def blk_aws_auth_login_def blk_aws_auth_configure_def
  blk_aws_auth_read_config_def blk_aws_auth_create_role_def blk_aws_auth_read_role_def
  blk_aws_auth_delete_role_def

lemma blocking_auth_call2_same: "blocking_auth_call2 b nested pre m m' \<Longrightarrow>
    m = block_on (bl_rt b) nested m' \<and> auth_call2 (bl_inner b) pre m'"
  by (erule blocking_auth_call2.cases; hypsubst; rule conjI;
      (rule auth_call2.intros | simp only: blocking_auth_call2_ops blocking_defs block_on_void blocking.select_convs))

inductive blocking_auth_call3 ::
  "'w client blocking \<Rightarrow> bool \<Rightarrow> string \<Rightarrow> ('w, unit) io \<Rightarrow> ('w, unit) io \<Rightarrow> bool" for b nested where
  "blocking_auth_call3 b nested (''auth/'' @ encode_path mount @ ''/'')
     (void (blk_aws_auth_list_roles (blk_auth_aws_at b mount) nested))
     (void (aws_auth_list_roles (aws_at (bl_inner b) mount)))"
| "blocking_auth_call3 b nested (''auth/'' @ encode_path mount @ ''/'')
     (void (blk_azure_auth_configure (blk_auth_azure_at b mount) nested x1))
     (void (azure_auth_configure (azure_at (bl_inner b) mount) x1))"
| "blocking_auth_call3 b nested (''auth/'' @ encode_path mount @ ''/'')
     (void (blk_azure_auth_read_config (blk_auth_azure_at b mount) nested))
     (void (azure_auth_read_config (azure_at (bl_inner b) mount)))"
| "blocking_auth_call3 b nested (''auth/'' @ encode_path mount @ ''/'')
     (void (blk_azure_auth_create_role (blk_auth_azure_at b mount) nested x2 x3))
     (void (azure_auth_create_role (azure_at (bl_inner b) mount) x2 x3))"
| "blocking_auth_call3 b nested (''auth/'' @ encode_path mount @ ''/'')
     (void (blk_azure_auth_read_role (blk_auth_azure_at b mount) nested x4))
     (void (azure_auth_read_role (azure_at (bl_inner b) mount) x4))"
| "blocking_auth_call3 b nested (''auth/'' @ encode_path mount @ ''/'')
     (void (blk_azure_auth_delete_role (blk_auth_azure_at b mount) nested x5))
     (void (azure_auth_delete_role (azure_at (bl_inner b) mount) x5))"
| "blocking_auth_call3 b nested (''auth/'' @ encode_path mount @ ''/'')
     (void (blk_azure_auth_list_roles (blk_auth_azure_at b mount) nested))
     (void (azure_auth_list_roles (azure_at (bl_inner b) mount)))"
| "blocking_auth_call3 b nested (''auth/'' @ encode_path mount @ ''/'')
     (void (blk_gcp_auth_login (blk_auth_gcp_at b mount) nested x6 x7))
     (void (gcp_auth_login (gcp_at (bl_inner b) mount) x6 x7))"
| "blocking_auth_call3 b nested (''auth/'' @ encode_path mount @ ''/'')
     (void (blk_gcp_auth_configure (blk_auth_gcp_at b mount) nested x8))
     (void (gcp_auth_configure (gcp_at (bl_inner b) mount) x8))"
| "blocking_auth_call3 b nested (''auth/'' @ encode_path mount @ ''/'')
     (void (blk_gcp_auth_read_config (blk_auth_gcp_at b mount) nested))
     (void (gcp_auth_read_config (gcp_at (bl_inner b) mount)))"
| "blocking_auth_call3 b nested (''auth/'' @ encode_path mount @ ''/'')
     (void (blk_gcp_auth_create_role (blk_auth_gcp_at b mount) nested x9 x10))
     (void (gcp_auth_create_role (gcp_at (bl_inner b) mount) x9 x10))"
| "blocking_auth_call3 b nested (''auth/'' @ encode_path mount @ ''/'')
     (void (blk_gcp_auth_read_role (blk_auth_gcp_at b mount) nested x11))
     (void (gcp_auth_read_role (gcp_at (bl_inner b) mount) x11))"
| "blocking_auth_call3 b nested (''auth/'' @ encode_path mount @ ''/'')
     (void (blk_gcp_auth_delete_role (blk_auth_gcp_at b mount) nested x12))
     (void (gcp_auth_delete_role (gcp_at (bl_inner b) mount) x12))"
| "blocking_auth_call3 b nested (''auth/'' @ encode_path mount @ ''/'')
     (void (blk_gcp_auth_list_roles (blk_auth_gcp_at b mount) nested))
     (void (gcp_auth_list_roles (gcp_at (bl_inner b) mount)))"
| "blocking_auth_call3 b nested (''auth/'' @ encode_path mount @ ''/'')
     (void (blk_radius_auth_login (blk_auth_radius_at b mount) nested x13 x14))
     (void (radius_auth_login (radius_at (bl_inner b) mount) x13 x14))"
| "blocking_auth_call3 b nested (''auth/'' @ encode_path mount @ ''/'')
     (void (blk_radius_auth_configure (blk_auth_radius_at b mount) nested x15))
     (void (radius_auth_configure (radius_at (bl_inner b) mount) x15))"
| "blocking_auth_call3 b nested (''auth/'' @ encode_path mount @ ''/'')
     (void (blk_radius_auth_read_config (blk_auth_radius_at b mount) nested))
     (void (radius_auth_read_config (radius_at (bl_inner b) mount)))"
| "blocking_auth_call3 b nested (''auth/'' @ encode_path mount @ ''/'')
     (void (blk_radius_auth_write_user (blk_auth_radius_at b mount) nested x16 x17))
     (void (radius_auth_write_user (radius_at (bl_inner b) mount) x16 x17))"
| "blocking_auth_call3 b nested (''auth/'' @ encode_path mount @ ''/'')
     (void (blk_radius_auth_read_user (blk_auth_radius_at b mount) nested x18))
     (void (radius_auth_read_user (radius_at (bl_inner b) mount) x18))"
| "blocking_auth_call3 b nested (''auth/'' @ encode_path mount @ ''/'')
     (void (blk_radius_auth_delete_user (blk_auth_radius_at b mount) nested x19))
     (void (radius_auth_delete_user (radius_at (bl_inner b) mount) x19))"
| "blocking_auth_call3 b nested (''auth/'' @ encode_path mount @ ''/'')
     (void (blk_radius_auth_list_users (blk_auth_radius_at b mount) nested))
     (void (radius_auth_list_users (radius_at (bl_inner b) mount)))"
| "blocking_auth_call3 b nested (''auth/'' @ encode_path mount @ ''/'')
     (void (blk_kerberos_auth_login (blk_auth_kerberos_at b mount) nested x20))
     (void (kerberos_auth_login (kerberos_at (bl_inner b) mount) x20))"
| "blocking_auth_call3 b nested (''auth/'' @ encode_path mount @ ''/'')
     (void (blk_kerberos_auth_configure (blk_auth_kerberos_at b mount) nested x21))
     (void (kerberos_auth_configure (kerberos_at (bl_inner b) mount) x21))"
| "blocking_auth_call3 b nested (''auth/'' @ encode_path mount @ ''/'')
     (void (blk_kerberos_auth_read_config (blk_auth_kerberos_at b mount) nested))
     (void (kerberos_auth_read_config (kerberos_at (bl_inner b) mount)))"
| "blocking_auth_call3 b nested (''auth/'' @ encode_path mount @ ''/'')
     (void (blk_kerberos_auth_configure_ldap (blk_auth_kerberos_at b mount) nested x22))
     (void (kerberos_auth_configure_ldap (kerberos_at (bl_inner b) mount) x22))"
| "blocking_auth_call3 b nested (''auth/'' @ encode_path mount @ ''/'')
     (void (blk_kerberos_auth_read_ldap_config (blk_auth_kerberos_at b mount) nested))
     (void (kerberos_auth_read_ldap_config (kerberos_at (bl_inner b) mount)))"
| "blocking_auth_call3 b nested (''auth/'' @ encode_path mount @ ''/'')
     (void (blk_kerberos_auth_write_group (blk_auth_kerberos_at b mount) nested x23 x24))
     (void (kerberos_auth_write_group (kerberos_at (bl_inner b) mount) x23 x24))"
| "blocking_auth_call3 b nested (''auth/'' @ encode_path mount @ ''/'')
     (void (blk_kerberos_auth_read_group (blk_auth_kerberos_at b mount) nested x25))
     (void (kerberos_auth_read_group (kerberos_at (bl_inner b) mount) x25))"
| "blocking_auth_call3 b nested (''auth/'' @ encode_path mount @ ''/'')
     (void (blk_kerberos_auth_delete_group (blk_auth_kerberos_at b mount) nested x26))
     (void (kerberos_auth_delete_group (kerberos_at (bl_inner b) mount) x26))"
| "blocking_auth_call3 b nested (''auth/'' @ encode_path mount @ ''/'')
     (void (blk_kerberos_auth_list_groups (blk_auth_kerberos_at b mount) nested))
     (void (kerberos_auth_list_groups (kerberos_at (bl_inner b) mount)))"
| "blocking_auth_call3 b nested (''auth/'' @ encode_path mount @ ''/'')
     (void (blk_azure_auth_login (blk_auth_azure_at b mount) nested x27 x28 x29 x30 x31 x32))
     (void (azure_auth_login (azure_at (bl_inner b) mount) x27 x28 x29 x30 x31 x32))"

lemmas blocking_auth_call3_ops =
  blk_aws_auth_list_roles_def blk_azure_auth_configure_def blk_azure_auth_read_config_def
  blk_azure_auth_create_role_def blk_azure_auth_read_role_def blk_azure_auth_delete_role_def
  blk_azure_auth_list_roles_def blk_gcp_auth_login_def blk_gcp_auth_configure_def
  blk_gcp_auth_read_config_def blk_gcp_auth_create_role_def blk_gcp_auth_read_role_def
  blk_gcp_auth_delete_role_def blk_gcp_auth_list_roles_def blk_radius_auth_login_def
  blk_radius_auth_configure_def blk_radius_auth_read_config_def blk_radius_auth_write_user_def
  blk_radius_auth_read_user_def blk_radius_auth_delete_user_def blk_radius_auth_list_users_def
  blk_kerberos_auth_login_def blk_kerberos_auth_configure_def blk_kerberos_auth_read_config_def
  blk_kerberos_auth_configure_ldap_def blk_kerberos_auth_read_ldap_config_def
  blk_kerberos_auth_write_group_def blk_kerberos_auth_read_group_def
  blk_kerberos_auth_delete_group_def blk_kerberos_auth_list_groups_def blk_azure_auth_login_def

lemma blocking_auth_call3_same: "blocking_auth_call3 b nested pre m m' \<Longrightarrow>
    m = block_on (bl_rt b) nested m' \<and> auth_call3 (bl_inner b) pre m'"
  by (erule blocking_auth_call3.cases; hypsubst; rule conjI;
      (rule auth_call3.intros | simp only: blocking_auth_call3_ops blocking_defs block_on_void blocking.select_convs))

inductive blocking_client_call ::
  "'w client blocking \<Rightarrow> bool \<Rightarrow> string \<Rightarrow> ('w, unit) io \<Rightarrow> ('w, unit) io \<Rightarrow> bool" for b nested where
  "blocking_client_call b nested x2
     (void (blk_read b nested (x1 :: json \<Rightarrow> json option) x2))
     (void (read (bl_inner b) (x1 :: json \<Rightarrow> json option) x2))"
| "blocking_client_call b nested x3
     (void (blk_read_raw b nested x3))
     (void (read_raw (bl_inner b) x3))"
| "blocking_client_call b nested x5
     (void (blk_write_data b nested (x4 :: json \<Rightarrow> json option) x5 x6))
     (void (write_data (bl_inner b) (x4 :: json \<Rightarrow> json option) x5 x6))"
| "blocking_client_call b nested x7
     (void (blk_delete b nested x7))
     (void (delete (bl_inner b) x7))"
| "blocking_client_call b nested x8
     (void (blk_list_keys b nested x8))
     (void (list_keys (bl_inner b) x8))"

lemmas blocking_client_call_ops =
  blk_read_def blk_read_raw_def blk_write_data_def blk_delete_def blk_list_keys_def

lemma blocking_client_call_same: "blocking_client_call b nested pre m m' \<Longrightarrow>
    m = block_on (bl_rt b) nested m' \<and> client_call (bl_inner b) pre m'"
  by (erule blocking_client_call.cases; hypsubst; rule conjI;
      (rule client_call.intros | simp only: blocking_client_call_ops blocking_defs block_on_void blocking.select_convs))

inductive blocking_call ::
  "'w client blocking \<Rightarrow> bool \<Rightarrow> string \<Rightarrow> ('w, unit) io \<Rightarrow> ('w, unit) io \<Rightarrow> bool" for b nested where
  "blocking_kv_call b nested pre m m' \<Longrightarrow> blocking_call b nested pre m m'"
| "blocking_transit_call b nested pre m m' \<Longrightarrow> blocking_call b nested pre m m'"
| "blocking_pki_call b nested pre m m' \<Longrightarrow> blocking_call b nested pre m m'"
| "blocking_database_call b nested pre m m' \<Longrightarrow> blocking_call b nested pre m m'"
| "blocking_cloud_call b nested pre m m' \<Longrightarrow> blocking_call b nested pre m m'"
| "blocking_small_call b nested pre m m' \<Longrightarrow> blocking_call b nested pre m m'"
| "blocking_identity_call b nested pre m m' \<Longrightarrow> blocking_call b nested pre m m'"
| "blocking_sys_call1 b nested pre m m' \<Longrightarrow> blocking_call b nested pre m m'"
| "blocking_sys_call2 b nested pre m m' \<Longrightarrow> blocking_call b nested pre m m'"
| "blocking_auth_call1 b nested pre m m' \<Longrightarrow> blocking_call b nested pre m m'"
| "blocking_auth_call2 b nested pre m m' \<Longrightarrow> blocking_call b nested pre m m'"
| "blocking_auth_call3 b nested pre m m' \<Longrightarrow> blocking_call b nested pre m m'"
| "blocking_client_call b nested pre m m' \<Longrightarrow> blocking_call b nested pre m m'"

lemma blocking_call_same:
  "blocking_call b nested pre m m' \<Longrightarrow> m = block_on (bl_rt b) nested m' \<and> api_call (bl_inner b) pre m'"
  by (erule blocking_call.cases) (auto dest!: blocking_kv_call_same blocking_transit_call_same blocking_pki_call_same blocking_database_call_same blocking_cloud_call_same blocking_small_call_same blocking_identity_call_same blocking_sys_call1_same blocking_sys_call2_same blocking_auth_call1_same blocking_auth_call2_same blocking_auth_call3_same blocking_client_call_same intro: api_call.intros)

text \<open>The accessors with a default mount are those with a mount, at the default.\<close>

lemma blocking_default_mounts:
  "blk_auth_approle b = blk_auth_approle_at b ''approle''" "blk_auth_kubernetes b = blk_auth_kubernetes_at b ''kubernetes''"
  "blk_auth_userpass b = blk_auth_userpass_at b ''userpass''" "blk_auth_ldap b = blk_auth_ldap_at b ''ldap''"
  "blk_auth_cert b = blk_auth_cert_at b ''cert''" "blk_auth_github b = blk_auth_github_at b ''github''"
  "blk_auth_oidc b = blk_auth_oidc_at b ''oidc''" "blk_auth_jwt b = blk_auth_oidc_at b ''jwt''"
  "blk_auth_aws b = blk_auth_aws_at b ''aws''" "blk_auth_azure b = blk_auth_azure_at b ''azure''"
  "blk_auth_gcp b = blk_auth_gcp_at b ''gcp''" "blk_auth_radius b = blk_auth_radius_at b ''radius''"
  "blk_auth_kerberos b = blk_auth_kerberos_at b ''kerberos''"
  by (simp_all only: blocking_defs approle_default_def kubernetes_default_def userpass_default_def
      ldap_default_def cert_default_def github_default_def oidc_default_def aws_default_def
      azure_default_def gcp_default_def radius_default_def kerberos_default_def)

text \<open>
  A call that the runtime accepts runs as the asynchronous one (up to its \<open>Ok\<close> value, which the
  relation leaves out); one that it refuses is a panic without an effect.
\<close>

lemma blocking_calls_agree:
  "blocking_call b nested pre m m' \<Longrightarrow>
   m = (case bl_rt b nested of None \<Rightarrow> m' | Some p \<Rightarrow> (\<lambda>s. (Panic p, s)))"
  by (drule blocking_call_same) (auto simp: block_on_def lift_io_def split: option.split)

section \<open>Properties\<close>

text \<open>
  C17: The blocking client is as confined as the asynchronous one, and harmless in the wrong place.
  A blocking operation (each of them but the restore of a raft snapshot, which bypasses the client's
  pipeline) panics when it is called inside a runtime, and has no effect at all then. Called outside, it
  only sends requests to the part of the API that its handler is for (its mount, or for the generic
  calls the path they are given), besides the renewal of the token and the login of the client; on
  every branch time does not run backwards, the lock of the token is not poisoned and a consistent
  breaker stays consistent with its configuration. So no delegation of the blocking handlers goes to
  another engine or another mount.
\<close>

theorem blocking_calls_confined:
  assumes "blocking_call b nested pre m m'" and "lawful (bl_inner b) L" and "documented_runtime (bl_rt b)"
  shows "(nested \<longrightarrow> (\<exists>p. m s = (Panic p, s)))
    \<and> (\<exists>es. trace (snd (m s)) = trace s @ es \<and> list_all (inside (bl_inner b) L pre) (requests es))
    \<and> now s \<le> now (snd (m s)) \<and> token_poisoned (snd (m s)) = token_poisoned s
    \<and> (case (breaker s, breaker (snd (m s))) of
         (None, None) \<Rightarrow> True
       | (Some x, Some y) \<Rightarrow> cb_config y = cb_config x \<and> (cb_inv x \<longrightarrow> cb_inv y)
       | _ \<Rightarrow> False)"
proof (cases nested)
  case True
  then obtain p where "bl_rt b nested = Some p" using assms(3) by (auto simp: documented_runtime_def)
  then have "m = (\<lambda>s. (Panic p, s))" using blocking_calls_agree [OF assms(1)] by simp
  then show ?thesis by (auto split: option.split)
next
  case False
  then have "bl_rt b nested = None" using assms(3) by (simp add: documented_runtime_def)
  then have "stays (bl_inner b) L pre m"
    using blocking_calls_agree [OF assms(1)] blocking_call_same [OF assms(1)] api_call_stays [OF _ assms(2)] by simp
  then show ?thesis
    using False by (auto simp: stays_def keeps_def sent_def evolves_def breaker_rel_def)
qed

definition plain_blocking :: "script client blocking" where
  "plain_blocking =
     \<lparr>bl_inner = script_client [], bl_rt = (\<lambda>nested. if nested then Some ''nested runtime'' else None)\<rparr>"

theorem blocking_calls_confined_witness:
  "let s = script_state [answer 204 []] None;
     m = \<lambda>nested. void (blk_kv1_delete (blk_kv1 plain_blocking ''kv'') nested ''a'')
   in (\<exists>p. m True s = (Panic p, s))
    \<and> list_all (inside (script_client []) (\<lambda>_. False) (encode_path ''kv'' @ ''/'')) (requests (trace (snd (m False s))))"
proof -
  have c: "blocking_call plain_blocking n (encode_path ''kv'' @ ''/'')
      (void (blk_kv1_delete (blk_kv1 plain_blocking ''kv'') n ''a''))
     (void (kv1_delete (kv1 (bl_inner plain_blocking) ''kv'') ''a''))" for n
    by (intro blocking_call.intros(1) blocking_kv_call.intros)
  have l: "lawful (bl_inner plain_blocking) (\<lambda>_. False)" "documented_runtime (bl_rt plain_blocking)"
    by (simp_all add: plain_blocking_def lawful_script documented_runtime_def)
  show ?thesis
    using blocking_calls_confined [OF c [of True] l, of "script_state [answer 204 []] None"]
      blocking_calls_confined [OF c [of False] l, of "script_state [answer 204 []] None"]
    by (simp add: Let_def plain_blocking_def)
qed

end
