(* ===== verification/Mock.thy ===== *)
theory Mock
  imports Kv Pki Auth_Methods
begin

text \<open>
  The test utilities of the crate vault-client-rs-test: the answer bodies of its \<open>lib.rs\<close>, which an HTTP
  mock serves, and the doubles of \<open>mock.rs\<close>, which implement the operation traits. A double is its
  programmed answers and the calls it recorded; an operation returns the changed double. The text of
  a \<open>serde_json\<close> error is the argument \<open>msg\<close>. The log's lock is held only for a \<open>push\<close>, which does
  not panic, so it is never poisoned. The answers of a \<open>HashMap\<close> are a map.
\<close>

section \<open>Answer bodies\<close>

definition jstrs :: "string list \<Rightarrow> json" where
  "jstrs xs = JArr (map JStr xs)"

definition kv2_response :: "json \<Rightarrow> json" where
  "kv2_response dat = obj [(''data'', obj [(''data'', dat), (''metadata'', obj
     [(''created_time'', JStr ''2024-01-01T00:00:00.000000Z''), (''custom_metadata'', JNull),
      (''deletion_time'', JStr []), (''destroyed'', JBool False), (''version'', JNum 1)])])]"

definition auth_response :: "string \<Rightarrow> nat \<Rightarrow> json" where
  "auth_response t ttl = obj [(''auth'', obj
     [(''client_token'', JStr t), (''accessor'', JStr ''test-accessor''), (''policies'', jstrs [''default'']),
      (''token_policies'', jstrs [''default'']), (''metadata'', JNull), (''lease_duration'', jnat ttl),
      (''renewable'', JBool True), (''entity_id'', JStr ''entity-123''), (''token_type'', JStr ''service''),
      (''orphan'', JBool False), (''mfa_requirement'', JNull), (''num_uses'', JNum 0)])]"

definition wrap_response :: "string \<Rightarrow> nat \<Rightarrow> json" where
  "wrap_response t ttl = obj [(''wrap_info'', obj
     [(''token'', JStr t), (''accessor'', JStr ''wrap-accessor''), (''ttl'', jnat ttl),
      (''creation_time'', JStr ''2024-01-01T00:00:00.000000Z''),
      (''creation_path'', JStr ''sys/wrapping/wrap''), (''wrapped_accessor'', JNull)])]"

definition lease_response :: "string \<Rightarrow> nat \<Rightarrow> json \<Rightarrow> json" where
  "lease_response lid ttl dat = obj
     [(''request_id'', JStr ''test-request-id''), (''lease_id'', JStr lid),
      (''lease_duration'', jnat ttl), (''renewable'', JBool True), (''data'', dat)]"

definition error_response :: "string list \<Rightarrow> json" where
  "error_response errs = obj [(''errors'', jstrs errs)]"

definition lease_renew_response :: "string \<Rightarrow> nat \<Rightarrow> json" where
  "lease_renew_response lid ttl = obj
     [(''lease_id'', JStr lid), (''lease_duration'', jnat ttl), (''renewable'', JBool True)]"

definition list_response :: "string list \<Rightarrow> json" where
  "list_response ks = obj [(''data'', obj [(''keys'', jstrs ks)])]"

definition data_response :: "json \<Rightarrow> json" where
  "data_response dat = obj [(''data'', dat)]"

section \<open>Programmable errors\<close>

datatype mock_error = MNotFound | MDenied | MAuthRequired | MApi nat "string list"

fun to_vault :: "mock_error \<Rightarrow> string \<Rightarrow> vault_error" where
  "to_vault MNotFound path = NotFound path"
| "to_vault MDenied path = PermissionDenied [''permission denied'']"
| "to_vault MAuthRequired path = AuthRequired"
| "to_vault (MApi status errors) path = Api status errors"

definition mock_auth_info :: "string \<Rightarrow> string \<Rightarrow> string list \<Rightarrow> nat \<Rightarrow> bool \<Rightarrow> json" where
  "mock_auth_info t acc pols lease renew = obj
     [(''client_token'', JStr t), (''accessor'', JStr acc), (''policies'', jstrs pols),
      (''token_policies'', jstrs pols), (''lease_duration'', jnat lease), (''renewable'', JBool renew),
      (''entity_id'', JStr []), (''token_type'', JStr ''service'')]"

text \<open>
  The operations of each double that were not programmed: whatever the arguments, \<open>unimplemented!\<close>
  panics and the double is unchanged.
\<close>

definition unprogrammed_kv2 :: "string list" where
  "unprogrammed_kv2 =
     [''read_config'', ''write_config'', ''write'', ''write_cas'', ''patch'', ''list'',
      ''delete'', ''delete_versions'', ''undelete_versions'', ''destroy_versions'',
      ''read_metadata'', ''write_metadata'', ''patch_metadata'', ''delete_metadata'',
      ''read_subkeys'']"

definition unprogrammed_cert :: "string list" where
  "unprogrammed_cert =
     [''create_role'', ''read_role'', ''delete_role'', ''list_roles'']"

definition unprogrammed_pki :: "string list" where
  "unprogrammed_pki =
     [''generate_root'', ''generate_intermediate_csr'', ''set_signed_intermediate'',
      ''delete_root'', ''list_issuers'', ''read_issuer'', ''update_issuer'',
      ''delete_issuer'', ''create_role'', ''read_role'', ''list_roles'', ''delete_role'',
      ''issue'', ''sign'', ''list_certs'', ''read_cert'', ''set_urls'', ''read_urls'',
      ''revoke'', ''revoke_with_key'', ''rotate_crl'', ''tidy'', ''tidy_status'',
      ''cross_sign_intermediate'', ''read_acme_config'', ''write_acme_config'',
      ''rotate_delta_crl'', ''read_crl'', ''read_crl_delta'']"

definition unprogrammed :: "string \<Rightarrow> string \<Rightarrow> 'm \<Rightarrow> 'a outcome \<times> 'm" where
  "unprogrammed mock op m = (Panic (''not implemented: '' @ mock @ ''::'' @ op @ '' not programmed''), m)"

section \<open>MockKv2\<close>

record mock_kv2 =
  mk_responses :: "string \<Rightarrow> (mock_error + json) option"
  mk_calls :: "string list"

definition mock_kv2_new :: mock_kv2 where
  "mock_kv2_new = \<lparr>mk_responses = (\<lambda>_. None), mk_calls = []\<rparr>"

definition with_data :: "string \<Rightarrow> json \<Rightarrow> mock_kv2 \<Rightarrow> mock_kv2" where
  "with_data path dat m = m\<lparr>mk_responses := (mk_responses m)(path \<mapsto> Inr dat)\<rparr>"

definition with_error :: "string \<Rightarrow> mock_error \<Rightarrow> mock_kv2 \<Rightarrow> mock_kv2" where
  "with_error path err m = m\<lparr>mk_responses := (mk_responses m)(path \<mapsto> Inl err)\<rparr>"

definition mock_lookup :: "string \<Rightarrow> mock_kv2 \<Rightarrow> json outcome \<times> mock_kv2" where
  "mock_lookup path m =
     ((case mk_responses m path of
         Some (Inr v) \<Rightarrow> Ok v
       | Some (Inl e) \<Rightarrow> Err (to_vault e path)
       | None \<Rightarrow> Err (NotFound path)),
      m\<lparr>mk_calls := mk_calls m @ [path]\<rparr>)"

definition as_str :: "json \<Rightarrow> string option" where
  "as_str v = (case v of JStr s \<Rightarrow> Some s | _ \<Rightarrow> None)"

definition mock_read_field :: "string \<Rightarrow> string \<Rightarrow> mock_kv2 \<Rightarrow> string outcome \<times> mock_kv2" where
  "mock_read_field path fl m =
     (case mock_lookup path m of (r, m') \<Rightarrow>
        (then_ok r (\<lambda>dat. ok_or (Option.bind (json_get dat fl) as_str) (FieldNotFound [] path fl)), m'))"

definition mock_metadata_json :: json where
  "mock_metadata_json = obj
     [(''created_time'', JStr []), (''custom_metadata'', JNull), (''deletion_time'', JStr []),
      (''destroyed'', JBool False), (''version'', JNum 1)]"

definition mock_read ::
  "string \<Rightarrow> (json \<Rightarrow> 'a option) \<Rightarrow> string \<Rightarrow> mock_kv2 \<Rightarrow> 'a kv_read_response outcome \<times> mock_kv2" where
  "mock_read msg d path m =
     (case mock_lookup path m of (r, m') \<Rightarrow>
        (then_ok r (\<lambda>dat.
           ok_or (de_kv_read_response d (obj [(''data'', dat), (''metadata'', mock_metadata_json)]))
             (from_serde_json msg)), m'))"

definition mock_read_data ::
  "string \<Rightarrow> (json \<Rightarrow> 'a option) \<Rightarrow> string \<Rightarrow> mock_kv2 \<Rightarrow> 'a outcome \<times> mock_kv2" where
  "mock_read_data msg d path m =
     (case mock_lookup path m of (r, m') \<Rightarrow>
        (then_ok r (\<lambda>dat. ok_or (d dat) (from_serde_json msg)), m'))"

definition mock_read_version ::
  "string \<Rightarrow> (json \<Rightarrow> 'a option) \<Rightarrow> string \<Rightarrow> nat \<Rightarrow> mock_kv2 \<Rightarrow> 'a kv_read_response outcome \<times> mock_kv2" where
  "mock_read_version msg d path version m = mock_read msg d path m"

section \<open>MockCertAuth\<close>

record mock_cert_auth =
  mc_login :: "(mock_error + json) option"
  mc_calls :: "string option list"

definition mock_cert_auth_new :: mock_cert_auth where
  "mock_cert_auth_new = \<lparr>mc_login = None, mc_calls = []\<rparr>"

definition mock_with_login :: "json \<Rightarrow> mock_cert_auth \<Rightarrow> mock_cert_auth" where
  "mock_with_login au m = m\<lparr>mc_login := Some (Inr au)\<rparr>"

definition cert_with_error :: "mock_error \<Rightarrow> mock_cert_auth \<Rightarrow> mock_cert_auth" where
  "cert_with_error err m = m\<lparr>mc_login := Some (Inl err)\<rparr>"

definition mock_login ::
  "string \<Rightarrow> string option \<Rightarrow> mock_cert_auth \<Rightarrow> auth_info outcome \<times> mock_cert_auth" where
  "mock_login msg name m =
     ((case mc_login m of
         Some (Inr v) \<Rightarrow> ok_or (de_auth_info v) (from_serde_json msg)
       | Some (Inl e) \<Rightarrow> Err (to_vault e ''auth/cert/login'')
       | None \<Rightarrow> Err AuthRequired),
      m\<lparr>mc_calls := mc_calls m @ [name]\<rparr>)"

section \<open>MockPki\<close>

definition pki_signed :: "string \<Rightarrow> string list \<Rightarrow> json" where
  "pki_signed certificate ca_chain = obj
     [(''certificate'', JStr certificate),
      (''issuing_ca'', JStr (case ca_chain of [] \<Rightarrow> [] | ca # _ \<Rightarrow> ca)),
      (''ca_chain'', jstrs ca_chain), (''serial_number'', JStr ''00:11:22:33''), (''expiration'', JNum 0)]"

record mock_pki =
  mp_sign_verbatim :: "(mock_error + json) option"
  mp_calls :: "(string \<times> string) list"

definition mock_pki_new :: mock_pki where
  "mock_pki_new = \<lparr>mp_sign_verbatim = None, mp_calls = []\<rparr>"

definition with_signed :: "json \<Rightarrow> mock_pki \<Rightarrow> mock_pki" where
  "with_signed sg m = m\<lparr>mp_sign_verbatim := Some (Inr sg)\<rparr>"

definition pki_with_error :: "mock_error \<Rightarrow> mock_pki \<Rightarrow> mock_pki" where
  "pki_with_error err m = m\<lparr>mp_sign_verbatim := Some (Inl err)\<rparr>"

definition mock_sign_verbatim ::
  "string \<Rightarrow> string \<Rightarrow> string \<Rightarrow> mock_pki \<Rightarrow> pki_signed_cert outcome \<times> mock_pki" where
  "mock_sign_verbatim msg role csr m =
     ((case mp_sign_verbatim m of
         Some (Inr v) \<Rightarrow> ok_or (de_pki_signed_cert v) (from_serde_json msg)
       | Some (Inl e) \<Rightarrow> Err (to_vault e ''pki/sign-verbatim'')
       | None \<Rightarrow> Err (Api 500 [''MockPki::sign_verbatim not programmed''])),
      m\<lparr>mp_calls := mp_calls m @ [(role, csr)]\<rparr>)"

section \<open>The two kinds of mock agree\<close>


lemma de_kv2_payload:
  assumes "de_kv_metadata md = Some mt"
  shows "de_kv_read_response d (obj [(''data'', dat), (''metadata'', md)])
     = map_option (\<lambda>x. \<lparr>KvReadResponse_data = x, KvReadResponse_metadata = mt\<rparr>) (d dat)"
  using assms by (cases "d dat") (simp_all add: de_kv_read_response_def fld_def)

lemma de_mock_metadata: "\<exists>mt. de_kv_metadata mock_metadata_json = Some mt"
  by (simp add: mock_metadata_json_def de_kv_metadata_def fld_def fld_opt_def fld_default_def)

lemma mock_read_data_map:
  "mock_read_data msg d path m
     = (case mock_read msg d path m of (r, m') \<Rightarrow> (map_ok KvReadResponse_data r, m'))"
proof -
  obtain mt where "de_kv_metadata mock_metadata_json = Some mt" using de_mock_metadata by blast
  then show ?thesis
    by (auto simp: mock_read_data_def mock_read_def mock_lookup_def de_kv2_payload ok_or_def
        split: option.split sum.split)
qed

lemma de_option_obj [simp]: "de_option d (obj kvs) = map_option Some (d (obj kvs))"
  by (simp add: obj_def)

text \<open>How the client decodes what an HTTP mock serves for a read, and what it makes of it.\<close>

lemma de_kv2_response:
  "\<exists>mt. \<forall>d. map_option data (de_vault_response (de_kv_read_response d) (kv2_response dat))
     = map_option (\<lambda>x. Some \<lparr>KvReadResponse_data = x, KvReadResponse_metadata = mt\<rparr>) (d dat)"
proof -
  let ?md = "obj [(''created_time'', JStr ''2024-01-01T00:00:00.000000Z''), (''custom_metadata'', JNull),
      (''deletion_time'', JStr []), (''destroyed'', JBool False), (''version'', JNum 1)]"
  have "\<exists>mt. de_kv_metadata ?md = Some mt"
    by (simp add: de_kv_metadata_def fld_def fld_opt_def fld_default_def)
  then obtain mt where "de_kv_metadata ?md = Some mt" by blast
  then have "map_option data (de_vault_response (de_kv_read_response d) (kv2_response dat))
     = map_option (\<lambda>x. Some \<lparr>KvReadResponse_data = x, KvReadResponse_metadata = mt\<rparr>) (d dat)" for d :: "json \<Rightarrow> 'a option"
    unfolding kv2_response_def de_vault_response_def
    by (cases "d dat") (simp_all add: fld_opt_def de_kv2_payload)
  then show ?thesis by blast
qed

lemma kv2_read_served:
  assumes "execute c GET (encode_path mount @ ''/data/'' @ encode_path path) None s = (Ok resp, s')"
    and "rs_status resp \<noteq> 404" and "rs_body resp = Inr t" and "e_json (cl_env c) t = Inr (kv2_response dat)"
  shows "kv2_read_data (kv2 c mount) d path s
     = (case d dat of Some x \<Rightarrow> (Ok x, s') | None \<Rightarrow> (Err decode_error, s'))"
proof -
  obtain mt where mt: "map_option data (de_vault_response (de_kv_read_response d) (kv2_response dat))
     = map_option (\<lambda>x. Some \<lparr>KvReadResponse_data = x, KvReadResponse_metadata = mt\<rparr>) (d dat)"
    using de_kv2_response [of dat] by blast
  show ?thesis
    using mt assms
    by (auto simp: kv2_read_data_def kv2_read_def kv2_def map_io_apply exec_with_data_def
        not_found_check_def json_body_def split: option.split)
qed

lemma de_map_value: "de_map de_value dat = as_obj dat"
proof (cases dat)
  case (JObj kvs)
  have "map (\<lambda>(k, v). map_option (Pair k) (de_value v)) kvs = map (\<lambda>x. Some (id x)) kvs"
    by (auto simp: de_value_def)
  then show ?thesis by (simp only: JObj de_map.simps sequence_opt_map_Some) simp
qed simp_all

section \<open>Properties\<close>

text \<open>
  C34: The two kinds of mock agree: where a server answers the read of a path with \<open>kv2_response\<close> of some
  data, the client's \<open>read_data\<close> returns what the double programmed with the same data returns for
  the path, for every type the data is read at; data of another type is an error in both, although a
  different one. \<open>read_field\<close> agrees on strings; a field that is not a string has a text in the client and
  is missing in the double.
\<close>

theorem mock_agrees:
  assumes "execute c GET (encode_path mount @ ''/data/'' @ encode_path path) None s = (Ok resp, s')"
    and "rs_status resp \<noteq> 404" and "rs_body resp = Inr t" and "e_json (cl_env c) t = Inr (kv2_response dat)"
  defines "m \<equiv> with_data path dat mock_kv2_new"
  shows "(case d dat of
      Some x \<Rightarrow> kv2_read_data (kv2 c mount) d path s = (Ok x, s') \<and> fst (mock_read_data msg d path m) = Ok x
    | None \<Rightarrow> kv2_read_data (kv2 c mount) d path s = (Err decode_error, s')
        \<and> fst (mock_read_data msg d path m) = Err (Deserialize msg))
    \<and> (case json_get dat fl of
        Some (JStr x) \<Rightarrow> kv2_read_field (kv2 c mount) print path fl s = (Ok x, s') \<and> fst (mock_read_field path fl m) = Ok x
      | Some v \<Rightarrow> kv2_read_field (kv2 c mount) print path fl s = (Ok (print v), s')
          \<and> fst (mock_read_field path fl m) = Err (FieldNotFound [] path fl)
      | None \<Rightarrow> \<not> is_ok (fst (kv2_read_field (kv2 c mount) print path fl s)) \<and> \<not> is_ok (fst (mock_read_field path fl m)))"
proof -
  note served = kv2_read_served [OF assms(1-4)]
  have m: "mock_lookup path m = (Ok dat, m\<lparr>mk_calls := [path]\<rparr>)"
    by (simp add: m_def mock_lookup_def with_data_def mock_kv2_new_def)
  show ?thesis
    using served [of d] served [of "de_map de_value"]
    by (auto simp: de_map_value mock_read_data_def mock_read_field_def m from_serde_json_def kv2_read_field_def map_io_apply
        json_get_def as_str_def stringify_def ok_or_def split: option.splits json.splits)
qed

theorem mock_agrees_witness:
  "let dat = obj [(''pw'', JStr ''hunter2''), (''port'', JNum 8200)];
       c = script_client [(''body'', kv2_response dat)];
       s = script_state [answer 200 ''body''] (Some root_token);
       m = with_data ''app'' dat mock_kv2_new
   in fst (kv2_read_field (kv2 c ''secret'') (\<lambda>_. ''8200'') ''app'' ''port'' s) = Ok ''8200''
     \<and> fst (mock_read_field ''app'' ''port'' m) = Err (FieldNotFound [] ''app'' ''port'')"
proof -
  let ?dat = "obj [(''pw'', JStr ''hunter2''), (''port'', JNum 8200)]"
  let ?c = "script_client [(''body'', kv2_response ?dat)]"
  let ?s = "script_state [answer 200 ''body''] (Some root_token)"
  have "\<exists>resp s'. execute ?c GET p None ?s = (Ok resp, s') \<and> rs_status resp = 200 \<and> rs_body resp = Inr ''body''" for p
    by (simp add: execute_def ensure_valid_token_def lifecycle_action_def needs_renewal_now_def root_token_def run_raw)
  then obtain resp s' where ex: "execute ?c GET (encode_path ''secret'' @ ''/data/'' @ encode_path ''app'') None ?s = (Ok resp, s')"
    "rs_status resp = 200" "rs_body resp = Inr ''body''" by blast
  then have "rs_status resp \<noteq> 404" "e_json (cl_env ?c) ''body'' = Inr (kv2_response ?dat)" by simp_all
  from mock_agrees [where d = de_value and msg = "[]" and fl = "''port''" and print = "\<lambda>_. ''8200''",
      OF ex(1) this(1) ex(3) this(2)]
  show ?thesis by (auto simp: Let_def)
qed

end
