(* ===== verification/Debug_Secrets.thy ===== *)
theory Debug_Secrets
  imports Kv Transit Pki Database Cloud_Engines Small_Engines Sys Auth_Methods
begin

text \<open>
  What the hand-written \<open>Debug\<close> impls of \<open>types/**\<close> disclose. \<open>secret_change lvl d d'\<close>: \<open>d\<close> and \<open>d'\<close> are the
  \<open>Debug\<close> outputs, at the level \<open>lvl\<close>, of a value and of the value with its secrets replaced. \<open>g\<close> replaces a
  secret by any other; an optional secret stays present or absent, a list of secrets keeps its length.
\<close>

section \<open>Replacing secrets\<close>

inductive secret_change :: "nat \<Rightarrow> dbg \<Rightarrow> dbg \<Rightarrow> bool" for lvl where
  "secret_change lvl (dbg_auth_info lvl x) (dbg_auth_info lvl (client_token_update g x))"
| "secret_change lvl (dbg_wrap_info lvl x) (dbg_wrap_info lvl (wrap_token_update g x))"
| "secret_change lvl (dbg_transit_decrypt_response lvl x) (dbg_transit_decrypt_response lvl (TransitDecryptResponse_plaintext_update g x))"
| "secret_change lvl (dbg_transit_batch_plaintext lvl x) (dbg_transit_batch_plaintext lvl (TransitBatchPlaintext_plaintext_update (\<lambda>_. y) x))"
| "secret_change lvl (dbg_transit_data_key lvl x) (dbg_transit_data_key lvl (TransitDataKey_plaintext_update (map_option g) x))"
| "secret_change lvl (dbg_transit_batch_decrypt_item lvl x) (dbg_transit_batch_decrypt_item lvl (TransitBatchDecryptItem_plaintext_update (map_option g) x))"
| "secret_change lvl (dbg_transit_backup_response lvl x) (dbg_transit_backup_response lvl (TransitBackupResponse_backup_update g x))"
| "secret_change lvl (dbg_transit_exported_key lvl x) (dbg_transit_exported_key lvl (TransitExportedKey_keys_update (map (\<lambda>(k, v). (k, g v))) x))"
| "secret_change lvl (dbg_pki_certificate lvl x) (dbg_pki_certificate lvl (PkiCertificate_private_key_update (map_option g) x))"
| "secret_change lvl (dbg_pki_csr lvl x) (dbg_pki_csr lvl (PkiCsr_private_key_update (map_option g) x))"
| "secret_change lvl (dbg_pki_issued_cert lvl x) (dbg_pki_issued_cert lvl (PkiIssuedCert_private_key_update g x))"
| "secret_change lvl (dbg_database_credentials lvl x) (dbg_database_credentials lvl (DatabaseCredentials_username_update g (DatabaseCredentials_password_update g x)))"
| "secret_change lvl (dbg_database_static_credentials lvl x) (dbg_database_static_credentials lvl (DatabaseStaticCredentials_username_update g (DatabaseStaticCredentials_password_update g x)))"
| "secret_change lvl (dbg_aws_credentials lvl x) (dbg_aws_credentials lvl (AwsCredentials_secret_key_update g (AwsCredentials_security_token_update (map_option g) x)))"
| "secret_change lvl (dbg_azure_credentials lvl x) (dbg_azure_credentials lvl (AzureCredentials_client_secret_update g x))"
| "secret_change lvl (dbg_gcp_service_account_key lvl x) (dbg_gcp_service_account_key lvl (GcpServiceAccountKey_private_key_data_update g x))"
| "secret_change lvl (dbg_gcp_oauth_token lvl x) (dbg_gcp_oauth_token lvl (GcpOAuthToken_token_update g x))"
| "secret_change lvl (dbg_ssh_signed_key lvl x) (dbg_ssh_signed_key lvl (SshSignedKey_signed_key_update g x))"
| "secret_change lvl (dbg_totp_generate_response lvl x) (dbg_totp_generate_response lvl (TotpGenerateResponse_barcode_update (map_option g) (TotpGenerateResponse_url_update (map_option g) x)))"
| "secret_change lvl (dbg_totp_code lvl x) (dbg_totp_code lvl (TotpCode_code_update g x))"
| "secret_change lvl (dbg_consul_credentials lvl x) (dbg_consul_credentials lvl (ConsulCredentials_token_update g x))"
| "secret_change lvl (dbg_nomad_credentials lvl x) (dbg_nomad_credentials lvl (NomadCredentials_secret_id_update g x))"
| "secret_change lvl (dbg_rabbitmq_credentials lvl x) (dbg_rabbitmq_credentials lvl (RabbitmqCredentials_password_update g x))"
| "secret_change lvl (dbg_terraform_cloud_token lvl x) (dbg_terraform_cloud_token lvl (TerraformCloudToken_token_update g x))"
| "secret_change lvl (dbg_init_response lvl x) (dbg_init_response lvl (InitResponse_root_token_update g (InitResponse_keys_update (map g) (InitResponse_keys_base64_update (map g) x))))"
| "secret_change lvl (dbg_rekey_status lvl x) (dbg_rekey_status lvl (RekeyStatus_keys_update (map_option (map g)) (RekeyStatus_keys_base64_update (map_option (map g)) x)))"
| "secret_change lvl (dbg_generate_root_status lvl x) (dbg_generate_root_status lvl (GenerateRootStatus_encoded_token_update (map_option g) (GenerateRootStatus_encoded_root_token_update (map_option g) (GenerateRootStatus_otp_update (map_option g) x))))"
| "secret_change lvl (dbg_token_lookup_response lvl x) (dbg_token_lookup_response lvl (TokenLookupResponse_id_update g x))"
| "secret_change lvl (dbg_app_role_secret_id_response lvl x) (dbg_app_role_secret_id_response lvl (AppRoleSecretIdResponse_secret_id_update g x))"
| "same_but_secrets (r :: json vault_response) r' \<Longrightarrow>
    secret_change lvl (dbg_vault_response show_json lvl r) (dbg_vault_response show_json lvl r')"
| "secret_change lvl (dbg_kv_read_response show_json lvl kv) (dbg_kv_read_response show_json lvl (kv\<lparr>KvReadResponse_data := (d :: json)\<rparr>))"

lemmas debug_defs =
  dbg_auth_info_def dbg_wrap_info_def dbg_transit_decrypt_response_def
  dbg_transit_batch_plaintext_def dbg_transit_data_key_def dbg_transit_batch_decrypt_item_def
  dbg_transit_backup_response_def dbg_transit_exported_key_def dbg_pki_certificate_def
  dbg_pki_csr_def dbg_pki_issued_cert_def dbg_database_credentials_def
  dbg_database_static_credentials_def dbg_aws_credentials_def dbg_azure_credentials_def
  dbg_gcp_service_account_key_def dbg_gcp_oauth_token_def dbg_ssh_signed_key_def
  dbg_totp_generate_response_def dbg_totp_code_def dbg_consul_credentials_def
  dbg_nomad_credentials_def dbg_rabbitmq_credentials_def dbg_terraform_cloud_token_def
  dbg_init_response_def dbg_rekey_status_def dbg_generate_root_status_def
  dbg_token_lookup_response_def dbg_app_role_secret_id_response_def

lemma dbg_secret_const: "redaction_level lvl = RFull \<Longrightarrow> dbg_secret lvl = (\<lambda>_. DStr redacted)"
  by (simp add: fun_eq_iff dbg_secret_full)

lemma dbg_const [simp]:
  "dbg_opt (\<lambda>_. c) (map_option g v) = dbg_opt (\<lambda>_. c) v"
  "dbg_list (\<lambda>_. c) (map g xs) = dbg_list (\<lambda>_. c) xs"
  "dbg_opt (dbg_list (\<lambda>_. c)) (map_option (map g) vs) = dbg_opt (dbg_list (\<lambda>_. c)) vs"
  by (cases v; cases vs; simp add: dbg_opt_def dbg_list_def comp_def)+

section \<open>Properties\<close>

text \<open>
  C22: At the default redaction level no \<open>Debug\<close> output of the crate's credential types depends on a secret: tokens,
  passwords, private keys, unseal and recovery keys, one-time codes, plaintexts of transit, payloads
  of KV reads and of response envelopes can be replaced by any others without changing it.
\<close>

theorem debug_hides_all_secrets:
  assumes "redaction_level lvl = RFull" and "secret_change lvl d d'"
  shows "d = d'"
  using assms(2)
  by (cases rule: secret_change.cases)
    (simp_all add: debug_defs dbg_secret_const assms(1) dbg_transit_exported_key_def
      dbg_kv_read_response_def redact_full dbg_vault_response_full comp_def)

definition otp_example :: "string \<Rightarrow> totp_code" where
  "otp_example s = \<lparr>TotpCode_code = Secret s\<rparr>"

theorem debug_hides_all_secrets_witness:
  "dbg_totp_code 0 (otp_example ''123456'') = dbg_totp_code 0 (otp_example ''654321'')"
proof -
  have "TotpCode_code_update (\<lambda>_. Secret ''654321'') (otp_example ''123456'') = otp_example ''654321''"
    by (simp add: otp_example_def)
  moreover have "secret_change 0 (dbg_totp_code 0 x) (dbg_totp_code 0 (TotpCode_code_update g x))" for x g
    by (rule secret_change.intros)
  moreover have "redaction_level 0 = RFull" by (simp add: redaction_level_def)
  ultimately show ?thesis using debug_hides_all_secrets [of 0] by metis
qed

end
