(* ===== verification/Traits.thy ===== *)
theory Traits
  imports Kv Transit Pki Database Cloud_Engines Small_Engines Identity Sys Auth_Methods
begin

text \<open>
  The operation traits of \<open>api/traits.rs\<close>, which programs are written against when they want to replace
  a handler by a double. A trait is a record of its operations, named by the trait and the method; a
  future of a \<open>Result\<close> is an action; the type parameter of a generic method is its decoder, at one
  type \<open>'a\<close> for the whole record. The implementation of a trait for a handler is the record of the
  handler's operations. \<open>SysHandler\<close>'s one, in \<open>api/sys/mod.rs\<close>, forwards to the methods of
  the submodules, argument by argument.
\<close>

section \<open>\<open>CubbyholeOperations\<close>\<close>

record ('w, 'a) cubbyhole_operations =
  CubbyholeOperations_read :: "(json \<Rightarrow> 'a option) \<Rightarrow> string \<Rightarrow> ('w, 'a) io"
  CubbyholeOperations_write :: "string \<Rightarrow> json \<Rightarrow> ('w, unit) io"
  CubbyholeOperations_delete :: "string \<Rightarrow> ('w, unit) io"
  CubbyholeOperations_list :: "string \<Rightarrow> ('w, string list) io"

definition cubbyhole_handler :: "'w handler \<Rightarrow> ('w, 'a) cubbyhole_operations" where
  "cubbyhole_handler h =
     \<lparr>CubbyholeOperations_read = cubbyhole_read h,
      CubbyholeOperations_write = cubbyhole_write h,
      CubbyholeOperations_delete = cubbyhole_delete h,
      CubbyholeOperations_list = cubbyhole_list h\<rparr>"

section \<open>\<open>Kv1Operations\<close>\<close>

record ('w, 'a) kv1_operations =
  Kv1Operations_read :: "(json \<Rightarrow> 'a option) \<Rightarrow> string \<Rightarrow> ('w, 'a) io"
  Kv1Operations_write :: "string \<Rightarrow> json \<Rightarrow> ('w, unit) io"
  Kv1Operations_delete :: "string \<Rightarrow> ('w, unit) io"
  Kv1Operations_list :: "string \<Rightarrow> ('w, string list) io"

definition kv1_handler :: "'w handler \<Rightarrow> ('w, 'a) kv1_operations" where
  "kv1_handler h =
     \<lparr>Kv1Operations_read = kv1_read h,
      Kv1Operations_write = kv1_write h,
      Kv1Operations_delete = kv1_delete h,
      Kv1Operations_list = kv1_list h\<rparr>"

section \<open>\<open>Kv2Operations\<close>\<close>

record ('w, 'a) kv2_operations =
  Kv2Operations_read_config :: "('w, kv_config) io"
  Kv2Operations_write_config :: "kv_config \<Rightarrow> ('w, unit) io"
  Kv2Operations_read :: "(json \<Rightarrow> 'a option) \<Rightarrow> string \<Rightarrow> ('w, 'a kv_read_response) io"
  Kv2Operations_read_data :: "(json \<Rightarrow> 'a option) \<Rightarrow> string \<Rightarrow> ('w, 'a) io"
  Kv2Operations_read_version :: "(json \<Rightarrow> 'a option) \<Rightarrow> string \<Rightarrow> nat \<Rightarrow> ('w, 'a kv_read_response) io"
  Kv2Operations_write :: "string \<Rightarrow> json \<Rightarrow> ('w, kv_metadata) io"
  Kv2Operations_write_cas :: "string \<Rightarrow> json \<Rightarrow> nat \<Rightarrow> ('w, kv_metadata) io"
  Kv2Operations_patch :: "string \<Rightarrow> json \<Rightarrow> ('w, kv_metadata) io"
  Kv2Operations_list :: "string \<Rightarrow> ('w, string list) io"
  Kv2Operations_delete :: "string \<Rightarrow> ('w, unit) io"
  Kv2Operations_delete_versions :: "string \<Rightarrow> nat list \<Rightarrow> ('w, unit) io"
  Kv2Operations_undelete_versions :: "string \<Rightarrow> nat list \<Rightarrow> ('w, unit) io"
  Kv2Operations_destroy_versions :: "string \<Rightarrow> nat list \<Rightarrow> ('w, unit) io"
  Kv2Operations_read_metadata :: "string \<Rightarrow> ('w, kv_full_metadata) io"
  Kv2Operations_write_metadata :: "string \<Rightarrow> kv_metadata_params \<Rightarrow> ('w, unit) io"
  Kv2Operations_patch_metadata :: "string \<Rightarrow> kv_metadata_params \<Rightarrow> ('w, unit) io"
  Kv2Operations_delete_metadata :: "string \<Rightarrow> ('w, unit) io"
  Kv2Operations_read_subkeys :: "string \<Rightarrow> nat option \<Rightarrow> ('w, json) io"

definition kv2_handler :: "'w handler \<Rightarrow> ('w, 'a) kv2_operations" where
  "kv2_handler h =
     \<lparr>Kv2Operations_read_config = kv2_read_config h,
      Kv2Operations_write_config = kv2_write_config h,
      Kv2Operations_read = kv2_read h,
      Kv2Operations_read_data = kv2_read_data h,
      Kv2Operations_read_version = kv2_read_version h,
      Kv2Operations_write = kv2_write h,
      Kv2Operations_write_cas = kv2_write_cas h,
      Kv2Operations_patch = kv2_patch h,
      Kv2Operations_list = kv2_list h,
      Kv2Operations_delete = kv2_delete h,
      Kv2Operations_delete_versions = kv2_delete_versions h,
      Kv2Operations_undelete_versions = kv2_undelete_versions h,
      Kv2Operations_destroy_versions = kv2_destroy_versions h,
      Kv2Operations_read_metadata = kv2_read_metadata h,
      Kv2Operations_write_metadata = kv2_write_metadata h,
      Kv2Operations_patch_metadata = kv2_patch_metadata h,
      Kv2Operations_delete_metadata = kv2_delete_metadata h,
      Kv2Operations_read_subkeys = kv2_read_subkeys h\<rparr>"

section \<open>\<open>TransitOperations\<close>\<close>

record 'w transit_operations =
  TransitOperations_create_key :: "string \<Rightarrow> transit_key_params \<Rightarrow> ('w, unit) io"
  TransitOperations_read_key :: "string \<Rightarrow> ('w, transit_key_info) io"
  TransitOperations_list_keys :: "('w, string list) io"
  TransitOperations_delete_key :: "string \<Rightarrow> ('w, unit) io"
  TransitOperations_update_key_config :: "string \<Rightarrow> transit_key_config \<Rightarrow> ('w, unit) io"
  TransitOperations_rotate_key :: "string \<Rightarrow> ('w, unit) io"
  TransitOperations_export_key :: "string \<Rightarrow> string \<Rightarrow> nat option \<Rightarrow> ('w, transit_exported_key) io"
  TransitOperations_encrypt :: "string \<Rightarrow> secret \<Rightarrow> ('w, string) io"
  TransitOperations_decrypt :: "string \<Rightarrow> string \<Rightarrow> ('w, secret) io"
  TransitOperations_rewrap :: "string \<Rightarrow> string \<Rightarrow> ('w, string) io"
  TransitOperations_batch_encrypt :: "string \<Rightarrow> transit_batch_plaintext list \<Rightarrow> ('w, transit_batch_ciphertext list) io"
  TransitOperations_batch_decrypt :: "string \<Rightarrow> transit_batch_ciphertext list \<Rightarrow> ('w, transit_batch_decrypt_item list) io"
  TransitOperations_sign :: "string \<Rightarrow> string \<Rightarrow> transit_sign_params \<Rightarrow> ('w, string) io"
  TransitOperations_verify :: "string \<Rightarrow> string \<Rightarrow> string \<Rightarrow> ('w, bool) io"
  TransitOperations_batch_sign :: "string \<Rightarrow> transit_batch_sign_input list \<Rightarrow> transit_sign_params \<Rightarrow> ('w, transit_batch_sign_result list) io"
  TransitOperations_batch_verify :: "string \<Rightarrow> transit_batch_verify_input list \<Rightarrow> ('w, transit_batch_verify_result list) io"
  TransitOperations_hash :: "string \<Rightarrow> string \<Rightarrow> ('w, string) io"
  TransitOperations_hmac :: "string \<Rightarrow> string \<Rightarrow> string \<Rightarrow> ('w, string) io"
  TransitOperations_random :: "nat \<Rightarrow> string \<Rightarrow> ('w, string) io"
  TransitOperations_generate_data_key :: "string \<Rightarrow> string \<Rightarrow> ('w, transit_data_key) io"
  TransitOperations_trim_key :: "string \<Rightarrow> nat \<Rightarrow> ('w, unit) io"
  TransitOperations_backup_key :: "string \<Rightarrow> ('w, secret) io"
  TransitOperations_restore_key :: "string \<Rightarrow> secret \<Rightarrow> ('w, unit) io"
  TransitOperations_read_cache_config :: "('w, transit_cache_config) io"
  TransitOperations_write_cache_config :: "nat \<Rightarrow> ('w, unit) io"

definition transit_handler :: "(string \<Rightarrow> string) \<Rightarrow> (string \<Rightarrow> string + string) \<Rightarrow> 'w handler \<Rightarrow> 'w transit_operations" where
  "transit_handler b64 unb64 h =
     \<lparr>TransitOperations_create_key = transit_create_key h,
      TransitOperations_read_key = transit_read_key h,
      TransitOperations_list_keys = transit_list_keys h,
      TransitOperations_delete_key = transit_delete_key h,
      TransitOperations_update_key_config = transit_update_key_config h,
      TransitOperations_rotate_key = transit_rotate_key h,
      TransitOperations_export_key = transit_export_key h,
      TransitOperations_encrypt = transit_encrypt h b64,
      TransitOperations_decrypt = transit_decrypt h unb64,
      TransitOperations_rewrap = transit_rewrap h,
      TransitOperations_batch_encrypt = transit_batch_encrypt h,
      TransitOperations_batch_decrypt = transit_batch_decrypt h,
      TransitOperations_sign = transit_sign h b64,
      TransitOperations_verify = transit_verify h b64,
      TransitOperations_batch_sign = transit_batch_sign h,
      TransitOperations_batch_verify = transit_batch_verify h,
      TransitOperations_hash = transit_hash h b64,
      TransitOperations_hmac = transit_hmac h b64,
      TransitOperations_random = transit_random h,
      TransitOperations_generate_data_key = transit_generate_data_key h,
      TransitOperations_trim_key = transit_trim_key h,
      TransitOperations_backup_key = transit_backup_key h,
      TransitOperations_restore_key = transit_restore_key h,
      TransitOperations_read_cache_config = transit_read_cache_config h,
      TransitOperations_write_cache_config = transit_write_cache_config h\<rparr>"

section \<open>\<open>PkiOperations\<close>\<close>

record 'w pki_operations =
  PkiOperations_generate_root :: "pki_root_params \<Rightarrow> ('w, pki_certificate) io"
  PkiOperations_generate_intermediate_csr :: "pki_intermediate_params \<Rightarrow> ('w, pki_csr) io"
  PkiOperations_set_signed_intermediate :: "string \<Rightarrow> ('w, pki_import_result) io"
  PkiOperations_delete_root :: "('w, unit) io"
  PkiOperations_list_issuers :: "('w, string list) io"
  PkiOperations_read_issuer :: "string \<Rightarrow> ('w, pki_issuer_info) io"
  PkiOperations_update_issuer :: "string \<Rightarrow> pki_issuer_update_params \<Rightarrow> ('w, pki_issuer_info) io"
  PkiOperations_delete_issuer :: "string \<Rightarrow> ('w, unit) io"
  PkiOperations_create_role :: "string \<Rightarrow> pki_role_params \<Rightarrow> ('w, unit) io"
  PkiOperations_read_role :: "string \<Rightarrow> ('w, pki_role) io"
  PkiOperations_list_roles :: "('w, string list) io"
  PkiOperations_delete_role :: "string \<Rightarrow> ('w, unit) io"
  PkiOperations_issue :: "string \<Rightarrow> pki_issue_params \<Rightarrow> ('w, pki_issued_cert) io"
  PkiOperations_sign :: "string \<Rightarrow> pki_sign_params \<Rightarrow> ('w, pki_signed_cert) io"
  PkiOperations_sign_verbatim :: "string \<Rightarrow> string \<Rightarrow> ('w, pki_signed_cert) io"
  PkiOperations_list_certs :: "('w, string list) io"
  PkiOperations_read_cert :: "string \<Rightarrow> ('w, pki_certificate_entry) io"
  PkiOperations_set_urls :: "pki_urls_config \<Rightarrow> ('w, unit) io"
  PkiOperations_read_urls :: "('w, pki_urls_config) io"
  PkiOperations_revoke :: "string \<Rightarrow> ('w, pki_revocation_info) io"
  PkiOperations_revoke_with_key :: "string \<Rightarrow> secret \<Rightarrow> ('w, pki_revocation_info) io"
  PkiOperations_rotate_crl :: "('w, unit) io"
  PkiOperations_tidy :: "pki_tidy_params \<Rightarrow> ('w, unit) io"
  PkiOperations_tidy_status :: "('w, pki_tidy_status) io"
  PkiOperations_cross_sign_intermediate :: "pki_cross_sign_request \<Rightarrow> ('w, pki_certificate) io"
  PkiOperations_read_acme_config :: "('w, pki_acme_config) io"
  PkiOperations_write_acme_config :: "pki_acme_config \<Rightarrow> ('w, unit) io"
  PkiOperations_rotate_delta_crl :: "('w, unit) io"
  PkiOperations_read_crl :: "('w, string) io"
  PkiOperations_read_crl_delta :: "('w, string) io"

definition pki_handler :: "'w handler \<Rightarrow> 'w pki_operations" where
  "pki_handler h =
     \<lparr>PkiOperations_generate_root = pki_generate_root h,
      PkiOperations_generate_intermediate_csr = pki_generate_intermediate_csr h,
      PkiOperations_set_signed_intermediate = pki_set_signed_intermediate h,
      PkiOperations_delete_root = pki_delete_root h,
      PkiOperations_list_issuers = pki_list_issuers h,
      PkiOperations_read_issuer = pki_read_issuer h,
      PkiOperations_update_issuer = pki_update_issuer h,
      PkiOperations_delete_issuer = pki_delete_issuer h,
      PkiOperations_create_role = pki_create_role h,
      PkiOperations_read_role = pki_read_role h,
      PkiOperations_list_roles = pki_list_roles h,
      PkiOperations_delete_role = pki_delete_role h,
      PkiOperations_issue = pki_issue h,
      PkiOperations_sign = pki_sign h,
      PkiOperations_sign_verbatim = pki_sign_verbatim h,
      PkiOperations_list_certs = pki_list_certs h,
      PkiOperations_read_cert = pki_read_cert h,
      PkiOperations_set_urls = pki_set_urls h,
      PkiOperations_read_urls = pki_read_urls h,
      PkiOperations_revoke = pki_revoke h,
      PkiOperations_revoke_with_key = pki_revoke_with_key h,
      PkiOperations_rotate_crl = pki_rotate_crl h,
      PkiOperations_tidy = pki_tidy h,
      PkiOperations_tidy_status = pki_tidy_status h,
      PkiOperations_cross_sign_intermediate = pki_cross_sign_intermediate h,
      PkiOperations_read_acme_config = pki_read_acme_config h,
      PkiOperations_write_acme_config = pki_write_acme_config h,
      PkiOperations_rotate_delta_crl = pki_rotate_delta_crl h,
      PkiOperations_read_crl = pki_read_crl h,
      PkiOperations_read_crl_delta = pki_read_crl_delta h\<rparr>"

section \<open>\<open>SysOperations\<close>\<close>

record ('w, 'a) sys_operations_1 =
  SysOperations_health :: "('w, health_response) io"
  SysOperations_leader :: "('w, leader_response) io"
  SysOperations_seal_status :: "('w, seal_status) io"
  SysOperations_seal :: "('w, unit) io"
  SysOperations_unseal :: "secret \<Rightarrow> ('w, seal_status) io"
  SysOperations_init :: "init_params \<Rightarrow> ('w, init_response) io"
  SysOperations_step_down :: "('w, unit) io"
  SysOperations_list_mounts :: "('w, (string \<times> mount_info) list) io"
  SysOperations_mount :: "string \<Rightarrow> mount_params \<Rightarrow> ('w, unit) io"
  SysOperations_unmount :: "string \<Rightarrow> ('w, unit) io"
  SysOperations_tune_mount :: "string \<Rightarrow> mount_tune_params \<Rightarrow> ('w, unit) io"
  SysOperations_read_mount_tune :: "string \<Rightarrow> ('w, mount_config) io"
  SysOperations_list_auth_mounts :: "('w, (string \<times> auth_mount_info) list) io"
  SysOperations_enable_auth :: "string \<Rightarrow> auth_mount_params \<Rightarrow> ('w, unit) io"
  SysOperations_disable_auth :: "string \<Rightarrow> ('w, unit) io"
  SysOperations_read_auth_tune :: "string \<Rightarrow> ('w, mount_config) io"
  SysOperations_list_policies :: "('w, string list) io"
  SysOperations_read_policy :: "string \<Rightarrow> ('w, policy_info) io"
  SysOperations_write_policy :: "string \<Rightarrow> string \<Rightarrow> ('w, unit) io"
  SysOperations_delete_policy :: "string \<Rightarrow> ('w, unit) io"
  SysOperations_read_lease :: "string \<Rightarrow> ('w, lease_info) io"
  SysOperations_renew_lease :: "string \<Rightarrow> string option \<Rightarrow> ('w, lease_renewal) io"
  SysOperations_revoke_lease :: "string \<Rightarrow> ('w, unit) io"
  SysOperations_revoke_prefix :: "string \<Rightarrow> ('w, unit) io"
  SysOperations_list_audit_devices :: "('w, (string \<times> audit_device) list) io"
  SysOperations_enable_audit :: "string \<Rightarrow> audit_params \<Rightarrow> ('w, unit) io"
  SysOperations_disable_audit :: "string \<Rightarrow> ('w, unit) io"
  SysOperations_unwrap :: "(json \<Rightarrow> 'a option) \<Rightarrow> secret \<Rightarrow> ('w, 'a) io"
  SysOperations_wrap_lookup :: "secret \<Rightarrow> ('w, wrap_info) io"
  SysOperations_capabilities :: "secret \<Rightarrow> string list \<Rightarrow> ('w, (string \<times> string list) list) io"
  SysOperations_capabilities_self :: "string list \<Rightarrow> ('w, (string \<times> string list) list) io"
  SysOperations_key_status :: "('w, key_status) io"

record ('w, 'a) sys_operations = "('w, 'a) sys_operations_1" +
  SysOperations_rotate_encryption_key :: "('w, unit) io"
  SysOperations_list_plugins :: "string \<Rightarrow> ('w, string list) io"
  SysOperations_read_plugin :: "string \<Rightarrow> string \<Rightarrow> ('w, plugin_info) io"
  SysOperations_register_plugin :: "register_plugin_request \<Rightarrow> ('w, unit) io"
  SysOperations_deregister_plugin :: "string \<Rightarrow> string \<Rightarrow> ('w, unit) io"
  SysOperations_reload_plugin :: "string \<Rightarrow> ('w, unit) io"
  SysOperations_raft_config :: "('w, raft_config) io"
  SysOperations_raft_autopilot_state :: "('w, autopilot_state) io"
  SysOperations_raft_remove_peer :: "string \<Rightarrow> ('w, unit) io"
  SysOperations_raft_snapshot :: "('w, string) io"
  SysOperations_raft_snapshot_restore :: "string \<Rightarrow> ('w, unit) io"
  SysOperations_in_flight_requests :: "('w, (string \<times> in_flight_request) list) io"
  SysOperations_list_namespaces :: "('w, string list) io"
  SysOperations_create_namespace :: "string \<Rightarrow> ('w, namespace_info) io"
  SysOperations_delete_namespace :: "string \<Rightarrow> ('w, unit) io"
  SysOperations_list_rate_limit_quotas :: "('w, string list) io"
  SysOperations_read_rate_limit_quota :: "string \<Rightarrow> ('w, rate_limit_quota) io"
  SysOperations_write_rate_limit_quota :: "string \<Rightarrow> rate_limit_quota_request \<Rightarrow> ('w, unit) io"
  SysOperations_delete_rate_limit_quota :: "string \<Rightarrow> ('w, unit) io"
  SysOperations_rekey_init :: "rekey_init_request \<Rightarrow> ('w, rekey_status) io"
  SysOperations_rekey_status :: "('w, rekey_status) io"
  SysOperations_rekey_cancel :: "('w, unit) io"
  SysOperations_rekey_update :: "secret \<Rightarrow> string \<Rightarrow> ('w, rekey_status) io"
  SysOperations_generate_root_init :: "generate_root_init_request \<Rightarrow> ('w, generate_root_status) io"
  SysOperations_generate_root_status :: "('w, generate_root_status) io"
  SysOperations_generate_root_cancel :: "('w, unit) io"
  SysOperations_generate_root_update :: "secret \<Rightarrow> string \<Rightarrow> ('w, generate_root_status) io"
  SysOperations_remount :: "string \<Rightarrow> string \<Rightarrow> ('w, remount_status) io"
  SysOperations_metrics_json :: "('w, json) io"
  SysOperations_host_info :: "('w, host_info) io"
  SysOperations_internal_counters_activity :: "('w, json) io"
  SysOperations_version_history :: "((string \<times> version_history_entry) list \<Rightarrow> (string \<times> version_history_entry) list) \<Rightarrow> ('w, version_history_entry list) io"
  SysOperations_rewrap :: "secret \<Rightarrow> ('w, wrap_info) io"

definition sys_handler_1 :: "'w client \<Rightarrow> ('w, 'a) sys_operations_1" where
  "sys_handler_1 c =
     \<lparr>SysOperations_health = sys_health c,
      SysOperations_leader = sys_leader c,
      SysOperations_seal_status = sys_seal_status c,
      SysOperations_seal = sys_seal c,
      SysOperations_unseal = \<lambda>a0. sys_unseal c a0,
      SysOperations_init = \<lambda>a0. sys_init c a0,
      SysOperations_step_down = sys_step_down c,
      SysOperations_list_mounts = sys_list_mounts c,
      SysOperations_mount = \<lambda>a0 a1. sys_mount c a0 a1,
      SysOperations_unmount = \<lambda>a0. sys_unmount c a0,
      SysOperations_tune_mount = \<lambda>a0 a1. sys_tune_mount c a0 a1,
      SysOperations_read_mount_tune = \<lambda>a0. sys_read_mount_tune c a0,
      SysOperations_list_auth_mounts = sys_list_auth_mounts c,
      SysOperations_enable_auth = \<lambda>a0 a1. sys_enable_auth c a0 a1,
      SysOperations_disable_auth = \<lambda>a0. sys_disable_auth c a0,
      SysOperations_read_auth_tune = \<lambda>a0. sys_read_auth_tune c a0,
      SysOperations_list_policies = sys_list_policies c,
      SysOperations_read_policy = \<lambda>a0. sys_read_policy c a0,
      SysOperations_write_policy = \<lambda>a0 a1. sys_write_policy c a0 a1,
      SysOperations_delete_policy = \<lambda>a0. sys_delete_policy c a0,
      SysOperations_read_lease = \<lambda>a0. sys_read_lease c a0,
      SysOperations_renew_lease = \<lambda>a0 a1. sys_renew_lease c a0 a1,
      SysOperations_revoke_lease = \<lambda>a0. sys_revoke_lease c a0,
      SysOperations_revoke_prefix = \<lambda>a0. sys_revoke_prefix c a0,
      SysOperations_list_audit_devices = sys_list_audit_devices c,
      SysOperations_enable_audit = \<lambda>a0 a1. sys_enable_audit c a0 a1,
      SysOperations_disable_audit = \<lambda>a0. sys_disable_audit c a0,
      SysOperations_unwrap = \<lambda>d a0. sys_unwrap c d a0,
      SysOperations_wrap_lookup = \<lambda>a0. sys_wrap_lookup c a0,
      SysOperations_capabilities = \<lambda>a0 a1. sys_capabilities c a0 a1,
      SysOperations_capabilities_self = \<lambda>a0. sys_capabilities_self c a0,
      SysOperations_key_status = sys_key_status c\<rparr>"

definition sys_handler :: "'w client \<Rightarrow> ('w, 'a) sys_operations" where
  "sys_handler c =
     sys_operations_1.extend (sys_handler_1 c)
       (sys_operations.fields
         (sys_rotate_encryption_key c)
         (\<lambda>a0. sys_list_plugins c a0)
         (\<lambda>a0 a1. sys_read_plugin c a0 a1)
         (\<lambda>a0. sys_register_plugin c a0)
         (\<lambda>a0 a1. sys_deregister_plugin c a0 a1)
         (\<lambda>a0. sys_reload_plugin c a0)
         (sys_raft_config c)
         (sys_raft_autopilot_state c)
         (\<lambda>a0. sys_raft_remove_peer c a0)
         (sys_raft_snapshot c)
         (\<lambda>a0. sys_raft_snapshot_restore c a0)
         (sys_in_flight_requests c)
         (sys_list_namespaces c)
         (\<lambda>a0. sys_create_namespace c a0)
         (\<lambda>a0. sys_delete_namespace c a0)
         (sys_list_rate_limit_quotas c)
         (\<lambda>a0. sys_read_rate_limit_quota c a0)
         (\<lambda>a0 a1. sys_write_rate_limit_quota c a0 a1)
         (\<lambda>a0. sys_delete_rate_limit_quota c a0)
         (\<lambda>a0. sys_rekey_init c a0)
         (sys_rekey_status c)
         (sys_rekey_cancel c)
         (\<lambda>a0 a1. sys_rekey_update c a0 a1)
         (\<lambda>a0. sys_generate_root_init c a0)
         (sys_generate_root_status c)
         (sys_generate_root_cancel c)
         (\<lambda>a0 a1. sys_generate_root_update c a0 a1)
         (\<lambda>a0 a1. sys_remount c a0 a1)
         (sys_metrics_json c)
         (sys_host_info c)
         (sys_internal_counters_activity c)
         (\<lambda>d. sys_version_history c d)
         (\<lambda>a0. sys_rewrap c a0))"

section \<open>\<open>TokenAuthOperations\<close>\<close>

record 'w token_auth_operations =
  TokenAuthOperations_lookup_self :: "('w, token_lookup_response) io"
  TokenAuthOperations_lookup :: "secret \<Rightarrow> ('w, token_lookup_response) io"
  TokenAuthOperations_renew_self :: "string option \<Rightarrow> ('w, auth_info) io"
  TokenAuthOperations_create :: "token_create_request \<Rightarrow> ('w, auth_info) io"
  TokenAuthOperations_create_orphan :: "token_create_request \<Rightarrow> ('w, auth_info) io"
  TokenAuthOperations_revoke :: "secret \<Rightarrow> ('w, unit) io"
  TokenAuthOperations_revoke_self :: "('w, unit) io"
  TokenAuthOperations_revoke_accessor :: "string \<Rightarrow> ('w, unit) io"
  TokenAuthOperations_list_accessors :: "('w, string list) io"

definition token_auth_handler :: "'w client \<Rightarrow> 'w token_auth_operations" where
  "token_auth_handler c =
     \<lparr>TokenAuthOperations_lookup_self = token_auth_lookup_self c,
      TokenAuthOperations_lookup = token_auth_lookup c,
      TokenAuthOperations_renew_self = token_auth_renew_self c,
      TokenAuthOperations_create = token_auth_create c,
      TokenAuthOperations_create_orphan = token_auth_create_orphan c,
      TokenAuthOperations_revoke = token_auth_revoke c,
      TokenAuthOperations_revoke_self = token_auth_revoke_self c,
      TokenAuthOperations_revoke_accessor = token_auth_revoke_accessor c,
      TokenAuthOperations_list_accessors = token_auth_list_accessors c\<rparr>"

section \<open>\<open>AppRoleAuthOperations\<close>\<close>

record 'w app_role_auth_operations =
  AppRoleAuthOperations_login :: "string \<Rightarrow> secret \<Rightarrow> ('w, auth_info) io"
  AppRoleAuthOperations_create_role :: "string \<Rightarrow> app_role_create_request \<Rightarrow> ('w, unit) io"
  AppRoleAuthOperations_read_role :: "string \<Rightarrow> ('w, app_role_info) io"
  AppRoleAuthOperations_delete_role :: "string \<Rightarrow> ('w, unit) io"
  AppRoleAuthOperations_list_roles :: "('w, string list) io"
  AppRoleAuthOperations_read_role_id :: "string \<Rightarrow> ('w, string) io"
  AppRoleAuthOperations_generate_secret_id :: "string \<Rightarrow> ('w, app_role_secret_id_response) io"
  AppRoleAuthOperations_destroy_secret_id :: "string \<Rightarrow> secret \<Rightarrow> ('w, unit) io"

definition app_role_auth_handler :: "'w handler \<Rightarrow> 'w app_role_auth_operations" where
  "app_role_auth_handler h =
     \<lparr>AppRoleAuthOperations_login = approle_auth_login h,
      AppRoleAuthOperations_create_role = approle_auth_create_role h,
      AppRoleAuthOperations_read_role = approle_auth_read_role h,
      AppRoleAuthOperations_delete_role = approle_auth_delete_role h,
      AppRoleAuthOperations_list_roles = approle_auth_list_roles h,
      AppRoleAuthOperations_read_role_id = approle_auth_read_role_id h,
      AppRoleAuthOperations_generate_secret_id = approle_auth_generate_secret_id h,
      AppRoleAuthOperations_destroy_secret_id = approle_auth_destroy_secret_id h\<rparr>"

section \<open>\<open>K8sAuthOperations\<close>\<close>

record 'w k8s_auth_operations =
  K8sAuthOperations_login :: "string \<Rightarrow> secret \<Rightarrow> ('w, auth_info) io"
  K8sAuthOperations_configure :: "k8s_auth_config_request \<Rightarrow> ('w, unit) io"
  K8sAuthOperations_create_role :: "string \<Rightarrow> k8s_auth_role_request \<Rightarrow> ('w, unit) io"
  K8sAuthOperations_read_role :: "string \<Rightarrow> ('w, k8s_auth_role_info) io"
  K8sAuthOperations_delete_role :: "string \<Rightarrow> ('w, unit) io"
  K8sAuthOperations_list_roles :: "('w, string list) io"

definition k8s_auth_handler :: "'w handler \<Rightarrow> 'w k8s_auth_operations" where
  "k8s_auth_handler h =
     \<lparr>K8sAuthOperations_login = kubernetes_auth_login h,
      K8sAuthOperations_configure = kubernetes_auth_configure h,
      K8sAuthOperations_create_role = kubernetes_auth_create_role h,
      K8sAuthOperations_read_role = kubernetes_auth_read_role h,
      K8sAuthOperations_delete_role = kubernetes_auth_delete_role h,
      K8sAuthOperations_list_roles = kubernetes_auth_list_roles h\<rparr>"

section \<open>\<open>UserpassAuthOperations\<close>\<close>

record 'w userpass_auth_operations =
  UserpassAuthOperations_login :: "string \<Rightarrow> secret \<Rightarrow> ('w, auth_info) io"
  UserpassAuthOperations_create_user :: "string \<Rightarrow> userpass_user_request \<Rightarrow> ('w, unit) io"
  UserpassAuthOperations_read_user :: "string \<Rightarrow> ('w, userpass_user_info) io"
  UserpassAuthOperations_delete_user :: "string \<Rightarrow> ('w, unit) io"
  UserpassAuthOperations_list_users :: "('w, string list) io"
  UserpassAuthOperations_update_password :: "string \<Rightarrow> secret \<Rightarrow> ('w, unit) io"

definition userpass_auth_handler :: "'w handler \<Rightarrow> 'w userpass_auth_operations" where
  "userpass_auth_handler h =
     \<lparr>UserpassAuthOperations_login = userpass_auth_login h,
      UserpassAuthOperations_create_user = userpass_auth_create_user h,
      UserpassAuthOperations_read_user = userpass_auth_read_user h,
      UserpassAuthOperations_delete_user = userpass_auth_delete_user h,
      UserpassAuthOperations_list_users = userpass_auth_list_users h,
      UserpassAuthOperations_update_password = userpass_auth_update_password h\<rparr>"

section \<open>\<open>LdapAuthOperations\<close>\<close>

record 'w ldap_auth_operations =
  LdapAuthOperations_login :: "string \<Rightarrow> secret \<Rightarrow> ('w, auth_info) io"
  LdapAuthOperations_configure :: "ldap_config_request \<Rightarrow> ('w, unit) io"
  LdapAuthOperations_read_config :: "('w, ldap_config) io"
  LdapAuthOperations_write_group :: "string \<Rightarrow> ldap_group_request \<Rightarrow> ('w, unit) io"
  LdapAuthOperations_read_group :: "string \<Rightarrow> ('w, ldap_group) io"
  LdapAuthOperations_delete_group :: "string \<Rightarrow> ('w, unit) io"
  LdapAuthOperations_list_groups :: "('w, string list) io"
  LdapAuthOperations_write_user :: "string \<Rightarrow> ldap_user_request \<Rightarrow> ('w, unit) io"
  LdapAuthOperations_read_user :: "string \<Rightarrow> ('w, ldap_user) io"
  LdapAuthOperations_delete_user :: "string \<Rightarrow> ('w, unit) io"
  LdapAuthOperations_list_users :: "('w, string list) io"

definition ldap_auth_handler :: "'w handler \<Rightarrow> 'w ldap_auth_operations" where
  "ldap_auth_handler h =
     \<lparr>LdapAuthOperations_login = ldap_auth_login h,
      LdapAuthOperations_configure = ldap_auth_configure h,
      LdapAuthOperations_read_config = ldap_auth_read_config h,
      LdapAuthOperations_write_group = ldap_auth_write_group h,
      LdapAuthOperations_read_group = ldap_auth_read_group h,
      LdapAuthOperations_delete_group = ldap_auth_delete_group h,
      LdapAuthOperations_list_groups = ldap_auth_list_groups h,
      LdapAuthOperations_write_user = ldap_auth_write_user h,
      LdapAuthOperations_read_user = ldap_auth_read_user h,
      LdapAuthOperations_delete_user = ldap_auth_delete_user h,
      LdapAuthOperations_list_users = ldap_auth_list_users h\<rparr>"

section \<open>\<open>CertAuthOperations\<close>\<close>

record 'w cert_auth_operations =
  CertAuthOperations_login :: "string option \<Rightarrow> ('w, auth_info) io"
  CertAuthOperations_create_role :: "string \<Rightarrow> cert_role_request \<Rightarrow> ('w, unit) io"
  CertAuthOperations_read_role :: "string \<Rightarrow> ('w, cert_role_info) io"
  CertAuthOperations_delete_role :: "string \<Rightarrow> ('w, unit) io"
  CertAuthOperations_list_roles :: "('w, string list) io"

definition cert_auth_handler :: "'w handler \<Rightarrow> 'w cert_auth_operations" where
  "cert_auth_handler h =
     \<lparr>CertAuthOperations_login = cert_auth_login h,
      CertAuthOperations_create_role = cert_auth_create_role h,
      CertAuthOperations_read_role = cert_auth_read_role h,
      CertAuthOperations_delete_role = cert_auth_delete_role h,
      CertAuthOperations_list_roles = cert_auth_list_roles h\<rparr>"

section \<open>\<open>GithubAuthOperations\<close>\<close>

record 'w github_auth_operations =
  GithubAuthOperations_login :: "secret \<Rightarrow> ('w, auth_info) io"
  GithubAuthOperations_configure :: "github_config_request \<Rightarrow> ('w, unit) io"
  GithubAuthOperations_read_config :: "('w, github_config) io"
  GithubAuthOperations_map_team :: "string \<Rightarrow> github_team_mapping \<Rightarrow> ('w, unit) io"
  GithubAuthOperations_read_team_mapping :: "string \<Rightarrow> ('w, github_team_info) io"
  GithubAuthOperations_list_teams :: "('w, string list) io"

definition github_auth_handler :: "'w handler \<Rightarrow> 'w github_auth_operations" where
  "github_auth_handler h =
     \<lparr>GithubAuthOperations_login = github_auth_login h,
      GithubAuthOperations_configure = github_auth_configure h,
      GithubAuthOperations_read_config = github_auth_read_config h,
      GithubAuthOperations_map_team = github_auth_map_team h,
      GithubAuthOperations_read_team_mapping = github_auth_read_team_mapping h,
      GithubAuthOperations_list_teams = github_auth_list_teams h\<rparr>"

section \<open>\<open>OidcAuthOperations\<close>\<close>

record 'w oidc_auth_operations =
  OidcAuthOperations_login_jwt :: "string \<Rightarrow> secret \<Rightarrow> ('w, auth_info) io"
  OidcAuthOperations_configure :: "oidc_config_request \<Rightarrow> ('w, unit) io"
  OidcAuthOperations_read_config :: "('w, oidc_config) io"
  OidcAuthOperations_create_role :: "string \<Rightarrow> oidc_role_request \<Rightarrow> ('w, unit) io"
  OidcAuthOperations_read_role :: "string \<Rightarrow> ('w, oidc_role_info) io"
  OidcAuthOperations_delete_role :: "string \<Rightarrow> ('w, unit) io"
  OidcAuthOperations_list_roles :: "('w, string list) io"

definition oidc_auth_handler :: "'w handler \<Rightarrow> 'w oidc_auth_operations" where
  "oidc_auth_handler h =
     \<lparr>OidcAuthOperations_login_jwt = oidc_auth_login_jwt h,
      OidcAuthOperations_configure = oidc_auth_configure h,
      OidcAuthOperations_read_config = oidc_auth_read_config h,
      OidcAuthOperations_create_role = oidc_auth_create_role h,
      OidcAuthOperations_read_role = oidc_auth_read_role h,
      OidcAuthOperations_delete_role = oidc_auth_delete_role h,
      OidcAuthOperations_list_roles = oidc_auth_list_roles h\<rparr>"

section \<open>\<open>DatabaseOperations\<close>\<close>

record 'w database_operations =
  DatabaseOperations_configure :: "string \<Rightarrow> database_config_request \<Rightarrow> ('w, unit) io"
  DatabaseOperations_read_config :: "string \<Rightarrow> ('w, database_config) io"
  DatabaseOperations_delete_config :: "string \<Rightarrow> ('w, unit) io"
  DatabaseOperations_list_connections :: "('w, string list) io"
  DatabaseOperations_reset_connection :: "string \<Rightarrow> ('w, unit) io"
  DatabaseOperations_create_role :: "string \<Rightarrow> database_role_request \<Rightarrow> ('w, unit) io"
  DatabaseOperations_read_role :: "string \<Rightarrow> ('w, database_role) io"
  DatabaseOperations_delete_role :: "string \<Rightarrow> ('w, unit) io"
  DatabaseOperations_list_roles :: "('w, string list) io"
  DatabaseOperations_get_credentials :: "string \<Rightarrow> ('w, database_credentials) io"
  DatabaseOperations_create_static_role :: "string \<Rightarrow> database_static_role_request \<Rightarrow> ('w, unit) io"
  DatabaseOperations_read_static_role :: "string \<Rightarrow> ('w, database_static_role) io"
  DatabaseOperations_delete_static_role :: "string \<Rightarrow> ('w, unit) io"
  DatabaseOperations_list_static_roles :: "('w, string list) io"
  DatabaseOperations_get_static_credentials :: "string \<Rightarrow> ('w, database_static_credentials) io"
  DatabaseOperations_rotate_static_role :: "string \<Rightarrow> ('w, unit) io"

definition database_handler :: "'w handler \<Rightarrow> 'w database_operations" where
  "database_handler h =
     \<lparr>DatabaseOperations_configure = database_configure h,
      DatabaseOperations_read_config = database_read_config h,
      DatabaseOperations_delete_config = database_delete_config h,
      DatabaseOperations_list_connections = database_list_connections h,
      DatabaseOperations_reset_connection = database_reset_connection h,
      DatabaseOperations_create_role = database_create_role h,
      DatabaseOperations_read_role = database_read_role h,
      DatabaseOperations_delete_role = database_delete_role h,
      DatabaseOperations_list_roles = database_list_roles h,
      DatabaseOperations_get_credentials = database_get_credentials h,
      DatabaseOperations_create_static_role = database_create_static_role h,
      DatabaseOperations_read_static_role = database_read_static_role h,
      DatabaseOperations_delete_static_role = database_delete_static_role h,
      DatabaseOperations_list_static_roles = database_list_static_roles h,
      DatabaseOperations_get_static_credentials = database_get_static_credentials h,
      DatabaseOperations_rotate_static_role = database_rotate_static_role h\<rparr>"

section \<open>\<open>SshOperations\<close>\<close>

record 'w ssh_operations =
  SshOperations_configure_ca :: "ssh_ca_config_request \<Rightarrow> ('w, unit) io"
  SshOperations_read_public_key :: "('w, ssh_ca_public_key) io"
  SshOperations_delete_ca :: "('w, unit) io"
  SshOperations_create_role :: "string \<Rightarrow> ssh_role_request \<Rightarrow> ('w, unit) io"
  SshOperations_read_role :: "string \<Rightarrow> ('w, ssh_role) io"
  SshOperations_delete_role :: "string \<Rightarrow> ('w, unit) io"
  SshOperations_list_roles :: "('w, string list) io"
  SshOperations_sign_key :: "string \<Rightarrow> ssh_sign_request \<Rightarrow> ('w, ssh_signed_key) io"
  SshOperations_verify_otp :: "ssh_verify_request \<Rightarrow> ('w, ssh_verify_response) io"

definition ssh_handler :: "'w handler \<Rightarrow> 'w ssh_operations" where
  "ssh_handler h =
     \<lparr>SshOperations_configure_ca = ssh_configure_ca h,
      SshOperations_read_public_key = ssh_read_public_key h,
      SshOperations_delete_ca = ssh_delete_ca h,
      SshOperations_create_role = ssh_create_role h,
      SshOperations_read_role = ssh_read_role h,
      SshOperations_delete_role = ssh_delete_role h,
      SshOperations_list_roles = ssh_list_roles h,
      SshOperations_sign_key = ssh_sign_key h,
      SshOperations_verify_otp = ssh_verify_otp h\<rparr>"

section \<open>\<open>IdentityOperations\<close>\<close>

record 'w identity_operations =
  IdentityOperations_create_entity :: "entity_create_request \<Rightarrow> ('w, entity) io"
  IdentityOperations_read_entity :: "string \<Rightarrow> ('w, entity) io"
  IdentityOperations_read_entity_by_name :: "string \<Rightarrow> ('w, entity) io"
  IdentityOperations_update_entity :: "string \<Rightarrow> entity_create_request \<Rightarrow> ('w, unit) io"
  IdentityOperations_delete_entity :: "string \<Rightarrow> ('w, unit) io"
  IdentityOperations_list_entities :: "('w, string list) io"
  IdentityOperations_create_entity_alias :: "entity_alias_create_request \<Rightarrow> ('w, entity_alias_response) io"
  IdentityOperations_read_entity_alias :: "string \<Rightarrow> ('w, entity_alias_response) io"
  IdentityOperations_delete_entity_alias :: "string \<Rightarrow> ('w, unit) io"
  IdentityOperations_list_entity_aliases :: "('w, string list) io"
  IdentityOperations_create_group :: "group_create_request \<Rightarrow> ('w, group) io"
  IdentityOperations_read_group :: "string \<Rightarrow> ('w, group) io"
  IdentityOperations_read_group_by_name :: "string \<Rightarrow> ('w, group) io"
  IdentityOperations_update_group :: "string \<Rightarrow> group_create_request \<Rightarrow> ('w, unit) io"
  IdentityOperations_delete_group :: "string \<Rightarrow> ('w, unit) io"
  IdentityOperations_list_groups :: "('w, string list) io"
  IdentityOperations_create_group_alias :: "group_alias_create_request \<Rightarrow> ('w, group_alias_response) io"
  IdentityOperations_read_group_alias :: "string \<Rightarrow> ('w, group_alias_response) io"
  IdentityOperations_delete_group_alias :: "string \<Rightarrow> ('w, unit) io"
  IdentityOperations_list_group_aliases :: "('w, string list) io"

definition identity_handler :: "'w client \<Rightarrow> 'w identity_operations" where
  "identity_handler c =
     \<lparr>IdentityOperations_create_entity = identity_create_entity c,
      IdentityOperations_read_entity = identity_read_entity c,
      IdentityOperations_read_entity_by_name = identity_read_entity_by_name c,
      IdentityOperations_update_entity = identity_update_entity c,
      IdentityOperations_delete_entity = identity_delete_entity c,
      IdentityOperations_list_entities = identity_list_entities c,
      IdentityOperations_create_entity_alias = identity_create_entity_alias c,
      IdentityOperations_read_entity_alias = identity_read_entity_alias c,
      IdentityOperations_delete_entity_alias = identity_delete_entity_alias c,
      IdentityOperations_list_entity_aliases = identity_list_entity_aliases c,
      IdentityOperations_create_group = identity_create_group c,
      IdentityOperations_read_group = identity_read_group c,
      IdentityOperations_read_group_by_name = identity_read_group_by_name c,
      IdentityOperations_update_group = identity_update_group c,
      IdentityOperations_delete_group = identity_delete_group c,
      IdentityOperations_list_groups = identity_list_groups c,
      IdentityOperations_create_group_alias = identity_create_group_alias c,
      IdentityOperations_read_group_alias = identity_read_group_alias c,
      IdentityOperations_delete_group_alias = identity_delete_group_alias c,
      IdentityOperations_list_group_aliases = identity_list_group_aliases c\<rparr>"

section \<open>\<open>AwsSecretsOperations\<close>\<close>

record 'w aws_secrets_operations =
  AwsSecretsOperations_configure_root :: "aws_config_root_request \<Rightarrow> ('w, unit) io"
  AwsSecretsOperations_read_config_root :: "('w, aws_config_root) io"
  AwsSecretsOperations_rotate_root :: "('w, unit) io"
  AwsSecretsOperations_create_role :: "string \<Rightarrow> aws_role_request \<Rightarrow> ('w, unit) io"
  AwsSecretsOperations_read_role :: "string \<Rightarrow> ('w, aws_role) io"
  AwsSecretsOperations_delete_role :: "string \<Rightarrow> ('w, unit) io"
  AwsSecretsOperations_list_roles :: "('w, string list) io"
  AwsSecretsOperations_get_credentials :: "string \<Rightarrow> ('w, aws_credentials) io"
  AwsSecretsOperations_get_sts_credentials :: "string \<Rightarrow> aws_sts_request \<Rightarrow> ('w, aws_credentials) io"

definition aws_secrets_handler :: "'w handler \<Rightarrow> 'w aws_secrets_operations" where
  "aws_secrets_handler h =
     \<lparr>AwsSecretsOperations_configure_root = aws_configure_root h,
      AwsSecretsOperations_read_config_root = aws_read_config_root h,
      AwsSecretsOperations_rotate_root = aws_rotate_root h,
      AwsSecretsOperations_create_role = aws_create_role h,
      AwsSecretsOperations_read_role = aws_read_role h,
      AwsSecretsOperations_delete_role = aws_delete_role h,
      AwsSecretsOperations_list_roles = aws_list_roles h,
      AwsSecretsOperations_get_credentials = aws_get_credentials h,
      AwsSecretsOperations_get_sts_credentials = aws_get_sts_credentials h\<rparr>"

section \<open>\<open>AwsAuthOperations\<close>\<close>

record 'w aws_auth_operations =
  AwsAuthOperations_login :: "aws_auth_login_request \<Rightarrow> ('w, auth_info) io"
  AwsAuthOperations_configure :: "aws_auth_config_request \<Rightarrow> ('w, unit) io"
  AwsAuthOperations_read_config :: "('w, aws_auth_config) io"
  AwsAuthOperations_create_role :: "string \<Rightarrow> aws_auth_role_request \<Rightarrow> ('w, unit) io"
  AwsAuthOperations_read_role :: "string \<Rightarrow> ('w, aws_auth_role_info) io"
  AwsAuthOperations_delete_role :: "string \<Rightarrow> ('w, unit) io"
  AwsAuthOperations_list_roles :: "('w, string list) io"

definition aws_auth_handler :: "'w handler \<Rightarrow> 'w aws_auth_operations" where
  "aws_auth_handler h =
     \<lparr>AwsAuthOperations_login = aws_auth_login h,
      AwsAuthOperations_configure = aws_auth_configure h,
      AwsAuthOperations_read_config = aws_auth_read_config h,
      AwsAuthOperations_create_role = aws_auth_create_role h,
      AwsAuthOperations_read_role = aws_auth_read_role h,
      AwsAuthOperations_delete_role = aws_auth_delete_role h,
      AwsAuthOperations_list_roles = aws_auth_list_roles h\<rparr>"

section \<open>\<open>TotpOperations\<close>\<close>

record 'w totp_operations =
  TotpOperations_create_key :: "string \<Rightarrow> totp_key_request \<Rightarrow> ('w, totp_generate_response option) io"
  TotpOperations_read_key :: "string \<Rightarrow> ('w, totp_key_info) io"
  TotpOperations_delete_key :: "string \<Rightarrow> ('w, unit) io"
  TotpOperations_list_keys :: "('w, string list) io"
  TotpOperations_generate_code :: "string \<Rightarrow> ('w, totp_code) io"
  TotpOperations_validate_code :: "string \<Rightarrow> string \<Rightarrow> ('w, totp_validation) io"

definition totp_handler :: "'w handler \<Rightarrow> 'w totp_operations" where
  "totp_handler h =
     \<lparr>TotpOperations_create_key = totp_create_key h,
      TotpOperations_read_key = totp_read_key h,
      TotpOperations_delete_key = totp_delete_key h,
      TotpOperations_list_keys = totp_list_keys h,
      TotpOperations_generate_code = totp_generate_code h,
      TotpOperations_validate_code = totp_validate_code h\<rparr>"

section \<open>\<open>ConsulOperations\<close>\<close>

record 'w consul_operations =
  ConsulOperations_configure :: "consul_config_request \<Rightarrow> ('w, unit) io"
  ConsulOperations_read_config :: "('w, consul_config) io"
  ConsulOperations_delete_config :: "('w, unit) io"
  ConsulOperations_create_role :: "string \<Rightarrow> consul_role_request \<Rightarrow> ('w, unit) io"
  ConsulOperations_read_role :: "string \<Rightarrow> ('w, consul_role) io"
  ConsulOperations_delete_role :: "string \<Rightarrow> ('w, unit) io"
  ConsulOperations_list_roles :: "('w, string list) io"
  ConsulOperations_get_credentials :: "string \<Rightarrow> ('w, consul_credentials) io"

definition consul_handler :: "'w handler \<Rightarrow> 'w consul_operations" where
  "consul_handler h =
     \<lparr>ConsulOperations_configure = consul_configure h,
      ConsulOperations_read_config = consul_read_config h,
      ConsulOperations_delete_config = consul_delete_config h,
      ConsulOperations_create_role = consul_create_role h,
      ConsulOperations_read_role = consul_read_role h,
      ConsulOperations_delete_role = consul_delete_role h,
      ConsulOperations_list_roles = consul_list_roles h,
      ConsulOperations_get_credentials = consul_get_credentials h\<rparr>"

section \<open>\<open>NomadOperations\<close>\<close>

record 'w nomad_operations =
  NomadOperations_configure :: "nomad_config_request \<Rightarrow> ('w, unit) io"
  NomadOperations_read_config :: "('w, nomad_config) io"
  NomadOperations_delete_config :: "('w, unit) io"
  NomadOperations_create_role :: "string \<Rightarrow> nomad_role_request \<Rightarrow> ('w, unit) io"
  NomadOperations_read_role :: "string \<Rightarrow> ('w, nomad_role) io"
  NomadOperations_delete_role :: "string \<Rightarrow> ('w, unit) io"
  NomadOperations_list_roles :: "('w, string list) io"
  NomadOperations_get_credentials :: "string \<Rightarrow> ('w, nomad_credentials) io"

definition nomad_handler :: "'w handler \<Rightarrow> 'w nomad_operations" where
  "nomad_handler h =
     \<lparr>NomadOperations_configure = nomad_configure h,
      NomadOperations_read_config = nomad_read_config h,
      NomadOperations_delete_config = nomad_delete_config h,
      NomadOperations_create_role = nomad_create_role h,
      NomadOperations_read_role = nomad_read_role h,
      NomadOperations_delete_role = nomad_delete_role h,
      NomadOperations_list_roles = nomad_list_roles h,
      NomadOperations_get_credentials = nomad_get_credentials h\<rparr>"

section \<open>\<open>AzureSecretsOperations\<close>\<close>

record 'w azure_secrets_operations =
  AzureSecretsOperations_configure :: "azure_config_request \<Rightarrow> ('w, unit) io"
  AzureSecretsOperations_read_config :: "('w, azure_config) io"
  AzureSecretsOperations_delete_config :: "('w, unit) io"
  AzureSecretsOperations_create_role :: "string \<Rightarrow> azure_role_request \<Rightarrow> ('w, unit) io"
  AzureSecretsOperations_read_role :: "string \<Rightarrow> ('w, azure_role) io"
  AzureSecretsOperations_delete_role :: "string \<Rightarrow> ('w, unit) io"
  AzureSecretsOperations_list_roles :: "('w, string list) io"
  AzureSecretsOperations_get_credentials :: "string \<Rightarrow> ('w, azure_credentials) io"

definition azure_handler :: "'w handler \<Rightarrow> 'w azure_secrets_operations" where
  "azure_handler h =
     \<lparr>AzureSecretsOperations_configure = azure_configure h,
      AzureSecretsOperations_read_config = azure_read_config h,
      AzureSecretsOperations_delete_config = azure_delete_config h,
      AzureSecretsOperations_create_role = azure_create_role h,
      AzureSecretsOperations_read_role = azure_read_role h,
      AzureSecretsOperations_delete_role = azure_delete_role h,
      AzureSecretsOperations_list_roles = azure_list_roles h,
      AzureSecretsOperations_get_credentials = azure_get_credentials h\<rparr>"

section \<open>\<open>AzureAuthOperations\<close>\<close>

record 'w azure_auth_operations =
  AzureAuthOperations_login :: "string \<Rightarrow> secret \<Rightarrow> string option \<Rightarrow> string option \<Rightarrow> string option \<Rightarrow> string option \<Rightarrow> ('w, auth_info) io"
  AzureAuthOperations_configure :: "azure_auth_config_request \<Rightarrow> ('w, unit) io"
  AzureAuthOperations_read_config :: "('w, azure_auth_config) io"
  AzureAuthOperations_create_role :: "string \<Rightarrow> azure_auth_role_request \<Rightarrow> ('w, unit) io"
  AzureAuthOperations_read_role :: "string \<Rightarrow> ('w, azure_auth_role_info) io"
  AzureAuthOperations_delete_role :: "string \<Rightarrow> ('w, unit) io"
  AzureAuthOperations_list_roles :: "('w, string list) io"

definition azure_auth_handler :: "'w handler \<Rightarrow> 'w azure_auth_operations" where
  "azure_auth_handler h =
     \<lparr>AzureAuthOperations_login = azure_auth_login h,
      AzureAuthOperations_configure = azure_auth_configure h,
      AzureAuthOperations_read_config = azure_auth_read_config h,
      AzureAuthOperations_create_role = azure_auth_create_role h,
      AzureAuthOperations_read_role = azure_auth_read_role h,
      AzureAuthOperations_delete_role = azure_auth_delete_role h,
      AzureAuthOperations_list_roles = azure_auth_list_roles h\<rparr>"

section \<open>\<open>GcpSecretsOperations\<close>\<close>

record 'w gcp_secrets_operations =
  GcpSecretsOperations_configure :: "gcp_config_request \<Rightarrow> ('w, unit) io"
  GcpSecretsOperations_read_config :: "('w, gcp_config) io"
  GcpSecretsOperations_delete_config :: "('w, unit) io"
  GcpSecretsOperations_create_roleset :: "string \<Rightarrow> gcp_roleset_request \<Rightarrow> ('w, unit) io"
  GcpSecretsOperations_read_roleset :: "string \<Rightarrow> ('w, gcp_roleset) io"
  GcpSecretsOperations_delete_roleset :: "string \<Rightarrow> ('w, unit) io"
  GcpSecretsOperations_list_rolesets :: "('w, string list) io"
  GcpSecretsOperations_get_service_account_key :: "string \<Rightarrow> ('w, gcp_service_account_key) io"
  GcpSecretsOperations_get_oauth_token :: "string \<Rightarrow> ('w, gcp_oauth_token) io"
  GcpSecretsOperations_rotate_roleset :: "string \<Rightarrow> ('w, unit) io"

definition gcp_handler :: "'w handler \<Rightarrow> 'w gcp_secrets_operations" where
  "gcp_handler h =
     \<lparr>GcpSecretsOperations_configure = gcp_configure h,
      GcpSecretsOperations_read_config = gcp_read_config h,
      GcpSecretsOperations_delete_config = gcp_delete_config h,
      GcpSecretsOperations_create_roleset = gcp_create_roleset h,
      GcpSecretsOperations_read_roleset = gcp_read_roleset h,
      GcpSecretsOperations_delete_roleset = gcp_delete_roleset h,
      GcpSecretsOperations_list_rolesets = gcp_list_rolesets h,
      GcpSecretsOperations_get_service_account_key = gcp_get_service_account_key h,
      GcpSecretsOperations_get_oauth_token = gcp_get_oauth_token h,
      GcpSecretsOperations_rotate_roleset = gcp_rotate_roleset h\<rparr>"

section \<open>\<open>GcpAuthOperations\<close>\<close>

record 'w gcp_auth_operations =
  GcpAuthOperations_login :: "string \<Rightarrow> secret \<Rightarrow> ('w, auth_info) io"
  GcpAuthOperations_configure :: "gcp_auth_config_request \<Rightarrow> ('w, unit) io"
  GcpAuthOperations_read_config :: "('w, gcp_auth_config) io"
  GcpAuthOperations_create_role :: "string \<Rightarrow> gcp_auth_role_request \<Rightarrow> ('w, unit) io"
  GcpAuthOperations_read_role :: "string \<Rightarrow> ('w, gcp_auth_role_info) io"
  GcpAuthOperations_delete_role :: "string \<Rightarrow> ('w, unit) io"
  GcpAuthOperations_list_roles :: "('w, string list) io"

definition gcp_auth_handler :: "'w handler \<Rightarrow> 'w gcp_auth_operations" where
  "gcp_auth_handler h =
     \<lparr>GcpAuthOperations_login = gcp_auth_login h,
      GcpAuthOperations_configure = gcp_auth_configure h,
      GcpAuthOperations_read_config = gcp_auth_read_config h,
      GcpAuthOperations_create_role = gcp_auth_create_role h,
      GcpAuthOperations_read_role = gcp_auth_read_role h,
      GcpAuthOperations_delete_role = gcp_auth_delete_role h,
      GcpAuthOperations_list_roles = gcp_auth_list_roles h\<rparr>"

section \<open>\<open>RabbitmqOperations\<close>\<close>

record 'w rabbitmq_operations =
  RabbitmqOperations_configure :: "rabbitmq_config_request \<Rightarrow> ('w, unit) io"
  RabbitmqOperations_configure_lease :: "string \<Rightarrow> string \<Rightarrow> ('w, unit) io"
  RabbitmqOperations_create_role :: "string \<Rightarrow> rabbitmq_role_request \<Rightarrow> ('w, unit) io"
  RabbitmqOperations_read_role :: "string \<Rightarrow> ('w, rabbitmq_role) io"
  RabbitmqOperations_delete_role :: "string \<Rightarrow> ('w, unit) io"
  RabbitmqOperations_list_roles :: "('w, string list) io"
  RabbitmqOperations_get_credentials :: "string \<Rightarrow> ('w, rabbitmq_credentials) io"

definition rabbitmq_handler :: "'w handler \<Rightarrow> 'w rabbitmq_operations" where
  "rabbitmq_handler h =
     \<lparr>RabbitmqOperations_configure = rabbitmq_configure h,
      RabbitmqOperations_configure_lease = rabbitmq_configure_lease h,
      RabbitmqOperations_create_role = rabbitmq_create_role h,
      RabbitmqOperations_read_role = rabbitmq_read_role h,
      RabbitmqOperations_delete_role = rabbitmq_delete_role h,
      RabbitmqOperations_list_roles = rabbitmq_list_roles h,
      RabbitmqOperations_get_credentials = rabbitmq_get_credentials h\<rparr>"

section \<open>\<open>TerraformCloudOperations\<close>\<close>

record 'w terraform_cloud_operations =
  TerraformCloudOperations_configure :: "terraform_cloud_config_request \<Rightarrow> ('w, unit) io"
  TerraformCloudOperations_read_config :: "('w, terraform_cloud_config) io"
  TerraformCloudOperations_delete_config :: "('w, unit) io"
  TerraformCloudOperations_create_role :: "string \<Rightarrow> terraform_cloud_role_request \<Rightarrow> ('w, unit) io"
  TerraformCloudOperations_read_role :: "string \<Rightarrow> ('w, terraform_cloud_role) io"
  TerraformCloudOperations_delete_role :: "string \<Rightarrow> ('w, unit) io"
  TerraformCloudOperations_list_roles :: "('w, string list) io"
  TerraformCloudOperations_get_credentials :: "string \<Rightarrow> ('w, terraform_cloud_token) io"

definition terraform_cloud_handler :: "'w handler \<Rightarrow> 'w terraform_cloud_operations" where
  "terraform_cloud_handler h =
     \<lparr>TerraformCloudOperations_configure = terraform_configure h,
      TerraformCloudOperations_read_config = terraform_read_config h,
      TerraformCloudOperations_delete_config = terraform_delete_config h,
      TerraformCloudOperations_create_role = terraform_create_role h,
      TerraformCloudOperations_read_role = terraform_read_role h,
      TerraformCloudOperations_delete_role = terraform_delete_role h,
      TerraformCloudOperations_list_roles = terraform_list_roles h,
      TerraformCloudOperations_get_credentials = terraform_get_credentials h\<rparr>"

section \<open>\<open>RadiusAuthOperations\<close>\<close>

record 'w radius_auth_operations =
  RadiusAuthOperations_login :: "string \<Rightarrow> secret \<Rightarrow> ('w, auth_info) io"
  RadiusAuthOperations_configure :: "radius_config_request \<Rightarrow> ('w, unit) io"
  RadiusAuthOperations_read_config :: "('w, radius_config) io"
  RadiusAuthOperations_write_user :: "string \<Rightarrow> radius_user_request \<Rightarrow> ('w, unit) io"
  RadiusAuthOperations_read_user :: "string \<Rightarrow> ('w, radius_user) io"
  RadiusAuthOperations_delete_user :: "string \<Rightarrow> ('w, unit) io"
  RadiusAuthOperations_list_users :: "('w, string list) io"

definition radius_auth_handler :: "'w handler \<Rightarrow> 'w radius_auth_operations" where
  "radius_auth_handler h =
     \<lparr>RadiusAuthOperations_login = radius_auth_login h,
      RadiusAuthOperations_configure = radius_auth_configure h,
      RadiusAuthOperations_read_config = radius_auth_read_config h,
      RadiusAuthOperations_write_user = radius_auth_write_user h,
      RadiusAuthOperations_read_user = radius_auth_read_user h,
      RadiusAuthOperations_delete_user = radius_auth_delete_user h,
      RadiusAuthOperations_list_users = radius_auth_list_users h\<rparr>"

section \<open>\<open>KerberosAuthOperations\<close>\<close>

record 'w kerberos_auth_operations =
  KerberosAuthOperations_login :: "string \<Rightarrow> ('w, auth_info) io"
  KerberosAuthOperations_configure :: "kerberos_config_request \<Rightarrow> ('w, unit) io"
  KerberosAuthOperations_read_config :: "('w, kerberos_config) io"
  KerberosAuthOperations_configure_ldap :: "kerberos_ldap_config_request \<Rightarrow> ('w, unit) io"
  KerberosAuthOperations_read_ldap_config :: "('w, kerberos_ldap_config) io"
  KerberosAuthOperations_write_group :: "string \<Rightarrow> kerberos_group_request \<Rightarrow> ('w, unit) io"
  KerberosAuthOperations_read_group :: "string \<Rightarrow> ('w, kerberos_group) io"
  KerberosAuthOperations_delete_group :: "string \<Rightarrow> ('w, unit) io"
  KerberosAuthOperations_list_groups :: "('w, string list) io"

definition kerberos_auth_handler :: "'w handler \<Rightarrow> 'w kerberos_auth_operations" where
  "kerberos_auth_handler h =
     \<lparr>KerberosAuthOperations_login = kerberos_auth_login h,
      KerberosAuthOperations_configure = kerberos_auth_configure h,
      KerberosAuthOperations_read_config = kerberos_auth_read_config h,
      KerberosAuthOperations_configure_ldap = kerberos_auth_configure_ldap h,
      KerberosAuthOperations_read_ldap_config = kerberos_auth_read_ldap_config h,
      KerberosAuthOperations_write_group = kerberos_auth_write_group h,
      KerberosAuthOperations_read_group = kerberos_auth_read_group h,
      KerberosAuthOperations_delete_group = kerberos_auth_delete_group h,
      KerberosAuthOperations_list_groups = kerberos_auth_list_groups h\<rparr>"

section \<open>Delegation\<close>

text \<open>
  Each method of the trait implementation of \<open>SysHandler\<close> is the method of the same name of a submodule,
  with its arguments in their order.
\<close>

lemma sys_handler_delegates:
  "SysOperations_health (sys_handler c) = sys_health c
   \<and> SysOperations_leader (sys_handler c) = sys_leader c
   \<and> SysOperations_seal_status (sys_handler c) = sys_seal_status c
   \<and> SysOperations_seal (sys_handler c) = sys_seal c
   \<and> SysOperations_unseal (sys_handler c) = sys_unseal c
   \<and> SysOperations_init (sys_handler c) = sys_init c
   \<and> SysOperations_step_down (sys_handler c) = sys_step_down c
   \<and> SysOperations_list_mounts (sys_handler c) = sys_list_mounts c
   \<and> SysOperations_mount (sys_handler c) = sys_mount c
   \<and> SysOperations_unmount (sys_handler c) = sys_unmount c
   \<and> SysOperations_tune_mount (sys_handler c) = sys_tune_mount c
   \<and> SysOperations_read_mount_tune (sys_handler c) = sys_read_mount_tune c
   \<and> SysOperations_list_auth_mounts (sys_handler c) = sys_list_auth_mounts c
   \<and> SysOperations_enable_auth (sys_handler c) = sys_enable_auth c
   \<and> SysOperations_disable_auth (sys_handler c) = sys_disable_auth c
   \<and> SysOperations_read_auth_tune (sys_handler c) = sys_read_auth_tune c
   \<and> SysOperations_list_policies (sys_handler c) = sys_list_policies c
   \<and> SysOperations_read_policy (sys_handler c) = sys_read_policy c
   \<and> SysOperations_write_policy (sys_handler c) = sys_write_policy c
   \<and> SysOperations_delete_policy (sys_handler c) = sys_delete_policy c
   \<and> SysOperations_read_lease (sys_handler c) = sys_read_lease c
   \<and> SysOperations_renew_lease (sys_handler c) = sys_renew_lease c
   \<and> SysOperations_revoke_lease (sys_handler c) = sys_revoke_lease c
   \<and> SysOperations_revoke_prefix (sys_handler c) = sys_revoke_prefix c
   \<and> SysOperations_list_audit_devices (sys_handler c) = sys_list_audit_devices c
   \<and> SysOperations_enable_audit (sys_handler c) = sys_enable_audit c
   \<and> SysOperations_disable_audit (sys_handler c) = sys_disable_audit c
   \<and> SysOperations_unwrap (sys_handler c) = sys_unwrap c
   \<and> SysOperations_wrap_lookup (sys_handler c) = sys_wrap_lookup c
   \<and> SysOperations_capabilities (sys_handler c) = sys_capabilities c
   \<and> SysOperations_capabilities_self (sys_handler c) = sys_capabilities_self c
   \<and> SysOperations_key_status (sys_handler c) = sys_key_status c
   \<and> SysOperations_rotate_encryption_key (sys_handler c) = sys_rotate_encryption_key c
   \<and> SysOperations_list_plugins (sys_handler c) = sys_list_plugins c
   \<and> SysOperations_read_plugin (sys_handler c) = sys_read_plugin c
   \<and> SysOperations_register_plugin (sys_handler c) = sys_register_plugin c
   \<and> SysOperations_deregister_plugin (sys_handler c) = sys_deregister_plugin c
   \<and> SysOperations_reload_plugin (sys_handler c) = sys_reload_plugin c
   \<and> SysOperations_raft_config (sys_handler c) = sys_raft_config c
   \<and> SysOperations_raft_autopilot_state (sys_handler c) = sys_raft_autopilot_state c
   \<and> SysOperations_raft_remove_peer (sys_handler c) = sys_raft_remove_peer c
   \<and> SysOperations_raft_snapshot (sys_handler c) = sys_raft_snapshot c
   \<and> SysOperations_raft_snapshot_restore (sys_handler c) = sys_raft_snapshot_restore c
   \<and> SysOperations_in_flight_requests (sys_handler c) = sys_in_flight_requests c
   \<and> SysOperations_list_namespaces (sys_handler c) = sys_list_namespaces c
   \<and> SysOperations_create_namespace (sys_handler c) = sys_create_namespace c
   \<and> SysOperations_delete_namespace (sys_handler c) = sys_delete_namespace c
   \<and> SysOperations_list_rate_limit_quotas (sys_handler c) = sys_list_rate_limit_quotas c
   \<and> SysOperations_read_rate_limit_quota (sys_handler c) = sys_read_rate_limit_quota c
   \<and> SysOperations_write_rate_limit_quota (sys_handler c) = sys_write_rate_limit_quota c
   \<and> SysOperations_delete_rate_limit_quota (sys_handler c) = sys_delete_rate_limit_quota c
   \<and> SysOperations_rekey_init (sys_handler c) = sys_rekey_init c
   \<and> SysOperations_rekey_status (sys_handler c) = sys_rekey_status c
   \<and> SysOperations_rekey_cancel (sys_handler c) = sys_rekey_cancel c
   \<and> SysOperations_rekey_update (sys_handler c) = sys_rekey_update c
   \<and> SysOperations_generate_root_init (sys_handler c) = sys_generate_root_init c
   \<and> SysOperations_generate_root_status (sys_handler c) = sys_generate_root_status c
   \<and> SysOperations_generate_root_cancel (sys_handler c) = sys_generate_root_cancel c
   \<and> SysOperations_generate_root_update (sys_handler c) = sys_generate_root_update c
   \<and> SysOperations_remount (sys_handler c) = sys_remount c
   \<and> SysOperations_metrics_json (sys_handler c) = sys_metrics_json c
   \<and> SysOperations_host_info (sys_handler c) = sys_host_info c
   \<and> SysOperations_internal_counters_activity (sys_handler c) = sys_internal_counters_activity c
   \<and> SysOperations_version_history (sys_handler c) = sys_version_history c
   \<and> SysOperations_rewrap (sys_handler c) = sys_rewrap c"
  by (simp_all add: sys_handler_def sys_handler_1_def sys_operations_1.defs sys_operations.defs)

end
