(* ===== verification/Clone_From.thy ===== *)
theory Clone_From
  imports Auth_Methods Cloud_Engines Database Pki Small_Engines Sys Transit
begin

text \<open>
  The \<open>Clone\<close> impls that \<open>types/*.rs\<close> writes out by hand for the types with secrets, and the
  conversions that make credentials from their parts. A clone or a conversion that swaps two fields
  of one type would still compile; none does.
\<close>

section \<open>Clones\<close>

definition clone_token_lookup_response :: "token_lookup_response \<Rightarrow> token_lookup_response" where
  "clone_token_lookup_response x =
     \<lparr>TokenLookupResponse_accessor = TokenLookupResponse_accessor x,
      TokenLookupResponse_creation_time = TokenLookupResponse_creation_time x,
      TokenLookupResponse_creation_ttl = TokenLookupResponse_creation_ttl x,
      TokenLookupResponse_display_name = TokenLookupResponse_display_name x,
      TokenLookupResponse_entity_id = TokenLookupResponse_entity_id x,
      TokenLookupResponse_expire_time = TokenLookupResponse_expire_time x,
      TokenLookupResponse_explicit_max_ttl = TokenLookupResponse_explicit_max_ttl x,
      TokenLookupResponse_id = TokenLookupResponse_id x,
      TokenLookupResponse_issue_time = TokenLookupResponse_issue_time x,
      TokenLookupResponse_meta = TokenLookupResponse_meta x,
      TokenLookupResponse_num_uses = TokenLookupResponse_num_uses x,
      TokenLookupResponse_orphan = TokenLookupResponse_orphan x,
      TokenLookupResponse_path = TokenLookupResponse_path x,
      TokenLookupResponse_policies = TokenLookupResponse_policies x,
      TokenLookupResponse_renewable = TokenLookupResponse_renewable x,
      TokenLookupResponse_ttl = TokenLookupResponse_ttl x,
      TokenLookupResponse_token_type = TokenLookupResponse_token_type x\<rparr>"

definition clone_app_role_secret_id_response :: "app_role_secret_id_response \<Rightarrow> app_role_secret_id_response" where
  "clone_app_role_secret_id_response x =
     \<lparr>AppRoleSecretIdResponse_secret_id = AppRoleSecretIdResponse_secret_id x,
      AppRoleSecretIdResponse_secret_id_accessor = AppRoleSecretIdResponse_secret_id_accessor x,
      AppRoleSecretIdResponse_secret_id_num_uses = AppRoleSecretIdResponse_secret_id_num_uses x,
      AppRoleSecretIdResponse_secret_id_ttl = AppRoleSecretIdResponse_secret_id_ttl x\<rparr>"

definition clone_k8s_auth_config_request :: "k8s_auth_config_request \<Rightarrow> k8s_auth_config_request" where
  "clone_k8s_auth_config_request x =
     \<lparr>K8sAuthConfigRequest_kubernetes_host = K8sAuthConfigRequest_kubernetes_host x,
      K8sAuthConfigRequest_kubernetes_ca_cert = K8sAuthConfigRequest_kubernetes_ca_cert x,
      K8sAuthConfigRequest_token_reviewer_jwt = K8sAuthConfigRequest_token_reviewer_jwt x,
      K8sAuthConfigRequest_disable_local_ca_jwt = K8sAuthConfigRequest_disable_local_ca_jwt x\<rparr>"

definition clone_userpass_user_request :: "userpass_user_request \<Rightarrow> userpass_user_request" where
  "clone_userpass_user_request x =
     \<lparr>UserpassUserRequest_password = UserpassUserRequest_password x,
      UserpassUserRequest_token_policies = UserpassUserRequest_token_policies x,
      UserpassUserRequest_token_ttl = UserpassUserRequest_token_ttl x,
      UserpassUserRequest_token_max_ttl = UserpassUserRequest_token_max_ttl x,
      UserpassUserRequest_token_bound_cidrs = UserpassUserRequest_token_bound_cidrs x,
      UserpassUserRequest_token_num_uses = UserpassUserRequest_token_num_uses x\<rparr>"

definition clone_ldap_config_request :: "ldap_config_request \<Rightarrow> ldap_config_request" where
  "clone_ldap_config_request x =
     \<lparr>LdapConfigRequest_url = LdapConfigRequest_url x,
      LdapConfigRequest_userdn = LdapConfigRequest_userdn x,
      LdapConfigRequest_userattr = LdapConfigRequest_userattr x,
      LdapConfigRequest_groupdn = LdapConfigRequest_groupdn x,
      LdapConfigRequest_groupattr = LdapConfigRequest_groupattr x,
      LdapConfigRequest_groupfilter = LdapConfigRequest_groupfilter x,
      LdapConfigRequest_binddn = LdapConfigRequest_binddn x,
      LdapConfigRequest_bindpass = LdapConfigRequest_bindpass x,
      LdapConfigRequest_starttls = LdapConfigRequest_starttls x,
      LdapConfigRequest_insecure_tls = LdapConfigRequest_insecure_tls x,
      LdapConfigRequest_certificate = LdapConfigRequest_certificate x,
      LdapConfigRequest_token_policies = LdapConfigRequest_token_policies x,
      LdapConfigRequest_token_ttl = LdapConfigRequest_token_ttl x,
      LdapConfigRequest_token_max_ttl = LdapConfigRequest_token_max_ttl x\<rparr>"

definition clone_oidc_config_request :: "oidc_config_request \<Rightarrow> oidc_config_request" where
  "clone_oidc_config_request x =
     \<lparr>OidcConfigRequest_oidc_discovery_url = OidcConfigRequest_oidc_discovery_url x,
      OidcConfigRequest_oidc_client_id = OidcConfigRequest_oidc_client_id x,
      OidcConfigRequest_oidc_client_secret = OidcConfigRequest_oidc_client_secret x,
      OidcConfigRequest_jwt_validation_pubkeys = OidcConfigRequest_jwt_validation_pubkeys x,
      OidcConfigRequest_bound_issuer = OidcConfigRequest_bound_issuer x,
      OidcConfigRequest_default_role = OidcConfigRequest_default_role x,
      OidcConfigRequest_jwt_supported_algs = OidcConfigRequest_jwt_supported_algs x\<rparr>"

definition clone_radius_config_request :: "radius_config_request \<Rightarrow> radius_config_request" where
  "clone_radius_config_request x =
     \<lparr>RadiusConfigRequest_host = RadiusConfigRequest_host x,
      RadiusConfigRequest_secret = RadiusConfigRequest_secret x,
      RadiusConfigRequest_port = RadiusConfigRequest_port x,
      RadiusConfigRequest_unregistered_user_policies = RadiusConfigRequest_unregistered_user_policies x,
      RadiusConfigRequest_dial_timeout = RadiusConfigRequest_dial_timeout x,
      RadiusConfigRequest_read_timeout = RadiusConfigRequest_read_timeout x,
      RadiusConfigRequest_nas_port = RadiusConfigRequest_nas_port x,
      RadiusConfigRequest_token_policies = RadiusConfigRequest_token_policies x,
      RadiusConfigRequest_token_ttl = RadiusConfigRequest_token_ttl x,
      RadiusConfigRequest_token_max_ttl = RadiusConfigRequest_token_max_ttl x\<rparr>"

definition clone_kerberos_config_request :: "kerberos_config_request \<Rightarrow> kerberos_config_request" where
  "clone_kerberos_config_request x =
     \<lparr>KerberosConfigRequest_keytab = KerberosConfigRequest_keytab x,
      KerberosConfigRequest_service_account = KerberosConfigRequest_service_account x\<rparr>"

definition clone_kerberos_ldap_config_request :: "kerberos_ldap_config_request \<Rightarrow> kerberos_ldap_config_request" where
  "clone_kerberos_ldap_config_request x =
     \<lparr>KerberosLdapConfigRequest_url = KerberosLdapConfigRequest_url x,
      KerberosLdapConfigRequest_userdn = KerberosLdapConfigRequest_userdn x,
      KerberosLdapConfigRequest_userattr = KerberosLdapConfigRequest_userattr x,
      KerberosLdapConfigRequest_groupdn = KerberosLdapConfigRequest_groupdn x,
      KerberosLdapConfigRequest_groupattr = KerberosLdapConfigRequest_groupattr x,
      KerberosLdapConfigRequest_groupfilter = KerberosLdapConfigRequest_groupfilter x,
      KerberosLdapConfigRequest_binddn = KerberosLdapConfigRequest_binddn x,
      KerberosLdapConfigRequest_bindpass = KerberosLdapConfigRequest_bindpass x,
      KerberosLdapConfigRequest_starttls = KerberosLdapConfigRequest_starttls x,
      KerberosLdapConfigRequest_insecure_tls = KerberosLdapConfigRequest_insecure_tls x,
      KerberosLdapConfigRequest_certificate = KerberosLdapConfigRequest_certificate x,
      KerberosLdapConfigRequest_token_policies = KerberosLdapConfigRequest_token_policies x,
      KerberosLdapConfigRequest_token_ttl = KerberosLdapConfigRequest_token_ttl x,
      KerberosLdapConfigRequest_token_max_ttl = KerberosLdapConfigRequest_token_max_ttl x\<rparr>"

definition clone_aws_config_root_request :: "aws_config_root_request \<Rightarrow> aws_config_root_request" where
  "clone_aws_config_root_request x =
     \<lparr>AwsConfigRootRequest_access_key = AwsConfigRootRequest_access_key x,
      AwsConfigRootRequest_secret_key = AwsConfigRootRequest_secret_key x,
      AwsConfigRootRequest_region = AwsConfigRootRequest_region x,
      AwsConfigRootRequest_iam_endpoint = AwsConfigRootRequest_iam_endpoint x,
      AwsConfigRootRequest_sts_endpoint = AwsConfigRootRequest_sts_endpoint x,
      AwsConfigRootRequest_max_retries = AwsConfigRootRequest_max_retries x\<rparr>"

definition clone_aws_credentials :: "aws_credentials \<Rightarrow> aws_credentials" where
  "clone_aws_credentials x =
     \<lparr>AwsCredentials_access_key = AwsCredentials_access_key x,
      AwsCredentials_secret_key = AwsCredentials_secret_key x,
      AwsCredentials_security_token = AwsCredentials_security_token x,
      AwsCredentials_arn = AwsCredentials_arn x\<rparr>"

definition clone_aws_auth_config_request :: "aws_auth_config_request \<Rightarrow> aws_auth_config_request" where
  "clone_aws_auth_config_request x =
     \<lparr>AwsAuthConfigRequest_access_key = AwsAuthConfigRequest_access_key x,
      AwsAuthConfigRequest_secret_key = AwsAuthConfigRequest_secret_key x,
      AwsAuthConfigRequest_endpoint = AwsAuthConfigRequest_endpoint x,
      AwsAuthConfigRequest_iam_endpoint = AwsAuthConfigRequest_iam_endpoint x,
      AwsAuthConfigRequest_sts_endpoint = AwsAuthConfigRequest_sts_endpoint x,
      AwsAuthConfigRequest_sts_region = AwsAuthConfigRequest_sts_region x,
      AwsAuthConfigRequest_max_retries = AwsAuthConfigRequest_max_retries x\<rparr>"

definition clone_aws_auth_login_request :: "aws_auth_login_request \<Rightarrow> aws_auth_login_request" where
  "clone_aws_auth_login_request x =
     \<lparr>AwsAuthLoginRequest_role = AwsAuthLoginRequest_role x,
      AwsAuthLoginRequest_identity = AwsAuthLoginRequest_identity x,
      AwsAuthLoginRequest_signature = AwsAuthLoginRequest_signature x,
      AwsAuthLoginRequest_pkcs7 = AwsAuthLoginRequest_pkcs7 x,
      AwsAuthLoginRequest_nonce = AwsAuthLoginRequest_nonce x,
      AwsAuthLoginRequest_iam_http_request_method = AwsAuthLoginRequest_iam_http_request_method x,
      AwsAuthLoginRequest_iam_request_url = AwsAuthLoginRequest_iam_request_url x,
      AwsAuthLoginRequest_iam_request_body = AwsAuthLoginRequest_iam_request_body x,
      AwsAuthLoginRequest_iam_request_headers = AwsAuthLoginRequest_iam_request_headers x\<rparr>"

definition clone_azure_config_request :: "azure_config_request \<Rightarrow> azure_config_request" where
  "clone_azure_config_request x =
     \<lparr>AzureConfigRequest_subscription_id = AzureConfigRequest_subscription_id x,
      AzureConfigRequest_tenant_id = AzureConfigRequest_tenant_id x,
      AzureConfigRequest_client_id = AzureConfigRequest_client_id x,
      AzureConfigRequest_client_secret = AzureConfigRequest_client_secret x,
      AzureConfigRequest_environment = AzureConfigRequest_environment x\<rparr>"

definition clone_azure_credentials :: "azure_credentials \<Rightarrow> azure_credentials" where
  "clone_azure_credentials x =
     \<lparr>AzureCredentials_client_id = AzureCredentials_client_id x,
      AzureCredentials_client_secret = AzureCredentials_client_secret x\<rparr>"

definition clone_azure_auth_config_request :: "azure_auth_config_request \<Rightarrow> azure_auth_config_request" where
  "clone_azure_auth_config_request x =
     \<lparr>AzureAuthConfigRequest_tenant_id = AzureAuthConfigRequest_tenant_id x,
      AzureAuthConfigRequest_resource = AzureAuthConfigRequest_resource x,
      AzureAuthConfigRequest_environment = AzureAuthConfigRequest_environment x,
      AzureAuthConfigRequest_client_id = AzureAuthConfigRequest_client_id x,
      AzureAuthConfigRequest_client_secret = AzureAuthConfigRequest_client_secret x\<rparr>"

definition clone_azure_auth_login_request :: "azure_auth_login_request \<Rightarrow> azure_auth_login_request" where
  "clone_azure_auth_login_request x =
     \<lparr>AzureAuthLoginRequest_role = AzureAuthLoginRequest_role x,
      AzureAuthLoginRequest_jwt = AzureAuthLoginRequest_jwt x,
      AzureAuthLoginRequest_subscription_id = AzureAuthLoginRequest_subscription_id x,
      AzureAuthLoginRequest_resource_group_name = AzureAuthLoginRequest_resource_group_name x,
      AzureAuthLoginRequest_vm_name = AzureAuthLoginRequest_vm_name x,
      AzureAuthLoginRequest_vmss_name = AzureAuthLoginRequest_vmss_name x\<rparr>"

definition clone_consul_config_request :: "consul_config_request \<Rightarrow> consul_config_request" where
  "clone_consul_config_request x =
     \<lparr>ConsulConfigRequest_address = ConsulConfigRequest_address x,
      ConsulConfigRequest_scheme = ConsulConfigRequest_scheme x,
      ConsulConfigRequest_token = ConsulConfigRequest_token x\<rparr>"

definition clone_consul_credentials :: "consul_credentials \<Rightarrow> consul_credentials" where
  "clone_consul_credentials x =
     \<lparr>ConsulCredentials_token = ConsulCredentials_token x\<rparr>"

definition clone_database_config_request :: "database_config_request \<Rightarrow> database_config_request" where
  "clone_database_config_request x =
     \<lparr>DatabaseConfigRequest_plugin_name = DatabaseConfigRequest_plugin_name x,
      DatabaseConfigRequest_connection_url = DatabaseConfigRequest_connection_url x,
      DatabaseConfigRequest_allowed_roles = DatabaseConfigRequest_allowed_roles x,
      DatabaseConfigRequest_username = DatabaseConfigRequest_username x,
      DatabaseConfigRequest_password = DatabaseConfigRequest_password x,
      DatabaseConfigRequest_max_open_connections = DatabaseConfigRequest_max_open_connections x,
      DatabaseConfigRequest_max_idle_connections = DatabaseConfigRequest_max_idle_connections x,
      DatabaseConfigRequest_max_connection_lifetime = DatabaseConfigRequest_max_connection_lifetime x,
      DatabaseConfigRequest_username_template = DatabaseConfigRequest_username_template x,
      DatabaseConfigRequest_verify_connection = DatabaseConfigRequest_verify_connection x\<rparr>"

definition clone_database_credentials :: "database_credentials \<Rightarrow> database_credentials" where
  "clone_database_credentials x =
     \<lparr>DatabaseCredentials_username = DatabaseCredentials_username x,
      DatabaseCredentials_password = DatabaseCredentials_password x\<rparr>"

definition clone_database_static_credentials :: "database_static_credentials \<Rightarrow> database_static_credentials" where
  "clone_database_static_credentials x =
     \<lparr>DatabaseStaticCredentials_username = DatabaseStaticCredentials_username x,
      DatabaseStaticCredentials_password = DatabaseStaticCredentials_password x,
      DatabaseStaticCredentials_last_vault_rotation = DatabaseStaticCredentials_last_vault_rotation x,
      DatabaseStaticCredentials_rotation_period = DatabaseStaticCredentials_rotation_period x,
      DatabaseStaticCredentials_ttl = DatabaseStaticCredentials_ttl x\<rparr>"

definition clone_gcp_config_request :: "gcp_config_request \<Rightarrow> gcp_config_request" where
  "clone_gcp_config_request x =
     \<lparr>GcpConfigRequest_credentials = GcpConfigRequest_credentials x,
      GcpConfigRequest_ttl = GcpConfigRequest_ttl x,
      GcpConfigRequest_max_ttl = GcpConfigRequest_max_ttl x\<rparr>"

definition clone_gcp_service_account_key :: "gcp_service_account_key \<Rightarrow> gcp_service_account_key" where
  "clone_gcp_service_account_key x =
     \<lparr>GcpServiceAccountKey_private_key_data = GcpServiceAccountKey_private_key_data x,
      GcpServiceAccountKey_key_algorithm = GcpServiceAccountKey_key_algorithm x,
      GcpServiceAccountKey_key_type = GcpServiceAccountKey_key_type x\<rparr>"

definition clone_gcp_oauth_token :: "gcp_oauth_token \<Rightarrow> gcp_oauth_token" where
  "clone_gcp_oauth_token x =
     \<lparr>GcpOAuthToken_token = GcpOAuthToken_token x,
      GcpOAuthToken_expires_at_seconds = GcpOAuthToken_expires_at_seconds x,
      GcpOAuthToken_token_ttl = GcpOAuthToken_token_ttl x\<rparr>"

definition clone_gcp_auth_config_request :: "gcp_auth_config_request \<Rightarrow> gcp_auth_config_request" where
  "clone_gcp_auth_config_request x =
     \<lparr>GcpAuthConfigRequest_credentials = GcpAuthConfigRequest_credentials x,
      GcpAuthConfigRequest_iam_alias = GcpAuthConfigRequest_iam_alias x,
      GcpAuthConfigRequest_gce_alias = GcpAuthConfigRequest_gce_alias x\<rparr>"

definition clone_nomad_config_request :: "nomad_config_request \<Rightarrow> nomad_config_request" where
  "clone_nomad_config_request x =
     \<lparr>NomadConfigRequest_address = NomadConfigRequest_address x,
      NomadConfigRequest_token = NomadConfigRequest_token x,
      NomadConfigRequest_max_token_name_length = NomadConfigRequest_max_token_name_length x\<rparr>"

definition clone_nomad_credentials :: "nomad_credentials \<Rightarrow> nomad_credentials" where
  "clone_nomad_credentials x =
     \<lparr>NomadCredentials_secret_id = NomadCredentials_secret_id x,
      NomadCredentials_accessor_id = NomadCredentials_accessor_id x\<rparr>"

definition clone_pki_certificate :: "pki_certificate \<Rightarrow> pki_certificate" where
  "clone_pki_certificate x =
     \<lparr>PkiCertificate_certificate = PkiCertificate_certificate x,
      PkiCertificate_issuing_ca = PkiCertificate_issuing_ca x,
      PkiCertificate_ca_chain = PkiCertificate_ca_chain x,
      PkiCertificate_serial_number = PkiCertificate_serial_number x,
      PkiCertificate_expiration = PkiCertificate_expiration x,
      PkiCertificate_private_key = PkiCertificate_private_key x,
      PkiCertificate_private_key_type = PkiCertificate_private_key_type x\<rparr>"

definition clone_pki_csr :: "pki_csr \<Rightarrow> pki_csr" where
  "clone_pki_csr x =
     \<lparr>PkiCsr_csr = PkiCsr_csr x,
      PkiCsr_private_key = PkiCsr_private_key x,
      PkiCsr_private_key_type = PkiCsr_private_key_type x\<rparr>"

definition clone_pki_issued_cert :: "pki_issued_cert \<Rightarrow> pki_issued_cert" where
  "clone_pki_issued_cert x =
     \<lparr>PkiIssuedCert_certificate = PkiIssuedCert_certificate x,
      PkiIssuedCert_issuing_ca = PkiIssuedCert_issuing_ca x,
      PkiIssuedCert_ca_chain = PkiIssuedCert_ca_chain x,
      PkiIssuedCert_private_key = PkiIssuedCert_private_key x,
      PkiIssuedCert_private_key_type = PkiIssuedCert_private_key_type x,
      PkiIssuedCert_serial_number = PkiIssuedCert_serial_number x,
      PkiIssuedCert_expiration = PkiIssuedCert_expiration x\<rparr>"

definition clone_rabbitmq_config_request :: "rabbitmq_config_request \<Rightarrow> rabbitmq_config_request" where
  "clone_rabbitmq_config_request x =
     \<lparr>RabbitmqConfigRequest_connection_uri = RabbitmqConfigRequest_connection_uri x,
      RabbitmqConfigRequest_username = RabbitmqConfigRequest_username x,
      RabbitmqConfigRequest_password = RabbitmqConfigRequest_password x,
      RabbitmqConfigRequest_verify_connection = RabbitmqConfigRequest_verify_connection x\<rparr>"

definition clone_rabbitmq_credentials :: "rabbitmq_credentials \<Rightarrow> rabbitmq_credentials" where
  "clone_rabbitmq_credentials x =
     \<lparr>RabbitmqCredentials_username = RabbitmqCredentials_username x,
      RabbitmqCredentials_password = RabbitmqCredentials_password x\<rparr>"

definition clone_auth_info :: "auth_info \<Rightarrow> auth_info" where
  "clone_auth_info x =
     \<lparr>client_token = client_token x,
      accessor = accessor x,
      policies = policies x,
      token_policies = token_policies x,
      metadata = metadata x,
      auth_lease_duration = auth_lease_duration x,
      auth_renewable = auth_renewable x,
      entity_id = entity_id x,
      token_type = token_type x,
      orphan = orphan x,
      mfa_requirement = mfa_requirement x,
      num_uses = num_uses x\<rparr>"

definition clone_wrap_info :: "wrap_info \<Rightarrow> wrap_info" where
  "clone_wrap_info x =
     \<lparr>wrap_token = wrap_token x,
      wrap_accessor = wrap_accessor x,
      wrap_ttl_secs = wrap_ttl_secs x,
      creation_time = creation_time x,
      creation_path = creation_path x,
      wrapped_accessor = wrapped_accessor x\<rparr>"

definition clone_ssh_signed_key :: "ssh_signed_key \<Rightarrow> ssh_signed_key" where
  "clone_ssh_signed_key x =
     \<lparr>SshSignedKey_serial_number = SshSignedKey_serial_number x,
      SshSignedKey_signed_key = SshSignedKey_signed_key x\<rparr>"

definition clone_ssh_ca_config_request :: "ssh_ca_config_request \<Rightarrow> ssh_ca_config_request" where
  "clone_ssh_ca_config_request x =
     \<lparr>SshCaConfigRequest_generate_signing_key = SshCaConfigRequest_generate_signing_key x,
      SshCaConfigRequest_private_key = SshCaConfigRequest_private_key x,
      SshCaConfigRequest_public_key = SshCaConfigRequest_public_key x,
      SshCaConfigRequest_key_type = SshCaConfigRequest_key_type x,
      SshCaConfigRequest_key_bits = SshCaConfigRequest_key_bits x\<rparr>"

definition clone_ssh_verify_request :: "ssh_verify_request \<Rightarrow> ssh_verify_request" where
  "clone_ssh_verify_request x =
     \<lparr>SshVerifyRequest_otp = SshVerifyRequest_otp x\<rparr>"

definition clone_init_response :: "init_response \<Rightarrow> init_response" where
  "clone_init_response x =
     \<lparr>InitResponse_keys = InitResponse_keys x,
      InitResponse_keys_base64 = InitResponse_keys_base64 x,
      InitResponse_root_token = InitResponse_root_token x\<rparr>"

definition clone_rekey_status :: "rekey_status \<Rightarrow> rekey_status" where
  "clone_rekey_status x =
     \<lparr>RekeyStatus_started = RekeyStatus_started x,
      RekeyStatus_nonce = RekeyStatus_nonce x,
      RekeyStatus_t = RekeyStatus_t x,
      RekeyStatus_n = RekeyStatus_n x,
      RekeyStatus_progress = RekeyStatus_progress x,
      RekeyStatus_required = RekeyStatus_required x,
      RekeyStatus_pgp_finger_prints = RekeyStatus_pgp_finger_prints x,
      RekeyStatus_backup = RekeyStatus_backup x,
      RekeyStatus_verification_required = RekeyStatus_verification_required x,
      RekeyStatus_complete = RekeyStatus_complete x,
      RekeyStatus_keys = RekeyStatus_keys x,
      RekeyStatus_keys_base64 = RekeyStatus_keys_base64 x\<rparr>"

definition clone_generate_root_status :: "generate_root_status \<Rightarrow> generate_root_status" where
  "clone_generate_root_status x =
     \<lparr>GenerateRootStatus_started = GenerateRootStatus_started x,
      GenerateRootStatus_nonce = GenerateRootStatus_nonce x,
      GenerateRootStatus_progress = GenerateRootStatus_progress x,
      GenerateRootStatus_required = GenerateRootStatus_required x,
      GenerateRootStatus_complete = GenerateRootStatus_complete x,
      GenerateRootStatus_encoded_token = GenerateRootStatus_encoded_token x,
      GenerateRootStatus_encoded_root_token = GenerateRootStatus_encoded_root_token x,
      GenerateRootStatus_otp_length = GenerateRootStatus_otp_length x,
      GenerateRootStatus_otp = GenerateRootStatus_otp x\<rparr>"

definition clone_terraform_cloud_config_request :: "terraform_cloud_config_request \<Rightarrow> terraform_cloud_config_request" where
  "clone_terraform_cloud_config_request x =
     \<lparr>TerraformCloudConfigRequest_token = TerraformCloudConfigRequest_token x,
      TerraformCloudConfigRequest_address = TerraformCloudConfigRequest_address x\<rparr>"

definition clone_terraform_cloud_token :: "terraform_cloud_token \<Rightarrow> terraform_cloud_token" where
  "clone_terraform_cloud_token x =
     \<lparr>TerraformCloudToken_token = TerraformCloudToken_token x,
      TerraformCloudToken_token_id = TerraformCloudToken_token_id x\<rparr>"

definition clone_totp_key_request :: "totp_key_request \<Rightarrow> totp_key_request" where
  "clone_totp_key_request x =
     \<lparr>TotpKeyRequest_generate = TotpKeyRequest_generate x,
      TotpKeyRequest_exported = TotpKeyRequest_exported x,
      TotpKeyRequest_key_size = TotpKeyRequest_key_size x,
      TotpKeyRequest_url = TotpKeyRequest_url x,
      TotpKeyRequest_key = TotpKeyRequest_key x,
      TotpKeyRequest_issuer = TotpKeyRequest_issuer x,
      TotpKeyRequest_account_name = TotpKeyRequest_account_name x,
      TotpKeyRequest_period = TotpKeyRequest_period x,
      TotpKeyRequest_algorithm = TotpKeyRequest_algorithm x,
      TotpKeyRequest_digits = TotpKeyRequest_digits x,
      TotpKeyRequest_skew = TotpKeyRequest_skew x,
      TotpKeyRequest_qr_size = TotpKeyRequest_qr_size x\<rparr>"

definition clone_totp_generate_response :: "totp_generate_response \<Rightarrow> totp_generate_response" where
  "clone_totp_generate_response x =
     \<lparr>TotpGenerateResponse_barcode = TotpGenerateResponse_barcode x,
      TotpGenerateResponse_url = TotpGenerateResponse_url x\<rparr>"

definition clone_totp_code :: "totp_code \<Rightarrow> totp_code" where
  "clone_totp_code x =
     \<lparr>TotpCode_code = TotpCode_code x\<rparr>"

definition clone_transit_batch_plaintext :: "transit_batch_plaintext \<Rightarrow> transit_batch_plaintext" where
  "clone_transit_batch_plaintext x =
     \<lparr>TransitBatchPlaintext_plaintext = TransitBatchPlaintext_plaintext x,
      TransitBatchPlaintext_context = TransitBatchPlaintext_context x\<rparr>"

definition clone_transit_data_key :: "transit_data_key \<Rightarrow> transit_data_key" where
  "clone_transit_data_key x =
     \<lparr>TransitDataKey_ciphertext = TransitDataKey_ciphertext x,
      TransitDataKey_plaintext = TransitDataKey_plaintext x\<rparr>"

definition clone_transit_exported_key :: "transit_exported_key \<Rightarrow> transit_exported_key" where
  "clone_transit_exported_key x =
     \<lparr>TransitExportedKey_name = TransitExportedKey_name x,
      TransitExportedKey_keys = TransitExportedKey_keys x,
      TransitExportedKey_key_type = TransitExportedKey_key_type x\<rparr>"

definition clone_transit_batch_decrypt_item :: "transit_batch_decrypt_item \<Rightarrow> transit_batch_decrypt_item" where
  "clone_transit_batch_decrypt_item x =
     \<lparr>TransitBatchDecryptItem_plaintext = TransitBatchDecryptItem_plaintext x,
      TransitBatchDecryptItem_error = TransitBatchDecryptItem_error x\<rparr>"

section \<open>Credentials from their parts\<close>

definition azure_credentials_from :: "string \<times> secret \<Rightarrow> azure_credentials" where
  "azure_credentials_from = (\<lambda>(a0, a1). \<lparr>AzureCredentials_client_id = a0, AzureCredentials_client_secret = a1\<rparr>)"

definition azure_credentials_from_str :: "string \<times> string \<Rightarrow> azure_credentials" where
  "azure_credentials_from_str = (\<lambda>(a0, a1). \<lparr>AzureCredentials_client_id = a0, AzureCredentials_client_secret = Secret a1\<rparr>)"

definition consul_credentials_from :: "secret \<Rightarrow> consul_credentials" where
  "consul_credentials_from = (\<lambda>a0. \<lparr>ConsulCredentials_token = a0\<rparr>)"

definition consul_credentials_from_str :: "string \<Rightarrow> consul_credentials" where
  "consul_credentials_from_str = (\<lambda>a0. \<lparr>ConsulCredentials_token = Secret a0\<rparr>)"

definition database_credentials_from :: "secret \<times> secret \<Rightarrow> database_credentials" where
  "database_credentials_from = (\<lambda>(a0, a1). \<lparr>DatabaseCredentials_username = a0, DatabaseCredentials_password = a1\<rparr>)"

definition database_credentials_from_str :: "string \<times> string \<Rightarrow> database_credentials" where
  "database_credentials_from_str = (\<lambda>(a0, a1). \<lparr>DatabaseCredentials_username = Secret a0, DatabaseCredentials_password = Secret a1\<rparr>)"

definition nomad_credentials_from :: "string \<times> secret \<Rightarrow> nomad_credentials" where
  "nomad_credentials_from = (\<lambda>(a0, a1). \<lparr>NomadCredentials_secret_id = a1, NomadCredentials_accessor_id = a0\<rparr>)"

definition nomad_credentials_from_str :: "string \<times> string \<Rightarrow> nomad_credentials" where
  "nomad_credentials_from_str = (\<lambda>(a0, a1). \<lparr>NomadCredentials_secret_id = Secret a1, NomadCredentials_accessor_id = a0\<rparr>)"

definition rabbitmq_credentials_from :: "string \<times> secret \<Rightarrow> rabbitmq_credentials" where
  "rabbitmq_credentials_from = (\<lambda>(a0, a1). \<lparr>RabbitmqCredentials_username = a0, RabbitmqCredentials_password = a1\<rparr>)"

definition rabbitmq_credentials_from_str :: "string \<times> string \<Rightarrow> rabbitmq_credentials" where
  "rabbitmq_credentials_from_str = (\<lambda>(a0, a1). \<lparr>RabbitmqCredentials_username = a0, RabbitmqCredentials_password = Secret a1\<rparr>)"

definition terraform_cloud_token_from :: "secret \<Rightarrow> terraform_cloud_token" where
  "terraform_cloud_token_from = (\<lambda>a0. \<lparr>TerraformCloudToken_token = a0, TerraformCloudToken_token_id = []\<rparr>)"

definition totp_code_from :: "secret \<Rightarrow> totp_code" where
  "totp_code_from = (\<lambda>a0. \<lparr>TotpCode_code = a0\<rparr>)"

definition totp_code_from_str :: "string \<Rightarrow> totp_code" where
  "totp_code_from_str = (\<lambda>a0. \<lparr>TotpCode_code = Secret a0\<rparr>)"

section \<open>Lemmas\<close>

text \<open>Every clone equals its original.\<close>

lemma clones_equal:
  "clone_token_lookup_response x0 = x0
   \<and> clone_app_role_secret_id_response x1 = x1
   \<and> clone_k8s_auth_config_request x2 = x2
   \<and> clone_userpass_user_request x3 = x3
   \<and> clone_ldap_config_request x4 = x4
   \<and> clone_oidc_config_request x5 = x5
   \<and> clone_radius_config_request x6 = x6
   \<and> clone_kerberos_config_request x7 = x7
   \<and> clone_kerberos_ldap_config_request x8 = x8
   \<and> clone_aws_config_root_request x9 = x9
   \<and> clone_aws_credentials x10 = x10
   \<and> clone_aws_auth_config_request x11 = x11
   \<and> clone_aws_auth_login_request x12 = x12
   \<and> clone_azure_config_request x13 = x13
   \<and> clone_azure_credentials x14 = x14
   \<and> clone_azure_auth_config_request x15 = x15
   \<and> clone_azure_auth_login_request x16 = x16
   \<and> clone_consul_config_request x17 = x17
   \<and> clone_consul_credentials x18 = x18
   \<and> clone_database_config_request x19 = x19
   \<and> clone_database_credentials x20 = x20
   \<and> clone_database_static_credentials x21 = x21
   \<and> clone_gcp_config_request x22 = x22
   \<and> clone_gcp_service_account_key x23 = x23
   \<and> clone_gcp_oauth_token x24 = x24
   \<and> clone_gcp_auth_config_request x25 = x25
   \<and> clone_nomad_config_request x26 = x26
   \<and> clone_nomad_credentials x27 = x27
   \<and> clone_pki_certificate x28 = x28
   \<and> clone_pki_csr x29 = x29
   \<and> clone_pki_issued_cert x30 = x30
   \<and> clone_rabbitmq_config_request x31 = x31
   \<and> clone_rabbitmq_credentials x32 = x32
   \<and> clone_auth_info x33 = x33
   \<and> clone_wrap_info x34 = x34
   \<and> clone_ssh_signed_key x35 = x35
   \<and> clone_ssh_ca_config_request x36 = x36
   \<and> clone_ssh_verify_request x37 = x37
   \<and> clone_init_response x38 = x38
   \<and> clone_rekey_status x39 = x39
   \<and> clone_generate_root_status x40 = x40
   \<and> clone_terraform_cloud_config_request x41 = x41
   \<and> clone_terraform_cloud_token x42 = x42
   \<and> clone_totp_key_request x43 = x43
   \<and> clone_totp_generate_response x44 = x44
   \<and> clone_totp_code x45 = x45
   \<and> clone_transit_batch_plaintext x46 = x46
   \<and> clone_transit_data_key x47 = x47
   \<and> clone_transit_exported_key x48 = x48
   \<and> clone_transit_batch_decrypt_item x49 = x49"
  by (simp_all add: clone_token_lookup_response_def clone_app_role_secret_id_response_def clone_k8s_auth_config_request_def clone_userpass_user_request_def clone_ldap_config_request_def clone_oidc_config_request_def clone_radius_config_request_def clone_kerberos_config_request_def clone_kerberos_ldap_config_request_def clone_aws_config_root_request_def clone_aws_credentials_def clone_aws_auth_config_request_def clone_aws_auth_login_request_def clone_azure_config_request_def clone_azure_credentials_def clone_azure_auth_config_request_def clone_azure_auth_login_request_def clone_consul_config_request_def clone_consul_credentials_def clone_database_config_request_def clone_database_credentials_def clone_database_static_credentials_def clone_gcp_config_request_def clone_gcp_service_account_key_def clone_gcp_oauth_token_def clone_gcp_auth_config_request_def clone_nomad_config_request_def clone_nomad_credentials_def clone_pki_certificate_def clone_pki_csr_def clone_pki_issued_cert_def clone_rabbitmq_config_request_def clone_rabbitmq_credentials_def clone_auth_info_def clone_wrap_info_def clone_ssh_signed_key_def clone_ssh_ca_config_request_def clone_ssh_verify_request_def clone_init_response_def clone_rekey_status_def clone_generate_root_status_def clone_terraform_cloud_config_request_def clone_terraform_cloud_token_def clone_totp_key_request_def clone_totp_generate_response_def clone_totp_code_def clone_transit_batch_plaintext_def clone_transit_data_key_def clone_transit_exported_key_def clone_transit_batch_decrypt_item_def)

text \<open>
  Credentials made from their parts are those that decode from an answer with the same parts.
\<close>

lemma credentials_from_parts:
  "de_database_credentials (obj [(''username'', JStr u), (''password'', JStr p)]) = Some (database_credentials_from_str (u, p))
   \<and> de_azure_credentials (obj [(''client_id'', JStr u), (''client_secret'', JStr p)]) = Some (azure_credentials_from_str (u, p))
   \<and> de_nomad_credentials (obj [(''accessor_id'', JStr u), (''secret_id'', JStr p)]) = Some (nomad_credentials_from_str (u, p))
   \<and> de_rabbitmq_credentials (obj [(''username'', JStr u), (''password'', JStr p)]) = Some (rabbitmq_credentials_from_str (u, p))
   \<and> de_consul_credentials (obj [(''token'', JStr p)]) = Some (consul_credentials_from_str p)
   \<and> de_totp_code (obj [(''code'', JStr p)]) = Some (totp_code_from_str p)"
  by (simp add: azure_credentials_from_def azure_credentials_from_str_def consul_credentials_from_def consul_credentials_from_str_def database_credentials_from_def database_credentials_from_str_def nomad_credentials_from_def nomad_credentials_from_str_def rabbitmq_credentials_from_def rabbitmq_credentials_from_str_def terraform_cloud_token_from_def totp_code_from_def totp_code_from_str_def obj_def de_database_credentials_def de_azure_credentials_def
      de_nomad_credentials_def de_rabbitmq_credentials_def de_consul_credentials_def de_totp_code_def
      fld_def de_secret_def in_obj_def)

end
