(* ===== verification/Wire_Types.thy ===== *)
theory Wire_Types
  imports Kv Pki Transit
begin

text \<open>
  The types that the client both sends and receives: what it writes, it reads back. A field that is
  left out when it is empty and defaults to empty when it is missing has to agree on what empty is.
\<close>

lemma de_jstrs [simp]: "de_vec de_string (jstrs ss) = Some ss"
  by (simp only: jstrs_def de_vec_strings)

lemma kv_config_roundtrip:
  assumes "\<forall>n. KvConfig_max_versions x = Some n \<longrightarrow> n < 2 ^ 64"
  shows "de_kv_config (ser_kv_config x) = Some x"
proof (cases x)
  case (fields a b c)
  then show ?thesis using assms
    by (cases a; cases b; cases c)
      (simp_all add: de_kv_config_def ser_kv_config_def opt_field_def fld_opt_def jnat_def)
qed

lemma pki_urls_config_roundtrip: "de_pki_urls_config (ser_pki_urls_config x) = Some x"
proof (cases x)
  case (fields a b c)
  then show ?thesis
    by (cases "a = []"; cases "b = []"; cases "c = []")
      (simp_all add: de_pki_urls_config_def ser_pki_urls_config_def nonempty_field_def fld_default_def)
qed

lemma pki_acme_config_roundtrip: "de_pki_acme_config (ser_pki_acme_config x) = Some x"
proof (cases x)
  case (fields a b c d e f)
  have o: "ser_option JStr y = JNull \<and> y = None \<or> (\<exists>s. ser_option JStr y = JStr s \<and> y = Some s)" for y
    by (cases y) (simp_all add: ser_option_def)
  show ?thesis
    using o [of d] o [of e] o [of f] fields
    by (cases "b = []"; cases "c = []")
      (auto simp: de_pki_acme_config_def ser_pki_acme_config_def nonempty_field_def fld_default_def
        fld_opt_def)
qed

lemma transit_batch_ciphertext_roundtrip:
  "de_transit_batch_ciphertext (ser_transit_batch_ciphertext x) = Some x"
  by (cases x) (auto simp: de_transit_batch_ciphertext_def ser_transit_batch_ciphertext_def
      nonempty_field_def fld_def fld_default_def)

section \<open>Properties\<close>

text \<open>
  C28: The types that are sent and received survive the trip: a configuration of the key-value engine,
  of the URLs or of ACME in the PKI engine, and a ciphertext of a transit batch, decode from their own
  serialisation to themselves, with empty and missing fields and whatever strings - so a
  configuration that was read can be written back unchanged.
\<close>

theorem wire_types_roundtrip:
  assumes "\<forall>n. KvConfig_max_versions kv = Some n \<longrightarrow> n < 2 ^ 64"
  shows "de_kv_config (ser_kv_config kv) = Some kv
    \<and> de_pki_urls_config (ser_pki_urls_config urls) = Some urls
    \<and> de_pki_acme_config (ser_pki_acme_config acme) = Some acme
    \<and> de_transit_batch_ciphertext (ser_transit_batch_ciphertext item) = Some item"
  using kv_config_roundtrip [OF assms] pki_urls_config_roundtrip pki_acme_config_roundtrip
    transit_batch_ciphertext_roundtrip by blast

theorem wire_types_roundtrip_witness:
  "de_kv_config (ser_kv_config \<lparr>KvConfig_cas_required = None, KvConfig_max_versions = Some 10,
     KvConfig_delete_version_after = Some ''3h''\<rparr>)
   = Some \<lparr>KvConfig_cas_required = None, KvConfig_max_versions = Some 10,
     KvConfig_delete_version_after = Some ''3h''\<rparr>"
  using wire_types_roundtrip [of "\<lparr>KvConfig_cas_required = None, KvConfig_max_versions = Some 10,
     KvConfig_delete_version_after = Some ''3h''\<rparr>"] by simp

end
