(* ===== verification/Faulty_Server.thy ===== *)
theory Faulty_Server
  imports Token_Daemon
begin

text \<open>
  Calls to a server that fails transiently: every request is answered or fails in a way that
  \<open>send_with_retry\<close> retries, and a failing request may have been applied all the same. The lemmas
  carry the server's own steps through the retry loop (\<open>retry_loop_serves\<close>) and through \<open>execute\<close>
  (\<open>execute_serves\<close>); the theories of the engines add what their requests do.
\<close>

section \<open>The server\<close>

text \<open>
  \<open>A\<close> reads the server's state off the world and \<open>faults\<close> bounds the transient failures in a row.
  For the requests in \<open>scope\<close>, \<open>eff\<close> is what a request does to the state and \<open>good\<close> is the answer it
  gets; such an answer is final.
\<close>

definition faulty_server ::
  "'w client \<Rightarrow> ('w \<Rightarrow> 'v) \<Rightarrow> ('w \<Rightarrow> nat) \<Rightarrow> (http_method \<Rightarrow> body option \<Rightarrow> bool)
   \<Rightarrow> (http_request \<Rightarrow> 'v \<Rightarrow> 'v) \<Rightarrow> (http_request \<Rightarrow> 'v \<Rightarrow> http_response \<Rightarrow> bool) \<Rightarrow> bool" where
  "faulty_server c A faults scope eff good \<longleftrightarrow>
     (\<forall>rq. e_clone (cl_env c) rq = Some rq)
     \<and> (\<forall>w. faults w \<le> max_retries (config c))
     \<and> (\<forall>w n w'. (n, w') \<in> {e_draw (cl_env c) w, e_idle (cl_env c) w} \<longrightarrow> A w' = A w \<and> faults w' = faults w)
     \<and> (\<forall>rq w a dt w'. scope (rq_method rq) (rq_body rq) \<and> e_send (cl_env c) rq w = (a, dt, w') \<longrightarrow>
          (\<exists>resp. a = Inr resp \<and> good rq (A w) resp \<and> \<not> wants_retry c (rq_url rq) a \<and> A w' = eff rq (A w))
          \<or> (wants_retry c (rq_url rq) a \<and> faults w' < faults w \<and> A w' \<in> {A w, eff rq (A w)}))"

section \<open>Through the retry loop\<close>

lemma world_kept:
  assumes "faulty_server c A faults scope eff good"
  shows "A (world (sleep c d s)) = A (world s)" "faults (world (sleep c d s)) = faults (world s)"
    and "draw_below c n s = (r, s1) \<Longrightarrow> A (world s1) = A (world s) \<and> faults (world s1) = faults (world s)"
    and "clock c s = (t, s1) \<Longrightarrow> A (world s1) = A (world s) \<and> faults (world s1) = faults (world s)"
proof -
  have kept: "A w' = A w \<and> faults w' = faults w"
    if "(n, w') \<in> {e_draw (cl_env c) w, e_idle (cl_env c) w}" for n w w'
    using assms that unfolding faulty_server_def by blast
  have draw: "A w' = A w \<and> faults w' = faults w" if "e_draw (cl_env c) w = (n, w')" for n w w'
    using kept [of n w' w] that by simp
  have idle: "A w' = A w \<and> faults w' = faults w" if "e_idle (cl_env c) w = (n, w')" for n w w'
    using kept [of n w' w] that by simp
  show "A (world (sleep c d s)) = A (world s)" "faults (world (sleep c d s)) = faults (world s)"
    by (auto simp: sleep_def dest: idle split: prod.split)
  show "A (world s1) = A (world s) \<and> faults (world s1) = faults (world s)"
    if "draw_below c n s = (r, s1)"
    using that by (auto simp: draw_below_def dest: draw split: prod.splits)
  show "A (world s1) = A (world s) \<and> faults (world s1) = faults (world s)" if "clock c s = (t, s1)"
    using that by (auto simp: clock_def dest: idle split: prod.splits)
qed

lemma backoff_kept:
  assumes "faulty_server c A faults scope eff good"
  shows "A (world (backoff_sleep c k s)) = A (world s)" "faults (world (backoff_sleep c k s)) = faults (world s)"
  using world_kept [OF assms] by (auto simp: backoff_sleep_def Let_def split: prod.split)

text \<open>
  The loop returns what a good answer means, and the server has taken the request once, and once
  more for each failure that had applied it.
\<close>

lemma final_answer_ends:
  assumes "\<not> wants_retry c url a" and "k \<le> max_retries (config c)"
  shows "attempt_result c url k a s = (Return (answer_outcome c url a), s)"
proof -
  obtain d s' where at: "attempt_result c url k a s = (d, s')" by fastforce
  show ?thesis by (rule attempt_result_cases [OF assms(2) at]) (use assms(1) at in auto)
qed

lemma send_serves:
  assumes "faulty_server c A faults scope eff good" and "scope (rq_method rq) (rq_body rq)"
  obtains
    (final) resp s' where "send c rq s = (Inr resp, s')" and "good rq (A (world s)) resp"
      and "\<not> wants_retry c (rq_url rq) (Inr resp)" and "A (world s') = eff rq (A (world s))"
  | (fault) a s' where "send c rq s = (a, s')" and "wants_retry c (rq_url rq) a"
      and "faults (world s') < faults (world s)" and "A (world s') \<in> {A (world s), eff rq (A (world s))}"
proof -
  obtain a dt w' where e: "e_send (cl_env c) rq (world s) = (a, dt, w')" by (metis prod.exhaust)
  then obtain s' where s': "send c rq s = (a, s')" "world s' = w'" by (simp add: send_def)
  have "(\<exists>resp. a = Inr resp \<and> good rq (A (world s)) resp \<and> \<not> wants_retry c (rq_url rq) a
      \<and> A w' = eff rq (A (world s)))
    \<or> (wants_retry c (rq_url rq) a \<and> faults w' < faults (world s) \<and> A w' \<in> {A (world s), eff rq (A (world s))})"
    using assms e unfolding faulty_server_def by metis
  then show thesis using s' by (auto intro: final fault)
qed

lemma fault_continues:
  assumes srv: "faulty_server c A faults scope eff good" and "wants_retry c url a" and k: "k < max_retries (config c)"
  obtains skip s' where "attempt_result c url k a s = (Continue skip, s')"
    and "A (world s') = A (world s)" and "faults (world s') = faults (world s)" and "quiescent s s'"
proof -
  obtain d s' where at: "attempt_result c url k a s = (d, s')" by fastforce
  show thesis
    by (rule attempt_result_cases [OF less_imp_le [OF k] at])
      (use assms(2) k at that world_kept [OF srv] in \<open>auto simp: pas.R_refl quiescent_primitives\<close>)
qed

lemma retry_loop_serves:
  assumes "faulty_server c A faults scope eff good" and "scope (rq_method rq) (rq_body rq)"
    and "k + faults (world s) \<le> max_retries (config c)"
  shows "\<exists>n resp s'. n \<le> faults (world s)
    \<and> retry_loop c rq (rq_url rq) k skip s = (answer_outcome c (rq_url rq) (Inr resp), s')
    \<and> good rq ((eff rq ^^ n) (A (world s))) resp
    \<and> A (world s') = (eff rq ^^ Suc n) (A (world s)) \<and> quiescent s s'"
  using assms(3)
proof (induction "max_retries (config c) - k" arbitrary: k skip s rule: less_induct)
  case less
  define s1 where "s1 = (if 0 < k \<and> \<not> skip then backoff_sleep c k s else s)"
  have s1: "A (world s1) = A (world s)" "faults (world s1) = faults (world s)" "quiescent s s1"
    using backoff_kept [OF assms(1)] by (simp_all add: s1_def quiescent_backoff pas.R_refl)
  have unfold: "retry_loop c rq (rq_url rq) k skip s =
      (case send c rq s1 of (a, s2) \<Rightarrow>
         (case attempt_result c (rq_url rq) k a s2 of
            (Return r, s3) \<Rightarrow> (r, s3)
          | (Continue skip', s3) \<Rightarrow> retry_loop c rq (rq_url rq) (Suc k) skip' s3))"
    using less.prems assms(1) by (subst retry_loop.simps) (simp add: s1_def [symmetric] faulty_server_def)
  show ?case
  proof (rule send_serves [OF assms(1,2), of s1])
    fix resp s2
    assume g: "send c rq s1 = (Inr resp, s2)" "good rq (A (world s1)) resp"
      "\<not> wants_retry c (rq_url rq) (Inr resp)" "A (world s2) = eff rq (A (world s1))"
    show ?thesis
      by (intro exI [of _ 0] exI [of _ resp] exI [of _ s2])
        (use g s1 pas.R_trans [OF s1(3) quiescent_primitives(3) [OF g(1)]] unfold less.prems
          in \<open>simp add: final_answer_ends\<close>)
  next
    fix a s2
    assume f: "send c rq s1 = (a, s2)" "wants_retry c (rq_url rq) a" "faults (world s2) < faults (world s1)"
      "A (world s2) \<in> {A (world s1), eff rq (A (world s1))}"
    have k: "k < max_retries (config c)" using f(3) s1(2) less.prems by simp
    obtain skip' s3 where s3: "attempt_result c (rq_url rq) k a s2 = (Continue skip', s3)"
      "A (world s3) = A (world s2)" "faults (world s3) = faults (world s2)" "quiescent s2 s3"
      by (rule fault_continues [OF assms(1) f(2) k])
    have q3: "quiescent s s3"
      by (rule pas.R_trans [OF pas.R_trans [OF s1(3) quiescent_primitives(3) [OF f(1)]] s3(4)])
    have "Suc k + faults (world s3) \<le> max_retries (config c)" using f(3) s1(2) s3(3) less.prems by simp
    then obtain n resp s' where r: "n \<le> faults (world s3)"
      "retry_loop c rq (rq_url rq) (Suc k) skip' s3 = (answer_outcome c (rq_url rq) (Inr resp), s')"
      "good rq ((eff rq ^^ n) (A (world s3))) resp" "A (world s') = (eff rq ^^ Suc n) (A (world s3))" "quiescent s3 s'"
      using less.hyps [OF diff_less_mono2 [OF lessI k], of s3 skip'] by blast
    define m where "m = (if A (world s2) = A (world s) then n else Suc n)"
    have "(eff rq ^^ n) (A (world s3)) = (eff rq ^^ m) (A (world s))"
      using f(4) s1(1) s3(2) by (auto simp: m_def funpow_swap1)
    moreover have "m \<le> faults (world s)" using r(1) f(3) s1(2) s3(3) by (simp add: m_def)
    ultimately show ?thesis
      using unfold f(1) s3(1) r pas.R_trans [OF q3 r(5)]
      by (intro exI [of _ m] exI [of _ resp] exI [of _ s']) simp
  qed
qed

section \<open>A call in a quiet client\<close>

text \<open>The client owes no renewal or login, and its circuit is closed.\<close>

definition quiet_client :: "'w client \<Rightarrow> 'w cstate \<Rightarrow> bool" where
  "quiet_client c s \<longleftrightarrow>
     \<not> token_poisoned s \<and> breaker_shut (breaker s)
     \<and> (case token s of None \<Rightarrow> auth_method c = None | Some ts \<Rightarrow> ts_expires_at ts = None)"

lemma quiet_ensure: "quiet_client c s \<Longrightarrow> ensure_valid_token c s = (Ok (), s)"
  by (auto simp: quiet_client_def ensure_valid_token_def lifecycle_action_def needs_renewal_now_def
      bind_io_cases split: option.splits)

lemma execute_serves:
  assumes srv: "faulty_server c A faults scope eff good" and q: "quiet_client c s"
    and url: "e_url (cl_env c) (url_string c path) = Inr url" and b: "scope m (map_option JsonBody body)"
  obtains n rq resp s' where "n \<le> max_retries (config c)"
    and "execute c m path body s = (answer_outcome c url (Inr resp), s')"
    and "rq_method rq = m" and "rq_url rq = url" and "rq_body rq = map_option JsonBody body"
    and "good rq ((eff rq ^^ n) (A (world s))) resp" and "A (world s') = (eff rq ^^ Suc n) (A (world s))"
    and "is_ok (answer_outcome c url (Inr resp)) \<Longrightarrow> quiet_client c s'"
proof -
  let ?rq = "vault_request c m url (token s) body"
  obtain s0 where s0: "breaker_check c s = (Ok (), s0)" "breaker s0 = breaker s" "token s0 = token s"
    "token_poisoned s0 = token_poisoned s"
    by (rule breaker_shut_check) (use q in \<open>auto simp: quiet_client_def\<close>)
  have w0: "A (world s0) = A (world s)"
    using s0(1) world_kept(4) [OF srv] by (auto simp: breaker_check_def split: option.splits prod.splits)
  have fb: "faults w \<le> max_retries (config c)" for w using srv by (simp add: faulty_server_def)
  obtain n resp s1 where n: "n \<le> max_retries (config c)"
    and r: "send_with_retry c ?rq url s0 = (answer_outcome c url (Inr resp), s1)"
      "good ?rq ((eff ?rq ^^ n) (A (world s))) resp" "A (world s1) = (eff ?rq ^^ Suc n) (A (world s))" "quiescent s0 s1"
    using retry_loop_serves [OF srv, of ?rq 0 s0 False] b w0 fb [of "world s0"]
    by (auto simp: send_with_retry_def dest: order_trans)
  define s2 where "s2 = snd (send_recorded c ?rq url s0)"
  have sr: "send_recorded c ?rq url s0 = (answer_outcome c url (Inr resp), s2)"
    unfolding s2_def using r(1) by (cases "answer_outcome c url (Inr resp)") (simp_all add: send_recorded_def)
  have "A (world (breaker_failure c s1)) = A (world s1)"
    using world_kept(4) [OF srv] by (auto simp: breaker_failure_def split: option.splits prod.splits)
  moreover have "world (breaker_success s1) = world s1" by (simp add: breaker_success_def split: option.split)
  ultimately have w2: "A (world s2) = A (world s1)"
    unfolding s2_def using r(1) by (cases "answer_outcome c url (Inr resp)") (simp_all add: send_recorded_def)
  have "execute_raw c m path body s = (answer_outcome c url (Inr resp), s2)"
    using execute_raw_ready [OF s0(1,3) _ url, of m body] q s0(4) sr by (simp add: quiet_client_def)
  then have ex: "execute c m path body s = (answer_outcome c url (Inr resp), s2)"
    using quiet_ensure [OF q] by (simp add: execute_def bind_io_cases)
  have "quiet_client c s2" if "is_ok (answer_outcome c url (Inr resp))"
  proof -
    have "s2 = breaker_success s1"
      using that r(1) sr by (cases "answer_outcome c url (Inr resp)") (simp_all add: send_recorded_def)
    then show ?thesis
      using q s0 r(4) by (auto simp: quiet_client_def quiescent_def breaker_shut_def cb_inv_success cb.succ_closed
          split: option.splits)
  qed
  then show thesis using n r(2,3) w2 ex by (intro that [of n resp s2 ?rq]) simp_all
qed

end
