(* ===== verification/Documents.thy ===== *)
theory Documents
  imports Kv Faulty_Server "HOL-Library.Countable"
begin

text \<open>
  What the document operations (\<open>api/kv1.rs\<close>, \<open>api/cubbyhole.rs\<close>) amount to for a caller: a map
  from paths to documents. The server keeps its documents by URL and may fail transiently, before
  or after it has applied a request; the retry loop, the breaker, the lifecycle, the encoding of
  paths and the decoding of answers lie between it and the map.
\<close>

section \<open>The server\<close>

type_synonym fields = "(string \<times> json) list"
type_synonym docs = "string \<Rightarrow> fields option"

text \<open>The requests of the document operations, and what each does to the documents.\<close>

definition object_request :: "http_method \<Rightarrow> body option \<Rightarrow> bool" where
  "object_request m b \<longleftrightarrow> m = GET \<or> m = DELETE \<or> m = POST \<and> (\<exists>fs. b = Some (JsonBody (JObj fs)))"

fun effect :: "http_request \<Rightarrow> docs \<Rightarrow> docs" where
  "effect rq ds =
     (case (rq_method rq, rq_body rq) of
        (POST, Some (JsonBody (JObj fs))) \<Rightarrow> ds(rq_url rq \<mapsto> fs)
      | (DELETE, _) \<Rightarrow> ds(rq_url rq := None)
      | _ \<Rightarrow> ds)"

declare effect.simps [simp del]

text \<open>A read finds the document in the envelope's \<open>data\<close>, or 404; the others get a 2xx.\<close>

definition good_answer :: "'w client \<Rightarrow> http_request \<Rightarrow> docs \<Rightarrow> http_response \<Rightarrow> bool" where
  "good_answer c rq ds resp \<longleftrightarrow>
     (if rq_method rq = GET
      then case ds (rq_url rq) of
             None \<Rightarrow> rs_status resp = 404
           | Some fs \<Rightarrow> rs_status resp \<in> {200..299}
               \<and> (\<exists>v. json_body c (de_vault_response de_value) resp = Ok v \<and> data v = Some (JObj fs))
      else rs_status resp \<in> {200..299})"

definition storing_server :: "'w client \<Rightarrow> ('w \<Rightarrow> docs) \<Rightarrow> ('w \<Rightarrow> nat) \<Rightarrow> bool" where
  "storing_server c A faults \<longleftrightarrow> faulty_server c A faults object_request effect (good_answer c)"

lemma effect_idem [simp]: "effect rq (effect rq ds) = effect rq ds"
  by (auto simp: effect.simps split: http_method.splits option.splits body.splits json.splits)

lemma effect_GET: "rq_method rq = GET \<Longrightarrow> effect rq ds = ds"
  by (simp add: effect.simps split: option.splits body.splits json.splits)

text \<open>What a request is owed does not change when it has been applied already.\<close>

lemma good_answer_effect: "good_answer c rq (effect rq ds) resp \<longleftrightarrow> good_answer c rq ds resp"
  by (cases "rq_method rq = GET") (simp_all add: effect_GET good_answer_def)

lemma effect_funpow: "(effect rq ^^ Suc n) ds = effect rq ds"
  by (induction n) simp_all

lemma good_answer_funpow: "good_answer c rq ((effect rq ^^ n) ds) resp \<longleftrightarrow> good_answer c rq ds resp"
  by (cases n) (simp_all only: effect_funpow good_answer_effect funpow_0)

lemma good_answer_ok: "good_answer c rq ds resp \<Longrightarrow> answer_outcome c url (Inr resp) = Ok resp"
  by (auto simp: good_answer_def answer_ok split: if_splits option.splits)

lemma good_answer_final: "good_answer c rq ds resp \<Longrightarrow> \<not> wants_retry c url (Inr resp)"
  by (simp add: wants_retry_def good_answer_ok)

text \<open>So the retries mask the failures: the request is answered, and applied as if it had come once.\<close>

lemma store_serves:
  assumes srv: "storing_server c A faults" and "quiet_client c s"
    and "e_url (cl_env c) (url_string c path) = Inr url" and "object_request m (map_option JsonBody body)"
  obtains rq resp s' where "execute c m path body s = (Ok resp, s')" and "rq_method rq = m" and "rq_url rq = url"
    and "rq_body rq = map_option JsonBody body"
    and "good_answer c rq (A (world s)) resp" and "A (world s') = effect rq (A (world s))" and "quiet_client c s'"
proof (rule execute_serves [OF srv [unfolded storing_server_def] assms(2-)])
  fix n rq resp s'
  assume e: "execute c m path body s = (answer_outcome c url (Inr resp), s')"
    "rq_method rq = m" "rq_url rq = url" "rq_body rq = map_option JsonBody body"
    and g: "good_answer c rq ((effect rq ^^ n) (A (world s))) resp"
    and s': "A (world s') = (effect rq ^^ Suc n) (A (world s))"
    "is_ok (answer_outcome c url (Inr resp)) \<Longrightarrow> quiet_client c s'"
  show thesis
    by (rule that [of resp s' rq])
      (use e g s' good_answer_ok [OF g, of url] in \<open>simp_all only: good_answer_funpow effect_funpow is_ok.simps\<close>)
qed

section \<open>Documents by path\<close>

text \<open>
  The interface the two engines share: a read, a write and a removal of a document at the path
  \<open>full p\<close>. \<open>addressable\<close> says that the URL parser keeps the paths of \<open>K\<close> apart, as it does not when
  one has a segment \<open>..\<close>; \<open>documents\<close> is the map the caller sees.
\<close>

definition addressable :: "'w client \<Rightarrow> (string \<Rightarrow> string) \<Rightarrow> string set \<Rightarrow> bool" where
  "addressable c full K \<longleftrightarrow>
     (\<exists>url. inj_on url K \<and> (\<forall>p \<in> K. e_url (cl_env c) (url_string c (full p)) = Inr (url p)))"

definition documents :: "'w client \<Rightarrow> (string \<Rightarrow> string) \<Rightarrow> docs \<Rightarrow> docs" where
  "documents c full ds p =
     (case e_url (cl_env c) (url_string c (full p)) of Inr url \<Rightarrow> ds url | Inl _ \<Rightarrow> None)"

datatype doc_op = ReadDoc string | WriteDoc string fields | DeleteDoc string
datatype doc_reply = Got "json outcome" | Done "unit outcome"

primrec op_path :: "doc_op \<Rightarrow> string" where
  "op_path (ReadDoc p) = p"
| "op_path (WriteDoc p fs) = p"
| "op_path (DeleteDoc p) = p"

text \<open>The operations on a map: the specification.\<close>

primrec doc_step :: "(string \<Rightarrow> string) \<Rightarrow> doc_op \<Rightarrow> docs \<Rightarrow> doc_reply \<times> docs" where
  "doc_step full (ReadDoc p) m =
     (Got (case m p of None \<Rightarrow> Err (NotFound (full p)) | Some fs \<Rightarrow> Ok (JObj fs)), m)"
| "doc_step full (WriteDoc p fs) m = (Done (Ok ()), m(p \<mapsto> fs))"
| "doc_step full (DeleteDoc p) m = (Done (Ok ()), m(p := None))"

primrec doc_run :: "(string \<Rightarrow> string) \<Rightarrow> doc_op list \<Rightarrow> docs \<Rightarrow> doc_reply list \<times> docs" where
  "doc_run full [] m = ([], m)"
| "doc_run full (x # xs) m =
     (case doc_step full x m of (r, m') \<Rightarrow> (case doc_run full xs m' of (rs, m'') \<Rightarrow> (r # rs, m'')))"

text \<open>The same operations through an engine.\<close>

type_synonym 'w engine = "(string \<Rightarrow> ('w, json) io) \<times> (string \<Rightarrow> json \<Rightarrow> ('w, unit) io) \<times> (string \<Rightarrow> ('w, unit) io)"

primrec engine_step :: "'w engine \<Rightarrow> doc_op \<Rightarrow> 'w cstate \<Rightarrow> doc_reply \<times> 'w cstate" where
  "engine_step e (ReadDoc p) s = (case e of (rd, wr, rm) \<Rightarrow> case rd p s of (r, s') \<Rightarrow> (Got r, s'))"
| "engine_step e (WriteDoc p fs) s = (case e of (rd, wr, rm) \<Rightarrow> case wr p (JObj fs) s of (r, s') \<Rightarrow> (Done r, s'))"
| "engine_step e (DeleteDoc p) s = (case e of (rd, wr, rm) \<Rightarrow> case rm p s of (r, s') \<Rightarrow> (Done r, s'))"

primrec engine_run :: "'w engine \<Rightarrow> doc_op list \<Rightarrow> 'w cstate \<Rightarrow> doc_reply list \<times> 'w cstate" where
  "engine_run e [] s = ([], s)"
| "engine_run e (x # xs) s =
     (case engine_step e x s of (r, s') \<Rightarrow> (case engine_run e xs s' of (rs, s'') \<Rightarrow> (r # rs, s'')))"

lemma doc_step_cong:
  assumes "op_path x \<in> K" and "\<forall>p \<in> K. m p = m' p"
  shows "fst (doc_step full x m) = fst (doc_step full x m')"
    and "\<forall>p \<in> K. snd (doc_step full x m) p = snd (doc_step full x m') p"
  using assms by (cases x; simp)+

locale document_engine =
  fixes cl :: "'w client" and full :: "string \<Rightarrow> string" and eng :: "'w engine"
  assumes reads: "fst eng p = exec_with_data cl de_value GET (full p) None"
    and writes: "fst (snd eng) p v = exec_empty cl POST (full p) (Some v)"
    and removes: "snd (snd eng) p = exec_empty cl DELETE (full p) None"
begin

text \<open>One operation is one step of the map.\<close>

lemma step_refines:
  assumes srv: "storing_server cl A faults" and q: "quiet_client cl s"
    and K: "inj_on url K" "\<And>p. p \<in> K \<Longrightarrow> e_url (cl_env cl) (url_string cl (full p)) = Inr (url p)"
    and x: "op_path x \<in> K"
  obtains s' where "engine_step eng x s = (fst (doc_step full x (\<lambda>p. A (world s) (url p))), s')"
    and "quiet_client cl s'"
    and "\<forall>p \<in> K. A (world s') (url p) = snd (doc_step full x (\<lambda>p. A (world s) (url p))) p"
proof (cases x)
  case (ReadDoc p)
  obtain rq resp s' where r: "execute cl GET (full p) None s = (Ok resp, s')" "rq_method rq = GET" "rq_url rq = url p"
    "good_answer cl rq (A (world s)) resp" "A (world s') = effect rq (A (world s))" "quiet_client cl s'"
    by (rule store_serves [OF srv q K(2), of p GET None]) (use x ReadDoc in \<open>auto simp: object_request_def\<close>)
  have "exec_with_data cl de_value GET (full p) None s =
      (case A (world s) (url p) of None \<Rightarrow> Err (NotFound (full p)) | Some fs \<Rightarrow> Ok (JObj fs), s')"
    using r(1-4) by (auto simp: exec_with_data_def map_io_apply good_answer_def not_found_check_def ok_or_def
        split: option.splits)
  then show thesis
    using r ReadDoc reads [of p] by (intro that [of s']) (auto simp: effect_GET split: prod.split)
next
  case (WriteDoc p fs)
  obtain rq resp s' where r: "execute cl POST (full p) (Some (JObj fs)) s = (Ok resp, s')" "rq_method rq = POST"
    "rq_url rq = url p" "rq_body rq = Some (JsonBody (JObj fs))"
    "good_answer cl rq (A (world s)) resp" "A (world s') = effect rq (A (world s))" "quiet_client cl s'"
    by (rule store_serves [OF srv q K(2), of p POST "Some (JObj fs)"])
      (use x WriteDoc in \<open>auto simp: object_request_def\<close>)
  have "exec_empty cl POST (full p) (Some (JObj fs)) s = (Ok (), s')"
    using r(1,2,5) by (auto simp: exec_empty_def map_io_apply good_answer_def not_found_check_def)
  moreover have "A (world s') = (A (world s))(url p \<mapsto> fs)" using r by (simp add: effect.simps)
  ultimately show thesis
    using r(7) WriteDoc writes [of p] x K(1)
    by (intro that [of s']) (auto simp: inj_on_eq_iff split: prod.split)
next
  case (DeleteDoc p)
  obtain rq resp s' where r: "execute cl DELETE (full p) None s = (Ok resp, s')" "rq_method rq = DELETE"
    "rq_url rq = url p"
    "good_answer cl rq (A (world s)) resp" "A (world s') = effect rq (A (world s))" "quiet_client cl s'"
    by (rule store_serves [OF srv q K(2), of p DELETE None]) (use x DeleteDoc in \<open>auto simp: object_request_def\<close>)
  have "exec_empty cl DELETE (full p) None s = (Ok (), s')"
    using r(1,2,4) by (auto simp: exec_empty_def map_io_apply good_answer_def not_found_check_def)
  moreover have "A (world s') = (A (world s))(url p := None)" using r by (simp add: effect.simps)
  ultimately show thesis
    using r(6) DeleteDoc removes [of p] x K(1)
    by (intro that [of s']) (auto simp: inj_on_eq_iff split: prod.split)
qed

text \<open>A history of operations is the same history on the map.\<close>

lemma run_refines:
  assumes srv: "storing_server cl A faults"
    and K: "inj_on url K" "\<And>p. p \<in> K \<Longrightarrow> e_url (cl_env cl) (url_string cl (full p)) = Inr (url p)"
    and "quiet_client cl s" and "op_path ` set xs \<subseteq> K" and "\<forall>p \<in> K. m p = A (world s) (url p)"
  shows "\<exists>s'. engine_run eng xs s = (fst (doc_run full xs m), s') \<and> quiet_client cl s'
    \<and> (\<forall>p \<in> K. snd (doc_run full xs m) p = A (world s') (url p))"
  using assms(4-)
proof (induction xs arbitrary: s m)
  case (Cons x xs)
  let ?w = "\<lambda>p. A (world s) (url p)"
  have x: "op_path x \<in> K" using Cons.prems(2) by simp
  obtain s1 where s1: "engine_step eng x s = (fst (doc_step full x ?w), s1)" "quiet_client cl s1"
    "\<forall>p \<in> K. A (world s1) (url p) = snd (doc_step full x ?w) p"
    by (rule step_refines [OF srv Cons.prems(1) K x])
  have m: "fst (doc_step full x m) = fst (doc_step full x ?w)"
    "\<forall>p \<in> K. snd (doc_step full x m) p = snd (doc_step full x ?w) p"
    using doc_step_cong [OF x Cons.prems(3)] by auto
  have "\<forall>p \<in> K. snd (doc_step full x m) p = A (world s1) (url p)" using m(2) s1(3) by simp
  then obtain s2 where "engine_run eng xs s1 = (fst (doc_run full xs (snd (doc_step full x m))), s2)"
    "quiet_client cl s2" "\<forall>p \<in> K. snd (doc_run full xs (snd (doc_step full x m))) p = A (world s2) (url p)"
    using Cons.IH [OF s1(2), of "snd (doc_step full x m)"] Cons.prems(2) by auto
  then show ?case using s1(1) m(1) by (auto split: prod.splits)
qed simp

lemma run_documents:
  assumes "storing_server cl A faults" and "addressable cl full K"
    and "quiet_client cl s" and "op_path ` set xs \<subseteq> K"
  shows "\<exists>s'. engine_run eng xs s = (fst (doc_run full xs (documents cl full (A (world s)))), s')
    \<and> quiet_client cl s'
    \<and> (\<forall>p \<in> K. documents cl full (A (world s')) p
         = snd (doc_run full xs (documents cl full (A (world s)))) p)"
proof -
  obtain url where url: "inj_on url K" "\<And>p. p \<in> K \<Longrightarrow> e_url (cl_env cl) (url_string cl (full p)) = Inr (url p)"
    using assms(2) by (auto simp: addressable_def)
  have doc: "documents cl full ds p = ds (url p)" if "p \<in> K" for ds p
    using url(2) [OF that] by (simp add: documents_def)
  have "\<forall>p \<in> K. documents cl full (A (world s)) p = A (world s) (url p)" by (simp add: doc)
  from run_refines [OF assms(1) url assms(3,4) this] show ?thesis by (auto simp: doc)
qed

end

section \<open>The engines\<close>

definition mounted :: "'w handler \<Rightarrow> string \<Rightarrow> string" where
  "mounted h p = h_mount h @ ''/'' @ encode_path p"

definition kv1_engine :: "'w handler \<Rightarrow> 'w engine" where
  "kv1_engine h = (kv1_read h de_value, kv1_write h, kv1_delete h)"

definition cubbyhole_engine :: "'w handler \<Rightarrow> 'w engine" where
  "cubbyhole_engine h = (cubbyhole_read h de_value, cubbyhole_write h, cubbyhole_delete h)"

interpretation kv1_docs: document_engine "h_client h" "mounted h" "kv1_engine h" for h
  by unfold_locales (simp_all add: mounted_def kv1_engine_def kv1_read_def kv1_write_def kv1_delete_def)

interpretation cubbyhole_docs: document_engine "h_client h" "mounted h" "cubbyhole_engine h" for h
  by unfold_locales (simp_all add: mounted_def cubbyhole_engine_def cubbyhole_read_def cubbyhole_write_def
      cubbyhole_delete_def)

section \<open>Properties\<close>

text \<open>
  C3: The KV version 1 and cubbyhole handlers are a map from paths to documents: against a server that
  stores documents by URL, every history of reads, writes and removals returns what the same
  history on a map returns - a missing document is \<open>NotFound\<close> with its path - and leaves the
  server with that map's documents. The server may fail transiently at any request, before or
  after applying it, up to \<open>max_retries\<close> times in a row: the caller never sees it.
\<close>

theorem engines_refine_map:
  assumes "eng \<in> {kv1_engine h, cubbyhole_engine h}"
    and "storing_server (h_client h) A faults" and "addressable (h_client h) (mounted h) K"
    and "quiet_client (h_client h) s" and "op_path ` set xs \<subseteq> K"
  shows "\<exists>s'. engine_run eng xs s
      = (fst (doc_run (mounted h) xs (documents (h_client h) (mounted h) (A (world s)))), s')
    \<and> quiet_client (h_client h) s'
    \<and> (\<forall>p \<in> K. documents (h_client h) (mounted h) (A (world s')) p
         = snd (doc_run (mounted h) xs (documents (h_client h) (mounted h) (A (world s)))) p)"
  using assms(1) kv1_docs.run_documents [OF assms(2-)] cubbyhole_docs.run_documents [OF assms(2-)] by auto

text \<open>
  A server for the witness: it answers every other attempt, and the one before it with 503 after
  applying it. A document travels as a text whose length is its number.
\<close>

instance json :: countable
  by countable_datatype

definition flaky_send :: "http_request \<Rightarrow> docs \<times> bool \<Rightarrow> send_result \<times> nat \<times> docs \<times> bool" where
  "flaky_send rq w =
     (case w of (ds, up) \<Rightarrow>
        (if \<not> up then answer 503 []
         else if rq_method rq = GET
         then (case ds (rq_url rq) of None \<Rightarrow> answer 404 []
               | Some fs \<Rightarrow> answer 200 (replicate (to_nat (JObj fs)) (CHR ''x'')))
         else answer 204 [],
         5, effect rq ds, \<not> up))"

definition flaky_client :: "(docs \<times> bool) client" where
  "flaky_client =
     \<lparr>cl_env =
        \<lparr>e_send = flaky_send, e_clone = Some, e_draw = (\<lambda>w. (7, w)), e_idle = (\<lambda>w. (1, w)), e_url = Inr,
         e_json = (\<lambda>t. Inr (JObj [(''data'', from_nat (length t))]))\<rparr>,
      base_url = ''http://vault:8200/'', namespace = None, config = client_config_default,
      auth_method = None, has_callback = False, namespace_override = None, wrap_ttl_override = None\<rparr>"

definition flaky_faults :: "docs \<times> bool \<Rightarrow> nat" where
  "flaky_faults w = (if snd w then 0 else 1)"

lemma flaky_server: "storing_server flaky_client fst flaky_faults"
proof -
  have get: "json_body flaky_client (de_vault_response de_value)
      \<lparr>rs_status = 200, rs_retry_after = None, rs_body = Inr (replicate (to_nat (JObj fs)) (CHR ''x''))\<rparr>
    = Ok \<lparr>request_id = None, lease_id = None, lease_duration = None, renewable = None, data = Some (JObj fs),
          auth = None, warnings = None, wrap_info_of = None\<rparr>" for fs
    by (simp add: json_body_def flaky_client_def de_vault_response_def fld_opt_def de_value_def ok_or_def json_get_def)
  have good: "\<exists>resp. fst (flaky_send rq (ds, True)) = Inr resp \<and> good_answer flaky_client rq ds resp" for rq ds
    using get by (auto simp: good_answer_def flaky_send_def answer_def split: option.splits)
  have bad: "wants_retry flaky_client url (answer 503 [])" for url
    by (simp add: wants_retry_def answer_outcome_def answer_def flaky_client_def client_config_default_def)
  have send: "(\<exists>resp. a = Inr resp \<and> good_answer flaky_client rq (fst w) resp
        \<and> \<not> wants_retry flaky_client (rq_url rq) a \<and> fst w' = effect rq (fst w))
      \<or> (wants_retry flaky_client (rq_url rq) a \<and> flaky_faults w' < flaky_faults w
         \<and> fst w' \<in> {fst w, effect rq (fst w)})"
    if "flaky_send rq w = (a, dt, w')" for rq w a dt w'
    using that good [of rq "fst w"] bad
    by (cases w; cases "snd w") (auto simp: flaky_send_def flaky_faults_def dest: good_answer_final)
  have env: "e_send (cl_env flaky_client) = flaky_send" "e_clone (cl_env flaky_client) = Some"
    "e_draw (cl_env flaky_client) = (\<lambda>w. (7, w))" "e_idle (cl_env flaky_client) = (\<lambda>w. (1, w))"
    "max_retries (config flaky_client) = 2"
    by (simp_all add: flaky_client_def client_config_default_def)
  show ?thesis
    unfolding storing_server_def faulty_server_def env
    by (intro conjI allI impI; (elim conjE, erule send)?) (auto simp: flaky_faults_def)
qed

theorem engines_refine_map_witness:
  "\<exists>s'. engine_run (cubbyhole_engine \<lparr>h_client = flaky_client, h_mount = ''cubbyhole''\<rparr>)
        [ReadDoc ''a b'', WriteDoc ''a b'' [(''k'', JNum 1)], ReadDoc ''a b'', DeleteDoc ''a b'', ReadDoc ''a b'']
        \<lparr>token = None, token_poisoned = False, breaker = Some (cb_new cb_config_default), now = 5,
         world = (Map.empty, False), trace = []\<rparr>
    = ([Got (Err (NotFound ''cubbyhole/a%20b'')), Done (Ok ()), Got (Ok (JObj [(''k'', JNum 1)])), Done (Ok ()),
        Got (Err (NotFound ''cubbyhole/a%20b''))], s')"
proof -
  let ?h = "\<lparr>h_client = flaky_client, h_mount = ''cubbyhole''\<rparr>"
  let ?s = "\<lparr>token = None, token_poisoned = False, breaker = Some (cb_new cb_config_default), now = 5,
     world = (Map.empty :: docs, False), trace = []\<rparr>"
  have "documents flaky_client (mounted ?h) Map.empty = Map.empty"
    by (simp add: documents_def flaky_client_def fun_eq_iff)
  moreover have "mounted ?h ''a b'' = ''cubbyhole/a%20b''"
    by (simp add: mounted_def encode_byte_def needs_escape_def) code_simp
  moreover have "addressable flaky_client (mounted ?h) {''a b''}"
    by (auto simp: addressable_def flaky_client_def)
  moreover have "quiet_client flaky_client ?s"
    by (simp add: quiet_client_def breaker_shut_def is_closed_def cb_new_def cb_inv_def flaky_client_def cb_config_default_def)
  ultimately show ?thesis
    using engines_refine_map [of "cubbyhole_engine ?h" ?h fst flaky_faults "{''a b''}" ?s
        "[ReadDoc ''a b'', WriteDoc ''a b'' [(''k'', JNum 1)], ReadDoc ''a b'', DeleteDoc ''a b'', ReadDoc ''a b'']"]
      flaky_server by auto
qed

end
