(* ===== verification/Versions.thy ===== *)
theory Versions
  imports Kv Faulty_Server
begin

text \<open>
  Writing to KV version 2 (\<open>api/kv2.rs\<close>) on a server that keeps every version and fails transiently:
  how often a write is applied when \<open>send_with_retry\<close> repeats its POST, and what the caller is told.
\<close>

section \<open>The server\<close>

type_synonym versions = "string \<Rightarrow> json list"

text \<open>The document a body posts, and its check-and-set parameter.\<close>

definition cas_option :: "json \<Rightarrow> nat option" where
  "cas_option v =
     (case json_get v ''options'' of
        Some opts \<Rightarrow> (case json_get opts ''cas'' of Some (JNum n) \<Rightarrow> Some (nat n) | _ \<Rightarrow> None)
      | None \<Rightarrow> None)"

definition posted :: "body option \<Rightarrow> (json \<times> nat option) option" where
  "posted b =
     (case b of
        Some (JsonBody v) \<Rightarrow> map_option (\<lambda>doc. (doc, cas_option v)) (json_get v ''data'')
      | _ \<Rightarrow> None)"

definition version_request :: "http_method \<Rightarrow> body option \<Rightarrow> bool" where
  "version_request m b \<longleftrightarrow> m = POST \<and> posted b \<noteq> None"

text \<open>
  A write with a check-and-set parameter is admitted when the parameter is the current version, and
  answered by 400 otherwise; an admitted one adds a version and gets its metadata.
\<close>

definition admits :: "nat option \<Rightarrow> json list \<Rightarrow> bool" where
  "admits cas vs \<longleftrightarrow> cas = None \<or> cas = Some (length vs)"

definition add_version :: "http_request \<Rightarrow> versions \<Rightarrow> versions" where
  "add_version rq vs =
     (case posted (rq_body rq) of
        Some (doc, cas) \<Rightarrow>
          if admits cas (vs (rq_url rq)) then vs(rq_url rq := vs (rq_url rq) @ [doc]) else vs
      | None \<Rightarrow> vs)"

definition version_answer :: "'w client \<Rightarrow> http_request \<Rightarrow> versions \<Rightarrow> http_response \<Rightarrow> bool" where
  "version_answer c rq vs resp \<longleftrightarrow>
     (case posted (rq_body rq) of
        Some (doc, cas) \<Rightarrow>
          if admits cas (vs (rq_url rq))
          then rs_status resp \<in> {200..299}
            \<and> (\<exists>v m. json_body c (de_vault_response de_kv_metadata) resp = Ok v \<and> data v = Some m
                 \<and> KvMetadata_version m = Suc (length (vs (rq_url rq))) mod 2 ^ 64)
          else rs_status resp = 400
      | None \<Rightarrow> True)"

definition versioned_server :: "'w client \<Rightarrow> ('w \<Rightarrow> versions) \<Rightarrow> ('w \<Rightarrow> nat) \<Rightarrow> bool" where
  "versioned_server c A faults \<longleftrightarrow> faulty_server c A faults version_request add_version (version_answer c)"

text \<open>Repeated, a plain write adds versions; a check-and-set one adds at most one.\<close>

lemma add_version_plain:
  "posted (rq_body rq) = Some (doc, None) \<Longrightarrow>
   (add_version rq ^^ n) vs = vs(rq_url rq := vs (rq_url rq) @ replicate n doc)"
  by (induction n) (simp_all add: add_version_def admits_def fun_eq_iff replicate_append_same)

lemma add_version_refused:
  "posted (rq_body rq) = Some (doc, Some k) \<Longrightarrow> k \<noteq> length (vs (rq_url rq)) \<Longrightarrow> (add_version rq ^^ n) vs = vs"
  by (induction n) (simp_all add: add_version_def admits_def)

lemma add_version_cas:
  assumes "posted (rq_body rq) = Some (doc, Some (length (vs (rq_url rq))))"
  shows "(add_version rq ^^ Suc n) vs = vs(rq_url rq := vs (rq_url rq) @ [doc])"
proof -
  have one: "add_version rq vs = vs(rq_url rq := vs (rq_url rq) @ [doc])"
    using assms by (simp add: add_version_def admits_def)
  have "(add_version rq ^^ n) (add_version rq vs) = add_version rq vs"
    by (rule add_version_refused [OF assms]) (simp add: one)
  then show ?thesis using one by (simp add: funpow_swap1)
qed

text \<open>The outcome of a write, read off the state its final answer was given in.\<close>

lemma version_outcome:
  assumes "version_answer c rq vs resp" and "posted (rq_body rq) = Some (doc, cas)"
    and "map_io (\<lambda>resp. then_ok (not_found_check path resp) (\<lambda>resp.
           then_ok (json_body c (de_vault_response de_kv_metadata) resp) (\<lambda>envelope.
             ok_or (data envelope) EmptyResponse))) (\<lambda>s. (answer_outcome c url (Inr resp), s')) s = (r, s'')"
  shows "s'' = s' \<and> (if admits cas (vs (rq_url rq))
    then \<exists>m. r = Ok m \<and> KvMetadata_version m = Suc (length (vs (rq_url rq))) mod 2 ^ 64
    else \<exists>es. r = Err (Api 400 es))"
proof (cases "admits cas (vs (rq_url rq))")
  case True
  then obtain v m where "rs_status resp \<in> {200..299}"
    "json_body c (de_vault_response de_kv_metadata) resp = Ok v" "data v = Some m"
    "KvMetadata_version m = Suc (length (vs (rq_url rq))) mod 2 ^ 64"
    using assms(1,2) by (auto simp: version_answer_def)
  moreover from this have "answer_outcome c url (Inr resp) = Ok resp" by (simp add: answer_ok)
  ultimately show ?thesis
    using assms(3) True by (auto simp: map_io_apply not_found_check_def ok_or_def)
next
  case False
  then have "rs_status resp = 400" using assms(1,2) by (simp add: version_answer_def)
  then show ?thesis using assms(3) False by (auto simp: map_io_apply answer_outcome_def)
qed

text \<open>One write, whatever its parameter.\<close>

lemma kv2_post:
  assumes "versioned_server c A faults" and "quiet_client c s"
    and "e_url (cl_env c) (url_string c path) = Inr u" and "posted (Some (JsonBody body)) = Some (doc, cas)"
  obtains n r s' rq where "exec_with_data c de_kv_metadata POST path (Some body) s = (r, s')"
    and "n \<le> max_retries (config c)" and "rq_url rq = u" and "posted (rq_body rq) = Some (doc, cas)"
    and "A (world s') = (add_version rq ^^ Suc n) (A (world s))"
    and "let vs = (add_version rq ^^ n) (A (world s)) u in
         if admits cas vs then \<exists>m. r = Ok m \<and> KvMetadata_version m = Suc (length vs) mod 2 ^ 64
         else \<exists>es. r = Err (Api 400 es)"
proof (rule execute_serves [OF assms(1) [unfolded versioned_server_def] assms(2,3), of POST "Some body"])
  show "version_request POST (map_option JsonBody (Some body))"
    using assms(4) by (simp add: version_request_def)
next
  fix n rq resp s'
  assume n: "n \<le> max_retries (config c)" and ex: "execute c POST path (Some body) s = (answer_outcome c u (Inr resp), s')"
    and rq: "rq_url rq = u" "rq_body rq = map_option JsonBody (Some body)"
    and g: "version_answer c rq ((add_version rq ^^ n) (A (world s))) resp"
    and w: "A (world s') = (add_version rq ^^ Suc n) (A (world s))"
  have p: "posted (rq_body rq) = Some (doc, cas)" using rq(2) assms(4) by simp
  obtain r s'' where r: "exec_with_data c de_kv_metadata POST path (Some body) s = (r, s'')" by fastforce
  then have "map_io (\<lambda>resp. then_ok (not_found_check path resp) (\<lambda>resp.
           then_ok (json_body c (de_vault_response de_kv_metadata) resp) (\<lambda>envelope.
             ok_or (data envelope) EmptyResponse))) (\<lambda>s. (answer_outcome c u (Inr resp), s')) s = (r, s'')"
    using ex by (simp add: exec_with_data_def map_io_apply)
  from version_outcome [OF g p this] have s'': "s'' = s'"
    and res: "let vs = (add_version rq ^^ n) (A (world s)) u in
         if admits cas vs then \<exists>m. r = Ok m \<and> KvMetadata_version m = Suc (length vs) mod 2 ^ 64
         else \<exists>es. r = Err (Api 400 es)"
    unfolding rq(1) Let_def by blast+
  show thesis by (rule that [of r s' n rq]) (use r n rq(1) p w res in \<open>simp_all only: s''\<close>)
qed

section \<open>Properties\<close>

text \<open>
  C4: What a KV version 2 write does, against a server that may fail transiently up to
  \<open>max_retries\<close> times in a row, before or after applying a request. A plain \<open>write\<close> is applied at least once and
  at most once per attempt - a repeated one leaves several versions with the same document - and
  returns the last version. A \<open>write_cas\<close> with the current version is applied exactly once, but may
  be reported as a 400: the repeated request no longer finds the version it expects. With any
  other version it changes nothing and fails.
\<close>

theorem kv2_write_applied:
  assumes "versioned_server (h_client h) A faults" and "quiet_client (h_client h) s"
    and "e_url (cl_env (h_client h)) (url_string (h_client h) (h_mount h @ ''/data/'' @ encode_path path)) = Inr u"
  shows "(\<exists>n m s'. kv2_write h path doc s = (Ok m, s') \<and> n \<le> max_retries (config (h_client h))
       \<and> A (world s') = (A (world s))(u := A (world s) u @ replicate (Suc n) doc)
       \<and> KvMetadata_version m = length (A (world s') u) mod 2 ^ 64)
    \<and> (\<exists>r s'. kv2_write_cas h path doc (length (A (world s) u)) s = (r, s')
       \<and> A (world s') = (A (world s))(u := A (world s) u @ [doc])
       \<and> ((\<exists>m. r = Ok m \<and> KvMetadata_version m = length (A (world s') u) mod 2 ^ 64) \<or> (\<exists>es. r = Err (Api 400 es))))
    \<and> (k \<noteq> length (A (world s) u) \<longrightarrow>
       (\<exists>es s'. kv2_write_cas h path doc k s = (Err (Api 400 es), s') \<and> A (world s') = A (world s)))"
proof -
  let ?plain = "obj [(''data'', doc)]"
  let ?cas = "\<lambda>k. obj [(''options'', obj [(''cas'', jnat k)]), (''data'', doc)]"
  have body: "posted (Some (JsonBody ?plain)) = Some (doc, None)"
    "posted (Some (JsonBody (?cas k))) = Some (doc, Some k)" for k
    by (simp_all add: posted_def cas_option_def obj_def json_get_def jnat_def)
  note post = kv2_post [OF assms]
  have plain: "\<exists>n m s'. kv2_write h path doc s = (Ok m, s') \<and> n \<le> max_retries (config (h_client h))
       \<and> A (world s') = (A (world s))(u := A (world s) u @ replicate (Suc n) doc)
       \<and> KvMetadata_version m = length (A (world s') u) mod 2 ^ 64"
    by (rule post [OF body(1)])
      (auto simp: kv2_write_def Let_def add_version_plain admits_def simp del: funpow.simps replicate.simps)
  have cas: "\<exists>r s'. kv2_write_cas h path doc (length (A (world s) u)) s = (r, s')
       \<and> A (world s') = (A (world s))(u := A (world s) u @ [doc])
       \<and> ((\<exists>m. r = Ok m \<and> KvMetadata_version m = length (A (world s') u) mod 2 ^ 64) \<or> (\<exists>es. r = Err (Api 400 es)))"
  proof (rule post [OF body(2) [of "length (A (world s) u)"]])
    fix n r s' rq
    assume ex: "exec_with_data (h_client h) de_kv_metadata POST (h_mount h @ ''/data/'' @ encode_path path)
        (Some (?cas (length (A (world s) u)))) s = (r, s')"
      and rq: "rq_url rq = u" "posted (rq_body rq) = Some (doc, Some (length (A (world s) u)))"
      and w: "A (world s') = (add_version rq ^^ Suc n) (A (world s))"
      and res: "let vs = (add_version rq ^^ n) (A (world s)) u in
         if admits (Some (length (A (world s) u))) vs
         then \<exists>m. r = Ok m \<and> KvMetadata_version m = Suc (length vs) mod 2 ^ 64
         else \<exists>es. r = Err (Api 400 es)"
    have w': "A (world s') = (A (world s))(u := A (world s) u @ [doc])"
      using w add_version_cas [of rq doc "A (world s)" n] rq by simp
    have "(\<exists>m. r = Ok m \<and> KvMetadata_version m = length (A (world s') u) mod 2 ^ 64) \<or> (\<exists>es. r = Err (Api 400 es))"
      using res w' by (auto simp: Let_def admits_def split: if_splits)
    then show ?thesis using ex w' by (auto simp: kv2_write_cas_def Let_def)
  qed
  have refused: "\<exists>es s'. kv2_write_cas h path doc k s = (Err (Api 400 es), s') \<and> A (world s') = A (world s)"
    if k: "k \<noteq> length (A (world s) u)"
    by (rule post [OF body(2) [of k]])
      (use k add_version_refused in \<open>auto simp: kv2_write_cas_def Let_def admits_def simp del: funpow.simps\<close>)
  show ?thesis using plain cas refused by blast
qed

text \<open>
  A server for the witness: it answers every other attempt, and the one before it with 503 after
  applying it. The number of a version travels as the length of a text.
\<close>

definition lossy_send :: "http_request \<Rightarrow> versions \<times> bool \<Rightarrow> send_result \<times> nat \<times> versions \<times> bool" where
  "lossy_send rq w =
     (case w of (vs, up) \<Rightarrow>
        (if \<not> up then answer 503 []
         else (case posted (rq_body rq) of
                 Some (doc, cas) \<Rightarrow>
                   if admits cas (vs (rq_url rq))
                   then answer 200 (replicate (Suc (length (vs (rq_url rq))) mod 2 ^ 64) (CHR ''x''))
                   else answer 400 []
               | None \<Rightarrow> answer 404 []),
         5, add_version rq vs, \<not> up))"

definition lossy_client :: "(versions \<times> bool) client" where
  "lossy_client =
     \<lparr>cl_env =
        \<lparr>e_send = lossy_send, e_clone = Some, e_draw = (\<lambda>w. (7, w)), e_idle = (\<lambda>w. (1, w)), e_url = Inr,
         e_json = (\<lambda>t. Inr (obj [(''data'', obj [(''created_time'', JStr []), (''version'', jnat (length t))])]))\<rparr>,
      base_url = ''http://vault:8200/'', namespace = None, config = client_config_default,
      auth_method = None, has_callback = False, namespace_override = None, wrap_ttl_override = None\<rparr>"

definition lossy_faults :: "versions \<times> bool \<Rightarrow> nat" where
  "lossy_faults w = (if snd w then 0 else 1)"

definition lossy_state :: "(versions \<times> bool) cstate" where
  "lossy_state = \<lparr>token = None, token_poisoned = False, breaker = None, now = 5, world = (\<lambda>_. [], False), trace = []\<rparr>"

lemma lossy_env [simp]:
  "e_send (cl_env lossy_client) = lossy_send" "e_clone (cl_env lossy_client) = Some"
  "e_draw (cl_env lossy_client) = (\<lambda>w. (7, w))" "e_idle (cl_env lossy_client) = (\<lambda>w. (1, w))"
  "e_url (cl_env lossy_client) = Inr" "config lossy_client = client_config_default"
  "base_url lossy_client = ''http://vault:8200/''"
  by (simp_all add: lossy_client_def)

lemma lossy_metadata:
  assumes "n < 2 ^ 64"
  shows "\<exists>v m. json_body lossy_client (de_vault_response de_kv_metadata)
      \<lparr>rs_status = 200, rs_retry_after = None, rs_body = Inr (replicate n (CHR ''x''))\<rparr> = Ok v
    \<and> data v = Some m \<and> KvMetadata_version m = n"
  using assms
  by (simp add: json_body_def lossy_client_def obj_def de_vault_response_def fld_opt_def fld_def fld_default_def
      de_kv_metadata_def jnat_def ok_or_def json_get_def)

lemma lossy_server: "versioned_server lossy_client fst lossy_faults"
proof -
  have bad: "wants_retry lossy_client url (answer 503 [])" for url
    by (simp add: wants_retry_def answer_outcome_def answer_def client_config_default_def)
  have final: "\<not> wants_retry lossy_client url (answer st b)" if "st \<in> {200, 400}" for url st b
    using that by (auto simp: wants_retry_def answer_outcome_def answer_def)
  have good: "\<exists>resp. fst (lossy_send rq (vs, True)) = Inr resp \<and> version_answer lossy_client rq vs resp
      \<and> \<not> wants_retry lossy_client url (Inr resp)"
    if p: "posted (rq_body rq) = Some (doc, cas)" for rq vs url doc cas
  proof (cases "admits cas (vs (rq_url rq))")
    case True
    then show ?thesis
      using p final [of 200 url] lossy_metadata [of "Suc (length (vs (rq_url rq))) mod 2 ^ 64"]
      by (simp add: lossy_send_def version_answer_def answer_def)
  next
    case False
    then show ?thesis
      using p final [of 400 url] by (simp add: lossy_send_def version_answer_def answer_def)
  qed
  have send: "(\<exists>resp. a = Inr resp \<and> version_answer lossy_client rq (fst w) resp
        \<and> \<not> wants_retry lossy_client (rq_url rq) a \<and> fst w' = add_version rq (fst w))
      \<or> (wants_retry lossy_client (rq_url rq) a \<and> lossy_faults w' < lossy_faults w
         \<and> fst w' \<in> {fst w, add_version rq (fst w)})"
    if vr: "version_request (rq_method rq) (rq_body rq)" and sn: "lossy_send rq w = (a, dt, w')" for rq w a dt w'
  proof (cases "snd w")
    case True
    obtain doc cas where "posted (rq_body rq) = Some (doc, cas)"
      using vr by (cases "posted (rq_body rq)") (auto simp: version_request_def)
    from good [OF this, of "fst w" "rq_url rq"] show ?thesis
      using sn True by (cases w) (auto simp: lossy_send_def)
  next
    case False
    then show ?thesis using sn bad [of "rq_url rq"] by (cases w) (auto simp: lossy_send_def lossy_faults_def)
  qed
  show ?thesis
    unfolding versioned_server_def faulty_server_def lossy_env
    by (intro conjI allI impI; (elim conjE, erule (1) send)?)
      (auto simp: lossy_faults_def client_config_default_def)
qed

lemma lossy_cas:
  assumes "posted (Some (JsonBody body)) = Some (doc, Some 0)"
  shows "fst (exec_with_data lossy_client d POST path (Some body) lossy_state) = Err (Api 400 [])"
proof -
  have q: "ensure_valid_token lossy_client lossy_state = (Ok (), lossy_state)"
    by (rule quiet_ensure) (simp add: quiet_client_def lossy_state_def lossy_client_def breaker_shut_def)
  have np: "\<not> token_poisoned lossy_state" by (simp add: lossy_state_def)
  have bc: "breaker_check lossy_client lossy_state = (Ok (), lossy_state)"
    by (simp add: breaker_check_def lossy_state_def)
  obtain url where url: "e_url (cl_env lossy_client) (url_string lossy_client path) = Inr url" by simp
  define rq where "rq = vault_request lossy_client POST url (token lossy_state) (Some body)"
  have p: "posted (rq_body rq) = Some (doc, Some 0)" using assms by (simp add: rq_def)
  have "fst (send_with_retry lossy_client rq url lossy_state) = Err (Api 400 [])"
    by (simp add: send_with_retry_def retry_loop.simps [of lossy_client rq url 0]
        retry_loop.simps [of lossy_client rq url "Suc 0"] send_def lossy_send_def p
        lossy_state_def attempt_result_def answer_def client_config_default_def backoff_sleep_def Let_def
        draw_below_def sleep_def add_version_def admits_def extract_errors_def)
      (simp add: lossy_client_def obj_def json_get_def)
  then have "fst (execute_raw lossy_client POST path (Some body) lossy_state) = Err (Api 400 [])"
    using execute_raw_ready [OF bc refl np url, of POST "Some body"]
    by (auto simp: send_recorded_def rq_def split: prod.splits outcome.splits)
  then have "fst (execute lossy_client POST path (Some body) lossy_state) = Err (Api 400 [])"
    using q by (simp add: execute_def bind_io_cases)
  then show ?thesis by (auto simp: exec_with_data_def map_io_apply split: prod.split)
qed

theorem kv2_write_applied_witness:
  "\<exists>u. (\<exists>m s'. kv2_write \<lparr>h_client = lossy_client, h_mount = ''secret''\<rparr> ''p'' (JNum 1) lossy_state = (Ok m, s')
       \<and> JNum 1 \<in> set (fst (world s') u))
    \<and> (\<exists>s'. kv2_write_cas \<lparr>h_client = lossy_client, h_mount = ''secret''\<rparr> ''p'' (JNum 1) 0 lossy_state
         = (Err (Api 400 []), s') \<and> fst (world s') u = [JNum 1])
    \<and> (\<exists>es s'. kv2_write_cas \<lparr>h_client = lossy_client, h_mount = ''secret''\<rparr> ''p'' (JNum 1) 7 lossy_state
         = (Err (Api 400 es), s') \<and> fst (world s') u = [])"
proof -
  let ?h = "\<lparr>h_client = lossy_client, h_mount = ''secret''\<rparr>"
  have q: "quiet_client lossy_client lossy_state"
    by (simp add: quiet_client_def lossy_state_def lossy_client_def breaker_shut_def)
  have "fst (kv2_write_cas ?h ''p'' (JNum 1) 0 lossy_state) = Err (Api 400 [])"
    unfolding kv2_write_cas_def Let_def handler.select_convs
    by (rule lossy_cas) (simp add: posted_def cas_option_def obj_def json_get_def jnat_def)
  then show ?thesis
    using kv2_write_applied [of ?h fst lossy_faults lossy_state "''p''" _ "JNum 1" 7] lossy_server q
    by (intro exI [of _ "url_string lossy_client (''secret'' @ ''/data/'' @ encode_path ''p'')"])
      (auto simp: lossy_state_def)
qed

end
