(* ===== verification/Spec2Isabelle.thy ===== *)
theory Spec2Isabelle
  imports Token_Daemon Renewal_Lock Blocking Mock Debug_Secrets Traits Clone_From Wire_Types Documents Versions
begin

text \<open>
  A verification development for vault-client-rs, a Rust client of the HashiCorp Vault HTTP API
  (\<open>src/crates/vault-client-rs\<close>), with its test utilities (\<open>src/crates/vault-client-rs-test\<close>).

  \<^bold>\<open>The program.\<close> A \<open>VaultClient\<close> is an immutable core behind an \<open>Arc\<close> (URL, configuration, HTTP
  client, optional auth method and circuit breaker) with two pieces of mutable state: the token
  behind a read-write lock and the state of the breaker behind a mutex. Every operation of every
  engine builds a path and a body and hands them to one of the \<open>exec_*\<close> wrappers; these call
  \<open>execute\<close>, which first makes sure the token is valid (\<open>ensure_valid_token\<close>: renew it, or log in
  again) and then \<open>execute_raw\<close>, which asks the breaker, builds the URL and the headers and runs
  the retry loop \<open>send_with_retry\<close>. Background tasks renew tokens and leases (\<open>renewal.rs\<close>); a
  blocking client drives the asynchronous one; a builder makes clients.

  \<^bold>\<open>The model.\<close> Strings are lists of bytes, durations and instants nanoseconds in \<open>nat\<close> with the
  overflow checks of \<open>std\<close> written out, the failure counter a 32-bit word, numbers of JSON
  integers with the ranges checked where a field is decoded. An \<open>outcome\<close> is a value, a
  \<open>VaultError\<close> or a panic. An action \<open>('w, 'a) io\<close> maps a \<open>cstate\<close> (token, breaker, clock, world,
  trace of requests, sleeps and callbacks) to an outcome and the next state; the world \<open>'w\<close> and
  the functions on it (\<open>env\<close>) are the code outside src/: reqwest's \<open>send\<close> and \<open>try_clone\<close>, the
  random source, the passing of time, the URL and JSON readers.

  \<^item> \<open>Prelude\<close>, \<open>Vault_Error\<close>, \<open>Json\<close>, \<open>Std_Time\<close>: operations of \<open>str\<close>, \<open>types/error.rs\<close>, serde_json
    values with serde's derived decoders, and \<open>Duration\<close> arithmetic with \<open>mul_f64\<close> in exact
    binary64. \<open>Vault_Path\<close>: \<open>encode_path\<close> and the checked paths of \<open>types/secret.rs\<close>.
  \<^item> \<open>Redaction\<close>, \<open>Response\<close>: \<open>types/redaction.rs\<close>, \<open>types/serde_secret.rs\<close>, \<open>types/response.rs\<close>.
  \<^item> \<open>Circuit_Breaker\<close>: \<open>circuit_breaker.rs\<close>; the interface the request path relies on is a locale.
  \<^item> \<open>Client_State\<close>, \<open>Transport\<close>, \<open>Token_Lifecycle\<close>: \<open>client/async_client.rs\<close>, from the token state to the
    wrappers. \<open>Client_State\<close> holds the locale of preorders on states that every action keeps;
    its interpretations say that time and trace only grow, that the retry loop leaves token and
    breaker alone (\<open>Transport\<close>), which requests an action sends (\<open>Api\<close>) and what the requests of an
    outage cost (\<open>Outage\<close>, where the breaker's \<open>credit\<close> pays for them).
  \<^item> \<open>Renewal_Lock\<close>: \<open>ensure_valid_token\<close> for any number of concurrent callers, as a step relation with
    one step for each stretch between two awaits. \<open>Renewal\<close>: the renewal intervals, and the lease watcher
    with its channel of capacity 16 and its handle, as a step relation of task and caller.
    \<open>Token_Daemon\<close>: the loop of \<open>start_token_renewal\<close>, pass by pass, and its cancellation.
  \<^item> \<open>Api\<close> and \<open>Kv\<close>, \<open>Transit\<close>, \<open>Pki\<close>, \<open>Database\<close>, \<open>Cloud_Engines\<close>, \<open>Small_Engines\<close>, \<open>Identity\<close>, \<open>Sys\<close>,
    \<open>Auth_Methods\<close>: the handlers of \<open>api/**\<close> with the request and answer types of \<open>types/**\<close>. A struct
    is a record with the prefix of its name, its \<open>Serialize\<close> a function \<open>ser_*\<close>, its \<open>Deserialize\<close>
    \<open>de_*\<close>, its redacting \<open>Debug\<close> \<open>dbg_*\<close>; a method \<open>op\<close> of the handler of engine \<open>e\<close> is \<open>e_op\<close>.
    \<open>Auth_Methods\<close> has the locale of login methods, interpreted for the nine built-in ones.
  \<^item> \<open>Traits\<close>: the traits of \<open>api/traits.rs\<close> as records of operations, and the handlers as values of them.
    \<open>Clone_From\<close>: the hand-written \<open>Clone\<close> and \<open>From\<close> impls. \<open>Wire_Types\<close>: the types that go both ways.
  \<^item> \<open>Api_Calls\<close>: all operations as one relation. \<open>Builder\<close>: \<open>ClientBuilder\<close>. \<open>Blocking\<close>: the blocking
    client, where \<open>blk_op\<close> is the blocking form of \<open>op\<close>. \<open>Mock\<close>: the test utilities.
  \<^item> \<open>Faulty_Server\<close>: calls to a server that fails transiently, possibly after applying the request.
    \<open>Documents\<close>: the locale of document engines, interpreted for KV version 1 and cubbyhole.
    \<open>Versions\<close>: the writes of KV version 2.
    \<open>Debug_Secrets\<close>: what the redacting \<open>Debug\<close> impls of all types disclose.
  \<^item> \<open>Example_Env\<close>: an environment that answers from a script, for the concrete instances.

  \<^bold>\<open>What is shown.\<close> The retry loop refines a specification of the traces it may leave, always
  returns and bounds its requests and sleeps (\<open>Transport\<close>). The breaker opens exactly after
  the configured run of failures, spaces its probes and recovers; so over any sequence of operations,
  generic calls, daemon passes and snapshot restores, through whatever views of the client, the traffic
  of an outage is bounded by its duration and the number of restores, which do not ask the breaker
  (\<open>Outage\<close>, \<open>Api_Calls\<close>); every admitted call that ends with an error counts for the breaker. The
  token daemon keeps a token alive for ever against a server that renews it, each time storing the one
  of the last answer, and loses it by a single failed renewal (\<open>Token_Daemon\<close>). A due token is renewed before
  a call and by one caller at a time; a failed renewal falls back to the login; the decision
  between doing nothing, renewing and logging in is characterised by the lifetime left, for the sequential
  and the concurrent model alike (\<open>Token_Lifecycle\<close>, \<open>Renewal_Lock\<close>). Each built-in login sends its one
  request to its mount, with its body, on every branch (\<open>Auth_Methods\<close>). A lease watcher's
  events follow a small language in every interleaving; the intervals end before the lease
  except for very short ones (\<open>Renewal\<close>). Percent-encoding is invertible and safe, and a validated path
  has no segment that a URL parser resolves to the parent (\<open>Vault_Path\<close>);
  secrets stay out of \<open>Debug\<close> output at the full level. No operation, asynchronous or blocking, sends
  anything outside its part of the API but the upkeep of the token, and a blocking one called inside a
  runtime does nothing but panic (\<open>Api_Calls\<close>, \<open>Blocking\<close>).
  Over a server that stores documents, the KV version 1 and cubbyhole handlers are a map, whatever fails in
  between (\<open>Documents\<close>); a KV version 2 write is applied once per attempt at most, and one with check-and-set
  once in all (\<open>Versions\<close>). Values written to KV and transit are read back, types that go both ways
  survive the trip. Built clients have the options that
  were set and the defaults for the others (\<open>Builder\<close>).

  \<^bold>\<open>Bounds.\<close> No fuel is used but the number of passes of \<open>daemon_run\<close>, which runs until it is cancelled and
  for which the statements hold at every number: the retry loop terminates by the measure of attempts left, trimming by
  the length of the text. The statements on intervals hold for leases up to \<open>2 ^ 32\<close> seconds, where the
  product with 0.2 or 0.66 is exact to milliseconds.

  \<^bold>\<open>Hypotheses.\<close> \<open>clone_faithful\<close>: \<open>RequestBuilder::try_clone\<close>, when it succeeds, gives the same request.
  \<open>lawful\<close> adds that the login of the auth method itself keeps the invariant, obeys the meter and sends
  only what a given predicate allows; it holds for every built-in login (\<open>lawful_with_login\<close>).
  \<open>renewing_server\<close>: every \<open>renew-self\<close> is answered by a renewable lease, and the scheduler's delays are
  bounded. \<open>storing_server\<close>: documents are kept by URL, and at most \<open>max_retries\<close> transient failures come in a
  row; \<open>versioned_server\<close> is the same for a server that keeps versions. \<open>x_set_path\<close>: setting the
  path of a URL to its own path with a slash has that path as its result. \<open>documented_runtime\<close>: tokio's
  \<open>block_on\<close> runs a future to its end and panics on a thread inside a runtime; it is the parameter
  \<open>runtime\<close> of a blocking client. The base64 engine used by transit decodes what it encodes.

  \<^bold>\<open>Not modelled.\<close> \<open>lib.rs\<close> and the module files declare and re-export. Logging and tracing
  have no effect on results. The array form in which serde also reads a struct, and JSON texts with
  duplicate keys, are outside the JSON model. Futures dropped at an await are modelled
  for the renewal lock and the lease watcher only. The bound on the traffic of an outage is for operations one after the
  other: a closed breaker admits any number of concurrent ones before the first failure. The tests, and
  the HTTP mock server that \<open>test_client\<close> connects to, are left out.
\<close>

end
